(* ===== verification/Prelude.thy ===== *)
theory Prelude
  imports Main "HOL-Library.Word"
begin

text \<open>
  Shared vocabulary of the development.

  Fixed-width C integers are words (\<open>uint8_t\<close> is \<open>u8\<close> and so on; a signed
  \<open>int16_t\<close> is kept as its 16-bit pattern \<open>u16\<close> and read with \<open>sint\<close> or widened
  with \<open>scast\<close>). The theory collects the generic facts about joining and splitting
  big-endian bytes, masks and lists that the component theories share, and two
  interfaces used by several components:
  \<^item> \<open>be_reader\<close>: a byte-addressed memory whose 16- and 32-bit reads are composed
    of byte reads, most significant byte first;
  \<^item> \<open>guarded_steps\<close>: a state type with a set of operations that all keep an
    invariant, so that the invariant holds after any run.
\<close>

unbundle bit_operations_syntax

type_synonym u8 = "8 word"
type_synonym u16 = "16 word"
type_synonym u32 = "32 word"
type_synonym u64 = "64 word"

named_theorems wordsplit "facts that take a joined big-endian word apart into its bytes"
named_theorems bounds "bounds on the numeric value of a word"

subsection \<open>Results that may be errors\<close>

text \<open>\<open>rbind r f\<close> continues with \<open>f\<close> on success and stops at the first error.\<close>

definition rbind :: "'e + 'a \<Rightarrow> ('a \<Rightarrow> 'e + 'b) \<Rightarrow> 'e + 'b" where
  "rbind r f = (case r of Inl e \<Rightarrow> Inl e | Inr x \<Rightarrow> f x)"

lemma rbind_simps [simp]: "rbind (Inl e) f = Inl e" "rbind (Inr x) f = f x"
  by (simp_all add: rbind_def)

lemma rbind_eq_Inr [simp]: "rbind r f = Inr y \<longleftrightarrow> (\<exists>x. r = Inr x \<and> f x = Inr y)"
  by (auto simp: rbind_def split: sum.splits)

subsection \<open>Masks and bit fields\<close>

lemma and_mask_eq_take_bit:
  fixes a :: "'a::len word"
  shows "a AND mask n = take_bit n a"
  by (simp add: take_bit_eq_mask)

lemma and_24bit: "a AND 0x00FFFFFF = take_bit 24 (a :: u32)"
proof -
  have "(0x00FFFFFF :: u32) = mask 24" by (simp add: mask_eq_exp_minus_1)
  then show ?thesis by (simp only: and_mask_eq_take_bit)
qed

lemma and_16bit: "a AND 0xFFFF = take_bit 16 (a :: u32)"
proof -
  have "(0xFFFF :: u32) = mask 16" by (simp add: mask_eq_exp_minus_1)
  then show ?thesis by (simp only: and_mask_eq_take_bit)
qed

lemma unat_below [bounds]: "unat (a :: 'a::len word) < 2 ^ LENGTH('a)"
  by (rule unsigned_less)

lemma unat_ucast_up:
  fixes a :: "'a::len word"
  assumes "LENGTH('a) \<le> LENGTH('b::len)"
  shows "unat (ucast a :: 'b word) = unat a"
proof -
  have "unat a < 2 ^ LENGTH('b)"
    using unat_below [of a] assms by (meson less_le_trans one_le_numeral power_increasing)
  then show ?thesis by (simp add: unsigned_ucast_eq take_bit_nat_eq_self)
qed

lemma unat_take_bit_less [bounds]: "unat (take_bit n (a :: 'a::len word)) < 2 ^ n"
proof -
  have "unat (take_bit n a) = take_bit n (unat a)" by transfer (simp add: take_bit_nat_eq min.commute)
  then show ?thesis by simp
qed

lemma unat_and_le [bounds]: "unat (a AND b) \<le> unat (b :: 'a::len word)"
  using word_and_le1 [of a b] by (simp add: word_le_nat_alt)

lemma unat_and_le2 [bounds]: "unat (a AND b) \<le> unat (a :: 'a::len word)"
  using word_and_le2 [of a b] by (simp add: word_le_nat_alt)

lemma no_wrap_succ:
  assumes "i < (n :: 'a::len word)"
  shows "unat (i + 1) = unat i + 1"
proof -
  have "unat i < unat n" using assms by (simp add: word_less_nat_alt)
  then have "unat i + 1 < 2 ^ LENGTH('a)" using unat_below [of n] by linarith
  then show ?thesis by (simp add: unat_word_ariths)
qed

lemma addr24_bound [bounds]: "unat (a AND 0x00FFFFFF :: u32) < 0x1000000"
  using unat_take_bit_less [of 24 a] by (simp add: and_24bit)

lemma addr24_idem [simp]: "(a AND 0x00FFFFFF) AND 0x00FFFFFF = (a AND 0x00FFFFFF :: u32)"
  by (simp add: and.assoc)

subsection \<open>Big-endian pairs of bytes and of words\<close>

definition be16 :: "u8 \<Rightarrow> u8 \<Rightarrow> u16" where
  "be16 hi lo = push_bit 8 (ucast hi) OR ucast lo"

definition be32 :: "u16 \<Rightarrow> u16 \<Rightarrow> u32" where
  "be32 hi lo = push_bit 16 (ucast hi) OR ucast lo"

lemma be16_high [wordsplit, simp]: "ucast (drop_bit 8 (be16 hi lo)) = hi"
  by (rule bit_word_eqI) (auto simp: be16_def bit_simps dest: bit_imp_le_length)

lemma be16_low [wordsplit, simp]: "ucast (be16 hi lo) = lo"
  by (rule bit_word_eqI) (auto simp: be16_def bit_simps dest: bit_imp_le_length)

lemma be32_high [wordsplit, simp]: "ucast (drop_bit 16 (be32 hi lo)) = hi"
  by (rule bit_word_eqI) (auto simp: be32_def bit_simps dest: bit_imp_le_length)

lemma be32_low [wordsplit, simp]: "ucast (be32 hi lo) = lo"
  by (rule bit_word_eqI) (auto simp: be32_def bit_simps dest: bit_imp_le_length)

lemma be16_split: "be16 (ucast (drop_bit 8 w)) (ucast w) = w"
  by (rule bit_word_eqI) (auto simp: be16_def bit_simps dest: bit_imp_le_length)

lemma be32_split: "be32 (ucast (drop_bit 16 w)) (ucast w) = w"
  by (rule bit_word_eqI) (auto simp: be32_def bit_simps dest: bit_imp_le_length)

lemma be16_inject [simp]: "be16 a b = be16 c d \<longleftrightarrow> a = c \<and> b = d"
  by (metis be16_high be16_low)

lemma be32_inject [simp]: "be32 a b = be32 c d \<longleftrightarrow> a = c \<and> b = d"
  by (metis be32_high be32_low)

lemma unat_be16: "unat (be16 hi lo) = 256 * unat hi + unat lo"
proof -
  have "be16 hi lo = push_bit 8 (ucast hi) + ucast lo"
    unfolding be16_def
    by (rule disjunctive_add [symmetric]) (auto simp: bit_simps dest: bit_imp_le_length)
  moreover have "unat (push_bit 8 (ucast hi :: u16)) = 256 * unat hi"
    using unat_below [of hi]
    by (simp add: push_bit_eq_mult unat_word_ariths unat_ucast_up mult.commute)
  moreover have "unat (ucast lo :: u16) = unat lo"
    by (simp add: unat_ucast_up)
  ultimately show ?thesis
    using unat_below [of hi] unat_below [of lo] by (simp add: unat_word_ariths)
qed

subsection \<open>Lists\<close>

lemma consecutive_slices:
  "take a xs @ take b (drop a xs) @ take c (drop (a + b) xs) @ take d (drop (a + b + c) xs) @
   take e (drop (a + b + c + d) xs) @ take f (drop (a + b + c + d + e) xs) =
   take (a + b + c + d + e + f) xs"
  by (simp add: take_add)

lemma list_update_eq_self: "i < length xs \<Longrightarrow> xs ! i = v \<Longrightarrow> xs[i := v] = xs"
  by (simp add: list_update_same_conv)

subsection \<open>Interface: big-endian reads over a byte store\<close>

text \<open>
  The recompiler's program ROM and the runtime's direct work-RAM readers both build
  their wide reads from byte reads at consecutive (wrapping) addresses. What follows
  from that alone is proved once here.
\<close>

locale be_reader =
  fixes rd8 :: "'s \<Rightarrow> u32 \<Rightarrow> u8"
    and rd16 :: "'s \<Rightarrow> u32 \<Rightarrow> u16"
    and rd32 :: "'s \<Rightarrow> u32 \<Rightarrow> u32"
  assumes rd16_bytes: "rd16 s a = be16 (rd8 s a) (rd8 s (a + 1))"
    and rd32_words: "rd32 s a = be32 (rd16 s a) (rd16 s (a + 2))"
begin

lemma rd32_bytes:
  "rd32 s a = be32 (be16 (rd8 s a) (rd8 s (a + 1))) (be16 (rd8 s (a + 2)) (rd8 s (a + 3)))"
  by (simp add: rd32_words rd16_bytes add.assoc)

lemma rd16_high: "ucast (drop_bit 8 (rd16 s a)) = rd8 s a"
  by (simp add: rd16_bytes)

lemma rd16_low: "ucast (rd16 s a) = rd8 s (a + 1)"
  by (simp add: rd16_bytes)

lemma rd16_cong:
  assumes "rd8 s a = rd8 t a" and "rd8 s (a + 1) = rd8 t (a + 1)"
  shows "rd16 s a = rd16 t a"
  using assms by (simp add: rd16_bytes)

lemma rd32_cong:
  assumes "\<And>k. k < 4 \<Longrightarrow> rd8 s (a + of_nat k) = rd8 t (a + of_nat k)"
  shows "rd32 s a = rd32 t a"
  using assms [of 0] assms [of 1] assms [of 2] assms [of 3] by (simp add: rd32_bytes)

lemma rd16_value: "unat (rd16 s a) = 256 * unat (rd8 s a) + unat (rd8 s (a + 1))"
  by (simp add: rd16_bytes unat_be16)

end

subsection \<open>Interface: operations that keep an invariant\<close>

text \<open>
  \<open>step e s\<close> is one public operation \<open>e\<close> of a component applied to its state.
  A component that shows each operation keeps its invariant gets the statement for
  every finite sequence of operations.
\<close>

locale guarded_steps =
  fixes inv :: "'s \<Rightarrow> bool"
    and step :: "'e \<Rightarrow> 's \<Rightarrow> 's"
  assumes step_inv: "inv s \<Longrightarrow> inv (step e s)"
begin

lemma run_inv: "inv s \<Longrightarrow> inv (fold step es s)"
  by (induction es arbitrary: s) (auto intro: step_inv)

lemma run_prefix_inv: "inv s \<Longrightarrow> inv (fold step (take n es) s)"
  by (rule run_inv)

end

end
