(* ===== verification/ProgramRom.thy ===== *)
theory ProgramRom
  imports Prelude
begin

text \<open>
  The program-ROM image (\<open>recompiler/src/p_rom.h\<close>, \<open>p_rom.c\<close>): loading a raw P-ROM
  pair or a MiSTer \<open>.neo\<close> container, the fixed/banked address map, and the big-endian
  readers every other part of the recompiler uses.

  Files are a parameter \<open>fs\<close>: \<open>fs path\<close> is the content of the file, or \<open>None\<close> when
  opening, seeking or reading it fails. Memory allocation is assumed to succeed. A
  pointer argument \<open>rom\<close> or \<open>image\<close> is assumed to be non-null. \<open>memcpy\<close> past the end of
  a buffer is the error value \<open>BufferOverflow\<close>.
\<close>

subsection \<open>Data\<close>

definition NG_PROGRAM_ROM_MAX_BANKS :: u32 where
  "NG_PROGRAM_ROM_MAX_BANKS = 256"

record ng_program_rom =
  rom_data :: "u8 list"
  rom_size :: u32
  fixed_base :: u32
  fixed_size :: u32
  bank_window_base :: u32
  bank_window_size :: u32
  active_bank :: u32
  bank_count :: u32
  bank_offsets :: "u32 list"
  bank_sizes :: "u32 list"
  bank_configured :: "u8 list"
  address_map_enabled :: bool

record ng_neo_rom_region =
  region_data :: "u8 list"
  region_size :: u32

record ng_neo_rom_image =
  image_p :: ng_neo_rom_region
  image_s :: ng_neo_rom_region
  image_m :: ng_neo_rom_region
  image_v1 :: ng_neo_rom_region
  image_v2 :: ng_neo_rom_region
  image_c :: ng_neo_rom_region

record ng_neo_header =
  p_size :: u32
  s_size :: u32
  m_size :: u32
  v1_size :: u32
  v2_size :: u32
  c_size :: u32

datatype load_error = FileError | NotNeoImage | BufferOverflow

type_synonym path = string
type_synonym file_system = "path \<Rightarrow> u8 list option"

definition NEO_HEADER_SIZE :: u32 where
  "NEO_HEADER_SIZE = 0x1000"

subsection \<open>Loading\<close>

text \<open>The file size is a \<open>long\<close>; it is stored truncated to 32 bits.\<close>

definition read_whole_file :: "file_system \<Rightarrow> path \<Rightarrow> (u8 list \<times> u32) option" where
  "read_whole_file fs path =
     (case fs path of
        None \<Rightarrow> None
      | Some bytes \<Rightarrow> Some (bytes, of_nat (length bytes)))"

definition read_le32 :: "u8 list \<Rightarrow> u32" where
  "read_le32 data =
     ucast (data ! 0) OR
     push_bit 8 (ucast (data ! 1)) OR
     push_bit 16 (ucast (data ! 2)) OR
     push_bit 24 (ucast (data ! 3))"

text \<open>
  The loop of \<open>byteswap_words\<close>. Its 32-bit counter starts at 0 and stays even and below
  \<open>size\<close>, so neither \<open>i + 1\<close> nor \<open>i + 2\<close> wraps and the counter is kept as a natural number.
\<close>

function byteswap_loop :: "nat \<Rightarrow> nat \<Rightarrow> u8 list \<Rightarrow> u8 list" where
  "byteswap_loop i n data =
     (if i + 1 < n
      then byteswap_loop (i + 2) n (data[i := data ! (i + 1), i + 1 := data ! i])
      else data)"
  by pat_completeness auto
termination
  by (relation "measure (\<lambda>(i, n, data). n - i)") auto

declare byteswap_loop.simps [simp del]

definition byteswap_words :: "u8 list \<Rightarrow> u32 \<Rightarrow> u8 list" where
  "byteswap_words data sz = byteswap_loop 0 (unat sz) data"

text \<open>\<open>parse_neo_header\<close>: magic, six little-endian sizes, and the 64-bit size check.\<close>

definition parse_neo_header :: "u8 list \<Rightarrow> u32 \<Rightarrow> ng_neo_header option" where
  "parse_neo_header file_data file_size =
     (if file_size < NEO_HEADER_SIZE \<or>
         file_data ! 0 \<noteq> 0x4E \<or> file_data ! 1 \<noteq> 0x45 \<or>
         file_data ! 2 \<noteq> 0x4F \<or> file_data ! 3 \<noteq> 1
      then None
      else
        let h = \<lparr>p_size = read_le32 (drop 0x04 file_data),
                 s_size = read_le32 (drop 0x08 file_data),
                 m_size = read_le32 (drop 0x0C file_data),
                 v1_size = read_le32 (drop 0x10 file_data),
                 v2_size = read_le32 (drop 0x14 file_data),
                 c_size = read_le32 (drop 0x18 file_data)\<rparr>;
            expected_size =
              (ucast NEO_HEADER_SIZE :: u64) + ucast (p_size h) + ucast (s_size h) +
              ucast (m_size h) + ucast (v1_size h) + ucast (v2_size h) + ucast (c_size h)
        in if p_size h = 0 \<or> expected_size \<noteq> ucast file_size then None else Some h)"

text \<open>\<open>copy_region\<close> reads \<open>sz\<close> bytes at the cursor; reading past the file is an overflow.\<close>

definition copy_region :: "u8 list \<Rightarrow> u32 \<Rightarrow> load_error + ng_neo_rom_region" where
  "copy_region data sz =
     (if sz = 0 then Inr \<lparr>region_data = [], region_size = 0\<rparr>
      else if length data < unat sz then Inl BufferOverflow
      else Inr \<lparr>region_data = take (unat sz) data, region_size = sz\<rparr>)"

definition rom_zero :: ng_program_rom where
  "rom_zero =
     \<lparr>rom_data = [], rom_size = 0, fixed_base = 0, fixed_size = 0,
      bank_window_base = 0, bank_window_size = 0, active_bank = 0, bank_count = 0,
      bank_offsets = replicate 256 0, bank_sizes = replicate 256 0,
      bank_configured = replicate 256 0, address_map_enabled = False\<rparr>"

text \<open>
  \<open>ng_program_rom_load\<close>: the total is a 32-bit sum. When it wraps, the buffer is
  smaller than the two copies that follow.
\<close>

definition ng_program_rom_load ::
  "file_system \<Rightarrow> path \<Rightarrow> path option \<Rightarrow> load_error + ng_program_rom" where
  "ng_program_rom_load fs p1_path p2_path =
     (case read_whole_file fs p1_path of
        None \<Rightarrow> Inl FileError
      | Some (p1, p1_size) \<Rightarrow>
          (case (case p2_path of None \<Rightarrow> Some ([], 0) | Some p \<Rightarrow> read_whole_file fs p) of
             None \<Rightarrow> Inl FileError
           | Some (p2, p2_size) \<Rightarrow>
               let total = p1_size + p2_size in
               if unat total < unat p1_size + unat p2_size then Inl BufferOverflow
               else Inr (rom_zero\<lparr>rom_data := take (unat p1_size) p1 @ take (unat p2_size) p2,
                                  rom_size := total\<rparr>)))"

text \<open>
  \<open>ng_neo_rom_image_load\<close>: six consecutive regions, of which P is brought into 68000
  byte order.
\<close>

definition ng_neo_rom_image_load :: "file_system \<Rightarrow> path \<Rightarrow> load_error + ng_neo_rom_image" where
  "ng_neo_rom_image_load fs neo_path =
     (case read_whole_file fs neo_path of
        None \<Rightarrow> Inl FileError
      | Some (file_data, file_size) \<Rightarrow>
          (case parse_neo_header file_data file_size of
             None \<Rightarrow> Inl NotNeoImage
           | Some h \<Rightarrow>
               let c0 = drop (unat NEO_HEADER_SIZE) file_data;
                   c1 = drop (unat (p_size h)) c0;
                   c2 = drop (unat (s_size h)) c1;
                   c3 = drop (unat (m_size h)) c2;
                   c4 = drop (unat (v1_size h)) c3;
                   c5 = drop (unat (v2_size h)) c4
               in rbind (copy_region c0 (p_size h)) (\<lambda>p.
                  rbind (copy_region c1 (s_size h)) (\<lambda>s.
                  rbind (copy_region c2 (m_size h)) (\<lambda>m.
                  rbind (copy_region c3 (v1_size h)) (\<lambda>v1.
                  rbind (copy_region c4 (v2_size h)) (\<lambda>v2.
                  rbind (copy_region c5 (c_size h)) (\<lambda>c.
                  Inr \<lparr>image_p = p\<lparr>region_data :=
                                    byteswap_words (region_data p) (region_size p)\<rparr>,
                       image_s = s, image_m = m, image_v1 = v1, image_v2 = v2,
                       image_c = c\<rparr>))))))))"

definition ng_program_rom_load_neo :: "file_system \<Rightarrow> path \<Rightarrow> load_error + ng_program_rom" where
  "ng_program_rom_load_neo fs neo_path =
     (case read_whole_file fs neo_path of
        None \<Rightarrow> Inl FileError
      | Some (file_data, file_size) \<Rightarrow>
          (case parse_neo_header file_data file_size of
             None \<Rightarrow> Inl NotNeoImage
           | Some h \<Rightarrow>
               let src = drop (unat NEO_HEADER_SIZE) file_data in
               if length src < unat (p_size h) then Inl BufferOverflow
               else Inr (rom_zero\<lparr>rom_data := byteswap_words (take (unat (p_size h)) src) (p_size h),
                                  rom_size := p_size h\<rparr>)))"

definition region_zero :: ng_neo_rom_region where
  "region_zero = \<lparr>region_data = [], region_size = 0\<rparr>"

definition ng_neo_rom_image_free :: "ng_neo_rom_image \<Rightarrow> ng_neo_rom_image" where
  "ng_neo_rom_image_free img =
     \<lparr>image_p = region_zero, image_s = region_zero, image_m = region_zero,
      image_v1 = region_zero, image_v2 = region_zero, image_c = region_zero\<rparr>"

definition ng_program_rom_free :: "ng_program_rom \<Rightarrow> ng_program_rom" where
  "ng_program_rom_free rom =
     rom\<lparr>rom_data := [], rom_size := 0, fixed_base := 0, fixed_size := 0,
         bank_window_base := 0, bank_window_size := 0, active_bank := 0, bank_count := 0,
         bank_offsets := replicate 256 0, bank_sizes := replicate 256 0,
         bank_configured := replicate 256 0, address_map_enabled := False\<rparr>"

subsection \<open>The address map\<close>

definition ng_program_rom_derived_bank_count :: "ng_program_rom \<Rightarrow> u32 \<Rightarrow> u32 \<Rightarrow> u32" where
  "ng_program_rom_derived_bank_count rom fixed_sz bank_window_sz =
     (if bank_window_sz = 0 \<or> rom_size rom \<le> fixed_sz then 0
      else let bank_bytes = rom_size rom - fixed_sz
           in (bank_bytes + bank_window_sz - 1) div bank_window_sz)"

definition ng_program_rom_clear_banks :: "ng_program_rom \<Rightarrow> ng_program_rom" where
  "ng_program_rom_clear_banks rom =
     rom\<lparr>bank_count := 0, bank_offsets := replicate 256 0, bank_sizes := replicate 256 0,
         bank_configured := replicate 256 0\<rparr>"

definition min_u32 :: "u32 \<Rightarrow> u32 \<Rightarrow> u32" where
  "min_u32 a b = (if a < b then a else b)"

function bank_table_loop :: "u32 \<Rightarrow> u32 \<Rightarrow> ng_program_rom \<Rightarrow> ng_program_rom" where
  "bank_table_loop i derived_count rom =
     (if i < derived_count then
        let offset64 = (ucast (fixed_size rom) :: u64) + ucast i * ucast (bank_window_size rom)
        in if ucast (rom_size rom) \<le> offset64 then rom
           else let offset = ucast offset64 :: u32;
                    remaining = rom_size rom - offset
                in bank_table_loop (i + 1) derived_count
                     (rom\<lparr>bank_offsets := (bank_offsets rom)[unat i := offset],
                          bank_sizes := (bank_sizes rom)
                            [unat i := min_u32 (bank_window_size rom) remaining],
                          bank_configured := (bank_configured rom)[unat i := 1]\<rparr>)
      else rom)"
  by pat_completeness auto
termination
  by (relation "measure (\<lambda>(i, n, rom). unat n - unat i)") (auto simp: no_wrap_succ word_less_nat_alt)

declare bank_table_loop.simps [simp del]

definition ng_program_rom_set_address_map ::
  "ng_program_rom \<Rightarrow> u32 \<Rightarrow> u32 \<Rightarrow> u32 \<Rightarrow> u32 \<Rightarrow> ng_program_rom" where
  "ng_program_rom_set_address_map rom fb fs wb ws =
     (let rom1 = ng_program_rom_clear_banks
                   (rom\<lparr>fixed_base := fb, fixed_size := fs, bank_window_base := wb,
                        bank_window_size := ws, active_bank := 0\<rparr>);
          dc = ng_program_rom_derived_bank_count rom1 fs ws;
          derived_count = (if NG_PROGRAM_ROM_MAX_BANKS < dc then NG_PROGRAM_ROM_MAX_BANKS else dc);
          rom2 = bank_table_loop 0 derived_count (rom1\<lparr>bank_count := derived_count\<rparr>)
      in rom2\<lparr>address_map_enabled := (fs \<noteq> 0 \<or> ws \<noteq> 0)\<rparr>)"

definition ng_program_rom_configure_bank ::
  "ng_program_rom \<Rightarrow> u32 \<Rightarrow> u32 \<Rightarrow> u32 \<Rightarrow> ng_program_rom option" where
  "ng_program_rom_configure_bank rom bank_id physical_offset sz =
     (if \<not> address_map_enabled rom \<or>
         bank_window_size rom = 0 \<or>
         NG_PROGRAM_ROM_MAX_BANKS \<le> bank_id \<or>
         sz = 0 \<or>
         bank_window_size rom < sz \<or>
         rom_size rom \<le> physical_offset \<or>
         (ucast (rom_size rom) :: u64) < ucast physical_offset + ucast sz
      then None
      else Some (rom\<lparr>bank_offsets := (bank_offsets rom)[unat bank_id := physical_offset],
                     bank_sizes := (bank_sizes rom)[unat bank_id := sz],
                     bank_configured := (bank_configured rom)[unat bank_id := 1],
                     bank_count := (if bank_count rom \<le> bank_id then bank_id + 1
                                    else bank_count rom)\<rparr>))"

definition ng_program_rom_select_bank :: "ng_program_rom \<Rightarrow> u32 \<Rightarrow> ng_program_rom" where
  "ng_program_rom_select_bank rom bank_id = rom\<lparr>active_bank := bank_id\<rparr>"

definition ng_program_rom_bank_count :: "ng_program_rom \<Rightarrow> u32" where
  "ng_program_rom_bank_count rom =
     (if \<not> address_map_enabled rom \<or> bank_window_size rom = 0 then 0 else bank_count rom)"

definition ng_program_rom_bank_is_configured :: "ng_program_rom \<Rightarrow> u32 \<Rightarrow> bool" where
  "ng_program_rom_bank_is_configured rom bank_id \<longleftrightarrow>
     address_map_enabled rom \<and>
     bank_window_size rom \<noteq> 0 \<and>
     bank_id < bank_count rom \<and>
     bank_id < NG_PROGRAM_ROM_MAX_BANKS \<and>
     bank_configured rom ! unat bank_id \<noteq> 0"

definition ng_program_rom_addr_is_banked :: "ng_program_rom \<Rightarrow> u32 \<Rightarrow> bool" where
  "ng_program_rom_addr_is_banked rom addr \<longleftrightarrow>
     (if \<not> address_map_enabled rom \<or> bank_window_size rom = 0 \<or> addr < bank_window_base rom
      then False
      else addr - bank_window_base rom < bank_window_size rom)"

text \<open>
  \<open>ng_program_rom_translate_addr\<close>: the fixed window is tried first, then the bank
  window with the active bank.
\<close>

definition translate_fixed :: "ng_program_rom \<Rightarrow> u32 \<Rightarrow> u32 option" where
  "translate_fixed rom addr =
     (if fixed_size rom \<noteq> 0 \<and> fixed_base rom \<le> addr then
        let rel = addr - fixed_base rom
        in if rel < fixed_size rom \<and> rel < rom_size rom then Some rel else None
      else None)"

definition translate_banked :: "ng_program_rom \<Rightarrow> u32 \<Rightarrow> u32 option" where
  "translate_banked rom addr =
     (if bank_window_size rom \<noteq> 0 \<and> bank_window_base rom \<le> addr then
        let rel = addr - bank_window_base rom
        in if rel < bank_window_size rom then
             if bank_count rom \<le> active_bank rom \<or>
                NG_PROGRAM_ROM_MAX_BANKS \<le> active_bank rom \<or>
                bank_configured rom ! unat (active_bank rom) = 0 \<or>
                bank_sizes rom ! unat (active_bank rom) \<le> rel
             then None
             else let offset64 = (ucast (bank_offsets rom ! unat (active_bank rom)) :: u64) + ucast rel
                  in if offset64 < ucast (rom_size rom) then Some (ucast offset64) else None
           else None
      else None)"

definition ng_program_rom_translate_addr :: "ng_program_rom \<Rightarrow> u32 \<Rightarrow> u32 option" where
  "ng_program_rom_translate_addr rom addr =
     (if \<not> address_map_enabled rom then
        if rom_size rom \<le> addr then None else Some addr
      else case translate_fixed rom addr of
             Some offset \<Rightarrow> Some offset
           | None \<Rightarrow> translate_banked rom addr)"

subsection \<open>Readers\<close>

definition ng_program_rom_read8 :: "ng_program_rom \<Rightarrow> u32 \<Rightarrow> u8" where
  "ng_program_rom_read8 rom addr =
     (case ng_program_rom_translate_addr rom addr of
        Some offset \<Rightarrow> rom_data rom ! unat offset
      | None \<Rightarrow> 0xFF)"

definition ng_program_rom_read16 :: "ng_program_rom \<Rightarrow> u32 \<Rightarrow> u16" where
  "ng_program_rom_read16 rom addr =
     (let hi = ucast (ng_program_rom_read8 rom addr) :: u16;
          lo = ucast (ng_program_rom_read8 rom (addr + 1)) :: u16
      in push_bit 8 hi OR lo)"

definition ng_program_rom_read32 :: "ng_program_rom \<Rightarrow> u32 \<Rightarrow> u32" where
  "ng_program_rom_read32 rom addr =
     (let hi = ucast (ng_program_rom_read16 rom addr) :: u32;
          lo = ucast (ng_program_rom_read16 rom (addr + 2)) :: u32
      in push_bit 16 hi OR lo)"

definition ng_program_rom_initial_ssp :: "ng_program_rom \<Rightarrow> u32" where
  "ng_program_rom_initial_ssp rom = ng_program_rom_read32 rom 0"

definition ng_program_rom_initial_pc :: "ng_program_rom \<Rightarrow> u32" where
  "ng_program_rom_initial_pc rom = ng_program_rom_read32 rom 4"

definition ng_program_rom_addr_is_mapped :: "ng_program_rom \<Rightarrow> u32 \<Rightarrow> bool" where
  "ng_program_rom_addr_is_mapped rom addr \<longleftrightarrow> ng_program_rom_translate_addr rom addr \<noteq> None"

definition ng_program_rom_initial_pc_is_mapped :: "ng_program_rom \<Rightarrow> bool" where
  "ng_program_rom_initial_pc_is_mapped rom \<longleftrightarrow>
     ng_program_rom_addr_is_mapped rom (ng_program_rom_initial_pc rom)"

definition ng_program_rom_has_cart_header :: "ng_program_rom \<Rightarrow> bool" where
  "ng_program_rom_has_cart_header rom \<longleftrightarrow>
     ng_program_rom_read8 rom 0x100 = 0x4E \<and>
     ng_program_rom_read8 rom 0x101 = 0x45 \<and>
     ng_program_rom_read8 rom 0x102 = 0x4F \<and>
     ng_program_rom_read8 rom 0x103 = 0x2D \<and>
     ng_program_rom_read8 rom 0x104 = 0x47 \<and>
     ng_program_rom_read8 rom 0x105 = 0x45 \<and>
     ng_program_rom_read8 rom 0x106 = 0x4F \<and>
     ng_program_rom_read8 rom 0x107 = 0"

definition ng_program_rom_cart_entry :: "ng_program_rom \<Rightarrow> u32 option" where
  "ng_program_rom_cart_entry rom =
     (if \<not> ng_program_rom_has_cart_header rom then None
      else if ng_program_rom_read16 rom 0x122 \<noteq> 0x4EF9 then None
      else Some (ng_program_rom_read32 rom 0x124))"

end
