(* ===== verification/M68kInstr.thy ===== *)
theory M68kInstr
  imports Prelude
begin

text \<open>
  The decoded-instruction data of \<open>recompiler/src/m68k_decode.h\<close>: mnemonics, legacy operand
  forms, effective-address modes, and the two structures every later pass reads. The
  signed \<open>int16_t displacement\<close> fields hold their 16-bit pattern.
\<close>

datatype (plugins only: size) ng_m68k_mnemonic =
    NG_M68K_INVALID | NG_M68K_UNKNOWN | NG_M68K_NOP | NG_M68K_ILLEGAL
  | NG_M68K_RESET | NG_M68K_STOP | NG_M68K_RTS | NG_M68K_RTE
  | NG_M68K_RTR | NG_M68K_TRAP | NG_M68K_TRAPV | NG_M68K_JMP
  | NG_M68K_JSR | NG_M68K_LINK | NG_M68K_UNLK | NG_M68K_BRA
  | NG_M68K_BSR | NG_M68K_BCC | NG_M68K_SCC | NG_M68K_DBCC
  | NG_M68K_CHK | NG_M68K_LEA | NG_M68K_MOVEA | NG_M68K_MOVEQ
  | NG_M68K_MOVE | NG_M68K_MOVEM | NG_M68K_MOVEP | NG_M68K_MOVE_SR
  | NG_M68K_MOVE_CCR | NG_M68K_MOVE_USP | NG_M68K_ADD | NG_M68K_ADDA
  | NG_M68K_ADDQ | NG_M68K_ADDX | NG_M68K_ABCD | NG_M68K_SUB
  | NG_M68K_SUBA | NG_M68K_SUBQ | NG_M68K_SUBX | NG_M68K_SBCD
  | NG_M68K_CMP | NG_M68K_CMPA | NG_M68K_CMPM | NG_M68K_OR
  | NG_M68K_AND | NG_M68K_EOR | NG_M68K_MULU | NG_M68K_MULS
  | NG_M68K_DIVU | NG_M68K_DIVS | NG_M68K_EXG | NG_M68K_CLR
  | NG_M68K_NEG | NG_M68K_NEGX | NG_M68K_NBCD | NG_M68K_NOT
  | NG_M68K_EXT | NG_M68K_SWAP | NG_M68K_ASL | NG_M68K_ASR
  | NG_M68K_LSL | NG_M68K_LSR | NG_M68K_ROXL | NG_M68K_ROXR
  | NG_M68K_ROL | NG_M68K_ROR | NG_M68K_PEA | NG_M68K_TST
  | NG_M68K_TAS | NG_M68K_ADDI | NG_M68K_SUBI | NG_M68K_CMPI
  | NG_M68K_ORI | NG_M68K_ANDI | NG_M68K_EORI | NG_M68K_BTST
  | NG_M68K_BCHG | NG_M68K_BCLR | NG_M68K_BSET | NG_M68K_ORI_TO_CCR
  | NG_M68K_ORI_TO_SR | NG_M68K_ANDI_TO_CCR | NG_M68K_ANDI_TO_SR | NG_M68K_EORI_TO_CCR
  | NG_M68K_EORI_TO_SR

datatype ng_m68k_operand_form =
    NG_M68K_FORM_NONE | NG_M68K_FORM_AREG_TO_ABS | NG_M68K_FORM_IMM_TO_ABS | NG_M68K_FORM_IMM_TO_DREG
  | NG_M68K_FORM_ABS_TO_DREG | NG_M68K_FORM_DREG_TO_ABS | NG_M68K_FORM_DREG_TO_DREG | NG_M68K_FORM_DREG
  | NG_M68K_FORM_AREG_DISP | NG_M68K_FORM_PC_INDEX_TO_AREG | NG_M68K_FORM_AREG_INDIRECT | NG_M68K_FORM_PC_RELATIVE
  | NG_M68K_FORM_ABS

datatype ng_m68k_ea_mode =
    NG_M68K_EA_NONE | NG_M68K_EA_DREG | NG_M68K_EA_AREG | NG_M68K_EA_AIND
  | NG_M68K_EA_APOST | NG_M68K_EA_APRE | NG_M68K_EA_ADISP | NG_M68K_EA_AINDEX
  | NG_M68K_EA_ABS_W | NG_M68K_EA_ABS_L | NG_M68K_EA_PC_DISP | NG_M68K_EA_PC_INDEX
  | NG_M68K_EA_IMM

record ng_m68k_ea =
  ea_mode :: ng_m68k_ea_mode
  ea_reg :: u8
  ea_index_reg :: u8
  ea_index_is_addr :: u8
  ea_index_is_long :: u8
  ea_displacement :: u16
  ea_absolute_addr :: u32
  ea_immediate :: u32

record ng_m68k_instr =
  i_addr :: u32
  i_opcode :: u16
  i_mnemonic :: ng_m68k_mnemonic
  i_byte_length :: u8
  i_reg :: u8
  i_src_reg :: u8
  i_size :: u8
  i_condition :: u8
  i_form :: ng_m68k_operand_form
  i_target :: u32
  i_immediate :: u32
  i_absolute_addr :: u32
  i_displacement :: u16
  i_src :: ng_m68k_ea
  i_dst :: ng_m68k_ea

text \<open>The all-zero structures \<open>memset\<close> leaves: the first enumerator has value 0.\<close>

definition ea_zero :: ng_m68k_ea where
  "ea_zero = \<lparr>ea_mode = NG_M68K_EA_NONE, ea_reg = 0, ea_index_reg = 0, ea_index_is_addr = 0,
      ea_index_is_long = 0, ea_displacement = 0, ea_absolute_addr = 0, ea_immediate = 0\<rparr>"

definition instr_zero :: ng_m68k_instr where
  "instr_zero = \<lparr>i_addr = 0, i_opcode = 0, i_mnemonic = NG_M68K_INVALID, i_byte_length = 0,
      i_reg = 0, i_src_reg = 0, i_size = 0, i_condition = 0, i_form = NG_M68K_FORM_NONE,
      i_target = 0, i_immediate = 0, i_absolute_addr = 0, i_displacement = 0,
      i_src = ea_zero, i_dst = ea_zero\<rparr>"

definition NG_M68K_SIZE_BYTE :: u8 where "NG_M68K_SIZE_BYTE = 1"

definition NG_M68K_SIZE_WORD :: u8 where "NG_M68K_SIZE_WORD = 2"

definition NG_M68K_SIZE_LONG :: u8 where "NG_M68K_SIZE_LONG = 4"

lemmas size_consts = NG_M68K_SIZE_BYTE_def NG_M68K_SIZE_WORD_def NG_M68K_SIZE_LONG_def

end
