(* ===== verification/M68kDecode.thy ===== *)
theory M68kDecode
  imports ProgramRom M68kInstr
begin

text \<open>
  The 68000 decoder (\<open>recompiler/src/m68k_decode.c\<close>, \<open>ng_m68k_decode\<close> and its helpers).

  A helper \<open>decode_x rom addr op out\<close> of the source either returns 0 and leaves \<open>*out\<close>
  alone (\<open>None\<close>) or returns 1 with \<open>*out\<close> filled in (\<open>Some\<close>). The body of
  \<open>ng_m68k_decode\<close> is a sequence of such helpers and of \<open>if\<close> blocks, each of which ends
  in \<open>return finish_decode(...)\<close> or falls through to the next; a block is a stage, a
  function from the instruction under construction to \<open>Matched\<close> (the block returned) or
  \<open>Fallthrough\<close> (control reached the next block, possibly with fields already written).
  Signed sums such as \<open>(int32_t)ext_addr + (int32_t)disp\<close> are computed modulo \<open>2 ^ 32\<close>.
\<close>

subsection \<open>Opcode fields\<close>

definition op_top :: "u16 \<Rightarrow> u8" where "op_top op = ucast (drop_bit 12 op AND 0xF)"

definition op_reg9 :: "u16 \<Rightarrow> u8" where "op_reg9 op = ucast (drop_bit 9 op AND 7)"

definition op_opmode :: "u16 \<Rightarrow> u8" where "op_opmode op = ucast (drop_bit 6 op AND 7)"

definition op_size2 :: "u16 \<Rightarrow> u8" where "op_size2 op = ucast (drop_bit 6 op AND 3)"

definition op_mode :: "u16 \<Rightarrow> u8" where "op_mode op = ucast (drop_bit 3 op AND 7)"

definition op_reg :: "u16 \<Rightarrow> u8" where "op_reg op = ucast (op AND 7)"

subsection \<open>Sign extension and branch targets\<close>

definition sign8 :: "u8 \<Rightarrow> u16" where "sign8 v = scast v"

definition sign16 :: "u16 \<Rightarrow> u16" where "sign16 v = v"

definition sign_extend_abs_w :: "u16 \<Rightarrow> u32" where "sign_extend_abs_w v = scast v"

definition populate_branch_target ::
  "ng_program_rom \<Rightarrow> u32 \<Rightarrow> u16 \<Rightarrow> ng_m68k_instr \<Rightarrow> ng_m68k_instr" where
  "populate_branch_target rom addr opcode out =
     (let disp8 = ucast (opcode AND 0xFF) :: u8;
          out1 = (if disp8 = 0
                  then out\<lparr>i_byte_length := 4,
                           i_displacement := sign16 (ng_program_rom_read16 rom (addr + 2))\<rparr>
                  else out\<lparr>i_byte_length := 2, i_displacement := sign8 disp8\<rparr>)
      in out1\<lparr>i_target := ucast ((ucast addr :: u64) + 2 + scast (i_displacement out1))\<rparr>)"

subsection \<open>Effective addresses\<close>

text \<open>The result is the number of extension bytes and the decoded operand.\<close>

definition decode_index_ext :: "u16 \<Rightarrow> ng_m68k_ea \<Rightarrow> ng_m68k_ea" where
  "decode_index_ext ext out =
     out\<lparr>ea_index_is_addr := ucast (drop_bit 15 ext AND 1),
         ea_index_reg := ucast (drop_bit 12 ext AND 7),
         ea_index_is_long := ucast (drop_bit 11 ext AND 1),
         ea_displacement := sign8 (ucast (ext AND 0xFF))\<rparr>"

definition decode_ea ::
  "ng_program_rom \<Rightarrow> u32 \<Rightarrow> u8 \<Rightarrow> u8 \<Rightarrow> u8 \<Rightarrow> u32 \<times> ng_m68k_ea" where
  "decode_ea rom ext_addr mode reg sz =
     (let out = ea_zero\<lparr>ea_reg := reg\<rparr>;
          w = ng_program_rom_read16 rom ext_addr
      in if mode = 0 then (0, out\<lparr>ea_mode := NG_M68K_EA_DREG\<rparr>)
         else if mode = 1 then (0, out\<lparr>ea_mode := NG_M68K_EA_AREG\<rparr>)
         else if mode = 2 then (0, out\<lparr>ea_mode := NG_M68K_EA_AIND\<rparr>)
         else if mode = 3 then (0, out\<lparr>ea_mode := NG_M68K_EA_APOST\<rparr>)
         else if mode = 4 then (0, out\<lparr>ea_mode := NG_M68K_EA_APRE\<rparr>)
         else if mode = 5 then (2, out\<lparr>ea_mode := NG_M68K_EA_ADISP, ea_displacement := sign16 w\<rparr>)
         else if mode = 6 then (2, decode_index_ext w (out\<lparr>ea_mode := NG_M68K_EA_AINDEX\<rparr>))
         else if mode = 7 then
           if reg = 0 then
             (2, out\<lparr>ea_mode := NG_M68K_EA_ABS_W, ea_absolute_addr := sign_extend_abs_w w\<rparr>)
           else if reg = 1 then
             (4, out\<lparr>ea_mode := NG_M68K_EA_ABS_L,
                     ea_absolute_addr := ng_program_rom_read32 rom ext_addr\<rparr>)
           else if reg = 2 then
             (2, out\<lparr>ea_mode := NG_M68K_EA_PC_DISP, ea_displacement := sign16 w,
                     ea_absolute_addr := ext_addr + scast (sign16 w)\<rparr>)
           else if reg = 3 then
             (let out1 = decode_index_ext w (out\<lparr>ea_mode := NG_M68K_EA_PC_INDEX\<rparr>)
              in (2, out1\<lparr>ea_absolute_addr := ext_addr + scast (ea_displacement out1)\<rparr>))
           else if reg = 4 then
             if sz = NG_M68K_SIZE_LONG then
               (4, out\<lparr>ea_mode := NG_M68K_EA_IMM, ea_immediate := ng_program_rom_read32 rom ext_addr\<rparr>)
             else
               (2, out\<lparr>ea_mode := NG_M68K_EA_IMM,
                       ea_immediate := (if sz = NG_M68K_SIZE_BYTE then ucast w AND 0xFF else ucast w)\<rparr>)
           else (0, out\<lparr>ea_mode := NG_M68K_EA_NONE\<rparr>)
         else (0, out\<lparr>ea_mode := NG_M68K_EA_NONE\<rparr>))"

definition is_data_alterable_ea :: "u8 \<Rightarrow> u8 \<Rightarrow> bool" where
  "is_data_alterable_ea mode reg \<longleftrightarrow> mode \<noteq> 1 \<and> \<not> (mode = 7 \<and> reg \<ge> 2)"

definition is_data_ea :: "u8 \<Rightarrow> u8 \<Rightarrow> bool" where
  "is_data_ea mode reg \<longleftrightarrow> mode \<noteq> 1 \<and> \<not> (mode = 7 \<and> reg > 4)"

definition is_memory_alterable_ea :: "u8 \<Rightarrow> u8 \<Rightarrow> bool" where
  "is_memory_alterable_ea mode reg \<longleftrightarrow> mode \<ge> 2 \<and> \<not> (mode = 7 \<and> reg \<ge> 2)"

definition is_control_ea :: "u8 \<Rightarrow> u8 \<Rightarrow> bool" where
  "is_control_ea mode reg \<longleftrightarrow> mode = 2 \<or> mode = 5 \<or> mode = 6 \<or> (mode = 7 \<and> reg \<le> 3)"

definition is_movem_reg_to_mem_ea :: "u8 \<Rightarrow> u8 \<Rightarrow> bool" where
  "is_movem_reg_to_mem_ea mode reg \<longleftrightarrow>
     mode = 2 \<or> mode = 4 \<or> mode = 5 \<or> mode = 6 \<or> (mode = 7 \<and> reg \<le> 1)"

definition is_movem_mem_to_reg_ea :: "u8 \<Rightarrow> u8 \<Rightarrow> bool" where
  "is_movem_mem_to_reg_ea mode reg \<longleftrightarrow>
     mode = 2 \<or> mode = 3 \<or> mode = 5 \<or> mode = 6 \<or> (mode = 7 \<and> reg \<le> 3)"

text \<open>
  The recurring statement \<open>out->byte_length = (uint8_t)(base + decode_ea(rom, addr + base, ...,
  out->size, &out->src))\<close>, and the same with \<open>out->dst\<close>.
\<close>

definition with_src :: "ng_program_rom \<Rightarrow> u32 \<Rightarrow> u32 \<Rightarrow> u8 \<Rightarrow> u8 \<Rightarrow> ng_m68k_instr \<Rightarrow> ng_m68k_instr" where
  "with_src rom addr base mode reg out =
     (case decode_ea rom (addr + base) mode reg (i_size out) of
        (n, ea) \<Rightarrow> out\<lparr>i_src := ea, i_byte_length := ucast (base + n)\<rparr>)"

definition with_dst :: "ng_program_rom \<Rightarrow> u32 \<Rightarrow> u32 \<Rightarrow> u8 \<Rightarrow> u8 \<Rightarrow> ng_m68k_instr \<Rightarrow> ng_m68k_instr" where
  "with_dst rom addr base mode reg out =
     (case decode_ea rom (addr + base) mode reg (i_size out) of
        (n, ea) \<Rightarrow> out\<lparr>i_dst := ea, i_byte_length := ucast (base + n)\<rparr>)"

definition as_unknown :: "ng_m68k_instr \<Rightarrow> ng_m68k_instr" where
  "as_unknown out = out\<lparr>i_mnemonic := NG_M68K_UNKNOWN, i_byte_length := 2\<rparr>"

definition src_mode :: "ng_m68k_instr \<Rightarrow> ng_m68k_ea_mode" where "src_mode i = ea_mode (i_src i)"

definition dst_mode :: "ng_m68k_instr \<Rightarrow> ng_m68k_ea_mode" where "dst_mode i = ea_mode (i_dst i)"

definition is_abs_mode :: "ng_m68k_ea_mode \<Rightarrow> bool" where
  "is_abs_mode m \<longleftrightarrow> m = NG_M68K_EA_ABS_W \<or> m = NG_M68K_EA_ABS_L"

text \<open>The register operand \<open>out->dst.mode = m; out->dst.reg = r\<close> (and the same for \<open>src\<close>).\<close>

definition set_dst_reg :: "ng_m68k_ea_mode \<Rightarrow> u8 \<Rightarrow> ng_m68k_instr \<Rightarrow> ng_m68k_instr" where
  "set_dst_reg m r out = out\<lparr>i_dst := (i_dst out)\<lparr>ea_mode := m, ea_reg := r\<rparr>\<rparr>"

definition set_src_reg :: "ng_m68k_ea_mode \<Rightarrow> u8 \<Rightarrow> ng_m68k_instr \<Rightarrow> ng_m68k_instr" where
  "set_src_reg m r out = out\<lparr>i_src := (i_src out)\<lparr>ea_mode := m, ea_reg := r\<rparr>\<rparr>"

subsection \<open>Legacy operand fields\<close>

definition populate_move_legacy_fields :: "ng_m68k_instr \<Rightarrow> ng_m68k_instr" where
  "populate_move_legacy_fields out =
     (if i_mnemonic out = NG_M68K_MOVEA \<and> src_mode out = NG_M68K_EA_PC_INDEX \<and>
         dst_mode out = NG_M68K_EA_AREG then
        out\<lparr>i_form := NG_M68K_FORM_PC_INDEX_TO_AREG, i_reg := ea_reg (i_dst out),
            i_src_reg := ea_index_reg (i_src out),
            i_displacement := ea_displacement (i_src out),
            i_target := ea_absolute_addr (i_src out)\<rparr>
      else if src_mode out = NG_M68K_EA_AREG \<and> is_abs_mode (dst_mode out) then
        out\<lparr>i_form := NG_M68K_FORM_AREG_TO_ABS, i_reg := ea_reg (i_src out),
            i_absolute_addr := ea_absolute_addr (i_dst out)\<rparr>
      else if src_mode out = NG_M68K_EA_IMM \<and> is_abs_mode (dst_mode out) then
        out\<lparr>i_form := NG_M68K_FORM_IMM_TO_ABS, i_immediate := ea_immediate (i_src out),
            i_absolute_addr := ea_absolute_addr (i_dst out)\<rparr>
      else if src_mode out = NG_M68K_EA_DREG \<and> is_abs_mode (dst_mode out) then
        out\<lparr>i_form := NG_M68K_FORM_DREG_TO_ABS, i_reg := ea_reg (i_src out),
            i_absolute_addr := ea_absolute_addr (i_dst out)\<rparr>
      else if is_abs_mode (src_mode out) \<and> dst_mode out = NG_M68K_EA_DREG then
        out\<lparr>i_form := NG_M68K_FORM_ABS_TO_DREG, i_reg := ea_reg (i_dst out),
            i_absolute_addr := ea_absolute_addr (i_src out)\<rparr>
      else if src_mode out = NG_M68K_EA_ADISP \<and> dst_mode out = NG_M68K_EA_DREG then
        out\<lparr>i_form := NG_M68K_FORM_AREG_DISP, i_reg := ea_reg (i_dst out),
            i_src_reg := ea_reg (i_src out), i_displacement := ea_displacement (i_src out)\<rparr>
      else if src_mode out = NG_M68K_EA_IMM \<and> dst_mode out = NG_M68K_EA_DREG then
        out\<lparr>i_form := NG_M68K_FORM_IMM_TO_DREG, i_reg := ea_reg (i_dst out),
            i_immediate := ea_immediate (i_src out)\<rparr>
      else if src_mode out = NG_M68K_EA_DREG \<and> dst_mode out = NG_M68K_EA_DREG then
        out\<lparr>i_form := NG_M68K_FORM_DREG_TO_DREG, i_src_reg := ea_reg (i_src out),
            i_reg := ea_reg (i_dst out)\<rparr>
      else out)"

text \<open>
  The \<open>dst.mode\<close> cascade that several blocks spell out: \<open>dreg_form\<close> is the form a data
  register gets, absent where the block has no such case.
\<close>

definition dst_cascade :: "ng_m68k_operand_form option \<Rightarrow> ng_m68k_instr \<Rightarrow> ng_m68k_instr" where
  "dst_cascade dreg_form out =
     (if dreg_form \<noteq> None \<and> dst_mode out = NG_M68K_EA_DREG then
        out\<lparr>i_form := the dreg_form, i_reg := ea_reg (i_dst out)\<rparr>
      else if is_abs_mode (dst_mode out) then
        out\<lparr>i_form := NG_M68K_FORM_ABS, i_absolute_addr := ea_absolute_addr (i_dst out)\<rparr>
      else if dst_mode out = NG_M68K_EA_ADISP then
        out\<lparr>i_form := NG_M68K_FORM_AREG_DISP, i_reg := ea_reg (i_dst out),
            i_displacement := ea_displacement (i_dst out)\<rparr>
      else out)"

definition populate_unary_dst_legacy_fields :: "ng_m68k_instr \<Rightarrow> ng_m68k_instr" where
  "populate_unary_dst_legacy_fields out = dst_cascade (Some NG_M68K_FORM_DREG) out"

subsection \<open>Decoding helpers\<close>

definition decode_move_operands ::
  "ng_program_rom \<Rightarrow> u32 \<Rightarrow> u16 \<Rightarrow> u8 \<Rightarrow> ng_m68k_instr \<Rightarrow> ng_m68k_instr" where
  "decode_move_operands rom addr op sz out =
     (let smode = op_mode op; sreg = op_reg op; dmode = op_opmode op; dreg = op_reg9 op;
          out1 = out\<lparr>i_mnemonic := (if dmode = 1 then NG_M68K_MOVEA else NG_M68K_MOVE),
                     i_size := sz, i_byte_length := 2\<rparr>;
          out2 = with_src rom addr 2 smode sreg out1
      in if src_mode out2 = NG_M68K_EA_NONE then as_unknown out2
         else let out3 = with_dst rom addr (ucast (i_byte_length out2)) dmode dreg out2
              in if dst_mode out3 = NG_M68K_EA_NONE then as_unknown out3
                 else populate_move_legacy_fields
                        (if i_mnemonic out3 = NG_M68K_MOVEA then out3\<lparr>i_reg := dreg\<rparr> else out3))"

definition decode_move ::
  "ng_program_rom \<Rightarrow> u32 \<Rightarrow> u16 \<Rightarrow> ng_m68k_instr \<Rightarrow> ng_m68k_instr option" where
  "decode_move rom addr op out =
     (let top = op_top op in
      if top \<noteq> 1 \<and> top \<noteq> 2 \<and> top \<noteq> 3 then None
      else
        let sz = (if top = 1 then NG_M68K_SIZE_BYTE
                  else if top = 2 then NG_M68K_SIZE_LONG else NG_M68K_SIZE_WORD);
            smode = op_mode op; dmode = op_opmode op; dreg = op_reg9 op
        in if dmode = 1 \<and> sz = NG_M68K_SIZE_BYTE then Some (as_unknown out)
           else if smode = 1 \<and> sz = NG_M68K_SIZE_BYTE then Some (as_unknown out)
           else if dmode \<noteq> 1 \<and> \<not> is_data_alterable_ea dmode dreg then Some (as_unknown out)
           else Some (decode_move_operands rom addr op sz out))"

definition size_from_opcode_bits :: "u8 \<Rightarrow> u8" where
  "size_from_opcode_bits size_code =
     (if size_code = 2 then NG_M68K_SIZE_LONG
      else if size_code = 1 then NG_M68K_SIZE_WORD else NG_M68K_SIZE_BYTE)"

definition decode_alu_address_reg ::
  "ng_program_rom \<Rightarrow> u32 \<Rightarrow> u16 \<Rightarrow> ng_m68k_instr \<Rightarrow> ng_m68k_instr option" where
  "decode_alu_address_reg rom addr op out =
     (let top = op_top op; opmode = op_opmode op; dreg = op_reg9 op in
      if top \<noteq> 0xD \<and> top \<noteq> 0x9 \<and> top \<noteq> 0xB then None
      else if opmode \<noteq> 3 \<and> opmode \<noteq> 7 then None
      else
        let out1 = out\<lparr>i_mnemonic := (if top = 0xD then NG_M68K_ADDA
                                       else if top = 0x9 then NG_M68K_SUBA else NG_M68K_CMPA),
                       i_size := (if opmode = 7 then NG_M68K_SIZE_LONG else NG_M68K_SIZE_WORD)\<rparr>;
            out2 = with_src rom addr 2 (op_mode op) (op_reg op) out1
        in if src_mode out2 = NG_M68K_EA_NONE then Some (as_unknown out2)
           else Some ((set_dst_reg NG_M68K_EA_AREG dreg out2)\<lparr>i_reg := dreg\<rparr>))"

definition decode_logic_binary ::
  "ng_program_rom \<Rightarrow> u32 \<Rightarrow> u16 \<Rightarrow> ng_m68k_instr \<Rightarrow> ng_m68k_instr option" where
  "decode_logic_binary rom addr op out =
     (let top = op_top op; opmode = op_opmode op; size_code = opmode AND 3;
          mode = op_mode op; reg = op_reg op; reg_field = op_reg9 op;
          mnemonic = (if top = 0x8 then NG_M68K_OR
                      else if top = 0xC then NG_M68K_AND else NG_M68K_EOR)
      in if size_code = 3 then None
         else if top \<noteq> 0x8 \<and> top \<noteq> 0xC \<and> top \<noteq> 0xB then None
         else if (top = 0x8 \<or> top = 0xC) \<and> opmode \<le> 2 then
           if \<not> is_data_ea mode reg then None
           else
             let out1 = with_src rom addr 2 mode reg
                          (out\<lparr>i_mnemonic := mnemonic, i_size := size_from_opcode_bits size_code\<rparr>)
             in if src_mode out1 = NG_M68K_EA_NONE then Some (as_unknown out1)
                else Some ((set_dst_reg NG_M68K_EA_DREG reg_field out1)
                             \<lparr>i_reg := reg_field, i_src_reg := reg\<rparr>)
         else if \<not> ((top = 0x8 \<or> top = 0xC) \<and> opmode \<ge> 4 \<and> opmode \<le> 6 \<and>
                        is_memory_alterable_ea mode reg) \<and>
                 \<not> (top = 0xB \<and> opmode \<ge> 4 \<and> opmode \<le> 6 \<and> is_data_alterable_ea mode reg)
         then None
         else
           let out1 = (set_src_reg NG_M68K_EA_DREG reg_field
                         (out\<lparr>i_mnemonic := mnemonic, i_size := size_from_opcode_bits size_code\<rparr>))
                         \<lparr>i_src_reg := reg_field\<rparr>;
               out2 = with_dst rom addr 2 mode reg out1
           in if dst_mode out2 = NG_M68K_EA_NONE then Some (as_unknown out2)
              else Some (dst_cascade (Some NG_M68K_FORM_DREG_TO_DREG) out2))"

definition decode_addsub_dreg_to_ea ::
  "ng_program_rom \<Rightarrow> u32 \<Rightarrow> u16 \<Rightarrow> ng_m68k_instr \<Rightarrow> ng_m68k_instr option" where
  "decode_addsub_dreg_to_ea rom addr op out =
     (let top = op_top op; opmode = op_opmode op; size_code = opmode AND 3;
          mode = op_mode op; reg = op_reg op; sreg = op_reg9 op
      in if (top \<noteq> 0xD \<and> top \<noteq> 0x9) \<or> opmode < 4 \<or> opmode > 6 \<or>
            \<not> is_memory_alterable_ea mode reg
         then None
         else
           let out1 = (set_src_reg NG_M68K_EA_DREG sreg
                         (out\<lparr>i_mnemonic := (if top = 0xD then NG_M68K_ADD else NG_M68K_SUB),
                              i_size := size_from_opcode_bits size_code\<rparr>))\<lparr>i_src_reg := sreg\<rparr>;
               out2 = with_dst rom addr 2 mode reg out1
           in if dst_mode out2 = NG_M68K_EA_NONE then Some (as_unknown out2)
              else Some (dst_cascade None out2))"

definition decode_word_to_dreg ::
  "ng_m68k_mnemonic \<Rightarrow> ng_program_rom \<Rightarrow> u32 \<Rightarrow> u16 \<Rightarrow> ng_m68k_instr \<Rightarrow> ng_m68k_instr" where
  "decode_word_to_dreg mnemonic rom addr op out =
     (let dreg = op_reg9 op;
          out1 = with_src rom addr 2 (op_mode op) (op_reg op)
                   (out\<lparr>i_mnemonic := mnemonic, i_size := NG_M68K_SIZE_WORD\<rparr>)
      in if src_mode out1 = NG_M68K_EA_NONE then as_unknown out1
         else (set_dst_reg NG_M68K_EA_DREG dreg out1)\<lparr>i_reg := dreg\<rparr>)"

definition decode_multiply ::
  "ng_program_rom \<Rightarrow> u32 \<Rightarrow> u16 \<Rightarrow> ng_m68k_instr \<Rightarrow> ng_m68k_instr option" where
  "decode_multiply rom addr op out =
     (let opmode = op_opmode op in
      if op_top op \<noteq> 0xC \<or> (opmode \<noteq> 3 \<and> opmode \<noteq> 7) \<or> op_mode op = 1 then None
      else Some (decode_word_to_dreg (if opmode = 3 then NG_M68K_MULU else NG_M68K_MULS)
                   rom addr op out))"

definition decode_divide ::
  "ng_program_rom \<Rightarrow> u32 \<Rightarrow> u16 \<Rightarrow> ng_m68k_instr \<Rightarrow> ng_m68k_instr option" where
  "decode_divide rom addr op out =
     (let opmode = op_opmode op in
      if op_top op \<noteq> 0x8 \<or> (opmode \<noteq> 3 \<and> opmode \<noteq> 7) \<or> op_mode op = 1 then None
      else Some (decode_word_to_dreg (if opmode = 3 then NG_M68K_DIVU else NG_M68K_DIVS)
                   rom addr op out))"

definition exchange_instr ::
  "ng_m68k_ea_mode \<Rightarrow> ng_m68k_ea_mode \<Rightarrow> u16 \<Rightarrow> ng_m68k_instr \<Rightarrow> ng_m68k_instr" where
  "exchange_instr smode dmode op out =
     (set_dst_reg dmode (op_reg op) (set_src_reg smode (op_reg9 op)
        (out\<lparr>i_mnemonic := NG_M68K_EXG, i_byte_length := 2, i_size := NG_M68K_SIZE_LONG\<rparr>)))
       \<lparr>i_src_reg := op_reg9 op, i_reg := op_reg op\<rparr>"

definition decode_exchange :: "u16 \<Rightarrow> ng_m68k_instr \<Rightarrow> ng_m68k_instr option" where
  "decode_exchange op out =
     (if op AND 0xF1F8 = 0xC140 then Some (exchange_instr NG_M68K_EA_DREG NG_M68K_EA_DREG op out)
      else if op AND 0xF1F8 = 0xC148 then Some (exchange_instr NG_M68K_EA_AREG NG_M68K_EA_AREG op out)
      else if op AND 0xF1F8 = 0xC188 then Some (exchange_instr NG_M68K_EA_DREG NG_M68K_EA_AREG op out)
      else None)"

definition shift_mnemonic :: "u8 \<Rightarrow> u8 \<Rightarrow> ng_m68k_mnemonic" where
  "shift_mnemonic dir_left kind =
     (if dir_left \<noteq> 0
      then [NG_M68K_ASL, NG_M68K_LSL, NG_M68K_ROXL, NG_M68K_ROL] ! unat kind
      else [NG_M68K_ASR, NG_M68K_LSR, NG_M68K_ROXR, NG_M68K_ROR] ! unat kind)"

definition decode_shift_rotate ::
  "ng_program_rom \<Rightarrow> u32 \<Rightarrow> u16 \<Rightarrow> ng_m68k_instr \<Rightarrow> ng_m68k_instr option" where
  "decode_shift_rotate rom addr op out =
     (if op AND 0xF000 \<noteq> 0xE000 then None
      else
        let size_code = op_size2 op; dir_left = ucast (drop_bit 8 op AND 1) :: u8 in
        if size_code = 3 then
          if op AND 0x0800 \<noteq> 0 then None
          else if \<not> is_memory_alterable_ea (op_mode op) (op_reg op) then None
          else
            let kind = ucast (drop_bit 9 op AND 3) :: u8;
                out1 = with_dst rom addr 2 (op_mode op) (op_reg op)
                         (out\<lparr>i_mnemonic := shift_mnemonic dir_left kind,
                              i_size := NG_M68K_SIZE_WORD, i_immediate := 1\<rparr>)
            in Some (if dst_mode out1 = NG_M68K_EA_NONE then as_unknown out1 else out1)
        else
          let count_is_reg = ucast (drop_bit 5 op AND 1) :: u8;
              kind = ucast (drop_bit 3 op AND 3) :: u8;
              dreg = op_reg op; count_field = op_reg9 op;
              out1 = (set_dst_reg NG_M68K_EA_DREG dreg
                        (out\<lparr>i_mnemonic := shift_mnemonic dir_left kind,
                             i_size := size_from_opcode_bits size_code,
                             i_byte_length := 2\<rparr>))\<lparr>i_reg := dreg\<rparr>
          in Some (if count_is_reg \<noteq> 0
                   then (set_src_reg NG_M68K_EA_DREG count_field out1)\<lparr>i_src_reg := count_field\<rparr>
                   else out1\<lparr>i_immediate := (if count_field = 0 then 8 else ucast count_field)\<rparr>))"

definition decode_alu_ea_to_dreg ::
  "ng_program_rom \<Rightarrow> u32 \<Rightarrow> u16 \<Rightarrow> ng_m68k_instr \<Rightarrow> ng_m68k_instr option" where
  "decode_alu_ea_to_dreg rom addr op out =
     (let top = op_top op; size_code = op_size2 op; dir = ucast (drop_bit 8 op AND 1) :: u8;
          mode = op_mode op; reg = op_reg op; dreg = op_reg9 op
      in if top \<noteq> 0xD \<and> top \<noteq> 0x9 \<and> top \<noteq> 0xB then None
         else if size_code = 3 then None
         else if dir \<noteq> 0 then None
         else if \<not> is_data_ea mode reg \<and> \<not> (mode = 1 \<and> size_code \<noteq> 0) then None
         else
           let out1 = with_src rom addr 2 mode reg
                        (out\<lparr>i_mnemonic := (if top = 0xD then NG_M68K_ADD
                                             else if top = 0x9 then NG_M68K_SUB else NG_M68K_CMP),
                             i_size := size_from_opcode_bits size_code\<rparr>)
           in if src_mode out1 = NG_M68K_EA_NONE then Some (as_unknown out1)
              else Some ((set_dst_reg NG_M68K_EA_DREG dreg out1)
                           \<lparr>i_form := NG_M68K_FORM_DREG_TO_DREG, i_src_reg := reg, i_reg := dreg\<rparr>))"

definition decode_cmpm :: "u16 \<Rightarrow> ng_m68k_instr \<Rightarrow> ng_m68k_instr option" where
  "decode_cmpm op out =
     (if op AND 0xF138 \<noteq> 0xB108 \<or> op_size2 op = 3 then None
      else Some ((set_dst_reg NG_M68K_EA_APOST (op_reg9 op) (set_src_reg NG_M68K_EA_APOST (op_reg op)
                    (out\<lparr>i_mnemonic := NG_M68K_CMPM,
                         i_size := size_from_opcode_bits (op_size2 op), i_byte_length := 2\<rparr>)))
                   \<lparr>i_src_reg := op_reg op, i_reg := op_reg9 op\<rparr>))"

definition decode_immediate_to_sr_ccr ::
  "ng_program_rom \<Rightarrow> u32 \<Rightarrow> u16 \<Rightarrow> ng_m68k_instr \<Rightarrow> ng_m68k_instr option" where
  "decode_immediate_to_sr_ccr rom addr op out =
     (let w = ucast (ng_program_rom_read16 rom (addr + 2)) :: u32;
          to_ccr = (\<lambda>m. Some (out\<lparr>i_mnemonic := m, i_size := NG_M68K_SIZE_BYTE,
                                    i_immediate := w AND 0xFF, i_byte_length := 4\<rparr>));
          to_sr = (\<lambda>m. Some (out\<lparr>i_mnemonic := m, i_size := NG_M68K_SIZE_WORD,
                                   i_immediate := w, i_byte_length := 4\<rparr>))
      in if op = 0x003C then to_ccr NG_M68K_ORI_TO_CCR
         else if op = 0x007C then to_sr NG_M68K_ORI_TO_SR
         else if op = 0x023C then to_ccr NG_M68K_ANDI_TO_CCR
         else if op = 0x027C then to_sr NG_M68K_ANDI_TO_SR
         else if op = 0x0A3C then to_ccr NG_M68K_EORI_TO_CCR
         else if op = 0x0A7C then to_sr NG_M68K_EORI_TO_SR
         else None)"

subsection \<open>Stages of \<open>ng_m68k_decode\<close>\<close>

datatype stage = Matched ng_m68k_instr | Fallthrough ng_m68k_instr

definition of_helper :: "(ng_m68k_instr \<Rightarrow> ng_m68k_instr option) \<Rightarrow> ng_m68k_instr \<Rightarrow> stage" where
  "of_helper f out = (case f out of Some i \<Rightarrow> Matched i | None \<Rightarrow> Fallthrough out)"

type_synonym stage_fun = "ng_program_rom \<Rightarrow> u32 \<Rightarrow> u16 \<Rightarrow> ng_m68k_instr \<Rightarrow> stage"

text \<open>Opcodes without operands, or with one in the opcode word.\<close>

definition stage_misc :: stage_fun where
  "stage_misc rom addr op out =
     (if op = 0x4AFC then Matched (out\<lparr>i_mnemonic := NG_M68K_ILLEGAL\<rparr>)
      else if op AND 0xFFF0 = 0x4E40 then
        Matched (out\<lparr>i_mnemonic := NG_M68K_TRAP, i_immediate := ucast (op AND 0x000F)\<rparr>)
      else if op = 0x4E70 then Matched (out\<lparr>i_mnemonic := NG_M68K_RESET\<rparr>)
      else if op = 0x4E71 then Matched (out\<lparr>i_mnemonic := NG_M68K_NOP\<rparr>)
      else if op = 0x4E72 then
        Matched (out\<lparr>i_mnemonic := NG_M68K_STOP, i_byte_length := 4,
                     i_immediate := ucast (ng_program_rom_read16 rom (addr + 2))\<rparr>)
      else if op = 0x4E73 then Matched (out\<lparr>i_mnemonic := NG_M68K_RTE\<rparr>)
      else if op = 0x4E75 then Matched (out\<lparr>i_mnemonic := NG_M68K_RTS\<rparr>)
      else if op = 0x4E76 then Matched (out\<lparr>i_mnemonic := NG_M68K_TRAPV\<rparr>)
      else if op = 0x4E77 then Matched (out\<lparr>i_mnemonic := NG_M68K_RTR\<rparr>)
      else Fallthrough out)"

definition stage_link :: stage_fun where
  "stage_link rom addr op out =
     (if op AND 0xFFF8 = 0x4E50 then
        Matched (out\<lparr>i_mnemonic := NG_M68K_LINK, i_byte_length := 4, i_size := NG_M68K_SIZE_WORD,
                     i_reg := op_reg op,
                     i_displacement := sign16 (ng_program_rom_read16 rom (addr + 2))\<rparr>)
      else if op AND 0xFFF8 = 0x4E58 then
        Matched (out\<lparr>i_mnemonic := NG_M68K_UNLK, i_byte_length := 2, i_reg := op_reg op\<rparr>)
      else Fallthrough out)"

definition stage_move_usp :: stage_fun where
  "stage_move_usp rom addr op out =
     (if op AND 0xFFF8 = 0x4E60 \<or> op AND 0xFFF8 = 0x4E68 then
        let out1 = out\<lparr>i_mnemonic := NG_M68K_MOVE_USP, i_size := NG_M68K_SIZE_LONG,
                       i_byte_length := 2, i_reg := op_reg op\<rparr>
        in if op AND 0x0008 = 0 then Matched (set_src_reg NG_M68K_EA_AREG (i_reg out1) out1)
           else Matched (set_dst_reg NG_M68K_EA_AREG (i_reg out1) out1)
      else Fallthrough out)"

definition stage_jump_abs_l :: stage_fun where
  "stage_jump_abs_l rom addr op out =
     (if op = 0x4EF9 \<or> op = 0x4EB9 then
        let target = ng_program_rom_read32 rom (addr + 2) in
        Matched (out\<lparr>i_mnemonic := (if op = 0x4EF9 then NG_M68K_JMP else NG_M68K_JSR),
                     i_byte_length := 6, i_target := target, i_form := NG_M68K_FORM_ABS,
                     i_src := (i_src out)\<lparr>ea_mode := NG_M68K_EA_ABS_L, ea_reg := 1,
                                          ea_absolute_addr := target\<rparr>\<rparr>)
      else Fallthrough out)"

definition stage_jump_pc_disp :: stage_fun where
  "stage_jump_pc_disp rom addr op out =
     (if op = 0x4EFA \<or> op = 0x4EBA then
        let disp = sign16 (ng_program_rom_read16 rom (addr + 2));
            target = addr + 2 + scast disp
        in Matched (out\<lparr>i_mnemonic := (if op = 0x4EFA then NG_M68K_JMP else NG_M68K_JSR),
                        i_byte_length := 4, i_form := NG_M68K_FORM_PC_RELATIVE,
                        i_displacement := disp, i_target := target,
                        i_src := (i_src out)\<lparr>ea_mode := NG_M68K_EA_PC_DISP, ea_reg := 2,
                                             ea_displacement := disp,
                                             ea_absolute_addr := target\<rparr>\<rparr>)
      else Fallthrough out)"

definition stage_jump_aind :: stage_fun where
  "stage_jump_aind rom addr op out =
     (if op AND 0xFFF8 = 0x4ED0 then
        Matched (set_src_reg NG_M68K_EA_AIND (op_reg op)
                   (out\<lparr>i_mnemonic := NG_M68K_JMP, i_byte_length := 2,
                        i_form := NG_M68K_FORM_AREG_INDIRECT, i_reg := op_reg op\<rparr>))
      else Fallthrough out)"

definition stage_jump_control :: stage_fun where
  "stage_jump_control rom addr op out =
     (if (op AND 0xFFC0 = 0x4E80 \<or> op AND 0xFFC0 = 0x4EC0) \<and>
         is_control_ea (op_mode op) (op_reg op) then
        let out1 = with_src rom addr 2 (op_mode op) (op_reg op)
                     (out\<lparr>i_mnemonic := (if op AND 0xFFC0 = 0x4E80 then NG_M68K_JSR
                                          else NG_M68K_JMP)\<rparr>);
            out2 = (if src_mode out1 = NG_M68K_EA_AIND then
                      out1\<lparr>i_form := NG_M68K_FORM_AREG_INDIRECT, i_reg := ea_reg (i_src out1)\<rparr>
                    else if src_mode out1 = NG_M68K_EA_PC_DISP then
                      out1\<lparr>i_form := NG_M68K_FORM_PC_RELATIVE,
                           i_target := ea_absolute_addr (i_src out1)\<rparr>
                    else if is_abs_mode (src_mode out1) then
                      out1\<lparr>i_form := NG_M68K_FORM_ABS, i_target := ea_absolute_addr (i_src out1)\<rparr>
                    else out1)
        in Matched (if src_mode out2 = NG_M68K_EA_NONE then as_unknown out2 else out2)
      else Fallthrough out)"

definition stage_branch :: stage_fun where
  "stage_branch rom addr op out =
     (if op AND 0xFF00 = 0x6000 then
        Matched (populate_branch_target rom addr op (out\<lparr>i_mnemonic := NG_M68K_BRA\<rparr>))
      else if op AND 0xFF00 = 0x6100 then
        Matched (populate_branch_target rom addr op (out\<lparr>i_mnemonic := NG_M68K_BSR\<rparr>))
      else if op AND 0xF000 = 0x6000 then
        Matched (populate_branch_target rom addr op
                   (out\<lparr>i_mnemonic := NG_M68K_BCC, i_condition := ucast (drop_bit 8 op AND 0xF)\<rparr>))
      else Fallthrough out)"

definition stage_moveq :: stage_fun where
  "stage_moveq rom addr op out =
     (if op AND 0xF100 = 0x7000 then
        Matched (set_dst_reg NG_M68K_EA_DREG (op_reg9 op)
                   (out\<lparr>i_mnemonic := NG_M68K_MOVEQ, i_size := NG_M68K_SIZE_LONG, i_byte_length := 2,
                        i_form := NG_M68K_FORM_IMM_TO_DREG, i_reg := op_reg9 op,
                        i_immediate := scast (sign8 (ucast (op AND 0xFF)))\<rparr>))
      else Fallthrough out)"

definition stage_lea_pc_disp :: stage_fun where
  "stage_lea_pc_disp rom addr op out =
     (if op AND 0xF1FF = 0x41FA then
        let disp = sign16 (ng_program_rom_read16 rom (addr + 2));
            target = addr + 2 + scast disp
        in Matched (set_dst_reg NG_M68K_EA_AREG (op_reg9 op)
                      (out\<lparr>i_mnemonic := NG_M68K_LEA, i_size := NG_M68K_SIZE_LONG, i_byte_length := 4,
                           i_reg := op_reg9 op, i_displacement := disp, i_target := target,
                           i_src := (i_src out)\<lparr>ea_mode := NG_M68K_EA_PC_DISP, ea_reg := 2,
                                                ea_displacement := disp,
                                                ea_absolute_addr := target\<rparr>\<rparr>))
      else Fallthrough out)"

definition stage_chk :: stage_fun where
  "stage_chk rom addr op out =
     (if op AND 0xF1C0 = 0x4180 \<and> op_mode op \<noteq> 1 then
        let out1 = with_src rom addr 2 (op_mode op) (op_reg op)
                     (set_dst_reg NG_M68K_EA_DREG (op_reg9 op)
                        (out\<lparr>i_mnemonic := NG_M68K_CHK, i_size := NG_M68K_SIZE_WORD,
                             i_reg := op_reg9 op\<rparr>))
        in Matched (if src_mode out1 = NG_M68K_EA_NONE then as_unknown out1 else out1)
      else Fallthrough out)"

definition stage_lea :: stage_fun where
  "stage_lea rom addr op out =
     (if op AND 0xF1C0 = 0x41C0 \<and> is_control_ea (op_mode op) (op_reg op) then
        let out1 = with_src rom addr 2 (op_mode op) (op_reg op)
                     (out\<lparr>i_mnemonic := NG_M68K_LEA, i_size := NG_M68K_SIZE_LONG, i_reg := op_reg9 op\<rparr>);
            out2 = set_dst_reg NG_M68K_EA_AREG (i_reg out1) out1;
            out3 = (if is_abs_mode (src_mode out2) \<or> src_mode out2 = NG_M68K_EA_PC_DISP \<or>
                       src_mode out2 = NG_M68K_EA_PC_INDEX
                    then out2\<lparr>i_target := ea_absolute_addr (i_src out2)\<rparr> else out2)
        in Matched (if src_mode out3 = NG_M68K_EA_NONE then as_unknown out3 else out3)
      else Fallthrough out)"

definition stage_legacy_lea_abs_l :: stage_fun where
  "stage_legacy_lea_abs_l rom addr op out =
     (if op AND 0xF1FF = 0x41F9 then
        let target = ng_program_rom_read32 rom (addr + 2) in
        Matched (set_dst_reg NG_M68K_EA_AREG (op_reg9 op)
                   (out\<lparr>i_mnemonic := NG_M68K_LEA, i_size := NG_M68K_SIZE_LONG, i_byte_length := 6,
                        i_reg := op_reg9 op, i_target := target,
                        i_src := (i_src out)\<lparr>ea_mode := NG_M68K_EA_ABS_L, ea_reg := 1,
                                             ea_absolute_addr := target\<rparr>\<rparr>))
      else Fallthrough out)"

definition stage_legacy_movea_pc_index :: stage_fun where
  "stage_legacy_movea_pc_index rom addr op out =
     (if op = 0x207B then
        let ext = ng_program_rom_read16 rom (addr + 2);
            disp = sign8 (ucast (ext AND 0xFF))
        in Matched (out\<lparr>i_mnemonic := NG_M68K_MOVEA, i_byte_length := 4, i_size := NG_M68K_SIZE_LONG,
                        i_form := NG_M68K_FORM_PC_INDEX_TO_AREG, i_reg := 0,
                        i_src_reg := ucast (drop_bit 12 ext AND 7), i_displacement := disp,
                        i_target := addr + 2 + scast disp\<rparr>)
      else Fallthrough out)"

definition stage_movep :: stage_fun where
  "stage_movep rom addr op out =
     (if op AND 0xF138 = 0x0108 then
        let data_reg = op_reg9 op; addr_reg = op_reg op;
            dreg_to_mem = ucast (drop_bit 7 op AND 1) :: u8;
            disp = sign16 (ng_program_rom_read16 rom (addr + 2));
            out1 = out\<lparr>i_mnemonic := NG_M68K_MOVEP,
                       i_size := (if op AND 0x0040 \<noteq> 0 then NG_M68K_SIZE_LONG else NG_M68K_SIZE_WORD),
                       i_byte_length := 4, i_displacement := disp, i_reg := data_reg\<rparr>
        in if dreg_to_mem \<noteq> 0 then
             Matched (let out2 = set_dst_reg NG_M68K_EA_ADISP addr_reg
                                   (set_src_reg NG_M68K_EA_DREG data_reg out1)
                      in out2\<lparr>i_src_reg := data_reg,
                              i_dst := (i_dst out2)\<lparr>ea_displacement := disp\<rparr>\<rparr>)
           else
             Matched (let out2 = set_dst_reg NG_M68K_EA_DREG data_reg
                                   (set_src_reg NG_M68K_EA_ADISP addr_reg out1)
                      in out2\<lparr>i_src := (i_src out2)\<lparr>ea_displacement := disp\<rparr>\<rparr>)
      else Fallthrough out)"

definition stage_move_from_sr :: stage_fun where
  "stage_move_from_sr rom addr op out =
     (if op AND 0xFFC0 = 0x40C0 then
        if \<not> is_data_alterable_ea (op_mode op) (op_reg op) then
          Matched (out\<lparr>i_mnemonic := NG_M68K_UNKNOWN\<rparr>)
        else
          let out1 = with_dst rom addr 2 (op_mode op) (op_reg op)
                       (out\<lparr>i_mnemonic := NG_M68K_MOVE_SR, i_size := NG_M68K_SIZE_WORD\<rparr>)
          in Matched (if dst_mode out1 = NG_M68K_EA_NONE then as_unknown out1 else out1)
      else Fallthrough out)"

definition stage_move_to_sr_ccr :: stage_fun where
  "stage_move_to_sr_ccr rom addr op out =
     (if op AND 0xFFC0 = 0x44C0 \<or> op AND 0xFFC0 = 0x46C0 then
        if \<not> is_data_ea (op_mode op) (op_reg op) then
          Matched (out\<lparr>i_mnemonic := NG_M68K_UNKNOWN\<rparr>)
        else
          let out1 = with_src rom addr 2 (op_mode op) (op_reg op)
                       (out\<lparr>i_mnemonic := (if op AND 0xFFC0 = 0x46C0 then NG_M68K_MOVE_SR
                                            else NG_M68K_MOVE_CCR),
                            i_size := NG_M68K_SIZE_WORD\<rparr>)
          in Matched (if src_mode out1 = NG_M68K_EA_NONE then as_unknown out1 else out1)
      else Fallthrough out)"

definition bit_mnemonic :: "u8 \<Rightarrow> ng_m68k_mnemonic" where
  "bit_mnemonic op_kind = [NG_M68K_BTST, NG_M68K_BCHG, NG_M68K_BCLR, NG_M68K_BSET] ! unat op_kind"

definition stage_static_bit :: stage_fun where
  "stage_static_bit rom addr op out =
     (let op_kind = op_size2 op; mode = op_mode op; reg = op_reg op in
      if op AND 0xFF00 = 0x0800 \<and>
         ((op_kind = 0 \<and> is_data_ea mode reg \<and> \<not> (mode = 7 \<and> reg = 4)) \<or>
          (op_kind \<noteq> 0 \<and> is_data_alterable_ea mode reg)) then
        let out1 = with_dst rom addr 4 mode reg
                     (out\<lparr>i_mnemonic := bit_mnemonic op_kind,
                          i_size := (if mode = 0 then NG_M68K_SIZE_LONG else NG_M68K_SIZE_BYTE),
                          i_immediate := ucast (ng_program_rom_read16 rom (addr + 2)) AND 0xFF\<rparr>)
        in Matched (if dst_mode out1 = NG_M68K_EA_NONE then as_unknown out1
                    else dst_cascade (Some NG_M68K_FORM_DREG) out1)
      else Fallthrough out)"

definition stage_dynamic_bit :: stage_fun where
  "stage_dynamic_bit rom addr op out =
     (let op_kind = op_size2 op; mode = op_mode op; reg = op_reg op in
      if op AND 0xF100 = 0x0100 \<and>
         ((op_kind = 0 \<and> is_data_ea mode reg) \<or> (op_kind \<noteq> 0 \<and> is_data_alterable_ea mode reg)) then
        let out1 = with_dst rom addr 2 mode reg
                     ((set_src_reg NG_M68K_EA_DREG (op_reg9 op)
                         (out\<lparr>i_mnemonic := bit_mnemonic op_kind,
                              i_size := (if mode = 0 then NG_M68K_SIZE_LONG else NG_M68K_SIZE_BYTE)\<rparr>))
                         \<lparr>i_src_reg := op_reg9 op\<rparr>)
        in Matched (if dst_mode out1 = NG_M68K_EA_NONE then as_unknown out1
                    else dst_cascade (Some NG_M68K_FORM_DREG_TO_DREG) out1)
      else Fallthrough out)"

text \<open>The body the four immediate blocks (ORI/EORI, SUBI/ADDI, CMPI, ANDI) share.\<close>

definition decode_immediate_op ::
  "ng_m68k_mnemonic \<Rightarrow> ng_program_rom \<Rightarrow> u32 \<Rightarrow> u16 \<Rightarrow> ng_m68k_instr \<Rightarrow> stage" where
  "decode_immediate_op mnemonic rom addr op out =
     (let size_code = op_size2 op; mode = op_mode op; reg = op_reg op in
      if size_code \<noteq> 3 \<and> mode \<noteq> 1 \<and> \<not> (mode = 7 \<and> reg \<ge> 2) then
        let sz = size_from_opcode_bits size_code;
            w = ucast (ng_program_rom_read16 rom (addr + 2)) :: u32;
            imm = (if sz = NG_M68K_SIZE_LONG then ng_program_rom_read32 rom (addr + 2)
                   else if sz = NG_M68K_SIZE_BYTE then w AND 0xFF else w);
            imm_len = (if sz = NG_M68K_SIZE_LONG then 4 else 2) :: u32;
            out1 = with_dst rom addr (2 + imm_len) mode reg
                     (out\<lparr>i_mnemonic := mnemonic, i_size := sz, i_immediate := imm\<rparr>)
        in Matched (if dst_mode out1 = NG_M68K_EA_NONE then as_unknown out1
                    else dst_cascade (Some NG_M68K_FORM_IMM_TO_DREG) out1)
      else Fallthrough out)"

definition stage_ori_eori :: stage_fun where
  "stage_ori_eori rom addr op out =
     (if op AND 0xFF00 = 0x0000 \<or> op AND 0xFF00 = 0x0A00 then
        decode_immediate_op (if op AND 0xFF00 = 0x0000 then NG_M68K_ORI else NG_M68K_EORI)
          rom addr op out
      else Fallthrough out)"

definition stage_subi_addi :: stage_fun where
  "stage_subi_addi rom addr op out =
     (if op AND 0xFF00 = 0x0400 \<or> op AND 0xFF00 = 0x0600 then
        decode_immediate_op (if op AND 0xFF00 = 0x0400 then NG_M68K_SUBI else NG_M68K_ADDI)
          rom addr op out
      else Fallthrough out)"

definition stage_cmpi :: stage_fun where
  "stage_cmpi rom addr op out =
     (if op AND 0xFF00 = 0x0C00 then decode_immediate_op NG_M68K_CMPI rom addr op out
      else Fallthrough out)"

definition stage_andi :: stage_fun where
  "stage_andi rom addr op out =
     (if op AND 0xFF00 = 0x0200 then decode_immediate_op NG_M68K_ANDI rom addr op out
      else Fallthrough out)"

text \<open>Blocks kept from an earlier decoder for single opcode patterns.\<close>

definition stage_legacy_andi_disp :: stage_fun where
  "stage_legacy_andi_disp rom addr op out =
     (if op AND 0xFFF8 = 0x0228 then
        Matched (out\<lparr>i_mnemonic := NG_M68K_ANDI, i_byte_length := 6, i_size := NG_M68K_SIZE_BYTE,
                     i_form := NG_M68K_FORM_AREG_DISP, i_reg := op_reg op,
                     i_immediate := ucast (ng_program_rom_read16 rom (addr + 2)) AND 0xFF,
                     i_displacement := sign16 (ng_program_rom_read16 rom (addr + 4))\<rparr>)
      else Fallthrough out)"

definition stage_legacy_move :: stage_fun where
  "stage_legacy_move rom addr op out =
     (let w = ucast (ng_program_rom_read16 rom (addr + 2)) :: u32;
          l2 = ng_program_rom_read32 rom (addr + 2); l4 = ng_program_rom_read32 rom (addr + 4);
          mv = out\<lparr>i_mnemonic := NG_M68K_MOVE\<rparr>
      in if op AND 0xFFF8 = 0x23C8 then
           Matched (mv\<lparr>i_byte_length := 6, i_size := NG_M68K_SIZE_LONG, i_reg := op_reg op,
                       i_form := NG_M68K_FORM_AREG_TO_ABS, i_absolute_addr := l2\<rparr>)
         else if op = 0x33FC then
           Matched (mv\<lparr>i_byte_length := 8, i_size := NG_M68K_SIZE_WORD,
                       i_form := NG_M68K_FORM_IMM_TO_ABS, i_immediate := w, i_absolute_addr := l4\<rparr>)
         else if op = 0x13FC then
           Matched (mv\<lparr>i_byte_length := 8, i_size := NG_M68K_SIZE_BYTE,
                       i_form := NG_M68K_FORM_IMM_TO_ABS, i_immediate := w AND 0xFF,
                       i_absolute_addr := l4\<rparr>)
         else if op AND 0xFFF8 = 0x13C0 then
           Matched (mv\<lparr>i_byte_length := 6, i_size := NG_M68K_SIZE_BYTE,
                       i_form := NG_M68K_FORM_DREG_TO_ABS, i_reg := op_reg op, i_absolute_addr := l2\<rparr>)
         else if op AND 0xF1FF = 0x1039 then
           Matched (mv\<lparr>i_byte_length := 6, i_size := NG_M68K_SIZE_BYTE,
                       i_form := NG_M68K_FORM_ABS_TO_DREG, i_reg := op_reg9 op, i_absolute_addr := l2\<rparr>)
         else if op AND 0xF1F8 = 0x1028 then
           Matched (mv\<lparr>i_byte_length := 4, i_size := NG_M68K_SIZE_BYTE,
                       i_form := NG_M68K_FORM_AREG_DISP, i_reg := op_reg9 op, i_src_reg := op_reg op,
                       i_displacement := sign16 (ng_program_rom_read16 rom (addr + 2))\<rparr>)
         else if op AND 0xF1FF = 0x2039 then
           Matched (mv\<lparr>i_byte_length := 6, i_size := NG_M68K_SIZE_LONG,
                       i_form := NG_M68K_FORM_ABS_TO_DREG, i_reg := op_reg9 op, i_absolute_addr := l2\<rparr>)
         else if op AND 0xF1FF = 0x303C then
           Matched (mv\<lparr>i_byte_length := 4, i_size := NG_M68K_SIZE_WORD,
                       i_form := NG_M68K_FORM_IMM_TO_DREG, i_reg := op_reg9 op, i_immediate := w\<rparr>)
         else if op AND 0xF1FF = 0x103C then
           Matched (mv\<lparr>i_byte_length := 4, i_size := NG_M68K_SIZE_BYTE,
                       i_form := NG_M68K_FORM_IMM_TO_DREG, i_reg := op_reg9 op,
                       i_immediate := w AND 0xFF\<rparr>)
         else Fallthrough out)"

definition stage_legacy_cmpi :: stage_fun where
  "stage_legacy_cmpi rom addr op out =
     (if op AND 0xFFF8 = 0x0C00 then
        Matched (out\<lparr>i_mnemonic := NG_M68K_CMPI, i_byte_length := 4, i_size := NG_M68K_SIZE_BYTE,
                     i_form := NG_M68K_FORM_IMM_TO_DREG, i_reg := op_reg op,
                     i_immediate := ucast (ng_program_rom_read16 rom (addr + 2)) AND 0xFF\<rparr>)
      else Fallthrough out)"

text \<open>The operands of ADDX, SUBX, ABCD and SBCD: two predecrements or two data registers.\<close>

definition extend_pair_operands :: "u16 \<Rightarrow> ng_m68k_instr \<Rightarrow> ng_m68k_instr" where
  "extend_pair_operands op out =
     (let out1 = (if op_mode op = 1
                  then set_dst_reg NG_M68K_EA_APRE (op_reg9 op)
                         (set_src_reg NG_M68K_EA_APRE (op_reg op) out)
                  else set_dst_reg NG_M68K_EA_DREG (op_reg9 op)
                         (set_src_reg NG_M68K_EA_DREG (op_reg op)
                            (out\<lparr>i_form := NG_M68K_FORM_DREG_TO_DREG\<rparr>)))
      in out1\<lparr>i_src_reg := op_reg op, i_reg := op_reg9 op\<rparr>)"

definition stage_addx_subx :: stage_fun where
  "stage_addx_subx rom addr op out =
     (if (op AND 0xF100 = 0xD100 \<or> op AND 0xF100 = 0x9100) \<and> (op_mode op = 0 \<or> op_mode op = 1) \<and>
         op_size2 op \<noteq> 3 then
        Matched (extend_pair_operands op
                   (out\<lparr>i_mnemonic := (if op AND 0xF000 = 0xD000 then NG_M68K_ADDX else NG_M68K_SUBX),
                        i_byte_length := 2, i_size := size_from_opcode_bits (op_size2 op)\<rparr>))
      else Fallthrough out)"

definition stage_abcd_sbcd :: stage_fun where
  "stage_abcd_sbcd rom addr op out =
     (if (op AND 0xF1F0 = 0xC100 \<or> op AND 0xF1F0 = 0x8100) \<and> (op_mode op = 0 \<or> op_mode op = 1) then
        Matched (extend_pair_operands op
                   (out\<lparr>i_mnemonic := (if op AND 0xF000 = 0xC000 then NG_M68K_ABCD else NG_M68K_SBCD),
                        i_size := NG_M68K_SIZE_BYTE, i_byte_length := 2\<rparr>))
      else Fallthrough out)"

definition stage_legacy_add :: stage_fun where
  "stage_legacy_add rom addr op out =
     (if op = 0xD040 then
        Matched (out\<lparr>i_mnemonic := NG_M68K_ADD, i_byte_length := 2, i_size := NG_M68K_SIZE_WORD,
                     i_form := NG_M68K_FORM_DREG_TO_DREG, i_src_reg := 0, i_reg := 0\<rparr>)
      else Fallthrough out)"

text \<open>This block writes \<open>out->condition\<close> before it knows whether it matches.\<close>

definition stage_dbcc_scc :: stage_fun where
  "stage_dbcc_scc rom addr op out =
     (if op AND 0xF000 = 0x5000 \<and> drop_bit 6 op AND 3 = 3 then
        let mode = op_mode op; reg = op_reg op;
            out1 = out\<lparr>i_condition := ucast (drop_bit 8 op AND 0xF)\<rparr>;
            disp = sign16 (ng_program_rom_read16 rom (addr + 2))
        in if mode = 1 then
             Matched (out1\<lparr>i_mnemonic := NG_M68K_DBCC, i_byte_length := 4, i_size := NG_M68K_SIZE_WORD,
                           i_reg := reg, i_displacement := disp, i_target := addr + 2 + scast disp\<rparr>)
           else if is_data_alterable_ea mode reg then
             let out2 = with_dst rom addr 2 mode reg
                          (out1\<lparr>i_mnemonic := NG_M68K_SCC, i_size := NG_M68K_SIZE_BYTE\<rparr>)
             in Matched (if dst_mode out2 = NG_M68K_EA_NONE then as_unknown out2 else out2)
           else Fallthrough out1
      else Fallthrough out)"

definition stage_addq_subq :: stage_fun where
  "stage_addq_subq rom addr op out =
     (let size_code = op_size2 op; mode = op_mode op; reg = op_reg op in
      if op AND 0xF000 = 0x5000 \<and> size_code \<noteq> 3 \<and> \<not> (mode = 1 \<and> size_code = 0) \<and>
         (mode = 1 \<or> is_data_alterable_ea mode reg) then
        let imm = ucast (op_reg9 op) :: u32;
            out1 = with_dst rom addr 2 mode reg
                     (out\<lparr>i_mnemonic := (if op AND 0x0100 \<noteq> 0 then NG_M68K_SUBQ else NG_M68K_ADDQ),
                          i_byte_length := 2, i_size := size_from_opcode_bits size_code,
                          i_immediate := (if imm = 0 then 8 else imm)\<rparr>)
        in Matched (if dst_mode out1 = NG_M68K_EA_NONE then as_unknown out1
                    else dst_cascade (Some NG_M68K_FORM_DREG) out1)
      else Fallthrough out)"

definition stage_clr :: stage_fun where
  "stage_clr rom addr op out =
     (let size_code = op_size2 op in
      if op AND 0xFF00 = 0x4200 \<and> size_code \<noteq> 3 \<and> is_data_alterable_ea (op_mode op) (op_reg op) then
        let out1 = with_dst rom addr 2 (op_mode op) (op_reg op)
                     (out\<lparr>i_mnemonic := NG_M68K_CLR, i_size := size_from_opcode_bits size_code\<rparr>)
        in Matched (if dst_mode out1 = NG_M68K_EA_NONE then as_unknown out1
                    else populate_unary_dst_legacy_fields out1)
      else Fallthrough out)"

definition stage_negx_neg_not :: stage_fun where
  "stage_negx_neg_not rom addr op out =
     (let size_code = op_size2 op; mode = op_mode op; reg = op_reg op in
      if (op AND 0xFF00 = 0x4000 \<or> op AND 0xFF00 = 0x4400 \<or> op AND 0xFF00 = 0x4600) \<and>
         size_code \<noteq> 3 \<and> mode \<noteq> 1 \<and> \<not> (mode = 7 \<and> reg \<ge> 2) then
        let out1 = with_dst rom addr 2 mode reg
                     (out\<lparr>i_mnemonic := (if op AND 0xFF00 = 0x4000 then NG_M68K_NEGX
                                          else if op AND 0xFF00 = 0x4400 then NG_M68K_NEG
                                          else NG_M68K_NOT),
                          i_size := size_from_opcode_bits size_code\<rparr>)
        in Matched (if dst_mode out1 = NG_M68K_EA_NONE then as_unknown out1
                    else populate_unary_dst_legacy_fields out1)
      else Fallthrough out)"

definition stage_nbcd :: stage_fun where
  "stage_nbcd rom addr op out =
     (if op AND 0xFFC0 = 0x4800 \<and> is_data_alterable_ea (op_mode op) (op_reg op) then
        let out1 = with_dst rom addr 2 (op_mode op) (op_reg op)
                     (out\<lparr>i_mnemonic := NG_M68K_NBCD, i_size := NG_M68K_SIZE_BYTE\<rparr>);
            out2 = (if dst_mode out1 = NG_M68K_EA_NONE then as_unknown out1 else out1)
        in Matched (populate_unary_dst_legacy_fields out2)
      else Fallthrough out)"

definition stage_swap_ext :: stage_fun where
  "stage_swap_ext rom addr op out =
     (if op AND 0xFFF8 = 0x4840 then
        Matched (set_dst_reg NG_M68K_EA_DREG (op_reg op)
                   (out\<lparr>i_mnemonic := NG_M68K_SWAP, i_size := NG_M68K_SIZE_WORD, i_byte_length := 2,
                        i_form := NG_M68K_FORM_DREG, i_reg := op_reg op\<rparr>))
      else if op AND 0xFFF8 = 0x4880 \<or> op AND 0xFFF8 = 0x48C0 then
        Matched (set_dst_reg NG_M68K_EA_DREG (op_reg op)
                   (out\<lparr>i_mnemonic := NG_M68K_EXT,
                        i_size := (if op AND 0x0040 \<noteq> 0 then NG_M68K_SIZE_LONG else NG_M68K_SIZE_WORD),
                        i_byte_length := 2, i_form := NG_M68K_FORM_DREG, i_reg := op_reg op\<rparr>))
      else Fallthrough out)"

definition movem_fields :: "ng_program_rom \<Rightarrow> u32 \<Rightarrow> u16 \<Rightarrow> ng_m68k_instr \<Rightarrow> ng_m68k_instr" where
  "movem_fields rom addr op out =
     out\<lparr>i_mnemonic := NG_M68K_MOVEM,
         i_size := (if op AND 0x0040 \<noteq> 0 then NG_M68K_SIZE_LONG else NG_M68K_SIZE_WORD),
         i_immediate := ucast (ng_program_rom_read16 rom (addr + 2))\<rparr>"

definition stage_movem_to_mem :: stage_fun where
  "stage_movem_to_mem rom addr op out =
     (if op AND 0xFF80 = 0x4880 \<and> is_movem_reg_to_mem_ea (op_mode op) (op_reg op) then
        let out1 = with_dst rom addr 4 (op_mode op) (op_reg op) (movem_fields rom addr op out)
        in Matched (if dst_mode out1 = NG_M68K_EA_NONE then as_unknown out1 else out1)
      else Fallthrough out)"

definition stage_movem_to_reg :: stage_fun where
  "stage_movem_to_reg rom addr op out =
     (if op AND 0xFF80 = 0x4C80 \<and> is_movem_mem_to_reg_ea (op_mode op) (op_reg op) then
        let out1 = with_src rom addr 4 (op_mode op) (op_reg op) (movem_fields rom addr op out)
        in Matched (if src_mode out1 = NG_M68K_EA_NONE then as_unknown out1 else out1)
      else Fallthrough out)"

definition stage_pea :: stage_fun where
  "stage_pea rom addr op out =
     (if op AND 0xFFC0 = 0x4840 \<and> is_control_ea (op_mode op) (op_reg op) then
        let out1 = with_src rom addr 2 (op_mode op) (op_reg op)
                     (out\<lparr>i_mnemonic := NG_M68K_PEA, i_size := NG_M68K_SIZE_LONG\<rparr>)
        in Matched (if src_mode out1 = NG_M68K_EA_NONE then as_unknown out1 else out1)
      else Fallthrough out)"

definition stage_tas :: stage_fun where
  "stage_tas rom addr op out =
     (if op AND 0xFFC0 = 0x4AC0 \<and> is_data_alterable_ea (op_mode op) (op_reg op) then
        let out1 = with_dst rom addr 2 (op_mode op) (op_reg op)
                     (out\<lparr>i_mnemonic := NG_M68K_TAS, i_size := NG_M68K_SIZE_BYTE\<rparr>);
            out2 = (if dst_mode out1 = NG_M68K_EA_NONE then as_unknown out1 else out1)
        in Matched (populate_unary_dst_legacy_fields out2)
      else Fallthrough out)"

definition stage_tst :: stage_fun where
  "stage_tst rom addr op out =
     (let size_code = op_size2 op; mode = op_mode op; reg = op_reg op in
      if op AND 0xFF00 = 0x4A00 \<and> size_code \<noteq> 3 \<and> mode \<noteq> 1 \<and> \<not> (mode = 7 \<and> reg \<ge> 2) then
        let out1 = with_src rom addr 2 mode reg
                     (out\<lparr>i_mnemonic := NG_M68K_TST, i_size := size_from_opcode_bits size_code\<rparr>)
        in Matched (if src_mode out1 = NG_M68K_EA_NONE then as_unknown out1
                    else if src_mode out1 = NG_M68K_EA_DREG then
                      out1\<lparr>i_form := NG_M68K_FORM_DREG, i_reg := ea_reg (i_src out1)\<rparr>
                    else if is_abs_mode (src_mode out1) then
                      out1\<lparr>i_form := NG_M68K_FORM_ABS,
                           i_absolute_addr := ea_absolute_addr (i_src out1)\<rparr>
                    else if src_mode out1 = NG_M68K_EA_ADISP then
                      out1\<lparr>i_form := NG_M68K_FORM_AREG_DISP, i_reg := ea_reg (i_src out1),
                           i_displacement := ea_displacement (i_src out1)\<rparr>
                    else out1)
      else Fallthrough out)"

definition stage_legacy_clr :: stage_fun where
  "stage_legacy_clr rom addr op out =
     (if op = 0x4239 \<or> op = 0x4279 \<or> op = 0x42B9 then
        Matched (out\<lparr>i_mnemonic := NG_M68K_CLR, i_byte_length := 6,
                     i_size := (if op = 0x4239 then NG_M68K_SIZE_BYTE
                                else if op = 0x42B9 then NG_M68K_SIZE_LONG else NG_M68K_SIZE_WORD),
                     i_form := NG_M68K_FORM_ABS,
                     i_absolute_addr := ng_program_rom_read32 rom (addr + 2)\<rparr>)
      else if op AND 0xFF38 = 0x4200 \<and> op AND 0x00C0 \<noteq> 0x00C0 then
        Matched (out\<lparr>i_mnemonic := NG_M68K_CLR, i_byte_length := 2, i_form := NG_M68K_FORM_DREG,
                     i_reg := op_reg op,
                     i_size := (if op AND 0x00C0 = 0x0080 then NG_M68K_SIZE_LONG
                                else if op AND 0x00C0 = 0x0040 then NG_M68K_SIZE_WORD
                                else NG_M68K_SIZE_BYTE)\<rparr>)
      else Fallthrough out)"

definition stage_legacy_tst :: stage_fun where
  "stage_legacy_tst rom addr op out =
     (if op = 0x4A39 \<or> op = 0x4A79 \<or> op = 0x4AB9 then
        Matched (out\<lparr>i_mnemonic := NG_M68K_TST, i_byte_length := 6,
                     i_size := (if op = 0x4A39 then NG_M68K_SIZE_BYTE
                                else if op = 0x4AB9 then NG_M68K_SIZE_LONG else NG_M68K_SIZE_WORD),
                     i_form := NG_M68K_FORM_ABS,
                     i_absolute_addr := ng_program_rom_read32 rom (addr + 2)\<rparr>)
      else if op AND 0xFFF8 = 0x4A28 then
        Matched (out\<lparr>i_mnemonic := NG_M68K_TST, i_byte_length := 4, i_size := NG_M68K_SIZE_BYTE,
                     i_form := NG_M68K_FORM_AREG_DISP, i_reg := op_reg op,
                     i_displacement := sign16 (ng_program_rom_read16 rom (addr + 2))\<rparr>)
      else Fallthrough out)"

definition stage_line_a_f :: stage_fun where
  "stage_line_a_f rom addr op out =
     (if op AND 0xF000 = 0xA000 \<or> op AND 0xF000 = 0xF000 then
        Matched (out\<lparr>i_mnemonic := NG_M68K_ILLEGAL,
                     i_immediate := (if op AND 0xF000 = 0xA000 then 10 else 11)\<rparr>)
      else Fallthrough out)"

subsection \<open>The decoder\<close>

primrec run_stages :: "stage_fun list \<Rightarrow> stage_fun" where
  "run_stages [] rom addr op out = Fallthrough out"
| "run_stages (f # fs) rom addr op out =
     (case f rom addr op out of
        Matched i \<Rightarrow> Matched i
      | Fallthrough i \<Rightarrow> run_stages fs rom addr op i)"

definition helper_stages :: "stage_fun list" where
  "helper_stages =
     [\<lambda>rom addr op. of_helper (decode_move rom addr op),
      \<lambda>rom addr op. of_helper (decode_alu_address_reg rom addr op),
      \<lambda>rom addr op. of_helper (decode_logic_binary rom addr op),
      \<lambda>rom addr op. of_helper (decode_addsub_dreg_to_ea rom addr op),
      \<lambda>rom addr op. of_helper (decode_exchange op),
      \<lambda>rom addr op. of_helper (decode_shift_rotate rom addr op),
      \<lambda>rom addr op. of_helper (decode_multiply rom addr op),
      \<lambda>rom addr op. of_helper (decode_divide rom addr op),
      \<lambda>rom addr op. of_helper (decode_alu_ea_to_dreg rom addr op),
      \<lambda>rom addr op. of_helper (decode_cmpm op)]"

definition control_stages :: "stage_fun list" where
  "control_stages =
     [stage_misc, stage_link, stage_move_usp, stage_jump_abs_l, stage_jump_pc_disp,
      stage_jump_aind, stage_jump_control, stage_branch, stage_moveq, stage_lea_pc_disp,
      stage_chk, stage_lea, stage_legacy_lea_abs_l, stage_legacy_movea_pc_index]"

definition operand_stages :: "stage_fun list" where
  "operand_stages =
     [\<lambda>rom addr op. of_helper (decode_immediate_to_sr_ccr rom addr op),
      stage_movep, stage_move_from_sr, stage_move_to_sr_ccr, stage_static_bit,
      stage_dynamic_bit, stage_ori_eori, stage_subi_addi, stage_cmpi, stage_andi,
      stage_legacy_andi_disp, stage_legacy_move, stage_legacy_cmpi]"

definition tail_stages :: "stage_fun list" where
  "tail_stages =
     [stage_addx_subx, stage_abcd_sbcd, stage_legacy_add, stage_dbcc_scc, stage_addq_subq,
      stage_clr, stage_negx_neg_not, stage_nbcd, stage_swap_ext, stage_movem_to_mem,
      stage_movem_to_reg, stage_pea, stage_tas, stage_tst, stage_legacy_clr, stage_legacy_tst,
      stage_line_a_f]"

definition decode_stages :: "stage_fun list" where
  "decode_stages = helper_stages @ control_stages @ operand_stages @ tail_stages"

definition stage_out :: "stage \<Rightarrow> ng_m68k_instr" where
  "stage_out st = (case st of Matched i \<Rightarrow> i | Fallthrough i \<Rightarrow> i)"

definition finish_decode :: "ng_program_rom \<Rightarrow> u32 \<Rightarrow> ng_m68k_instr \<Rightarrow> bool \<times> ng_m68k_instr" where
  "finish_decode rom addr out =
     (if i_byte_length out = 0 then (False, out)
      else let last = addr + ucast (i_byte_length out) - 1
           in if last < addr \<or> \<not> ng_program_rom_addr_is_mapped rom last
              then (False, instr_zero\<lparr>i_addr := addr, i_mnemonic := NG_M68K_INVALID\<rparr>)
              else (True, out))"

definition ng_m68k_decode :: "ng_program_rom \<Rightarrow> u32 \<Rightarrow> bool \<times> ng_m68k_instr" where
  "ng_m68k_decode rom addr =
     (let out = instr_zero\<lparr>i_addr := addr, i_mnemonic := NG_M68K_INVALID\<rparr> in
      if \<not> ng_program_rom_addr_is_mapped rom addr \<or> \<not> ng_program_rom_addr_is_mapped rom (addr + 1)
      then (False, out)
      else
        let op = ng_program_rom_read16 rom addr;
            out1 = out\<lparr>i_opcode := op, i_mnemonic := NG_M68K_UNKNOWN, i_byte_length := 2\<rparr>
        in finish_decode rom addr (stage_out (run_stages decode_stages rom addr op out1)))"

end
