(* ===== verification/ProgramRomProps.thy ===== *)
theory ProgramRomProps
  imports ProgramRom
begin

text \<open>
  What the program-ROM component guarantees: the loaders are lossless and never read past
  the file, the derived bank table has a closed form, every address-map operation keeps
  the well-formedness invariant \<open>rom_wf\<close>, and a configured bank is visible in the window.
\<close>

interpretation rom_reader: be_reader ng_program_rom_read8 ng_program_rom_read16 ng_program_rom_read32
proof unfold_locales
  fix rom a
  show "ng_program_rom_read16 rom a =
      be16 (ng_program_rom_read8 rom a) (ng_program_rom_read8 rom (a + 1))"
    by (simp add: ng_program_rom_read16_def be16_def Let_def)
  show "ng_program_rom_read32 rom a =
      be32 (ng_program_rom_read16 rom a) (ng_program_rom_read16 rom (a + 2))"
    by (simp add: ng_program_rom_read32_def be32_def Let_def)
qed

subsection \<open>Byte swapping\<close>

text \<open>The reference: swap the two bytes of every complete pair.\<close>
fun swap_pairs :: "'a list \<Rightarrow> 'a list" where
  "swap_pairs (x # y # xs) = y # x # swap_pairs xs"
| "swap_pairs xs = xs"

lemma length_swap_pairs [simp]: "length (swap_pairs xs) = length xs"
  by (induction xs rule: swap_pairs.induct) auto

lemma swap_pairs_invol [simp]: "swap_pairs (swap_pairs xs) = xs"
  by (induction xs rule: swap_pairs.induct) auto

lemma nth_swap_pairs:
  "i < length xs \<Longrightarrow>
   swap_pairs xs ! i = (if even i then (if i + 1 < length xs then xs ! (i + 1) else xs ! i) else xs ! (i - 1))"
proof (induction xs arbitrary: i rule: swap_pairs.induct)
  case (1 x y xs)
  show ?case
  proof (cases "i < 2")
    case True
    then consider "i = 0" | "i = 1" by linarith
    then show ?thesis by cases auto
  next
    case False
    then obtain j where j: "i = Suc (Suc j)" by (metis add_2_eq_Suc' le_Suc_ex not_less add.commute)
    with 1 show ?thesis by (cases j) auto
  qed
qed auto

lemma byteswap_loop_prefix:
  "length pre = i \<Longrightarrow> byteswap_loop i (length (pre @ xs)) (pre @ xs) = pre @ swap_pairs xs"
proof (induction xs arbitrary: i pre rule: swap_pairs.induct)
  case (1 x y xs)
  have "byteswap_loop i (length (pre @ x # y # xs)) (pre @ x # y # xs) =
        byteswap_loop (i + 2) (length ((pre @ [y, x]) @ xs)) ((pre @ [y, x]) @ xs)"
    using "1.prems" by (subst byteswap_loop.simps) (auto simp: nth_append list_update_append)
  also have "\<dots> = (pre @ [y, x]) @ swap_pairs xs"
    by (rule "1.IH") (use "1.prems" in simp)
  finally show ?case by simp
qed (subst byteswap_loop.simps, auto)+

lemma byteswap_words_eq:
  "length xs = unat sz \<Longrightarrow> byteswap_words xs sz = swap_pairs xs"
  using byteswap_loop_prefix [of "[]" 0 xs] by (simp add: byteswap_words_def)

subsection \<open>Headers and regions\<close>

lemma unat_u64_sum7:
  fixes a b c d e f :: u32
  shows "unat ((0x1000 :: u64) + ucast a + ucast b + ucast c + ucast d + ucast e + ucast f) =
     0x1000 + unat a + unat b + unat c + unat d + unat e + unat f"
  using unat_below [of a] unat_below [of b] unat_below [of c] unat_below [of d]
    unat_below [of e] unat_below [of f]
  by (simp add: unat_word_ariths unat_ucast_up)

lemma parse_neo_header_sizes:
  assumes "parse_neo_header file_data file_size = Some h"
  shows "unat file_size = 0x1000 + unat (p_size h) + unat (s_size h) + unat (m_size h) +
           unat (v1_size h) + unat (v2_size h) + unat (c_size h)"
    and "p_size h \<noteq> 0"
proof -
  have eq: "(0x1000 :: u64) + ucast (p_size h) + ucast (s_size h) + ucast (m_size h) +
      ucast (v1_size h) + ucast (v2_size h) + ucast (c_size h) = ucast file_size"
    using assms
    by (auto simp: parse_neo_header_def NEO_HEADER_SIZE_def Let_def simp del: split_paired_All split: if_splits)
  show "p_size h \<noteq> 0"
    using assms by (auto simp: parse_neo_header_def Let_def split: if_splits)
  show "unat file_size = 0x1000 + unat (p_size h) + unat (s_size h) + unat (m_size h) +
           unat (v1_size h) + unat (v2_size h) + unat (c_size h)"
    using arg_cong [OF eq, of unat] by (simp add: unat_u64_sum7 unat_ucast_up)
qed

lemma header_size_nat: "unat NEO_HEADER_SIZE = 0x1000"
  by (simp add: NEO_HEADER_SIZE_def)

lemma copy_region_ok:
  "unat sz \<le> length xs \<Longrightarrow>
   copy_region xs sz = Inr \<lparr>region_data = take (unat sz) xs, region_size = sz\<rparr>"
  by (simp add: copy_region_def)

lemma read_whole_file_SomeD:
  assumes "read_whole_file fs path = Some (bytes, sz)"
  shows "fs path = Some bytes" and "unat sz \<le> length bytes" and "unat sz = length bytes mod 2 ^ 32"
  using assms by (auto simp: read_whole_file_def unsigned_of_nat take_bit_nat_eq_self_iff take_bit_eq_mod split: option.splits)

lemma neo_image_load_ok:
  assumes rd: "read_whole_file fs path = Some (bytes, sz)"
    and hdr: "parse_neo_header bytes sz = Some h"
  shows "ng_neo_rom_image_load fs path =
    (let body = drop 0x1000 bytes; p = unat (p_size h); s = unat (s_size h); m = unat (m_size h);
         v1 = unat (v1_size h); v2 = unat (v2_size h)
     in Inr \<lparr>image_p = \<lparr>region_data = swap_pairs (take p body), region_size = p_size h\<rparr>,
             image_s = \<lparr>region_data = take s (drop p body), region_size = s_size h\<rparr>,
             image_m = \<lparr>region_data = take m (drop (p + s) body), region_size = m_size h\<rparr>,
             image_v1 = \<lparr>region_data = take v1 (drop (p + s + m) body), region_size = v1_size h\<rparr>,
             image_v2 = \<lparr>region_data = take v2 (drop (p + s + m + v1) body), region_size = v2_size h\<rparr>,
             image_c = \<lparr>region_data = take (unat (c_size h)) (drop (p + s + m + v1 + v2) body),
                        region_size = c_size h\<rparr>\<rparr>)"
proof -
  have len: "0x1000 + unat (p_size h) + unat (s_size h) + unat (m_size h) +
      unat (v1_size h) + unat (v2_size h) + unat (c_size h) \<le> length bytes"
    using read_whole_file_SomeD (2) [OF rd] parse_neo_header_sizes (1) [OF hdr] by simp
  have "byteswap_words (take (unat (p_size h)) (drop 0x1000 bytes)) (p_size h) =
      swap_pairs (take (unat (p_size h)) (drop 0x1000 bytes))"
    by (rule byteswap_words_eq) (use len in simp)
  then show ?thesis
    using rd hdr len
    by (simp add: ng_neo_rom_image_load_def Let_def copy_region_ok header_size_nat add.commute add.left_commute)
qed

subsection \<open>The bank table\<close>

definition tables_256 :: "ng_program_rom \<Rightarrow> bool" where
  "tables_256 rom \<longleftrightarrow>
     length (bank_offsets rom) = 256 \<and> length (bank_sizes rom) = 256 \<and>
     length (bank_configured rom) = 256"

definition bank_in_bounds :: "ng_program_rom \<Rightarrow> nat \<Rightarrow> bool" where
  "bank_in_bounds rom k \<longleftrightarrow>
     unat (bank_offsets rom ! k) + unat (bank_sizes rom ! k) \<le> unat (rom_size rom) \<and>
     bank_sizes rom ! k \<le> bank_window_size rom"

definition rom_wf :: "ng_program_rom \<Rightarrow> bool" where
  "rom_wf rom \<longleftrightarrow>
     unat (rom_size rom) \<le> length (rom_data rom) \<and>
     tables_256 rom \<and>
     bank_count rom \<le> NG_PROGRAM_ROM_MAX_BANKS \<and>
     list_all (\<lambda>k. bank_configured rom ! k \<noteq> 0 \<longrightarrow> bank_in_bounds rom k) [0..<256]"

text \<open>Start of bank \<open>k\<close> in the image, as a natural number.\<close>
definition bank_start :: "ng_program_rom \<Rightarrow> nat \<Rightarrow> nat" where
  "bank_start rom k = unat (fixed_size rom) + k * unat (bank_window_size rom)"

lemma bank_start_word:
  fixes i :: u32
  assumes "unat i < 256"
  shows "unat ((ucast (fixed_size rom) :: u64) + ucast i * ucast (bank_window_size rom)) = bank_start rom (unat i)"
proof -
  define p where "p = unat i * unat (bank_window_size rom)"
  have "p \<le> 255 * unat (bank_window_size rom)"
    unfolding p_def using assms by (intro mult_right_mono) auto
  then have "p < 2 ^ 40" using unat_below [of "bank_window_size rom"] by simp
  then show ?thesis
    using unat_below [of "fixed_size rom"]
    by (simp add: bank_start_def unat_word_ariths unat_ucast_up flip: p_def)
qed

lemma bank_step_words:
  fixes rom :: ng_program_rom and i :: u32
  assumes "unat i < 256"
  defines "off64 \<equiv> (ucast (fixed_size rom) :: u64) + ucast i * ucast (bank_window_size rom)"
  shows "(ucast (rom_size rom) \<le> off64) = (unat (rom_size rom) \<le> bank_start rom (unat i))"
    and "bank_start rom (unat i) < unat (rom_size rom) \<Longrightarrow>
           unat (ucast off64 :: u32) = bank_start rom (unat i)"
proof -
  note n = bank_start_word [OF assms(1), of rom, folded off64_def]
  show "(ucast (rom_size rom) \<le> off64) = (unat (rom_size rom) \<le> bank_start rom (unat i))"
    by (simp add: word_le_nat_alt n unat_ucast_up)
  assume "bank_start rom (unat i) < unat (rom_size rom)"
  then have "unat off64 < 2 ^ 32"
    using n unat_below [of "rom_size rom"] by simp
  then show "unat (ucast off64 :: u32) = bank_start rom (unat i)"
    by (simp add: unsigned_ucast_eq take_bit_nat_eq_self n)
qed

definition bank_set :: "ng_program_rom \<Rightarrow> nat \<Rightarrow> nat \<Rightarrow> nat \<Rightarrow> bool" where
  "bank_set rom i n k \<longleftrightarrow> i \<le> k \<and> k < n \<and> bank_start rom k < unat (rom_size rom)"

definition table_entry :: "ng_program_rom \<Rightarrow> ng_program_rom \<Rightarrow> nat \<Rightarrow> bool" where
  "table_entry rom r k \<longleftrightarrow>
     unat (bank_offsets r ! k) = bank_start rom k \<and>
     unat (bank_sizes r ! k) = min (unat (bank_window_size rom)) (unat (rom_size rom) - bank_start rom k) \<and>
     bank_configured r ! k = 1"

definition table_same :: "ng_program_rom \<Rightarrow> ng_program_rom \<Rightarrow> nat \<Rightarrow> bool" where
  "table_same rom r k \<longleftrightarrow>
     bank_offsets r ! k = bank_offsets rom ! k \<and> bank_sizes r ! k = bank_sizes rom ! k \<and>
     bank_configured r ! k = bank_configured rom ! k"

definition outside_tables_same :: "ng_program_rom \<Rightarrow> ng_program_rom \<Rightarrow> bool" where
  "outside_tables_same rom r \<longleftrightarrow>
     rom_data r = rom_data rom \<and> rom_size r = rom_size rom \<and> fixed_base r = fixed_base rom \<and>
     fixed_size r = fixed_size rom \<and> bank_window_base r = bank_window_base rom \<and>
     bank_window_size r = bank_window_size rom \<and> active_bank r = active_bank rom \<and>
     bank_count r = bank_count rom \<and> address_map_enabled r = address_map_enabled rom"

definition set_bank_entry :: "ng_program_rom \<Rightarrow> nat \<Rightarrow> u32 \<Rightarrow> u32 \<Rightarrow> ng_program_rom" where
  "set_bank_entry rom k offset sz =
     rom\<lparr>bank_offsets := (bank_offsets rom)[k := offset],
         bank_sizes := (bank_sizes rom)[k := sz],
         bank_configured := (bank_configured rom)[k := 1]\<rparr>"

lemma set_bank_entry_frame [simp]:
  "outside_tables_same rom (set_bank_entry rom k v w)"
  "tables_256 (set_bank_entry rom k v w) = tables_256 rom"
  "bank_start (set_bank_entry rom k v w) = bank_start rom"
  "rom_size (set_bank_entry rom k v w) = rom_size rom"
  "bank_window_size (set_bank_entry rom k v w) = bank_window_size rom"
  by (simp_all add: set_bank_entry_def outside_tables_same_def tables_256_def bank_start_def fun_eq_iff)

lemma outside_tables_same_trans:
  "outside_tables_same a b \<Longrightarrow> outside_tables_same b c \<Longrightarrow> outside_tables_same a c"
  by (simp add: outside_tables_same_def)

lemma min_u32_nat: "unat (min_u32 a b) = min (unat a) (unat b)"
  by (simp add: min_u32_def word_less_nat_alt)

lemma bank_table_loop_step:
  assumes "i < n" and "unat n \<le> 256" and "bank_start rom (unat i) < unat (rom_size rom)"
  obtains offset sz where
    "bank_table_loop i n rom = bank_table_loop (i + 1) n (set_bank_entry rom (unat i) offset sz)"
    "unat offset = bank_start rom (unat i)"
    "unat sz = min (unat (bank_window_size rom)) (unat (rom_size rom) - bank_start rom (unat i))"
proof -
  define off64 where "off64 = (ucast (fixed_size rom) :: u64) + ucast i * ucast (bank_window_size rom)"
  have i: "unat i < 256" using assms(1,2) by (simp add: word_less_nat_alt)
  note w = bank_step_words [OF i, of rom, folded off64_def]
  have off: "unat (ucast off64 :: u32) = bank_start rom (unat i)" using w(2) assms(3) .
  then have "unat (rom_size rom - ucast off64) = unat (rom_size rom) - bank_start rom (unat i)"
    using assms(3) by (simp add: unat_sub word_le_nat_alt)
  moreover have "bank_table_loop i n rom =
      bank_table_loop (i + 1) n (set_bank_entry rom (unat i) (ucast off64)
        (min_u32 (bank_window_size rom) (rom_size rom - ucast off64)))"
    using assms w(1) by (subst bank_table_loop.simps) (simp add: set_bank_entry_def Let_def off64_def)
  ultimately show thesis using off by (auto intro: that simp: min_u32_nat)
qed

lemma bank_table_loop_stop:
  assumes "unat n \<le> 256" and "\<not> (i < n \<and> bank_start rom (unat i) < unat (rom_size rom))"
  shows "bank_table_loop i n rom = rom"
proof (cases "i < n")
  case True
  then have "unat i < 256" using assms(1) by (simp add: word_less_nat_alt)
  from True assms bank_step_words(1) [OF this, of rom] show ?thesis
    by (subst bank_table_loop.simps) (simp add: Let_def)
qed (simp add: bank_table_loop.simps)

lemma bank_start_mono: "j \<le> k \<Longrightarrow> bank_start rom j \<le> bank_start rom k"
  by (simp add: bank_start_def)

lemma bank_table_loop_correct:
  assumes "unat n \<le> 256" and "tables_256 rom"
  shows "outside_tables_same rom (bank_table_loop i n rom) \<and>
         tables_256 (bank_table_loop i n rom) \<and>
         (\<forall>k < 256. if bank_set rom (unat i) (unat n) k
                    then table_entry rom (bank_table_loop i n rom) k
                    else table_same rom (bank_table_loop i n rom) k)"
  using assms
proof (induction "unat n - unat i" arbitrary: i rom rule: less_induct)
  case less
  show ?case
  proof (cases "i < n \<and> bank_start rom (unat i) < unat (rom_size rom)")
    case True
    then obtain offset sz where
      eq: "bank_table_loop i n rom = bank_table_loop (i + 1) n (set_bank_entry rom (unat i) offset sz)"
      and off: "unat offset = bank_start rom (unat i)"
      and sz: "unat sz = min (unat (bank_window_size rom)) (unat (rom_size rom) - bank_start rom (unat i))"
      using less.prems(1) by (blast elim: bank_table_loop_step)
    let ?rom' = "set_bank_entry rom (unat i) offset sz"
    have suc: "unat (i + 1) = unat i + 1" using True no_wrap_succ by blast
    have lt: "unat i < unat n" "unat i < 256" using True less.prems(1) by (simp_all add: word_less_nat_alt)
    have IH: "outside_tables_same ?rom' (bank_table_loop (i + 1) n ?rom') \<and>
         tables_256 (bank_table_loop (i + 1) n ?rom') \<and>
         (\<forall>k < 256. if bank_set ?rom' (unat (i + 1)) (unat n) k
                    then table_entry ?rom' (bank_table_loop (i + 1) n ?rom') k
                    else table_same ?rom' (bank_table_loop (i + 1) n ?rom') k)"
      by (rule less.hyps) (use lt suc less.prems in auto)
    have ent: "\<And>r k. table_entry ?rom' r k = table_entry rom r k"
      by (simp add: table_entry_def)
    have "if bank_set rom (unat i) (unat n) k
          then table_entry rom (bank_table_loop i n rom) k
          else table_same rom (bank_table_loop i n rom) k" if k: "k < 256" for k
    proof (cases "k = unat i")
      case True
      then have "table_same ?rom' (bank_table_loop (i + 1) n ?rom') k"
        using IH k suc by (auto simp: bank_set_def)
      with True k less.prems(2) off sz eq have "table_entry rom (bank_table_loop i n rom) k"
        by (simp add: table_same_def table_entry_def set_bank_entry_def tables_256_def)
      with True \<open>i < n \<and> _\<close> lt show ?thesis by (simp add: bank_set_def)
    next
      case False
      then have "bank_set rom (unat i) (unat n) k = bank_set ?rom' (unat (i + 1)) (unat n) k"
        using suc by (auto simp: bank_set_def)
      moreover have "table_same ?rom' r k = table_same rom r k" for r
        using False by (simp add: table_same_def set_bank_entry_def)
      ultimately show ?thesis using IH k eq ent by auto
    qed
    moreover have "outside_tables_same rom (bank_table_loop i n rom)"
      unfolding eq by (rule outside_tables_same_trans [OF set_bank_entry_frame(1)]) (use IH in blast)
    moreover have "tables_256 (bank_table_loop i n rom)" using IH eq by simp
    ultimately show ?thesis by blast
  next
    case False
    have "\<not> bank_set rom (unat i) (unat n) k" for k
      using False bank_start_mono [of "unat i" k rom] by (auto simp: bank_set_def word_less_nat_alt)
    with bank_table_loop_stop [OF less.prems(1) False] less.prems(2) show ?thesis
      by (simp add: outside_tables_same_def table_same_def)
  qed
qed

lemma max_banks_nat [simp]: "unat NG_PROGRAM_ROM_MAX_BANKS = 256"
  by (simp add: NG_PROGRAM_ROM_MAX_BANKS_def)

lemma below_max_banks: "k < NG_PROGRAM_ROM_MAX_BANKS \<longleftrightarrow> unat k < 256"
  by (simp add: word_less_nat_alt)

text \<open>The state in which \<open>ng_program_rom_set_address_map\<close> enters its loop.\<close>

definition mapped_base :: "ng_program_rom \<Rightarrow> u32 \<Rightarrow> u32 \<Rightarrow> u32 \<Rightarrow> u32 \<Rightarrow> ng_program_rom" where
  "mapped_base rom fb fs wb ws =
     (let rom1 = ng_program_rom_clear_banks
                   (rom\<lparr>fixed_base := fb, fixed_size := fs, bank_window_base := wb,
                        bank_window_size := ws, active_bank := 0\<rparr>);
          dc = ng_program_rom_derived_bank_count rom1 fs ws
      in rom1\<lparr>bank_count := (if NG_PROGRAM_ROM_MAX_BANKS < dc then NG_PROGRAM_ROM_MAX_BANKS else dc)\<rparr>)"

lemma set_address_map_base:
  "ng_program_rom_set_address_map rom fb fs wb ws =
     (bank_table_loop 0 (bank_count (mapped_base rom fb fs wb ws)) (mapped_base rom fb fs wb ws))
       \<lparr>address_map_enabled := (fs \<noteq> 0 \<or> ws \<noteq> 0)\<rparr>"
  by (simp add: ng_program_rom_set_address_map_def mapped_base_def Let_def)

lemma mapped_base_simps [simp]:
  "tables_256 (mapped_base rom fb fs wb ws)"
  "rom_data (mapped_base rom fb fs wb ws) = rom_data rom"
  "rom_size (mapped_base rom fb fs wb ws) = rom_size rom"
  "fixed_base (mapped_base rom fb fs wb ws) = fb"
  "fixed_size (mapped_base rom fb fs wb ws) = fs"
  "bank_window_base (mapped_base rom fb fs wb ws) = wb"
  "bank_window_size (mapped_base rom fb fs wb ws) = ws"
  "k < 256 \<Longrightarrow> bank_configured (mapped_base rom fb fs wb ws) ! k = 0"
  "bank_start (mapped_base rom fb fs wb ws) k = unat fs + k * unat ws"
  "unat (bank_count (mapped_base rom fb fs wb ws)) \<le> 256"
  by (auto simp: mapped_base_def tables_256_def ng_program_rom_clear_banks_def Let_def bank_start_def
      word_less_nat_alt)

lemmas address_map_loop =
  bank_table_loop_correct [where rom = "mapped_base rom fb fs wb ws"
      and n = "bank_count (mapped_base rom fb fs wb ws)" and i = 0,
      OF mapped_base_simps(10) mapped_base_simps(1)] for rom fb fs wb ws

lemma set_address_map_wf:
  assumes "unat (rom_size rom) \<le> length (rom_data rom)"
  shows "rom_wf (ng_program_rom_set_address_map rom fb fs wb ws)"
proof -
  let ?b = "mapped_base rom fb fs wb ws"
  let ?l = "bank_table_loop 0 (bank_count ?b) ?b"
  note L = address_map_loop [of rom fb fs wb ws]
  have "bank_in_bounds ?l k" if "k < 256" "bank_configured ?l ! k \<noteq> 0" for k
  proof -
    have "bank_set ?b 0 (unat (bank_count ?b)) k"
    proof (rule ccontr)
      assume "\<not> bank_set ?b 0 (unat (bank_count ?b)) k"
      with L that(1) have "table_same ?b ?l k" by simp
      with that show False by (simp add: table_same_def)
    qed
    then have "table_entry ?b ?l k" "unat fs + k * unat ws < unat (rom_size rom)"
      using L that by (auto simp: bank_set_def)
    with L show ?thesis
      by (auto simp: table_entry_def bank_in_bounds_def outside_tables_same_def word_le_nat_alt)
  qed
  with L assms show ?thesis
    by (auto simp: set_address_map_base rom_wf_def tables_256_def outside_tables_same_def bank_in_bounds_def
        word_le_nat_alt list_all_iff)
qed

lemma derived_bank_count_ceil:
  assumes "fs < rom_size rom" and "ws \<noteq> 0"
    and "unat (rom_size rom) - unat fs + unat ws \<le> 2 ^ 32"
  shows "unat (ng_program_rom_derived_bank_count rom fs ws) =
         (unat (rom_size rom) - unat fs + unat ws - 1) div unat ws"
proof -
  have ws: "0 < unat ws" using assms(2) by (simp add: unat_gt_0)
  have d: "unat (rom_size rom - fs) = unat (rom_size rom) - unat fs"
    using assms(1) by (simp add: unat_sub word_less_nat_alt word_le_nat_alt)
  have eq: "rom_size rom - fs + ws - 1 = (rom_size rom - fs) + (ws - 1)" by simp
  have "unat (ws - 1) = unat ws - 1"
    using assms(2) by (simp add: unat_minus_one)
  then have "unat (rom_size rom - fs + ws - 1) = unat (rom_size rom) - unat fs + unat ws - 1"
    unfolding eq unat_word_ariths(1) using assms(3) ws d by simp
  with assms(1,2) show ?thesis
    by (simp add: ng_program_rom_derived_bank_count_def Let_def unat_div word_less_nat_alt word_le_nat_alt)
qed

lemma ceil_div_start:
  assumes "0 < (w::nat)" and "k < (b + w - 1) div w"
  shows "k * w < b"
proof -
  have "(k + 1) * w \<le> (b + w - 1) div w * w" using assms(2) by (intro mult_right_mono) auto
  also have "\<dots> \<le> b + w - 1" by simp
  finally show ?thesis using assms(1) by simp
qed

lemma set_address_map_banks:
  fixes fb wb :: u32
  assumes "fs < rom_size rom" and "ws \<noteq> 0"
    and "unat (rom_size rom) - unat fs + unat ws \<le> 2 ^ 32"
    and "k < min 256 ((unat (rom_size rom) - unat fs + unat ws - 1) div unat ws)"
  defines "r \<equiv> ng_program_rom_set_address_map rom fb fs wb ws"
  shows "unat (bank_count r) = min 256 ((unat (rom_size rom) - unat fs + unat ws - 1) div unat ws)"
    and "bank_configured r ! k = 1"
    and "unat (bank_offsets r ! k) = unat fs + k * unat ws"
    and "unat (bank_sizes r ! k) = min (unat ws) (unat (rom_size rom) - (unat fs + k * unat ws))"
proof -
  let ?b = "mapped_base rom fb fs wb ws"
  note L = address_map_loop [of rom fb fs wb ws]
  have cnt: "unat (bank_count ?b) = min 256 ((unat (rom_size rom) - unat fs + unat ws - 1) div unat ws)"
    using derived_bank_count_ceil [of fs "ng_program_rom_clear_banks
                   (rom\<lparr>fixed_base := fb, fixed_size := fs, bank_window_base := wb,
                        bank_window_size := ws, active_bank := 0\<rparr>)" ws] assms(1-3)
    by (simp add: mapped_base_def Let_def ng_program_rom_clear_banks_def word_less_nat_alt min_def)
  show "unat (bank_count r) = min 256 ((unat (rom_size rom) - unat fs + unat ws - 1) div unat ws)"
    using L cnt by (simp add: r_def set_address_map_base outside_tables_same_def)
  have "k * unat ws < unat (rom_size rom) - unat fs"
    using assms(2,4) by (intro ceil_div_start) (auto simp: unat_gt_0)
  then have "bank_set ?b 0 (unat (bank_count ?b)) k"
    using cnt assms(4) by (simp add: bank_set_def)
  then have "table_entry ?b (bank_table_loop 0 (bank_count ?b) ?b) k"
    using L assms(4) by (auto)
  then show "bank_configured r ! k = 1"
    and "unat (bank_offsets r ! k) = unat fs + k * unat ws"
    and "unat (bank_sizes r ! k) = min (unat ws) (unat (rom_size rom) - (unat fs + k * unat ws))"
    by (simp_all add: r_def set_address_map_base table_entry_def)
qed

lemma configure_bank_SomeD:
  assumes "ng_program_rom_configure_bank rom b off sz = Some rom'"
  shows "address_map_enabled rom" and "bank_window_size rom \<noteq> 0" and "unat b < 256"
    and "unat off + unat sz \<le> unat (rom_size rom)" and "sz \<le> bank_window_size rom"
    and "rom' = rom\<lparr>bank_offsets := (bank_offsets rom)[unat b := off],
                     bank_sizes := (bank_sizes rom)[unat b := sz],
                     bank_configured := (bank_configured rom)[unat b := 1],
                     bank_count := (if bank_count rom \<le> b then b + 1 else bank_count rom)\<rparr>"
  using assms unat_below [of off] unat_below [of sz]
  by (auto simp: ng_program_rom_configure_bank_def below_max_banks word_le_nat_alt word_less_nat_alt
      unat_word_ariths unat_ucast_up not_le split: if_splits)

lemma configure_bank_wf:
  assumes wf: "rom_wf rom" and cfg: "ng_program_rom_configure_bank rom b off sz = Some rom'"
  shows "rom_wf rom'"
proof -
  note c = configure_bank_SomeD [OF cfg]
  have "unat (b + 1) = unat b + 1" using c(3) by (simp add: unat_word_ariths)
  with c wf show ?thesis
    by (auto simp: c(6) rom_wf_def tables_256_def bank_in_bounds_def word_le_nat_alt list_all_iff nth_list_update)
qed

lemma select_bank_wf: "rom_wf rom \<Longrightarrow> rom_wf (ng_program_rom_select_bank rom b)"
  by (simp add: rom_wf_def ng_program_rom_select_bank_def tables_256_def bank_in_bounds_def)

lemma translate_in_bounds:
  assumes "ng_program_rom_translate_addr rom addr = Some offset"
  shows "offset < rom_size rom"
proof -
  have "translate_banked rom addr = Some offset \<Longrightarrow> offset < rom_size rom"
  proof -
    assume "translate_banked rom addr = Some offset"
    then obtain o64 :: u64 where "o64 < ucast (rom_size rom)" "offset = ucast o64"
      by (auto simp: translate_banked_def Let_def split: if_splits)
    then have "unat o64 < unat (rom_size rom)" by (simp add: word_less_nat_alt unat_ucast_up)
    moreover have "unat offset = unat o64"
      using \<open>offset = _\<close> calculation unat_below [of "rom_size rom"]
      by (simp add: unsigned_ucast_eq take_bit_nat_eq_self)
    ultimately show ?thesis by (simp add: word_less_nat_alt)
  qed
  with assms show ?thesis
    by (auto simp: ng_program_rom_translate_addr_def translate_fixed_def Let_def split: if_splits option.splits)
qed

lemma read8_unmapped:
  "\<not> ng_program_rom_addr_is_mapped rom addr \<Longrightarrow> ng_program_rom_read8 rom addr = 0xFF"
  by (simp add: ng_program_rom_addr_is_mapped_def ng_program_rom_read8_def)

lemma configured_bank_read:
  assumes wf: "rom_wf rom"
    and cfg: "ng_program_rom_configure_bank rom b off sz = Some rom'"
    and rel: "rel < sz" and nowrap: "unat (bank_window_base rom) + unat rel < 2 ^ 32"
    and not_fixed: "translate_fixed rom (bank_window_base rom + rel) = None"
  shows "ng_program_rom_read8 (ng_program_rom_select_bank rom' b) (bank_window_base rom + rel) =
         rom_data rom ! (unat off + unat rel)"
proof -
  define r where "r = ng_program_rom_select_bank rom' b"
  note en = configure_bank_SomeD(1) [OF cfg] and w0 = configure_bank_SomeD(2) [OF cfg]
    and b = configure_bank_SomeD(3) [OF cfg] and in_file = configure_bank_SomeD(4) [OF cfg]
    and win = configure_bank_SomeD(5) [OF cfg] and rom' = configure_bank_SomeD(6) [OF cfg]
  have cnt: "b < bank_count r"
    using b no_wrap_succ [of b 256] by (auto simp: r_def rom' ng_program_rom_select_bank_def word_less_nat_alt not_le)
  have "translate_fixed r (bank_window_base rom + rel) = None"
    using not_fixed
    by (auto simp: r_def rom' translate_fixed_def ng_program_rom_select_bank_def Let_def split: if_splits)
  moreover have "bank_window_base rom \<le> bank_window_base rom + rel"
    using nowrap by (simp add: word_le_nat_alt unat_word_ariths)
  moreover have "unat ((ucast off :: u64) + ucast rel) = unat off + unat rel"
    using unat_below [of off] unat_below [of rel] by (simp add: unat_word_ariths unat_ucast_up)
  moreover have "unat off + unat rel < unat (rom_size rom)"
    using rel in_file by (simp add: word_less_nat_alt)
  ultimately have "ng_program_rom_translate_addr r (bank_window_base rom + rel) = Some (ucast ((ucast off :: u64) + ucast rel))"
    using en w0 rel win cnt b wf
    by (auto simp: ng_program_rom_translate_addr_def translate_banked_def r_def rom' ng_program_rom_select_bank_def
        Let_def below_max_banks tables_256_def rom_wf_def word_less_nat_alt word_le_nat_alt unat_ucast_up)
  moreover have "unat (ucast ((ucast off :: u64) + ucast rel) :: u32) = unat off + unat rel"
    using \<open>unat off + unat rel < _\<close> \<open>unat ((ucast off :: u64) + ucast rel) = _\<close> unat_below [of "rom_size rom"]
    by (simp add: unsigned_ucast_eq take_bit_nat_eq_self)
  ultimately show ?thesis
    by (simp add: ng_program_rom_read8_def r_def rom' ng_program_rom_select_bank_def)
qed

subsection \<open>Sequences of map operations\<close>

datatype rom_op =
    SetAddressMap u32 u32 u32 u32
  | ConfigureBank u32 u32 u32
  | SelectBank u32

text \<open>A rejected \<open>configure_bank\<close> leaves the ROM as it was.\<close>

fun rom_step :: "rom_op \<Rightarrow> ng_program_rom \<Rightarrow> ng_program_rom" where
  "rom_step (SetAddressMap fb fs wb ws) rom = ng_program_rom_set_address_map rom fb fs wb ws"
| "rom_step (ConfigureBank b off sz) rom =
     (case ng_program_rom_configure_bank rom b off sz of None \<Rightarrow> rom | Some rom' \<Rightarrow> rom')"
| "rom_step (SelectBank b) rom = ng_program_rom_select_bank rom b"

lemma rom_step_wf: "rom_wf rom \<Longrightarrow> rom_wf (rom_step x rom)"
proof (cases x)
  case (SetAddressMap fb fs wb ws)
  moreover assume "rom_wf rom"
  then have "unat (rom_size rom) \<le> length (rom_data rom)" by (simp add: rom_wf_def)
  ultimately show ?thesis by (simp add: set_address_map_wf)
next
  case (ConfigureBank b off sz)
  then show "rom_wf rom \<Longrightarrow> ?thesis" by (auto split: option.splits intro: configure_bank_wf)
next
  case (SelectBank b)
  then show "rom_wf rom \<Longrightarrow> ?thesis" by (simp add: select_bank_wf)
qed

interpretation rom_steps: guarded_steps rom_wf rom_step
  by unfold_locales (rule rom_step_wf)

lemma fresh_rom_wf: "unat n \<le> length d \<Longrightarrow> rom_wf (rom_zero\<lparr>rom_data := d, rom_size := n\<rparr>)"
  by (auto simp: rom_wf_def list_all_iff rom_zero_def tables_256_def)

lemma length_byteswap_words: "length xs = unat n \<Longrightarrow> length (byteswap_words xs n) = length xs"
  by (simp add: byteswap_words_eq)

lemma load_neo_wf:
  assumes "ng_program_rom_load_neo fs path = Inr rom"
  shows "rom_wf rom"
proof -
  obtain d n where "rom = rom_zero\<lparr>rom_data := d, rom_size := n\<rparr>" "unat n \<le> length d"
    using assms by (auto simp: ng_program_rom_load_neo_def Let_def length_byteswap_words
        split: option.splits prod.splits if_splits)
  then show ?thesis by (simp add: fresh_rom_wf)
qed

text \<open>The two \<open>.neo\<close> loaders make the same decisions before they copy anything.\<close>

lemma neo_load_cases [case_names Fail Ok]:
  obtains e where "ng_neo_rom_image_load fs path = Inl e" and "ng_program_rom_load_neo fs path = Inl e"
    and "e \<noteq> BufferOverflow"
  | bytes sz h where "read_whole_file fs path = Some (bytes, sz)" and "parse_neo_header bytes sz = Some h"
    and "0x1000 + unat (p_size h) \<le> length bytes"
proof (cases "read_whole_file fs path")
  case None
  then show ?thesis by (auto simp: ng_neo_rom_image_load_def ng_program_rom_load_neo_def intro: that(1))
next
  case (Some bs)
  obtain bytes sz where rd: "read_whole_file fs path = Some (bytes, sz)" using Some by (cases bs) simp
  show ?thesis
  proof (cases "parse_neo_header bytes sz")
    case None
    with rd show ?thesis
      by (auto simp: ng_neo_rom_image_load_def ng_program_rom_load_neo_def intro: that(1))
  next
    case (Some h)
    have "0x1000 + unat (p_size h) \<le> length bytes"
      using parse_neo_header_sizes(1) [OF Some] read_whole_file_SomeD(2) [OF rd] by simp
    with rd Some show ?thesis by (rule that(2))
  qed
qed

subsection \<open>Properties\<close>

text \<open>
  C27 (roundtrip): a successful \<open>.neo\<close> load is lossless. The six regions of the image,
  with the byte swap of P undone, are exactly the bytes of the file that follow the
  4096-byte header, in order.
\<close>

theorem neo_image_lossless:
  assumes load: "ng_neo_rom_image_load fs path = Inr img"
    and bytes: "fs path = Some bytes" and small: "length bytes < 2 ^ 32"
  shows "swap_pairs (region_data (image_p img)) @ region_data (image_s img) @
         region_data (image_m img) @ region_data (image_v1 img) @ region_data (image_v2 img) @
         region_data (image_c img) = drop 0x1000 bytes"
proof -
  have rd: "read_whole_file fs path = Some (bytes, of_nat (length bytes))"
    using bytes by (simp add: read_whole_file_def)
  obtain h where hdr: "parse_neo_header bytes (of_nat (length bytes)) = Some h"
    using load rd by (auto simp: ng_neo_rom_image_load_def split: option.splits)
  have "unat (of_nat (length bytes) :: u32) = length bytes"
    using small by (simp add: unsigned_of_nat take_bit_nat_eq_self)
  then have len: "length bytes = 0x1000 + unat (p_size h) + unat (s_size h) + unat (m_size h) +
           unat (v1_size h) + unat (v2_size h) + unat (c_size h)"
    using parse_neo_header_sizes(1) [OF hdr] by simp
  note img = load [unfolded neo_image_load_ok [OF rd hdr] Let_def sum.inject, symmetric]
  show ?thesis
    unfolding img using len by (simp only: consecutive_slices swap_pairs_invol
        ng_neo_rom_image.select_convs ng_neo_rom_region.select_convs) simp
qed

text \<open>A container with a two-byte P region and a three-byte S region.\<close>

definition sample_neo :: "u8 list" where
  "sample_neo =
     [0x4E, 0x45, 0x4F, 1,  2, 0, 0, 0,  3, 0, 0, 0,  0, 0, 0, 0,
      0, 0, 0, 0,  0, 0, 0, 0,  0, 0, 0, 0] @ replicate 4068 0 @ [0x12, 0x34, 1, 2, 3]"

definition sample_neo_fs :: file_system where
  "sample_neo_fs path = (if path = ''a.neo'' then Some sample_neo else None)"

definition sample_neo_image :: ng_neo_rom_image where
  "sample_neo_image =
     \<lparr>image_p = \<lparr>region_data = [0x34, 0x12], region_size = 2\<rparr>,
      image_s = \<lparr>region_data = [1, 2, 3], region_size = 3\<rparr>,
      image_m = region_zero, image_v1 = region_zero, image_v2 = region_zero,
      image_c = region_zero\<rparr>"

lemma sample_neo_header:
  "parse_neo_header sample_neo 4101 =
     Some \<lparr>p_size = 2, s_size = 3, m_size = 0, v1_size = 0, v2_size = 0, c_size = 0\<rparr>"
  by (simp add: parse_neo_header_def sample_neo_def NEO_HEADER_SIZE_def read_le32_def Let_def)

lemma sample_neo_load: "ng_neo_rom_image_load sample_neo_fs ''a.neo'' = Inr sample_neo_image"
proof -
  have "read_whole_file sample_neo_fs ''a.neo'' = Some (sample_neo, 4101)"
    by (simp add: read_whole_file_def sample_neo_fs_def sample_neo_def)
  from neo_image_load_ok [OF this sample_neo_header] show ?thesis
    by (simp add: sample_neo_image_def region_zero_def sample_neo_def)
qed

theorem neo_image_lossless_witness:
  "swap_pairs (region_data (image_p sample_neo_image)) @ region_data (image_s sample_neo_image) =
     [0x12, 0x34, 1, 2, 3]"
proof -
  have "sample_neo_fs ''a.neo'' = Some sample_neo" by (simp add: sample_neo_fs_def)
  moreover have "length sample_neo < 2 ^ 32" by (simp add: sample_neo_def)
  ultimately show ?thesis
    using neo_image_lossless [OF sample_neo_load]
    by (simp add: sample_neo_image_def sample_neo_def region_zero_def)
qed

text \<open>
  C39 (safety): no container, however malformed, makes either \<open>.neo\<close> loader copy past
  the end of the file: the header check bounds every region.
\<close>

theorem neo_load_no_overflow:
  "ng_neo_rom_image_load fs path \<noteq> Inl BufferOverflow \<and>
   ng_program_rom_load_neo fs path \<noteq> Inl BufferOverflow"
proof (cases fs path rule: neo_load_cases)
  case (Ok bytes sz h)
  with neo_image_load_ok [OF Ok(1,2)] show ?thesis
    by (simp add: ng_program_rom_load_neo_def Let_def header_size_nat)
qed simp

text \<open>
  The two \<open>.neo\<close> loaders agree. \<open>ng_program_rom_load_neo\<close> fails exactly
  when \<open>ng_neo_rom_image_load\<close> does, with the same error, and otherwise yields the P region
  of the full image as an unmapped program ROM.
\<close>

theorem load_neo_agrees_with_image:
  "ng_program_rom_load_neo fs path =
     rbind (ng_neo_rom_image_load fs path)
       (\<lambda>img. Inr (rom_zero\<lparr>rom_data := region_data (image_p img),
                              rom_size := region_size (image_p img)\<rparr>))"
proof (cases fs path rule: neo_load_cases)
  case (Ok bytes sz h)
  with neo_image_load_ok [OF Ok(1,2)] show ?thesis
    by (simp add: ng_program_rom_load_neo_def Let_def header_size_nat byteswap_words_eq)
qed simp

text \<open>
  C40 (error): the raw loader concatenates the two files, and overruns its buffer exactly
  when their sizes together no longer fit the 32-bit total.
\<close>

theorem program_rom_load_total:
  assumes "fs p1 = Some b1" and "fs p2 = Some b2"
    and "length b1 < 2 ^ 32" and "length b2 < 2 ^ 32"
  shows "ng_program_rom_load fs p1 (Some p2) =
     (if 2 ^ 32 \<le> length b1 + length b2 then Inl BufferOverflow
      else Inr (rom_zero\<lparr>rom_data := b1 @ b2, rom_size := of_nat (length b1 + length b2)\<rparr>))"
proof -
  have n: "unat (of_nat (length b1) :: u32) = length b1" "unat (of_nat (length b2) :: u32) = length b2"
    using assms(3,4) by (simp_all add: unsigned_of_nat take_bit_nat_eq_self)
  define t :: u32 where "t = of_nat (length b1) + of_nat (length b2)"
  have t: "unat t = (length b1 + length b2) mod 2 ^ 32"
    unfolding t_def unat_word_ariths(1) n by simp
  have lt: "(unat t < length b1 + length b2) = (2 ^ 32 \<le> length b1 + length b2)"
  proof (cases "2 ^ 32 \<le> length b1 + length b2")
    case True
    moreover have "unat t < 2 ^ 32" unfolding t by (rule mod_less_divisor) simp
    ultimately show ?thesis by linarith
  qed (simp add: t)
  show ?thesis
    using assms(1,2) lt
    by (simp add: ng_program_rom_load_def read_whole_file_def Let_def n flip: t_def)
qed

theorem program_rom_load_total_witness:
  "ng_program_rom_load (\<lambda>p. if p = ''p1'' then Some [1, 2] else Some [3]) ''p1'' (Some ''p2'') =
     Inr (rom_zero\<lparr>rom_data := [1, 2, 3], rom_size := 3\<rparr>)"
  using program_rom_load_total
    [of "\<lambda>p. if p = ''p1'' then Some [1, 2] else Some [3]" "''p1''" "[1, 2]" "''p2''" "[3]"]
  by simp

text \<open>
  C30 (functional): \<open>ng_program_rom_set_address_map\<close> cuts the image beyond the fixed part
  into consecutive banks. As long as the ceiling division does not wrap, the number of banks
  is the ceiling of the remaining bytes over the window (at most 256), bank \<open>k\<close> starts at
  \<open>fixed_size + k * window\<close>, and only the last bank is shorter than the window.
\<close>

theorem set_address_map_bank_table:
  assumes "fs < rom_size rom" and "ws \<noteq> 0"
    and "unat (rom_size rom) - unat fs + unat ws \<le> 2 ^ 32"
    and "k < min 256 ((unat (rom_size rom) - unat fs + unat ws - 1) div unat ws)"
  shows "unat (bank_count (ng_program_rom_set_address_map rom fb fs wb ws)) =
           min 256 ((unat (rom_size rom) - unat fs + unat ws - 1) div unat ws) \<and>
         bank_configured (ng_program_rom_set_address_map rom fb fs wb ws) ! k = 1 \<and>
         unat (bank_offsets (ng_program_rom_set_address_map rom fb fs wb ws) ! k) =
           unat fs + k * unat ws \<and>
         unat (bank_sizes (ng_program_rom_set_address_map rom fb fs wb ws) ! k) =
           min (unat ws) (unat (rom_size rom) - (unat fs + k * unat ws))"
  using set_address_map_banks [OF assms, of fb wb] by simp

theorem set_address_map_bank_table_witness:
  "unat (bank_sizes (ng_program_rom_set_address_map
            (rom_zero\<lparr>rom_data := replicate 25 7, rom_size := 25\<rparr>) 0 10 0x200000 10) ! 1) = 5"
  using set_address_map_bank_table
    [where fs = 10 and rom = "rom_zero\<lparr>rom_data := replicate 25 7, rom_size := 25\<rparr>" and ws = 10
       and k = 1 and fb = 0 and wb = "0x200000"]
  by simp

text \<open>
  C28 (safety): after loading a \<open>.neo\<close> program ROM and any sequence of address-map
  operations, accepted or rejected, every address that translates does so to an offset
  inside the loaded buffer.
\<close>

theorem mapped_reads_stay_in_buffer:
  assumes load: "ng_program_rom_load_neo fs path = Inr rom"
    and tr: "ng_program_rom_translate_addr (fold rom_step ops rom) addr = Some offset"
  shows "unat offset < length (rom_data (fold rom_step ops rom))"
proof -
  have "rom_wf (fold rom_step ops rom)"
    using load by (intro rom_steps.run_inv load_neo_wf)
  then show ?thesis
    using translate_in_bounds [OF tr] by (simp add: rom_wf_def word_less_nat_alt)
qed

definition sample_rom :: ng_program_rom where
  "sample_rom = rom_zero\<lparr>rom_data := [0x34, 0x12], rom_size := 2\<rparr>"

lemma sample_rom_load: "ng_program_rom_load_neo sample_neo_fs ''a.neo'' = Inr sample_rom"
proof -
  have "read_whole_file sample_neo_fs ''a.neo'' = Some (sample_neo, 4101)"
    by (simp add: read_whole_file_def sample_neo_fs_def sample_neo_def)
  then show ?thesis
    by (simp add: ng_program_rom_load_neo_def sample_neo_header header_size_nat Let_def
        byteswap_words_eq sample_rom_def) (simp add: sample_neo_def)
qed

theorem mapped_reads_stay_in_buffer_witness:
  "unat (1 :: u32) < length (rom_data (fold rom_step [SetAddressMap 0 2 0 0] sample_rom))"
proof (rule mapped_reads_stay_in_buffer [OF sample_rom_load])
  show "ng_program_rom_translate_addr (fold rom_step [SetAddressMap 0 2 0 0] sample_rom) 1 = Some 1"
    by (simp add: sample_rom_def ng_program_rom_set_address_map_def ng_program_rom_clear_banks_def
        ng_program_rom_derived_bank_count_def bank_table_loop.simps Let_def rom_zero_def
        NG_PROGRAM_ROM_MAX_BANKS_def ng_program_rom_translate_addr_def translate_fixed_def)
qed

text \<open>
  C29 (roundtrip): configuring a bank and selecting it makes the bank window show exactly the
  configured slice of the image, byte for byte, wherever the fixed window does not take
  precedence.
\<close>

theorem configured_bank_is_visible:
  assumes "rom_wf rom"
    and "ng_program_rom_configure_bank rom b off sz = Some rom'"
    and "rel < sz" and "unat (bank_window_base rom) + unat rel < 2 ^ 32"
    and "translate_fixed rom (bank_window_base rom + rel) = None"
  shows "ng_program_rom_read8 (ng_program_rom_select_bank rom' b) (bank_window_base rom + rel) =
         rom_data rom ! (unat off + unat rel)"
  using assms by (rule configured_bank_read)

definition sample_banked :: ng_program_rom where
  "sample_banked =
     rom_zero\<lparr>rom_data := [1, 2, 3, 4, 5, 6], rom_size := 6, fixed_size := 2,
              bank_window_base := 0x200000, bank_window_size := 2, address_map_enabled := True\<rparr>"

theorem configured_bank_is_visible_witness:
  "ng_program_rom_read8
     (ng_program_rom_select_bank (the (ng_program_rom_configure_bank sample_banked 7 3 2)) 7)
     0x200001 = 5"
proof -
  have wf: "rom_wf sample_banked"
    by (auto simp: sample_banked_def rom_wf_def tables_256_def rom_zero_def list_all_iff)
  obtain rom' where cfg: "ng_program_rom_configure_bank sample_banked 7 3 2 = Some rom'"
    by (auto simp: ng_program_rom_configure_bank_def sample_banked_def NG_PROGRAM_ROM_MAX_BANKS_def)
  show ?thesis
    using configured_bank_is_visible [OF wf cfg, of 1] cfg
    by (simp add: sample_banked_def translate_fixed_def rom_zero_def)
qed

end
