(* ===== verification/M68kDecodeInv.thy ===== *)
theory M68kDecodeInv
  imports M68kDecode ProgramRomProps
begin

text \<open>
  Invariants of the decoder: what every stage keeps of the instruction under construction.
  The contract of a stage is the locale \<open>stage_contract\<close>, interpreted here for the ranges of the
  decoded fields (\<open>instr_ok\<close>) and for the address and opcode (\<open>instr_id\<close>).
\<close>

subsection \<open>Opcode fields\<close>

lemma ucast_and_le:
  fixes w :: u16 and m :: u8
  assumes "LENGTH(8) \<le> LENGTH(16)"
  shows "unat (ucast (w AND ucast m) :: u8) \<le> unat m"
proof -
  have "unat (ucast (w AND ucast m) :: u8) = take_bit 8 (unat (w AND ucast m))"
    by (simp add: unsigned_ucast_eq)
  also have "\<dots> \<le> unat (w AND ucast m)" by (rule take_bit_nat_less_eq_self)
  also have "\<dots> \<le> unat (ucast m :: u16)" by (rule unat_and_le)
  finally show ?thesis by (simp add: unat_ucast_up)
qed

lemma field_bounds [simp]:
  "op_reg9 op < 8" "op_mode op < 8" "op_reg op < 8" "op_opmode op < 8" "op_size2 op < 4" "op_top op < 16"
  "ucast (drop_bit 12 ext AND (7 :: u16)) < (8 :: u8)"
  "ucast (drop_bit 8 ext AND (0xF :: u16)) < (16 :: u8)"
  "ucast (drop_bit 15 ext AND (1 :: u16)) < (2 :: u8)"
  "ucast (drop_bit 11 ext AND (1 :: u16)) < (2 :: u8)"
  using ucast_and_le [of "drop_bit 9 op" 7] ucast_and_le [of "drop_bit 3 op" 7] ucast_and_le [of op 7]
    ucast_and_le [of "drop_bit 6 op" 7] ucast_and_le [of "drop_bit 6 op" 3] ucast_and_le [of "drop_bit 12 op" 15]
    ucast_and_le [of "drop_bit 12 ext" 7] ucast_and_le [of "drop_bit 8 ext" 15]
    ucast_and_le [of "drop_bit 15 ext" 1] ucast_and_le [of "drop_bit 11 ext" 1]
  by (simp_all add: op_reg9_def op_mode_def op_reg_def op_opmode_def op_size2_def op_top_def word_less_nat_alt)

subsection \<open>Well-formed decoded instructions\<close>

definition ea_ok :: "ng_m68k_ea \<Rightarrow> bool" where
  "ea_ok ea \<longleftrightarrow> ea_reg ea < 8 \<and> ea_index_reg ea < 8 \<and> ea_index_is_addr ea < 2 \<and> ea_index_is_long ea < 2"

definition size_ok :: "u8 \<Rightarrow> bool" where
  "size_ok sz \<longleftrightarrow> sz = 0 \<or> sz = NG_M68K_SIZE_BYTE \<or> sz = NG_M68K_SIZE_WORD \<or> sz = NG_M68K_SIZE_LONG"

definition length_ok :: "u8 \<Rightarrow> bool" where
  "length_ok n \<longleftrightarrow> n = 2 \<or> n = 4 \<or> n = 6 \<or> n = 8 \<or> n = 10"

definition instr_ok :: "ng_m68k_instr \<Rightarrow> bool" where
  "instr_ok i \<longleftrightarrow> length_ok (i_byte_length i) \<and> i_reg i < 8 \<and> i_src_reg i < 8 \<and> size_ok (i_size i) \<and>
     i_condition i < 16 \<and> ea_ok (i_src i) \<and> ea_ok (i_dst i)"

named_theorems decode_ok "preservation of instr_ok by the building blocks of the decoder"

lemma size_ok_simps [simp]:
  "size_ok 0" "size_ok NG_M68K_SIZE_BYTE" "size_ok NG_M68K_SIZE_WORD" "size_ok NG_M68K_SIZE_LONG"
  "size_ok (size_from_opcode_bits c)"
  by (auto simp: size_ok_def size_from_opcode_bits_def)

lemma length_ok_simps [simp]:
  "length_ok 2" "length_ok 4" "length_ok 6" "length_ok 8" "length_ok 10"
  by (simp_all add: length_ok_def)

lemma instr_ok_updates [decode_ok]:
  "instr_ok (i\<lparr>i_mnemonic := m\<rparr>) = instr_ok i"
  "instr_ok (i\<lparr>i_form := f\<rparr>) = instr_ok i"
  "instr_ok (i\<lparr>i_target := t\<rparr>) = instr_ok i"
  "instr_ok (i\<lparr>i_immediate := t\<rparr>) = instr_ok i"
  "instr_ok (i\<lparr>i_absolute_addr := t\<rparr>) = instr_ok i"
  "instr_ok (i\<lparr>i_displacement := d\<rparr>) = instr_ok i"
  "instr_ok i \<Longrightarrow> length_ok n \<Longrightarrow> instr_ok (i\<lparr>i_byte_length := n\<rparr>)"
  "instr_ok i \<Longrightarrow> r < 8 \<Longrightarrow> instr_ok (i\<lparr>i_reg := r\<rparr>)"
  "instr_ok i \<Longrightarrow> r < 8 \<Longrightarrow> instr_ok (i\<lparr>i_src_reg := r\<rparr>)"
  "instr_ok i \<Longrightarrow> size_ok s \<Longrightarrow> instr_ok (i\<lparr>i_size := s\<rparr>)"
  "instr_ok i \<Longrightarrow> c < 16 \<Longrightarrow> instr_ok (i\<lparr>i_condition := c\<rparr>)"
  "instr_ok i \<Longrightarrow> ea_ok ea \<Longrightarrow> instr_ok (i\<lparr>i_src := ea\<rparr>)"
  "instr_ok i \<Longrightarrow> ea_ok ea \<Longrightarrow> instr_ok (i\<lparr>i_dst := ea\<rparr>)"
  by (simp_all add: instr_ok_def)

lemma ea_ok_updates [decode_ok]:
  "ea_ok (ea\<lparr>ea_mode := m\<rparr>) = ea_ok ea"
  "ea_ok (ea\<lparr>ea_displacement := d\<rparr>) = ea_ok ea"
  "ea_ok (ea\<lparr>ea_absolute_addr := a\<rparr>) = ea_ok ea"
  "ea_ok (ea\<lparr>ea_immediate := a\<rparr>) = ea_ok ea"
  "ea_ok ea \<Longrightarrow> r < 8 \<Longrightarrow> ea_ok (ea\<lparr>ea_reg := r\<rparr>)"
  "ea_ok ea \<Longrightarrow> ea_ok (decode_index_ext w ea)"
  "ea_ok ea_zero"
  by (simp_all add: ea_ok_def ea_zero_def decode_index_ext_def)

lemma instr_ok_operands [decode_ok]:
  assumes "instr_ok i"
  shows "ea_ok (i_src i)" "ea_ok (i_dst i)" "ea_reg (i_src i) < 8" "ea_reg (i_dst i) < 8"
    "ea_index_reg (i_src i) < 8" "i_reg i < 8"
  using assms by (simp_all add: instr_ok_def ea_ok_def)

lemma decode_ea_ok: "r < 8 \<Longrightarrow> ea_ok (snd (decode_ea rom a m r sz))"
  by (simp add: decode_ea_def Let_def decode_ok)

lemma decode_ea_length: "fst (decode_ea rom a m r sz) \<in> {0, 2, 4}"
  by (simp add: decode_ea_def Let_def)

text \<open>Byte lengths that leave room for one more operand.\<close>

definition base_ok :: "u32 \<Rightarrow> bool" where
  "base_ok b \<longleftrightarrow> b = 2 \<or> b = 4 \<or> b = 6"

lemma base_ok_simps [simp]: "base_ok 2" "base_ok 4" "base_ok 6"
  by (simp_all add: base_ok_def)

lemma with_operand_ok [decode_ok]:
  assumes "instr_ok i" "r < 8" "base_ok b"
  shows "instr_ok (with_src rom a b m r i)" and "instr_ok (with_dst rom a b m r i)"
proof -
  obtain n ea where e: "decode_ea rom (a + b) m r (i_size i) = (n, ea)" by fastforce
  then have "length_ok (ucast (b + n))" "ea_ok ea"
    using decode_ea_length [of rom "a + b" m r "i_size i"] decode_ea_ok [OF assms(2), of rom "a + b" m "i_size i"]
      assms(3) by (auto simp: base_ok_def length_ok_def)
  with e assms show "instr_ok (with_src rom a b m r i)" and "instr_ok (with_dst rom a b m r i)"
    by (simp_all add: with_src_def with_dst_def decode_ok)
qed

lemma builder_ok [decode_ok]:
  "instr_ok i \<Longrightarrow> instr_ok (as_unknown i)"
  "instr_ok i \<Longrightarrow> r < 8 \<Longrightarrow> instr_ok (set_dst_reg m r i)"
  "instr_ok i \<Longrightarrow> r < 8 \<Longrightarrow> instr_ok (set_src_reg m r i)"
  "instr_ok i \<Longrightarrow> instr_ok (dst_cascade f i)"
  "instr_ok i \<Longrightarrow> instr_ok (populate_unary_dst_legacy_fields i)"
  "instr_ok i \<Longrightarrow> instr_ok (populate_move_legacy_fields i)"
  "instr_ok i \<Longrightarrow> instr_ok (populate_branch_target rom a w i)"
  "instr_ok i \<Longrightarrow> instr_ok (extend_pair_operands w i)"
  "instr_ok i \<Longrightarrow> instr_ok (movem_fields rom a w i)"
  "instr_ok i \<Longrightarrow> instr_ok (exchange_instr m m' w i)"
  "instr_ok i \<Longrightarrow> instr_ok (decode_word_to_dreg mn rom a w i)"
  by (simp_all add: as_unknown_def set_dst_reg_def set_src_reg_def dst_cascade_def
      populate_unary_dst_legacy_fields_def populate_move_legacy_fields_def populate_branch_target_def
      extend_pair_operands_def movem_fields_def exchange_instr_def decode_word_to_dreg_def Let_def decode_ok)

lemma with_src_base_ok [simp]:
  "base_ok (ucast (i_byte_length (with_src rom a 2 m r i)))"
  using decode_ea_length [of rom "a + 2" m r "i_size i"]
  by (auto simp: with_src_def base_ok_def split: prod.splits)

lemma decode_move_operands_ok [decode_ok]:
  "instr_ok i \<Longrightarrow> size_ok sz \<Longrightarrow> instr_ok (decode_move_operands rom a w sz i)"
  by (simp add: decode_move_operands_def Let_def decode_ok)

lemma helper_ok:
  assumes "instr_ok i"
  shows "pred_option instr_ok (decode_move rom a w i)"
    and "pred_option instr_ok (decode_alu_address_reg rom a w i)"
    and "pred_option instr_ok (decode_logic_binary rom a w i)"
    and "pred_option instr_ok (decode_addsub_dreg_to_ea rom a w i)"
    and "pred_option instr_ok (decode_exchange w i)"
    and "pred_option instr_ok (decode_shift_rotate rom a w i)"
    and "pred_option instr_ok (decode_multiply rom a w i)"
    and "pred_option instr_ok (decode_divide rom a w i)"
    and "pred_option instr_ok (decode_alu_ea_to_dreg rom a w i)"
    and "pred_option instr_ok (decode_cmpm w i)"
    and "pred_option instr_ok (decode_immediate_to_sr_ccr rom a w i)"
  using assms
  by (simp_all add: decode_move_def decode_alu_address_reg_def decode_logic_binary_def
      decode_addsub_dreg_to_ea_def decode_exchange_def decode_shift_rotate_def decode_multiply_def
      decode_divide_def decode_alu_ea_to_dreg_def decode_cmpm_def decode_immediate_to_sr_ccr_def
      Let_def decode_ok)

lemmas stage_list_defs =
  decode_stages_def helper_stages_def control_stages_def operand_stages_def tail_stages_def

lemmas control_defs =
  stage_misc_def stage_link_def stage_move_usp_def stage_jump_abs_l_def stage_jump_pc_disp_def
  stage_jump_aind_def stage_jump_control_def stage_branch_def stage_moveq_def
  stage_lea_pc_disp_def stage_chk_def stage_lea_def stage_legacy_lea_abs_l_def
  stage_legacy_movea_pc_index_def

lemmas operand_defs =
  stage_movep_def stage_move_from_sr_def stage_move_to_sr_ccr_def stage_static_bit_def
  stage_dynamic_bit_def stage_ori_eori_def stage_subi_addi_def stage_cmpi_def stage_andi_def
  stage_legacy_andi_disp_def stage_legacy_move_def stage_legacy_cmpi_def decode_immediate_op_def

lemmas tail_defs =
  stage_addx_subx_def stage_abcd_sbcd_def stage_legacy_add_def stage_dbcc_scc_def
  stage_addq_subq_def stage_clr_def stage_negx_neg_not_def stage_nbcd_def stage_swap_ext_def
  stage_movem_to_mem_def stage_movem_to_reg_def stage_pea_def stage_tas_def stage_tst_def
  stage_legacy_clr_def stage_legacy_tst_def stage_line_a_f_def

lemmas helper_defs =
  decode_move_def decode_alu_address_reg_def decode_logic_binary_def
  decode_addsub_dreg_to_ea_def decode_exchange_def decode_shift_rotate_def decode_multiply_def
  decode_divide_def decode_alu_ea_to_dreg_def decode_cmpm_def decode_immediate_to_sr_ccr_def

lemmas builder_defs =
  as_unknown_def set_dst_reg_def set_src_reg_def dst_cascade_def
  populate_unary_dst_legacy_fields_def populate_move_legacy_fields_def
  populate_branch_target_def extend_pair_operands_def movem_fields_def exchange_instr_def
  decode_word_to_dreg_def


text \<open>
  The contract of a stage: it finds the instruction under construction as \<open>pre\<close> says, leaves
  it so when it falls through, and establishes \<open>post\<close> when it returns. The decoder, a list of
  stages, then establishes \<open>post\<close>.
\<close>

locale stage_contract =
  fixes pre :: "u32 \<Rightarrow> u16 \<Rightarrow> ng_m68k_instr \<Rightarrow> bool"
    and post :: "ng_program_rom \<Rightarrow> u32 \<Rightarrow> u16 \<Rightarrow> ng_m68k_instr \<Rightarrow> bool"
    and stages :: "stage_fun list"
  assumes falls: "f \<in> set stages \<Longrightarrow> pre a w i \<Longrightarrow> f rom a w i = Fallthrough j \<Longrightarrow> pre a w j"
    and returns: "f \<in> set stages \<Longrightarrow> pre a w i \<Longrightarrow> f rom a w i = Matched j \<Longrightarrow> post rom a w j"
    and unmatched: "pre a w i \<Longrightarrow> post rom a w i"
begin

lemma run_sub:
  "set fs \<subseteq> set stages \<Longrightarrow> pre a w i \<Longrightarrow> post rom a w (stage_out (run_stages fs rom a w i))"
proof (induction fs arbitrary: i)
  case Nil
  then show ?case by (simp add: stage_out_def unmatched)
next
  case (Cons f fs)
  then have f: "f \<in> set stages" by simp
  show ?case
  proof (cases "f rom a w i")
    case (Matched j)
    then show ?thesis using returns [OF f Cons.prems(2) Matched] by (simp add: stage_out_def)
  next
    case (Fallthrough j)
    then show ?thesis using Cons falls [OF f Cons.prems(2) Fallthrough] by simp
  qed
qed

lemma run_post: "pre a w i \<Longrightarrow> post rom a w (stage_out (run_stages stages rom a w i))"
  by (rule run_sub) simp

end

lemma stage_out_simps [simp]: "stage_out (Matched i) = i" "stage_out (Fallthrough i) = i"
  by (simp_all add: stage_out_def)

lemma of_helper_ok: "instr_ok i \<Longrightarrow> pred_option instr_ok (f i) \<Longrightarrow> instr_ok (stage_out (of_helper f i))"
  by (cases "f i") (simp_all add: of_helper_def stage_out_def)

lemma block_ok:
  assumes "instr_ok i"
  shows
  "instr_ok (stage_out (stage_misc rom a w i))"
  "instr_ok (stage_out (stage_link rom a w i))"
  "instr_ok (stage_out (stage_move_usp rom a w i))"
  "instr_ok (stage_out (stage_jump_abs_l rom a w i))"
  "instr_ok (stage_out (stage_jump_pc_disp rom a w i))"
  "instr_ok (stage_out (stage_jump_aind rom a w i))"
  "instr_ok (stage_out (stage_jump_control rom a w i))"
  "instr_ok (stage_out (stage_branch rom a w i))"
  "instr_ok (stage_out (stage_moveq rom a w i))"
  "instr_ok (stage_out (stage_lea_pc_disp rom a w i))"
  "instr_ok (stage_out (stage_chk rom a w i))"
  "instr_ok (stage_out (stage_lea rom a w i))"
  "instr_ok (stage_out (stage_legacy_lea_abs_l rom a w i))"
  "instr_ok (stage_out (stage_legacy_movea_pc_index rom a w i))"
  "instr_ok (stage_out (stage_movep rom a w i))"
  "instr_ok (stage_out (stage_move_from_sr rom a w i))"
  "instr_ok (stage_out (stage_move_to_sr_ccr rom a w i))"
  "instr_ok (stage_out (stage_static_bit rom a w i))"
  "instr_ok (stage_out (stage_dynamic_bit rom a w i))"
  "instr_ok (stage_out (stage_ori_eori rom a w i))"
  "instr_ok (stage_out (stage_subi_addi rom a w i))"
  "instr_ok (stage_out (stage_cmpi rom a w i))"
  "instr_ok (stage_out (stage_andi rom a w i))"
  "instr_ok (stage_out (stage_legacy_andi_disp rom a w i))"
  "instr_ok (stage_out (stage_legacy_move rom a w i))"
  "instr_ok (stage_out (stage_legacy_cmpi rom a w i))"
  "instr_ok (stage_out (stage_addx_subx rom a w i))"
  "instr_ok (stage_out (stage_abcd_sbcd rom a w i))"
  "instr_ok (stage_out (stage_legacy_add rom a w i))"
  "instr_ok (stage_out (stage_dbcc_scc rom a w i))"
  "instr_ok (stage_out (stage_addq_subq rom a w i))"
  "instr_ok (stage_out (stage_clr rom a w i))"
  "instr_ok (stage_out (stage_negx_neg_not rom a w i))"
  "instr_ok (stage_out (stage_nbcd rom a w i))"
  "instr_ok (stage_out (stage_swap_ext rom a w i))"
  "instr_ok (stage_out (stage_movem_to_mem rom a w i))"
  "instr_ok (stage_out (stage_movem_to_reg rom a w i))"
  "instr_ok (stage_out (stage_pea rom a w i))"
  "instr_ok (stage_out (stage_tas rom a w i))"
  "instr_ok (stage_out (stage_tst rom a w i))"
  "instr_ok (stage_out (stage_legacy_clr rom a w i))"
  "instr_ok (stage_out (stage_legacy_tst rom a w i))"
  "instr_ok (stage_out (stage_line_a_f rom a w i))"
  using assms by (simp_all add: control_defs operand_defs tail_defs stage_out_def Let_def decode_ok)

lemma stages_keep_ok:
  "f \<in> set decode_stages \<Longrightarrow> instr_ok i \<Longrightarrow> instr_ok (stage_out (f rom a w i))"
  by (auto simp: stage_list_defs block_ok of_helper_ok helper_ok)

interpretation ok_stages: stage_contract "\<lambda>a w. instr_ok" "\<lambda>rom a w. instr_ok" decode_stages
  by unfold_locales (metis stages_keep_ok stage_out_simps)+

named_theorems decode_id "the decoder never changes the address and the opcode it was given"

definition instr_id :: "ng_m68k_instr \<Rightarrow> u32 \<times> u16" where
  "instr_id i = (i_addr i, i_opcode i)"

lemma instr_id_updates [decode_id]:
  "instr_id (i\<lparr>i_mnemonic := m\<rparr>) = instr_id i" "instr_id (i\<lparr>i_form := f\<rparr>) = instr_id i"
  "instr_id (i\<lparr>i_target := t\<rparr>) = instr_id i" "instr_id (i\<lparr>i_immediate := t\<rparr>) = instr_id i"
  "instr_id (i\<lparr>i_absolute_addr := t\<rparr>) = instr_id i" "instr_id (i\<lparr>i_displacement := d\<rparr>) = instr_id i"
  "instr_id (i\<lparr>i_byte_length := n\<rparr>) = instr_id i" "instr_id (i\<lparr>i_reg := r\<rparr>) = instr_id i"
  "instr_id (i\<lparr>i_src_reg := r\<rparr>) = instr_id i" "instr_id (i\<lparr>i_size := s\<rparr>) = instr_id i"
  "instr_id (i\<lparr>i_condition := c\<rparr>) = instr_id i" "instr_id (i\<lparr>i_src := ea\<rparr>) = instr_id i"
  "instr_id (i\<lparr>i_dst := ea\<rparr>) = instr_id i"
  by (simp_all add: instr_id_def)

lemma instr_id_builders [decode_id]:
  "instr_id (as_unknown i) = instr_id i"
  "instr_id (set_dst_reg m r i) = instr_id i"
  "instr_id (set_src_reg m r i) = instr_id i"
  "instr_id (dst_cascade f i) = instr_id i"
  "instr_id (with_src rom a b em r i) = instr_id i"
  "instr_id (with_dst rom a b em r i) = instr_id i"
  "instr_id (populate_unary_dst_legacy_fields i) = instr_id i"
  "instr_id (populate_move_legacy_fields i) = instr_id i"
  "instr_id (populate_branch_target rom a w i) = instr_id i"
  "instr_id (extend_pair_operands w i) = instr_id i"
  "instr_id (movem_fields rom a w i) = instr_id i"
  "instr_id (exchange_instr m m' w i) = instr_id i"
  "instr_id (decode_word_to_dreg mn rom a w i) = instr_id i"
  by (simp_all add: builder_defs with_src_def with_dst_def Let_def decode_id split: prod.splits)

lemma decode_move_operands_id [decode_id]: "instr_id (decode_move_operands rom a w sz i) = instr_id i"
  by (simp add: decode_move_operands_def Let_def if_distrib [of instr_id] decode_id cong: if_cong)

lemma helper_id:
  "pred_option (\<lambda>j. instr_id j = instr_id i) (decode_move rom a w i)"
  "pred_option (\<lambda>j. instr_id j = instr_id i) (decode_alu_address_reg rom a w i)"
  "pred_option (\<lambda>j. instr_id j = instr_id i) (decode_logic_binary rom a w i)"
  "pred_option (\<lambda>j. instr_id j = instr_id i) (decode_addsub_dreg_to_ea rom a w i)"
  "pred_option (\<lambda>j. instr_id j = instr_id i) (decode_exchange w i)"
  "pred_option (\<lambda>j. instr_id j = instr_id i) (decode_shift_rotate rom a w i)"
  "pred_option (\<lambda>j. instr_id j = instr_id i) (decode_multiply rom a w i)"
  "pred_option (\<lambda>j. instr_id j = instr_id i) (decode_divide rom a w i)"
  "pred_option (\<lambda>j. instr_id j = instr_id i) (decode_alu_ea_to_dreg rom a w i)"
  "pred_option (\<lambda>j. instr_id j = instr_id i) (decode_cmpm w i)"
  "pred_option (\<lambda>j. instr_id j = instr_id i) (decode_immediate_to_sr_ccr rom a w i)"
  by (simp_all add: helper_defs Let_def decode_id)

lemma of_helper_id:
  "pred_option (\<lambda>j. instr_id j = instr_id i) (f i) \<Longrightarrow> instr_id (stage_out (of_helper f i)) = instr_id i"
  by (cases "f i") (simp_all add: of_helper_def stage_out_def)

lemma block_id:
  "instr_id (stage_out (stage_misc rom a w i)) = instr_id i"
  "instr_id (stage_out (stage_link rom a w i)) = instr_id i"
  "instr_id (stage_out (stage_move_usp rom a w i)) = instr_id i"
  "instr_id (stage_out (stage_jump_abs_l rom a w i)) = instr_id i"
  "instr_id (stage_out (stage_jump_pc_disp rom a w i)) = instr_id i"
  "instr_id (stage_out (stage_jump_aind rom a w i)) = instr_id i"
  "instr_id (stage_out (stage_jump_control rom a w i)) = instr_id i"
  "instr_id (stage_out (stage_branch rom a w i)) = instr_id i"
  "instr_id (stage_out (stage_moveq rom a w i)) = instr_id i"
  "instr_id (stage_out (stage_lea_pc_disp rom a w i)) = instr_id i"
  "instr_id (stage_out (stage_chk rom a w i)) = instr_id i"
  "instr_id (stage_out (stage_lea rom a w i)) = instr_id i"
  "instr_id (stage_out (stage_legacy_lea_abs_l rom a w i)) = instr_id i"
  "instr_id (stage_out (stage_legacy_movea_pc_index rom a w i)) = instr_id i"
  "instr_id (stage_out (stage_movep rom a w i)) = instr_id i"
  "instr_id (stage_out (stage_move_from_sr rom a w i)) = instr_id i"
  "instr_id (stage_out (stage_move_to_sr_ccr rom a w i)) = instr_id i"
  "instr_id (stage_out (stage_static_bit rom a w i)) = instr_id i"
  "instr_id (stage_out (stage_dynamic_bit rom a w i)) = instr_id i"
  "instr_id (stage_out (stage_ori_eori rom a w i)) = instr_id i"
  "instr_id (stage_out (stage_subi_addi rom a w i)) = instr_id i"
  "instr_id (stage_out (stage_cmpi rom a w i)) = instr_id i"
  "instr_id (stage_out (stage_andi rom a w i)) = instr_id i"
  "instr_id (stage_out (stage_legacy_andi_disp rom a w i)) = instr_id i"
  "instr_id (stage_out (stage_legacy_move rom a w i)) = instr_id i"
  "instr_id (stage_out (stage_legacy_cmpi rom a w i)) = instr_id i"
  "instr_id (stage_out (stage_addx_subx rom a w i)) = instr_id i"
  "instr_id (stage_out (stage_abcd_sbcd rom a w i)) = instr_id i"
  "instr_id (stage_out (stage_legacy_add rom a w i)) = instr_id i"
  "instr_id (stage_out (stage_dbcc_scc rom a w i)) = instr_id i"
  "instr_id (stage_out (stage_addq_subq rom a w i)) = instr_id i"
  "instr_id (stage_out (stage_clr rom a w i)) = instr_id i"
  "instr_id (stage_out (stage_negx_neg_not rom a w i)) = instr_id i"
  "instr_id (stage_out (stage_nbcd rom a w i)) = instr_id i"
  "instr_id (stage_out (stage_swap_ext rom a w i)) = instr_id i"
  "instr_id (stage_out (stage_movem_to_mem rom a w i)) = instr_id i"
  "instr_id (stage_out (stage_movem_to_reg rom a w i)) = instr_id i"
  "instr_id (stage_out (stage_pea rom a w i)) = instr_id i"
  "instr_id (stage_out (stage_tas rom a w i)) = instr_id i"
  "instr_id (stage_out (stage_tst rom a w i)) = instr_id i"
  "instr_id (stage_out (stage_legacy_clr rom a w i)) = instr_id i"
  "instr_id (stage_out (stage_legacy_tst rom a w i)) = instr_id i"
  "instr_id (stage_out (stage_line_a_f rom a w i)) = instr_id i"
  by (simp_all add: control_defs operand_defs tail_defs stage_out_def Let_def decode_id)

lemma stages_keep_id:
  "f \<in> set decode_stages \<Longrightarrow> instr_id (stage_out (f rom a w i)) = instr_id i"
  by (auto simp: stage_list_defs block_id of_helper_id helper_id)

interpretation id_stages:
  stage_contract "\<lambda>a w i. instr_id i = (a, w)" "\<lambda>rom a w i. instr_id i = (a, w)" decode_stages
  by unfold_locales (metis stages_keep_id stage_out_simps)+

end
