(* ===== verification/M68kDecodeFlow.thy ===== *)
theory M68kDecodeFlow
  imports M68kDecodeInv
begin

text \<open>
  Control flow: the target the decoder reports for branches and jumps (\<open>flow_ok\<close>), as a third
  interpretation of \<open>stage_contract\<close>.
\<close>

lemma with_operand_fields [simp]:
  "i_mnemonic (with_src rom a b m r i) = i_mnemonic i"
  "i_mnemonic (with_dst rom a b m r i) = i_mnemonic i"
  "i_form (with_src rom a b m r i) = i_form i"
  "i_form (with_dst rom a b m r i) = i_form i"
  "i_addr (with_src rom a b m r i) = i_addr i"
  "i_size (with_src rom a b m r i) = i_size i"
  "i_size (with_dst rom a b m r i) = i_size i"
  "i_addr (with_dst rom a b m r i) = i_addr i"
  "i_src (with_src rom a b m r i) = snd (decode_ea rom (a + b) m r (i_size i))"
  "i_dst (with_dst rom a b m r i) = snd (decode_ea rom (a + b) m r (i_size i))"
  by (simp_all add: with_src_def with_dst_def split: prod.splits)

lemma builder_mnemonic [simp]:
  "i_mnemonic (as_unknown i) = NG_M68K_UNKNOWN"
  "i_mnemonic (set_dst_reg em r i) = i_mnemonic i"
  "i_mnemonic (set_src_reg em r i) = i_mnemonic i"
  "i_mnemonic (dst_cascade f i) = i_mnemonic i"
  "i_mnemonic (populate_unary_dst_legacy_fields i) = i_mnemonic i"
  "i_mnemonic (populate_move_legacy_fields i) = i_mnemonic i"
  "i_mnemonic (populate_branch_target rom a w i) = i_mnemonic i"
  "i_mnemonic (extend_pair_operands w i) = i_mnemonic i"
  "i_mnemonic (movem_fields rom a w i) = NG_M68K_MOVEM"
  "i_mnemonic (exchange_instr em em' w i) = NG_M68K_EXG"
  by (simp_all add: builder_defs Let_def)

text \<open>Instructions that may leave straight-line flow for an address known at decode time.\<close>

definition is_relative_branch :: "ng_m68k_mnemonic \<Rightarrow> bool" where
  "is_relative_branch m \<longleftrightarrow>
     m = NG_M68K_BRA \<or> m = NG_M68K_BSR \<or> m = NG_M68K_BCC \<or> m = NG_M68K_DBCC"

definition is_jump :: "ng_m68k_mnemonic \<Rightarrow> bool" where
  "is_jump m \<longleftrightarrow> m = NG_M68K_JMP \<or> m = NG_M68K_JSR"

text \<open>
  The target of an instruction by the words of the program: \<open>w\<close> is the opcode word, \<open>ext\<close> the word after it. The low
  byte of a branch is its displacement unless it is zero; the low six bits of a jump are the mode and the register of
  its operand.
\<close>

definition flow_ok :: "ng_program_rom \<Rightarrow> u32 \<Rightarrow> u16 \<Rightarrow> ng_m68k_instr \<Rightarrow> bool" where
  "flow_ok rom a w i \<longleftrightarrow>
     (let ext = ng_program_rom_read16 rom (a + 2);
          short = take_bit 8 (uint w);
          disp = (if i_mnemonic i \<noteq> NG_M68K_DBCC \<and> short \<noteq> 0 then signed_take_bit 7 short
                  else signed_take_bit 15 (uint ext));
          mode = drop_bit 3 w AND 7;
          reg = w AND 7
      in if is_relative_branch (i_mnemonic i) then
           i_target i = a + 2 + word_of_int disp \<and>
           i_byte_length i = (if i_mnemonic i \<noteq> NG_M68K_DBCC \<and> short \<noteq> 0 then 2 else 4)
         else if is_jump (i_mnemonic i) then
           if mode = 7 \<and> reg = 2 then
             i_form i = NG_M68K_FORM_PC_RELATIVE \<and> i_target i = a + 2 + word_of_int (signed_take_bit 15 (uint ext))
           else if mode = 7 \<and> reg = 0 then
             i_form i = NG_M68K_FORM_ABS \<and> i_target i = word_of_int (signed_take_bit 15 (uint ext))
           else if mode = 7 \<and> reg = 1 then
             i_form i = NG_M68K_FORM_ABS \<and> i_target i = ng_program_rom_read32 rom (a + 2)
           else if mode = 2 then i_form i = NG_M68K_FORM_AREG_INDIRECT \<and> i_reg i = ucast reg
           else i_form i = NG_M68K_FORM_NONE
         else True)"

definition straight :: "ng_m68k_mnemonic \<Rightarrow> bool" where
  "straight m \<longleftrightarrow> \<not> is_relative_branch m \<and> \<not> is_jump m"

lemma straight_simps [simp]:
  "straight NG_M68K_UNKNOWN" "straight NG_M68K_NOP" "straight NG_M68K_ILLEGAL"
  "straight NG_M68K_RESET" "straight NG_M68K_STOP" "straight NG_M68K_RTS" "straight NG_M68K_RTE"
  "straight NG_M68K_RTR" "straight NG_M68K_TRAP" "straight NG_M68K_TRAPV"
  "straight NG_M68K_LINK" "straight NG_M68K_UNLK" "straight NG_M68K_SCC" "straight NG_M68K_CHK"
  "straight NG_M68K_LEA" "straight NG_M68K_MOVEA" "straight NG_M68K_MOVEQ"
  "straight NG_M68K_MOVE" "straight NG_M68K_MOVEM" "straight NG_M68K_MOVEP"
  "straight NG_M68K_MOVE_SR" "straight NG_M68K_MOVE_CCR" "straight NG_M68K_MOVE_USP"
  "straight NG_M68K_ADD" "straight NG_M68K_ADDA" "straight NG_M68K_ADDQ" "straight NG_M68K_ADDX"
  "straight NG_M68K_ABCD" "straight NG_M68K_SUB" "straight NG_M68K_SUBA" "straight NG_M68K_SUBQ"
  "straight NG_M68K_SUBX" "straight NG_M68K_SBCD" "straight NG_M68K_CMP" "straight NG_M68K_CMPA"
  "straight NG_M68K_CMPM" "straight NG_M68K_OR" "straight NG_M68K_AND" "straight NG_M68K_EOR"
  "straight NG_M68K_MULU" "straight NG_M68K_MULS" "straight NG_M68K_DIVU"
  "straight NG_M68K_DIVS" "straight NG_M68K_EXG" "straight NG_M68K_CLR" "straight NG_M68K_NEG"
  "straight NG_M68K_NEGX" "straight NG_M68K_NBCD" "straight NG_M68K_NOT" "straight NG_M68K_EXT"
  "straight NG_M68K_SWAP" "straight NG_M68K_PEA" "straight NG_M68K_TST" "straight NG_M68K_TAS"
  "straight NG_M68K_ADDI" "straight NG_M68K_SUBI" "straight NG_M68K_CMPI" "straight NG_M68K_ORI"
  "straight NG_M68K_ANDI" "straight NG_M68K_EORI" "straight NG_M68K_ORI_TO_CCR"
  "straight NG_M68K_ORI_TO_SR" "straight NG_M68K_ANDI_TO_CCR" "straight NG_M68K_ANDI_TO_SR"
  "straight NG_M68K_EORI_TO_CCR" "straight NG_M68K_EORI_TO_SR"
  by (simp_all add: straight_def is_relative_branch_def is_jump_def)

lemma flow_ok_straight: "straight (i_mnemonic i) \<Longrightarrow> flow_ok rom a w i"
  by (simp add: flow_ok_def straight_def Let_def)

lemmas flow_classes = straight_def is_relative_branch_def is_jump_def

lemma two_bit_cases:
  fixes k :: u8
  assumes "k < 4"
  shows "k = 0 \<or> k = 1 \<or> k = 2 \<or> k = 3"
proof -
  have "unat k < 4" using assms by (simp add: word_less_nat_alt)
  then have "unat k = 0 \<or> unat k = 1 \<or> unat k = 2 \<or> unat k = 3" by linarith
  then show ?thesis by (simp add: word_unat_eq_iff)
qed

lemma two_bit_mnemonics:
  assumes "k < 4"
  shows "straight (shift_mnemonic d k)" "straight (bit_mnemonic k)"
  using two_bit_cases [OF assms]
  by (auto simp: shift_mnemonic_def bit_mnemonic_def flow_classes)

lemma two_bit_field [simp]: "ucast (drop_bit n w AND (3 :: u16)) < (4 :: u8)"
  using ucast_and_le [of "drop_bit n w" 3] by (simp add: word_less_nat_alt)

lemma straight_move: "straight (i_mnemonic (decode_move_operands rom a w sz i))"
  by (simp add: decode_move_operands_def Let_def flow_classes)

lemma helper_straight:
    "pred_option (\<lambda>j. straight (i_mnemonic j)) (decode_move rom a w i)"
    "pred_option (\<lambda>j. straight (i_mnemonic j)) (decode_alu_address_reg rom a w i)"
    "pred_option (\<lambda>j. straight (i_mnemonic j)) (decode_logic_binary rom a w i)"
    "pred_option (\<lambda>j. straight (i_mnemonic j)) (decode_addsub_dreg_to_ea rom a w i)"
    "pred_option (\<lambda>j. straight (i_mnemonic j)) (decode_exchange w i)"
    "pred_option (\<lambda>j. straight (i_mnemonic j)) (decode_shift_rotate rom a w i)"
    "pred_option (\<lambda>j. straight (i_mnemonic j)) (decode_multiply rom a w i)"
    "pred_option (\<lambda>j. straight (i_mnemonic j)) (decode_divide rom a w i)"
    "pred_option (\<lambda>j. straight (i_mnemonic j)) (decode_alu_ea_to_dreg rom a w i)"
    "pred_option (\<lambda>j. straight (i_mnemonic j)) (decode_cmpm w i)"
    "pred_option (\<lambda>j. straight (i_mnemonic j)) (decode_immediate_to_sr_ccr rom a w i)"
  by (simp_all add: helper_defs straight_move decode_word_to_dreg_def Let_def two_bit_mnemonics)

text \<open>Every block but the jumps, the branches and \<open>DBcc\<close> leaves straight-line flow alone.\<close>

lemma block_straight:
  assumes "straight (i_mnemonic i)"
  shows
  "straight (i_mnemonic (stage_out (stage_misc rom a w i)))"
  "straight (i_mnemonic (stage_out (stage_link rom a w i)))"
  "straight (i_mnemonic (stage_out (stage_move_usp rom a w i)))"
  "straight (i_mnemonic (stage_out (stage_moveq rom a w i)))"
  "straight (i_mnemonic (stage_out (stage_lea_pc_disp rom a w i)))"
  "straight (i_mnemonic (stage_out (stage_chk rom a w i)))"
  "straight (i_mnemonic (stage_out (stage_lea rom a w i)))"
  "straight (i_mnemonic (stage_out (stage_legacy_lea_abs_l rom a w i)))"
  "straight (i_mnemonic (stage_out (stage_legacy_movea_pc_index rom a w i)))"
  "straight (i_mnemonic (stage_out (stage_movep rom a w i)))"
  "straight (i_mnemonic (stage_out (stage_move_from_sr rom a w i)))"
  "straight (i_mnemonic (stage_out (stage_move_to_sr_ccr rom a w i)))"
  "straight (i_mnemonic (stage_out (stage_static_bit rom a w i)))"
  "straight (i_mnemonic (stage_out (stage_dynamic_bit rom a w i)))"
  "straight (i_mnemonic (stage_out (stage_ori_eori rom a w i)))"
  "straight (i_mnemonic (stage_out (stage_subi_addi rom a w i)))"
  "straight (i_mnemonic (stage_out (stage_cmpi rom a w i)))"
  "straight (i_mnemonic (stage_out (stage_andi rom a w i)))"
  "straight (i_mnemonic (stage_out (stage_legacy_andi_disp rom a w i)))"
  "straight (i_mnemonic (stage_out (stage_legacy_move rom a w i)))"
  "straight (i_mnemonic (stage_out (stage_legacy_cmpi rom a w i)))"
  "straight (i_mnemonic (stage_out (stage_addx_subx rom a w i)))"
  "straight (i_mnemonic (stage_out (stage_abcd_sbcd rom a w i)))"
  "straight (i_mnemonic (stage_out (stage_legacy_add rom a w i)))"
  "straight (i_mnemonic (stage_out (stage_addq_subq rom a w i)))"
  "straight (i_mnemonic (stage_out (stage_clr rom a w i)))"
  "straight (i_mnemonic (stage_out (stage_negx_neg_not rom a w i)))"
  "straight (i_mnemonic (stage_out (stage_nbcd rom a w i)))"
  "straight (i_mnemonic (stage_out (stage_swap_ext rom a w i)))"
  "straight (i_mnemonic (stage_out (stage_movem_to_mem rom a w i)))"
  "straight (i_mnemonic (stage_out (stage_movem_to_reg rom a w i)))"
  "straight (i_mnemonic (stage_out (stage_pea rom a w i)))"
  "straight (i_mnemonic (stage_out (stage_tas rom a w i)))"
  "straight (i_mnemonic (stage_out (stage_tst rom a w i)))"
  "straight (i_mnemonic (stage_out (stage_legacy_clr rom a w i)))"
  "straight (i_mnemonic (stage_out (stage_legacy_tst rom a w i)))"
  "straight (i_mnemonic (stage_out (stage_line_a_f rom a w i)))"
  using assms by (simp_all add: control_defs operand_defs tail_defs Let_def two_bit_mnemonics)

definition fresh :: "u32 \<Rightarrow> u16 \<Rightarrow> ng_m68k_instr \<Rightarrow> bool" where
  "fresh a w i \<longleftrightarrow> i_addr i = a \<and> i_opcode i = w \<and> i_mnemonic i = NG_M68K_UNKNOWN \<and>
     i_form i = NG_M68K_FORM_NONE \<and> i_byte_length i = 2"

lemma ucast_add_down: "ucast (x + y :: u64) = (ucast x + ucast y :: u32)"
proof -
  have "uint (ucast (x + y :: u64) :: u32) = take_bit 32 (take_bit 64 (uint x + uint y))"
    by (simp add: unsigned_ucast_eq uint_word_ariths take_bit_eq_mod)
  also have "\<dots> = take_bit 32 (uint x + uint y)" by simp
  also have "\<dots> = take_bit 32 (take_bit 32 (uint x) + take_bit 32 (uint y))" by (simp add: take_bit_add)
  also have "\<dots> = uint (ucast x + ucast y :: u32)"
    by (simp add: unsigned_ucast_eq uint_word_ariths take_bit_eq_mod)
  finally show ?thesis by (simp add: word_uint_eq_iff)
qed

lemma branch_target_sum: "ucast ((ucast a :: u64) + 2 + scast (d :: u16)) = (a + 2 + scast d :: u32)"
proof -
  have "ucast (scast d :: u64) = (scast d :: u32)" "ucast (ucast a :: u64) = a"
    by (rule bit_word_eqI; simp add: bit_simps)+
  then show ?thesis by (simp add: ucast_add_down)
qed

lemma low_byte: "(ucast (w AND 0xFF :: u16) :: u8) = ucast w"
proof -
  have m: "(0xFF :: u16) = mask 8" by (simp add: mask_eq_exp_minus_1)
  show ?thesis unfolding m by (rule bit_word_eqI) (auto simp: bit_simps)
qed

lemma uint_low_byte: "uint (ucast (w :: u16) :: u8) = take_bit 8 (uint w)"
  by (simp add: unsigned_ucast_eq)

lemma low_byte_zero: "(ucast (w :: u16) :: u8) = 0 \<longleftrightarrow> take_bit 8 (uint w) = 0"
  using uint_low_byte [of w] by (simp add: word_uint_eq_iff)

lemma scast_by_sign_bit:
  "(scast (d :: u16) :: u32) = word_of_int (signed_take_bit 15 (uint d))"
  "(scast (sign8 (ucast w)) :: u32) = word_of_int (signed_take_bit 7 (take_bit 8 (uint (w :: u16))))"
proof -
  show "(scast d :: u32) = word_of_int (signed_take_bit 15 (uint d))" by (rule bit_word_eqI) (simp add: bit_simps)
  have "(scast (scast v :: u16) :: u32) = word_of_int (signed_take_bit 7 (uint v))" for v :: u8
    by (rule bit_word_eqI) (simp add: bit_simps min_def)
  from this [of "ucast w"] show "(scast (sign8 (ucast w)) :: u32) = word_of_int (signed_take_bit 7 (take_bit 8 (uint w)))"
    by (simp add: sign8_def uint_low_byte)
qed

lemma branch_target_flow:
  assumes "i_mnemonic i \<in> {NG_M68K_BRA, NG_M68K_BSR, NG_M68K_BCC}"
  shows "flow_ok rom a w (populate_branch_target rom a w i)"
proof (cases "(ucast w :: u8) = 0")
  case True
  then have "take_bit 8 (uint w) = 0" by (simp add: low_byte_zero)
  with True assms show ?thesis
    by (auto simp: flow_ok_def populate_branch_target_def Let_def branch_target_sum is_relative_branch_def
      low_byte sign16_def scast_by_sign_bit(1))
next
  case False
  then have "take_bit 8 (uint w) \<noteq> 0" by (simp add: low_byte_zero)
  with False assms show ?thesis
    by (auto simp: flow_ok_def populate_branch_target_def Let_def branch_target_sum is_relative_branch_def
      low_byte scast_by_sign_bit(2))
qed

lemma opcode_fields:
  "op_mode w = 7 \<longleftrightarrow> drop_bit 3 w AND 7 = 7" "op_mode w = 2 \<longleftrightarrow> drop_bit 3 w AND 7 = 2"
  "op_reg w = 0 \<longleftrightarrow> w AND 7 = 0" "op_reg w = 1 \<longleftrightarrow> w AND 7 = 1" "op_reg w = 2 \<longleftrightarrow> w AND 7 = 2"
proof -
  have f: "(ucast (x AND 7 :: u16) :: u8) = ucast y \<longleftrightarrow> x AND 7 = y" if "y \<le> 7" for x y :: u16
  proof -
    have "x AND 7 \<le> 7" by (rule word_and_le1)
    then have "unat (x AND 7) \<le> 7" "unat y \<le> 7" using that by (simp_all add: word_le_nat_alt)
    then show ?thesis by (simp add: word_unat_eq_iff unsigned_ucast_eq take_bit_nat_eq_self)
  qed
  show "op_mode w = 7 \<longleftrightarrow> drop_bit 3 w AND 7 = 7" "op_mode w = 2 \<longleftrightarrow> drop_bit 3 w AND 7 = 2"
    "op_reg w = 0 \<longleftrightarrow> w AND 7 = 0" "op_reg w = 1 \<longleftrightarrow> w AND 7 = 1" "op_reg w = 2 \<longleftrightarrow> w AND 7 = 2"
    using f [of 7 "drop_bit 3 w"] f [of 2 "drop_bit 3 w"] f [of 0 w] f [of 1 w] f [of 2 w]
    by (simp_all add: op_mode_def op_reg_def)
qed

lemma flow_jump:
  assumes "is_jump (i_mnemonic i)"
  shows "flow_ok rom a w i \<longleftrightarrow>
    (if op_mode w = 7 \<and> op_reg w = 2 then
       i_form i = NG_M68K_FORM_PC_RELATIVE \<and> i_target i = a + 2 + scast (ng_program_rom_read16 rom (a + 2))
     else if op_mode w = 7 \<and> op_reg w = 0 then
       i_form i = NG_M68K_FORM_ABS \<and> i_target i = scast (ng_program_rom_read16 rom (a + 2))
     else if op_mode w = 7 \<and> op_reg w = 1 then
       i_form i = NG_M68K_FORM_ABS \<and> i_target i = ng_program_rom_read32 rom (a + 2)
     else if op_mode w = 2 then i_form i = NG_M68K_FORM_AREG_INDIRECT \<and> i_reg i = op_reg w
     else i_form i = NG_M68K_FORM_NONE)"
proof -
  have "\<not> is_relative_branch (i_mnemonic i)" using assms by (auto simp: is_jump_def is_relative_branch_def)
  with assms show ?thesis
    unfolding opcode_fields scast_by_sign_bit(1) flow_ok_def Let_def by (simp add: op_reg_def [of w])
qed

lemma flow_jump_control:
  assumes "i_form i = NG_M68K_FORM_NONE" "i_mnemonic i = NG_M68K_UNKNOWN"
  shows "flow_ok rom a w (stage_out (stage_jump_control rom a w i))"
proof (cases "is_control_ea (op_mode w) (op_reg w)")
  case True
  then have "op_mode w = 2 \<or> op_mode w = 5 \<or> op_mode w = 6 \<or>
      op_mode w = 7 \<and> (op_reg w = 0 \<or> op_reg w = 1 \<or> op_reg w = 2 \<or> op_reg w = 3)"
    using two_bit_cases [of "op_reg w"] by (auto simp: is_control_ea_def word_le_nat_alt word_less_nat_alt)
  then show ?thesis
    using assms True
    by (elim disjE conjE)
      (simp_all add: stage_jump_control_def Let_def flow_jump is_jump_def flow_ok_straight src_mode_def is_abs_mode_def
        decode_ea_def decode_index_ext_def sign16_def sign_extend_abs_w_def)
next
  case False
  then show ?thesis using assms by (simp add: stage_jump_control_def flow_ok_straight)
qed

lemma aind_mode: "w AND 0xFFF8 = 0x4ED0 \<Longrightarrow> drop_bit 3 w AND 7 = (2 :: u16)"
proof -
  assume "w AND 0xFFF8 = 0x4ED0"
  moreover have "drop_bit 3 w AND 7 = drop_bit 3 (w AND 0xFFF8) AND (7 :: u16)"
    by (simp add: drop_bit_and and.assoc)
  ultimately show ?thesis by simp
qed

lemma block_flow:
  assumes "fresh a w i"
  shows "flow_ok rom a w (stage_out (stage_jump_abs_l rom a w i))"
    and "flow_ok rom a w (stage_out (stage_jump_pc_disp rom a w i))"
    and "flow_ok rom a w (stage_out (stage_jump_aind rom a w i))"
    and "flow_ok rom a w (stage_out (stage_jump_control rom a w i))"
    and "flow_ok rom a w (stage_out (stage_branch rom a w i))"
    and "flow_ok rom a w (stage_out (stage_dbcc_scc rom a w i))"
proof -
  note defs = Let_def flow_ok_def is_relative_branch_def is_jump_def fresh_def scast_by_sign_bit(1) sign16_def
  show "flow_ok rom a w (stage_out (stage_jump_abs_l rom a w i))"
    using assms by (auto simp: stage_jump_abs_l_def defs)
  show "flow_ok rom a w (stage_out (stage_jump_pc_disp rom a w i))"
    using assms by (auto simp: stage_jump_pc_disp_def defs)
  show "flow_ok rom a w (stage_out (stage_jump_aind rom a w i))"
    using assms aind_mode [of w]
    by (auto simp: stage_jump_aind_def set_src_reg_def op_reg_def defs)

  show "flow_ok rom a w (stage_out (stage_jump_control rom a w i))"
    using assms by (intro flow_jump_control) (simp_all add: fresh_def)
  show "flow_ok rom a w (stage_out (stage_branch rom a w i))"
    using assms branch_target_flow by (simp add: stage_branch_def flow_ok_straight fresh_def)
  show "flow_ok rom a w (stage_out (stage_dbcc_scc rom a w i))"
    using assms by (auto simp: stage_dbcc_scc_def flow_ok_straight defs)
qed

text \<open>A stage that falls through has written at most the condition field.\<close>

lemma of_helper_fall: "of_helper f i = Fallthrough j \<Longrightarrow> j = i"
  by (auto simp: of_helper_def split: option.splits)

lemma stage_falls:
  assumes "f \<in> set decode_stages" and "f rom a w i = Fallthrough j"
  shows "j = i \<or> j = i\<lparr>i_condition := ucast (drop_bit 8 w AND 0xF)\<rparr>"
proof -
  have "f \<in> set control_stages \<Longrightarrow> j = i" 
    using assms(2) by (auto simp: control_stages_def control_defs Let_def split: if_splits)
  moreover have "f \<in> set helper_stages \<Longrightarrow> j = i" 
    using assms(2) by (auto simp: helper_stages_def dest: of_helper_fall)
  moreover have "f \<in> set operand_stages \<Longrightarrow> j = i" 
    using assms(2) by (auto simp: operand_stages_def operand_defs Let_def split: if_splits dest: of_helper_fall)
  moreover have "f \<in> set tail_stages \<Longrightarrow> j = i \<or> j = i\<lparr>i_condition := ucast (drop_bit 8 w AND 0xF)\<rparr>" 
    using assms(2) by (auto simp: tail_stages_def tail_defs Let_def split: if_splits)
  ultimately show ?thesis using assms(1) unfolding decode_stages_def set_append by blast
qed

lemma of_helper_straight:
  "pred_option (\<lambda>j. straight (i_mnemonic j)) (f i) \<Longrightarrow> straight (i_mnemonic i) \<Longrightarrow>
   straight (i_mnemonic (stage_out (of_helper f i)))"
  by (cases "f i") (simp_all add: of_helper_def)

lemma stages_flow:
  assumes "f \<in> set decode_stages" and "fresh a w i"
  shows "flow_ok rom a w (stage_out (f rom a w i))"
proof -
  have "straight (i_mnemonic i)" using assms(2) by (simp add: fresh_def)
  then show ?thesis
    using assms block_flow [OF assms(2), of rom]
    by (auto simp: stage_list_defs flow_ok_straight block_straight of_helper_straight helper_straight)
qed

interpretation flow_stages: stage_contract fresh flow_ok decode_stages
proof
  fix f a w i rom j
  assume f: "f \<in> set decode_stages" and i: "fresh a w i"
  show "f rom a w i = Fallthrough j \<Longrightarrow> fresh a w j"
    using stage_falls [OF f] i by (fastforce simp: fresh_def)
  show "f rom a w i = Matched j \<Longrightarrow> flow_ok rom a w j"
    using stages_flow [OF f i, of rom] by simp
next
  show "fresh a w i \<Longrightarrow> flow_ok rom a w i" for a w i rom by (rule flow_ok_straight) (simp add: fresh_def)
qed

end
