(* ===== verification/M68kDecodeProps.thy ===== *)
theory M68kDecodeProps
  imports M68kDecodeFlow
begin

text \<open>
  Unreachable stages, the bytes a decoded instruction depends on, and the properties of
  \<open>ng_m68k_decode\<close>.
\<close>

lemmas field_defs = op_top_def op_reg9_def op_opmode_def op_size2_def op_mode_def op_reg_def

subsection \<open>Opcode patterns\<close>

lemma and_submask:
  fixes w :: "'a::len word"
  assumes "w AND m = c" and "m' AND m = m'"
  shows "w AND m' = c AND m'"
  using assms by (metis and.assoc and.commute)

lemma field_of_mask:
  "op_mode w = ucast (drop_bit 3 (w AND 0x38))" "op_reg w = ucast (w AND 7)"
  "op_size2 w = ucast (drop_bit 6 (w AND 0xC0))" "op_top w = ucast (drop_bit 12 (w AND 0xF000))"
  by (simp_all add: op_mode_def op_reg_def op_size2_def op_top_def drop_bit_and)

lemma fields_of_pattern:
  assumes "w AND m = c"
  shows "0x38 AND m = 0x38 \<Longrightarrow> op_mode w = ucast (drop_bit 3 (c AND 0x38))"
    and "7 AND m = 7 \<Longrightarrow> op_reg w = ucast (c AND 7)"
    and "0xC0 AND m = 0xC0 \<Longrightarrow> op_size2 w = ucast (drop_bit 6 (c AND 0xC0))"
    and "0xF000 AND m = 0xF000 \<Longrightarrow> op_top w = ucast (drop_bit 12 (c AND 0xF000))"
  using and_submask [OF assms] by (simp_all add: field_of_mask)

subsection \<open>Unreachable stages\<close>

text \<open>\<open>claims f w\<close>: the stage returns on every instruction with the opcode word \<open>w\<close>.\<close>

definition claims :: "stage_fun \<Rightarrow> u16 \<Rightarrow> bool" where
  "claims f w \<longleftrightarrow> (\<forall>rom a i. \<exists>j. f rom a w i = Matched j)"

definition inert :: "stage_fun \<Rightarrow> u16 \<Rightarrow> bool" where
  "inert f w \<longleftrightarrow> (\<forall>rom a i. f rom a w i = Fallthrough i)"

lemma run_stages_append:
  "run_stages (xs @ ys) rom a w i =
     (case run_stages xs rom a w i of Matched j \<Rightarrow> Matched j | Fallthrough j \<Rightarrow> run_stages ys rom a w j)"
  by (induction xs arbitrary: i) (auto split: stage.splits)

lemma run_stages_claimed:
  assumes "f \<in> set xs" and "claims f w"
  shows "\<exists>j. run_stages xs rom a w i = Matched j"
  using assms(1)
proof (induction xs arbitrary: i)
  case (Cons g xs)
  then show ?case using assms(2) by (cases "g rom a w i") (auto simp: claims_def, metis stage.distinct(1))
qed simp

lemma drop_dead_stage:
  assumes "inert l w \<or> (\<exists>f\<in>set xs. claims f w)"
  shows "run_stages (xs @ l # ys) rom a w i = run_stages (xs @ ys) rom a w i"
  using assms
proof
  assume "inert l w"
  then show ?thesis by (simp add: run_stages_append inert_def split: stage.splits)
next
  assume "\<exists>f\<in>set xs. claims f w"
  then obtain j where "run_stages xs rom a w i = Matched j" using run_stages_claimed by metis
  then show ?thesis by (simp add: run_stages_append)
qed

abbreviation move_stage :: stage_fun where
  "move_stage \<equiv> \<lambda>rom addr op. of_helper (decode_move rom addr op)"

abbreviation alu_stage :: stage_fun where
  "alu_stage \<equiv> \<lambda>rom addr op. of_helper (decode_alu_ea_to_dreg rom addr op)"

lemma claims_move: "op_top w \<in> {1, 2, 3} \<Longrightarrow> claims move_stage w"
  by (auto simp: claims_def of_helper_def decode_move_def Let_def)

lemma claims_immediate:
  "op_size2 w \<noteq> 3 \<Longrightarrow> op_mode w \<noteq> 1 \<Longrightarrow> op_mode w \<noteq> 7 \<Longrightarrow> \<exists>j. decode_immediate_op mn rom a w i = Matched j"
  by (simp add: decode_immediate_op_def Let_def)

lemma legacy_lea_dead: "inert stage_legacy_lea_abs_l w \<or> claims stage_lea w"
proof (cases "w AND 0xF1FF = 0x41F9")
  case True
  show ?thesis
    using fields_of_pattern [OF True] and_submask [OF True, of "0xF1C0"]
    by (simp add: claims_def stage_lea_def is_control_ea_def Let_def)
qed (simp add: inert_def stage_legacy_lea_abs_l_def)

lemma legacy_movea_dead: "inert stage_legacy_movea_pc_index w \<or> claims move_stage w"
  using claims_move [of "0x207B"]
  by (cases "w = 0x207B") (simp_all add: inert_def stage_legacy_movea_pc_index_def op_top_def)

lemma legacy_andi_dead: "inert stage_legacy_andi_disp w \<or> claims stage_andi w"
proof (cases "w AND 0xFFF8 = 0x0228")
  case True
  show ?thesis
    using fields_of_pattern [OF True] and_submask [OF True, of "0xFF00"]
    by (simp add: claims_def stage_andi_def claims_immediate)
qed (simp add: inert_def stage_legacy_andi_disp_def)

lemma legacy_cmpi_dead: "inert stage_legacy_cmpi w \<or> claims stage_cmpi w"
proof (cases "w AND 0xFFF8 = 0x0C00")
  case True
  show ?thesis
    using fields_of_pattern [OF True] and_submask [OF True, of "0xFF00"]
    by (simp add: claims_def stage_cmpi_def claims_immediate)
qed (simp add: inert_def stage_legacy_cmpi_def)

lemma legacy_add_dead: "inert stage_legacy_add w \<or> claims alu_stage w"
  by (cases "w = 0xD040")
    (simp_all add: inert_def stage_legacy_add_def claims_def of_helper_def decode_alu_ea_to_dreg_def Let_def
      op_top_def op_size2_def op_mode_def op_reg_def is_data_ea_def)

lemma legacy_move_dead: "inert stage_legacy_move w \<or> claims move_stage w"
proof (cases "op_top w \<in> {1, 2, 3}")
  case True
  then show ?thesis by (simp add: claims_move)
next
  case False
  have "w AND m \<noteq> c"
    if "0xF000 AND m = 0xF000" and "ucast (drop_bit 12 (c AND 0xF000)) \<in> {1, 2, 3 :: u8}" for m c
    using fields_of_pattern(4) [of w m c] that False by metis
  note no = this
  have "w AND 0xFFF8 \<noteq> 0x23C8" "w AND 0xFFF8 \<noteq> 0x13C0" "w AND 0xF1FF \<noteq> 0x1039" "w AND 0xF1F8 \<noteq> 0x1028"
    "w AND 0xF1FF \<noteq> 0x2039" "w AND 0xF1FF \<noteq> 0x303C" "w AND 0xF1FF \<noteq> 0x103C"
    by (rule no; simp)+
  moreover have "w \<noteq> 0x33FC" "w \<noteq> 0x13FC" using False by (auto simp: op_top_def)
  ultimately show ?thesis by (simp add: inert_def stage_legacy_move_def Let_def)
qed

lemma op_size2_mask: "w AND 0x00C0 = push_bit 6 (ucast (op_size2 w))"
proof -
  have "w AND push_bit 6 (mask 2) = push_bit 6 (ucast (ucast (drop_bit 6 w AND mask 2) :: u8))"
    by (rule bit_word_eqI) (auto simp: bit_simps)
  then show ?thesis by (simp add: op_size2_def mask_eq_exp_minus_1)
qed

lemma claims_clr:
  "w AND 0xFF00 = 0x4200 \<Longrightarrow> op_size2 w \<noteq> 3 \<Longrightarrow> is_data_alterable_ea (op_mode w) (op_reg w) \<Longrightarrow>
   claims stage_clr w"
  by (simp add: claims_def stage_clr_def Let_def)

lemma legacy_clr_dead: "inert stage_legacy_clr w \<or> claims stage_clr w"
proof -
  consider "w \<in> {0x4239, 0x4279, 0x42B9}" | "w AND 0xFF38 = 0x4200" "w AND 0x00C0 \<noteq> 0x00C0"
    | "w \<notin> {0x4239, 0x4279, 0x42B9}" "\<not> (w AND 0xFF38 = 0x4200 \<and> w AND 0x00C0 \<noteq> 0x00C0)" by blast
  then show ?thesis
  proof cases
    case 1
    then have "claims stage_clr w"
      by (intro claims_clr) (auto simp: op_size2_def op_mode_def op_reg_def is_data_alterable_ea_def word_le_nat_alt)
    then show ?thesis ..
  next
    case 2
    have "op_size2 w \<noteq> 3"
      using 2(2) op_size2_mask [of w] by auto
    with fields_of_pattern [OF 2(1)] and_submask [OF 2(1), of "0xFF00"] show ?thesis
      by (simp add: claims_clr is_data_alterable_ea_def)
  next
    case 3
    then show ?thesis by (auto simp: inert_def stage_legacy_clr_def)
  qed
qed

lemma claims_tst:
  "w AND 0xFF00 = 0x4A00 \<Longrightarrow> op_size2 w \<noteq> 3 \<Longrightarrow> op_mode w \<noteq> 1 \<Longrightarrow> \<not> (op_mode w = 7 \<and> 2 \<le> op_reg w) \<Longrightarrow>
   claims stage_tst w"
  by (simp add: claims_def stage_tst_def Let_def)

lemma legacy_tst_dead: "inert stage_legacy_tst w \<or> claims stage_tst w"
proof -
  consider "w \<in> {0x4A39, 0x4A79, 0x4AB9}" | "w AND 0xFFF8 = 0x4A28"
    | "w \<notin> {0x4A39, 0x4A79, 0x4AB9}" "w AND 0xFFF8 \<noteq> 0x4A28" by blast
  then show ?thesis
  proof cases
    case 1
    then have "claims stage_tst w"
      by (intro claims_tst) (auto simp: op_size2_def op_mode_def op_reg_def word_le_nat_alt)
    then show ?thesis ..
  next
    case 2
    with fields_of_pattern [OF 2] and_submask [OF 2, of "0xFF00"] show ?thesis
      by (simp add: claims_tst)
  next
    case 3
    then show ?thesis by (auto simp: inert_def stage_legacy_tst_def)
  qed
qed

text \<open>The decoder without the blocks that are never reached.\<close>

definition live_stages :: "stage_fun list" where
  "live_stages = helper_stages @
     [stage_misc, stage_link, stage_move_usp, stage_jump_abs_l, stage_jump_pc_disp,
      stage_jump_aind, stage_jump_control, stage_branch, stage_moveq, stage_lea_pc_disp,
      stage_chk, stage_lea,
      \<lambda>rom addr op. of_helper (decode_immediate_to_sr_ccr rom addr op),
      stage_movep, stage_move_from_sr, stage_move_to_sr_ccr, stage_static_bit,
      stage_dynamic_bit, stage_ori_eori, stage_subi_addi, stage_cmpi, stage_andi,
      stage_addx_subx, stage_abcd_sbcd, stage_dbcc_scc, stage_addq_subq,
      stage_clr, stage_negx_neg_not, stage_nbcd, stage_swap_ext, stage_movem_to_mem,
      stage_movem_to_reg, stage_pea, stage_tas, stage_tst, stage_line_a_f]"

lemma dead_simp:
  assumes "inert l w \<or> claims f w" and "f \<in> set xs"
  shows "run_stages (xs @ l # ys) rom a w i = run_stages (xs @ ys) rom a w i"
  using assms by (intro drop_dead_stage) auto

lemma run_live_stages: "run_stages decode_stages rom a w i = run_stages live_stages rom a w i"
proof -
  let ?h = "helper_stages @ [stage_misc, stage_link, stage_move_usp, stage_jump_abs_l,
      stage_jump_pc_disp, stage_jump_aind, stage_jump_control, stage_branch, stage_moveq,
      stage_lea_pc_disp, stage_chk, stage_lea]"
  let ?o = "[\<lambda>rom addr op. of_helper (decode_immediate_to_sr_ccr rom addr op),
      stage_movep, stage_move_from_sr, stage_move_to_sr_ccr, stage_static_bit,
      stage_dynamic_bit, stage_ori_eori, stage_subi_addi, stage_cmpi, stage_andi]"
  let ?x = "[stage_addx_subx, stage_abcd_sbcd]"
  let ?t = "[stage_dbcc_scc, stage_addq_subq, stage_clr, stage_negx_neg_not, stage_nbcd,
      stage_swap_ext, stage_movem_to_mem, stage_movem_to_reg, stage_pea, stage_tas, stage_tst]"
  let ?z = "stage_legacy_clr # stage_legacy_tst # [stage_line_a_f]"
  let ?y = "stage_legacy_move # stage_legacy_cmpi # ?x @ stage_legacy_add # ?t @ ?z"
  let ?r = "\<lambda>xs. run_stages xs rom a w i"
  have mv: "move_stage \<in> set helper_stages" "alu_stage \<in> set helper_stages" by (simp_all add: helper_stages_def)
  have "?r decode_stages = ?r (?h @ stage_legacy_lea_abs_l # stage_legacy_movea_pc_index # ?o @
      stage_legacy_andi_disp # ?y)"
    by (simp add: decode_stages_def control_stages_def operand_stages_def tail_stages_def)
  also have "\<dots> = ?r (?h @ stage_legacy_movea_pc_index # ?o @ stage_legacy_andi_disp # ?y)"
    by (rule dead_simp [OF legacy_lea_dead]) simp
  also have "\<dots> = ?r ((?h @ ?o) @ stage_legacy_andi_disp # ?y)"
    by (subst dead_simp [OF legacy_movea_dead]) (use mv in simp_all)
  also have "\<dots> = ?r ((?h @ ?o) @ ?y)"
    by (rule dead_simp [OF legacy_andi_dead]) simp
  also have "\<dots> = ?r ((?h @ ?o) @ stage_legacy_cmpi # ?x @ stage_legacy_add # ?t @ ?z)"
    by (rule dead_simp [OF legacy_move_dead]) (use mv in simp)
  also have "\<dots> = ?r ((?h @ ?o @ ?x) @ stage_legacy_add # ?t @ ?z)"
    by (subst dead_simp [OF legacy_cmpi_dead]) simp_all
  also have "\<dots> = ?r ((?h @ ?o @ ?x @ ?t) @ ?z)"
    by (subst dead_simp [OF legacy_add_dead]) (use mv in simp_all)
  also have "\<dots> = ?r ((?h @ ?o @ ?x @ ?t) @ [stage_legacy_tst, stage_line_a_f])"
    by (rule dead_simp [OF legacy_clr_dead]) simp
  also have "\<dots> = ?r ((?h @ ?o @ ?x @ ?t) @ [stage_line_a_f])"
    by (rule dead_simp [OF legacy_tst_dead]) simp
  finally show ?thesis by (simp add: live_stages_def)
qed

subsection \<open>The bytes an instruction depends on\<close>

definition same_bytes :: "ng_program_rom \<Rightarrow> ng_program_rom \<Rightarrow> u32 \<Rightarrow> nat \<Rightarrow> bool" where
  "same_bytes rom rom' a n \<longleftrightarrow>
     (\<forall>k<n. ng_program_rom_read8 rom (a + of_nat k) = ng_program_rom_read8 rom' (a + of_nat k))"

lemma same_bytes_mono: "same_bytes rom rom' a n \<Longrightarrow> m \<le> n \<Longrightarrow> same_bytes rom rom' a m"
  by (simp add: same_bytes_def)

lemma same_bytes_read16:
  assumes "same_bytes rom rom' a n" and "k + 2 \<le> n"
  shows "ng_program_rom_read16 rom' (a + of_nat k) = ng_program_rom_read16 rom (a + of_nat k)"
proof (rule rom_reader.rd16_cong)
  show "ng_program_rom_read8 rom' (a + of_nat k) = ng_program_rom_read8 rom (a + of_nat k)"
    using assms by (simp add: same_bytes_def)
  have "ng_program_rom_read8 rom (a + of_nat (k + 1)) = ng_program_rom_read8 rom' (a + of_nat (k + 1))"
    using assms unfolding same_bytes_def by (metis add_le_imp_le_left less_eq_Suc_le Suc_1 Suc_eq_plus1 add_Suc_right)
  then show "ng_program_rom_read8 rom' (a + of_nat k + 1) = ng_program_rom_read8 rom (a + of_nat k + 1)"
    by (simp add: add_ac)
qed

lemma same_bytes_reads:
  assumes "same_bytes rom rom' a n"
  shows "2 \<le> n \<Longrightarrow> ng_program_rom_read16 rom' a = ng_program_rom_read16 rom a"
    and "4 \<le> n \<Longrightarrow> ng_program_rom_read16 rom' (a + 2) = ng_program_rom_read16 rom (a + 2)"
    and "6 \<le> n \<Longrightarrow> ng_program_rom_read16 rom' (a + 4) = ng_program_rom_read16 rom (a + 4)"
    and "8 \<le> n \<Longrightarrow> ng_program_rom_read16 rom' (a + 6) = ng_program_rom_read16 rom (a + 6)"
    and "6 \<le> n \<Longrightarrow> ng_program_rom_read32 rom' (a + 2) = ng_program_rom_read32 rom (a + 2)"
    and "8 \<le> n \<Longrightarrow> ng_program_rom_read32 rom' (a + 4) = ng_program_rom_read32 rom (a + 4)"
    and "10 \<le> n \<Longrightarrow> ng_program_rom_read32 rom' (a + 6) = ng_program_rom_read32 rom (a + 6)"
  using same_bytes_read16 [OF assms, of 0] same_bytes_read16 [OF assms, of 2] same_bytes_read16 [OF assms, of 4]
    same_bytes_read16 [OF assms, of 6] same_bytes_read16 [OF assms, of 8]
  by (simp_all add: rom_reader.rd32_words add.assoc)

text \<open>The length and the mode of an operand are fixed by the opcode alone.\<close>

definition ea_len :: "u8 \<Rightarrow> u8 \<Rightarrow> u8 \<Rightarrow> u32" where
  "ea_len m r sz =
     (if m = 5 \<or> m = 6 then 2
      else if m = 7 then
        if r = 1 then 4 else if r = 0 \<or> r = 2 \<or> r = 3 then 2
        else if r = 4 then if sz = NG_M68K_SIZE_LONG then 4 else 2 else 0
      else 0)"

definition ea_kind :: "u8 \<Rightarrow> u8 \<Rightarrow> ng_m68k_ea_mode" where
  "ea_kind m r = ea_mode (snd (decode_ea rom_zero 0 m r 0))"

lemma decode_ea_len: "fst (decode_ea rom a m r sz) = ea_len m r sz"
  by (simp add: decode_ea_def ea_len_def Let_def)

lemma decode_ea_kind: "ea_mode (snd (decode_ea rom a m r sz)) = ea_kind m r"
  by (simp add: decode_ea_def ea_kind_def decode_index_ext_def Let_def)

lemma ea_kind_none:
  assumes "m < 8" "r < 8"
  shows "ea_kind m r = NG_M68K_EA_NONE \<longleftrightarrow> m = 7 \<and> r \<noteq> 0 \<and> r \<noteq> 1 \<and> r \<noteq> 2 \<and> r \<noteq> 3 \<and> r \<noteq> 4"
proof -
  have "unat m < 8" using assms(1) by (simp add: word_less_nat_alt)
  then have "unat m \<in> {0, 1, 2, 3, 4, 5, 6, 7}" by auto
  then have "m \<in> {0, 1, 2, 3, 4, 5, 6, 7}" by (simp add: word_unat_eq_iff)
  then show ?thesis by (auto simp: ea_kind_def decode_ea_def decode_index_ext_def Let_def)
qed

lemma with_operand_len [simp]:
  "i_byte_length (with_src rom a b m r i) = ucast (b + ea_len m r (i_size i))"
  "i_byte_length (with_dst rom a b m r i) = ucast (b + ea_len m r (i_size i))"
  by (simp_all add: with_src_def with_dst_def case_prod_unfold decode_ea_len)

lemma decode_ea_cong:
  assumes "ea_len m r sz \<noteq> 0 \<Longrightarrow> ng_program_rom_read16 rom' x = ng_program_rom_read16 rom x"
    and "ea_len m r sz = 4 \<Longrightarrow> ng_program_rom_read32 rom' x = ng_program_rom_read32 rom x"
  shows "decode_ea rom' x m r sz = decode_ea rom x m r sz"
  using assms by (simp add: decode_ea_def ea_len_def Let_def)

lemma ea_len_cases: "ea_len m r sz = 0 \<or> ea_len m r sz = 2 \<or> ea_len m r sz = 4"
  by (simp add: ea_len_def)

lemma decode_ea_local:
  assumes "same_bytes rom rom' a (unat (b + ea_len m r sz))" and "base_ok b"
  shows "decode_ea rom' (a + b) m r sz = decode_ea rom (a + b) m r sz"
proof (rule decode_ea_cong)
  note rd = same_bytes_reads [OF assms(1)]
  have b: "b = 2 \<or> b = 4 \<or> b = 6" using assms(2) by (simp add: base_ok_def)
  show "ng_program_rom_read16 rom' (a + b) = ng_program_rom_read16 rom (a + b)" if "ea_len m r sz \<noteq> 0"
    using that ea_len_cases [of m r sz] b rd by auto
  show "ng_program_rom_read32 rom' (a + b) = ng_program_rom_read32 rom (a + b)" if "ea_len m r sz = 4"
    using that b rd by auto
qed

lemma with_operand_local:
  assumes "same_bytes rom rom' a (unat (b + ea_len m r (i_size i)))" and "base_ok b"
  shows "with_src rom' a b m r i = with_src rom a b m r i" "with_dst rom' a b m r i = with_dst rom a b m r i"
  by (simp_all add: with_src_def with_dst_def decode_ea_local [OF assms])

lemma with_operand_none:
  assumes "ea_kind m r = NG_M68K_EA_NONE"
  shows "with_src rom' a b m r i = with_src rom a b m r i" "with_dst rom' a b m r i = with_dst rom a b m r i"
proof -
  have "decode_ea rom' (a + b) m r (i_size i) = decode_ea rom (a + b) m r (i_size i)"
    using assms by (intro decode_ea_cong) (auto simp: ea_kind_def decode_ea_def decode_index_ext_def ea_len_def Let_def
      split: if_splits)
  then show "with_src rom' a b m r i = with_src rom a b m r i" "with_dst rom' a b m r i = with_dst rom a b m r i"
    by (simp_all add: with_src_def with_dst_def)
qed

lemma builder_lengths [simp]:
  "i_byte_length (as_unknown i) = 2"
  "i_byte_length (set_dst_reg em r i) = i_byte_length i"
  "i_byte_length (set_src_reg em r i) = i_byte_length i"
  "i_byte_length (dst_cascade f i) = i_byte_length i"
  "i_byte_length (populate_unary_dst_legacy_fields i) = i_byte_length i"
  "i_byte_length (populate_move_legacy_fields i) = i_byte_length i"
  "i_size (set_dst_reg em r i) = i_size i"
  "i_size (set_src_reg em r i) = i_size i"
  "i_src (set_dst_reg em r i) = i_src i"
  by (simp_all add: builder_defs Let_def)

lemma unat_operand_end [simp]:
  "base_ok b \<Longrightarrow> unat (ucast (b + ea_len m r sz) :: u8) = unat (b + ea_len m r sz)"
  "4 \<le> unat (4 + ea_len m r sz)"
  "4 \<le> unat (6 + ea_len m r sz)"
  "6 \<le> unat (6 + ea_len m r sz)"
  using ea_len_cases [of m r sz] by (auto simp: base_ok_def)

lemma ea_kind_simple [simp]: "ea_kind 0 r \<noteq> NG_M68K_EA_NONE"
  by (simp add: ea_kind_def decode_ea_def Let_def)

lemma small_register:
  fixes r :: u8
  shows "r \<le> 4 \<Longrightarrow> r = 0 \<or> r = 1 \<or> r = 2 \<or> r = 3 \<or> r = 4"
    and "r \<le> 3 \<Longrightarrow> r = 0 \<or> r = 1 \<or> r = 2 \<or> r = 3" and "r \<le> 1 \<Longrightarrow> r = 0 \<or> r = 1"
    and "r < 2 \<Longrightarrow> r = 0 \<or> r = 1"
  by (auto simp: word_le_nat_alt word_less_nat_alt word_unat_eq_iff)

lemma memory_ea_kind:
  "is_data_ea (op_mode w) (op_reg w) \<Longrightarrow> ea_kind (op_mode w) (op_reg w) \<noteq> NG_M68K_EA_NONE"
  "is_control_ea (op_mode w) (op_reg w) \<Longrightarrow> ea_kind (op_mode w) (op_reg w) \<noteq> NG_M68K_EA_NONE"
  "is_movem_reg_to_mem_ea (op_mode w) (op_reg w) \<Longrightarrow> ea_kind (op_mode w) (op_reg w) \<noteq> NG_M68K_EA_NONE"
  "is_movem_mem_to_reg_ea (op_mode w) (op_reg w) \<Longrightarrow> ea_kind (op_mode w) (op_reg w) \<noteq> NG_M68K_EA_NONE"
  "is_data_alterable_ea (op_mode w) (op_reg w) \<Longrightarrow> ea_kind (op_mode w) (op_reg w) \<noteq> NG_M68K_EA_NONE"
  "\<not> (op_mode w = 7 \<and> 2 \<le> op_reg w) \<Longrightarrow> ea_kind (op_mode w) (op_reg w) \<noteq> NG_M68K_EA_NONE"
  using small_register [of "op_reg w"]
  by (auto simp: ea_kind_none is_data_alterable_ea_def is_data_ea_def is_control_ea_def
      is_movem_reg_to_mem_ea_def is_movem_mem_to_reg_ea_def not_le not_less)

text \<open>
  \<open>stage_local\<close>: a stage that returns an instruction of some length looks at no byte beyond that
  length, and whether it returns at all is decided by the opcode.
\<close>

definition stage_local :: "ng_program_rom \<Rightarrow> ng_program_rom \<Rightarrow> u32 \<Rightarrow> u16 \<Rightarrow> ng_m68k_instr \<Rightarrow> stage_fun \<Rightarrow> bool" where
  "stage_local rom rom' a w i f \<longleftrightarrow>
     (same_bytes rom rom' a (unat (i_byte_length (stage_out (f rom a w i)))) \<longrightarrow>
      f rom' a w i = f rom a w i)"

lemmas local_rules = with_operand_none with_operand_local same_bytes_reads

lemma control_local:
  "stage_local rom rom' a w i stage_misc"
  "stage_local rom rom' a w i stage_link"
  "stage_local rom rom' a w i stage_move_usp"
  "stage_local rom rom' a w i stage_jump_abs_l"
  "stage_local rom rom' a w i stage_jump_pc_disp"
  "stage_local rom rom' a w i stage_jump_aind"
  "stage_local rom rom' a w i stage_branch"
  "stage_local rom rom' a w i stage_moveq"
  "stage_local rom rom' a w i stage_lea_pc_disp"
  "stage_local rom rom' a w i stage_chk"
  "stage_local rom rom' a w i stage_legacy_lea_abs_l"
  "stage_local rom rom' a w i stage_legacy_movea_pc_index"
  by (auto simp: stage_local_def control_defs Let_def src_mode_def dst_mode_def decode_ea_kind
      memory_ea_kind local_rules [where rom = rom and rom' = rom'] populate_branch_target_def
      movem_fields_def split: if_splits)

lemma operand_local:
  "stage_local rom rom' a w i stage_movep"
  "stage_local rom rom' a w i stage_move_from_sr"
  "stage_local rom rom' a w i stage_move_to_sr_ccr"
  "stage_local rom rom' a w i stage_static_bit"
  "stage_local rom rom' a w i stage_dynamic_bit"
  "stage_local rom rom' a w i stage_ori_eori"
  "stage_local rom rom' a w i stage_subi_addi"
  "stage_local rom rom' a w i stage_cmpi"
  "stage_local rom rom' a w i stage_andi"
  "stage_local rom rom' a w i stage_legacy_andi_disp"
  "stage_local rom rom' a w i stage_legacy_move"
  "stage_local rom rom' a w i stage_legacy_cmpi"
  by (auto simp: stage_local_def operand_defs Let_def src_mode_def dst_mode_def decode_ea_kind
      memory_ea_kind local_rules [where rom = rom and rom' = rom'] populate_branch_target_def
      movem_fields_def split: if_splits)

lemma tail_local:
  "stage_local rom rom' a w i stage_addx_subx"
  "stage_local rom rom' a w i stage_abcd_sbcd"
  "stage_local rom rom' a w i stage_legacy_add"
  "stage_local rom rom' a w i stage_dbcc_scc"
  "stage_local rom rom' a w i stage_addq_subq"
  "stage_local rom rom' a w i stage_clr"
  "stage_local rom rom' a w i stage_negx_neg_not"
  "stage_local rom rom' a w i stage_nbcd"
  "stage_local rom rom' a w i stage_swap_ext"
  "stage_local rom rom' a w i stage_movem_to_mem"
  "stage_local rom rom' a w i stage_movem_to_reg"
  "stage_local rom rom' a w i stage_pea"
  "stage_local rom rom' a w i stage_tas"
  "stage_local rom rom' a w i stage_legacy_clr"
  "stage_local rom rom' a w i stage_legacy_tst"
  "stage_local rom rom' a w i stage_line_a_f"
  by (auto simp: stage_local_def tail_defs Let_def src_mode_def dst_mode_def decode_ea_kind
      memory_ea_kind local_rules [where rom = rom and rom' = rom'] populate_branch_target_def
      movem_fields_def split: if_splits)

lemma local_jump_control: "stage_local rom rom' a w i stage_jump_control"
proof (cases "(w AND 0xFFC0 = 0x4E80 \<or> w AND 0xFFC0 = 0x4EC0) \<and> is_control_ea (op_mode w) (op_reg w)")
  case True
  then have "i_byte_length (stage_out (stage_jump_control rom a w i)) =
      i_byte_length (with_src rom a 2 (op_mode w) (op_reg w) (i\<lparr>i_size := i_size i\<rparr>))"
    by (simp add: stage_jump_control_def Let_def src_mode_def decode_ea_kind memory_ea_kind)
  with True show ?thesis
    by (simp add: stage_local_def stage_jump_control_def Let_def with_operand_local [where rom = rom and rom' = rom'])
next
  case False
  show ?thesis unfolding stage_local_def stage_jump_control_def by (simp only: False if_False simp_thms)
qed

lemma local_lea: "stage_local rom rom' a w i stage_lea"
proof (cases "w AND 0xF1C0 = 0x41C0 \<and> is_control_ea (op_mode w) (op_reg w)")
  case True
  then have "i_byte_length (stage_out (stage_lea rom a w i)) =
      i_byte_length (with_src rom a 2 (op_mode w) (op_reg w) (i\<lparr>i_size := NG_M68K_SIZE_LONG\<rparr>))"
    by (simp add: stage_lea_def Let_def src_mode_def decode_ea_kind memory_ea_kind)
  with True show ?thesis
    by (simp add: stage_local_def stage_lea_def Let_def with_operand_local [where rom = rom and rom' = rom'])
qed (auto simp: stage_local_def stage_lea_def Let_def)

lemma local_tst: "stage_local rom rom' a w i stage_tst"
proof (cases "w AND 0xFF00 = 0x4A00 \<and> op_size2 w \<noteq> 3 \<and> op_mode w \<noteq> 1 \<and> \<not> (op_mode w = 7 \<and> 2 \<le> op_reg w)")
  case True
  then have "i_byte_length (stage_out (stage_tst rom a w i)) =
      i_byte_length (with_src rom a 2 (op_mode w) (op_reg w) (i\<lparr>i_size := size_from_opcode_bits (op_size2 w)\<rparr>))"
    by (simp add: stage_tst_def Let_def src_mode_def decode_ea_kind memory_ea_kind)
  with True show ?thesis
    by (simp add: stage_local_def stage_tst_def Let_def with_operand_local [where rom = rom and rom' = rom'])
qed (auto simp: stage_local_def stage_tst_def Let_def)

lemma helper_local:
  "stage_local rom rom' a w i (\<lambda>rom a w. of_helper (decode_alu_address_reg rom a w))"
  "stage_local rom rom' a w i (\<lambda>rom a w. of_helper (decode_logic_binary rom a w))"
  "stage_local rom rom' a w i (\<lambda>rom a w. of_helper (decode_addsub_dreg_to_ea rom a w))"
  "stage_local rom rom' a w i (\<lambda>rom a w. of_helper (decode_exchange w))"
  "stage_local rom rom' a w i (\<lambda>rom a w. of_helper (decode_shift_rotate rom a w))"
  "stage_local rom rom' a w i (\<lambda>rom a w. of_helper (decode_multiply rom a w))"
  "stage_local rom rom' a w i (\<lambda>rom a w. of_helper (decode_divide rom a w))"
  "stage_local rom rom' a w i (\<lambda>rom a w. of_helper (decode_alu_ea_to_dreg rom a w))"
  "stage_local rom rom' a w i (\<lambda>rom a w. of_helper (decode_cmpm w))"
  "stage_local rom rom' a w i (\<lambda>rom a w. of_helper (decode_immediate_to_sr_ccr rom a w))"
  by (auto simp: stage_local_def of_helper_def helper_defs decode_word_to_dreg_def Let_def src_mode_def
      dst_mode_def decode_ea_kind memory_ea_kind local_rules [where rom = rom and rom' = rom'] split: if_splits)

lemma operands_end:
  "same_bytes rom rom' a (unat (b + ea_len m r sz)) \<Longrightarrow> base_ok b \<Longrightarrow> same_bytes rom rom' a (unat b)"
  using ea_len_cases [of m r sz] by (auto simp: base_ok_def elim!: same_bytes_mono)

lemma move_dst_kind:
  assumes "is_data_alterable_ea (op_opmode w) (op_reg9 w) \<or> op_opmode w = 1"
  shows "ea_kind (op_opmode w) (op_reg9 w) \<noteq> NG_M68K_EA_NONE"
  using assms small_register [of "op_reg9 w"]
  by (auto simp: ea_kind_none is_data_alterable_ea_def not_le)

lemma local_move_operands:
  assumes sb: "same_bytes rom rom' a (unat (i_byte_length (decode_move_operands rom a w sz i)))"
    and dst: "is_data_alterable_ea (op_opmode w) (op_reg9 w) \<or> op_opmode w = 1"
  shows "decode_move_operands rom' a w sz i = decode_move_operands rom a w sz i"
proof -
  define i1 where "i1 = i\<lparr>i_mnemonic := (if op_opmode w = 1 then NG_M68K_MOVEA else NG_M68K_MOVE),
                     i_size := sz, i_byte_length := 2\<rparr>"
  show ?thesis
  proof (cases "ea_kind (op_mode w) (op_reg w) = NG_M68K_EA_NONE")
    case True
    then show ?thesis
      by (simp add: decode_move_operands_def Let_def src_mode_def decode_ea_kind with_operand_none [where rom = rom and rom' = rom'])
  next
    case False
    let ?b = "ucast (i_byte_length (with_src rom a 2 (op_mode w) (op_reg w) i1)) :: u32"
    have len: "i_byte_length (decode_move_operands rom a w sz i) = ucast (?b + ea_len (op_opmode w) (op_reg9 w) sz)"
      using False move_dst_kind [OF dst]
      by (simp add: decode_move_operands_def Let_def src_mode_def dst_mode_def decode_ea_kind i1_def)
    have "base_ok ?b" by (rule with_src_base_ok)
    with sb len have sb2: "same_bytes rom rom' a (unat (?b + ea_len (op_opmode w) (op_reg9 w) sz))"
      by simp
    have sb1: "same_bytes rom rom' a (unat (2 + ea_len (op_mode w) (op_reg w) sz))"
      using operands_end [OF sb2 \<open>base_ok ?b\<close>] by (simp add: i1_def unat_ucast_up)
    show ?thesis
      using sb1 sb2 \<open>base_ok ?b\<close>
      by (simp add: decode_move_operands_def Let_def with_operand_local [where rom = rom and rom' = rom'] i1_def)
  qed
qed

lemma move_local: "stage_local rom rom' a w i move_stage"
  using local_move_operands [of rom rom' a w _ i]
  by (auto simp: stage_local_def of_helper_def decode_move_def Let_def)

lemma stages_local: "f \<in> set decode_stages \<Longrightarrow> stage_local rom rom' a w i f"
  by (auto simp: stage_list_defs control_local operand_local tail_local helper_local move_local
      local_jump_control local_lea local_tst)

lemma instr_ok_length: "instr_ok i \<Longrightarrow> 2 \<le> unat (i_byte_length i)"
  by (auto simp: instr_ok_def length_ok_def)

lemma run_stages_local:
  assumes "set fs \<subseteq> set decode_stages" and "instr_ok i" and "i_byte_length i = 2"
    and "same_bytes rom rom' a (unat (i_byte_length (stage_out (run_stages fs rom a w i))))"
  shows "run_stages fs rom' a w i = run_stages fs rom a w i"
  using assms
proof (induction fs arbitrary: i)
  case (Cons f fs)
  then have f: "f \<in> set decode_stages" by simp
  note loc = stages_local [OF f, of rom rom' a w i]
  show ?case
  proof (cases "f rom a w i")
    case (Matched j)
    with loc Cons.prems(4) show ?thesis by (simp add: stage_local_def)
  next
    case (Fallthrough j)
    have len: "i_byte_length j = 2" using stage_falls [OF f Fallthrough] Cons.prems(3) by auto
    have ok: "instr_ok j" using ok_stages.falls [OF f Cons.prems(2) Fallthrough] .
    have "instr_ok (stage_out (run_stages fs rom a w j))"
      using Cons.prems(1) ok by (intro ok_stages.run_sub) simp_all
    then have "same_bytes rom rom' a 2"
      using Cons.prems(4) Fallthrough by (auto intro: same_bytes_mono dest: instr_ok_length)
    with loc Fallthrough len have "f rom' a w i = Fallthrough j" by (simp add: stage_local_def)
    then show ?thesis using Cons Fallthrough len ok by simp
  qed
qed simp

subsection \<open>The decoder as a whole\<close>

text \<open>The instruction the stages leave behind, before \<open>finish_decode\<close> checks its last byte.\<close>

definition decode_body :: "stage_fun list \<Rightarrow> ng_program_rom \<Rightarrow> u32 \<Rightarrow> ng_m68k_instr" where
  "decode_body stages rom a =
     stage_out (run_stages stages rom a (ng_program_rom_read16 rom a)
       (instr_zero\<lparr>i_addr := a, i_opcode := ng_program_rom_read16 rom a,
                   i_mnemonic := NG_M68K_UNKNOWN, i_byte_length := 2\<rparr>))"

definition decode_with :: "stage_fun list \<Rightarrow> ng_program_rom \<Rightarrow> u32 \<Rightarrow> bool \<times> ng_m68k_instr" where
  "decode_with stages rom a =
     (if \<not> ng_program_rom_addr_is_mapped rom a \<or> \<not> ng_program_rom_addr_is_mapped rom (a + 1)
      then (False, instr_zero\<lparr>i_addr := a\<rparr>)
      else finish_decode rom a (decode_body stages rom a))"

lemma decode_unfold: "ng_m68k_decode rom a = decode_with decode_stages rom a"
  by (simp add: ng_m68k_decode_def decode_with_def decode_body_def Let_def instr_zero_def)

lemma base_instr:
  "instr_ok (instr_zero\<lparr>i_addr := a, i_opcode := w, i_mnemonic := NG_M68K_UNKNOWN, i_byte_length := 2\<rparr>)"
  "fresh a w (instr_zero\<lparr>i_addr := a, i_opcode := w, i_mnemonic := NG_M68K_UNKNOWN, i_byte_length := 2\<rparr>)"
  "instr_id (instr_zero\<lparr>i_addr := a, i_opcode := w, i_mnemonic := NG_M68K_UNKNOWN, i_byte_length := 2\<rparr>) = (a, w)"
  by (simp_all add: instr_ok_def instr_zero_def ea_ok_def ea_zero_def fresh_def instr_id_def)

lemma decode_body_ok: "instr_ok (decode_body decode_stages rom a)"
  unfolding decode_body_def by (rule ok_stages.run_post [OF base_instr(1)])


lemma decode_body_id:
  "i_addr (decode_body decode_stages rom a) = a"
  "i_opcode (decode_body decode_stages rom a) = ng_program_rom_read16 rom a"
  using id_stages.run_post [OF base_instr(3), of rom a "ng_program_rom_read16 rom a"]
  by (simp_all add: decode_body_def instr_id_def)

lemma instr_ok_last: "instr_ok i \<Longrightarrow> i_byte_length i \<noteq> 0"
  by (auto simp: instr_ok_def length_ok_def)

lemma decode_eq_True:
  "ng_m68k_decode rom a = (True, i) \<longleftrightarrow>
     i = decode_body decode_stages rom a \<and>
     ng_program_rom_addr_is_mapped rom a \<and> ng_program_rom_addr_is_mapped rom (a + 1) \<and>
     a \<le> a + ucast (i_byte_length i) - 1 \<and>
     ng_program_rom_addr_is_mapped rom (a + ucast (i_byte_length i) - 1)"
  using instr_ok_last [OF decode_body_ok [of rom a]]
  by (auto simp: decode_unfold decode_with_def finish_decode_def Let_def not_less)

lemma decode_eq_False: "ng_m68k_decode rom a = (False, i) \<Longrightarrow> i = instr_zero\<lparr>i_addr := a\<rparr>"
  using instr_ok_last [OF decode_body_ok [of rom a]]
  by (auto simp: decode_unfold decode_with_def finish_decode_def Let_def instr_zero_def split: if_splits)

lemma last_byte_no_wrap:
  assumes "a \<le> a + ucast n - 1" and "length_ok n"
  shows "unat (a :: u32) + unat n \<le> 2 ^ 32"
proof (rule ccontr)
  assume big: "\<not> ?thesis"
  have n: "2 \<le> unat n" "unat n \<le> 10" using assms(2) by (auto simp: length_ok_def)
  define b where "b = a + ucast n"
  have b: "unat b = unat a + unat n - 2 ^ 32"
    using big n unat_below [of a]
    by (simp add: b_def unat_word_ariths unat_ucast_up le_mod_geq)
  then have "0 < unat b" "unat b < unat a" using big n unat_below [of a] by auto
  then have "unat (b - 1) < unat a" by (simp add: unat_minus_one unat_gt_0)
  then show False using assms(1) by (simp add: b_def word_le_nat_alt)
qed

subsection \<open>Properties\<close>

text \<open>
  C1 (type): a successful decode yields a well-formed instruction: its length is 2, 4, 6, 8
  or 10 bytes, its register numbers, size and condition fields are in range, it carries the
  address and the opcode word it was decoded from, its first two bytes and its last byte are
  mapped, and it does not wrap around the address space.
\<close>

theorem decode_success_well_formed:
  assumes "ng_m68k_decode rom a = (True, i)"
  shows "instr_ok i \<and> i_addr i = a \<and> i_opcode i = ng_program_rom_read16 rom a \<and>
         ng_program_rom_addr_is_mapped rom a \<and> ng_program_rom_addr_is_mapped rom (a + 1) \<and>
         ng_program_rom_addr_is_mapped rom (a + ucast (i_byte_length i) - 1) \<and>
         unat a + unat (i_byte_length i) \<le> 2 ^ 32"
proof -
  have ok: "instr_ok i" "length_ok (i_byte_length i)"
    using assms decode_body_ok [of rom a] by (auto simp: decode_eq_True instr_ok_def)
  with assms last_byte_no_wrap [of a "i_byte_length i"] show ?thesis
    by (auto simp: decode_eq_True decode_body_id)
qed

text \<open>
  A failed decode leaves the output structure in its cleared state: mnemonic
  INVALID, length 0, every operand empty, only the address set. No partly decoded instruction
  escapes.
\<close>

theorem decode_failure_is_cleared:
  assumes "ng_m68k_decode rom a = (False, i)"
  shows "i = instr_zero\<lparr>i_addr := a\<rparr>"
  using assms by (rule decode_eq_False)


text \<open>
  The single-opcode blocks kept from an earlier decoder are unreachable;
  removing the eight of them from the sequence changes no decoded instruction.
\<close>

theorem decode_legacy_blocks_dead: "ng_m68k_decode rom a = decode_with live_stages rom a"
  by (simp add: decode_unfold decode_with_def decode_body_def run_live_stages)

text \<open>
  C3 (functional): a decoded instruction is self-contained. Any program ROM that has the same
  bytes at the addresses of the instruction, and maps its first two bytes and its last one,
  decodes to the same instruction there: the decoder looks at nothing beyond the length it
  reports.
\<close>

theorem decode_self_contained:
  assumes dec: "ng_m68k_decode rom a = (True, i)"
    and same: "same_bytes rom rom' a (unat (i_byte_length i))"
    and mapped: "ng_program_rom_addr_is_mapped rom' a" "ng_program_rom_addr_is_mapped rom' (a + 1)"
      "ng_program_rom_addr_is_mapped rom' (a + ucast (i_byte_length i) - 1)"
  shows "ng_m68k_decode rom' a = (True, i)"
proof -
  have i: "i = decode_body decode_stages rom a" using dec by (simp add: decode_eq_True)
  have "2 \<le> unat (i_byte_length i)" unfolding i by (rule instr_ok_length [OF decode_body_ok])
  then have op: "ng_program_rom_read16 rom' a = ng_program_rom_read16 rom a"
    by (rule same_bytes_reads(1) [OF same])
  have "decode_body decode_stages rom' a = i"
    unfolding i decode_body_def op
    by (subst run_stages_local [where rom = rom]) (use same in \<open>simp_all add: i decode_body_def base_instr\<close>)
  with dec mapped show ?thesis unfolding decode_eq_True by auto
qed

text \<open>A four-byte \<open>BSR.W\<close> followed by \<open>RTS\<close>.\<close>

definition sample_code :: ng_program_rom where
  "sample_code = rom_zero\<lparr>rom_data := [0x61, 0x00, 0x00, 0x10, 0x4E, 0x75], rom_size := 6\<rparr>"

definition sample_bsr :: ng_m68k_instr where
  "sample_bsr = instr_zero\<lparr>i_opcode := 0x6100, i_mnemonic := NG_M68K_BSR, i_byte_length := 4,
                           i_displacement := 0x10, i_target := 0x12\<rparr>"

lemma sample_reads:
  "ng_program_rom_read16 sample_code 0 = 0x6100" "ng_program_rom_read16 sample_code 2 = 0x10"
  by (simp_all add: sample_code_def rom_reader.rd16_bytes ng_program_rom_read8_def be16_def rom_zero_def
      ng_program_rom_translate_addr_def word_le_nat_alt)

lemma sample_mapped:
  "ng_program_rom_addr_is_mapped sample_code 0" "ng_program_rom_addr_is_mapped sample_code 1"
  "ng_program_rom_addr_is_mapped sample_code 3"
  by (simp_all add: sample_code_def ng_program_rom_addr_is_mapped_def rom_zero_def
      ng_program_rom_translate_addr_def word_le_nat_alt)

lemma sample_decode: "ng_m68k_decode sample_code 0 = (True, sample_bsr)"
  by (simp add: decode_unfold decode_with_def decode_body_def sample_reads sample_mapped
     finish_decode_def sample_bsr_def stage_list_defs of_helper_def helper_defs control_defs
     field_defs Let_def populate_branch_target_def sign16_def instr_zero_def)

theorem decode_success_well_formed_witness:
  "instr_ok sample_bsr \<and> unat (0 :: u32) + unat (i_byte_length sample_bsr) \<le> 2 ^ 32"
  using decode_success_well_formed [OF sample_decode] by blast

theorem decode_failure_is_cleared_witness:
  "snd (ng_m68k_decode rom_zero 0) = instr_zero\<lparr>i_addr := 0\<rparr>"
proof (rule decode_failure_is_cleared [of rom_zero])
  show "ng_m68k_decode rom_zero 0 = (False, snd (ng_m68k_decode rom_zero 0))"
    by (simp add: decode_unfold decode_with_def ng_program_rom_addr_is_mapped_def rom_zero_def
        ng_program_rom_translate_addr_def)
qed


definition sample_code2 :: ng_program_rom where
  "sample_code2 = rom_zero\<lparr>rom_data := [0x61, 0x00, 0x00, 0x10], rom_size := 4\<rparr>"

theorem decode_self_contained_witness: "ng_m68k_decode sample_code2 0 = (True, sample_bsr)"
proof (rule decode_self_contained [OF sample_decode])
  have four: "(\<forall>k<4. P k) \<longleftrightarrow> P 0 \<and> P 1 \<and> P 2 \<and> P 3" for P :: "nat \<Rightarrow> bool"
    by (auto simp: less_Suc_eq numeral_eq_Suc)
  show "same_bytes sample_code sample_code2 0 (unat (i_byte_length sample_bsr))"
    by (simp add: same_bytes_def sample_bsr_def four sample_code_def sample_code2_def
        ng_program_rom_read8_def rom_zero_def ng_program_rom_translate_addr_def word_le_nat_alt)
qed (simp_all add: sample_bsr_def sample_code2_def ng_program_rom_addr_is_mapped_def rom_zero_def
      ng_program_rom_translate_addr_def word_le_nat_alt)

end
