(* ===== verification/M68kValidate.thy ===== *)
theory M68kValidate
  imports M68kDecode
begin

text \<open>
  The instruction validator (\<open>recompiler/src/m68k_validate.c\<close>). Discovery, the emitter and the audits
  use an instruction only after \<open>ng_m68k_validate\<close> accepts it: the validator re-derives the opcode word
  from the decoded fields and requires every field the mnemonic does not use to be zero.

  A helper with an output parameter (\<open>*out_ext\<close>, \<open>*out_field\<close>, \<open>*out_kind\<close>) returns an option: \<open>None\<close> is
  the return value 0. The pointer arguments are non-null.
\<close>

subsection \<open>Operand payloads\<close>

definition ea_is_memory_alterable :: "ng_m68k_ea \<Rightarrow> bool" where
  "ea_is_memory_alterable ea \<longleftrightarrow>
     (case ea_mode ea of
        NG_M68K_EA_AIND \<Rightarrow> True | NG_M68K_EA_APOST \<Rightarrow> True | NG_M68K_EA_APRE \<Rightarrow> True
      | NG_M68K_EA_ADISP \<Rightarrow> True | NG_M68K_EA_AINDEX \<Rightarrow> True | NG_M68K_EA_ABS_W \<Rightarrow> True
      | NG_M68K_EA_ABS_L \<Rightarrow> True | _ \<Rightarrow> False)"

definition ea_is_data_alterable :: "ng_m68k_ea \<Rightarrow> bool" where
  "ea_is_data_alterable ea \<longleftrightarrow> ea_mode ea = NG_M68K_EA_DREG \<or> ea_is_memory_alterable ea"

definition ea_is_empty :: "ng_m68k_ea \<Rightarrow> bool" where
  "ea_is_empty ea \<longleftrightarrow> ea_mode ea = NG_M68K_EA_NONE \<and> ea_reg ea = 0 \<and> ea_index_reg ea = 0 \<and>
     ea_index_is_addr ea = 0 \<and> ea_index_is_long ea = 0 \<and> ea_displacement ea = 0 \<and>
     ea_absolute_addr ea = 0 \<and> ea_immediate ea = 0"

definition no_ea_fields :: "ng_m68k_instr \<Rightarrow> bool" where
  "no_ea_fields i \<longleftrightarrow> ea_is_empty (i_src i) \<and> ea_is_empty (i_dst i)"

definition ea_is_exact_register :: "ng_m68k_ea \<Rightarrow> ng_m68k_ea_mode \<Rightarrow> bool" where
  "ea_is_exact_register ea mode \<longleftrightarrow> ea_mode ea = mode \<and> ea_reg ea < 8 \<and> ea_index_reg ea = 0 \<and>
     ea_index_is_addr ea = 0 \<and> ea_index_is_long ea = 0 \<and> ea_displacement ea = 0 \<and>
     ea_absolute_addr ea = 0 \<and> ea_immediate ea = 0"

definition valid_size :: "u8 \<Rightarrow> bool" where
  "valid_size sz \<longleftrightarrow> sz = 1 \<or> sz = 2 \<or> sz = 4"

definition valid_word_or_long :: "u8 \<Rightarrow> bool" where
  "valid_word_or_long sz \<longleftrightarrow> sz = 2 \<or> sz = 4"

definition valid_bool_field :: "u8 \<Rightarrow> bool" where
  "valid_bool_field v \<longleftrightarrow> v \<le> 1"

definition signed_byte_value :: "u16 \<Rightarrow> bool" where
  "signed_byte_value v \<longleftrightarrow> - 128 \<le> sint v \<and> sint v \<le> 127"

definition sign_extend_abs_word_value :: "u32 \<Rightarrow> u32" where
  "sign_extend_abs_word_value v = scast (ucast v :: u16)"

definition add_signed_disp :: "u32 \<Rightarrow> u16 \<Rightarrow> u32" where
  "add_signed_disp base displacement = ucast ((ucast base :: u64) + scast displacement)"

definition ea_simple_register_payload :: "ng_m68k_ea \<Rightarrow> bool" where
  "ea_simple_register_payload ea \<longleftrightarrow> ea_reg ea < 8 \<and> ea_index_reg ea = 0 \<and>
     ea_index_is_addr ea = 0 \<and> ea_index_is_long ea = 0 \<and> ea_displacement ea = 0 \<and>
     ea_absolute_addr ea = 0 \<and> ea_immediate ea = 0"

definition ea_address_displacement_payload :: "ng_m68k_ea \<Rightarrow> bool" where
  "ea_address_displacement_payload ea \<longleftrightarrow> ea_reg ea < 8 \<and> ea_index_reg ea = 0 \<and>
     ea_index_is_addr ea = 0 \<and> ea_index_is_long ea = 0 \<and> ea_absolute_addr ea = 0 \<and>
     ea_immediate ea = 0"

definition ea_address_index_payload :: "ng_m68k_ea \<Rightarrow> bool" where
  "ea_address_index_payload ea \<longleftrightarrow> ea_reg ea < 8 \<and> ea_index_reg ea < 8 \<and>
     valid_bool_field (ea_index_is_addr ea) \<and> valid_bool_field (ea_index_is_long ea) \<and>
     signed_byte_value (ea_displacement ea) \<and> ea_absolute_addr ea = 0 \<and> ea_immediate ea = 0"

definition ea_abs_word_payload :: "ng_m68k_ea \<Rightarrow> bool" where
  "ea_abs_word_payload ea \<longleftrightarrow> ea_reg ea = 0 \<and> ea_index_reg ea = 0 \<and> ea_index_is_addr ea = 0 \<and>
     ea_index_is_long ea = 0 \<and> ea_displacement ea = 0 \<and>
     ea_absolute_addr ea = sign_extend_abs_word_value (ea_absolute_addr ea) \<and> ea_immediate ea = 0"

definition ea_abs_long_payload :: "ng_m68k_ea \<Rightarrow> bool" where
  "ea_abs_long_payload ea \<longleftrightarrow> ea_reg ea = 1 \<and> ea_index_reg ea = 0 \<and> ea_index_is_addr ea = 0 \<and>
     ea_index_is_long ea = 0 \<and> ea_displacement ea = 0 \<and> ea_immediate ea = 0"

definition ea_pc_displacement_payload :: "ng_m68k_ea \<Rightarrow> u32 \<Rightarrow> bool" where
  "ea_pc_displacement_payload ea extension_addr \<longleftrightarrow> ea_reg ea = 2 \<and> ea_index_reg ea = 0 \<and>
     ea_index_is_addr ea = 0 \<and> ea_index_is_long ea = 0 \<and>
     ea_absolute_addr ea = add_signed_disp extension_addr (ea_displacement ea) \<and> ea_immediate ea = 0"

definition ea_pc_index_payload :: "ng_m68k_ea \<Rightarrow> u32 \<Rightarrow> bool" where
  "ea_pc_index_payload ea extension_addr \<longleftrightarrow> ea_reg ea = 3 \<and> ea_index_reg ea < 8 \<and>
     valid_bool_field (ea_index_is_addr ea) \<and> valid_bool_field (ea_index_is_long ea) \<and>
     signed_byte_value (ea_displacement ea) \<and>
     ea_absolute_addr ea = add_signed_disp extension_addr (ea_displacement ea) \<and> ea_immediate ea = 0"

definition ea_immediate_payload :: "ng_m68k_ea \<Rightarrow> u8 \<Rightarrow> bool" where
  "ea_immediate_payload ea sz \<longleftrightarrow>
     (if ea_reg ea \<noteq> 4 \<or> ea_index_reg ea \<noteq> 0 \<or> ea_index_is_addr ea \<noteq> 0 \<or>
         ea_index_is_long ea \<noteq> 0 \<or> ea_displacement ea \<noteq> 0 \<or> ea_absolute_addr ea \<noteq> 0 then False
      else if sz = 1 then ea_immediate ea \<le> 0xFF
      else if sz = 2 then ea_immediate ea \<le> 0xFFFF
      else sz = 4)"

text \<open>\<open>*out_ext = n; return 1\<close> when the payload is valid, \<open>return 0\<close> otherwise.\<close>

definition ext_when :: "bool \<Rightarrow> u8 \<Rightarrow> u8 option" where
  "ext_when ok n = (if ok then Some n else None)"

text \<open>The six opcode bits of an operand.\<close>

definition ea_opcode_field :: "ng_m68k_ea \<Rightarrow> u8 option" where
  "ea_opcode_field ea =
     (case ea_mode ea of
        NG_M68K_EA_DREG \<Rightarrow> if 8 \<le> ea_reg ea then None else Some (ea_reg ea)
      | NG_M68K_EA_AREG \<Rightarrow> if 8 \<le> ea_reg ea then None else Some (0x08 OR ea_reg ea)
      | NG_M68K_EA_AIND \<Rightarrow> if 8 \<le> ea_reg ea then None else Some (0x10 OR ea_reg ea)
      | NG_M68K_EA_APOST \<Rightarrow> if 8 \<le> ea_reg ea then None else Some (0x18 OR ea_reg ea)
      | NG_M68K_EA_APRE \<Rightarrow> if 8 \<le> ea_reg ea then None else Some (0x20 OR ea_reg ea)
      | NG_M68K_EA_ADISP \<Rightarrow> if 8 \<le> ea_reg ea then None else Some (0x28 OR ea_reg ea)
      | NG_M68K_EA_AINDEX \<Rightarrow> if 8 \<le> ea_reg ea then None else Some (0x30 OR ea_reg ea)
      | NG_M68K_EA_ABS_W \<Rightarrow> Some 0x38 | NG_M68K_EA_ABS_L \<Rightarrow> Some 0x39
      | NG_M68K_EA_PC_DISP \<Rightarrow> Some 0x3A | NG_M68K_EA_PC_INDEX \<Rightarrow> Some 0x3B
      | NG_M68K_EA_IMM \<Rightarrow> Some 0x3C | NG_M68K_EA_NONE \<Rightarrow> None)"

subsection \<open>Extension lengths by operand class\<close>

definition exact_memory_alterable_ext_length :: "ng_m68k_ea \<Rightarrow> u8 option" where
  "exact_memory_alterable_ext_length ea =
     (case ea_mode ea of
        NG_M68K_EA_AIND \<Rightarrow> ext_when (ea_simple_register_payload ea) 0
      | NG_M68K_EA_APOST \<Rightarrow> ext_when (ea_simple_register_payload ea) 0
      | NG_M68K_EA_APRE \<Rightarrow> ext_when (ea_simple_register_payload ea) 0
      | NG_M68K_EA_ADISP \<Rightarrow> ext_when (ea_address_displacement_payload ea) 2
      | NG_M68K_EA_AINDEX \<Rightarrow> ext_when (ea_address_index_payload ea) 2
      | NG_M68K_EA_ABS_W \<Rightarrow> ext_when (ea_abs_word_payload ea) 2
      | NG_M68K_EA_ABS_L \<Rightarrow> ext_when (ea_abs_long_payload ea) 4
      | _ \<Rightarrow> None)"

definition exact_data_alterable_ext_length :: "ng_m68k_ea \<Rightarrow> u8 option" where
  "exact_data_alterable_ext_length ea =
     (if ea_mode ea = NG_M68K_EA_DREG then ext_when (ea_simple_register_payload ea) 0
      else exact_memory_alterable_ext_length ea)"

definition exact_bit_data_ext_length :: "ng_m68k_ea \<Rightarrow> u8 \<Rightarrow> u32 \<Rightarrow> bool \<Rightarrow> u8 option" where
  "exact_bit_data_ext_length ea sz extension_addr allow_immediate =
     (case ea_mode ea of
        NG_M68K_EA_DREG \<Rightarrow> ext_when (sz = 4 \<and> ea_simple_register_payload ea) 0
      | NG_M68K_EA_AIND \<Rightarrow> ext_when (sz = 1 \<and> ea_simple_register_payload ea) 0
      | NG_M68K_EA_APOST \<Rightarrow> ext_when (sz = 1 \<and> ea_simple_register_payload ea) 0
      | NG_M68K_EA_APRE \<Rightarrow> ext_when (sz = 1 \<and> ea_simple_register_payload ea) 0
      | NG_M68K_EA_ADISP \<Rightarrow> ext_when (sz = 1 \<and> ea_address_displacement_payload ea) 2
      | NG_M68K_EA_AINDEX \<Rightarrow> ext_when (sz = 1 \<and> ea_address_index_payload ea) 2
      | NG_M68K_EA_ABS_W \<Rightarrow> ext_when (sz = 1 \<and> ea_abs_word_payload ea) 2
      | NG_M68K_EA_ABS_L \<Rightarrow> ext_when (sz = 1 \<and> ea_abs_long_payload ea) 4
      | NG_M68K_EA_PC_DISP \<Rightarrow> ext_when (sz = 1 \<and> ea_pc_displacement_payload ea extension_addr) 2
      | NG_M68K_EA_PC_INDEX \<Rightarrow> ext_when (sz = 1 \<and> ea_pc_index_payload ea extension_addr) 2
      | NG_M68K_EA_IMM \<Rightarrow> ext_when (allow_immediate \<and> sz = 1 \<and> ea_immediate_payload ea sz) 2
      | _ \<Rightarrow> None)"

definition quick_alterable_ext_length :: "ng_m68k_ea \<Rightarrow> u8 option" where
  "quick_alterable_ext_length ea =
     (case ea_mode ea of
        NG_M68K_EA_DREG \<Rightarrow> ext_when (ea_simple_register_payload ea) 0
      | NG_M68K_EA_AREG \<Rightarrow> ext_when (ea_simple_register_payload ea) 0
      | NG_M68K_EA_AIND \<Rightarrow> ext_when (ea_simple_register_payload ea) 0
      | NG_M68K_EA_APOST \<Rightarrow> ext_when (ea_simple_register_payload ea) 0
      | NG_M68K_EA_APRE \<Rightarrow> ext_when (ea_simple_register_payload ea) 0
      | NG_M68K_EA_ADISP \<Rightarrow> ext_when (ea_address_displacement_payload ea) 2
      | NG_M68K_EA_AINDEX \<Rightarrow> ext_when (ea_address_index_payload ea) 2
      | NG_M68K_EA_ABS_W \<Rightarrow> ext_when (ea_abs_word_payload ea) 2
      | NG_M68K_EA_ABS_L \<Rightarrow> ext_when (ea_abs_long_payload ea) 4
      | _ \<Rightarrow> None)"

definition move_source_ext_length :: "ng_m68k_instr \<Rightarrow> u8 option" where
  "move_source_ext_length i =
     (let ea = i_src i; ext_addr = i_addr i + 2 in
      case ea_mode ea of
        NG_M68K_EA_DREG \<Rightarrow> ext_when (ea_simple_register_payload ea) 0
      | NG_M68K_EA_AREG \<Rightarrow> ext_when (i_size i \<noteq> 1 \<and> ea_simple_register_payload ea) 0
      | NG_M68K_EA_AIND \<Rightarrow> ext_when (ea_simple_register_payload ea) 0
      | NG_M68K_EA_APOST \<Rightarrow> ext_when (ea_simple_register_payload ea) 0
      | NG_M68K_EA_APRE \<Rightarrow> ext_when (ea_simple_register_payload ea) 0
      | NG_M68K_EA_ADISP \<Rightarrow> ext_when (ea_address_displacement_payload ea) 2
      | NG_M68K_EA_AINDEX \<Rightarrow> ext_when (ea_address_index_payload ea) 2
      | NG_M68K_EA_ABS_W \<Rightarrow> ext_when (ea_abs_word_payload ea) 2
      | NG_M68K_EA_ABS_L \<Rightarrow> ext_when (ea_abs_long_payload ea) 4
      | NG_M68K_EA_PC_DISP \<Rightarrow> ext_when (ea_pc_displacement_payload ea ext_addr) 2
      | NG_M68K_EA_PC_INDEX \<Rightarrow> ext_when (ea_pc_index_payload ea ext_addr) 2
      | NG_M68K_EA_IMM \<Rightarrow> ext_when (ea_immediate_payload ea (i_size i) \<and> valid_size (i_size i))
                             (if i_size i = 4 then 4 else 2)
      | NG_M68K_EA_NONE \<Rightarrow> None)"

definition move_destination_ext_length :: "ng_m68k_ea \<Rightarrow> u8 option" where
  "move_destination_ext_length ea =
     (case ea_mode ea of
        NG_M68K_EA_DREG \<Rightarrow> ext_when (ea_simple_register_payload ea) 0
      | NG_M68K_EA_AIND \<Rightarrow> ext_when (ea_simple_register_payload ea) 0
      | NG_M68K_EA_APOST \<Rightarrow> ext_when (ea_simple_register_payload ea) 0
      | NG_M68K_EA_APRE \<Rightarrow> ext_when (ea_simple_register_payload ea) 0
      | NG_M68K_EA_ADISP \<Rightarrow> ext_when (ea_address_displacement_payload ea) 2
      | NG_M68K_EA_AINDEX \<Rightarrow> ext_when (ea_address_index_payload ea) 2
      | NG_M68K_EA_ABS_W \<Rightarrow> ext_when (ea_abs_word_payload ea) 2
      | NG_M68K_EA_ABS_L \<Rightarrow> ext_when (ea_abs_long_payload ea) 4
      | _ \<Rightarrow> None)"

definition exact_data_source_ext_length :: "ng_m68k_instr \<Rightarrow> u8 option" where
  "exact_data_source_ext_length i =
     (let ea = i_src i; ext_addr = i_addr i + 2 in
      case ea_mode ea of
        NG_M68K_EA_DREG \<Rightarrow> ext_when (ea_simple_register_payload ea) 0
      | NG_M68K_EA_AIND \<Rightarrow> ext_when (ea_simple_register_payload ea) 0
      | NG_M68K_EA_APOST \<Rightarrow> ext_when (ea_simple_register_payload ea) 0
      | NG_M68K_EA_APRE \<Rightarrow> ext_when (ea_simple_register_payload ea) 0
      | NG_M68K_EA_ADISP \<Rightarrow> ext_when (ea_address_displacement_payload ea) 2
      | NG_M68K_EA_AINDEX \<Rightarrow> ext_when (ea_address_index_payload ea) 2
      | NG_M68K_EA_ABS_W \<Rightarrow> ext_when (ea_abs_word_payload ea) 2
      | NG_M68K_EA_ABS_L \<Rightarrow> ext_when (ea_abs_long_payload ea) 4
      | NG_M68K_EA_PC_DISP \<Rightarrow> ext_when (ea_pc_displacement_payload ea ext_addr) 2
      | NG_M68K_EA_PC_INDEX \<Rightarrow> ext_when (ea_pc_index_payload ea ext_addr) 2
      | NG_M68K_EA_IMM \<Rightarrow> ext_when (ea_immediate_payload ea (i_size i) \<and> valid_size (i_size i))
                             (if i_size i = 4 then 4 else 2)
      | _ \<Rightarrow> None)"

definition exact_addsubcmp_source_ext_length :: "ng_m68k_instr \<Rightarrow> u8 option" where
  "exact_addsubcmp_source_ext_length i =
     (if ea_mode (i_src i) = NG_M68K_EA_AREG
      then ext_when (i_size i \<noteq> 1 \<and> ea_simple_register_payload (i_src i)) 0
      else exact_data_source_ext_length i)"

definition exact_control_ea_ext_length :: "ng_m68k_ea \<Rightarrow> u32 \<Rightarrow> u8 option" where
  "exact_control_ea_ext_length ea extension_addr =
     (case ea_mode ea of
        NG_M68K_EA_AIND \<Rightarrow> ext_when (ea_simple_register_payload ea) 0
      | NG_M68K_EA_ADISP \<Rightarrow> ext_when (ea_address_displacement_payload ea) 2
      | NG_M68K_EA_AINDEX \<Rightarrow> ext_when (ea_address_index_payload ea) 2
      | NG_M68K_EA_ABS_W \<Rightarrow> ext_when (ea_abs_word_payload ea) 2
      | NG_M68K_EA_ABS_L \<Rightarrow> ext_when (ea_abs_long_payload ea) 4
      | NG_M68K_EA_PC_DISP \<Rightarrow> ext_when (ea_pc_displacement_payload ea extension_addr) 2
      | NG_M68K_EA_PC_INDEX \<Rightarrow> ext_when (ea_pc_index_payload ea extension_addr) 2
      | _ \<Rightarrow> None)"

definition exact_control_source_ext_length :: "ng_m68k_instr \<Rightarrow> u8 option" where
  "exact_control_source_ext_length i = exact_control_ea_ext_length (i_src i) (i_addr i + 2)"

definition movem_reg_to_mem_ext_length :: "ng_m68k_ea \<Rightarrow> u8 option" where
  "movem_reg_to_mem_ext_length ea =
     (case ea_mode ea of
        NG_M68K_EA_AIND \<Rightarrow> ext_when (ea_simple_register_payload ea) 0
      | NG_M68K_EA_APRE \<Rightarrow> ext_when (ea_simple_register_payload ea) 0
      | NG_M68K_EA_ADISP \<Rightarrow> ext_when (ea_address_displacement_payload ea) 2
      | NG_M68K_EA_AINDEX \<Rightarrow> ext_when (ea_address_index_payload ea) 2
      | NG_M68K_EA_ABS_W \<Rightarrow> ext_when (ea_abs_word_payload ea) 2
      | NG_M68K_EA_ABS_L \<Rightarrow> ext_when (ea_abs_long_payload ea) 4
      | _ \<Rightarrow> None)"

definition movem_mem_to_reg_ext_length :: "ng_m68k_instr \<Rightarrow> u8 option" where
  "movem_mem_to_reg_ext_length i =
     (if ea_mode (i_src i) = NG_M68K_EA_APOST then ext_when (ea_simple_register_payload (i_src i)) 0
      else exact_control_ea_ext_length (i_src i) (i_addr i + 4))"

subsection \<open>Shared shapes\<close>

text \<open>The \<open>size_bits\<close> selection every operand class repeats; \<open>None\<close> is its \<open>return 0\<close> arm.\<close>

definition size_bits :: "u8 \<Rightarrow> u16 option" where
  "size_bits sz = (if sz = 1 then Some 0x0000 else if sz = 2 then Some 0x0040
                   else if sz = 4 then Some 0x0080 else None)"

text \<open>\<open>(uint16_t)reg << 9\<close>, the register field of the upper byte.\<close>

abbreviation reg9 :: "u8 \<Rightarrow> u16" where
  "reg9 r \<equiv> push_bit 9 (ucast r)"

definition extend_base_opcode :: "ng_m68k_mnemonic \<Rightarrow> u16 option" where
  "extend_base_opcode m =
     (if m = NG_M68K_ADDX then Some 0xD100 else if m = NG_M68K_SUBX then Some 0x9100
      else if m = NG_M68K_ABCD then Some 0xC100 else if m = NG_M68K_SBCD then Some 0x8100 else None)"

definition valid_extend_pair :: "ng_m68k_instr \<Rightarrow> bool" where
  "valid_extend_pair i \<longleftrightarrow>
     (if i_byte_length i \<noteq> 2 \<or> i_immediate i \<noteq> 0 \<or> i_condition i \<noteq> 0 \<or> i_target i \<noteq> 0 \<or>
         i_absolute_addr i \<noteq> 0 \<or> i_displacement i \<noteq> 0 \<or> i_src_reg i \<noteq> ea_reg (i_src i) \<or>
         i_reg i \<noteq> ea_reg (i_dst i) then False
      else case extend_base_opcode (i_mnemonic i) of None \<Rightarrow> False
      | Some base_opcode \<Rightarrow>
        (case (if i_mnemonic i = NG_M68K_ADDX \<or> i_mnemonic i = NG_M68K_SUBX then size_bits (i_size i)
               else if i_size i \<noteq> 1 then None else Some 0) of None \<Rightarrow> False
         | Some sb \<Rightarrow>
           (case (if ea_mode (i_src i) = NG_M68K_EA_DREG \<and> ea_mode (i_dst i) = NG_M68K_EA_DREG then
                    (if \<not> ea_simple_register_payload (i_src i) \<or> \<not> ea_simple_register_payload (i_dst i) \<or>
                        i_form i \<noteq> NG_M68K_FORM_DREG_TO_DREG then None else Some 0)
                  else if ea_mode (i_src i) = NG_M68K_EA_APRE \<and> ea_mode (i_dst i) = NG_M68K_EA_APRE then
                    (if \<not> ea_simple_register_payload (i_src i) \<or> \<not> ea_simple_register_payload (i_dst i) \<or>
                        i_form i \<noteq> NG_M68K_FORM_NONE then None else Some 0x0008)
                  else None) of None \<Rightarrow> False
            | Some form_bits \<Rightarrow>
                i_opcode i = base_opcode OR reg9 (ea_reg (i_dst i)) OR sb OR form_bits OR
                             ucast (ea_reg (i_src i)))))"

definition valid_no_operand_2byte :: "ng_m68k_instr \<Rightarrow> bool" where
  "valid_no_operand_2byte i \<longleftrightarrow> i_byte_length i = 2 \<and> i_size i = 0 \<and> i_immediate i = 0 \<and>
     i_reg i = 0 \<and> i_src_reg i = 0 \<and> i_condition i = 0 \<and> i_form i = NG_M68K_FORM_NONE \<and>
     i_target i = 0 \<and> i_absolute_addr i = 0 \<and> i_displacement i = 0 \<and> no_ea_fields i"

definition valid_fixed_no_operand_2byte :: "ng_m68k_instr \<Rightarrow> u16 \<Rightarrow> bool" where
  "valid_fixed_no_operand_2byte i opcode \<longleftrightarrow> i_opcode i = opcode \<and> valid_no_operand_2byte i"

definition valid_control_immediate_fields :: "ng_m68k_instr \<Rightarrow> bool" where
  "valid_control_immediate_fields i \<longleftrightarrow> i_reg i = 0 \<and> i_src_reg i = 0 \<and> i_condition i = 0 \<and>
     i_form i = NG_M68K_FORM_NONE \<and> i_target i = 0 \<and> i_absolute_addr i = 0 \<and>
     i_displacement i = 0 \<and> no_ea_fields i"

subsection \<open>Control and system instructions\<close>

definition validate_illegal_opcode_metadata :: "ng_m68k_instr \<Rightarrow> bool" where
  "validate_illegal_opcode_metadata i \<longleftrightarrow>
     (if i_byte_length i \<noteq> 2 \<or> i_size i \<noteq> 0 \<or> \<not> valid_control_immediate_fields i then False
      else if i_immediate i = 0 then i_opcode i = 0x4AFC
      else if i_immediate i = 10 then i_opcode i AND 0xF000 = 0xA000
      else if i_immediate i = 11 then i_opcode i AND 0xF000 = 0xF000
      else False)"

definition validate_stop_metadata :: "ng_m68k_instr \<Rightarrow> bool" where
  "validate_stop_metadata i \<longleftrightarrow> i_opcode i = 0x4E72 \<and> i_byte_length i = 4 \<and> i_size i = 0 \<and>
     i_immediate i \<le> 0xFFFF \<and> valid_control_immediate_fields i"

definition validate_trap_metadata :: "ng_m68k_instr \<Rightarrow> bool" where
  "validate_trap_metadata i \<longleftrightarrow> i_opcode i AND 0xFFF0 = 0x4E40 \<and>
     ucast (i_opcode i AND 0x000F) = i_immediate i \<and> i_byte_length i = 2 \<and> i_size i = 0 \<and>
     i_immediate i \<le> 15 \<and> valid_control_immediate_fields i"

definition validate_move_usp :: "ng_m68k_instr \<Rightarrow> bool" where
  "validate_move_usp i \<longleftrightarrow>
     (if i_byte_length i \<noteq> 2 \<or> i_size i \<noteq> 4 \<or> 8 \<le> i_reg i \<or> i_immediate i \<noteq> 0 \<or> i_src_reg i \<noteq> 0 \<or>
         i_condition i \<noteq> 0 \<or> i_form i \<noteq> NG_M68K_FORM_NONE \<or> i_target i \<noteq> 0 \<or>
         i_absolute_addr i \<noteq> 0 \<or> i_displacement i \<noteq> 0 then False
      else if ea_mode (i_src i) = NG_M68K_EA_AREG \<and> ea_reg (i_src i) = i_reg i \<and>
              ea_simple_register_payload (i_src i)
      then i_opcode i = 0x4E60 OR ucast (i_reg i) \<and> ea_is_empty (i_dst i)
      else if ea_mode (i_dst i) = NG_M68K_EA_AREG \<and> ea_reg (i_dst i) = i_reg i \<and>
              ea_simple_register_payload (i_dst i)
      then i_opcode i = 0x4E68 OR ucast (i_reg i) \<and> ea_is_empty (i_src i)
      else False)"

subsection \<open>Bit operations\<close>

definition validate_bit_destination_legacy_fields :: "ng_m68k_instr \<Rightarrow> bool \<Rightarrow> bool" where
  "validate_bit_destination_legacy_fields i dynamic_bit_number \<longleftrightarrow>
     (if i_condition i \<noteq> 0 \<or> i_target i \<noteq> 0 then False
      else if ea_mode (i_dst i) = NG_M68K_EA_DREG then
        i_form i = (if dynamic_bit_number then NG_M68K_FORM_DREG_TO_DREG else NG_M68K_FORM_DREG) \<and>
        i_reg i = ea_reg (i_dst i) \<and> i_absolute_addr i = 0 \<and> i_displacement i = 0
      else if ea_mode (i_dst i) = NG_M68K_EA_ADISP then
        i_form i = NG_M68K_FORM_AREG_DISP \<and> i_reg i = ea_reg (i_dst i) \<and>
        i_absolute_addr i = 0 \<and> i_displacement i = ea_displacement (i_dst i)
      else if ea_mode (i_dst i) = NG_M68K_EA_ABS_W \<or> ea_mode (i_dst i) = NG_M68K_EA_ABS_L then
        i_form i = NG_M68K_FORM_ABS \<and> i_reg i = 0 \<and>
        i_absolute_addr i = ea_absolute_addr (i_dst i) \<and> i_displacement i = 0
      else i_form i = NG_M68K_FORM_NONE \<and> i_reg i = 0 \<and> i_absolute_addr i = 0 \<and> i_displacement i = 0)"

definition validate_dynamic_bit_source :: "ng_m68k_instr \<Rightarrow> bool" where
  "validate_dynamic_bit_source i \<longleftrightarrow> ea_mode (i_src i) = NG_M68K_EA_DREG \<and>
     ea_simple_register_payload (i_src i) \<and> i_src_reg i = ea_reg (i_src i) \<and> i_immediate i = 0"

definition validate_static_bit_source :: "ng_m68k_instr \<Rightarrow> bool" where
  "validate_static_bit_source i \<longleftrightarrow> ea_is_empty (i_src i) \<and> i_src_reg i = 0 \<and> i_immediate i \<le> 0xFF"

definition bit_op_kind :: "ng_m68k_instr \<Rightarrow> u8 option" where
  "bit_op_kind i =
     (if i_mnemonic i = NG_M68K_BTST then Some 0 else if i_mnemonic i = NG_M68K_BCHG then Some 1
      else if i_mnemonic i = NG_M68K_BCLR then Some 2 else if i_mnemonic i = NG_M68K_BSET then Some 3
      else None)"

definition validate_bit_opcode :: "ng_m68k_instr \<Rightarrow> bool \<Rightarrow> bool" where
  "validate_bit_opcode i dynamic_bit_number \<longleftrightarrow>
     (case (bit_op_kind i, ea_opcode_field (i_dst i)) of
        (Some kind, Some ea_field) \<Rightarrow>
          i_opcode i =
            (if dynamic_bit_number
             then 0x0100 OR reg9 (ea_reg (i_src i)) OR push_bit 6 (ucast kind) OR ucast ea_field
             else 0x0800 OR push_bit 6 (ucast kind) OR ucast ea_field)
      | _ \<Rightarrow> False)"

definition validate_btst :: "ng_m68k_instr \<Rightarrow> bool" where
  "validate_btst i \<longleftrightarrow>
     (let dynamic_bit_number = ea_mode (i_src i) = NG_M68K_EA_DREG;
          base_len = (if dynamic_bit_number then 2 else 4) :: u8 in
      if dynamic_bit_number \<and> \<not> validate_dynamic_bit_source i then False
      else if \<not> dynamic_bit_number \<and> \<not> validate_static_bit_source i then False
      else case exact_bit_data_ext_length (i_dst i) (i_size i) (i_addr i + ucast base_len) dynamic_bit_number of
          None \<Rightarrow> False
        | Some ext_len \<Rightarrow> validate_bit_opcode i dynamic_bit_number \<and>
            validate_bit_destination_legacy_fields i dynamic_bit_number \<and>
            i_byte_length i = base_len + ext_len)"

definition validate_altering_bit_op :: "ng_m68k_instr \<Rightarrow> bool" where
  "validate_altering_bit_op i \<longleftrightarrow>
     (let dynamic_bit_number = ea_mode (i_src i) = NG_M68K_EA_DREG;
          base_len = (if dynamic_bit_number then 2 else 4) :: u8 in
      case exact_data_alterable_ext_length (i_dst i) of
        None \<Rightarrow> False
      | Some ext_len \<Rightarrow>
          if ea_mode (i_dst i) = NG_M68K_EA_DREG \<and> i_size i \<noteq> 4 then False
          else if ea_mode (i_dst i) \<noteq> NG_M68K_EA_DREG \<and> i_size i \<noteq> 1 then False
          else if dynamic_bit_number then
            validate_dynamic_bit_source i \<and> validate_bit_opcode i True \<and>
            validate_bit_destination_legacy_fields i True \<and> i_byte_length i = base_len + ext_len
          else
            validate_static_bit_source i \<and> validate_bit_opcode i False \<and>
            validate_bit_destination_legacy_fields i False \<and> i_byte_length i = base_len + ext_len)"

subsection \<open>Quick arithmetic\<close>

definition validate_quick_destination_legacy_fields :: "ng_m68k_instr \<Rightarrow> bool" where
  "validate_quick_destination_legacy_fields i \<longleftrightarrow>
     (if ea_mode (i_dst i) = NG_M68K_EA_DREG then
        i_form i = NG_M68K_FORM_DREG \<and> i_reg i = ea_reg (i_dst i) \<and>
        i_absolute_addr i = 0 \<and> i_displacement i = 0
      else if ea_mode (i_dst i) = NG_M68K_EA_ADISP then
        i_form i = NG_M68K_FORM_AREG_DISP \<and> i_reg i = ea_reg (i_dst i) \<and>
        i_absolute_addr i = 0 \<and> i_displacement i = ea_displacement (i_dst i)
      else if ea_mode (i_dst i) = NG_M68K_EA_ABS_W \<or> ea_mode (i_dst i) = NG_M68K_EA_ABS_L then
        i_form i = NG_M68K_FORM_ABS \<and> i_reg i = 0 \<and>
        i_absolute_addr i = ea_absolute_addr (i_dst i) \<and> i_displacement i = 0
      else i_form i = NG_M68K_FORM_NONE \<and> i_reg i = 0 \<and> i_absolute_addr i = 0 \<and> i_displacement i = 0)"

definition validate_quick_op :: "ng_m68k_instr \<Rightarrow> bool" where
  "validate_quick_op i \<longleftrightarrow>
     (if i_immediate i < 1 \<or> 8 < i_immediate i \<or> \<not> ea_is_empty (i_src i) \<or> i_src_reg i \<noteq> 0 \<or>
         i_condition i \<noteq> 0 \<or> i_target i \<noteq> 0 then False
      else case (quick_alterable_ext_length (i_dst i), ea_opcode_field (i_dst i), size_bits (i_size i)) of
        (Some ext_len, Some ea_field, Some sb) \<Rightarrow>
          (let expected_opcode =
                 0x5000 OR push_bit 9 (ucast (if i_immediate i = 8 then 0 else i_immediate i)) OR
                 (if i_mnemonic i = NG_M68K_SUBQ then 0x0100 else 0) OR sb OR ucast ea_field in
           if ea_mode (i_dst i) = NG_M68K_EA_AREG then
             valid_word_or_long (i_size i) \<and> validate_quick_destination_legacy_fields i \<and>
             i_byte_length i = 2 + ext_len \<and> i_opcode i = expected_opcode
           else
             valid_size (i_size i) \<and> ea_is_data_alterable (i_dst i) \<and>
             validate_quick_destination_legacy_fields i \<and>
             i_byte_length i = 2 + ext_len \<and> i_opcode i = expected_opcode)
      | _ \<Rightarrow> False)"

subsection \<open>Data movement\<close>

abbreviation ea_is_abs :: "ng_m68k_ea \<Rightarrow> bool" where
  "ea_is_abs ea \<equiv> ea_mode ea = NG_M68K_EA_ABS_W \<or> ea_mode ea = NG_M68K_EA_ABS_L"

definition validate_move_legacy_fields :: "ng_m68k_instr \<Rightarrow> bool" where
  "validate_move_legacy_fields i \<longleftrightarrow>
     (if ea_mode (i_src i) = NG_M68K_EA_AREG \<and> ea_is_abs (i_dst i) then
        i_form i = NG_M68K_FORM_AREG_TO_ABS \<and> i_reg i = ea_reg (i_src i) \<and> i_src_reg i = 0 \<and>
        i_immediate i = 0 \<and> i_absolute_addr i = ea_absolute_addr (i_dst i) \<and> i_displacement i = 0
      else if ea_mode (i_src i) = NG_M68K_EA_IMM \<and> ea_is_abs (i_dst i) then
        i_form i = NG_M68K_FORM_IMM_TO_ABS \<and> i_reg i = 0 \<and> i_src_reg i = 0 \<and>
        i_immediate i = ea_immediate (i_src i) \<and> i_absolute_addr i = ea_absolute_addr (i_dst i) \<and>
        i_displacement i = 0
      else if ea_mode (i_src i) = NG_M68K_EA_DREG \<and> ea_is_abs (i_dst i) then
        i_form i = NG_M68K_FORM_DREG_TO_ABS \<and> i_reg i = ea_reg (i_src i) \<and> i_src_reg i = 0 \<and>
        i_immediate i = 0 \<and> i_absolute_addr i = ea_absolute_addr (i_dst i) \<and> i_displacement i = 0
      else if ea_is_abs (i_src i) \<and> ea_mode (i_dst i) = NG_M68K_EA_DREG then
        i_form i = NG_M68K_FORM_ABS_TO_DREG \<and> i_reg i = ea_reg (i_dst i) \<and> i_src_reg i = 0 \<and>
        i_immediate i = 0 \<and> i_absolute_addr i = ea_absolute_addr (i_src i) \<and> i_displacement i = 0
      else if ea_mode (i_src i) = NG_M68K_EA_ADISP \<and> ea_mode (i_dst i) = NG_M68K_EA_DREG then
        i_form i = NG_M68K_FORM_AREG_DISP \<and> i_reg i = ea_reg (i_dst i) \<and>
        i_src_reg i = ea_reg (i_src i) \<and> i_immediate i = 0 \<and> i_absolute_addr i = 0 \<and>
        i_displacement i = ea_displacement (i_src i)
      else if ea_mode (i_src i) = NG_M68K_EA_IMM \<and> ea_mode (i_dst i) = NG_M68K_EA_DREG then
        i_form i = NG_M68K_FORM_IMM_TO_DREG \<and> i_reg i = ea_reg (i_dst i) \<and> i_src_reg i = 0 \<and>
        i_immediate i = ea_immediate (i_src i) \<and> i_absolute_addr i = 0 \<and> i_displacement i = 0
      else if ea_mode (i_src i) = NG_M68K_EA_DREG \<and> ea_mode (i_dst i) = NG_M68K_EA_DREG then
        i_form i = NG_M68K_FORM_DREG_TO_DREG \<and> i_reg i = ea_reg (i_dst i) \<and>
        i_src_reg i = ea_reg (i_src i) \<and> i_immediate i = 0 \<and> i_absolute_addr i = 0 \<and>
        i_displacement i = 0
      else i_form i = NG_M68K_FORM_NONE \<and> i_reg i = 0 \<and> i_src_reg i = 0 \<and> i_immediate i = 0 \<and>
        i_absolute_addr i = 0 \<and> i_displacement i = 0)"

definition validate_move :: "ng_m68k_instr \<Rightarrow> bool" where
  "validate_move i \<longleftrightarrow>
     (if \<not> valid_size (i_size i) \<or> i_condition i \<noteq> 0 \<or> i_target i \<noteq> 0 then False
      else case (move_source_ext_length i, move_destination_ext_length (i_dst i),
                 ea_opcode_field (i_src i), ea_opcode_field (i_dst i)) of
        (Some src_ext, Some dst_ext, Some src_field, Some dst_field) \<Rightarrow>
          validate_move_legacy_fields i \<and>
          i_byte_length i = 2 + src_ext + dst_ext \<and>
          i_opcode i =
            (if i_size i = 1 then 0x1000 else if i_size i = 2 then 0x3000 else 0x2000) OR
            push_bit 9 (ucast (dst_field AND 7)) OR
            push_bit 6 (ucast (drop_bit 3 dst_field AND 7)) OR ucast src_field
      | _ \<Rightarrow> False)"

definition validate_control_transfer :: "ng_m68k_instr \<Rightarrow> bool" where
  "validate_control_transfer i \<longleftrightarrow>
     (if i_size i \<noteq> 0 \<or> \<not> ea_is_empty (i_dst i) \<or> i_immediate i \<noteq> 0 \<or> i_src_reg i \<noteq> 0 \<or>
         i_condition i \<noteq> 0 then False
      else case (exact_control_source_ext_length i, ea_opcode_field (i_src i)) of
        (Some ext_len, Some ea_field) \<Rightarrow>
          if i_byte_length i \<noteq> 2 + ext_len \<or> i_absolute_addr i \<noteq> 0 then False
          else if i_opcode i \<noteq> (if i_mnemonic i = NG_M68K_JMP then 0x4EC0 else 0x4E80) OR ucast ea_field
          then False
          else if ea_mode (i_src i) = NG_M68K_EA_AIND then
            i_form i = NG_M68K_FORM_AREG_INDIRECT \<and> i_reg i = ea_reg (i_src i) \<and>
            i_target i = 0 \<and> i_displacement i = 0
          else if ea_is_abs (i_src i) then
            i_form i = NG_M68K_FORM_ABS \<and> i_reg i = 0 \<and>
            i_target i = ea_absolute_addr (i_src i) \<and> i_displacement i = 0
          else if ea_mode (i_src i) = NG_M68K_EA_PC_DISP then
            i_form i = NG_M68K_FORM_PC_RELATIVE \<and> i_reg i = 0 \<and>
            i_target i = ea_absolute_addr (i_src i) \<and> i_displacement i = ea_displacement (i_src i)
          else if ea_mode (i_src i) = NG_M68K_EA_PC_INDEX then
            i_form i = NG_M68K_FORM_NONE \<and> i_reg i = 0 \<and> i_target i = 0 \<and> i_displacement i = 0
          else i_form i = NG_M68K_FORM_NONE \<and> i_reg i = 0 \<and> i_target i = 0 \<and> i_displacement i = 0
      | _ \<Rightarrow> False)"

definition validate_pea :: "ng_m68k_instr \<Rightarrow> bool" where
  "validate_pea i \<longleftrightarrow>
     i_size i = 4 \<and> ea_is_empty (i_dst i) \<and> i_immediate i = 0 \<and> i_src_reg i = 0 \<and> i_reg i = 0 \<and>
     i_condition i = 0 \<and> i_form i = NG_M68K_FORM_NONE \<and> i_target i = 0 \<and>
     i_absolute_addr i = 0 \<and> i_displacement i = 0 \<and>
     (case (exact_control_source_ext_length i, ea_opcode_field (i_src i)) of
        (Some ext_len, Some ea_field) \<Rightarrow>
          i_byte_length i = 2 + ext_len \<and> i_opcode i = 0x4840 OR ucast ea_field
      | _ \<Rightarrow> False)"

definition validate_lea_legacy_fields :: "ng_m68k_instr \<Rightarrow> bool" where
  "validate_lea_legacy_fields i \<longleftrightarrow>
     (if i_form i \<noteq> NG_M68K_FORM_NONE \<or> i_absolute_addr i \<noteq> 0 then False
      else case ea_mode (i_src i) of
        NG_M68K_EA_PC_DISP \<Rightarrow>
          i_target i = ea_absolute_addr (i_src i) \<and> i_displacement i = ea_displacement (i_src i)
      | NG_M68K_EA_PC_INDEX \<Rightarrow> i_target i = ea_absolute_addr (i_src i) \<and> i_displacement i = 0
      | NG_M68K_EA_ABS_W \<Rightarrow> i_target i = ea_absolute_addr (i_src i) \<and> i_displacement i = 0
      | NG_M68K_EA_ABS_L \<Rightarrow> i_target i = ea_absolute_addr (i_src i) \<and> i_displacement i = 0
      | _ \<Rightarrow> i_target i = 0 \<and> i_displacement i = 0)"

definition validate_lea :: "ng_m68k_instr \<Rightarrow> bool" where
  "validate_lea i \<longleftrightarrow>
     i_size i = 4 \<and> ea_mode (i_dst i) = NG_M68K_EA_AREG \<and> ea_reg (i_dst i) < 8 \<and>
     i_reg i = ea_reg (i_dst i) \<and> i_immediate i = 0 \<and> i_src_reg i = 0 \<and> i_condition i = 0 \<and>
     validate_lea_legacy_fields i \<and>
     (case (exact_control_source_ext_length i, ea_opcode_field (i_src i)) of
        (Some ext_len, Some ea_field) \<Rightarrow>
          i_byte_length i = 2 + ext_len \<and>
          i_opcode i = 0x41C0 OR reg9 (ea_reg (i_dst i)) OR ucast ea_field
      | _ \<Rightarrow> False)"

definition validate_move_sr_ccr :: "ng_m68k_instr \<Rightarrow> bool" where
  "validate_move_sr_ccr i \<longleftrightarrow>
     (if i_size i \<noteq> 2 \<or> i_immediate i \<noteq> 0 \<or> i_src_reg i \<noteq> 0 \<or> i_reg i \<noteq> 0 \<or> i_condition i \<noteq> 0 \<or>
         i_form i \<noteq> NG_M68K_FORM_NONE \<or> i_target i \<noteq> 0 \<or> i_absolute_addr i \<noteq> 0 \<or>
         i_displacement i \<noteq> 0 then False
      else if ea_mode (i_dst i) \<noteq> NG_M68K_EA_NONE then
        (if i_mnemonic i \<noteq> NG_M68K_MOVE_SR \<or> \<not> ea_is_empty (i_src i) then False
         else case (move_destination_ext_length (i_dst i), ea_opcode_field (i_dst i)) of
           (Some ext_len, Some ea_field) \<Rightarrow>
             i_byte_length i = 2 + ext_len \<and> i_opcode i = 0x40C0 OR ucast ea_field
         | _ \<Rightarrow> False)
      else if ea_mode (i_src i) = NG_M68K_EA_NONE \<or> \<not> ea_is_empty (i_dst i) then False
      else case (exact_data_source_ext_length i, ea_opcode_field (i_src i)) of
        (Some ext_len, Some ea_field) \<Rightarrow>
          i_byte_length i = 2 + ext_len \<and>
          i_opcode i = (if i_mnemonic i = NG_M68K_MOVE_CCR then 0x44C0 else 0x46C0) OR ucast ea_field
      | _ \<Rightarrow> False)"

definition validate_movem :: "ng_m68k_instr \<Rightarrow> bool" where
  "validate_movem i \<longleftrightarrow>
     (if \<not> valid_word_or_long (i_size i) \<or> 0xFFFF < i_immediate i \<or> i_reg i \<noteq> 0 \<or> i_src_reg i \<noteq> 0 \<or>
         i_condition i \<noteq> 0 \<or> i_form i \<noteq> NG_M68K_FORM_NONE \<or> i_target i \<noteq> 0 \<or>
         i_absolute_addr i \<noteq> 0 \<or> i_displacement i \<noteq> 0 then False
      else
        (let size_bit = (if i_size i = 4 then 0x0040 else 0) in
         if ea_is_empty (i_src i) \<and> ea_mode (i_dst i) \<noteq> NG_M68K_EA_NONE then
           (case (movem_reg_to_mem_ext_length (i_dst i), ea_opcode_field (i_dst i)) of
              (Some ext_len, Some ea_field) \<Rightarrow>
                i_byte_length i = 4 + ext_len \<and> i_opcode i = 0x4880 OR size_bit OR ucast ea_field
            | _ \<Rightarrow> False)
         else if ea_is_empty (i_dst i) \<and> ea_mode (i_src i) \<noteq> NG_M68K_EA_NONE then
           (case (movem_mem_to_reg_ext_length i, ea_opcode_field (i_src i)) of
              (Some ext_len, Some ea_field) \<Rightarrow>
                i_byte_length i = 4 + ext_len \<and> i_opcode i = 0x4C80 OR size_bit OR ucast ea_field
            | _ \<Rightarrow> False)
         else False))"

definition validate_movep :: "ng_m68k_instr \<Rightarrow> bool" where
  "validate_movep i \<longleftrightarrow>
     (if i_byte_length i \<noteq> 4 \<or> \<not> valid_word_or_long (i_size i) \<or> i_immediate i \<noteq> 0 \<or>
         i_condition i \<noteq> 0 \<or> i_form i \<noteq> NG_M68K_FORM_NONE \<or> i_target i \<noteq> 0 \<or>
         i_absolute_addr i \<noteq> 0 then False
      else if ea_mode (i_src i) = NG_M68K_EA_DREG \<and> ea_mode (i_dst i) = NG_M68K_EA_ADISP then
        ea_is_exact_register (i_src i) NG_M68K_EA_DREG \<and> ea_address_displacement_payload (i_dst i) \<and>
        i_src_reg i = ea_reg (i_src i) \<and> i_reg i = ea_reg (i_src i) \<and>
        i_displacement i = ea_displacement (i_dst i) \<and>
        i_opcode i = 0x0188 OR reg9 (ea_reg (i_src i)) OR (if i_size i = 4 then 0x0040 else 0) OR
                     ucast (ea_reg (i_dst i))
      else if ea_mode (i_src i) = NG_M68K_EA_ADISP \<and> ea_mode (i_dst i) = NG_M68K_EA_DREG then
        ea_address_displacement_payload (i_src i) \<and> ea_is_exact_register (i_dst i) NG_M68K_EA_DREG \<and>
        i_src_reg i = 0 \<and> i_reg i = ea_reg (i_dst i) \<and>
        i_displacement i = ea_displacement (i_src i) \<and>
        i_opcode i = 0x0108 OR reg9 (ea_reg (i_dst i)) OR (if i_size i = 4 then 0x0040 else 0) OR
                     ucast (ea_reg (i_src i))
      else False)"

definition validate_link_unlk :: "ng_m68k_instr \<Rightarrow> bool" where
  "validate_link_unlk i \<longleftrightarrow>
     (if i_immediate i \<noteq> 0 \<or> i_condition i \<noteq> 0 \<or> i_form i \<noteq> NG_M68K_FORM_NONE \<or> i_target i \<noteq> 0 \<or>
         i_absolute_addr i \<noteq> 0 \<or> i_src_reg i \<noteq> 0 \<or> 8 \<le> i_reg i \<or> \<not> no_ea_fields i then False
      else if i_mnemonic i = NG_M68K_LINK then
        i_opcode i = 0x4E50 OR ucast (i_reg i) \<and> i_byte_length i = 4 \<and> i_size i = 2
      else i_opcode i = 0x4E58 OR ucast (i_reg i) \<and> i_byte_length i = 2 \<and> i_size i = 0 \<and>
        i_displacement i = 0)"

definition validate_exg :: "ng_m68k_instr \<Rightarrow> bool" where
  "validate_exg i \<longleftrightarrow>
     (if i_byte_length i \<noteq> 2 \<or> i_size i \<noteq> 4 \<or> i_immediate i \<noteq> 0 \<or> i_condition i \<noteq> 0 \<or>
         i_form i \<noteq> NG_M68K_FORM_NONE \<or> i_target i \<noteq> 0 \<or> i_absolute_addr i \<noteq> 0 \<or>
         i_displacement i \<noteq> 0 \<or> i_src_reg i \<noteq> ea_reg (i_src i) \<or> i_reg i \<noteq> ea_reg (i_dst i) then False
      else if ea_is_exact_register (i_src i) NG_M68K_EA_DREG \<and> ea_is_exact_register (i_dst i) NG_M68K_EA_DREG
      then i_opcode i = 0xC140 OR reg9 (ea_reg (i_src i)) OR ucast (ea_reg (i_dst i))
      else if ea_is_exact_register (i_src i) NG_M68K_EA_AREG \<and> ea_is_exact_register (i_dst i) NG_M68K_EA_AREG
      then i_opcode i = 0xC148 OR reg9 (ea_reg (i_src i)) OR ucast (ea_reg (i_dst i))
      else if ea_is_exact_register (i_src i) NG_M68K_EA_DREG \<and> ea_is_exact_register (i_dst i) NG_M68K_EA_AREG
      then i_opcode i = 0xC188 OR reg9 (ea_reg (i_src i)) OR ucast (ea_reg (i_dst i))
      else False)"

definition valid_sign_extended_byte :: "u32 \<Rightarrow> bool" where
  "valid_sign_extended_byte v \<longleftrightarrow> v = scast (ucast v :: u8)"

definition validate_moveq :: "ng_m68k_instr \<Rightarrow> bool" where
  "validate_moveq i \<longleftrightarrow>
     i_byte_length i = 2 \<and> i_size i = 4 \<and> i_form i = NG_M68K_FORM_IMM_TO_DREG \<and> i_reg i < 8 \<and>
     i_src_reg i = 0 \<and> i_condition i = 0 \<and> i_target i = 0 \<and> i_absolute_addr i = 0 \<and>
     i_displacement i = 0 \<and> valid_sign_extended_byte (i_immediate i) \<and> ea_is_empty (i_src i) \<and>
     ea_is_exact_register (i_dst i) NG_M68K_EA_DREG \<and> i_reg i = ea_reg (i_dst i) \<and>
     i_opcode i = 0x7000 OR reg9 (i_reg i) OR ucast (ucast (i_immediate i) :: u8)"

definition validate_ext_swap :: "ng_m68k_instr \<Rightarrow> bool" where
  "validate_ext_swap i \<longleftrightarrow>
     (if i_byte_length i \<noteq> 2 \<or> i_form i \<noteq> NG_M68K_FORM_DREG \<or> i_immediate i \<noteq> 0 \<or> i_src_reg i \<noteq> 0 \<or>
         i_condition i \<noteq> 0 \<or> i_target i \<noteq> 0 \<or> i_absolute_addr i \<noteq> 0 \<or> i_displacement i \<noteq> 0 \<or>
         \<not> ea_is_empty (i_src i) \<or> \<not> ea_is_exact_register (i_dst i) NG_M68K_EA_DREG \<or>
         i_reg i \<noteq> ea_reg (i_dst i) then False
      else if i_mnemonic i = NG_M68K_EXT then
        (i_size i = 2 \<or> i_size i = 4) \<and>
        i_opcode i = (if i_size i = 4 then 0x48C0 else 0x4880) OR ucast (i_reg i)
      else i_size i = 2 \<and> i_opcode i = 0x4840 OR ucast (i_reg i))"

subsection \<open>Conditional, binary and immediate operations\<close>

definition validate_scc :: "ng_m68k_instr \<Rightarrow> bool" where
  "validate_scc i \<longleftrightarrow>
     i_size i = 1 \<and> i_condition i \<le> 15 \<and> i_immediate i = 0 \<and> i_reg i = 0 \<and> i_src_reg i = 0 \<and>
     i_form i = NG_M68K_FORM_NONE \<and> i_target i = 0 \<and> i_absolute_addr i = 0 \<and>
     i_displacement i = 0 \<and> ea_is_empty (i_src i) \<and>
     (case (exact_data_alterable_ext_length (i_dst i), ea_opcode_field (i_dst i)) of
        (Some ext_len, Some ea_field) \<Rightarrow>
          i_byte_length i = 2 + ext_len \<and>
          i_opcode i = 0x50C0 OR push_bit 8 (ucast (i_condition i)) OR ucast ea_field
      | _ \<Rightarrow> False)"

text \<open>\<open>(uint32_t)((int64_t)addr + 2 + (int64_t)displacement)\<close>\<close>

definition branch_expected_target :: "ng_m68k_instr \<Rightarrow> u32" where
  "branch_expected_target i = ucast ((ucast (i_addr i) :: u64) + 2 + scast (i_displacement i))"

definition validate_dbcc :: "ng_m68k_instr \<Rightarrow> bool" where
  "validate_dbcc i \<longleftrightarrow>
     i_byte_length i = 4 \<and> i_size i = 2 \<and> i_condition i \<le> 15 \<and> i_reg i < 8 \<and>
     i_immediate i = 0 \<and> i_src_reg i = 0 \<and> i_form i = NG_M68K_FORM_NONE \<and>
     i_absolute_addr i = 0 \<and> no_ea_fields i \<and> i_target i = branch_expected_target i \<and>
     i_opcode i = 0x50C8 OR push_bit 8 (ucast (i_condition i)) OR ucast (i_reg i)"

definition binary_base_opcode :: "ng_m68k_mnemonic \<Rightarrow> u16 option" where
  "binary_base_opcode m =
     (if m = NG_M68K_OR then Some 0x8000 else if m = NG_M68K_SUB then Some 0x9000
      else if m = NG_M68K_CMP then Some 0xB000 else if m = NG_M68K_AND then Some 0xC000
      else if m = NG_M68K_ADD then Some 0xD000 else None)"

definition validate_ea_to_dreg_binary :: "ng_m68k_instr \<Rightarrow> bool \<Rightarrow> bool" where
  "validate_ea_to_dreg_binary i allow_areg_source \<longleftrightarrow>
     (let valid_src = (if allow_areg_source then exact_addsubcmp_source_ext_length i
                       else exact_data_source_ext_length i);
          alu_form = (i_mnemonic i = NG_M68K_ADD \<or> i_mnemonic i = NG_M68K_SUB \<or>
                      i_mnemonic i = NG_M68K_CMP) in
      case (binary_base_opcode (i_mnemonic i), size_bits (i_size i), valid_src, ea_opcode_field (i_src i)) of
        (Some base_opcode, Some sb, Some ext_len, Some ea_field) \<Rightarrow>
          if i_immediate i \<noteq> 0 \<or> i_condition i \<noteq> 0 \<or> i_target i \<noteq> 0 \<or> i_absolute_addr i \<noteq> 0 \<or>
             i_displacement i \<noteq> 0 \<or> i_src_reg i \<noteq> ea_reg (i_src i) \<or>
             ea_mode (i_dst i) \<noteq> NG_M68K_EA_DREG \<or> \<not> ea_simple_register_payload (i_dst i) \<or>
             i_reg i \<noteq> ea_reg (i_dst i) \<or>
             i_form i \<noteq> (if alu_form then NG_M68K_FORM_DREG_TO_DREG else NG_M68K_FORM_NONE) \<or>
             i_byte_length i \<noteq> 2 + ext_len then False
          else i_opcode i = base_opcode OR reg9 (ea_reg (i_dst i)) OR sb OR ucast ea_field
      | _ \<Rightarrow> False)"

definition validate_binary_destination_legacy_fields :: "ng_m68k_instr \<Rightarrow> bool \<Rightarrow> bool" where
  "validate_binary_destination_legacy_fields i allow_dreg_dst \<longleftrightarrow>
     (if i_condition i \<noteq> 0 \<or> i_target i \<noteq> 0 then False
      else case ea_mode (i_dst i) of
        NG_M68K_EA_DREG \<Rightarrow> allow_dreg_dst \<and> ea_simple_register_payload (i_dst i) \<and>
          i_form i = NG_M68K_FORM_DREG_TO_DREG \<and> i_reg i = ea_reg (i_dst i) \<and>
          i_absolute_addr i = 0 \<and> i_displacement i = 0
      | NG_M68K_EA_ADISP \<Rightarrow> i_form i = NG_M68K_FORM_AREG_DISP \<and> i_reg i = ea_reg (i_dst i) \<and>
          i_absolute_addr i = 0 \<and> i_displacement i = ea_displacement (i_dst i)
      | NG_M68K_EA_ABS_W \<Rightarrow> i_form i = NG_M68K_FORM_ABS \<and> i_reg i = 0 \<and>
          i_absolute_addr i = ea_absolute_addr (i_dst i) \<and> i_displacement i = 0
      | NG_M68K_EA_ABS_L \<Rightarrow> i_form i = NG_M68K_FORM_ABS \<and> i_reg i = 0 \<and>
          i_absolute_addr i = ea_absolute_addr (i_dst i) \<and> i_displacement i = 0
      | _ \<Rightarrow> i_form i = NG_M68K_FORM_NONE \<and> i_reg i = 0 \<and>
          i_absolute_addr i = 0 \<and> i_displacement i = 0)"

definition validate_dreg_to_memory_binary :: "ng_m68k_instr \<Rightarrow> bool" where
  "validate_dreg_to_memory_binary i \<longleftrightarrow>
     (if i_mnemonic i = NG_M68K_CMP then False
      else case (binary_base_opcode (i_mnemonic i), size_bits (i_size i),
                 exact_memory_alterable_ext_length (i_dst i), ea_opcode_field (i_dst i)) of
        (Some base_opcode, Some sb, Some ext_len, Some ea_field) \<Rightarrow>
          if i_immediate i \<noteq> 0 \<or> ea_mode (i_src i) \<noteq> NG_M68K_EA_DREG \<or>
             \<not> ea_simple_register_payload (i_src i) \<or> i_src_reg i \<noteq> ea_reg (i_src i) \<or>
             \<not> validate_binary_destination_legacy_fields i False \<or> i_byte_length i \<noteq> 2 + ext_len then False
          else i_opcode i = base_opcode OR reg9 (ea_reg (i_src i)) OR 0x0100 OR sb OR ucast ea_field
      | _ \<Rightarrow> False)"

definition validate_dreg_to_data_alterable_binary :: "ng_m68k_instr \<Rightarrow> bool" where
  "validate_dreg_to_data_alterable_binary i \<longleftrightarrow>
     (if i_mnemonic i \<noteq> NG_M68K_EOR then False
      else case (size_bits (i_size i), exact_data_alterable_ext_length (i_dst i), ea_opcode_field (i_dst i)) of
        (Some sb, Some ext_len, Some ea_field) \<Rightarrow>
          if i_immediate i \<noteq> 0 \<or> ea_mode (i_src i) \<noteq> NG_M68K_EA_DREG \<or>
             \<not> ea_simple_register_payload (i_src i) \<or> i_src_reg i \<noteq> ea_reg (i_src i) \<or>
             \<not> validate_binary_destination_legacy_fields i True \<or> i_byte_length i \<noteq> 2 + ext_len then False
          else i_opcode i = 0xB000 OR reg9 (ea_reg (i_src i)) OR 0x0100 OR sb OR ucast ea_field
      | _ \<Rightarrow> False)"

definition validate_cmpm :: "ng_m68k_instr \<Rightarrow> bool" where
  "validate_cmpm i \<longleftrightarrow>
     (case size_bits (i_size i) of None \<Rightarrow> False
      | Some sb \<Rightarrow>
          if i_byte_length i \<noteq> 2 \<or> i_immediate i \<noteq> 0 \<or> i_condition i \<noteq> 0 \<or>
             i_form i \<noteq> NG_M68K_FORM_NONE \<or> i_target i \<noteq> 0 \<or> i_absolute_addr i \<noteq> 0 \<or>
             i_displacement i \<noteq> 0 \<or> ea_mode (i_src i) \<noteq> NG_M68K_EA_APOST \<or>
             \<not> ea_simple_register_payload (i_src i) \<or> i_src_reg i \<noteq> ea_reg (i_src i) \<or>
             ea_mode (i_dst i) \<noteq> NG_M68K_EA_APOST \<or> \<not> ea_simple_register_payload (i_dst i) \<or>
             i_reg i \<noteq> ea_reg (i_dst i) then False
          else i_opcode i = 0xB000 OR reg9 (ea_reg (i_dst i)) OR 0x0100 OR sb OR 0x0008 OR
                            ucast (ea_reg (i_src i)))"

definition validate_add_sub_or_and :: "ng_m68k_instr \<Rightarrow> bool" where
  "validate_add_sub_or_and i \<longleftrightarrow>
     (let allow_areg_source = (i_mnemonic i = NG_M68K_ADD \<or> i_mnemonic i = NG_M68K_SUB) in
      if ea_mode (i_dst i) = NG_M68K_EA_DREG then validate_ea_to_dreg_binary i allow_areg_source
      else validate_dreg_to_memory_binary i)"

definition valid_immediate_width :: "u8 \<Rightarrow> u32 \<Rightarrow> bool" where
  "valid_immediate_width sz immediate \<longleftrightarrow>
     (if sz = 1 then immediate \<le> 0xFF else if sz = 2 then immediate \<le> 0xFFFF else sz = 4)"

definition validate_address_reg_op_legacy_fields :: "ng_m68k_instr \<Rightarrow> bool" where
  "validate_address_reg_op_legacy_fields i \<longleftrightarrow>
     (if i_reg i \<noteq> ea_reg (i_dst i) \<or> i_immediate i \<noteq> 0 \<or> i_absolute_addr i \<noteq> 0 \<or>
         i_condition i \<noteq> 0 \<or> \<not> ea_simple_register_payload (i_dst i) then False
      else if i_mnemonic i = NG_M68K_MOVEA \<and> ea_mode (i_src i) = NG_M68K_EA_PC_INDEX then
        i_form i = NG_M68K_FORM_PC_INDEX_TO_AREG \<and> i_src_reg i = ea_index_reg (i_src i) \<and>
        i_displacement i = ea_displacement (i_src i) \<and> i_target i = ea_absolute_addr (i_src i)
      else i_form i = NG_M68K_FORM_NONE \<and> i_src_reg i = 0 \<and> i_displacement i = 0 \<and> i_target i = 0)"

definition address_base_opcode :: "ng_m68k_mnemonic \<Rightarrow> u16 option" where
  "address_base_opcode m =
     (if m = NG_M68K_ADDA then Some 0xD000 else if m = NG_M68K_SUBA then Some 0x9000
      else if m = NG_M68K_CMPA then Some 0xB000 else None)"

definition validate_address_reg_op :: "ng_m68k_instr \<Rightarrow> bool" where
  "validate_address_reg_op i \<longleftrightarrow>
     (if \<not> valid_word_or_long (i_size i) then False
      else case (move_source_ext_length i, ea_opcode_field (i_src i)) of
        (Some src_ext, Some ea_field) \<Rightarrow>
          if ea_mode (i_dst i) \<noteq> NG_M68K_EA_AREG \<or> \<not> validate_address_reg_op_legacy_fields i \<or>
             i_byte_length i \<noteq> 2 + src_ext then False
          else if i_mnemonic i = NG_M68K_MOVEA then
            i_opcode i = (if i_size i = 2 then 0x3000 else 0x2000) OR reg9 (ea_reg (i_dst i)) OR
                         0x0040 OR ucast ea_field
          else (case address_base_opcode (i_mnemonic i) of None \<Rightarrow> False
            | Some base_opcode \<Rightarrow>
                i_opcode i = base_opcode OR reg9 (ea_reg (i_dst i)) OR
                             (if i_size i = 2 then 0x00C0 else 0x01C0) OR ucast ea_field)
      | _ \<Rightarrow> False)"

definition validate_tst_legacy_fields :: "ng_m68k_instr \<Rightarrow> bool" where
  "validate_tst_legacy_fields i \<longleftrightarrow>
     (if i_target i \<noteq> 0 \<or> i_condition i \<noteq> 0 \<or> i_src_reg i \<noteq> 0 \<or> i_immediate i \<noteq> 0 \<or>
         \<not> ea_is_empty (i_dst i) then False
      else if ea_mode (i_src i) = NG_M68K_EA_DREG then
        i_form i = NG_M68K_FORM_DREG \<and> i_reg i = ea_reg (i_src i) \<and>
        i_absolute_addr i = 0 \<and> i_displacement i = 0
      else if ea_is_abs (i_src i) then
        i_form i = NG_M68K_FORM_ABS \<and> i_reg i = 0 \<and>
        i_absolute_addr i = ea_absolute_addr (i_src i) \<and> i_displacement i = 0
      else if ea_mode (i_src i) = NG_M68K_EA_ADISP then
        i_form i = NG_M68K_FORM_AREG_DISP \<and> i_reg i = ea_reg (i_src i) \<and>
        i_absolute_addr i = 0 \<and> i_displacement i = ea_displacement (i_src i)
      else i_form i = NG_M68K_FORM_NONE \<and> i_reg i = 0 \<and> i_absolute_addr i = 0 \<and> i_displacement i = 0)"

definition validate_tst :: "ng_m68k_instr \<Rightarrow> bool" where
  "validate_tst i \<longleftrightarrow>
     (case (size_bits (i_size i), exact_data_source_ext_length i, ea_opcode_field (i_src i)) of
        (Some sb, Some src_ext, Some ea_field) \<Rightarrow>
          if \<not> ea_is_data_alterable (i_src i) \<or> \<not> validate_tst_legacy_fields i \<or>
             i_byte_length i \<noteq> 2 + src_ext then False
          else i_opcode i = 0x4A00 OR sb OR ucast ea_field
      | _ \<Rightarrow> False)"

definition validate_immediate_dest_legacy_fields :: "ng_m68k_instr \<Rightarrow> bool" where
  "validate_immediate_dest_legacy_fields i \<longleftrightarrow>
     (if i_src_reg i \<noteq> 0 \<or> i_condition i \<noteq> 0 \<or> i_target i \<noteq> 0 \<or> \<not> ea_is_empty (i_src i) then False
      else if ea_mode (i_dst i) = NG_M68K_EA_DREG then
        i_form i = NG_M68K_FORM_IMM_TO_DREG \<and> i_reg i = ea_reg (i_dst i) \<and>
        i_absolute_addr i = 0 \<and> i_displacement i = 0
      else if ea_is_abs (i_dst i) then
        i_form i = NG_M68K_FORM_ABS \<and> i_reg i = 0 \<and>
        i_absolute_addr i = ea_absolute_addr (i_dst i) \<and> i_displacement i = 0
      else if ea_mode (i_dst i) = NG_M68K_EA_ADISP then
        i_form i = NG_M68K_FORM_AREG_DISP \<and> i_reg i = ea_reg (i_dst i) \<and>
        i_absolute_addr i = 0 \<and> i_displacement i = ea_displacement (i_dst i)
      else i_form i = NG_M68K_FORM_NONE \<and> i_reg i = 0 \<and> i_absolute_addr i = 0 \<and> i_displacement i = 0)"

definition validate_cmpi :: "ng_m68k_instr \<Rightarrow> bool" where
  "validate_cmpi i \<longleftrightarrow>
     (case (size_bits (i_size i), exact_data_alterable_ext_length (i_dst i), ea_opcode_field (i_dst i)) of
        (Some sb, Some dst_ext, Some ea_field) \<Rightarrow>
          if \<not> valid_immediate_width (i_size i) (i_immediate i) \<or>
             \<not> validate_immediate_dest_legacy_fields i \<or>
             i_byte_length i \<noteq> 2 + (if i_size i = 4 then 4 else 2) + dst_ext then False
          else i_opcode i = 0x0C00 OR sb OR ucast ea_field
      | _ \<Rightarrow> False)"

definition immediate_base_opcode :: "ng_m68k_mnemonic \<Rightarrow> u16 option" where
  "immediate_base_opcode m =
     (if m = NG_M68K_ORI then Some 0x0000 else if m = NG_M68K_ANDI then Some 0x0200
      else if m = NG_M68K_SUBI then Some 0x0400 else if m = NG_M68K_ADDI then Some 0x0600
      else if m = NG_M68K_EORI then Some 0x0A00 else None)"

definition validate_immediate_to_ea :: "ng_m68k_instr \<Rightarrow> bool" where
  "validate_immediate_to_ea i \<longleftrightarrow>
     (case (immediate_base_opcode (i_mnemonic i), size_bits (i_size i),
            exact_data_alterable_ext_length (i_dst i), ea_opcode_field (i_dst i)) of
        (Some base_opcode, Some sb, Some dst_ext, Some ea_field) \<Rightarrow>
          if \<not> valid_immediate_width (i_size i) (i_immediate i) \<or>
             \<not> validate_immediate_dest_legacy_fields i \<or>
             i_byte_length i \<noteq> 2 + (if i_size i = 4 then 4 else 2) + dst_ext then False
          else i_opcode i = base_opcode OR sb OR ucast ea_field
      | _ \<Rightarrow> False)"

definition word_data_base_opcode :: "ng_m68k_mnemonic \<Rightarrow> u16 option" where
  "word_data_base_opcode m =
     (if m = NG_M68K_CHK then Some 0x4180 else if m = NG_M68K_MULU then Some 0xC0C0
      else if m = NG_M68K_MULS then Some 0xC1C0 else if m = NG_M68K_DIVU then Some 0x80C0
      else if m = NG_M68K_DIVS then Some 0x81C0 else None)"

definition validate_word_data_to_dreg :: "ng_m68k_instr \<Rightarrow> bool" where
  "validate_word_data_to_dreg i \<longleftrightarrow>
     (case (word_data_base_opcode (i_mnemonic i), exact_data_source_ext_length i, ea_opcode_field (i_src i)) of
        (Some base_opcode, Some src_ext, Some ea_field) \<Rightarrow>
          if i_size i \<noteq> 2 \<or> i_immediate i \<noteq> 0 \<or> i_src_reg i \<noteq> 0 \<or> i_condition i \<noteq> 0 \<or>
             i_form i \<noteq> NG_M68K_FORM_NONE \<or> i_target i \<noteq> 0 \<or> i_absolute_addr i \<noteq> 0 \<or>
             i_displacement i \<noteq> 0 \<or> ea_mode (i_dst i) \<noteq> NG_M68K_EA_DREG \<or>
             \<not> ea_simple_register_payload (i_dst i) \<or> i_reg i \<noteq> ea_reg (i_dst i) \<or>
             i_byte_length i \<noteq> 2 + src_ext then False
          else i_opcode i = base_opcode OR reg9 (ea_reg (i_dst i)) OR ucast ea_field
      | _ \<Rightarrow> False)"

definition ccr_sr_opcode :: "ng_m68k_mnemonic \<Rightarrow> u16 option" where
  "ccr_sr_opcode m =
     (if m = NG_M68K_ORI_TO_CCR then Some 0x003C else if m = NG_M68K_ANDI_TO_CCR then Some 0x023C
      else if m = NG_M68K_EORI_TO_CCR then Some 0x0A3C else if m = NG_M68K_ORI_TO_SR then Some 0x007C
      else if m = NG_M68K_ANDI_TO_SR then Some 0x027C else if m = NG_M68K_EORI_TO_SR then Some 0x0A7C
      else None)"

definition validate_immediate_to_ccr_sr :: "ng_m68k_instr \<Rightarrow> bool" where
  "validate_immediate_to_ccr_sr i \<longleftrightarrow>
     (if i_byte_length i \<noteq> 4 \<or> \<not> valid_control_immediate_fields i then False
      else case ccr_sr_opcode (i_mnemonic i) of None \<Rightarrow> False
      | Some expected_opcode \<Rightarrow>
          if i_opcode i \<noteq> expected_opcode then False
          else if i_mnemonic i = NG_M68K_ORI_TO_CCR \<or> i_mnemonic i = NG_M68K_ANDI_TO_CCR \<or>
                  i_mnemonic i = NG_M68K_EORI_TO_CCR
          then i_size i = 1 \<and> i_immediate i \<le> 0xFF
          else i_size i = 2 \<and> i_immediate i \<le> 0xFFFF)"

definition validate_branch :: "ng_m68k_instr \<Rightarrow> bool" where
  "validate_branch i \<longleftrightarrow>
     (let disp8 = ucast (i_opcode i AND 0xFF) :: u8 in
      if i_size i \<noteq> 0 \<or> i_immediate i \<noteq> 0 \<or> i_reg i \<noteq> 0 \<or> i_src_reg i \<noteq> 0 \<or>
         i_form i \<noteq> NG_M68K_FORM_NONE \<or> i_absolute_addr i \<noteq> 0 \<or> \<not> no_ea_fields i \<or>
         i_target i \<noteq> branch_expected_target i then False
      else if \<not> (if i_byte_length i = 2 then disp8 \<noteq> 0 \<and> i_displacement i = scast disp8
                  else if i_byte_length i = 4 then disp8 = 0 else False) then False
      else if i_mnemonic i = NG_M68K_BCC then
        i_opcode i AND 0xF000 = 0x6000 \<and> i_condition i = ucast (drop_bit 8 (i_opcode i) AND 0xF) \<and>
        2 \<le> i_condition i \<and> i_condition i \<le> 15
      else if i_mnemonic i = NG_M68K_BRA then i_opcode i AND 0xFF00 = 0x6000 \<and> i_condition i = 0
      else i_opcode i AND 0xFF00 = 0x6100 \<and> i_condition i = 0)"

text \<open>The \<open>(kind, dir_left)\<close> pair of the shift mnemonics.\<close>

definition shift_kind :: "ng_m68k_mnemonic \<Rightarrow> (u8 \<times> u8) option" where
  "shift_kind m =
     (if m = NG_M68K_ASR then Some (0, 0) else if m = NG_M68K_ASL then Some (0, 1)
      else if m = NG_M68K_LSR then Some (1, 0) else if m = NG_M68K_LSL then Some (1, 1)
      else if m = NG_M68K_ROXR then Some (2, 0) else if m = NG_M68K_ROXL then Some (2, 1)
      else if m = NG_M68K_ROR then Some (3, 0) else if m = NG_M68K_ROL then Some (3, 1) else None)"

definition validate_shift_rotate :: "ng_m68k_instr \<Rightarrow> bool" where
  "validate_shift_rotate i \<longleftrightarrow>
     (case shift_kind (i_mnemonic i) of None \<Rightarrow> False
      | Some (kind, dir_left) \<Rightarrow>
        if ea_mode (i_dst i) = NG_M68K_EA_DREG then
          (if \<not> valid_size (i_size i) \<or> i_byte_length i \<noteq> 2 \<or> \<not> ea_simple_register_payload (i_dst i) \<or>
              i_reg i \<noteq> ea_reg (i_dst i) \<or> i_condition i \<noteq> 0 \<or> i_form i \<noteq> NG_M68K_FORM_NONE \<or>
              i_target i \<noteq> 0 \<or> i_absolute_addr i \<noteq> 0 \<or> i_displacement i \<noteq> 0 then False
           else
             (let size_code = (if i_size i = 1 then 0 else if i_size i = 2 then 1 else 2) :: u8 in
              if ea_mode (i_src i) \<noteq> NG_M68K_EA_NONE then
                (if ea_mode (i_src i) \<noteq> NG_M68K_EA_DREG \<or> \<not> ea_simple_register_payload (i_src i) \<or>
                    i_src_reg i \<noteq> ea_reg (i_src i) \<or> i_immediate i \<noteq> 0 then False
                 else i_opcode i = 0xE000 OR reg9 (ea_reg (i_src i)) OR push_bit 8 (ucast dir_left) OR
                        push_bit 6 (ucast size_code) OR 0x0020 OR push_bit 3 (ucast kind) OR
                        ucast (ea_reg (i_dst i)))
              else if \<not> ea_is_empty (i_src i) \<or> i_src_reg i \<noteq> 0 \<or> i_immediate i < 1 \<or> 8 < i_immediate i
              then False
              else
                (let count_field = (if i_immediate i = 8 then 0 else ucast (i_immediate i)) :: u8 in
                 i_opcode i = 0xE000 OR reg9 count_field OR push_bit 8 (ucast dir_left) OR
                   push_bit 6 (ucast size_code) OR push_bit 3 (ucast kind) OR
                   ucast (ea_reg (i_dst i)))))
        else if \<not> ea_is_empty (i_src i) \<or> i_size i \<noteq> 2 \<or> i_immediate i \<noteq> 1 \<or> i_src_reg i \<noteq> 0 \<or>
                i_reg i \<noteq> 0 \<or> i_condition i \<noteq> 0 \<or> i_form i \<noteq> NG_M68K_FORM_NONE \<or> i_target i \<noteq> 0 \<or>
                i_absolute_addr i \<noteq> 0 \<or> i_displacement i \<noteq> 0 then False
        else (case (exact_memory_alterable_ext_length (i_dst i), ea_opcode_field (i_dst i)) of
            (Some ext_len, Some ea_field) \<Rightarrow>
              i_byte_length i = 2 + ext_len \<and>
              i_opcode i = 0xE0C0 OR push_bit 9 (ucast kind) OR push_bit 8 (ucast dir_left) OR
                           ucast ea_field
          | _ \<Rightarrow> False))"

definition unary_base_opcode :: "ng_m68k_mnemonic \<Rightarrow> u16 option" where
  "unary_base_opcode m =
     (if m = NG_M68K_NEGX then Some 0x4000 else if m = NG_M68K_CLR then Some 0x4200
      else if m = NG_M68K_NEG then Some 0x4400 else if m = NG_M68K_NOT then Some 0x4600
      else if m = NG_M68K_NBCD then Some 0x4800 else if m = NG_M68K_TAS then Some 0x4AC0 else None)"

definition validate_unary_data_alterable :: "ng_m68k_instr \<Rightarrow> bool \<Rightarrow> bool" where
  "validate_unary_data_alterable i byte_only \<longleftrightarrow>
     (if \<not> ea_is_empty (i_src i) \<or> i_immediate i \<noteq> 0 \<or> i_src_reg i \<noteq> 0 \<or> i_condition i \<noteq> 0 \<or>
         i_target i \<noteq> 0 then False
      else if byte_only \<and> i_size i \<noteq> 1 then False
      else if \<not> byte_only \<and> \<not> valid_size (i_size i) then False
      else case (exact_data_alterable_ext_length (i_dst i), ea_opcode_field (i_dst i),
                 unary_base_opcode (i_mnemonic i)) of
        (Some ext_len, Some ea_field, Some base_opcode) \<Rightarrow>
          (let sb = (if byte_only then 0 else if i_size i = 1 then 0
                     else if i_size i = 2 then 0x0040 else 0x0080) in
           if i_byte_length i \<noteq> 2 + ext_len then False
           else if i_opcode i \<noteq>
             (if i_mnemonic i = NG_M68K_NBCD \<or> i_mnemonic i = NG_M68K_TAS
              then base_opcode OR ucast ea_field else base_opcode OR sb OR ucast ea_field) then False
           else if ea_mode (i_dst i) = NG_M68K_EA_DREG then
             i_form i = NG_M68K_FORM_DREG \<and> i_reg i = ea_reg (i_dst i) \<and>
             i_absolute_addr i = 0 \<and> i_displacement i = 0
           else if ea_mode (i_dst i) = NG_M68K_EA_ADISP then
             i_form i = NG_M68K_FORM_AREG_DISP \<and> i_reg i = ea_reg (i_dst i) \<and>
             i_absolute_addr i = 0 \<and> i_displacement i = ea_displacement (i_dst i)
           else if ea_is_abs (i_dst i) then
             i_form i = NG_M68K_FORM_ABS \<and> i_reg i = 0 \<and>
             i_absolute_addr i = ea_absolute_addr (i_dst i) \<and> i_displacement i = 0
           else i_form i = NG_M68K_FORM_NONE \<and> i_reg i = 0 \<and>
             i_absolute_addr i = 0 \<and> i_displacement i = 0)
      | _ \<Rightarrow> False)"

subsection \<open>The validator\<close>

definition ng_m68k_validate :: "ng_m68k_instr \<Rightarrow> bool" where
  "ng_m68k_validate i \<longleftrightarrow>
     (if i_byte_length i = 0 \<or> i_mnemonic i = NG_M68K_INVALID \<or> i_mnemonic i = NG_M68K_UNKNOWN then False
      else case i_mnemonic i of
        NG_M68K_NOP \<Rightarrow> valid_fixed_no_operand_2byte i 0x4E71
      | NG_M68K_RESET \<Rightarrow> valid_fixed_no_operand_2byte i 0x4E70
      | NG_M68K_RTE \<Rightarrow> valid_fixed_no_operand_2byte i 0x4E73
      | NG_M68K_RTR \<Rightarrow> valid_fixed_no_operand_2byte i 0x4E77
      | NG_M68K_RTS \<Rightarrow> valid_fixed_no_operand_2byte i 0x4E75
      | NG_M68K_TRAPV \<Rightarrow> valid_fixed_no_operand_2byte i 0x4E76
      | NG_M68K_ILLEGAL \<Rightarrow> validate_illegal_opcode_metadata i
      | NG_M68K_STOP \<Rightarrow> validate_stop_metadata i
      | NG_M68K_TRAP \<Rightarrow> validate_trap_metadata i
      | NG_M68K_BRA \<Rightarrow> validate_branch i
      | NG_M68K_BSR \<Rightarrow> validate_branch i
      | NG_M68K_BCC \<Rightarrow> validate_branch i
      | NG_M68K_JMP \<Rightarrow> validate_control_transfer i
      | NG_M68K_JSR \<Rightarrow> validate_control_transfer i
      | NG_M68K_PEA \<Rightarrow> validate_pea i
      | NG_M68K_LEA \<Rightarrow> validate_lea i
      | NG_M68K_MOVE \<Rightarrow> validate_move i
      | NG_M68K_MOVEA \<Rightarrow> validate_address_reg_op i
      | NG_M68K_ADDA \<Rightarrow> validate_address_reg_op i
      | NG_M68K_SUBA \<Rightarrow> validate_address_reg_op i
      | NG_M68K_CMPA \<Rightarrow> validate_address_reg_op i
      | NG_M68K_EXG \<Rightarrow> validate_exg i
      | NG_M68K_MOVE_USP \<Rightarrow> validate_move_usp i
      | NG_M68K_LINK \<Rightarrow> validate_link_unlk i
      | NG_M68K_UNLK \<Rightarrow> validate_link_unlk i
      | NG_M68K_MOVEP \<Rightarrow> validate_movep i
      | NG_M68K_MOVEM \<Rightarrow> validate_movem i
      | NG_M68K_MOVE_SR \<Rightarrow> validate_move_sr_ccr i
      | NG_M68K_MOVE_CCR \<Rightarrow> validate_move_sr_ccr i
      | NG_M68K_CLR \<Rightarrow> validate_unary_data_alterable i False
      | NG_M68K_NEG \<Rightarrow> validate_unary_data_alterable i False
      | NG_M68K_NEGX \<Rightarrow> validate_unary_data_alterable i False
      | NG_M68K_NOT \<Rightarrow> validate_unary_data_alterable i False
      | NG_M68K_NBCD \<Rightarrow> validate_unary_data_alterable i True
      | NG_M68K_TAS \<Rightarrow> validate_unary_data_alterable i True
      | NG_M68K_ADDI \<Rightarrow> validate_immediate_to_ea i
      | NG_M68K_SUBI \<Rightarrow> validate_immediate_to_ea i
      | NG_M68K_ORI \<Rightarrow> validate_immediate_to_ea i
      | NG_M68K_ANDI \<Rightarrow> validate_immediate_to_ea i
      | NG_M68K_EORI \<Rightarrow> validate_immediate_to_ea i
      | NG_M68K_ORI_TO_CCR \<Rightarrow> validate_immediate_to_ccr_sr i
      | NG_M68K_ORI_TO_SR \<Rightarrow> validate_immediate_to_ccr_sr i
      | NG_M68K_ANDI_TO_CCR \<Rightarrow> validate_immediate_to_ccr_sr i
      | NG_M68K_ANDI_TO_SR \<Rightarrow> validate_immediate_to_ccr_sr i
      | NG_M68K_EORI_TO_CCR \<Rightarrow> validate_immediate_to_ccr_sr i
      | NG_M68K_EORI_TO_SR \<Rightarrow> validate_immediate_to_ccr_sr i
      | NG_M68K_ADD \<Rightarrow> validate_add_sub_or_and i
      | NG_M68K_SUB \<Rightarrow> validate_add_sub_or_and i
      | NG_M68K_OR \<Rightarrow> validate_add_sub_or_and i
      | NG_M68K_AND \<Rightarrow> validate_add_sub_or_and i
      | NG_M68K_CMP \<Rightarrow> validate_ea_to_dreg_binary i True
      | NG_M68K_CMPM \<Rightarrow> validate_cmpm i
      | NG_M68K_EOR \<Rightarrow> validate_dreg_to_data_alterable_binary i
      | NG_M68K_BTST \<Rightarrow> validate_btst i
      | NG_M68K_BCHG \<Rightarrow> validate_altering_bit_op i
      | NG_M68K_BCLR \<Rightarrow> validate_altering_bit_op i
      | NG_M68K_BSET \<Rightarrow> validate_altering_bit_op i
      | NG_M68K_ADDQ \<Rightarrow> validate_quick_op i
      | NG_M68K_SUBQ \<Rightarrow> validate_quick_op i
      | NG_M68K_TST \<Rightarrow> validate_tst i
      | NG_M68K_CMPI \<Rightarrow> validate_cmpi i
      | NG_M68K_CHK \<Rightarrow> validate_word_data_to_dreg i
      | NG_M68K_MULU \<Rightarrow> validate_word_data_to_dreg i
      | NG_M68K_MULS \<Rightarrow> validate_word_data_to_dreg i
      | NG_M68K_DIVU \<Rightarrow> validate_word_data_to_dreg i
      | NG_M68K_DIVS \<Rightarrow> validate_word_data_to_dreg i
      | NG_M68K_EXT \<Rightarrow> validate_ext_swap i
      | NG_M68K_SWAP \<Rightarrow> validate_ext_swap i
      | NG_M68K_SCC \<Rightarrow> validate_scc i
      | NG_M68K_DBCC \<Rightarrow> validate_dbcc i
      | NG_M68K_ASL \<Rightarrow> validate_shift_rotate i
      | NG_M68K_ASR \<Rightarrow> validate_shift_rotate i
      | NG_M68K_LSL \<Rightarrow> validate_shift_rotate i
      | NG_M68K_LSR \<Rightarrow> validate_shift_rotate i
      | NG_M68K_ROXL \<Rightarrow> validate_shift_rotate i
      | NG_M68K_ROXR \<Rightarrow> validate_shift_rotate i
      | NG_M68K_ROL \<Rightarrow> validate_shift_rotate i
      | NG_M68K_ROR \<Rightarrow> validate_shift_rotate i
      | NG_M68K_ADDX \<Rightarrow> valid_size (i_size i) \<and> valid_extend_pair i
      | NG_M68K_SUBX \<Rightarrow> valid_size (i_size i) \<and> valid_extend_pair i
      | NG_M68K_ABCD \<Rightarrow> i_size i = 1 \<and> valid_extend_pair i
      | NG_M68K_SBCD \<Rightarrow> i_size i = 1 \<and> valid_extend_pair i
      | NG_M68K_MOVEQ \<Rightarrow> validate_moveq i
      | _ \<Rightarrow> False)"

end
