(* ===== verification/M68kValidateEa.thy ===== *)
theory M68kValidateEa
  imports M68kValidate M68kDecodeProps
begin

text \<open>
  Decoded operands against the validator: the opcode word as the sum of its fields, and the extension
  length and opcode field every \<open>*_ext_length\<close> helper of \<open>m68k_validate.c\<close> finds for an operand that
  \<open>decode_ea\<close> produced.
\<close>

subsection \<open>Opcode words from their fields\<close>

lemma word16_eqI:
  fixes v w :: u16
  assumes "bit v 0 = bit w 0" "bit v 1 = bit w 1" "bit v 2 = bit w 2" "bit v 3 = bit w 3"
    "bit v 4 = bit w 4" "bit v 5 = bit w 5" "bit v 6 = bit w 6" "bit v 7 = bit w 7"
    "bit v 8 = bit w 8" "bit v 9 = bit w 9" "bit v 10 = bit w 10" "bit v 11 = bit w 11"
    "bit v 12 = bit w 12" "bit v 13 = bit w 13" "bit v 14 = bit w 14" "bit v 15 = bit w 15"
  shows "v = w"
proof (rule bit_word_eqI)
  fix n :: nat
  assume "n < LENGTH(16)"
  then have "n \<in> {0, 1, 2, 3, 4, 5, 6, 7, 8, 9, 10, 11, 12, 13, 14, 15}" by simp presburger
  with assms show "bit v n = bit w n" by auto
qed

text \<open>The six operand bits of an opcode word.\<close>

definition op_ea :: "u16 \<Rightarrow> u8" where
  "op_ea w = push_bit 3 (op_mode w) OR op_reg w"

lemma op_parts:
  "w AND 0x3F = ucast (op_ea w)" "w AND 7 = ucast (op_reg w)" "w AND 0x38 = push_bit 3 (ucast (op_mode w))"
  "w AND 0xC0 = push_bit 6 (ucast (op_size2 w))" "w AND 0x1C0 = push_bit 6 (ucast (op_opmode w))"
  "w AND 0xE00 = push_bit 9 (ucast (op_reg9 w))" "w AND 0xF000 = push_bit 12 (ucast (op_top w))"
  by (rule word16_eqI;
      simp add: op_ea_def field_defs bit_simps)+


lemma opcode_forms:
  "w AND 0xFFC0 = c \<Longrightarrow> w = c OR ucast (op_ea w)"
  "w AND 0xFFF8 = c \<Longrightarrow> w = c OR ucast (op_reg w)"
  "w AND 0xFF00 = c \<Longrightarrow> w = c OR push_bit 6 (ucast (op_size2 w)) OR ucast (op_ea w)"
  "w AND 0xF1C0 = c \<Longrightarrow> w = c OR push_bit 9 (ucast (op_reg9 w)) OR ucast (op_ea w)"
  "w AND 0xF1F8 = c \<Longrightarrow> w = c OR push_bit 9 (ucast (op_reg9 w)) OR ucast (op_reg w)"
  "w AND 0xF100 = c \<Longrightarrow>
     w = c OR push_bit 9 (ucast (op_reg9 w)) OR push_bit 6 (ucast (op_size2 w)) OR ucast (op_ea w)"
  "w = push_bit 12 (ucast (op_top w)) OR push_bit 9 (ucast (op_reg9 w)) OR
       push_bit 6 (ucast (op_opmode w)) OR ucast (op_ea w)"
  unfolding op_parts [symmetric] by (erule subst | rule word16_eqI; simp add: bit_simps)+

lemma eight_cases:
  fixes m :: u8
  assumes "m < 8"
  shows "m = 0 \<or> m = 1 \<or> m = 2 \<or> m = 3 \<or> m = 4 \<or> m = 5 \<or> m = 6 \<or> m = 7"
proof -
  have "unat m < 8" using assms by (simp add: word_less_nat_alt)
  then have "unat m \<in> {0, 1, 2, 3, 4, 5, 6, 7}" by auto
  then show ?thesis by (simp add: word_unat_eq_iff)
qed

subsection \<open>Decoded operands satisfy the payload checks\<close>

abbreviation operand :: "ng_program_rom \<Rightarrow> u32 \<Rightarrow> u8 \<Rightarrow> u8 \<Rightarrow> u8 \<Rightarrow> ng_m68k_ea" where
  "operand rom x m r sz \<equiv> snd (decode_ea rom x m r sz)"

lemmas payload_defs = ea_simple_register_payload_def ea_address_displacement_payload_def
  ea_address_index_payload_def ea_abs_word_payload_def ea_abs_long_payload_def
  ea_pc_displacement_payload_def ea_pc_index_payload_def ea_immediate_payload_def

text \<open>The operand each mode decodes to.\<close>

lemma operand_modes:
  "operand rom x 0 r sz = ea_zero\<lparr>ea_reg := r, ea_mode := NG_M68K_EA_DREG\<rparr>"
  "operand rom x 1 r sz = ea_zero\<lparr>ea_reg := r, ea_mode := NG_M68K_EA_AREG\<rparr>"
  "operand rom x 2 r sz = ea_zero\<lparr>ea_reg := r, ea_mode := NG_M68K_EA_AIND\<rparr>"
  "operand rom x 3 r sz = ea_zero\<lparr>ea_reg := r, ea_mode := NG_M68K_EA_APOST\<rparr>"
  "operand rom x 4 r sz = ea_zero\<lparr>ea_reg := r, ea_mode := NG_M68K_EA_APRE\<rparr>"
  "operand rom x 5 r sz = ea_zero\<lparr>ea_reg := r, ea_mode := NG_M68K_EA_ADISP,
     ea_displacement := sign16 (ng_program_rom_read16 rom x)\<rparr>"
  "operand rom x 6 r sz =
     decode_index_ext (ng_program_rom_read16 rom x) (ea_zero\<lparr>ea_reg := r, ea_mode := NG_M68K_EA_AINDEX\<rparr>)"
  "operand rom x 7 0 sz = ea_zero\<lparr>ea_mode := NG_M68K_EA_ABS_W,
     ea_absolute_addr := sign_extend_abs_w (ng_program_rom_read16 rom x)\<rparr>"
  "operand rom x 7 1 sz = ea_zero\<lparr>ea_reg := 1, ea_mode := NG_M68K_EA_ABS_L,
     ea_absolute_addr := ng_program_rom_read32 rom x\<rparr>"
  "operand rom x 7 2 sz = ea_zero\<lparr>ea_reg := 2, ea_mode := NG_M68K_EA_PC_DISP,
     ea_displacement := sign16 (ng_program_rom_read16 rom x),
     ea_absolute_addr := x + scast (sign16 (ng_program_rom_read16 rom x))\<rparr>"
  "operand rom x 7 3 sz =
     (let ea = decode_index_ext (ng_program_rom_read16 rom x) (ea_zero\<lparr>ea_reg := 3, ea_mode := NG_M68K_EA_PC_INDEX\<rparr>)
      in ea\<lparr>ea_absolute_addr := x + scast (ea_displacement ea)\<rparr>)"
  "operand rom x 7 4 sz = ea_zero\<lparr>ea_reg := 4, ea_mode := NG_M68K_EA_IMM,
     ea_immediate := (if sz = NG_M68K_SIZE_LONG then ng_program_rom_read32 rom x
       else if sz = NG_M68K_SIZE_BYTE then ucast (ng_program_rom_read16 rom x) AND 0xFF
       else ucast (ng_program_rom_read16 rom x))\<rparr>"
  by (simp_all add: decode_ea_def Let_def ea_zero_def)

lemma kind_modes:
  "ea_kind 0 r = NG_M68K_EA_DREG" "ea_kind 1 r = NG_M68K_EA_AREG" "ea_kind 2 r = NG_M68K_EA_AIND"
  "ea_kind 3 r = NG_M68K_EA_APOST" "ea_kind 4 r = NG_M68K_EA_APRE" "ea_kind 5 r = NG_M68K_EA_ADISP"
  "ea_kind 6 r = NG_M68K_EA_AINDEX" "ea_kind 7 0 = NG_M68K_EA_ABS_W" "ea_kind 7 1 = NG_M68K_EA_ABS_L"
  "ea_kind 7 2 = NG_M68K_EA_PC_DISP" "ea_kind 7 3 = NG_M68K_EA_PC_INDEX" "ea_kind 7 4 = NG_M68K_EA_IMM"
  "ea_kind 7 5 = NG_M68K_EA_NONE" "ea_kind 7 6 = NG_M68K_EA_NONE" "ea_kind 7 7 = NG_M68K_EA_NONE"
  by (simp_all add: ea_kind_def operand_modes decode_index_ext_def Let_def ea_zero_def)
    (simp_all add: decode_ea_def ea_zero_def)

text \<open>Case analysis over the modes of an operand that decodes.\<close>

lemma operand_cases:
  fixes m r :: u8
  assumes "m < 8" "r < 8"
  obtains "m = 0" | "m = 1" | "m = 2" | "m = 3" | "m = 4" | "m = 5" | "m = 6"
    | "m = 7" "r = 0" | "m = 7" "r = 1" | "m = 7" "r = 2" | "m = 7" "r = 3" | "m = 7" "r = 4"
    | "m = 7" "r = 5" | "m = 7" "r = 6" | "m = 7" "r = 7"
  using eight_cases [OF assms(1)] eight_cases [OF assms(2)] by metis

lemma operand_field:
  assumes "m < 8" "r < 8" "ea_kind m r \<noteq> NG_M68K_EA_NONE"
  shows "ea_opcode_field (operand rom x m r sz) = Some (push_bit 3 m OR r)"
  by (rule operand_cases [OF assms(1,2)])
    (use assms in \<open>simp_all add: operand_modes kind_modes ea_opcode_field_def decode_index_ext_def Let_def ea_zero_def\<close>)

lemma sign8_range: "signed_byte_value (sign8 b)"
proof -
  have "sint (sign8 b) = sint b" unfolding sign8_def by (simp add: sint_up_scast is_up)
  then show ?thesis using sint_lt [of b] sint_ge [of b] by (simp add: signed_byte_value_def)
qed

lemma add_signed_disp_sum: "add_signed_disp x d = x + scast d"
proof -
  have "ucast (scast d :: u64) = (scast d :: u32)" "ucast (ucast x :: u64) = x"
    by (rule bit_word_eqI; simp add: bit_simps)+
  then show ?thesis by (simp add: add_signed_disp_def ucast_add_down)
qed

lemma abs_word_fixpoint: "sign_extend_abs_word_value (sign_extend_abs_w v) = sign_extend_abs_w v"
proof -
  have "ucast (scast v :: u32) = v" by (rule bit_word_eqI) (simp add: bit_simps)
  then show ?thesis by (simp add: sign_extend_abs_word_value_def sign_extend_abs_w_def)
qed


lemma index_ext_payload:
  "ea_index_reg (decode_index_ext w ea) < 8" "valid_bool_field (ea_index_is_addr (decode_index_ext w ea))"
  "valid_bool_field (ea_index_is_long (decode_index_ext w ea))"
  "signed_byte_value (ea_displacement (decode_index_ext w ea))"
  "ea_mode (decode_index_ext w ea) = ea_mode ea" "ea_reg (decode_index_ext w ea) = ea_reg ea"
  "ea_absolute_addr (decode_index_ext w ea) = ea_absolute_addr ea"
  "ea_immediate (decode_index_ext w ea) = ea_immediate ea"
  using field_bounds(7,9,10) [of w]
  by (simp_all add: decode_index_ext_def sign8_range valid_bool_field_def word_less_nat_alt word_le_nat_alt)

lemma byte_mask_le: "ucast (v :: u16) AND 0xFF \<le> (0xFF :: u32)" "ucast v \<le> (0xFFFF :: u32)"
  by (rule word_and_le1) (use unsigned_less [of v, where 'a = nat] in \<open>simp add: word_le_nat_alt unat_ucast_up\<close>)

lemma operand_payloads [simp]:
  "r < 8 \<Longrightarrow> ea_simple_register_payload (operand rom x 0 r sz)"
  "r < 8 \<Longrightarrow> ea_simple_register_payload (operand rom x 1 r sz)"
  "r < 8 \<Longrightarrow> ea_simple_register_payload (operand rom x 2 r sz)"
  "r < 8 \<Longrightarrow> ea_simple_register_payload (operand rom x 3 r sz)"
  "r < 8 \<Longrightarrow> ea_simple_register_payload (operand rom x 4 r sz)"
  "r < 8 \<Longrightarrow> ea_address_displacement_payload (operand rom x 5 r sz)"
  "r < 8 \<Longrightarrow> ea_address_index_payload (operand rom x 6 r sz)"
  "ea_abs_word_payload (operand rom x 7 0 sz)"
  "ea_abs_long_payload (operand rom x 7 1 sz)"
  "ea_pc_displacement_payload (operand rom x 7 2 sz) x"
  "ea_pc_index_payload (operand rom x 7 3 sz) x"
  "valid_size sz \<Longrightarrow> ea_immediate_payload (operand rom x 7 4 sz) sz"
  by (simp_all add: operand_modes payload_defs Let_def index_ext_payload add_signed_disp_sum
      abs_word_fixpoint byte_mask_le ea_zero_def size_consts valid_size_def)
    blast

lemmas ea_class_defs = is_memory_alterable_ea_def is_data_alterable_ea_def is_movem_reg_to_mem_ea_def
  is_movem_mem_to_reg_ea_def is_data_ea_def is_control_ea_def

lemma above_one: "\<not> (2 :: u8) \<le> 1" "\<not> (3 :: u8) \<le> 1" "\<not> (4 :: u8) \<le> 1" "\<not> (5 :: u8) \<le> 1"
  "\<not> (6 :: u8) \<le> 1" "\<not> (7 :: u8) \<le> 1"
  by (simp_all add: word_le_nat_alt)

lemmas operand_simps = above_one decode_ea_kind kind_modes ext_when_def ea_len_def ea_class_defs

lemma memory_alterable_len:
  assumes "m < 8" "r < 8" "is_memory_alterable_ea m r"
  shows "exact_memory_alterable_ext_length (operand rom x m r sz) = Some (ucast (ea_len m r sz))"
  by (rule operand_cases [OF assms(1,2)]; use assms in \<open>simp add: operand_simps exact_memory_alterable_ext_length_def \<close>)

lemma data_alterable_len:
  assumes "m < 8" "r < 8" "is_data_alterable_ea m r"
  shows "exact_data_alterable_ext_length (operand rom x m r sz) = Some (ucast (ea_len m r sz))"
  by (rule operand_cases [OF assms(1,2)]; use assms in \<open>simp add: operand_simps exact_data_alterable_ext_length_def exact_memory_alterable_ext_length_def\<close>)

lemma movem_reg_to_mem_len:
  assumes "m < 8" "r < 8" "is_movem_reg_to_mem_ea m r"
  shows "movem_reg_to_mem_ext_length (operand rom x m r sz) = Some (ucast (ea_len m r sz))"
  by (rule operand_cases [OF assms(1,2)]; use assms in \<open>simp add: operand_simps movem_reg_to_mem_ext_length_def \<close>)

lemma quick_alterable_len:
  assumes "m < 8" "r < 8" "is_data_alterable_ea m r \<or> m = 1"
  shows "quick_alterable_ext_length (operand rom x m r sz) = Some (ucast (ea_len m r sz))"
  by (rule operand_cases [OF assms(1,2)]; use assms in \<open>simp add: operand_simps quick_alterable_ext_length_def \<close>)

lemma move_destination_len:
  assumes "m < 8" "r < 8" "is_data_alterable_ea m r"
  shows "move_destination_ext_length (operand rom x m r sz) = Some (ucast (ea_len m r sz))"
  by (rule operand_cases [OF assms(1,2)]; use assms in \<open>simp add: operand_simps move_destination_ext_length_def \<close>)

lemma move_source_len:
  assumes "m < 8" "r < 8" "ea_kind m r \<noteq> NG_M68K_EA_NONE" "m \<noteq> 1 \<or> i_size i \<noteq> 1"
    and "i_src i = operand rom (i_addr i + 2) m r (i_size i)" "valid_size (i_size i)"
  shows "move_source_ext_length i = Some (ucast (ea_len m r (i_size i)))"
  by (rule operand_cases [OF assms(1,2)];
      use assms in \<open>simp add: operand_simps move_source_ext_length_def Let_def size_consts\<close>)

lemma data_source_len:
  assumes "m < 8" "r < 8" "is_data_ea m r" "True"
    and "i_src i = operand rom (i_addr i + 2) m r (i_size i)" "valid_size (i_size i)"
  shows "exact_data_source_ext_length i = Some (ucast (ea_len m r (i_size i)))"
  by (rule operand_cases [OF assms(1,2)];
      use assms in \<open>simp add: operand_simps exact_data_source_ext_length_def Let_def size_consts\<close>)

lemma addsubcmp_source_len:
  assumes "m < 8" "r < 8" "is_data_ea m r \<or> m = 1 \<and> i_size i \<noteq> 1"
    and "i_src i = operand rom (i_addr i + 2) m r (i_size i)" "valid_size (i_size i)"
  shows "exact_addsubcmp_source_ext_length i = Some (ucast (ea_len m r (i_size i)))"
  by (rule operand_cases [OF assms(1,2)];
      use assms in \<open>simp add: operand_simps exact_addsubcmp_source_ext_length_def exact_data_source_ext_length_def
        Let_def size_consts\<close>)

lemma control_len:
  assumes "m < 8" "r < 8" "is_control_ea m r"
  shows "exact_control_ea_ext_length (operand rom x m r sz) x = Some (ucast (ea_len m r sz))"
  by (rule operand_cases [OF assms(1,2)];
      use assms in \<open>simp add: operand_simps exact_control_ea_ext_length_def word_le_nat_alt\<close>)

lemma movem_mem_to_reg_len:
  assumes "m < 8" "r < 8" "is_movem_mem_to_reg_ea m r"
    and "i_src i = operand rom (i_addr i + 4) m r sz"
  shows "movem_mem_to_reg_ext_length i = Some (ucast (ea_len m r sz))"
  by (rule operand_cases [OF assms(1,2)];
      use assms in \<open>simp add: operand_simps movem_mem_to_reg_ext_length_def exact_control_ea_ext_length_def
        word_le_nat_alt\<close>)

lemma bit_data_len:
  assumes "m < 8" "r < 8" "is_data_ea m r" "m = 7 \<and> r = 4 \<longrightarrow> imm" "sz = (if m = 0 then 4 else 1)"
  shows "exact_bit_data_ext_length (operand rom x m r sz) sz x imm = Some (ucast (ea_len m r sz))"
  by (rule operand_cases [OF assms(1,2)];
      use assms in \<open>simp add: operand_simps exact_bit_data_ext_length_def valid_size_def size_consts\<close>)

subsection \<open>Every stage produces a valid instruction\<close>

definition start_instr :: "u32 \<Rightarrow> u16 \<Rightarrow> ng_m68k_instr" where
  "start_instr a w = instr_zero\<lparr>i_addr := a, i_opcode := w, i_mnemonic := NG_M68K_UNKNOWN, i_byte_length := 2\<rparr>"

definition accepted :: "ng_m68k_instr \<Rightarrow> bool" where
  "accepted i \<longleftrightarrow> i_mnemonic i = NG_M68K_UNKNOWN \<or> ng_m68k_validate i"

definition validated :: "stage \<Rightarrow> bool" where
  "validated st \<longleftrightarrow> (case st of Matched j \<Rightarrow> accepted j | Fallthrough j \<Rightarrow> True)"

lemma validated_simps [simp]: "validated (Matched j) = accepted j" "validated (Fallthrough j)"
  by (simp_all add: validated_def)

lemma accepted_unknown [simp]: "accepted (as_unknown i)" "accepted (i\<lparr>i_mnemonic := NG_M68K_UNKNOWN\<rparr>)"
  by (simp_all add: accepted_def as_unknown_def)

lemma with_operand_eq:
  "with_src rom a b m r i =
     i\<lparr>i_src := operand rom (a + b) m r (i_size i), i_byte_length := ucast (b + ea_len m r (i_size i))\<rparr>"
  "with_dst rom a b m r i =
     i\<lparr>i_dst := operand rom (a + b) m r (i_size i), i_byte_length := ucast (b + ea_len m r (i_size i))\<rparr>"
  by (simp_all add: with_src_def with_dst_def case_prod_unfold decode_ea_len)

lemma operand_len_bytes [simp]:
  "2 + (ucast (ea_len m r sz) :: u8) \<noteq> 0" "4 + (ucast (ea_len m r sz) :: u8) \<noteq> 0"
  "6 + (ucast (ea_len m r sz) :: u8) \<noteq> 0"
  "ucast (2 + ea_len m r sz) = 2 + (ucast (ea_len m r sz) :: u8)"
  "ucast (4 + ea_len m r sz) = 4 + (ucast (ea_len m r sz) :: u8)"
  "ucast (6 + ea_len m r sz) = 6 + (ucast (ea_len m r sz) :: u8)"
  using ea_len_cases [of m r sz] by auto

lemma size_code_bits:
  "op_size2 w \<noteq> 3 \<Longrightarrow> size_bits (size_from_opcode_bits (op_size2 w)) = Some (push_bit 6 (ucast (op_size2 w)))"
  "valid_size (size_from_opcode_bits c)"
  using two_bit_cases [OF field_bounds(5) [of w]]
  by (auto simp: size_from_opcode_bits_def size_consts size_bits_def valid_size_def)

lemma kind_class:
  assumes "is_data_alterable_ea m r" "m < 8" "r < 8"
  shows "ea_kind m r \<noteq> NG_M68K_EA_NONE"
  by (rule operand_cases [OF assms(2,3)]; use assms in \<open>simp add: operand_simps\<close>)

lemma field_of_opcode:
  "ea_kind (op_mode w) (op_reg w) \<noteq> NG_M68K_EA_NONE \<Longrightarrow>
   ea_opcode_field (operand rom x (op_mode w) (op_reg w) sz) = Some (op_ea w)"
  by (simp add: operand_field op_ea_def)

lemma ea_zero_empty [simp]: "ea_is_empty ea_zero" "ea_mode ea_zero = NG_M68K_EA_NONE"
  by (simp_all add: ea_is_empty_def ea_zero_def)

lemma start_fields [simp]:
  "i_addr (start_instr a w) = a" "i_opcode (start_instr a w) = w" "i_byte_length (start_instr a w) = 2"
  "i_mnemonic (start_instr a w) = NG_M68K_UNKNOWN" "i_reg (start_instr a w) = 0"
  "i_src_reg (start_instr a w) = 0" "i_size (start_instr a w) = 0" "i_condition (start_instr a w) = 0"
  "i_form (start_instr a w) = NG_M68K_FORM_NONE" "i_target (start_instr a w) = 0"
  "i_immediate (start_instr a w) = 0" "i_absolute_addr (start_instr a w) = 0"
  "i_displacement (start_instr a w) = 0" "i_src (start_instr a w) = ea_zero" "i_dst (start_instr a w) = ea_zero"
  by (simp_all add: start_instr_def instr_zero_def)

text \<open>
  The legacy operand fields that mirror the destination operand: what the validators ask for and
  what \<open>dst_cascade\<close> writes. \<open>dreg_form\<close> is the form of a data register.
\<close>

definition mirrors_dst :: "ng_m68k_operand_form \<Rightarrow> ng_m68k_instr \<Rightarrow> bool" where
  "mirrors_dst dreg_form i \<longleftrightarrow>
     (if ea_mode (i_dst i) = NG_M68K_EA_DREG then
        i_form i = dreg_form \<and> i_reg i = ea_reg (i_dst i) \<and> i_absolute_addr i = 0 \<and> i_displacement i = 0
      else if ea_mode (i_dst i) = NG_M68K_EA_ADISP then
        i_form i = NG_M68K_FORM_AREG_DISP \<and> i_reg i = ea_reg (i_dst i) \<and>
        i_absolute_addr i = 0 \<and> i_displacement i = ea_displacement (i_dst i)
      else if ea_is_abs (i_dst i) then
        i_form i = NG_M68K_FORM_ABS \<and> i_reg i = 0 \<and>
        i_absolute_addr i = ea_absolute_addr (i_dst i) \<and> i_displacement i = 0
      else i_form i = NG_M68K_FORM_NONE \<and> i_reg i = 0 \<and> i_absolute_addr i = 0 \<and> i_displacement i = 0)"

lemma legacy_field_checks:
  "validate_quick_destination_legacy_fields i = mirrors_dst NG_M68K_FORM_DREG i"
  "validate_bit_destination_legacy_fields i dyn \<longleftrightarrow> i_condition i = 0 \<and> i_target i = 0 \<and>
     mirrors_dst (if dyn then NG_M68K_FORM_DREG_TO_DREG else NG_M68K_FORM_DREG) i"
  "validate_immediate_dest_legacy_fields i \<longleftrightarrow> i_src_reg i = 0 \<and> i_condition i = 0 \<and> i_target i = 0 \<and>
     ea_is_empty (i_src i) \<and> mirrors_dst NG_M68K_FORM_IMM_TO_DREG i"
  "validate_binary_destination_legacy_fields i dreg \<longleftrightarrow> i_condition i = 0 \<and> i_target i = 0 \<and>
     (ea_mode (i_dst i) = NG_M68K_EA_DREG \<longrightarrow> dreg \<and> ea_simple_register_payload (i_dst i)) \<and>
     mirrors_dst NG_M68K_FORM_DREG_TO_DREG i"
  by (auto simp: validate_quick_destination_legacy_fields_def validate_bit_destination_legacy_fields_def
      validate_immediate_dest_legacy_fields_def validate_binary_destination_legacy_fields_def mirrors_dst_def
      split: ng_m68k_ea_mode.splits)

definition legacy_blank :: "ng_m68k_instr \<Rightarrow> bool" where
  "legacy_blank i \<longleftrightarrow> i_form i = NG_M68K_FORM_NONE \<and> i_reg i = 0 \<and> i_absolute_addr i = 0 \<and> i_displacement i = 0"

lemma cascade_mirrors:
  assumes "legacy_blank i"
  shows "mirrors_dst f (dst_cascade (Some f) i)"
    and "ea_mode (i_dst i) \<noteq> NG_M68K_EA_DREG \<Longrightarrow> mirrors_dst f (dst_cascade None i)"
  using assms by (auto simp: mirrors_dst_def dst_cascade_def legacy_blank_def dst_mode_def is_abs_mode_def)

lemma cascade_keeps [simp]:
  "i_addr (dst_cascade f i) = i_addr i" "i_opcode (dst_cascade f i) = i_opcode i"
  "i_byte_length (dst_cascade f i) = i_byte_length i" "i_src_reg (dst_cascade f i) = i_src_reg i"
  "i_size (dst_cascade f i) = i_size i" "i_condition (dst_cascade f i) = i_condition i"
  "i_target (dst_cascade f i) = i_target i" "i_immediate (dst_cascade f i) = i_immediate i"
  "i_src (dst_cascade f i) = i_src i" "i_dst (dst_cascade f i) = i_dst i"
  by (simp_all add: dst_cascade_def)

lemma unary_check:
  "validate_unary_data_alterable i byte_only \<longleftrightarrow>
     ea_is_empty (i_src i) \<and> i_immediate i = 0 \<and> i_src_reg i = 0 \<and> i_condition i = 0 \<and> i_target i = 0 \<and>
     (if byte_only then i_size i = 1 else valid_size (i_size i)) \<and>
     (\<exists>n f c. exact_data_alterable_ext_length (i_dst i) = Some n \<and> ea_opcode_field (i_dst i) = Some f \<and>
        unary_base_opcode (i_mnemonic i) = Some c \<and> i_byte_length i = 2 + n \<and>
        i_opcode i = (if i_mnemonic i = NG_M68K_NBCD \<or> i_mnemonic i = NG_M68K_TAS \<or> byte_only then c OR ucast f
                      else c OR the (size_bits (i_size i)) OR ucast f)) \<and>
     mirrors_dst NG_M68K_FORM_DREG i"
  unfolding validate_unary_data_alterable_def mirrors_dst_def size_bits_def valid_size_def Let_def
  by (cases "exact_data_alterable_ext_length (i_dst i)"; cases "ea_opcode_field (i_dst i)";
      cases "unary_base_opcode (i_mnemonic i)") (simp_all, auto)

end
