(* ===== verification/M68kValidateOps.thy ===== *)
theory M68kValidateOps
  imports M68kValidateEa
begin

text \<open>
  Stage by stage: the blocks of the decoder for unary, immediate, control, bit, quick, MOVEM and
  status-register instructions produce instructions the validator accepts.
\<close>

lemmas stage_run = with_operand_eq dst_mode_def src_mode_def decode_ea_kind accepted_def Let_def size_consts
  populate_unary_dst_legacy_fields_def

lemma data_alterable_operand:
  assumes "is_data_alterable_ea (op_mode w) (op_reg w)"
  shows "ea_kind (op_mode w) (op_reg w) \<noteq> NG_M68K_EA_NONE"
    and "exact_data_alterable_ext_length (operand rom x (op_mode w) (op_reg w) sz) =
           Some (ucast (ea_len (op_mode w) (op_reg w) sz))"
    and "ea_opcode_field (operand rom x (op_mode w) (op_reg w) sz) = Some (op_ea w)"
  using kind_class [OF assms] data_alterable_len [OF _ _ assms]
  by (simp_all add: field_of_opcode)

lemma valid_clr: "validated (stage_clr rom a w (start_instr a w))"
proof (cases "w AND 0xFF00 = 0x4200 \<and> op_size2 w \<noteq> 3 \<and> is_data_alterable_ea (op_mode w) (op_reg w)")
  case True
  then show ?thesis
    using opcode_forms(3) [of w "0x4200"] data_alterable_operand [of w]
    by (simp add: stage_clr_def stage_run ng_m68k_validate_def unary_check size_code_bits
        cascade_mirrors legacy_blank_def unary_base_opcode_def)
qed (auto simp: stage_clr_def)

lemma valid_negx_neg_not: "validated (stage_negx_neg_not rom a w (start_instr a w))"
proof (cases "(w AND 0xFF00 = 0x4000 \<or> w AND 0xFF00 = 0x4400 \<or> w AND 0xFF00 = 0x4600) \<and> op_size2 w \<noteq> 3 \<and>
    is_data_alterable_ea (op_mode w) (op_reg w)")
  case True
  then show ?thesis
    using opcode_forms(3) [of w] data_alterable_operand [of w]
    by (auto simp: stage_negx_neg_not_def stage_run ng_m68k_validate_def unary_check size_code_bits
        cascade_mirrors legacy_blank_def unary_base_opcode_def)
qed (auto simp: stage_negx_neg_not_def is_data_alterable_ea_def)

lemma valid_nbcd: "validated (stage_nbcd rom a w (start_instr a w))"
proof (cases "w AND 0xFFC0 = 0x4800 \<and> is_data_alterable_ea (op_mode w) (op_reg w)")
  case True
  then show ?thesis
    using opcode_forms(1) [of w "0x4800"] data_alterable_operand [of w]
    by (simp add: stage_nbcd_def stage_run ng_m68k_validate_def unary_check
        cascade_mirrors legacy_blank_def unary_base_opcode_def)
qed (auto simp: stage_nbcd_def)

lemma valid_tas: "validated (stage_tas rom a w (start_instr a w))"
proof (cases "w AND 0xFFC0 = 0x4AC0 \<and> is_data_alterable_ea (op_mode w) (op_reg w)")
  case True
  then show ?thesis
    using opcode_forms(1) [of w "0x4AC0"] data_alterable_operand [of w]
    by (simp add: stage_tas_def stage_run ng_m68k_validate_def unary_check
        cascade_mirrors legacy_blank_def unary_base_opcode_def)
qed (auto simp: stage_tas_def)


text \<open>Immediate operations.\<close>

lemma imm_dest_len:
  "ucast (2 + (if sz = NG_M68K_SIZE_LONG then 4 else 2) + ea_len m r z) =
   2 + (if sz = 4 then 4 else 2) + (ucast (ea_len m r z) :: u8)"
  using ea_len_cases [of m r z] by (auto simp: size_consts)

lemma immediate_width:
  "valid_immediate_width (size_from_opcode_bits c)
     (if size_from_opcode_bits c = NG_M68K_SIZE_LONG then x
      else if size_from_opcode_bits c = NG_M68K_SIZE_BYTE then ucast (v :: u16) AND 0xFF else ucast v)"
  by (simp add: valid_immediate_width_def size_from_opcode_bits_def size_consts byte_mask_le)

lemma accepted_immediate:
  assumes "immediate_base_opcode (i_mnemonic j) = Some c \<or> i_mnemonic j = NG_M68K_CMPI \<and> c = 0x0C00"
    and "size_bits (i_size j) = Some sb" "exact_data_alterable_ext_length (i_dst j) = Some n"
    and "ea_opcode_field (i_dst j) = Some f" "valid_immediate_width (i_size j) (i_immediate j)"
    and "validate_immediate_dest_legacy_fields j" "i_byte_length j = 2 + (if i_size j = 4 then 4 else 2) + n"
    and "i_opcode j = c OR sb OR ucast f" "i_byte_length j \<noteq> 0"
  shows "accepted j"
proof -
  have "i_mnemonic j = NG_M68K_CMPI \<or> i_mnemonic j = NG_M68K_ORI \<or> i_mnemonic j = NG_M68K_ANDI \<or>
      i_mnemonic j = NG_M68K_SUBI \<or> i_mnemonic j = NG_M68K_ADDI \<or> i_mnemonic j = NG_M68K_EORI"
    using assms(1) by (auto simp: immediate_base_opcode_def split: if_splits)
  moreover have "i_mnemonic j = NG_M68K_CMPI \<Longrightarrow> validate_cmpi j"
    using assms by (simp add: validate_cmpi_def immediate_base_opcode_def)
  moreover have "i_mnemonic j \<noteq> NG_M68K_CMPI \<Longrightarrow> validate_immediate_to_ea j"
    using assms by (simp add: validate_immediate_to_ea_def)
  ultimately show ?thesis using assms(9) by (elim disjE) (simp_all add: accepted_def ng_m68k_validate_def)
qed

lemma valid_immediate_op:
  assumes "w AND 0xFF00 = c" "immediate_base_opcode mn = Some c \<or> mn = NG_M68K_CMPI \<and> c = 0x0C00"
  shows "validated (decode_immediate_op mn rom a w (start_instr a w))"
proof (cases "op_size2 w \<noteq> 3 \<and> is_data_alterable_ea (op_mode w) (op_reg w)")
  case True
  define sz where "sz = size_from_opcode_bits (op_size2 w)"
  define imm :: u32 where "imm = (if sz = NG_M68K_SIZE_LONG then ng_program_rom_read32 rom (a + 2)
      else if sz = NG_M68K_SIZE_BYTE then ucast (ng_program_rom_read16 rom (a + 2)) AND 0xFF
      else ucast (ng_program_rom_read16 rom (a + 2)))"
  define n :: u32 where "n = 2 + (if sz = NG_M68K_SIZE_LONG then 4 else 2)"
  define j where "j = (start_instr a w)\<lparr>i_mnemonic := mn, i_size := sz, i_immediate := imm,
      i_dst := operand rom (a + n) (op_mode w) (op_reg w) sz,
      i_byte_length := ucast (n + ea_len (op_mode w) (op_reg w) sz)\<rparr>"
  have b: "i_byte_length j \<noteq> 0"
    using ea_len_cases [of "op_mode w" "op_reg w" sz] by (auto simp: j_def n_def)
  have "decode_immediate_op mn rom a w (start_instr a w) = Matched (dst_cascade (Some NG_M68K_FORM_IMM_TO_DREG) j)"
    using True data_alterable_operand(1) [of w]
    unfolding j_def n_def imm_def sz_def
    by (simp add: decode_immediate_op_def Let_def with_operand_eq dst_mode_def decode_ea_kind
        is_data_alterable_ea_def)
  moreover have "accepted (dst_cascade (Some NG_M68K_FORM_IMM_TO_DREG) j)"
    using True data_alterable_operand [of w] opcode_forms(3) [OF assms(1)] assms(2) b
      immediate_width [of "op_size2 w", folded sz_def] 
    by (intro accepted_immediate [where c = c])
      (simp_all add: j_def n_def imm_def size_code_bits sz_def [symmetric] imm_dest_len legacy_field_checks
        cascade_mirrors legacy_blank_def size_code_bits(1) [of w, folded sz_def])
  ultimately show ?thesis by simp
qed (auto simp: decode_immediate_op_def is_data_alterable_ea_def)

lemma valid_immediates:
  "validated (stage_ori_eori rom a w (start_instr a w))" "validated (stage_subi_addi rom a w (start_instr a w))"
  "validated (stage_cmpi rom a w (start_instr a w))" "validated (stage_andi rom a w (start_instr a w))"
  by (simp_all add: stage_ori_eori_def stage_subi_addi_def stage_cmpi_def stage_andi_def valid_immediate_op
      immediate_base_opcode_def)

lemma no_operands [simp]: "i_src i = ea_zero \<Longrightarrow> i_dst i = ea_zero \<Longrightarrow> no_ea_fields i"
  by (simp add: no_ea_fields_def)

lemma nibble_le: "ucast (w AND 0xF :: u16) \<le> (15 :: u32)"
proof -
  have "unat (w AND 0xF) \<le> 15" using unat_and_le [of w "0xF"] by simp
  then show ?thesis by (simp add: word_le_nat_alt unat_ucast_up)
qed

lemma valid_misc: "validated (stage_misc rom a w (start_instr a w))"
  by (simp add: stage_misc_def stage_run ng_m68k_validate_def valid_fixed_no_operand_2byte_def
      valid_no_operand_2byte_def validate_illegal_opcode_metadata_def valid_control_immediate_fields_def
      validate_trap_metadata_def validate_stop_metadata_def byte_mask_le nibble_le)

lemma valid_line_a_f: "validated (stage_line_a_f rom a w (start_instr a w))"
  by (simp add: stage_line_a_f_def stage_run ng_m68k_validate_def
      validate_illegal_opcode_metadata_def valid_control_immediate_fields_def)

lemma below_eight [simp]: "\<not> 8 \<le> op_reg w" "\<not> 8 \<le> op_reg9 w"
  using field_bounds(1,3) [of w] by (simp_all add: not_le)

lemma valid_link: "validated (stage_link rom a w (start_instr a w))"
  using opcode_forms(2) [of w "0x4E50"] opcode_forms(2) [of w "0x4E58"]
  by (simp add: stage_link_def stage_run ng_m68k_validate_def validate_link_unlk_def)

lemma register_operand [simp]:
  "r < 8 \<Longrightarrow> ea_simple_register_payload (ea_zero\<lparr>ea_mode := m, ea_reg := r\<rparr>)"
  "r < 8 \<Longrightarrow> ea_is_exact_register (ea_zero\<lparr>ea_mode := m, ea_reg := r\<rparr>) m' \<longleftrightarrow> m = m'"
  by (auto simp: ea_simple_register_payload_def ea_is_exact_register_def ea_zero_def)

lemma valid_move_usp: "validated (stage_move_usp rom a w (start_instr a w))"
proof -
  have c: "w AND 0x0008 = 0" if "w AND 0xFFF8 = 0x4E60"
    using and_submask [OF that, of "8"] by simp
  have d: "w AND 0x0008 \<noteq> 0" if "w AND 0xFFF8 = 0x4E68"
    using and_submask [OF that, of "8"] by simp
  show ?thesis
    using opcode_forms(2) [of w] c d
    by (auto simp add: stage_move_usp_def stage_run ng_m68k_validate_def validate_move_usp_def
      set_src_reg_def set_dst_reg_def)
qed

lemma pc_disp_operand [simp]:
  "ea_pc_displacement_payload (ea_zero\<lparr>ea_mode := m, ea_reg := 2, ea_displacement := d,
     ea_absolute_addr := a + 2 + scast d\<rparr>) (a + 2)"
  "ea_abs_long_payload (ea_zero\<lparr>ea_mode := m, ea_reg := 1, ea_absolute_addr := x\<rparr>)"
  by (simp_all add: ea_pc_displacement_payload_def ea_abs_long_payload_def add_signed_disp_sum ea_zero_def)

lemma valid_jumps:
  "validated (stage_jump_abs_l rom a w (start_instr a w))"
  "validated (stage_jump_pc_disp rom a w (start_instr a w))"
  "validated (stage_jump_aind rom a w (start_instr a w))"
  using opcode_forms(2) [of w "0x4ED0"]
  by (auto simp: stage_jump_abs_l_def stage_jump_pc_disp_def stage_jump_aind_def stage_run ng_m68k_validate_def
      validate_control_transfer_def exact_control_source_ext_length_def exact_control_ea_ext_length_def
      ext_when_def ea_opcode_field_def set_src_reg_def unsigned_or_eq or.assoc [symmetric])


lemma cond_range:
  fixes w :: u16
  assumes "w AND 0xF000 = 0x6000" "w AND 0xFF00 \<noteq> 0x6000" "w AND 0xFF00 \<noteq> 0x6100"
  shows "2 \<le> (ucast (drop_bit 8 w AND 0xF) :: u8)" "(ucast (drop_bit 8 w AND 0xF) :: u8) \<le> 15"
proof -
  define c :: u8 where "c = ucast (drop_bit 8 w AND 0xF)"
  have p: "w AND 0xF00 = push_bit 8 (ucast c)" unfolding c_def by (rule word16_eqI; simp add: bit_simps)
  have q: "w AND 0xFF00 = (w AND 0xF000) OR (w AND 0xF00)" by (rule word16_eqI; simp add: bit_simps)
  have "c \<noteq> 0" "c \<noteq> 1" using assms p q by auto
  then show "2 \<le> (ucast (drop_bit 8 w AND 0xF) :: u8)"
    unfolding c_def [symmetric] by (simp add: word_le_nat_alt word_unat_eq_iff)
  show "(ucast (drop_bit 8 w AND 0xF) :: u8) \<le> 15"
    using field_bounds(8) [of w] by (simp add: word_less_nat_alt word_le_nat_alt)
qed

lemma valid_branch: "validated (stage_branch rom a w (start_instr a w))"
  using cond_range [of w]
  by (auto simp: stage_branch_def stage_run ng_m68k_validate_def validate_branch_def branch_expected_target_def
      populate_branch_target_def sign8_def)

lemma moveq_byte: "valid_sign_extended_byte (scast (sign8 b))" "ucast (scast (sign8 b) :: u32) = b"
proof -
  have "scast (sign8 b) = (scast b :: u32)"
    unfolding sign8_def by (rule bit_word_eqI; auto simp: bit_simps min_def split: if_splits)
  moreover have "ucast (scast b :: u32) = b" by (rule bit_word_eqI) (simp add: bit_simps)
  ultimately show "valid_sign_extended_byte (scast (sign8 b))" "ucast (scast (sign8 b) :: u32) = b"
    by (simp_all add: valid_sign_extended_byte_def)
qed

lemma valid_moveq: "validated (stage_moveq rom a w (start_instr a w))"
proof -
  have "w = 0x7000 OR push_bit 9 (ucast (op_reg9 w)) OR ucast (ucast (w AND 0xFF) :: u8)"
    if "w AND 0xF100 = 0x7000"
    unfolding that [symmetric] op_parts [symmetric] by (rule word16_eqI; simp add: bit_simps)
  then show ?thesis
    by (simp add: stage_moveq_def stage_run ng_m68k_validate_def validate_moveq_def moveq_byte set_dst_reg_def)
qed

lemma valid_lea_pc_disp: "validated (stage_lea_pc_disp rom a w (start_instr a w))"
proof -
  have "w = 0x41C0 OR push_bit 9 (ucast (op_reg9 w)) OR 0x3A" if "w AND 0xF1FF = 0x41FA"
  proof -
    have "w = (w AND 0xF1FF) OR (w AND 0xE00)" by (rule word16_eqI; simp add: bit_simps)
    also have "\<dots> = 0x41C0 OR (w AND 0xE00) OR 0x3A" unfolding that by (rule word16_eqI; simp add: bit_simps)
    finally show ?thesis unfolding op_parts .
  qed
  then show ?thesis
    by (simp add: stage_lea_pc_disp_def stage_run ng_m68k_validate_def validate_lea_def set_dst_reg_def
        validate_lea_legacy_fields_def exact_control_source_ext_length_def exact_control_ea_ext_length_def
        ext_when_def ea_opcode_field_def)
qed


lemma op_bit6: "w AND 0x40 \<noteq> 0 \<longleftrightarrow> bit w 6" "ucast (drop_bit 7 w AND 1) \<noteq> (0 :: u8) \<longleftrightarrow> bit w 7"
  "w AND 0x100 \<noteq> 0 \<longleftrightarrow> bit w 8" for w :: u16
proof -
  show "w AND 0x40 \<noteq> 0 \<longleftrightarrow> bit w 6" using bit_iff_and_push_bit_not_eq_0 [of w 6] by simp
  show "w AND 0x100 \<noteq> 0 \<longleftrightarrow> bit w 8" using bit_iff_and_push_bit_not_eq_0 [of w 8] by simp
  show "ucast (drop_bit 7 w AND 1) \<noteq> (0 :: u8) \<longleftrightarrow> bit w 7"
    by (simp add: and_one_eq bit_iff_odd_drop_bit of_bool_def mod2_eq_if)
qed

lemma disp_operand [simp]:
  "r < 8 \<Longrightarrow> ea_address_displacement_payload (ea_zero\<lparr>ea_mode := m, ea_reg := r, ea_displacement := d\<rparr>)"
  by (simp add: ea_address_displacement_payload_def ea_zero_def)

lemma valid_movep: "validated (stage_movep rom a w (start_instr a w))"
proof (cases "w AND 0xF138 = 0x0108")
  case True
  have e: "w = (if bit w 7 then 0x0188 else 0x0108) OR push_bit 9 (ucast (op_reg9 w)) OR
      (if bit w 6 then 0x40 else 0) OR ucast (op_reg w)"
  proof -
    have "w = (w AND 0xF138) OR (if bit w 7 then 0x80 else 0) OR (w AND 0xE00) OR (if bit w 6 then 0x40 else 0) OR (w AND 7)"
      by (rule word16_eqI; simp add: bit_simps)
    then show ?thesis unfolding True op_parts by (cases "bit w 7"; cases "bit w 6") (simp_all add: or.assoc [symmetric])
  qed
  show ?thesis using True e
    by (cases "bit w 7"; cases "bit w 6")
      (simp_all add: stage_movep_def stage_run ng_m68k_validate_def validate_movep_def set_src_reg_def
        set_dst_reg_def op_bit6 valid_word_or_long_def)
qed (simp add: stage_movep_def)

lemma valid_swap_ext: "validated (stage_swap_ext rom a w (start_instr a w))"
proof -
  have "w AND 0x40 = 0" if "w AND 0xFFF8 = 0x4880" using and_submask [OF that, of "0x40"] by simp
  moreover have "w AND 0x40 \<noteq> 0" if "w AND 0xFFF8 = 0x48C0" using and_submask [OF that, of "0x40"] by simp
  ultimately show ?thesis
    using opcode_forms(2) [of w "0x4840"] opcode_forms(2) [of w "0x4880"] opcode_forms(2) [of w "0x48C0"]
    by (auto simp: stage_swap_ext_def stage_run ng_m68k_validate_def validate_ext_swap_def set_dst_reg_def)
qed

lemma op_ea_low_mode:
  "op_mode w = 0 \<Longrightarrow> op_ea w = op_reg w" "op_mode w = 1 \<Longrightarrow> op_ea w = 8 OR op_reg w"
  by (simp_all add: op_ea_def)

lemma valid_exchange: "validated (of_helper (decode_exchange w) (start_instr a w))"
  using opcode_forms(5) [of w "0xC140"] opcode_forms(5) [of w "0xC148"] opcode_forms(5) [of w "0xC188"]
  by (auto simp: of_helper_def decode_exchange_def stage_run ng_m68k_validate_def validate_exg_def
      exchange_instr_def set_dst_reg_def set_src_reg_def)

lemma valid_cmpm: "validated (of_helper (decode_cmpm w) (start_instr a w))"
proof (cases "w AND 0xF138 = 0xB108 \<and> op_size2 w \<noteq> 3")
  case True
  have "w = (w AND 0xF138) OR (w AND 0xC0) OR (w AND 0xE00) OR (w AND 7)" by (rule word16_eqI; simp add: bit_simps)
  with True have "w = 0xB108 OR push_bit 6 (ucast (op_size2 w)) OR push_bit 9 (ucast (op_reg9 w)) OR ucast (op_reg w)"
    by (simp only: op_parts)
  moreover have "\<dots> = 0xB000 OR push_bit 9 (ucast (op_reg9 w)) OR 0x0100 OR push_bit 6 (ucast (op_size2 w)) OR 8 OR ucast (op_reg w)"
    by (rule word16_eqI; simp add: bit_simps op_size2_def op_reg9_def op_reg_def)
  ultimately have e: "w = 0xB000 OR push_bit 9 (ucast (op_reg9 w)) OR 0x0100 OR push_bit 6 (ucast (op_size2 w)) OR 8 OR ucast (op_reg w)"
    by simp
  show ?thesis using True e
    by (simp add: of_helper_def decode_cmpm_def stage_run ng_m68k_validate_def validate_cmpm_def
        set_dst_reg_def set_src_reg_def size_code_bits)
qed (auto simp: of_helper_def decode_cmpm_def)

lemma valid_sr_ccr: "validated (of_helper (decode_immediate_to_sr_ccr rom a w) (start_instr a w))"
  by (simp add: of_helper_def decode_immediate_to_sr_ccr_def stage_run ng_m68k_validate_def
      validate_immediate_to_ccr_sr_def ccr_sr_opcode_def valid_control_immediate_fields_def byte_mask_le)

lemma op_ea_extend:
  assumes "op_mode w = 0 \<or> op_mode w = 1"
  shows "op_ea w = (if op_mode w = 1 then 8 OR op_reg w else op_reg w)"
  using assms by (auto simp: op_ea_def)

lemma accepted_extend:
  assumes "extend_base_opcode mn = Some c" "op_mode w = 0 \<or> op_mode w = 1"
    and "w = c OR push_bit 9 (ucast (op_reg9 w)) OR sb OR ucast (op_ea w)"
    and "if mn = NG_M68K_ADDX \<or> mn = NG_M68K_SUBX then size_bits sz = Some sb \<and> valid_size sz else sz = 1 \<and> sb = 0"
  shows "accepted (extend_pair_operands w ((start_instr a w)\<lparr>i_mnemonic := mn, i_byte_length := 2, i_size := sz\<rparr>))"
proof -
  have "mn = NG_M68K_ADDX \<or> mn = NG_M68K_SUBX \<or> mn = NG_M68K_ABCD \<or> mn = NG_M68K_SBCD"
    using assms(1) by (auto simp: extend_base_opcode_def split: if_splits)
  then show ?thesis
    using assms op_ea_extend [OF assms(2)]
    by (elim disjE) (simp_all add: accepted_def extend_pair_operands_def Let_def set_src_reg_def set_dst_reg_def
        ng_m68k_validate_def valid_extend_pair_def unsigned_or_eq split: if_splits)
qed

lemma valid_addx_subx: "validated (stage_addx_subx rom a w (start_instr a w))"
proof (cases "(w AND 0xF100 = 0xD100 \<or> w AND 0xF100 = 0x9100) \<and> (op_mode w = 0 \<or> op_mode w = 1) \<and> op_size2 w \<noteq> 3")
  case True
  have t: "w AND 0xF000 = 0xD000" if "w AND 0xF100 = 0xD100" using and_submask [OF that, of "0xF000"] by simp
  have u: "w AND 0xF000 = 0x9000" if "w AND 0xF100 = 0x9100" using and_submask [OF that, of "0xF000"] by simp
  let ?j = "\<lambda>mn. extend_pair_operands w ((start_instr a w)\<lparr>i_mnemonic := mn, i_byte_length := 2,
      i_size := size_from_opcode_bits (op_size2 w)\<rparr>)"
  have "accepted (?j NG_M68K_ADDX)" if "w AND 0xF100 = 0xD100"
    using True size_code_bits(1) [of w] size_code_bits(2) opcode_forms(6) [OF that]
    by (intro accepted_extend [where c = "0xD100" and sb = "push_bit 6 (ucast (op_size2 w))"])
      (simp_all add: extend_base_opcode_def)
  moreover have "accepted (?j NG_M68K_SUBX)" if "w AND 0xF100 = 0x9100"
    using True size_code_bits(1) [of w] size_code_bits(2) opcode_forms(6) [OF that]
    by (intro accepted_extend [where c = "0x9100" and sb = "push_bit 6 (ucast (op_size2 w))"])
      (simp_all add: extend_base_opcode_def)
  ultimately show ?thesis using True t u by (auto simp: stage_addx_subx_def)
qed (auto simp: stage_addx_subx_def)

lemma valid_abcd_sbcd: "validated (stage_abcd_sbcd rom a w (start_instr a w))"
proof (cases "(w AND 0xF1F0 = 0xC100 \<or> w AND 0xF1F0 = 0x8100) \<and> (op_mode w = 0 \<or> op_mode w = 1)")
  case True
  have t: "w AND 0xF000 = 0xC000" "w AND 0xF1C0 = 0xC100" if "w AND 0xF1F0 = 0xC100"
    using and_submask [OF that, of "0xF000"] and_submask [OF that, of "0xF1C0"] by simp_all
  have u: "w AND 0xF000 = 0x8000" "w AND 0xF1C0 = 0x8100" if "w AND 0xF1F0 = 0x8100"
    using and_submask [OF that, of "0xF000"] and_submask [OF that, of "0xF1C0"] by simp_all
  let ?j = "\<lambda>mn. extend_pair_operands w ((start_instr a w)\<lparr>i_mnemonic := mn, i_byte_length := 2, i_size := 1\<rparr>)"
  have "accepted (?j NG_M68K_ABCD)" if "w AND 0xF1F0 = 0xC100"
    using True opcode_forms(4) [OF t(2) [OF that]]
    by (intro accepted_extend [where c = "0xC100" and sb = 0]) (simp_all add: extend_base_opcode_def)
  moreover have "accepted (?j NG_M68K_SBCD)" if "w AND 0xF1F0 = 0x8100"
    using True opcode_forms(4) [OF u(2) [OF that]]
    by (intro accepted_extend [where c = "0x8100" and sb = 0]) (simp_all add: extend_base_opcode_def)
  ultimately show ?thesis using True t u by (auto simp: stage_abcd_sbcd_def size_consts start_instr_def instr_zero_def)
qed (auto simp: stage_abcd_sbcd_def)

lemma size2_three: "drop_bit 6 w AND 3 = 3 \<longleftrightarrow> w AND 0xC0 = 0xC0" for w :: u16
proof -
  have p: "w AND 0xC0 = push_bit 6 (drop_bit 6 w AND 3)" by (rule word16_eqI; simp add: bit_simps)
  have q: "drop_bit 6 w AND 3 = drop_bit 6 (w AND 0xC0)" by (simp add: drop_bit_and)
  show ?thesis
  proof
    assume "drop_bit 6 w AND 3 = 3"
    then show "w AND 0xC0 = 0xC0" unfolding p by simp
  next
    assume "w AND 0xC0 = 0xC0"
    then show "drop_bit 6 w AND 3 = 3" unfolding q by simp
  qed
qed

lemma dbcc_opcode:
  fixes w :: u16
  assumes "w AND 0xF000 = 0x5000" "w AND 0xC0 = 0xC0"
  shows "w = 0x50C0 OR push_bit 8 (ucast (ucast (drop_bit 8 w AND 0xF) :: u8)) OR ucast (op_ea w)"
proof -
  have "w = ((w AND 0xF000) OR (w AND 0xC0)) OR push_bit 8 (ucast (ucast (drop_bit 8 w AND 0xF) :: u8)) OR (w AND 0x3F)"
    by (rule word16_eqI; simp add: bit_simps)
  then show ?thesis unfolding assms op_parts(1) by simp
qed

lemma valid_dbcc_scc: "validated (stage_dbcc_scc rom a w (start_instr a w))"
proof (cases "w AND 0xF000 = 0x5000 \<and> w AND 0xC0 = 0xC0")
  case True
  define c :: u8 where "c = ucast (drop_bit 8 w AND 0xF)"
  have c: "c \<le> 15" using field_bounds(8) [of w] by (simp add: c_def word_less_nat_alt word_le_nat_alt)
  have e: "w = 0x50C0 OR push_bit 8 (ucast c) OR ucast (op_ea w)"
    using dbcc_opcode [of w] True by (simp add: c_def)
  show ?thesis
  proof (cases "op_mode w = 1")
    case m: True
    have "w = 0x50C8 OR push_bit 8 (ucast c) OR ucast (op_reg w)"
    proof -
      have "0x50C0 OR x OR 8 OR y = 0x50C8 OR x OR y" for x y :: u16 by (rule word16_eqI; simp add: bit_simps)
      with e op_ea_low_mode(2) [OF m] show ?thesis by (simp add: unsigned_or_eq)
    qed
    with True m c show ?thesis
      by (simp add: stage_dbcc_scc_def stage_run size2_three ng_m68k_validate_def validate_dbcc_def
        branch_expected_target_def branch_target_sum c_def [symmetric])
  next
    case False
    with True e c show ?thesis
      using data_alterable_operand [of w]
      by (simp add: stage_dbcc_scc_def stage_run size2_three ng_m68k_validate_def validate_scc_def c_def [symmetric])
  qed
qed (auto simp: stage_dbcc_scc_def size2_three)


lemma accepted_quick:
  assumes "i_mnemonic j = NG_M68K_ADDQ \<or> i_mnemonic j = NG_M68K_SUBQ"
    and "\<not> i_immediate j < 1" "\<not> 8 < i_immediate j" "i_src j = ea_zero" "i_src_reg j = 0" "i_condition j = 0"
    and "i_target j = 0" "quick_alterable_ext_length (i_dst j) = Some n" "ea_opcode_field (i_dst j) = Some f"
    and "size_bits (i_size j) = Some sb" "valid_size (i_size j)" "i_byte_length j = 2 + n" "i_byte_length j \<noteq> 0"
    and "if ea_mode (i_dst j) = NG_M68K_EA_AREG then valid_word_or_long (i_size j) else ea_is_data_alterable (i_dst j)"
    and "mirrors_dst NG_M68K_FORM_DREG j"
    and "i_immediate j = 8 \<Longrightarrow> cnt = 0" "i_immediate j \<noteq> 8 \<Longrightarrow> cnt = ucast (i_immediate j)"
    and "i_opcode j = 0x5000 OR push_bit 9 cnt OR
      (if i_mnemonic j = NG_M68K_SUBQ then 0x0100 else 0) OR sb OR ucast f"
  shows "accepted j"
proof -
  have "validate_quick_op j"
    using assms unfolding validate_quick_op_def legacy_field_checks by (auto simp: Let_def split: if_splits)
  then show ?thesis using assms(1,13) by (elim disjE) (simp_all add: accepted_def ng_m68k_validate_def)
qed

lemma valid_addq_subq: "validated (stage_addq_subq rom a w (start_instr a w))"
proof (cases "w AND 0xF000 = 0x5000 \<and> op_size2 w \<noteq> 3 \<and> \<not> (op_mode w = 1 \<and> op_size2 w = 0) \<and>
    (op_mode w = 1 \<or> is_data_alterable_ea (op_mode w) (op_reg w))")
  case True
  define q :: u32 where "q = (if ucast (op_reg9 w) = (0 :: u32) then 8 else ucast (op_reg9 w))"
  have q: "\<not> q < 1" "\<not> 8 < q" "q = 8 \<Longrightarrow> op_reg9 w = 0" "q \<noteq> 8 \<Longrightarrow> ucast q = (ucast (op_reg9 w) :: u16)"
    using eight_cases [of "op_reg9 w"] by (auto simp: q_def)
  have k: "ea_kind (op_mode w) (op_reg w) \<noteq> NG_M68K_EA_NONE"
    using True kind_class [of "op_mode w" "op_reg w"] by (auto simp: kind_modes)
  have l: "quick_alterable_ext_length (operand rom x (op_mode w) (op_reg w) sz) =
      Some (ucast (ea_len (op_mode w) (op_reg w) sz))" for x sz
    using True quick_alterable_len [of "op_mode w" "op_reg w"] by auto
  have e: "w = 0x5000 OR push_bit 9 (ucast (op_reg9 w)) OR (if bit w 8 then 0x100 else 0) OR
      push_bit 6 (ucast (op_size2 w)) OR ucast (op_ea w)"
  proof -
    have "w = (w AND 0xF000) OR (w AND 0xE00) OR (if bit w 8 then 0x100 else 0) OR (w AND 0xC0) OR (w AND 0x3F)"
      by (rule word16_eqI; simp add: bit_simps)
    with True show ?thesis by (simp only: op_parts(1,4,6))
  qed
  have d: "ea_is_data_alterable (operand rom x (op_mode w) (op_reg w) sz)" if "op_mode w \<noteq> 1" for x sz
    by (rule operand_cases [OF field_bounds(2,3) [of w]];
        use True that in \<open>simp add: operand_simps ea_is_data_alterable_def ea_is_memory_alterable_def\<close>)
  have s: "valid_word_or_long (size_from_opcode_bits (op_size2 w))" if "op_mode w = 1"
    using True that two_bit_cases [of "op_size2 w"]
    by (auto simp: valid_word_or_long_def size_from_opcode_bits_def size_consts)
  have a: "ea_kind (op_mode w) (op_reg w) = NG_M68K_EA_AREG \<longleftrightarrow> op_mode w = 1"
    by (rule operand_cases [of "op_mode w" "op_reg w"]) (simp_all add: kind_modes)
  define j where "j = (start_instr a w)\<lparr>i_mnemonic := (if bit w 8 then NG_M68K_SUBQ else NG_M68K_ADDQ),
      i_byte_length := 2, i_size := size_from_opcode_bits (op_size2 w), i_immediate := q,
      i_dst := operand rom (a + 2) (op_mode w) (op_reg w) (size_from_opcode_bits (op_size2 w)),
      i_byte_length := ucast (2 + ea_len (op_mode w) (op_reg w) (size_from_opcode_bits (op_size2 w)))\<rparr>"
  have "stage_addq_subq rom a w (start_instr a w) = Matched (dst_cascade (Some NG_M68K_FORM_DREG) j)"
    using True k unfolding j_def q_def
    by (simp add: stage_addq_subq_def with_operand_eq Let_def dst_mode_def decode_ea_kind op_bit6)
  moreover have "accepted (dst_cascade (Some NG_M68K_FORM_DREG) j)"
    using True q k l e d s
    by (cases "bit w 8"; intro accepted_quick [where cnt = "ucast (op_reg9 w)" and n = "ucast (ea_len (op_mode w) (op_reg w) (size_from_opcode_bits (op_size2 w)))"
        and sb = "push_bit 6 (ucast (op_size2 w))" and f = "op_ea w"])
      (simp_all add: j_def field_of_opcode size_code_bits cascade_mirrors legacy_blank_def a decode_ea_kind)
  ultimately show ?thesis by simp
qed (auto simp: stage_addq_subq_def)

lemma kind_classes:
  assumes "m < 8" "r < 8"
  shows "is_data_ea m r \<Longrightarrow> ea_kind m r \<noteq> NG_M68K_EA_NONE"
    and "is_control_ea m r \<Longrightarrow> ea_kind m r \<noteq> NG_M68K_EA_NONE"
    and "is_memory_alterable_ea m r \<Longrightarrow> ea_kind m r \<noteq> NG_M68K_EA_NONE"
    and "is_movem_reg_to_mem_ea m r \<Longrightarrow> ea_kind m r \<noteq> NG_M68K_EA_NONE"
    and "is_movem_mem_to_reg_ea m r \<Longrightarrow> ea_kind m r \<noteq> NG_M68K_EA_NONE"
  by (rule operand_cases [OF assms]; use assms in \<open>simp add: operand_simps word_less_nat_alt word_le_nat_alt\<close>)+

lemma bit_kind:
  assumes "k < 4" "i_mnemonic i = bit_mnemonic k"
  shows "bit_op_kind i = Some k"
  using two_bit_cases [OF assms(1)] assms(2) by (auto simp: bit_op_kind_def bit_mnemonic_def)

lemma accepted_bit:
  assumes "i_mnemonic j = bit_mnemonic k" "k < 4" "i_byte_length j \<noteq> 0"
    and "dyn \<longleftrightarrow> ea_mode (i_src j) = NG_M68K_EA_DREG" "b = (if dyn then 2 else 4)"
    and "if dyn then validate_dynamic_bit_source j else validate_static_bit_source j"
    and "k = 0 \<Longrightarrow> exact_bit_data_ext_length (i_dst j) (i_size j) (i_addr j + ucast b) dyn = Some n"
    and "k \<noteq> 0 \<Longrightarrow> exact_data_alterable_ext_length (i_dst j) = Some n"
    and "i_size j = (if ea_mode (i_dst j) = NG_M68K_EA_DREG then 4 else 1)"
    and "validate_bit_opcode j dyn" "validate_bit_destination_legacy_fields j dyn" "i_byte_length j = b + n"
  shows "accepted j"
proof -
  have "k = 0 \<Longrightarrow> validate_btst j" using assms(3-) by (auto simp: validate_btst_def split: if_splits)
  moreover have "k \<noteq> 0 \<Longrightarrow> validate_altering_bit_op j"
    using assms(3-) by (auto simp: validate_altering_bit_op_def Let_def split: if_splits)
  ultimately show ?thesis
    using two_bit_cases [OF assms(2)] assms(1,3)
    by (elim disjE) (simp_all add: accepted_def ng_m68k_validate_def bit_mnemonic_def)
qed

lemma bit_dst_mode: 
  "(ea_kind (op_mode w) (op_reg w) = NG_M68K_EA_DREG) = (op_mode w = 0)"
  by (rule operand_cases [OF field_bounds(2,3) [of w]]) (simp_all add: kind_modes)

lemma valid_static_bit: "validated (stage_static_bit rom a w (start_instr a w))"
proof (cases "w AND 0xFF00 = 0x0800 \<and> ((op_size2 w = 0 \<and> is_data_ea (op_mode w) (op_reg w) \<and>
    \<not> (op_mode w = 7 \<and> op_reg w = 4)) \<or> (op_size2 w \<noteq> 0 \<and> is_data_alterable_ea (op_mode w) (op_reg w)))")
  case True
  define sz :: u8 where "sz = (if op_mode w = 0 then 4 else 1)"
  define j where "j = (start_instr a w)\<lparr>i_mnemonic := bit_mnemonic (op_size2 w), i_size := sz,
      i_immediate := ucast (ng_program_rom_read16 rom (a + 2)) AND 0xFF,
      i_dst := operand rom (a + 4) (op_mode w) (op_reg w) sz,
      i_byte_length := ucast (4 + ea_len (op_mode w) (op_reg w) sz)\<rparr>"
  have k: "ea_kind (op_mode w) (op_reg w) \<noteq> NG_M68K_EA_NONE"
    using True kind_classes(1) [of "op_mode w" "op_reg w"] data_alterable_operand(1) [of w] by auto
  have "stage_static_bit rom a w (start_instr a w) = Matched (dst_cascade (Some NG_M68K_FORM_DREG) j)"
    using True k unfolding j_def sz_def
    by (simp add: stage_static_bit_def with_operand_eq Let_def dst_mode_def decode_ea_kind size_consts)
  moreover have "accepted (dst_cascade (Some NG_M68K_FORM_DREG) j)"
  proof (rule accepted_bit [where dyn = False and b = 4 and k = "op_size2 w"
        and n = "ucast (ea_len (op_mode w) (op_reg w) sz)"])
    show "validate_bit_opcode (dst_cascade (Some NG_M68K_FORM_DREG) j) False"
      using opcode_forms(3) [of w "0x0800"] True k bit_kind [of "op_size2 w" "dst_cascade (Some NG_M68K_FORM_DREG) j"]
      by (simp add: validate_bit_opcode_def j_def field_of_opcode)
  qed (use True k data_alterable_operand(2) [of w] bit_data_len [of "op_mode w" "op_reg w" False sz] in
    \<open>simp_all add: j_def validate_static_bit_source_def byte_mask_le sz_def [symmetric] legacy_field_checks
        cascade_mirrors legacy_blank_def decode_ea_kind bit_dst_mode\<close>)
  ultimately show ?thesis by simp
qed (auto simp: stage_static_bit_def)


lemma valid_dynamic_bit: "validated (stage_dynamic_bit rom a w (start_instr a w))"
proof (cases "w AND 0xF100 = 0x0100 \<and> ((op_size2 w = 0 \<and> is_data_ea (op_mode w) (op_reg w)) \<or>
    (op_size2 w \<noteq> 0 \<and> is_data_alterable_ea (op_mode w) (op_reg w)))")
  case True
  define sz :: u8 where "sz = (if op_mode w = 0 then 4 else 1)"
  define j where "j = (start_instr a w)\<lparr>i_mnemonic := bit_mnemonic (op_size2 w), i_size := sz,
      i_src := ea_zero\<lparr>ea_mode := NG_M68K_EA_DREG, ea_reg := op_reg9 w\<rparr>, i_src_reg := op_reg9 w,
      i_dst := operand rom (a + 2) (op_mode w) (op_reg w) sz,
      i_byte_length := ucast (2 + ea_len (op_mode w) (op_reg w) sz)\<rparr>"
  have k: "ea_kind (op_mode w) (op_reg w) \<noteq> NG_M68K_EA_NONE"
    using True kind_classes(1) [of "op_mode w" "op_reg w"] data_alterable_operand(1) [of w] by auto
  have "stage_dynamic_bit rom a w (start_instr a w) = Matched (dst_cascade (Some NG_M68K_FORM_DREG_TO_DREG) j)"
    using True k unfolding j_def sz_def
    by (simp add: stage_dynamic_bit_def with_operand_eq Let_def dst_mode_def decode_ea_kind size_consts set_src_reg_def)
  moreover have "accepted (dst_cascade (Some NG_M68K_FORM_DREG_TO_DREG) j)"
  proof (rule accepted_bit [where dyn = True and b = 2 and k = "op_size2 w"
        and n = "ucast (ea_len (op_mode w) (op_reg w) sz)"])
    show "validate_bit_opcode (dst_cascade (Some NG_M68K_FORM_DREG_TO_DREG) j) True"
      using opcode_forms(6) [of w "0x0100"] True k
        bit_kind [of "op_size2 w" "dst_cascade (Some NG_M68K_FORM_DREG_TO_DREG) j"]
      by (simp add: validate_bit_opcode_def j_def field_of_opcode)
  qed (use True k data_alterable_operand(2) [of w] bit_data_len [of "op_mode w" "op_reg w" True sz] in
    \<open>simp_all add: j_def validate_dynamic_bit_source_def sz_def [symmetric] legacy_field_checks
        cascade_mirrors legacy_blank_def decode_ea_kind bit_dst_mode\<close>)
  ultimately show ?thesis by simp
qed (auto simp: stage_dynamic_bit_def)

lemma valid_move_from_sr: "validated (stage_move_from_sr rom a w (start_instr a w))"
  using opcode_forms(1) [of w "0x40C0"] data_alterable_operand [of w]
    move_destination_len [of "op_mode w" "op_reg w"]
  by (simp add: stage_move_from_sr_def stage_run ng_m68k_validate_def validate_move_sr_ccr_def)

lemma valid_move_to_sr_ccr: "validated (stage_move_to_sr_ccr rom a w (start_instr a w))"
proof (cases "(w AND 0xFFC0 = 0x44C0 \<or> w AND 0xFFC0 = 0x46C0) \<and> is_data_ea (op_mode w) (op_reg w)")
  case True
  have k: "ea_kind (op_mode w) (op_reg w) \<noteq> NG_M68K_EA_NONE"
    using True kind_classes(1) [of "op_mode w" "op_reg w"] by auto
  have l: "exact_data_source_ext_length ((start_instr a w)\<lparr>i_mnemonic := mn, i_size := 2,
      i_src := operand rom (a + 2) (op_mode w) (op_reg w) 2, i_byte_length := n\<rparr>) =
      Some (ucast (ea_len (op_mode w) (op_reg w) 2))" for mn n
    using True by (subst data_source_len [of "op_mode w" "op_reg w" _ rom]) (simp_all add: valid_size_def)
  show ?thesis
    using True k l opcode_forms(1) [of w "0x44C0"] opcode_forms(1) [of w "0x46C0"]
    by (elim conjE disjE) (simp_all add: stage_move_to_sr_ccr_def stage_run ng_m68k_validate_def validate_move_sr_ccr_def
      field_of_opcode)
qed (auto simp: stage_move_to_sr_ccr_def)

lemma valid_pea: "validated (stage_pea rom a w (start_instr a w))"
  using opcode_forms(1) [of w "0x4840"] kind_classes(2) [of "op_mode w" "op_reg w"] control_len [of "op_mode w" "op_reg w"]
  by (simp add: stage_pea_def stage_run ng_m68k_validate_def validate_pea_def exact_control_source_ext_length_def
      field_of_opcode)

lemma movem_opcode:
  assumes "w AND 0xFF80 = c"
  shows "w = c OR (if bit w 6 then 0x40 else 0) OR ucast (op_ea w)"
  unfolding assms [symmetric] op_parts [symmetric] by (rule word16_eqI; simp add: bit_simps)

lemma valid_movem_to_mem: "validated (stage_movem_to_mem rom a w (start_instr a w))"
proof (cases "w AND 0xFF80 = 0x4880 \<and> is_movem_reg_to_mem_ea (op_mode w) (op_reg w)")
  case True
  have k: "ea_kind (op_mode w) (op_reg w) \<noteq> NG_M68K_EA_NONE"
    using True kind_classes(4) [of "op_mode w" "op_reg w"] by auto
  show ?thesis
    using True k movem_opcode [of w "0x4880"] movem_reg_to_mem_len [of "op_mode w" "op_reg w"]
    by (cases "bit w 6") (simp_all add: stage_movem_to_mem_def movem_fields_def stage_run ng_m68k_validate_def
        validate_movem_def field_of_opcode op_bit6 valid_word_or_long_def byte_mask_le not_less)
qed (auto simp: stage_movem_to_mem_def)

lemma valid_movem_to_reg: "validated (stage_movem_to_reg rom a w (start_instr a w))"
proof (cases "w AND 0xFF80 = 0x4C80 \<and> is_movem_mem_to_reg_ea (op_mode w) (op_reg w)")
  case True
  have k: "ea_kind (op_mode w) (op_reg w) \<noteq> NG_M68K_EA_NONE"
    using True kind_classes(5) [of "op_mode w" "op_reg w"] by auto
  have l: "i_src i = operand rom (i_addr i + 4) (op_mode w) (op_reg w) sz \<Longrightarrow>
      movem_mem_to_reg_ext_length i = Some (ucast (ea_len (op_mode w) (op_reg w) sz))" for i sz
    using True by (simp add: movem_mem_to_reg_len)
  have e: "ea_is_empty (operand rom (a + 4) (op_mode w) (op_reg w) sz) \<longleftrightarrow> False" for sz
    using k by (simp add: ea_is_empty_def decode_ea_kind)
  show ?thesis
    using True k movem_opcode [of w "0x4C80"] e
    by (cases "bit w 6") (simp_all add: stage_movem_to_reg_def movem_fields_def stage_run ng_m68k_validate_def
        validate_movem_def field_of_opcode op_bit6 valid_word_or_long_def byte_mask_le not_less l)
qed (auto simp: stage_movem_to_reg_def)

end
