(* ===== verification/M68kValidateAlu.thy ===== *)
theory M68kValidateAlu
  imports M68kValidateOps
begin

text \<open>
  The same for the two-operand arithmetic, the shifts, \<open>TST\<close>, \<open>LEA\<close>, the jumps and \<open>MOVE\<close>.
\<close>

lemma source_lens:
  fixes w :: u16
  assumes "i_src i = operand rom (i_addr i + 2) (op_mode w) (op_reg w) (i_size i)" "valid_size (i_size i)"
  shows "is_data_ea (op_mode w) (op_reg w) \<Longrightarrow>
      exact_data_source_ext_length i = Some (ucast (ea_len (op_mode w) (op_reg w) (i_size i)))"
    and "ea_kind (op_mode w) (op_reg w) \<noteq> NG_M68K_EA_NONE \<Longrightarrow> op_mode w \<noteq> 1 \<or> i_size i \<noteq> 1 \<Longrightarrow>
      move_source_ext_length i = Some (ucast (ea_len (op_mode w) (op_reg w) (i_size i)))"
    and "is_data_ea (op_mode w) (op_reg w) \<or> op_mode w = 1 \<and> i_size i \<noteq> 1 \<Longrightarrow>
      exact_addsubcmp_source_ext_length i = Some (ucast (ea_len (op_mode w) (op_reg w) (i_size i)))"
  using data_source_len [OF field_bounds(2,3) _ _ assms] move_source_len [OF field_bounds(2,3) _ _ assms]
    addsubcmp_source_len [OF field_bounds(2,3) _ assms] by auto

lemma data_of_kind:
  "ea_kind (op_mode w) (op_reg w) \<noteq> NG_M68K_EA_NONE \<Longrightarrow> op_mode w \<noteq> 1 \<Longrightarrow> is_data_ea (op_mode w) (op_reg w)"
  by (rule operand_cases [OF field_bounds(2,3) [of w]]; simp add: operand_simps word_less_nat_alt)

lemma accepted_word_data:
  assumes "word_data_base_opcode (i_mnemonic j) = Some c" "i_size j = 2" "i_byte_length j \<noteq> 0"
    and "i_src j = operand rom (i_addr j + 2) (op_mode w) (op_reg w) 2"
    and "op_mode w \<noteq> 1" "ea_kind (op_mode w) (op_reg w) \<noteq> NG_M68K_EA_NONE"
    and "i_dst j = ea_zero\<lparr>ea_mode := NG_M68K_EA_DREG, ea_reg := op_reg9 w\<rparr>" "i_reg j = op_reg9 w"
    and "i_byte_length j = 2 + ucast (ea_len (op_mode w) (op_reg w) 2)"
    and "i_immediate j = 0" "i_src_reg j = 0" "i_condition j = 0" "i_form j = NG_M68K_FORM_NONE" "i_target j = 0"
    and "i_absolute_addr j = 0" "i_displacement j = 0"
    and "i_opcode j = c OR push_bit 9 (ucast (op_reg9 w)) OR ucast (op_ea w)"
  shows "accepted j"
proof -
  have "validate_word_data_to_dreg j"
    using assms source_lens(1) [of j rom w] data_of_kind [of w] field_of_opcode [of w]
    by (simp add: validate_word_data_to_dreg_def valid_size_def)
  moreover have "i_mnemonic j = NG_M68K_CHK \<or> i_mnemonic j = NG_M68K_MULU \<or> i_mnemonic j = NG_M68K_MULS \<or>
      i_mnemonic j = NG_M68K_DIVU \<or> i_mnemonic j = NG_M68K_DIVS"
    using assms(1) by (auto simp: word_data_base_opcode_def split: if_splits)
  ultimately show ?thesis using assms(3) by (elim disjE) (simp_all add: accepted_def ng_m68k_validate_def)
qed

lemma valid_chk: "validated (stage_chk rom a w (start_instr a w))"
proof (cases "w AND 0xF1C0 = 0x4180 \<and> op_mode w \<noteq> 1")
  case True
  then show ?thesis
    using opcode_forms(4) [of w "0x4180"]
    by (auto simp: stage_chk_def with_operand_eq Let_def src_mode_def decode_ea_kind set_dst_reg_def size_consts
      word_data_base_opcode_def intro!: accepted_word_data [where c = "0x4180" and w = w and rom = rom])
qed (auto simp: stage_chk_def)

lemma opcode_top_opmode:
  assumes "push_bit 12 (ucast (op_top w)) OR push_bit 6 (ucast (op_opmode w)) = (c :: u16)"
  shows "w = c OR push_bit 9 (ucast (op_reg9 w)) OR ucast (op_ea w)"
proof -
  have "w = ((w AND 0xF000) OR (w AND 0x1C0)) OR (w AND 0xE00) OR (w AND 0x3F)"
    by (rule word16_eqI; simp add: bit_simps)
  then show ?thesis unfolding op_parts(1,5,6,7) assms .
qed

lemma accepted_word_to_dreg:
  assumes "word_data_base_opcode mn = Some c" "op_mode w \<noteq> 1"
    and "push_bit 12 (ucast (op_top w)) OR push_bit 6 (ucast (op_opmode w)) = (c :: u16)"
  shows "accepted (decode_word_to_dreg mn rom a w (start_instr a w))"
  using assms(1,2) opcode_top_opmode [OF assms(3)]
  by (auto simp: decode_word_to_dreg_def with_operand_eq Let_def src_mode_def decode_ea_kind set_dst_reg_def size_consts
      intro!: accepted_word_data [where c = c and w = w and rom = rom])

lemma valid_multiply_divide:
  "validated (of_helper (decode_multiply rom a w) (start_instr a w))"
  "validated (of_helper (decode_divide rom a w) (start_instr a w))"
  by (auto simp: of_helper_def decode_multiply_def decode_divide_def Let_def
      word_data_base_opcode_def intro!: accepted_word_to_dreg)

lemma accepted_address_reg:
  assumes "address_base_opcode (i_mnemonic j) = Some c" "valid_word_or_long (i_size j)" "i_byte_length j \<noteq> 0"
    and "i_src j = operand rom (i_addr j + 2) (op_mode w) (op_reg w) (i_size j)"
    and "ea_kind (op_mode w) (op_reg w) \<noteq> NG_M68K_EA_NONE"
    and "i_dst j = ea_zero\<lparr>ea_mode := NG_M68K_EA_AREG, ea_reg := op_reg9 w\<rparr>" "i_reg j = op_reg9 w"
    and "i_byte_length j = 2 + ucast (ea_len (op_mode w) (op_reg w) (i_size j))"
    and "i_immediate j = 0" "i_src_reg j = 0" "i_condition j = 0" "i_form j = NG_M68K_FORM_NONE" "i_target j = 0"
    and "i_absolute_addr j = 0" "i_displacement j = 0"
    and "i_opcode j = c OR push_bit 9 (ucast (op_reg9 w)) OR (if i_size j = 2 then 0xC0 else 0x1C0) OR ucast (op_ea w)"
  shows "accepted j"
proof -
  have m: "i_mnemonic j = NG_M68K_ADDA \<or> i_mnemonic j = NG_M68K_SUBA \<or> i_mnemonic j = NG_M68K_CMPA"
    using assms(1) by (auto simp: address_base_opcode_def split: if_splits)
  have "valid_size (i_size j)" "i_size j \<noteq> 1" using assms(2) by (auto simp: valid_word_or_long_def valid_size_def)
  then have "validate_address_reg_op j"
    using assms m source_lens(2) [of j rom w] field_of_opcode [of w]
    by (auto simp: validate_address_reg_op_def validate_address_reg_op_legacy_fields_def)
  then show ?thesis using assms(3) m by (elim disjE) (simp_all add: accepted_def ng_m68k_validate_def)
qed

lemma valid_alu_address_reg: "validated (of_helper (decode_alu_address_reg rom a w) (start_instr a w))"
proof (cases "(op_top w = 0xD \<or> op_top w = 0x9 \<or> op_top w = 0xB) \<and> (op_opmode w = 3 \<or> op_opmode w = 7)")
  case True
  define c :: u16 where "c = push_bit 12 (ucast (op_top w))"
  have e: "w = c OR push_bit 9 (ucast (op_reg9 w)) OR push_bit 6 (ucast (op_opmode w)) OR ucast (op_ea w)"
    unfolding c_def by (rule opcode_forms(7))
  have c: "address_base_opcode (if op_top w = 0xD then NG_M68K_ADDA
      else if op_top w = 0x9 then NG_M68K_SUBA else NG_M68K_CMPA) = Some c"
    using True by (auto simp: c_def address_base_opcode_def)
  have s: "push_bit 6 (ucast (op_opmode w)) = (if op_opmode w = 7 then 0x1C0 else 0xC0 :: u16)"
    using True by auto
  show ?thesis
    using True e c
    by (auto simp: of_helper_def decode_alu_address_reg_def with_operand_eq Let_def src_mode_def decode_ea_kind
        set_dst_reg_def size_consts valid_word_or_long_def
        intro!: accepted_address_reg [where c = c and w = w and rom = rom])
qed (auto simp: of_helper_def decode_alu_address_reg_def Let_def)

lemma op_size_of_opmode:
  "op_opmode w AND 3 = op_size2 w" 
  by (simp add: op_opmode_def op_size2_def unsigned_and_eq and.assoc)

lemma opmode_cases:
  "op_opmode w \<le> 2 \<Longrightarrow> push_bit 6 (ucast (op_opmode w)) = (push_bit 6 (ucast (op_opmode w AND 3)) :: u16)"
  "4 \<le> op_opmode w \<Longrightarrow>  push_bit 6 (ucast (op_opmode w)) = (0x100 OR push_bit 6 (ucast (op_opmode w AND 3)) :: u16)"
  using eight_cases [of "op_opmode w"] by (auto simp: word_le_nat_alt)


lemma accepted_ea_to_dreg:
  assumes "binary_base_opcode (i_mnemonic j) = Some c" "size_bits (i_size j) = Some sb" "valid_size (i_size j)"
    and "i_src j = operand rom (i_addr j + 2) (op_mode w) (op_reg w) (i_size j)"
    and "is_data_ea (op_mode w) (op_reg w) \<or>
      i_mnemonic j \<noteq> NG_M68K_OR \<and> i_mnemonic j \<noteq> NG_M68K_AND \<and> op_mode w = 1 \<and> i_size j \<noteq> 1"
    and "ea_kind (op_mode w) (op_reg w) \<noteq> NG_M68K_EA_NONE"
    and "i_dst j = ea_zero\<lparr>ea_mode := NG_M68K_EA_DREG, ea_reg := op_reg9 w\<rparr>" "i_reg j = op_reg9 w"
    and "i_src_reg j = op_reg w" "i_byte_length j \<noteq> 0"
    and "i_byte_length j = 2 + ucast (ea_len (op_mode w) (op_reg w) (i_size j))"
    and "i_immediate j = 0" "i_condition j = 0" "i_target j = 0" "i_absolute_addr j = 0" "i_displacement j = 0"
    and "i_form j = (if i_mnemonic j = NG_M68K_OR \<or> i_mnemonic j = NG_M68K_AND then NG_M68K_FORM_NONE
                     else NG_M68K_FORM_DREG_TO_DREG)"
    and "i_opcode j = c OR push_bit 9 (ucast (op_reg9 w)) OR sb OR ucast (op_ea w)"
  shows "accepted j"
proof -
  have m: "i_mnemonic j = NG_M68K_OR \<or> i_mnemonic j = NG_M68K_AND \<or> i_mnemonic j = NG_M68K_SUB \<or>
      i_mnemonic j = NG_M68K_CMP \<or> i_mnemonic j = NG_M68K_ADD"
    using assms(1) by (auto simp: binary_base_opcode_def split: if_splits)
  have "ea_reg (i_src j) = op_reg w"
    unfolding assms(4) by (simp add: decode_ea_def Let_def decode_index_ext_def ea_zero_def)
  then have v: "validate_ea_to_dreg_binary j b" if "b \<or> i_mnemonic j = NG_M68K_OR \<or> i_mnemonic j = NG_M68K_AND" for b
    using assms m that source_lens(1) [of j rom w] source_lens(3) [of j rom w] field_of_opcode [of w]
    by (cases b) (auto simp: validate_ea_to_dreg_binary_def)
  show ?thesis using m assms(7,10) v [of True] v [of False]
    by (elim disjE) (simp_all add: accepted_def ng_m68k_validate_def validate_add_sub_or_and_def)
qed

lemma accepted_dreg_to_memory:
  assumes "binary_base_opcode (i_mnemonic j) = Some c \<and> i_mnemonic j \<noteq> NG_M68K_CMP \<and>
        is_memory_alterable_ea (op_mode w) (op_reg w) \<or>
      i_mnemonic j = NG_M68K_EOR \<and> c = 0xB000 \<and> is_data_alterable_ea (op_mode w) (op_reg w)"
    and "size_bits (i_size j) = Some sb" "valid_size (i_size j)"
    and "i_dst j = operand rom (i_addr j + 2) (op_mode w) (op_reg w) (i_size j)"
    and "i_src j = ea_zero\<lparr>ea_mode := NG_M68K_EA_DREG, ea_reg := op_reg9 w\<rparr>" "i_src_reg j = op_reg9 w"
    and "mirrors_dst NG_M68K_FORM_DREG_TO_DREG j" "i_byte_length j \<noteq> 0"
    and "i_byte_length j = 2 + ucast (ea_len (op_mode w) (op_reg w) (i_size j))"
    and "i_immediate j = 0" "i_condition j = 0" "i_target j = 0"
    and "i_opcode j = c OR push_bit 9 (ucast (op_reg9 w)) OR 0x0100 OR sb OR ucast (op_ea w)"
  shows "accepted j"
  using assms(1)
proof
  assume c: "i_mnemonic j = NG_M68K_EOR \<and> c = 0xB000 \<and> is_data_alterable_ea (op_mode w) (op_reg w)"
  have "ea_simple_register_payload (i_dst j)" if "ea_kind (op_mode w) (op_reg w) = NG_M68K_EA_DREG"
    using that bit_dst_mode [of w] assms(4) by simp
  then have "validate_dreg_to_data_alterable_binary j"
    using assms c data_alterable_operand [of w]
    by (simp add: validate_dreg_to_data_alterable_binary_def legacy_field_checks decode_ea_kind)
  then show ?thesis using c assms(8) by (simp add: accepted_def ng_m68k_validate_def)
next
  assume c: "binary_base_opcode (i_mnemonic j) = Some c \<and> i_mnemonic j \<noteq> NG_M68K_CMP \<and>
        is_memory_alterable_ea (op_mode w) (op_reg w)"
  then have m: "i_mnemonic j = NG_M68K_OR \<or> i_mnemonic j = NG_M68K_AND \<or> i_mnemonic j = NG_M68K_SUB \<or>
      i_mnemonic j = NG_M68K_ADD"
    by (auto simp: binary_base_opcode_def split: if_splits)
  have d: "ea_kind (op_mode w) (op_reg w) \<noteq> NG_M68K_EA_DREG"
    using c bit_dst_mode [of w] by (auto simp: is_memory_alterable_ea_def word_le_nat_alt)
  have "validate_dreg_to_memory_binary j"
    using assms c d memory_alterable_len [of "op_mode w" "op_reg w"] kind_classes(3) [of "op_mode w" "op_reg w"]
    by (simp add: validate_dreg_to_memory_binary_def legacy_field_checks decode_ea_kind field_of_opcode)
  then show ?thesis using m d assms(4,8)
    by (elim disjE) (simp_all add: accepted_def ng_m68k_validate_def validate_add_sub_or_and_def decode_ea_kind)
qed

text \<open>Opcode words of the two binary directions.\<close>

lemma binary_opcodes:
  assumes "push_bit 12 (ucast (op_top w)) = (c :: u16)"
  shows "op_opmode w \<le> 2 \<Longrightarrow>
      w = c OR push_bit 9 (ucast (op_reg9 w)) OR push_bit 6 (ucast (op_size2 w)) OR ucast (op_ea w)"
    and "4 \<le> op_opmode w \<Longrightarrow>
      w = c OR push_bit 9 (ucast (op_reg9 w)) OR 0x0100 OR push_bit 6 (ucast (op_size2 w)) OR ucast (op_ea w)"
  using opcode_forms(7) [of w] opmode_cases [of w] assms by (simp_all add: op_size_of_opmode or.assoc)

lemma valid_logic_to_dreg:
  assumes "op_top w = 0x8 \<and> mn = NG_M68K_OR \<or> op_top w = 0xC \<and> mn = NG_M68K_AND"
    and "op_opmode w \<le> 2" "op_size2 w \<noteq> 3" "is_data_ea (op_mode w) (op_reg w)"
  shows "accepted ((set_dst_reg NG_M68K_EA_DREG (op_reg9 w)
      (with_src rom a 2 (op_mode w) (op_reg w) ((start_instr a w)\<lparr>i_mnemonic := mn,
         i_size := size_from_opcode_bits (op_size2 w)\<rparr>)))\<lparr>i_reg := op_reg9 w, i_src_reg := op_reg w\<rparr>)"
  using assms binary_opcodes(1) [of w _] size_code_bits(1) [of w] kind_classes(1) [of "op_mode w" "op_reg w"]
  by (intro accepted_ea_to_dreg [where c = "push_bit 12 (ucast (op_top w))" and w = w and rom = rom
        and sb = "push_bit 6 (ucast (op_size2 w))"])
    (auto simp: with_operand_eq set_dst_reg_def size_code_bits binary_base_opcode_def)

lemma valid_dreg_to_ea:
  assumes "binary_base_opcode mn = Some c \<and> mn \<noteq> NG_M68K_CMP \<and> is_memory_alterable_ea (op_mode w) (op_reg w) \<or>
      mn = NG_M68K_EOR \<and> c = 0xB000 \<and> is_data_alterable_ea (op_mode w) (op_reg w)"
    and "push_bit 12 (ucast (op_top w)) = c" "4 \<le> op_opmode w" "op_size2 w \<noteq> 3"
    and "f = Some NG_M68K_FORM_DREG_TO_DREG \<or> f = None \<and> is_memory_alterable_ea (op_mode w) (op_reg w)"
  shows "accepted (dst_cascade f (with_dst rom a 2 (op_mode w) (op_reg w)
      ((set_src_reg NG_M68K_EA_DREG (op_reg9 w) ((start_instr a w)\<lparr>i_mnemonic := mn,
         i_size := size_from_opcode_bits (op_size2 w)\<rparr>))\<lparr>i_src_reg := op_reg9 w\<rparr>)))"
    (is "accepted (dst_cascade f ?j)")
proof (rule accepted_dreg_to_memory [where c = c and w = w and rom = rom and sb = "push_bit 6 (ucast (op_size2 w))"])
  have d: "ea_kind (op_mode w) (op_reg w) \<noteq> NG_M68K_EA_DREG" if "is_memory_alterable_ea (op_mode w) (op_reg w)"
    using that bit_dst_mode [of w] by (auto simp: is_memory_alterable_ea_def word_le_nat_alt)
  show "mirrors_dst NG_M68K_FORM_DREG_TO_DREG (dst_cascade f ?j)"
    using assms(5) d
    by (auto intro!: cascade_mirrors simp: legacy_blank_def with_operand_eq set_src_reg_def decode_ea_kind)
qed (use assms binary_opcodes(2) [OF assms(2,3)] size_code_bits(1) [of w] in
  \<open>simp_all add: with_operand_eq set_src_reg_def size_code_bits\<close>)

lemma memory_kind:
  "is_memory_alterable_ea (op_mode w) (op_reg w) \<Longrightarrow> ea_kind (op_mode w) (op_reg w) \<noteq> NG_M68K_EA_NONE"
  using kind_classes(3) [of "op_mode w" "op_reg w"] by simp

lemma valid_addsub_dreg_to_ea: "validated (of_helper (decode_addsub_dreg_to_ea rom a w) (start_instr a w))"
proof -
  have "op_size2 w \<noteq> 3" if "4 \<le> op_opmode w" "op_opmode w \<le> 6"
    using that eight_cases [of "op_opmode w"] op_size_of_opmode [of w] by (auto simp: word_le_nat_alt)
  then show ?thesis
    using memory_kind [of w] valid_dreg_to_ea [of _ _ w None rom a]
    by (auto simp: of_helper_def decode_addsub_dreg_to_ea_def Let_def dst_mode_def decode_ea_kind
        op_size_of_opmode binary_base_opcode_def not_less)
qed

lemma valid_logic_binary: "validated (of_helper (decode_logic_binary rom a w) (start_instr a w))"
proof (cases "op_size2 w \<noteq> 3 \<and> (op_top w = 0x8 \<or> op_top w = 0xC \<or> op_top w = 0xB)")
  case True
  then show ?thesis
    using memory_kind [of w] kind_classes(1) [of "op_mode w" "op_reg w"] data_alterable_operand(1) [of w]
      valid_logic_to_dreg [of w _ rom a]
      valid_dreg_to_ea [of _ _ w "Some NG_M68K_FORM_DREG_TO_DREG" rom a]
    by (auto simp: of_helper_def decode_logic_binary_def Let_def dst_mode_def src_mode_def decode_ea_kind
        op_size_of_opmode binary_base_opcode_def)
qed (auto simp: of_helper_def decode_logic_binary_def Let_def op_size_of_opmode)

lemma op_dir: "ucast (drop_bit 8 w AND 1) = (0 :: u8) \<longleftrightarrow> op_opmode w \<le> 3" "ucast (drop_bit 8 w AND 1) = (if bit w 8 then 1 else 0 :: u8)" for w :: u16
proof -
  show d: "ucast (drop_bit 8 w AND 1) = (if bit w 8 then 1 else 0 :: u8)"
    by (simp add: and_one_eq bit_iff_odd_drop_bit of_bool_def mod2_eq_if)
  have "bit (w AND 0x1C0) 8 = bit (push_bit 6 (ucast (op_opmode w)) :: u16) 8" by (simp only: op_parts)
  then have "bit w 8 = bit (op_opmode w) 2" by (simp add: bit_simps)
  with d show "ucast (drop_bit 8 w AND 1) = (0 :: u8) \<longleftrightarrow> op_opmode w \<le> 3"
    using eight_cases [of "op_opmode w"] by (auto simp: word_le_nat_alt)
qed

lemma valid_alu_ea_to_dreg: "validated (of_helper (decode_alu_ea_to_dreg rom a w) (start_instr a w))"
proof (cases "(op_top w = 0xD \<or> op_top w = 0x9 \<or> op_top w = 0xB) \<and> op_size2 w \<noteq> 3 \<and> op_opmode w \<le> 3 \<and>
    (is_data_ea (op_mode w) (op_reg w) \<or> op_mode w = 1 \<and> op_size2 w \<noteq> 0)")
  case True
  have o: "op_opmode w \<le> 2"
    using True eight_cases [of "op_opmode w"] op_size_of_opmode [of w] by (auto simp: word_le_nat_alt)
  have k: "ea_kind (op_mode w) (op_reg w) \<noteq> NG_M68K_EA_NONE"
    using True kind_classes(1) [of "op_mode w" "op_reg w"] by (auto simp: kind_modes)
  define mn where "mn = (if op_top w = 0xD then NG_M68K_ADD else if op_top w = 0x9 then NG_M68K_SUB else NG_M68K_CMP)"
  have m: "binary_base_opcode mn = Some (push_bit 12 (ucast (op_top w)))" "mn \<noteq> NG_M68K_OR" "mn \<noteq> NG_M68K_AND"
    using True by (auto simp: mn_def binary_base_opcode_def)
  have s: "size_from_opcode_bits (op_size2 w) \<noteq> 1" if "op_size2 w \<noteq> 0"
    using that True two_bit_cases [of "op_size2 w"] by (auto simp: size_from_opcode_bits_def size_consts)
  define j where "j = (start_instr a w)\<lparr>i_mnemonic := mn, i_size := size_from_opcode_bits (op_size2 w),
      i_src := operand rom (a + 2) (op_mode w) (op_reg w) (size_from_opcode_bits (op_size2 w)),
      i_byte_length := ucast (2 + ea_len (op_mode w) (op_reg w) (size_from_opcode_bits (op_size2 w))),
      i_dst := ea_zero\<lparr>ea_mode := NG_M68K_EA_DREG, ea_reg := op_reg9 w\<rparr>,
      i_form := NG_M68K_FORM_DREG_TO_DREG, i_src_reg := op_reg w, i_reg := op_reg9 w\<rparr>"
  have "decode_alu_ea_to_dreg rom a w (start_instr a w) = Some j"
    using True k op_dir(1) [of w] unfolding j_def mn_def
    by (auto simp: decode_alu_ea_to_dreg_def Let_def src_mode_def decode_ea_kind with_operand_eq set_dst_reg_def)
  moreover have "accepted j"
    using True k o m s binary_opcodes(1) [of w, OF refl o] size_code_bits(1) [of w]
    by (intro accepted_ea_to_dreg [where c = "push_bit 12 (ucast (op_top w))" and w = w and rom = rom
        and sb = "push_bit 6 (ucast (op_size2 w))"])
      (auto simp: j_def size_code_bits)
  ultimately show ?thesis by (simp add: of_helper_def)
next
  case False
  then show ?thesis using op_dir(1) [of w] by (auto simp: of_helper_def decode_alu_ea_to_dreg_def Let_def)
qed

lemma shift_kind_mnemonic:
  assumes "k < 4"
  shows "shift_kind (shift_mnemonic (if l then 1 else 0) k) = Some (k, if l then 1 else 0)"
  using two_bit_cases [OF assms] by (auto simp: shift_kind_def shift_mnemonic_def)

lemma accepted_shift:
  assumes "shift_kind (i_mnemonic j) = Some (k, d)" "validate_shift_rotate j" "i_byte_length j \<noteq> 0"
  shows "accepted j"
proof -
  have "i_mnemonic j = NG_M68K_ASR \<or> i_mnemonic j = NG_M68K_ASL \<or> i_mnemonic j = NG_M68K_LSR \<or> i_mnemonic j = NG_M68K_LSL
    \<or> i_mnemonic j = NG_M68K_ROXR \<or> i_mnemonic j = NG_M68K_ROXL \<or> i_mnemonic j = NG_M68K_ROR \<or> i_mnemonic j = NG_M68K_ROL"
    using assms(1) by (auto simp: shift_kind_def split: if_splits)
  then show ?thesis using assms(2,3) by (elim disjE) (simp_all add: accepted_def ng_m68k_validate_def)
qed

lemma shift_memory:
  assumes "w AND 0xF000 = 0xE000" "op_size2 w = 3" "w AND 0x0800 = 0" "is_memory_alterable_ea (op_mode w) (op_reg w)"
    and "l = bit w 8" "k = ucast (drop_bit 9 w AND 3)"
  shows "accepted ((start_instr a w)\<lparr>i_mnemonic := shift_mnemonic (if l then 1 else 0) k, i_size := 2, i_immediate := 1,
      i_dst := operand rom (a + 2) (op_mode w) (op_reg w) 2, i_byte_length := ucast (2 + ea_len (op_mode w) (op_reg w) 2)\<rparr>)"
    (is "accepted ?j")
proof -
  have k: "shift_kind (i_mnemonic ?j) = Some (k, if l then 1 else 0)"
    using shift_kind_mnemonic [of k l] by (simp add: assms(6))
  have "w = (w AND 0xF000) OR (w AND 0x800) OR (w AND 0x600) OR (if l then 0x100 else 0) OR (w AND 0xC0) OR (w AND 0x3F)"
    unfolding assms(5) by (rule word16_eqI; simp add: bit_simps)
  moreover have "w AND 0x600 = push_bit 9 (ucast k)"
    unfolding assms(6) by (rule word16_eqI; simp add: bit_simps)
  moreover have "w AND 0xC0 = 0xC0" unfolding op_parts assms(2) by simp
  ultimately have "w = 0xE000 OR push_bit 9 (ucast k) OR (if l then 0x100 else 0) OR 0xC0 OR ucast (op_ea w)"
    unfolding assms(1,3) op_parts(1) by simp
  moreover have "\<dots> = 0xE0C0 OR push_bit 9 (ucast k) OR push_bit 8 (ucast (if l then 1 else 0 :: u8)) OR ucast (op_ea w)"
    by (rule word16_eqI; simp add: bit_simps)
  ultimately have e: "w = 0xE0C0 OR push_bit 9 (ucast k) OR push_bit 8 (ucast (if l then 1 else 0 :: u8)) OR ucast (op_ea w)"
    by metis
  have d: "ea_kind (op_mode w) (op_reg w) \<noteq> NG_M68K_EA_DREG"
    using assms(4) bit_dst_mode [of w] by (auto simp: is_memory_alterable_ea_def word_le_nat_alt)
  show ?thesis
  proof (rule accepted_shift [OF k])
    show "validate_shift_rotate ?j"
      using k e d assms(4) memory_kind [of w] memory_alterable_len [of "op_mode w" "op_reg w"]
      by (simp add: validate_shift_rotate_def decode_ea_kind field_of_opcode)
  qed simp
qed

lemma shift_register_opcode:
  fixes w :: u16
  assumes "w AND 0xF000 = 0xE000" "k = ucast (drop_bit 3 w AND 3)"
  shows "w = 0xE000 OR push_bit 9 (ucast (op_reg9 w)) OR push_bit 8 (ucast (if bit w 8 then 1 else 0 :: u8)) OR
      push_bit 6 (ucast (op_size2 w)) OR (if bit w 5 then 0x20 else 0) OR push_bit 3 (ucast (k :: u8)) OR ucast (op_reg w)"
proof -
  have k: "w AND 0x18 = push_bit 3 (ucast k)"
    unfolding assms(2) by (rule word16_eqI; simp add: bit_simps)
  have "w = (w AND 0xF000) OR (w AND 0xE00) OR push_bit 8 (ucast (if bit w 8 then 1 else 0 :: u8)) OR
      (w AND 0xC0) OR (if bit w 5 then 0x20 else 0) OR (w AND 0x18) OR (w AND 7)"
    by (rule word16_eqI; simp add: bit_simps)
  then show ?thesis unfolding assms(1) k op_parts(2,4,6) .
qed

lemma size_codes:
  assumes "op_size2 w \<noteq> 3"
  shows "(if size_from_opcode_bits (op_size2 w) = 1 then 0 else if size_from_opcode_bits (op_size2 w) = 2 then 1 else 2) = op_size2 w"
  using two_bit_cases [of "op_size2 w"] assms by (auto simp: size_from_opcode_bits_def size_consts)

lemma shift_register:
  fixes a :: u32
  assumes "w AND 0xF000 = 0xE000" "op_size2 w \<noteq> 3" "k = ucast (drop_bit 3 w AND 3)"
  defines "j \<equiv> (start_instr a w)\<lparr>i_mnemonic := shift_mnemonic (if bit w 8 then 1 else 0) k,
      i_size := size_from_opcode_bits (op_size2 w), i_byte_length := 2,
      i_dst := ea_zero\<lparr>ea_mode := NG_M68K_EA_DREG, ea_reg := op_reg w\<rparr>, i_reg := op_reg w\<rparr>"
  shows "bit w 5 \<Longrightarrow> accepted (j\<lparr>i_src := ea_zero\<lparr>ea_mode := NG_M68K_EA_DREG, ea_reg := op_reg9 w\<rparr>, i_src_reg := op_reg9 w\<rparr>)"
    and "\<not> bit w 5 \<Longrightarrow> accepted (j\<lparr>i_immediate := (if op_reg9 w = 0 then 8 else ucast (op_reg9 w))\<rparr>)"
proof -
  have k: "shift_kind (shift_mnemonic (if bit w 8 then 1 else 0) k) = Some (k, if bit w 8 then 1 else 0)"
    using shift_kind_mnemonic [of k "bit w 8"] by (simp add: assms(3))
  note e = shift_register_opcode [OF assms(1,3)] and s = size_codes [OF assms(2)]
  define q :: u32 where "q = (if op_reg9 w = 0 then 8 else ucast (op_reg9 w))"
  have q: "\<not> q < 1" "\<not> 8 < q" "(if q = 8 then 0 else ucast q) = op_reg9 w"
    using eight_cases [of "op_reg9 w"] by (auto simp: q_def)
  show "accepted (j\<lparr>i_src := ea_zero\<lparr>ea_mode := NG_M68K_EA_DREG, ea_reg := op_reg9 w\<rparr>, i_src_reg := op_reg9 w\<rparr>)"
    if "bit w 5"
  proof (rule accepted_shift)
    show "validate_shift_rotate (j\<lparr>i_src := ea_zero\<lparr>ea_mode := NG_M68K_EA_DREG, ea_reg := op_reg9 w\<rparr>, i_src_reg := op_reg9 w\<rparr>)"
      unfolding validate_shift_rotate_def j_def using e s that
      by (simp add: k size_code_bits Let_def cong: if_cong split del: if_split)
  qed (use k in \<open>simp_all add: j_def\<close>)
  show "accepted (j\<lparr>i_immediate := (if op_reg9 w = 0 then 8 else ucast (op_reg9 w))\<rparr>)" if "\<not> bit w 5"
    unfolding q_def [symmetric]
  proof (rule accepted_shift)
    show "validate_shift_rotate (j\<lparr>i_immediate := q\<rparr>)"
      unfolding validate_shift_rotate_def j_def using e s that q
      by (simp add: k size_code_bits Let_def cong: if_cong split del: if_split)
  qed (use k in \<open>simp_all add: j_def\<close>)
qed


lemma count_bit: "ucast (drop_bit 5 w AND 1) = (0 :: u8) \<longleftrightarrow> \<not> bit w 5" for w :: u16
  by (simp add: and_one_eq bit_iff_odd_drop_bit of_bool_def mod2_eq_if)

lemma valid_shift_rotate: "validated (of_helper (decode_shift_rotate rom a w) (start_instr a w))"
proof (cases "w AND 0xF000 = 0xE000")
  case True
  note r = shift_register [OF True _ refl, of a] and m = shift_memory [OF True _ _ _ refl refl, of rom a]
  show ?thesis
  proof (cases "op_size2 w = 3")
    case t: True
    show ?thesis
    proof (cases "w AND 0x0800 = 0 \<and> is_memory_alterable_ea (op_mode w) (op_reg w)")
      case c: True
      then have "accepted ((start_instr a w)\<lparr>i_mnemonic := shift_mnemonic (if bit w 8 then 1 else 0)
          (ucast (drop_bit 9 w AND 3)), i_size := 2, i_immediate := 1,
          i_dst := operand rom (a + 2) (op_mode w) (op_reg w) 2,
          i_byte_length := ucast (2 + ea_len (op_mode w) (op_reg w) 2)\<rparr>)" using t m by simp
      with True t c memory_kind [of w] show ?thesis
        by (simp add: of_helper_def decode_shift_rotate_def Let_def op_dir(2) with_operand_eq dst_mode_def decode_ea_kind
          size_consts cong: if_cong split del: if_split)
    qed (auto simp: True t of_helper_def decode_shift_rotate_def)
  next
    case False
    then show ?thesis
      using True r
      by (cases "bit w 5") (simp_all add: of_helper_def decode_shift_rotate_def Let_def op_dir(2) set_dst_reg_def set_src_reg_def
          count_bit split del: if_split)
  qed
qed (simp add: of_helper_def decode_shift_rotate_def)

lemma valid_tst: "validated (stage_tst rom a w (start_instr a w))"
proof (cases "w AND 0xFF00 = 0x4A00 \<and> op_size2 w \<noteq> 3 \<and> is_data_alterable_ea (op_mode w) (op_reg w)")
  case True
  define sz where "sz = size_from_opcode_bits (op_size2 w)"
  define ea where "ea = operand rom (a + 2) (op_mode w) (op_reg w) sz"
  have k: "ea_kind (op_mode w) (op_reg w) \<noteq> NG_M68K_EA_NONE" using True data_alterable_operand(1) [of w] by simp
  have d: "ea_is_data_alterable ea"
    unfolding ea_def by (rule operand_cases [OF field_bounds(2,3) [of w]];
        use True in \<open>simp add: operand_simps ea_is_data_alterable_def ea_is_memory_alterable_def\<close>)
  have dd: "is_data_ea (op_mode w) (op_reg w)"
    by (rule data_of_kind [OF k]) (use True in \<open>simp add: is_data_alterable_ea_def\<close>)
  have l: "exact_data_source_ext_length j = Some (ucast (ea_len (op_mode w) (op_reg w) sz))"
    if "i_src j = ea" "i_size j = sz" "i_addr j = a" for j
    using source_lens(1) [of j rom w] that dd size_code_bits(2) by (simp add: ea_def sz_def)
  have m: "ea_mode ea \<noteq> NG_M68K_EA_NONE" using k by (simp add: ea_def decode_ea_kind)
  have f: "ea_opcode_field ea = Some (op_ea w)" using field_of_opcode [OF k] by (simp add: ea_def)
  show ?thesis
    using True opcode_forms(3) [of w "0x4A00"] m d f l size_code_bits(1) [of w]
    unfolding is_data_alterable_ea_def
    by (cases "ea_mode ea")
      (simp_all add: stage_tst_def with_operand_eq Let_def src_mode_def is_abs_mode_def accepted_def sz_def [symmetric]
        ea_def [symmetric] ng_m68k_validate_def validate_tst_def validate_tst_legacy_fields_def)
qed (auto simp: stage_tst_def is_data_alterable_ea_def)

lemma kind_pc_disp: "ea_kind (op_mode w) (op_reg w) = NG_M68K_EA_PC_DISP \<Longrightarrow> op_mode w = 7 \<and> op_reg w = 2"
  by (rule operand_cases [OF field_bounds(2,3) [of w]]) (simp_all add: kind_modes)

lemma valid_lea:
  assumes "w AND 0xF1FF \<noteq> 0x41FA"
  shows "validated (stage_lea rom a w (start_instr a w))"
proof (cases "w AND 0xF1C0 = 0x41C0 \<and> is_control_ea (op_mode w) (op_reg w)")
  case True
  define ea where "ea = operand rom (a + 2) (op_mode w) (op_reg w) 4"
  have k: "ea_kind (op_mode w) (op_reg w) \<noteq> NG_M68K_EA_NONE"
    using True kind_classes(2) [of "op_mode w" "op_reg w"] by auto
  have p: "ea_mode ea \<noteq> NG_M68K_EA_PC_DISP"
  proof
    assume "ea_mode ea = NG_M68K_EA_PC_DISP"
    then have "op_mode w = 7 \<and> op_reg w = 2"
      using kind_pc_disp [of w] by (simp add: ea_def decode_ea_kind)
    then have "w AND 0x3F = 0x3A" by (simp add: op_parts op_ea_def)
    moreover have "w AND 0xF1FF = (w AND 0xF1C0) OR (w AND 0x3F)" by (rule word16_eqI; simp add: bit_simps)
    ultimately show False using assms True by simp
  qed
  have m: "ea_mode ea \<noteq> NG_M68K_EA_NONE" using k by (simp add: ea_def decode_ea_kind)
  have f: "ea_opcode_field ea = Some (op_ea w)" using field_of_opcode [OF k] by (simp add: ea_def)
  have l: "exact_control_ea_ext_length ea (a + 2) = Some (ucast (ea_len (op_mode w) (op_reg w) 4))"
    using True control_len [of "op_mode w" "op_reg w"] by (simp add: ea_def)
  show ?thesis
    using True opcode_forms(4) [of w "0x41C0"] m p f l
    by (cases "ea_mode ea")
      (simp_all add: stage_lea_def with_operand_eq Let_def src_mode_def is_abs_mode_def accepted_def set_dst_reg_def
        ea_def [symmetric] ng_m68k_validate_def validate_lea_def validate_lea_legacy_fields_def size_consts
        exact_control_source_ext_length_def)
qed (auto simp: stage_lea_def)

lemma valid_jump_control:
  assumes "w \<noteq> 0x4EFA" "w \<noteq> 0x4EBA"
  shows "validated (stage_jump_control rom a w (start_instr a w))"
proof (cases "(w AND 0xFFC0 = 0x4E80 \<or> w AND 0xFFC0 = 0x4EC0) \<and> is_control_ea (op_mode w) (op_reg w)")
  case True
  define ea where "ea = operand rom (a + 2) (op_mode w) (op_reg w) 0"
  have k: "ea_kind (op_mode w) (op_reg w) \<noteq> NG_M68K_EA_NONE"
    using True kind_classes(2) [of "op_mode w" "op_reg w"] by auto
  have e: "w = 0x4E80 OR ucast (op_ea w)" if "w AND 0xFFC0 = 0x4E80" using opcode_forms(1) [OF that] .
  have e': "w = 0x4EC0 OR ucast (op_ea w)" if "w AND 0xFFC0 = 0x4EC0" using opcode_forms(1) [OF that] .
  have p: "ea_mode ea \<noteq> NG_M68K_EA_PC_DISP"
  proof
    assume "ea_mode ea = NG_M68K_EA_PC_DISP"
    then have "op_mode w = 7 \<and> op_reg w = 2"
      using kind_pc_disp [of w] by (simp add: ea_def decode_ea_kind)
    then have "op_ea w = 0x3A" by (simp add: op_ea_def)
    then show False using e e' assms True by auto
  qed
  have m: "ea_mode ea \<noteq> NG_M68K_EA_NONE" using k by (simp add: ea_def decode_ea_kind)
  have f: "ea_opcode_field ea = Some (op_ea w)" using field_of_opcode [OF k] by (simp add: ea_def)
  have l: "exact_control_ea_ext_length ea (a + 2) = Some (ucast (ea_len (op_mode w) (op_reg w) 0))"
    using True control_len [of "op_mode w" "op_reg w"] by (simp add: ea_def)
  show ?thesis
    using True e e' m p f l
    by (elim conjE disjE; cases "ea_mode ea")
      (simp_all add: stage_jump_control_def with_operand_eq Let_def src_mode_def is_abs_mode_def accepted_def
        ea_def [symmetric] ng_m68k_validate_def validate_control_transfer_def
        exact_control_source_ext_length_def)
qed (auto simp: stage_jump_control_def)

lemma move_keeps [simp]:
  "i_addr (populate_move_legacy_fields i) = i_addr i" "i_opcode (populate_move_legacy_fields i) = i_opcode i"
  "i_byte_length (populate_move_legacy_fields i) = i_byte_length i"
  "i_size (populate_move_legacy_fields i) = i_size i" "i_condition (populate_move_legacy_fields i) = i_condition i"
  "i_src (populate_move_legacy_fields i) = i_src i" "i_dst (populate_move_legacy_fields i) = i_dst i"
  by (simp_all add: populate_move_legacy_fields_def)

lemma move_target: "i_mnemonic i = NG_M68K_MOVE \<Longrightarrow> i_target (populate_move_legacy_fields i) = i_target i"
  by (simp add: populate_move_legacy_fields_def)

lemma move_mirrors:
  assumes "i_mnemonic i = NG_M68K_MOVE" "legacy_blank i" "i_src_reg i = 0" "i_immediate i = 0"
  shows "validate_move_legacy_fields (populate_move_legacy_fields i)"
  unfolding validate_move_legacy_fields_def move_keeps
  using assms by (cases "ea_mode (i_src i)"; cases "ea_mode (i_dst i)")
    (simp_all add: populate_move_legacy_fields_def src_mode_def dst_mode_def is_abs_mode_def legacy_blank_def)

lemma movea_mirrors:
  assumes "i_mnemonic i = NG_M68K_MOVEA" "i_form i = NG_M68K_FORM_NONE" "i_src_reg i = 0" "i_immediate i = 0"
    and "i_absolute_addr i = 0" "i_displacement i = 0" "i_target i = 0" "i_condition i = 0"
    and "ea_mode (i_dst i) = NG_M68K_EA_AREG" "i_reg i = ea_reg (i_dst i)" "ea_simple_register_payload (i_dst i)"
  shows "validate_address_reg_op_legacy_fields (populate_move_legacy_fields i)"
  using assms by (cases "ea_mode (i_src i)")
    (simp_all add: populate_move_legacy_fields_def src_mode_def dst_mode_def is_abs_mode_def
      validate_address_reg_op_legacy_fields_def)

lemma split_field:
  assumes "m < 8" "r < (8 :: u8)"
  shows "(push_bit 3 m OR r) AND 7 = r" "drop_bit 3 (push_bit 3 m OR r) AND 7 = m"
  using eight_cases [OF assms(1)] eight_cases [OF assms(2)] by (elim disjE; simp)+

text \<open>MOVE and MOVEA: the source extension words come first.\<close>

definition moved :: "ng_program_rom \<Rightarrow> u32 \<Rightarrow> u16 \<Rightarrow> u8 \<Rightarrow> ng_m68k_mnemonic \<Rightarrow> ng_m68k_instr" where
  "moved rom a w sz mn = (let sl = ea_len (op_mode w) (op_reg w) sz in
     (start_instr a w)\<lparr>i_mnemonic := mn, i_size := sz, 
       i_src := operand rom (a + 2) (op_mode w) (op_reg w) sz,
       i_dst := operand rom (a + ucast (2 + ucast sl :: u8)) (op_opmode w) (op_reg9 w) sz,
       i_byte_length := ucast (ucast (2 + ucast sl :: u8) + ea_len (op_opmode w) (op_reg9 w) sz)\<rparr>)"

lemma move_length:
  "ucast (ucast (2 + ucast (ea_len m r sz) :: u8) + ea_len m' r' sz') =
   2 + ucast (ea_len m r sz) + (ucast (ea_len m' r' sz') :: u8)"
  "2 + ucast (ea_len m r sz) + (ucast (ea_len m' r' sz') :: u8) \<noteq> 0"
  using ea_len_cases [of m r sz] ea_len_cases [of m' r' sz'] by (elim disjE; simp)+

lemma accepted_move:
  assumes "if op_top w = 1 then sz = 1 else if op_top w = 2 then sz = 4 else op_top w = 3 \<and> sz = 2"
    and "is_data_alterable_ea (op_opmode w) (op_reg9 w)" "ea_kind (op_mode w) (op_reg w) \<noteq> NG_M68K_EA_NONE"
    and "op_mode w \<noteq> 1 \<or> sz \<noteq> 1"
  shows "accepted (populate_move_legacy_fields (moved rom a w sz NG_M68K_MOVE))" (is "accepted ?j")
proof -
  let ?i = "moved rom a w sz NG_M68K_MOVE"
  have i: "i_mnemonic ?i = NG_M68K_MOVE" "i_size ?i = sz" "i_addr ?i = a" "i_opcode ?i = w" "i_target ?i = 0"
      "i_condition ?i = 0" "i_src ?i = operand rom (a + 2) (op_mode w) (op_reg w) sz"
      "\<exists>x. i_dst ?i = operand rom x (op_opmode w) (op_reg9 w) sz"
      "i_byte_length ?i = 2 + ucast (ea_len (op_mode w) (op_reg w) sz) + ucast (ea_len (op_opmode w) (op_reg9 w) sz)"
      "legacy_blank ?i" "i_src_reg ?i = 0" "i_immediate ?i = 0"
    by (auto simp: moved_def Let_def move_length legacy_blank_def)
  obtain x where x: "i_dst ?i = operand rom x (op_opmode w) (op_reg9 w) sz" using i(8) ..
  have s: "valid_size sz" using assms(1) by (auto simp: valid_size_def split: if_splits)
  have se: "move_source_ext_length ?j = Some (ucast (ea_len (op_mode w) (op_reg w) sz))"
    using source_lens(2) [of ?j rom w] assms(3,4) s by (simp add: i)
  have de: "move_destination_ext_length (i_dst ?j) = Some (ucast (ea_len (op_opmode w) (op_reg9 w) sz))"
    using move_destination_len [of "op_opmode w" "op_reg9 w"] assms(2) by (simp add: x)
  have sf: "ea_opcode_field (i_src ?j) = Some (op_ea w)" using field_of_opcode [OF assms(3)] by (simp add: i)
  have df: "ea_opcode_field (i_dst ?j) = Some (push_bit 3 (op_opmode w) OR op_reg9 w)"
    using operand_field [of "op_opmode w" "op_reg9 w"] kind_class [OF assms(2)] by (simp add: x)
  have e: "w = (if sz = 1 then 0x1000 else if sz = 2 then 0x3000 else 0x2000) OR push_bit 9 (ucast (op_reg9 w)) OR
      push_bit 6 (ucast (op_opmode w)) OR ucast (op_ea w)"
    using opcode_forms(7) [of w] assms(1) by (auto split: if_splits)
  have "validate_move ?j"
    unfolding validate_move_def se de sf df using s e move_mirrors [of ?i]
    by (simp only: i split_field field_bounds move_keeps move_target option.case prod.case) (simp split del: if_split)
  then show ?thesis using move_length(2) by (simp add: accepted_def ng_m68k_validate_def i)
qed

lemma accepted_movea:
  assumes "if op_top w = 2 then sz = 4 else op_top w = 3 \<and> sz = 2"
    and "op_opmode w = 1" "ea_kind (op_mode w) (op_reg w) \<noteq> NG_M68K_EA_NONE"
  shows "accepted (populate_move_legacy_fields ((moved rom a w sz NG_M68K_MOVEA)\<lparr>i_reg := op_reg9 w\<rparr>))" (is "accepted ?j")
proof -
  let ?i = "(moved rom a w sz NG_M68K_MOVEA)\<lparr>i_reg := op_reg9 w\<rparr>"
  have i: "i_mnemonic ?i = NG_M68K_MOVEA" "i_size ?i = sz" "i_addr ?i = a" "i_opcode ?i = w" "i_target ?i = 0"
      "i_condition ?i = 0" "i_src ?i = operand rom (a + 2) (op_mode w) (op_reg w) sz"
      "i_dst ?i = ea_zero\<lparr>ea_mode := NG_M68K_EA_AREG, ea_reg := op_reg9 w\<rparr>" "i_reg ?i = op_reg9 w"
      "i_byte_length ?i = 2 + ucast (ea_len (op_mode w) (op_reg w) sz)"
      "i_form ?i = NG_M68K_FORM_NONE" "i_src_reg ?i = 0" "i_immediate ?i = 0" "i_absolute_addr ?i = 0" "i_displacement ?i = 0"
    using ea_len_cases [of "op_mode w" "op_reg w" sz]
    by (auto simp: moved_def Let_def assms(2) operand_modes ea_zero_def ea_len_def [of 1])
  have s: "valid_size sz" "valid_word_or_long sz" "sz \<noteq> 1"
    using assms(1) by (auto simp: valid_size_def valid_word_or_long_def split: if_splits)
  have se: "move_source_ext_length ?j = Some (ucast (ea_len (op_mode w) (op_reg w) sz))"
    using source_lens(2) [of ?j rom w] assms(3) s by (simp add: i)
  have sf: "ea_opcode_field (i_src ?j) = Some (op_ea w)" using field_of_opcode [OF assms(3)] by (simp add: i)
  have e: "w = (if sz = 2 then 0x3000 else 0x2000) OR push_bit 9 (ucast (op_reg9 w)) OR 0x40 OR ucast (op_ea w)"
    using opcode_forms(7) [of w] assms(1,2) by (auto split: if_splits)
  have "validate_address_reg_op ?j"
    unfolding validate_address_reg_op_def se sf using s e movea_mirrors [of ?i]
    by (simp add: i split del: if_split)
  then show ?thesis by (simp add: accepted_def ng_m68k_validate_def i)
qed

lemma move_operands_moved:
  assumes "ea_kind (op_mode w) (op_reg w) \<noteq> NG_M68K_EA_NONE" "ea_kind (op_opmode w) (op_reg9 w) \<noteq> NG_M68K_EA_NONE"
  shows "decode_move_operands rom a w sz (start_instr a w) = populate_move_legacy_fields
     (if op_opmode w = 1 then (moved rom a w sz NG_M68K_MOVEA)\<lparr>i_reg := op_reg9 w\<rparr> else moved rom a w sz NG_M68K_MOVE)"
proof -
  have "(start_instr a w)\<lparr>i_byte_length := 2\<rparr> = start_instr a w" by (simp add: start_instr_def instr_zero_def)
  with assms show ?thesis
    by (auto simp: decode_move_operands_def Let_def with_operand_eq src_mode_def dst_mode_def decode_ea_kind moved_def)
qed

lemma valid_move: "validated (of_helper (decode_move rom a w) (start_instr a w))"
proof (cases "op_top w = 1 \<or> op_top w = 2 \<or> op_top w = 3")
  case True
  define sz :: u8 where "sz = (if op_top w = 1 then 1 else if op_top w = 2 then 4 else 2)"
  show ?thesis
  proof (cases "(op_opmode w = 1 \<or> op_mode w = 1) \<and> sz = 1 \<or>
      op_opmode w \<noteq> 1 \<and> \<not> is_data_alterable_ea (op_opmode w) (op_reg9 w)")
    case t: True
    then show ?thesis using True by (auto simp: of_helper_def decode_move_def Let_def sz_def size_consts)
  next
    case False
    then have d: "decode_move rom a w (start_instr a w) = Some (decode_move_operands rom a w sz (start_instr a w))"
      using True by (auto simp: decode_move_def Let_def sz_def size_consts)
    have kd: "ea_kind (op_opmode w) (op_reg9 w) \<noteq> NG_M68K_EA_NONE"
      using False kind_class [of "op_opmode w" "op_reg9 w"] by (auto simp: kind_modes)
    show ?thesis
    proof (cases "ea_kind (op_mode w) (op_reg w) = NG_M68K_EA_NONE")
      case t: True
      then show ?thesis unfolding of_helper_def d
        by (simp add: decode_move_operands_def Let_def with_operand_eq src_mode_def decode_ea_kind)
    next
      case f: False
      have "accepted (decode_move_operands rom a w sz (start_instr a w))"
        unfolding move_operands_moved [OF f kd]
        using accepted_move [of w sz rom a] accepted_movea [of w sz rom a] f False True by (auto simp: sz_def split: if_splits)
      then show ?thesis by (simp add: of_helper_def d)
    qed
  qed
qed (auto simp: of_helper_def decode_move_def Let_def)

end
