(* ===== verification/M68kValidateProps.thy ===== *)
theory M68kValidateProps
  imports M68kValidateAlu
begin

text \<open>
  The decoder as a whole against the validator: a fourth interpretation of \<open>stage_contract\<close>, and the
  property that every instruction the decoder recognises is accepted.
\<close>

text \<open>
  \<open>Scc\<close> and \<open>DBcc\<close> words whose operand is neither: the only opcodes for which a block has written a
  field (the condition) before falling through. No block of the decoder accepts them.
\<close>

definition scc_rest :: "u16 \<Rightarrow> bool" where
  "scc_rest w \<longleftrightarrow> w AND 0xF000 = 0x5000 \<and> op_size2 w = 3 \<and> op_mode w \<noteq> 1 \<and>
     \<not> is_data_alterable_ea (op_mode w) (op_reg w)"

lemma scc_rest_facts:
  assumes "scc_rest w"
  shows "0xF000 AND m = 0xF000 \<Longrightarrow> c AND 0xF000 \<noteq> 0x5000 \<Longrightarrow> w AND m \<noteq> c"
    and "c AND 0xF000 \<noteq> 0x5000 \<Longrightarrow> w \<noteq> c" and "op_top w = 5" "w AND 0xF000 = 0x5000" "op_size2 w = 3"
    and "w AND 0xC0 = 0xC0" "op_mode w \<noteq> 1" "\<not> is_data_alterable_ea (op_mode w) (op_reg w)"
proof -
  have t: "w AND 0xF000 = 0x5000" using assms by (simp add: scc_rest_def)
  then show "0xF000 AND m = 0xF000 \<Longrightarrow> c AND 0xF000 \<noteq> 0x5000 \<Longrightarrow> w AND m \<noteq> c" using and_submask [of w m c "0xF000"] by auto
  show "c AND 0xF000 \<noteq> 0x5000 \<Longrightarrow> w \<noteq> c" using t by auto
  show "op_top w = 5" using t by (simp add: field_of_mask(4))
qed (use assms in \<open>simp_all add: scc_rest_def op_size2_mask\<close>)

lemma scc_rest_helpers:
  assumes "scc_rest w"
  shows "decode_move rom a w i = None" "decode_alu_address_reg rom a w i = None" "decode_logic_binary rom a w i = None"
    "decode_addsub_dreg_to_ea rom a w i = None" "decode_exchange w i = None" "decode_shift_rotate rom a w i = None"
    "decode_multiply rom a w i = None" "decode_divide rom a w i = None" "decode_alu_ea_to_dreg rom a w i = None"
    "decode_cmpm w i = None" "decode_immediate_to_sr_ccr rom a w i = None"
  by (simp_all add: helper_defs Let_def scc_rest_facts [OF assms])

lemma scc_rest_blocks:
  assumes "scc_rest w"
  shows "stage_misc rom a w i = Fallthrough i" "stage_link rom a w i = Fallthrough i"
    "stage_move_usp rom a w i = Fallthrough i" "stage_jump_abs_l rom a w i = Fallthrough i"
    "stage_jump_pc_disp rom a w i = Fallthrough i" "stage_jump_aind rom a w i = Fallthrough i"
    "stage_jump_control rom a w i = Fallthrough i" "stage_branch rom a w i = Fallthrough i"
    "stage_moveq rom a w i = Fallthrough i" "stage_lea_pc_disp rom a w i = Fallthrough i"
    "stage_chk rom a w i = Fallthrough i" "stage_lea rom a w i = Fallthrough i"
    "stage_movep rom a w i = Fallthrough i" "stage_move_from_sr rom a w i = Fallthrough i"
    "stage_move_to_sr_ccr rom a w i = Fallthrough i" "stage_static_bit rom a w i = Fallthrough i"
    "stage_dynamic_bit rom a w i = Fallthrough i" "stage_ori_eori rom a w i = Fallthrough i"
    "stage_subi_addi rom a w i = Fallthrough i" "stage_cmpi rom a w i = Fallthrough i"
    "stage_andi rom a w i = Fallthrough i" "stage_addx_subx rom a w i = Fallthrough i"
    "stage_abcd_sbcd rom a w i = Fallthrough i" "stage_addq_subq rom a w i = Fallthrough i"
    "stage_clr rom a w i = Fallthrough i" "stage_negx_neg_not rom a w i = Fallthrough i"
    "stage_nbcd rom a w i = Fallthrough i" "stage_swap_ext rom a w i = Fallthrough i"
    "stage_movem_to_mem rom a w i = Fallthrough i" "stage_movem_to_reg rom a w i = Fallthrough i"
    "stage_pea rom a w i = Fallthrough i" "stage_tas rom a w i = Fallthrough i"
    "stage_tst rom a w i = Fallthrough i" "stage_line_a_f rom a w i = Fallthrough i"
    "stage_dbcc_scc rom a w i = Fallthrough (i\<lparr>i_condition := ucast (drop_bit 8 w AND 0xF)\<rparr>)"
  by (simp_all add: control_defs operand_defs tail_defs scc_rest_facts [OF assms] size2_three)


lemma scc_rest_stages:
  assumes "scc_rest w" "f \<in> set live_stages"
  shows "f rom a w i = Fallthrough i \<or> f rom a w i = Fallthrough (i\<lparr>i_condition := ucast (drop_bit 8 w AND 0xF)\<rparr>)"
  using assms(2)
  by (auto simp: live_stages_def helper_stages_def of_helper_def scc_rest_helpers [OF assms(1)] scc_rest_blocks [OF assms(1)])

text \<open>
  \<open>LEA (d16,PC)\<close> and the PC-relative jumps are taken by an earlier block, so the general blocks only
  see the other operands.
\<close>

definition lea_rest :: stage_fun where
  "lea_rest rom a w i = (if w AND 0xF1FF = 0x41FA then Fallthrough i else stage_lea rom a w i)"

definition jump_rest :: stage_fun where
  "jump_rest rom a w i = (if w = 0x4EFA \<or> w = 0x4EBA then Fallthrough i else stage_jump_control rom a w i)"

lemma replace_stage:
  assumes "(\<forall>rom a i. g rom a w i = g' rom a w i) \<or> (\<exists>f\<in>set xs. claims f w)"
  shows "run_stages (xs @ g # ys) rom a w i = run_stages (xs @ g' # ys) rom a w i"
  using assms
proof
  assume "\<exists>f\<in>set xs. claims f w"
  then obtain j where "run_stages xs rom a w i = Matched j" using run_stages_claimed by metis
  then show ?thesis by (simp add: run_stages_append)
qed (simp add: run_stages_append split: stage.splits)

definition exclusive_stages :: "stage_fun list" where
  "exclusive_stages = helper_stages @
     [stage_misc, stage_link, stage_move_usp, stage_jump_abs_l, stage_jump_pc_disp,
      stage_jump_aind, jump_rest, stage_branch, stage_moveq, stage_lea_pc_disp, stage_chk, lea_rest,
      \<lambda>rom addr op. of_helper (decode_immediate_to_sr_ccr rom addr op),
      stage_movep, stage_move_from_sr, stage_move_to_sr_ccr, stage_static_bit,
      stage_dynamic_bit, stage_ori_eori, stage_subi_addi, stage_cmpi, stage_andi,
      stage_addx_subx, stage_abcd_sbcd, stage_dbcc_scc, stage_addq_subq,
      stage_clr, stage_negx_neg_not, stage_nbcd, stage_swap_ext, stage_movem_to_mem,
      stage_movem_to_reg, stage_pea, stage_tas, stage_tst, stage_line_a_f]"

lemma run_exclusive_stages: "run_stages live_stages rom a w i = run_stages exclusive_stages rom a w i"
proof -
  let ?h = "helper_stages @ [stage_misc, stage_link, stage_move_usp, stage_jump_abs_l, stage_jump_pc_disp, stage_jump_aind]"
  let ?m = "[stage_branch, stage_moveq, stage_lea_pc_disp, stage_chk]"
  let ?t = "[\<lambda>rom addr op. of_helper (decode_immediate_to_sr_ccr rom addr op),
      stage_movep, stage_move_from_sr, stage_move_to_sr_ccr, stage_static_bit,
      stage_dynamic_bit, stage_ori_eori, stage_subi_addi, stage_cmpi, stage_andi,
      stage_addx_subx, stage_abcd_sbcd, stage_dbcc_scc, stage_addq_subq,
      stage_clr, stage_negx_neg_not, stage_nbcd, stage_swap_ext, stage_movem_to_mem,
      stage_movem_to_reg, stage_pea, stage_tas, stage_tst, stage_line_a_f]"
  have j: "claims stage_jump_pc_disp w" if "w = 0x4EFA \<or> w = 0x4EBA"
    using that by (auto simp: claims_def stage_jump_pc_disp_def Let_def)
  have l: "claims stage_lea_pc_disp w" if "w AND 0xF1FF = 0x41FA"
    using that by (simp add: claims_def stage_lea_pc_disp_def Let_def)
  have "run_stages live_stages rom a w i = run_stages (?h @ stage_jump_control # ?m @ stage_lea # ?t) rom a w i"
    by (simp add: live_stages_def)
  also have "\<dots> = run_stages (?h @ jump_rest # ?m @ stage_lea # ?t) rom a w i"
    by (rule replace_stage) (use j in \<open>auto simp: jump_rest_def\<close>)
  also have "\<dots> = run_stages ((?h @ jump_rest # ?m) @ stage_lea # ?t) rom a w i" by simp
  also have "\<dots> = run_stages ((?h @ jump_rest # ?m) @ lea_rest # ?t) rom a w i"
    by (rule replace_stage) (use l in \<open>auto simp: lea_rest_def\<close>)
  finally show ?thesis by (simp add: exclusive_stages_def)
qed

definition undecided :: "u32 \<Rightarrow> u16 \<Rightarrow> ng_m68k_instr \<Rightarrow> bool" where
  "undecided a w i \<longleftrightarrow> i = start_instr a w \<or>
     scc_rest w \<and> i = (start_instr a w)\<lparr>i_condition := ucast (drop_bit 8 w AND 0xF)\<rparr>"

lemma start_validated:
  assumes "f \<in> set exclusive_stages"
  shows "validated (f rom a w (start_instr a w))"
proof -
  have "validated (jump_rest rom a w (start_instr a w))" "validated (lea_rest rom a w (start_instr a w))"
    by (simp_all add: jump_rest_def lea_rest_def valid_jump_control valid_lea)
  moreover have "validated (f rom a w (start_instr a w))" if "f \<in> set helper_stages"
    using that
    by (auto simp: helper_stages_def valid_move valid_alu_address_reg valid_logic_binary valid_addsub_dreg_to_ea
      valid_exchange valid_shift_rotate valid_multiply_divide valid_alu_ea_to_dreg valid_cmpm)
  ultimately show ?thesis
    using assms
    by (auto simp: exclusive_stages_def valid_misc valid_link valid_move_usp valid_jumps valid_branch valid_moveq
      valid_lea_pc_disp valid_chk valid_sr_ccr valid_movep valid_move_from_sr valid_move_to_sr_ccr valid_static_bit
      valid_dynamic_bit valid_immediates valid_addx_subx valid_abcd_sbcd valid_dbcc_scc valid_addq_subq valid_clr
      valid_negx_neg_not valid_nbcd valid_swap_ext valid_movem_to_mem valid_movem_to_reg valid_pea valid_tas valid_tst
      valid_line_a_f)
qed


lemma dbcc_falls:
  assumes "stage_dbcc_scc rom a w i = Fallthrough j"
  shows "j = i \<or> scc_rest w \<and> j = i\<lparr>i_condition := ucast (drop_bit 8 w AND 0xF)\<rparr>"
proof -
  have "op_size2 w = 3" if "w AND 0xC0 = 0xC0" using that by (simp add: field_of_mask(3))
  then show ?thesis
    using assms by (auto simp: stage_dbcc_scc_def Let_def scc_rest_def size2_three split: if_splits)
qed

lemma tail_falls:
  assumes "f \<in> set tail_stages" "f \<noteq> stage_dbcc_scc" "f rom a w i = Fallthrough j"
  shows "j = i"
proof -
  have "f \<in> {stage_addx_subx, stage_abcd_sbcd, stage_legacy_add, stage_addq_subq,
      stage_clr, stage_negx_neg_not, stage_nbcd, stage_swap_ext, stage_movem_to_mem,
      stage_movem_to_reg, stage_pea, stage_tas, stage_tst, stage_legacy_clr, stage_legacy_tst,
      stage_line_a_f}"
    using assms(1,2) by (auto simp: tail_stages_def)
  then show ?thesis using assms(3) by (auto simp: tail_defs Let_def split: if_splits)
qed

lemma exclusive_falls:
  assumes "f \<in> set exclusive_stages" "f rom a w i = Fallthrough j"
  shows "j = i \<or> scc_rest w \<and> j = i\<lparr>i_condition := ucast (drop_bit 8 w AND 0xF)\<rparr>"
proof -
  have "j = i" if "f \<in> set helper_stages" "f rom a w i = Fallthrough j"
    using that by (auto simp: helper_stages_def dest: of_helper_fall)
  moreover have "j = i" if "f \<in> set (tl control_stages @ [stage_misc, jump_rest, lea_rest])"
    using that assms(2) by (auto simp: control_stages_def control_defs jump_rest_def lea_rest_def Let_def split: if_splits)
  moreover have "j = i" if "f \<in> set operand_stages"
    using that assms(2) by (auto simp: operand_stages_def operand_defs Let_def split: if_splits dest: of_helper_fall)
  moreover have "f \<in> set helper_stages \<or> f \<in> set (tl control_stages @ [stage_misc, jump_rest, lea_rest]) \<or>
      f \<in> set operand_stages \<or> f \<in> set tail_stages"
    using assms(1) by (auto simp: exclusive_stages_def control_stages_def operand_stages_def tail_stages_def)
  ultimately show ?thesis using tail_falls [of f rom a w i j] dbcc_falls [of rom a w i j] assms(2) by metis
qed

interpretation valid_stages: stage_contract undecided "\<lambda>rom a w. accepted" exclusive_stages
proof
  fix f a w i rom j
  assume f: "f \<in> set exclusive_stages" and u: "undecided a w i"
  show "undecided a w j" if j: "f rom a w i = Fallthrough j"
    using exclusive_falls [OF f j] u by (auto simp: undecided_def)
  show "accepted j" if j: "f rom a w i = Matched j"
  proof (cases "i = start_instr a w")
    case True
    then show ?thesis using start_validated [OF f, of rom a w] j by simp
  next
    case False
    then have r: "scc_rest w" using u by (simp add: undecided_def)
    have "f \<in> set live_stages \<or> f = jump_rest \<or> f = lea_rest"
      using f by (auto simp: exclusive_stages_def live_stages_def)
    moreover have "jump_rest rom a w i = Fallthrough i" "lea_rest rom a w i = Fallthrough i"
      by (simp_all add: jump_rest_def lea_rest_def scc_rest_blocks [OF r])
    ultimately show ?thesis using scc_rest_stages [OF r, of f rom a i] j by auto
  qed
next
  show "undecided a w i \<Longrightarrow> accepted i" for a w i by (auto simp: undecided_def accepted_def)
qed

lemma decode_body_accepted: "accepted (decode_body decode_stages rom a)"
proof -
  have "undecided a w (instr_zero\<lparr>i_addr := a, i_opcode := w, i_mnemonic := NG_M68K_UNKNOWN, i_byte_length := 2\<rparr>)" for w
    by (simp add: undecided_def start_instr_def)
  then show ?thesis
    unfolding decode_body_def run_live_stages run_exclusive_stages by (rule valid_stages.run_post)
qed

subsection \<open>Properties\<close>

text \<open>
  C4 (equivalence): decoder and validator agree. Every instruction \<open>ng_m68k_decode\<close> returns with success
  and a mnemonic other than \<open>NG_M68K_UNKNOWN\<close> is accepted by \<open>ng_m68k_validate\<close>: the opcode word the
  validator rebuilds from the decoded operands, size and condition is the one that was read, the length is
  the length of the operands' extension words, and every field the mnemonic does not use is zero.
\<close>

theorem decoded_instructions_validate:
  assumes "ng_m68k_decode rom a = (True, i)" and "i_mnemonic i \<noteq> NG_M68K_UNKNOWN"
  shows "ng_m68k_validate i"
  using decode_body_accepted [of rom a] assms by (simp add: decode_eq_True accepted_def)


theorem decoded_instructions_validate_witness: "ng_m68k_validate sample_bsr"
  by (rule decoded_instructions_validate [OF sample_decode]) (simp add: sample_bsr_def)

end
