(* ===== verification/M68kCycles.thy ===== *)
theory M68kCycles
  imports M68kInstr
begin

text \<open>
  The base-cycle table of \<open>recompiler/src/m68k_cycles.c\<close>: pattern entries, expanded on first use into
  a table with one byte per opcode word. The expansion loop of an entry is a \<open>do ... while\<close> over the
  don't-care bits; it is a partial function, so that not ending would be the value \<open>None\<close>.
\<close>

subsection \<open>Entries\<close>

record ng_m68k_cycle_entry =
  ce_match :: u16
  ce_mask :: u16
  ce_cycles :: u8

abbreviation entry :: "u16 \<Rightarrow> u16 \<Rightarrow> u8 \<Rightarrow> ng_m68k_cycle_entry" where
  "entry m k c \<equiv> \<lparr>ce_match = m, ce_mask = k, ce_cycles = c\<rparr>"

text \<open>\<open>k_ng_m68k_cycle_entries\<close>, in the order of the source, in pieces.\<close>

definition cycle_entries_1 :: "ng_m68k_cycle_entry list" where
  "cycle_entries_1 =
    [entry 0xA000 0xF000 4, entry 0xF000 0xF000 4, entry 0x7000 0xF100 4, entry 0x6000 0xFF00 10,
     entry 0x6100 0xFF00 18, entry 0x6200 0xFF00 10, entry 0x6300 0xFF00 10, entry 0x6400 0xFF00 10,
     entry 0x6500 0xFF00 10, entry 0x6600 0xFF00 10, entry 0x6700 0xFF00 10, entry 0x6800 0xFF00 10,
     entry 0x6900 0xFF00 10, entry 0x6A00 0xFF00 10, entry 0x6B00 0xFF00 10, entry 0x6C00 0xFF00 10,
     entry 0x6D00 0xFF00 10, entry 0x6E00 0xFF00 10, entry 0x6F00 0xFF00 10, entry 0x0100 0xF1F8 6,
     entry 0x0108 0xF1F8 16, entry 0x0110 0xF1F8 8, entry 0x0118 0xF1F8 8, entry 0x0120 0xF1F8 10,
     entry 0x0128 0xF1F8 12, entry 0x0130 0xF1F8 14, entry 0x0140 0xF1F8 8, entry 0x0148 0xF1F8 24,
     entry 0x0150 0xF1F8 12, entry 0x0158 0xF1F8 12, entry 0x0160 0xF1F8 14, entry 0x0168 0xF1F8 16,
     entry 0x0170 0xF1F8 18, entry 0x0180 0xF1F8 10, entry 0x0188 0xF1F8 16, entry 0x0190 0xF1F8 12,
     entry 0x0198 0xF1F8 12, entry 0x01A0 0xF1F8 14, entry 0x01A8 0xF1F8 16, entry 0x01B0 0xF1F8 18,
     entry 0x01C0 0xF1F8 8, entry 0x01C8 0xF1F8 24, entry 0x01D0 0xF1F8 12, entry 0x01D8 0xF1F8 12,
     entry 0x01E0 0xF1F8 14, entry 0x01E8 0xF1F8 16, entry 0x01F0 0xF1F8 18, entry 0x1000 0xF1F8 4,
     entry 0x1010 0xF1F8 8, entry 0x1018 0xF1F8 8, entry 0x1020 0xF1F8 10, entry 0x1028 0xF1F8 12,
     entry 0x1030 0xF1F8 14, entry 0x1080 0xF1F8 8, entry 0x1090 0xF1F8 12, entry 0x1098 0xF1F8 12,
     entry 0x10A0 0xF1F8 14, entry 0x10A8 0xF1F8 16, entry 0x10B0 0xF1F8 18, entry 0x10C0 0xF1F8 8,
     entry 0x10D0 0xF1F8 12, entry 0x10D8 0xF1F8 12, entry 0x10E0 0xF1F8 14, entry 0x10E8 0xF1F8 16,
     entry 0x10F0 0xF1F8 18, entry 0x1100 0xF1F8 8, entry 0x1110 0xF1F8 12, entry 0x1118 0xF1F8 12,
     entry 0x1120 0xF1F8 14, entry 0x1128 0xF1F8 16, entry 0x1130 0xF1F8 18, entry 0x1140 0xF1F8 12,
     entry 0x1150 0xF1F8 16, entry 0x1158 0xF1F8 16, entry 0x1160 0xF1F8 18, entry 0x1168 0xF1F8 20,
     entry 0x1170 0xF1F8 22, entry 0x1180 0xF1F8 14, entry 0x1190 0xF1F8 18, entry 0x1198 0xF1F8 18,
     entry 0x11A0 0xF1F8 20, entry 0x11A8 0xF1F8 22, entry 0x11B0 0xF1F8 24, entry 0x2000 0xF1F8 4,
     entry 0x2008 0xF1F8 4, entry 0x2010 0xF1F8 12, entry 0x2018 0xF1F8 12, entry 0x2020 0xF1F8 14,
     entry 0x2028 0xF1F8 16, entry 0x2030 0xF1F8 18, entry 0x2040 0xF1F8 4, entry 0x2048 0xF1F8 4,
     entry 0x2050 0xF1F8 12, entry 0x2058 0xF1F8 12, entry 0x2060 0xF1F8 14, entry 0x2068 0xF1F8 16,
     entry 0x2070 0xF1F8 18, entry 0x2080 0xF1F8 12, entry 0x2088 0xF1F8 12, entry 0x2090 0xF1F8 20,
     entry 0x2098 0xF1F8 20, entry 0x20A0 0xF1F8 22, entry 0x20A8 0xF1F8 24, entry 0x20B0 0xF1F8 26,
     entry 0x20C0 0xF1F8 12, entry 0x20C8 0xF1F8 12, entry 0x20D0 0xF1F8 20, entry 0x20D8 0xF1F8 20,
     entry 0x20E0 0xF1F8 22, entry 0x20E8 0xF1F8 24, entry 0x20F0 0xF1F8 26, entry 0x2100 0xF1F8 12,
     entry 0x2108 0xF1F8 12, entry 0x2110 0xF1F8 20, entry 0x2118 0xF1F8 20, entry 0x2120 0xF1F8 22,
     entry 0x2128 0xF1F8 24, entry 0x2130 0xF1F8 26, entry 0x2140 0xF1F8 16, entry 0x2148 0xF1F8 16,
     entry 0x2150 0xF1F8 24, entry 0x2158 0xF1F8 24, entry 0x2160 0xF1F8 26, entry 0x2168 0xF1F8 28,
     entry 0x2170 0xF1F8 30, entry 0x2180 0xF1F8 18, entry 0x2188 0xF1F8 18, entry 0x2190 0xF1F8 26,
     entry 0x2198 0xF1F8 26, entry 0x21A0 0xF1F8 28, entry 0x21A8 0xF1F8 30, entry 0x21B0 0xF1F8 32,
     entry 0x3000 0xF1F8 4, entry 0x3008 0xF1F8 4, entry 0x3010 0xF1F8 8, entry 0x3018 0xF1F8 8,
     entry 0x3020 0xF1F8 10, entry 0x3028 0xF1F8 12, entry 0x3030 0xF1F8 14, entry 0x3040 0xF1F8 4,
     entry 0x3048 0xF1F8 4, entry 0x3050 0xF1F8 8]"

definition cycle_entries_2 :: "ng_m68k_cycle_entry list" where
  "cycle_entries_2 =
    [entry 0x3058 0xF1F8 8, entry 0x3060 0xF1F8 10, entry 0x3068 0xF1F8 12, entry 0x3070 0xF1F8 14,
     entry 0x3080 0xF1F8 8, entry 0x3088 0xF1F8 8, entry 0x3090 0xF1F8 12, entry 0x3098 0xF1F8 12,
     entry 0x30A0 0xF1F8 14, entry 0x30A8 0xF1F8 16, entry 0x30B0 0xF1F8 18, entry 0x30C0 0xF1F8 8,
     entry 0x30C8 0xF1F8 8, entry 0x30D0 0xF1F8 12, entry 0x30D8 0xF1F8 12, entry 0x30E0 0xF1F8 14,
     entry 0x30E8 0xF1F8 16, entry 0x30F0 0xF1F8 18, entry 0x3100 0xF1F8 8, entry 0x3108 0xF1F8 8,
     entry 0x3110 0xF1F8 12, entry 0x3118 0xF1F8 12, entry 0x3120 0xF1F8 14, entry 0x3128 0xF1F8 16,
     entry 0x3130 0xF1F8 18, entry 0x3140 0xF1F8 12, entry 0x3148 0xF1F8 12, entry 0x3150 0xF1F8 16,
     entry 0x3158 0xF1F8 16, entry 0x3160 0xF1F8 18, entry 0x3168 0xF1F8 20, entry 0x3170 0xF1F8 22,
     entry 0x3180 0xF1F8 14, entry 0x3188 0xF1F8 14, entry 0x3190 0xF1F8 18, entry 0x3198 0xF1F8 18,
     entry 0x31A0 0xF1F8 20, entry 0x31A8 0xF1F8 22, entry 0x31B0 0xF1F8 24, entry 0x4180 0xF1F8 10,
     entry 0x4190 0xF1F8 14, entry 0x4198 0xF1F8 14, entry 0x41A0 0xF1F8 16, entry 0x41A8 0xF1F8 18,
     entry 0x41B0 0xF1F8 20, entry 0x41D0 0xF1F8 4, entry 0x41E8 0xF1F8 8, entry 0x41F0 0xF1F8 12,
     entry 0x5000 0xF1F8 4, entry 0x5010 0xF1F8 12, entry 0x5018 0xF1F8 12, entry 0x5020 0xF1F8 14,
     entry 0x5028 0xF1F8 16, entry 0x5030 0xF1F8 18, entry 0x5040 0xF1F8 4, entry 0x5048 0xF1F8 4,
     entry 0x5050 0xF1F8 12, entry 0x5058 0xF1F8 12, entry 0x5060 0xF1F8 14, entry 0x5068 0xF1F8 16,
     entry 0x5070 0xF1F8 18, entry 0x5080 0xF1F8 8, entry 0x5088 0xF1F8 8, entry 0x5090 0xF1F8 20,
     entry 0x5098 0xF1F8 20, entry 0x50A0 0xF1F8 22, entry 0x50A8 0xF1F8 24, entry 0x50B0 0xF1F8 26,
     entry 0x5100 0xF1F8 4, entry 0x5110 0xF1F8 12, entry 0x5118 0xF1F8 12, entry 0x5120 0xF1F8 14,
     entry 0x5128 0xF1F8 16, entry 0x5130 0xF1F8 18, entry 0x5140 0xF1F8 4, entry 0x5148 0xF1F8 8,
     entry 0x5150 0xF1F8 12, entry 0x5158 0xF1F8 12, entry 0x5160 0xF1F8 14, entry 0x5168 0xF1F8 16,
     entry 0x5170 0xF1F8 18, entry 0x5180 0xF1F8 8, entry 0x5188 0xF1F8 8, entry 0x5190 0xF1F8 20,
     entry 0x5198 0xF1F8 20, entry 0x51A0 0xF1F8 22, entry 0x51A8 0xF1F8 24, entry 0x51B0 0xF1F8 26,
     entry 0x8000 0xF1F8 4, entry 0x8010 0xF1F8 8, entry 0x8018 0xF1F8 8, entry 0x8020 0xF1F8 10,
     entry 0x8028 0xF1F8 12, entry 0x8030 0xF1F8 14, entry 0x8040 0xF1F8 4, entry 0x8050 0xF1F8 8,
     entry 0x8058 0xF1F8 8, entry 0x8060 0xF1F8 10, entry 0x8068 0xF1F8 12, entry 0x8070 0xF1F8 14,
     entry 0x8080 0xF1F8 8, entry 0x8090 0xF1F8 14, entry 0x8098 0xF1F8 14, entry 0x80A0 0xF1F8 16,
     entry 0x80A8 0xF1F8 18, entry 0x80B0 0xF1F8 20, entry 0x80C0 0xF1F8 140, entry 0x80D0 0xF1F8 144,
     entry 0x80D8 0xF1F8 144, entry 0x80E0 0xF1F8 146, entry 0x80E8 0xF1F8 148, entry 0x80F0 0xF1F8 150,
     entry 0x8100 0xF1F8 6, entry 0x8108 0xF1F8 18, entry 0x8110 0xF1F8 12, entry 0x8118 0xF1F8 12,
     entry 0x8120 0xF1F8 14, entry 0x8128 0xF1F8 16, entry 0x8130 0xF1F8 18, entry 0x8150 0xF1F8 12,
     entry 0x8158 0xF1F8 12, entry 0x8160 0xF1F8 14, entry 0x8168 0xF1F8 16, entry 0x8170 0xF1F8 18,
     entry 0x8190 0xF1F8 20, entry 0x8198 0xF1F8 20, entry 0x81A0 0xF1F8 22, entry 0x81A8 0xF1F8 24,
     entry 0x81B0 0xF1F8 26, entry 0x81C0 0xF1F8 158, entry 0x81D0 0xF1F8 162, entry 0x81D8 0xF1F8 162,
     entry 0x81E0 0xF1F8 164, entry 0x81E8 0xF1F8 166, entry 0x81F0 0xF1F8 168, entry 0x9000 0xF1F8 4,
     entry 0x9010 0xF1F8 8, entry 0x9018 0xF1F8 8, entry 0x9020 0xF1F8 10, entry 0x9028 0xF1F8 12,
     entry 0x9030 0xF1F8 14, entry 0x9040 0xF1F8 4]"

definition cycle_entries_3 :: "ng_m68k_cycle_entry list" where
  "cycle_entries_3 =
    [entry 0x9048 0xF1F8 4, entry 0x9050 0xF1F8 8, entry 0x9058 0xF1F8 8, entry 0x9060 0xF1F8 10,
     entry 0x9068 0xF1F8 12, entry 0x9070 0xF1F8 14, entry 0x9080 0xF1F8 8, entry 0x9088 0xF1F8 8,
     entry 0x9090 0xF1F8 14, entry 0x9098 0xF1F8 14, entry 0x90A0 0xF1F8 16, entry 0x90A8 0xF1F8 18,
     entry 0x90B0 0xF1F8 20, entry 0x90C0 0xF1F8 8, entry 0x90C8 0xF1F8 8, entry 0x90D0 0xF1F8 12,
     entry 0x90D8 0xF1F8 12, entry 0x90E0 0xF1F8 14, entry 0x90E8 0xF1F8 16, entry 0x90F0 0xF1F8 18,
     entry 0x9100 0xF1F8 4, entry 0x9108 0xF1F8 18, entry 0x9110 0xF1F8 12, entry 0x9118 0xF1F8 12,
     entry 0x9120 0xF1F8 14, entry 0x9128 0xF1F8 16, entry 0x9130 0xF1F8 18, entry 0x9140 0xF1F8 4,
     entry 0x9148 0xF1F8 18, entry 0x9150 0xF1F8 12, entry 0x9158 0xF1F8 12, entry 0x9160 0xF1F8 14,
     entry 0x9168 0xF1F8 16, entry 0x9170 0xF1F8 18, entry 0x9180 0xF1F8 8, entry 0x9188 0xF1F8 30,
     entry 0x9190 0xF1F8 20, entry 0x9198 0xF1F8 20, entry 0x91A0 0xF1F8 22, entry 0x91A8 0xF1F8 24,
     entry 0x91B0 0xF1F8 26, entry 0x91C0 0xF1F8 8, entry 0x91C8 0xF1F8 8, entry 0x91D0 0xF1F8 14,
     entry 0x91D8 0xF1F8 14, entry 0x91E0 0xF1F8 16, entry 0x91E8 0xF1F8 18, entry 0x91F0 0xF1F8 20,
     entry 0xB000 0xF1F8 4, entry 0xB010 0xF1F8 8, entry 0xB018 0xF1F8 8, entry 0xB020 0xF1F8 10,
     entry 0xB028 0xF1F8 12, entry 0xB030 0xF1F8 14, entry 0xB040 0xF1F8 4, entry 0xB048 0xF1F8 4,
     entry 0xB050 0xF1F8 8, entry 0xB058 0xF1F8 8, entry 0xB060 0xF1F8 10, entry 0xB068 0xF1F8 12,
     entry 0xB070 0xF1F8 14, entry 0xB080 0xF1F8 6, entry 0xB088 0xF1F8 6, entry 0xB090 0xF1F8 14,
     entry 0xB098 0xF1F8 14, entry 0xB0A0 0xF1F8 16, entry 0xB0A8 0xF1F8 18, entry 0xB0B0 0xF1F8 20,
     entry 0xB0C0 0xF1F8 6, entry 0xB0C8 0xF1F8 6, entry 0xB0D0 0xF1F8 10, entry 0xB0D8 0xF1F8 10,
     entry 0xB0E0 0xF1F8 12, entry 0xB0E8 0xF1F8 14, entry 0xB0F0 0xF1F8 16, entry 0xB100 0xF1F8 4,
     entry 0xB108 0xF1F8 12, entry 0xB110 0xF1F8 12, entry 0xB118 0xF1F8 12, entry 0xB120 0xF1F8 14,
     entry 0xB128 0xF1F8 16, entry 0xB130 0xF1F8 18, entry 0xB140 0xF1F8 4, entry 0xB148 0xF1F8 12,
     entry 0xB150 0xF1F8 12, entry 0xB158 0xF1F8 12, entry 0xB160 0xF1F8 14, entry 0xB168 0xF1F8 16,
     entry 0xB170 0xF1F8 18, entry 0xB180 0xF1F8 8, entry 0xB188 0xF1F8 20, entry 0xB190 0xF1F8 20,
     entry 0xB198 0xF1F8 20, entry 0xB1A0 0xF1F8 22, entry 0xB1A8 0xF1F8 24, entry 0xB1B0 0xF1F8 26,
     entry 0xB1C0 0xF1F8 6, entry 0xB1C8 0xF1F8 6, entry 0xB1D0 0xF1F8 14, entry 0xB1D8 0xF1F8 14,
     entry 0xB1E0 0xF1F8 16, entry 0xB1E8 0xF1F8 18, entry 0xB1F0 0xF1F8 20, entry 0xC000 0xF1F8 4,
     entry 0xC010 0xF1F8 8, entry 0xC018 0xF1F8 8, entry 0xC020 0xF1F8 10, entry 0xC028 0xF1F8 12,
     entry 0xC030 0xF1F8 14, entry 0xC040 0xF1F8 4, entry 0xC050 0xF1F8 8, entry 0xC058 0xF1F8 8,
     entry 0xC060 0xF1F8 10, entry 0xC068 0xF1F8 12, entry 0xC070 0xF1F8 14, entry 0xC080 0xF1F8 8,
     entry 0xC090 0xF1F8 14, entry 0xC098 0xF1F8 14, entry 0xC0A0 0xF1F8 16, entry 0xC0A8 0xF1F8 18,
     entry 0xC0B0 0xF1F8 20, entry 0xC0C0 0xF1F8 54, entry 0xC0D0 0xF1F8 58, entry 0xC0D8 0xF1F8 58,
     entry 0xC0E0 0xF1F8 60, entry 0xC0E8 0xF1F8 62, entry 0xC0F0 0xF1F8 64, entry 0xC100 0xF1F8 6,
     entry 0xC108 0xF1F8 18, entry 0xC110 0xF1F8 12, entry 0xC118 0xF1F8 12, entry 0xC120 0xF1F8 14,
     entry 0xC128 0xF1F8 16, entry 0xC130 0xF1F8 18, entry 0xC140 0xF1F8 6, entry 0xC148 0xF1F8 6,
     entry 0xC150 0xF1F8 12, entry 0xC158 0xF1F8 12, entry 0xC160 0xF1F8 14, entry 0xC168 0xF1F8 16,
     entry 0xC170 0xF1F8 18, entry 0xC188 0xF1F8 6]"

definition cycle_entries_4 :: "ng_m68k_cycle_entry list" where
  "cycle_entries_4 =
    [entry 0xC190 0xF1F8 20, entry 0xC198 0xF1F8 20, entry 0xC1A0 0xF1F8 22, entry 0xC1A8 0xF1F8 24,
     entry 0xC1B0 0xF1F8 26, entry 0xC1C0 0xF1F8 54, entry 0xC1D0 0xF1F8 58, entry 0xC1D8 0xF1F8 58,
     entry 0xC1E0 0xF1F8 60, entry 0xC1E8 0xF1F8 62, entry 0xC1F0 0xF1F8 64, entry 0xD000 0xF1F8 4,
     entry 0xD010 0xF1F8 8, entry 0xD018 0xF1F8 8, entry 0xD020 0xF1F8 10, entry 0xD028 0xF1F8 12,
     entry 0xD030 0xF1F8 14, entry 0xD040 0xF1F8 4, entry 0xD048 0xF1F8 4, entry 0xD050 0xF1F8 8,
     entry 0xD058 0xF1F8 8, entry 0xD060 0xF1F8 10, entry 0xD068 0xF1F8 12, entry 0xD070 0xF1F8 14,
     entry 0xD080 0xF1F8 8, entry 0xD088 0xF1F8 8, entry 0xD090 0xF1F8 14, entry 0xD098 0xF1F8 14,
     entry 0xD0A0 0xF1F8 16, entry 0xD0A8 0xF1F8 18, entry 0xD0B0 0xF1F8 20, entry 0xD0C0 0xF1F8 8,
     entry 0xD0C8 0xF1F8 8, entry 0xD0D0 0xF1F8 12, entry 0xD0D8 0xF1F8 12, entry 0xD0E0 0xF1F8 14,
     entry 0xD0E8 0xF1F8 16, entry 0xD0F0 0xF1F8 18, entry 0xD100 0xF1F8 4, entry 0xD108 0xF1F8 18,
     entry 0xD110 0xF1F8 12, entry 0xD118 0xF1F8 12, entry 0xD120 0xF1F8 14, entry 0xD128 0xF1F8 16,
     entry 0xD130 0xF1F8 18, entry 0xD140 0xF1F8 4, entry 0xD148 0xF1F8 18, entry 0xD150 0xF1F8 12,
     entry 0xD158 0xF1F8 12, entry 0xD160 0xF1F8 14, entry 0xD168 0xF1F8 16, entry 0xD170 0xF1F8 18,
     entry 0xD180 0xF1F8 8, entry 0xD188 0xF1F8 30, entry 0xD190 0xF1F8 20, entry 0xD198 0xF1F8 20,
     entry 0xD1A0 0xF1F8 22, entry 0xD1A8 0xF1F8 24, entry 0xD1B0 0xF1F8 26, entry 0xD1C0 0xF1F8 8,
     entry 0xD1C8 0xF1F8 8, entry 0xD1D0 0xF1F8 14, entry 0xD1D8 0xF1F8 14, entry 0xD1E0 0xF1F8 16,
     entry 0xD1E8 0xF1F8 18, entry 0xD1F0 0xF1F8 20, entry 0xE000 0xF1F8 6, entry 0xE008 0xF1F8 6,
     entry 0xE010 0xF1F8 6, entry 0xE018 0xF1F8 6, entry 0xE020 0xF1F8 6, entry 0xE028 0xF1F8 6,
     entry 0xE030 0xF1F8 6, entry 0xE038 0xF1F8 6, entry 0xE040 0xF1F8 6, entry 0xE048 0xF1F8 6,
     entry 0xE050 0xF1F8 6, entry 0xE058 0xF1F8 6, entry 0xE060 0xF1F8 6, entry 0xE068 0xF1F8 6,
     entry 0xE070 0xF1F8 6, entry 0xE078 0xF1F8 6, entry 0xE080 0xF1F8 8, entry 0xE088 0xF1F8 8,
     entry 0xE090 0xF1F8 8, entry 0xE098 0xF1F8 8, entry 0xE0A0 0xF1F8 8, entry 0xE0A8 0xF1F8 8,
     entry 0xE0B0 0xF1F8 8, entry 0xE0B8 0xF1F8 8, entry 0xE100 0xF1F8 6, entry 0xE108 0xF1F8 6,
     entry 0xE110 0xF1F8 6, entry 0xE118 0xF1F8 6, entry 0xE120 0xF1F8 6, entry 0xE128 0xF1F8 6,
     entry 0xE130 0xF1F8 6, entry 0xE138 0xF1F8 6, entry 0xE140 0xF1F8 6, entry 0xE148 0xF1F8 6,
     entry 0xE150 0xF1F8 6, entry 0xE158 0xF1F8 6, entry 0xE160 0xF1F8 6, entry 0xE168 0xF1F8 6,
     entry 0xE170 0xF1F8 6, entry 0xE178 0xF1F8 6, entry 0xE180 0xF1F8 8, entry 0xE188 0xF1F8 8,
     entry 0xE190 0xF1F8 8, entry 0xE198 0xF1F8 8, entry 0xE1A0 0xF1F8 8, entry 0xE1A8 0xF1F8 8,
     entry 0xE1B0 0xF1F8 8, entry 0xE1B8 0xF1F8 8, entry 0x4E40 0xFFF0 4, entry 0x011F 0xF1FF 8,
     entry 0x0127 0xF1FF 10, entry 0x0138 0xF1FF 12, entry 0x0139 0xF1FF 16, entry 0x013A 0xF1FF 12,
     entry 0x013B 0xF1FF 14, entry 0x013C 0xF1FF 8, entry 0x015F 0xF1FF 12, entry 0x0167 0xF1FF 14,
     entry 0x0178 0xF1FF 16, entry 0x0179 0xF1FF 20, entry 0x019F 0xF1FF 12, entry 0x01A7 0xF1FF 14,
     entry 0x01B8 0xF1FF 16, entry 0x01B9 0xF1FF 20, entry 0x01DF 0xF1FF 12, entry 0x01E7 0xF1FF 14,
     entry 0x01F8 0xF1FF 16, entry 0x01F9 0xF1FF 20, entry 0x101F 0xF1FF 8, entry 0x1027 0xF1FF 10,
     entry 0x1038 0xF1FF 12, entry 0x1039 0xF1FF 16, entry 0x103A 0xF1FF 12, entry 0x103B 0xF1FF 14,
     entry 0x103C 0xF1FF 8, entry 0x109F 0xF1FF 12]"

definition cycle_entries_5 :: "ng_m68k_cycle_entry list" where
  "cycle_entries_5 =
    [entry 0x10A7 0xF1FF 14, entry 0x10B8 0xF1FF 16, entry 0x10B9 0xF1FF 20, entry 0x10BA 0xF1FF 16,
     entry 0x10BB 0xF1FF 18, entry 0x10BC 0xF1FF 12, entry 0x10DF 0xF1FF 12, entry 0x10E7 0xF1FF 14,
     entry 0x10F8 0xF1FF 16, entry 0x10F9 0xF1FF 20, entry 0x10FA 0xF1FF 16, entry 0x10FB 0xF1FF 18,
     entry 0x10FC 0xF1FF 12, entry 0x111F 0xF1FF 12, entry 0x1127 0xF1FF 14, entry 0x1138 0xF1FF 16,
     entry 0x1139 0xF1FF 20, entry 0x113A 0xF1FF 16, entry 0x113B 0xF1FF 18, entry 0x113C 0xF1FF 12,
     entry 0x115F 0xF1FF 16, entry 0x1167 0xF1FF 18, entry 0x1178 0xF1FF 20, entry 0x1179 0xF1FF 24,
     entry 0x117A 0xF1FF 20, entry 0x117B 0xF1FF 22, entry 0x117C 0xF1FF 16, entry 0x119F 0xF1FF 18,
     entry 0x11A7 0xF1FF 20, entry 0x11B8 0xF1FF 22, entry 0x11B9 0xF1FF 26, entry 0x11BA 0xF1FF 22,
     entry 0x11BB 0xF1FF 24, entry 0x11BC 0xF1FF 18, entry 0x2038 0xF1FF 16, entry 0x2039 0xF1FF 20,
     entry 0x203A 0xF1FF 16, entry 0x203B 0xF1FF 18, entry 0x203C 0xF1FF 12, entry 0x2078 0xF1FF 16,
     entry 0x2079 0xF1FF 20, entry 0x207A 0xF1FF 16, entry 0x207B 0xF1FF 18, entry 0x207C 0xF1FF 12,
     entry 0x20B8 0xF1FF 24, entry 0x20B9 0xF1FF 28, entry 0x20BA 0xF1FF 24, entry 0x20BB 0xF1FF 26,
     entry 0x20BC 0xF1FF 20, entry 0x20F8 0xF1FF 24, entry 0x20F9 0xF1FF 28, entry 0x20FA 0xF1FF 24,
     entry 0x20FB 0xF1FF 26, entry 0x20FC 0xF1FF 20, entry 0x2138 0xF1FF 24, entry 0x2139 0xF1FF 28,
     entry 0x213A 0xF1FF 24, entry 0x213B 0xF1FF 26, entry 0x213C 0xF1FF 20, entry 0x2178 0xF1FF 28,
     entry 0x2179 0xF1FF 32, entry 0x217A 0xF1FF 28, entry 0x217B 0xF1FF 30, entry 0x217C 0xF1FF 24,
     entry 0x21B8 0xF1FF 30, entry 0x21B9 0xF1FF 34, entry 0x21BA 0xF1FF 30, entry 0x21BB 0xF1FF 32,
     entry 0x21BC 0xF1FF 26, entry 0x3038 0xF1FF 12, entry 0x3039 0xF1FF 16, entry 0x303A 0xF1FF 12,
     entry 0x303B 0xF1FF 14, entry 0x303C 0xF1FF 8, entry 0x3078 0xF1FF 12, entry 0x3079 0xF1FF 16,
     entry 0x307A 0xF1FF 12, entry 0x307B 0xF1FF 14, entry 0x307C 0xF1FF 8, entry 0x30B8 0xF1FF 16,
     entry 0x30B9 0xF1FF 20, entry 0x30BA 0xF1FF 16, entry 0x30BB 0xF1FF 18, entry 0x30BC 0xF1FF 12,
     entry 0x30F8 0xF1FF 16, entry 0x30F9 0xF1FF 20, entry 0x30FA 0xF1FF 16, entry 0x30FB 0xF1FF 18,
     entry 0x30FC 0xF1FF 12, entry 0x3138 0xF1FF 16, entry 0x3139 0xF1FF 20, entry 0x313A 0xF1FF 16,
     entry 0x313B 0xF1FF 18, entry 0x313C 0xF1FF 12, entry 0x3178 0xF1FF 20, entry 0x3179 0xF1FF 24,
     entry 0x317A 0xF1FF 20, entry 0x317B 0xF1FF 22, entry 0x317C 0xF1FF 16, entry 0x31B8 0xF1FF 22,
     entry 0x31B9 0xF1FF 26, entry 0x31BA 0xF1FF 22, entry 0x31BB 0xF1FF 24, entry 0x31BC 0xF1FF 18,
     entry 0x41B8 0xF1FF 18, entry 0x41B9 0xF1FF 22, entry 0x41BA 0xF1FF 18, entry 0x41BB 0xF1FF 20,
     entry 0x41BC 0xF1FF 14, entry 0x41F8 0xF1FF 8, entry 0x41F9 0xF1FF 12, entry 0x41FA 0xF1FF 8,
     entry 0x41FB 0xF1FF 12, entry 0x501F 0xF1FF 12, entry 0x5027 0xF1FF 14, entry 0x5038 0xF1FF 16,
     entry 0x5039 0xF1FF 20, entry 0x5078 0xF1FF 16, entry 0x5079 0xF1FF 20, entry 0x50B8 0xF1FF 24,
     entry 0x50B9 0xF1FF 28, entry 0x511F 0xF1FF 12, entry 0x5127 0xF1FF 14, entry 0x5138 0xF1FF 16,
     entry 0x5139 0xF1FF 20, entry 0x5178 0xF1FF 16, entry 0x5179 0xF1FF 20, entry 0x51B8 0xF1FF 24,
     entry 0x51B9 0xF1FF 28, entry 0x801F 0xF1FF 8, entry 0x8027 0xF1FF 10, entry 0x8038 0xF1FF 12,
     entry 0x8039 0xF1FF 16, entry 0x803A 0xF1FF 12, entry 0x803B 0xF1FF 14, entry 0x803C 0xF1FF 8,
     entry 0x8078 0xF1FF 12, entry 0x8079 0xF1FF 16, entry 0x807A 0xF1FF 12, entry 0x807B 0xF1FF 14,
     entry 0x807C 0xF1FF 8, entry 0x80B8 0xF1FF 18]"

definition cycle_entries_6 :: "ng_m68k_cycle_entry list" where
  "cycle_entries_6 =
    [entry 0x80B9 0xF1FF 22, entry 0x80BA 0xF1FF 18, entry 0x80BB 0xF1FF 20, entry 0x80BC 0xF1FF 16,
     entry 0x80F8 0xF1FF 148, entry 0x80F9 0xF1FF 152, entry 0x80FA 0xF1FF 148, entry 0x80FB 0xF1FF 150,
     entry 0x80FC 0xF1FF 144, entry 0x810F 0xF1FF 18, entry 0x811F 0xF1FF 12, entry 0x8127 0xF1FF 14,
     entry 0x8138 0xF1FF 16, entry 0x8139 0xF1FF 20, entry 0x8178 0xF1FF 16, entry 0x8179 0xF1FF 20,
     entry 0x81B8 0xF1FF 24, entry 0x81B9 0xF1FF 28, entry 0x81F8 0xF1FF 166, entry 0x81F9 0xF1FF 170,
     entry 0x81FA 0xF1FF 166, entry 0x81FB 0xF1FF 168, entry 0x81FC 0xF1FF 162, entry 0x901F 0xF1FF 8,
     entry 0x9027 0xF1FF 10, entry 0x9038 0xF1FF 12, entry 0x9039 0xF1FF 16, entry 0x903A 0xF1FF 12,
     entry 0x903B 0xF1FF 14, entry 0x903C 0xF1FF 8, entry 0x9078 0xF1FF 12, entry 0x9079 0xF1FF 16,
     entry 0x907A 0xF1FF 12, entry 0x907B 0xF1FF 14, entry 0x907C 0xF1FF 8, entry 0x90B8 0xF1FF 18,
     entry 0x90B9 0xF1FF 22, entry 0x90BA 0xF1FF 18, entry 0x90BB 0xF1FF 20, entry 0x90BC 0xF1FF 16,
     entry 0x90F8 0xF1FF 16, entry 0x90F9 0xF1FF 20, entry 0x90FA 0xF1FF 16, entry 0x90FB 0xF1FF 18,
     entry 0x90FC 0xF1FF 12, entry 0x910F 0xF1FF 18, entry 0x911F 0xF1FF 12, entry 0x9127 0xF1FF 14,
     entry 0x9138 0xF1FF 16, entry 0x9139 0xF1FF 20, entry 0x9178 0xF1FF 16, entry 0x9179 0xF1FF 20,
     entry 0x91B8 0xF1FF 24, entry 0x91B9 0xF1FF 28, entry 0x91F8 0xF1FF 18, entry 0x91F9 0xF1FF 22,
     entry 0x91FA 0xF1FF 18, entry 0x91FB 0xF1FF 20, entry 0x91FC 0xF1FF 16, entry 0xB01F 0xF1FF 8,
     entry 0xB027 0xF1FF 10, entry 0xB038 0xF1FF 12, entry 0xB039 0xF1FF 16, entry 0xB03A 0xF1FF 12,
     entry 0xB03B 0xF1FF 14, entry 0xB03C 0xF1FF 8, entry 0xB078 0xF1FF 12, entry 0xB079 0xF1FF 16,
     entry 0xB07A 0xF1FF 12, entry 0xB07B 0xF1FF 14, entry 0xB07C 0xF1FF 8, entry 0xB0B8 0xF1FF 18,
     entry 0xB0B9 0xF1FF 22, entry 0xB0BA 0xF1FF 18, entry 0xB0BB 0xF1FF 20, entry 0xB0BC 0xF1FF 14,
     entry 0xB0F8 0xF1FF 14, entry 0xB0F9 0xF1FF 18, entry 0xB0FA 0xF1FF 14, entry 0xB0FB 0xF1FF 16,
     entry 0xB0FC 0xF1FF 10, entry 0xB10F 0xF1FF 12, entry 0xB11F 0xF1FF 12, entry 0xB127 0xF1FF 14,
     entry 0xB138 0xF1FF 16, entry 0xB139 0xF1FF 20, entry 0xB178 0xF1FF 16, entry 0xB179 0xF1FF 20,
     entry 0xB1B8 0xF1FF 24, entry 0xB1B9 0xF1FF 28, entry 0xB1F8 0xF1FF 18, entry 0xB1F9 0xF1FF 22,
     entry 0xB1FA 0xF1FF 18, entry 0xB1FB 0xF1FF 20, entry 0xB1FC 0xF1FF 14, entry 0xC01F 0xF1FF 8,
     entry 0xC027 0xF1FF 10, entry 0xC038 0xF1FF 12, entry 0xC039 0xF1FF 16, entry 0xC03A 0xF1FF 12,
     entry 0xC03B 0xF1FF 14, entry 0xC03C 0xF1FF 8, entry 0xC078 0xF1FF 12, entry 0xC079 0xF1FF 16,
     entry 0xC07A 0xF1FF 12, entry 0xC07B 0xF1FF 14, entry 0xC07C 0xF1FF 8, entry 0xC0B8 0xF1FF 18,
     entry 0xC0B9 0xF1FF 22, entry 0xC0BA 0xF1FF 18, entry 0xC0BB 0xF1FF 20, entry 0xC0BC 0xF1FF 16,
     entry 0xC0F8 0xF1FF 62, entry 0xC0F9 0xF1FF 66, entry 0xC0FA 0xF1FF 62, entry 0xC0FB 0xF1FF 64,
     entry 0xC0FC 0xF1FF 58, entry 0xC10F 0xF1FF 18, entry 0xC11F 0xF1FF 12, entry 0xC127 0xF1FF 14,
     entry 0xC138 0xF1FF 16, entry 0xC139 0xF1FF 20, entry 0xC178 0xF1FF 16, entry 0xC179 0xF1FF 20,
     entry 0xC1B8 0xF1FF 24, entry 0xC1B9 0xF1FF 28, entry 0xC1F8 0xF1FF 62, entry 0xC1F9 0xF1FF 66,
     entry 0xC1FA 0xF1FF 62, entry 0xC1FB 0xF1FF 64, entry 0xC1FC 0xF1FF 58, entry 0xD01F 0xF1FF 8,
     entry 0xD027 0xF1FF 10, entry 0xD038 0xF1FF 12, entry 0xD039 0xF1FF 16, entry 0xD03A 0xF1FF 12,
     entry 0xD03B 0xF1FF 14, entry 0xD03C 0xF1FF 8, entry 0xD078 0xF1FF 12, entry 0xD079 0xF1FF 16,
     entry 0xD07A 0xF1FF 12, entry 0xD07B 0xF1FF 14]"

definition cycle_entries_7 :: "ng_m68k_cycle_entry list" where
  "cycle_entries_7 =
    [entry 0xD07C 0xF1FF 8, entry 0xD0B8 0xF1FF 18, entry 0xD0B9 0xF1FF 22, entry 0xD0BA 0xF1FF 18,
     entry 0xD0BB 0xF1FF 20, entry 0xD0BC 0xF1FF 16, entry 0xD0F8 0xF1FF 16, entry 0xD0F9 0xF1FF 20,
     entry 0xD0FA 0xF1FF 16, entry 0xD0FB 0xF1FF 18, entry 0xD0FC 0xF1FF 12, entry 0xD10F 0xF1FF 18,
     entry 0xD11F 0xF1FF 12, entry 0xD127 0xF1FF 14, entry 0xD138 0xF1FF 16, entry 0xD139 0xF1FF 20,
     entry 0xD178 0xF1FF 16, entry 0xD179 0xF1FF 20, entry 0xD1B8 0xF1FF 24, entry 0xD1B9 0xF1FF 28,
     entry 0xD1F8 0xF1FF 18, entry 0xD1F9 0xF1FF 22, entry 0xD1FA 0xF1FF 18, entry 0xD1FB 0xF1FF 20,
     entry 0xD1FC 0xF1FF 16, entry 0x0000 0xFFF8 8, entry 0x0010 0xFFF8 16, entry 0x0018 0xFFF8 16,
     entry 0x0020 0xFFF8 18, entry 0x0028 0xFFF8 20, entry 0x0030 0xFFF8 22, entry 0x0040 0xFFF8 8,
     entry 0x0050 0xFFF8 16, entry 0x0058 0xFFF8 16, entry 0x0060 0xFFF8 18, entry 0x0068 0xFFF8 20,
     entry 0x0070 0xFFF8 22, entry 0x0080 0xFFF8 16, entry 0x0090 0xFFF8 28, entry 0x0098 0xFFF8 28,
     entry 0x00A0 0xFFF8 30, entry 0x00A8 0xFFF8 32, entry 0x00B0 0xFFF8 34, entry 0x0200 0xFFF8 8,
     entry 0x0210 0xFFF8 16, entry 0x0218 0xFFF8 16, entry 0x0220 0xFFF8 18, entry 0x0228 0xFFF8 20,
     entry 0x0230 0xFFF8 22, entry 0x0240 0xFFF8 8, entry 0x0250 0xFFF8 16, entry 0x0258 0xFFF8 16,
     entry 0x0260 0xFFF8 18, entry 0x0268 0xFFF8 20, entry 0x0270 0xFFF8 22, entry 0x0280 0xFFF8 14,
     entry 0x0290 0xFFF8 28, entry 0x0298 0xFFF8 28, entry 0x02A0 0xFFF8 30, entry 0x02A8 0xFFF8 32,
     entry 0x02B0 0xFFF8 34, entry 0x0400 0xFFF8 8, entry 0x0410 0xFFF8 16, entry 0x0418 0xFFF8 16,
     entry 0x0420 0xFFF8 18, entry 0x0428 0xFFF8 20, entry 0x0430 0xFFF8 22, entry 0x0440 0xFFF8 8,
     entry 0x0450 0xFFF8 16, entry 0x0458 0xFFF8 16, entry 0x0460 0xFFF8 18, entry 0x0468 0xFFF8 20,
     entry 0x0470 0xFFF8 22, entry 0x0480 0xFFF8 16, entry 0x0490 0xFFF8 28, entry 0x0498 0xFFF8 28,
     entry 0x04A0 0xFFF8 30, entry 0x04A8 0xFFF8 32, entry 0x04B0 0xFFF8 34, entry 0x0600 0xFFF8 8,
     entry 0x0610 0xFFF8 16, entry 0x0618 0xFFF8 16, entry 0x0620 0xFFF8 18, entry 0x0628 0xFFF8 20,
     entry 0x0630 0xFFF8 22, entry 0x0640 0xFFF8 8, entry 0x0650 0xFFF8 16, entry 0x0658 0xFFF8 16,
     entry 0x0660 0xFFF8 18, entry 0x0668 0xFFF8 20, entry 0x0670 0xFFF8 22, entry 0x0680 0xFFF8 16,
     entry 0x0690 0xFFF8 28, entry 0x0698 0xFFF8 28, entry 0x06A0 0xFFF8 30, entry 0x06A8 0xFFF8 32,
     entry 0x06B0 0xFFF8 34, entry 0x0800 0xFFF8 10, entry 0x0810 0xFFF8 12, entry 0x0818 0xFFF8 12,
     entry 0x0820 0xFFF8 14, entry 0x0828 0xFFF8 16, entry 0x0830 0xFFF8 18, entry 0x0840 0xFFF8 12,
     entry 0x0850 0xFFF8 16, entry 0x0858 0xFFF8 16, entry 0x0860 0xFFF8 18, entry 0x0868 0xFFF8 20,
     entry 0x0870 0xFFF8 22, entry 0x0880 0xFFF8 14, entry 0x0890 0xFFF8 16, entry 0x0898 0xFFF8 16,
     entry 0x08A0 0xFFF8 18, entry 0x08A8 0xFFF8 20, entry 0x08B0 0xFFF8 22, entry 0x08C0 0xFFF8 12,
     entry 0x08D0 0xFFF8 16, entry 0x08D8 0xFFF8 16, entry 0x08E0 0xFFF8 18, entry 0x08E8 0xFFF8 20,
     entry 0x08F0 0xFFF8 22, entry 0x0A00 0xFFF8 8, entry 0x0A10 0xFFF8 16, entry 0x0A18 0xFFF8 16,
     entry 0x0A20 0xFFF8 18, entry 0x0A28 0xFFF8 20, entry 0x0A30 0xFFF8 22, entry 0x0A40 0xFFF8 8,
     entry 0x0A50 0xFFF8 16, entry 0x0A58 0xFFF8 16, entry 0x0A60 0xFFF8 18, entry 0x0A68 0xFFF8 20,
     entry 0x0A70 0xFFF8 22, entry 0x0A80 0xFFF8 16, entry 0x0A90 0xFFF8 28, entry 0x0A98 0xFFF8 28,
     entry 0x0AA0 0xFFF8 30, entry 0x0AA8 0xFFF8 32, entry 0x0AB0 0xFFF8 34, entry 0x0C00 0xFFF8 8,
     entry 0x0C10 0xFFF8 12, entry 0x0C18 0xFFF8 12]"

definition cycle_entries_8 :: "ng_m68k_cycle_entry list" where
  "cycle_entries_8 =
    [entry 0x0C20 0xFFF8 14, entry 0x0C28 0xFFF8 16, entry 0x0C30 0xFFF8 18, entry 0x0C40 0xFFF8 8,
     entry 0x0C50 0xFFF8 12, entry 0x0C58 0xFFF8 12, entry 0x0C60 0xFFF8 14, entry 0x0C68 0xFFF8 16,
     entry 0x0C70 0xFFF8 18, entry 0x0C80 0xFFF8 14, entry 0x0C90 0xFFF8 20, entry 0x0C98 0xFFF8 20,
     entry 0x0CA0 0xFFF8 22, entry 0x0CA8 0xFFF8 24, entry 0x0CB0 0xFFF8 26, entry 0x11C0 0xFFF8 12,
     entry 0x11D0 0xFFF8 16, entry 0x11D8 0xFFF8 16, entry 0x11E0 0xFFF8 18, entry 0x11E8 0xFFF8 20,
     entry 0x11F0 0xFFF8 22, entry 0x13C0 0xFFF8 16, entry 0x13D0 0xFFF8 20, entry 0x13D8 0xFFF8 20,
     entry 0x13E0 0xFFF8 22, entry 0x13E8 0xFFF8 24, entry 0x13F0 0xFFF8 26, entry 0x1EC0 0xFFF8 8,
     entry 0x1ED0 0xFFF8 12, entry 0x1ED8 0xFFF8 12, entry 0x1EE0 0xFFF8 14, entry 0x1EE8 0xFFF8 16,
     entry 0x1EF0 0xFFF8 18, entry 0x1F00 0xFFF8 8, entry 0x1F10 0xFFF8 12, entry 0x1F18 0xFFF8 12,
     entry 0x1F20 0xFFF8 14, entry 0x1F28 0xFFF8 16, entry 0x1F30 0xFFF8 18, entry 0x21C0 0xFFF8 16,
     entry 0x21C8 0xFFF8 16, entry 0x21D0 0xFFF8 24, entry 0x21D8 0xFFF8 24, entry 0x21E0 0xFFF8 26,
     entry 0x21E8 0xFFF8 28, entry 0x21F0 0xFFF8 30, entry 0x23C0 0xFFF8 20, entry 0x23C8 0xFFF8 20,
     entry 0x23D0 0xFFF8 28, entry 0x23D8 0xFFF8 28, entry 0x23E0 0xFFF8 30, entry 0x23E8 0xFFF8 32,
     entry 0x23F0 0xFFF8 34, entry 0x31C0 0xFFF8 12, entry 0x31C8 0xFFF8 12, entry 0x31D0 0xFFF8 16,
     entry 0x31D8 0xFFF8 16, entry 0x31E0 0xFFF8 18, entry 0x31E8 0xFFF8 20, entry 0x31F0 0xFFF8 22,
     entry 0x33C0 0xFFF8 16, entry 0x33C8 0xFFF8 16, entry 0x33D0 0xFFF8 20, entry 0x33D8 0xFFF8 20,
     entry 0x33E0 0xFFF8 22, entry 0x33E8 0xFFF8 24, entry 0x33F0 0xFFF8 26, entry 0x4000 0xFFF8 4,
     entry 0x4010 0xFFF8 12, entry 0x4018 0xFFF8 12, entry 0x4020 0xFFF8 14, entry 0x4028 0xFFF8 16,
     entry 0x4030 0xFFF8 18, entry 0x4040 0xFFF8 4, entry 0x4050 0xFFF8 12, entry 0x4058 0xFFF8 12,
     entry 0x4060 0xFFF8 14, entry 0x4068 0xFFF8 16, entry 0x4070 0xFFF8 18, entry 0x4080 0xFFF8 6,
     entry 0x4090 0xFFF8 20, entry 0x4098 0xFFF8 20, entry 0x40A0 0xFFF8 22, entry 0x40A8 0xFFF8 24,
     entry 0x40B0 0xFFF8 26, entry 0x40C0 0xFFF8 6, entry 0x40D0 0xFFF8 12, entry 0x40D8 0xFFF8 12,
     entry 0x40E0 0xFFF8 14, entry 0x40E8 0xFFF8 16, entry 0x40F0 0xFFF8 18, entry 0x4200 0xFFF8 4,
     entry 0x4210 0xFFF8 12, entry 0x4218 0xFFF8 12, entry 0x4220 0xFFF8 14, entry 0x4228 0xFFF8 16,
     entry 0x4230 0xFFF8 18, entry 0x4240 0xFFF8 4, entry 0x4250 0xFFF8 12, entry 0x4258 0xFFF8 12,
     entry 0x4260 0xFFF8 14, entry 0x4268 0xFFF8 16, entry 0x4270 0xFFF8 18, entry 0x4280 0xFFF8 6,
     entry 0x4290 0xFFF8 20, entry 0x4298 0xFFF8 20, entry 0x42A0 0xFFF8 22, entry 0x42A8 0xFFF8 24,
     entry 0x42B0 0xFFF8 26, entry 0x4400 0xFFF8 4, entry 0x4410 0xFFF8 12, entry 0x4418 0xFFF8 12,
     entry 0x4420 0xFFF8 14, entry 0x4428 0xFFF8 16, entry 0x4430 0xFFF8 18, entry 0x4440 0xFFF8 4,
     entry 0x4450 0xFFF8 12, entry 0x4458 0xFFF8 12, entry 0x4460 0xFFF8 14, entry 0x4468 0xFFF8 16,
     entry 0x4470 0xFFF8 18, entry 0x4480 0xFFF8 6, entry 0x4490 0xFFF8 20, entry 0x4498 0xFFF8 20,
     entry 0x44A0 0xFFF8 22, entry 0x44A8 0xFFF8 24, entry 0x44B0 0xFFF8 26, entry 0x44C0 0xFFF8 12,
     entry 0x44D0 0xFFF8 16, entry 0x44D8 0xFFF8 16, entry 0x44E0 0xFFF8 18, entry 0x44E8 0xFFF8 20,
     entry 0x44F0 0xFFF8 22, entry 0x4600 0xFFF8 4, entry 0x4610 0xFFF8 12, entry 0x4618 0xFFF8 12,
     entry 0x4620 0xFFF8 14, entry 0x4628 0xFFF8 16, entry 0x4630 0xFFF8 18, entry 0x4640 0xFFF8 4,
     entry 0x4650 0xFFF8 12, entry 0x4658 0xFFF8 12]"

definition cycle_entries_9 :: "ng_m68k_cycle_entry list" where
  "cycle_entries_9 =
    [entry 0x4660 0xFFF8 14, entry 0x4668 0xFFF8 16, entry 0x4670 0xFFF8 18, entry 0x4680 0xFFF8 6,
     entry 0x4690 0xFFF8 20, entry 0x4698 0xFFF8 20, entry 0x46A0 0xFFF8 22, entry 0x46A8 0xFFF8 24,
     entry 0x46B0 0xFFF8 26, entry 0x46C0 0xFFF8 12, entry 0x46D0 0xFFF8 16, entry 0x46D8 0xFFF8 16,
     entry 0x46E0 0xFFF8 18, entry 0x46E8 0xFFF8 20, entry 0x46F0 0xFFF8 22, entry 0x4800 0xFFF8 6,
     entry 0x4810 0xFFF8 12, entry 0x4818 0xFFF8 12, entry 0x4820 0xFFF8 14, entry 0x4828 0xFFF8 16,
     entry 0x4830 0xFFF8 18, entry 0x4840 0xFFF8 4, entry 0x4850 0xFFF8 12, entry 0x4868 0xFFF8 16,
     entry 0x4870 0xFFF8 20, entry 0x4880 0xFFF8 4, entry 0x4890 0xFFF8 8, entry 0x48A0 0xFFF8 8,
     entry 0x48A8 0xFFF8 12, entry 0x48B0 0xFFF8 14, entry 0x48C0 0xFFF8 4, entry 0x48D0 0xFFF8 8,
     entry 0x48E0 0xFFF8 8, entry 0x48E8 0xFFF8 12, entry 0x48F0 0xFFF8 14, entry 0x4A00 0xFFF8 4,
     entry 0x4A10 0xFFF8 8, entry 0x4A18 0xFFF8 8, entry 0x4A20 0xFFF8 10, entry 0x4A28 0xFFF8 12,
     entry 0x4A30 0xFFF8 14, entry 0x4A40 0xFFF8 4, entry 0x4A50 0xFFF8 8, entry 0x4A58 0xFFF8 8,
     entry 0x4A60 0xFFF8 10, entry 0x4A68 0xFFF8 12, entry 0x4A70 0xFFF8 14, entry 0x4A80 0xFFF8 4,
     entry 0x4A90 0xFFF8 12, entry 0x4A98 0xFFF8 12, entry 0x4AA0 0xFFF8 14, entry 0x4AA8 0xFFF8 16,
     entry 0x4AB0 0xFFF8 18, entry 0x4AC0 0xFFF8 4, entry 0x4AD0 0xFFF8 18, entry 0x4AD8 0xFFF8 18,
     entry 0x4AE0 0xFFF8 20, entry 0x4AE8 0xFFF8 22, entry 0x4AF0 0xFFF8 24, entry 0x4C90 0xFFF8 12,
     entry 0x4C98 0xFFF8 12, entry 0x4CA8 0xFFF8 16, entry 0x4CB0 0xFFF8 18, entry 0x4CD0 0xFFF8 12,
     entry 0x4CD8 0xFFF8 12, entry 0x4CE8 0xFFF8 16, entry 0x4CF0 0xFFF8 18, entry 0x4E50 0xFFF8 16,
     entry 0x4E58 0xFFF8 12, entry 0x4E60 0xFFF8 4, entry 0x4E68 0xFFF8 4, entry 0x4E90 0xFFF8 16,
     entry 0x4EA8 0xFFF8 18, entry 0x4EB0 0xFFF8 22, entry 0x4ED0 0xFFF8 8, entry 0x4EE8 0xFFF8 10,
     entry 0x4EF0 0xFFF8 14, entry 0x50C0 0xFFF8 6, entry 0x50C8 0xFFF8 12, entry 0x50D0 0xFFF8 12,
     entry 0x50D8 0xFFF8 12, entry 0x50E0 0xFFF8 14, entry 0x50E8 0xFFF8 16, entry 0x50F0 0xFFF8 18,
     entry 0x51C0 0xFFF8 4, entry 0x51C8 0xFFF8 12, entry 0x51D0 0xFFF8 12, entry 0x51D8 0xFFF8 12,
     entry 0x51E0 0xFFF8 14, entry 0x51E8 0xFFF8 16, entry 0x51F0 0xFFF8 18, entry 0x52C0 0xFFF8 4,
     entry 0x52C8 0xFFF8 12, entry 0x52D0 0xFFF8 12, entry 0x52D8 0xFFF8 12, entry 0x52E0 0xFFF8 14,
     entry 0x52E8 0xFFF8 16, entry 0x52F0 0xFFF8 18, entry 0x53C0 0xFFF8 4, entry 0x53C8 0xFFF8 12,
     entry 0x53D0 0xFFF8 12, entry 0x53D8 0xFFF8 12, entry 0x53E0 0xFFF8 14, entry 0x53E8 0xFFF8 16,
     entry 0x53F0 0xFFF8 18, entry 0x54C0 0xFFF8 4, entry 0x54C8 0xFFF8 12, entry 0x54D0 0xFFF8 12,
     entry 0x54D8 0xFFF8 12, entry 0x54E0 0xFFF8 14, entry 0x54E8 0xFFF8 16, entry 0x54F0 0xFFF8 18,
     entry 0x55C0 0xFFF8 4, entry 0x55C8 0xFFF8 12, entry 0x55D0 0xFFF8 12, entry 0x55D8 0xFFF8 12,
     entry 0x55E0 0xFFF8 14, entry 0x55E8 0xFFF8 16, entry 0x55F0 0xFFF8 18, entry 0x56C0 0xFFF8 4,
     entry 0x56C8 0xFFF8 12, entry 0x56D0 0xFFF8 12, entry 0x56D8 0xFFF8 12, entry 0x56E0 0xFFF8 14,
     entry 0x56E8 0xFFF8 16, entry 0x56F0 0xFFF8 18, entry 0x57C0 0xFFF8 4, entry 0x57C8 0xFFF8 12,
     entry 0x57D0 0xFFF8 12, entry 0x57D8 0xFFF8 12, entry 0x57E0 0xFFF8 14, entry 0x57E8 0xFFF8 16,
     entry 0x57F0 0xFFF8 18, entry 0x58C0 0xFFF8 4, entry 0x58C8 0xFFF8 12, entry 0x58D0 0xFFF8 12,
     entry 0x58D8 0xFFF8 12, entry 0x58E0 0xFFF8 14, entry 0x58E8 0xFFF8 16, entry 0x58F0 0xFFF8 18,
     entry 0x59C0 0xFFF8 4, entry 0x59C8 0xFFF8 12]"

definition cycle_entries_10 :: "ng_m68k_cycle_entry list" where
  "cycle_entries_10 =
    [entry 0x59D0 0xFFF8 12, entry 0x59D8 0xFFF8 12, entry 0x59E0 0xFFF8 14, entry 0x59E8 0xFFF8 16,
     entry 0x59F0 0xFFF8 18, entry 0x5AC0 0xFFF8 4, entry 0x5AC8 0xFFF8 12, entry 0x5AD0 0xFFF8 12,
     entry 0x5AD8 0xFFF8 12, entry 0x5AE0 0xFFF8 14, entry 0x5AE8 0xFFF8 16, entry 0x5AF0 0xFFF8 18,
     entry 0x5BC0 0xFFF8 4, entry 0x5BC8 0xFFF8 12, entry 0x5BD0 0xFFF8 12, entry 0x5BD8 0xFFF8 12,
     entry 0x5BE0 0xFFF8 14, entry 0x5BE8 0xFFF8 16, entry 0x5BF0 0xFFF8 18, entry 0x5CC0 0xFFF8 4,
     entry 0x5CC8 0xFFF8 12, entry 0x5CD0 0xFFF8 12, entry 0x5CD8 0xFFF8 12, entry 0x5CE0 0xFFF8 14,
     entry 0x5CE8 0xFFF8 16, entry 0x5CF0 0xFFF8 18, entry 0x5DC0 0xFFF8 4, entry 0x5DC8 0xFFF8 12,
     entry 0x5DD0 0xFFF8 12, entry 0x5DD8 0xFFF8 12, entry 0x5DE0 0xFFF8 14, entry 0x5DE8 0xFFF8 16,
     entry 0x5DF0 0xFFF8 18, entry 0x5EC0 0xFFF8 4, entry 0x5EC8 0xFFF8 12, entry 0x5ED0 0xFFF8 12,
     entry 0x5ED8 0xFFF8 12, entry 0x5EE0 0xFFF8 14, entry 0x5EE8 0xFFF8 16, entry 0x5EF0 0xFFF8 18,
     entry 0x5FC0 0xFFF8 4, entry 0x5FC8 0xFFF8 12, entry 0x5FD0 0xFFF8 12, entry 0x5FD8 0xFFF8 12,
     entry 0x5FE0 0xFFF8 14, entry 0x5FE8 0xFFF8 16, entry 0x5FF0 0xFFF8 18, entry 0x8F08 0xFFF8 18,
     entry 0x9F08 0xFFF8 18, entry 0xBF08 0xFFF8 12, entry 0xCF08 0xFFF8 18, entry 0xDF08 0xFFF8 18,
     entry 0xE0D0 0xFFF8 12, entry 0xE0D8 0xFFF8 12, entry 0xE0E0 0xFFF8 14, entry 0xE0E8 0xFFF8 16,
     entry 0xE0F0 0xFFF8 18, entry 0xE1D0 0xFFF8 12, entry 0xE1D8 0xFFF8 12, entry 0xE1E0 0xFFF8 14,
     entry 0xE1E8 0xFFF8 16, entry 0xE1F0 0xFFF8 18, entry 0xE2D0 0xFFF8 12, entry 0xE2D8 0xFFF8 12,
     entry 0xE2E0 0xFFF8 14, entry 0xE2E8 0xFFF8 16, entry 0xE2F0 0xFFF8 18, entry 0xE3D0 0xFFF8 12,
     entry 0xE3D8 0xFFF8 12, entry 0xE3E0 0xFFF8 14, entry 0xE3E8 0xFFF8 16, entry 0xE3F0 0xFFF8 18,
     entry 0xE4D0 0xFFF8 12, entry 0xE4D8 0xFFF8 12, entry 0xE4E0 0xFFF8 14, entry 0xE4E8 0xFFF8 16,
     entry 0xE4F0 0xFFF8 18, entry 0xE5D0 0xFFF8 12, entry 0xE5D8 0xFFF8 12, entry 0xE5E0 0xFFF8 14,
     entry 0xE5E8 0xFFF8 16, entry 0xE5F0 0xFFF8 18, entry 0xE6D0 0xFFF8 12, entry 0xE6D8 0xFFF8 12,
     entry 0xE6E0 0xFFF8 14, entry 0xE6E8 0xFFF8 16, entry 0xE6F0 0xFFF8 18, entry 0xE7D0 0xFFF8 12,
     entry 0xE7D8 0xFFF8 12, entry 0xE7E0 0xFFF8 14, entry 0xE7E8 0xFFF8 16, entry 0xE7F0 0xFFF8 18,
     entry 0x001F 0xFFFF 16, entry 0x0027 0xFFFF 18, entry 0x0038 0xFFFF 20, entry 0x0039 0xFFFF 24,
     entry 0x003C 0xFFFF 20, entry 0x0078 0xFFFF 20, entry 0x0079 0xFFFF 24, entry 0x007C 0xFFFF 20,
     entry 0x00B8 0xFFFF 32, entry 0x00B9 0xFFFF 36, entry 0x021F 0xFFFF 16, entry 0x0227 0xFFFF 18,
     entry 0x0238 0xFFFF 20, entry 0x0239 0xFFFF 24, entry 0x023C 0xFFFF 20, entry 0x0278 0xFFFF 20,
     entry 0x0279 0xFFFF 24, entry 0x027C 0xFFFF 20, entry 0x02B8 0xFFFF 32, entry 0x02B9 0xFFFF 36,
     entry 0x041F 0xFFFF 16, entry 0x0427 0xFFFF 18, entry 0x0438 0xFFFF 20, entry 0x0439 0xFFFF 24,
     entry 0x0478 0xFFFF 20, entry 0x0479 0xFFFF 24, entry 0x04B8 0xFFFF 32, entry 0x04B9 0xFFFF 36,
     entry 0x061F 0xFFFF 16, entry 0x0627 0xFFFF 18, entry 0x0638 0xFFFF 20, entry 0x0639 0xFFFF 24,
     entry 0x0678 0xFFFF 20, entry 0x0679 0xFFFF 24, entry 0x06B8 0xFFFF 32, entry 0x06B9 0xFFFF 36,
     entry 0x081F 0xFFFF 12, entry 0x0827 0xFFFF 14, entry 0x0838 0xFFFF 16, entry 0x0839 0xFFFF 20,
     entry 0x083A 0xFFFF 16, entry 0x083B 0xFFFF 18, entry 0x085F 0xFFFF 16, entry 0x0867 0xFFFF 18,
     entry 0x0878 0xFFFF 20, entry 0x0879 0xFFFF 24, entry 0x089F 0xFFFF 16, entry 0x08A7 0xFFFF 18,
     entry 0x08B8 0xFFFF 20, entry 0x08B9 0xFFFF 24]"

definition cycle_entries_11 :: "ng_m68k_cycle_entry list" where
  "cycle_entries_11 =
    [entry 0x08DF 0xFFFF 16, entry 0x08E7 0xFFFF 18, entry 0x08F8 0xFFFF 20, entry 0x08F9 0xFFFF 24,
     entry 0x0A1F 0xFFFF 16, entry 0x0A27 0xFFFF 18, entry 0x0A38 0xFFFF 20, entry 0x0A39 0xFFFF 24,
     entry 0x0A3C 0xFFFF 20, entry 0x0A78 0xFFFF 20, entry 0x0A79 0xFFFF 24, entry 0x0A7C 0xFFFF 20,
     entry 0x0AB8 0xFFFF 32, entry 0x0AB9 0xFFFF 36, entry 0x0C1F 0xFFFF 12, entry 0x0C27 0xFFFF 14,
     entry 0x0C38 0xFFFF 16, entry 0x0C39 0xFFFF 20, entry 0x0C78 0xFFFF 16, entry 0x0C79 0xFFFF 20,
     entry 0x0CB8 0xFFFF 24, entry 0x0CB9 0xFFFF 28, entry 0x11DF 0xFFFF 16, entry 0x11E7 0xFFFF 18,
     entry 0x11F8 0xFFFF 20, entry 0x11F9 0xFFFF 24, entry 0x11FA 0xFFFF 20, entry 0x11FB 0xFFFF 22,
     entry 0x11FC 0xFFFF 16, entry 0x13DF 0xFFFF 20, entry 0x13E7 0xFFFF 22, entry 0x13F8 0xFFFF 24,
     entry 0x13F9 0xFFFF 28, entry 0x13FA 0xFFFF 24, entry 0x13FB 0xFFFF 26, entry 0x13FC 0xFFFF 20,
     entry 0x1EDF 0xFFFF 12, entry 0x1EE7 0xFFFF 14, entry 0x1EF8 0xFFFF 16, entry 0x1EF9 0xFFFF 20,
     entry 0x1EFA 0xFFFF 16, entry 0x1EFB 0xFFFF 18, entry 0x1EFC 0xFFFF 12, entry 0x1F1F 0xFFFF 12,
     entry 0x1F27 0xFFFF 14, entry 0x1F38 0xFFFF 16, entry 0x1F39 0xFFFF 20, entry 0x1F3A 0xFFFF 16,
     entry 0x1F3B 0xFFFF 18, entry 0x1F3C 0xFFFF 12, entry 0x21F8 0xFFFF 28, entry 0x21F9 0xFFFF 32,
     entry 0x21FA 0xFFFF 28, entry 0x21FB 0xFFFF 30, entry 0x21FC 0xFFFF 24, entry 0x23F8 0xFFFF 32,
     entry 0x23F9 0xFFFF 36, entry 0x23FA 0xFFFF 32, entry 0x23FB 0xFFFF 34, entry 0x23FC 0xFFFF 28,
     entry 0x31F8 0xFFFF 20, entry 0x31F9 0xFFFF 24, entry 0x31FA 0xFFFF 20, entry 0x31FB 0xFFFF 22,
     entry 0x31FC 0xFFFF 16, entry 0x33F8 0xFFFF 24, entry 0x33F9 0xFFFF 28, entry 0x33FA 0xFFFF 24,
     entry 0x33FB 0xFFFF 26, entry 0x33FC 0xFFFF 20, entry 0x401F 0xFFFF 12, entry 0x4027 0xFFFF 14,
     entry 0x4038 0xFFFF 16, entry 0x4039 0xFFFF 20, entry 0x4078 0xFFFF 16, entry 0x4079 0xFFFF 20,
     entry 0x40B8 0xFFFF 24, entry 0x40B9 0xFFFF 28, entry 0x40F8 0xFFFF 16, entry 0x40F9 0xFFFF 20,
     entry 0x421F 0xFFFF 12, entry 0x4227 0xFFFF 14, entry 0x4238 0xFFFF 16, entry 0x4239 0xFFFF 20,
     entry 0x4278 0xFFFF 16, entry 0x4279 0xFFFF 20, entry 0x42B8 0xFFFF 24, entry 0x42B9 0xFFFF 28,
     entry 0x441F 0xFFFF 12, entry 0x4427 0xFFFF 14, entry 0x4438 0xFFFF 16, entry 0x4439 0xFFFF 20,
     entry 0x4478 0xFFFF 16, entry 0x4479 0xFFFF 20, entry 0x44B8 0xFFFF 24, entry 0x44B9 0xFFFF 28,
     entry 0x44F8 0xFFFF 20, entry 0x44F9 0xFFFF 24, entry 0x44FA 0xFFFF 20, entry 0x44FB 0xFFFF 22,
     entry 0x44FC 0xFFFF 16, entry 0x461F 0xFFFF 12, entry 0x4627 0xFFFF 14, entry 0x4638 0xFFFF 16,
     entry 0x4639 0xFFFF 20, entry 0x4678 0xFFFF 16, entry 0x4679 0xFFFF 20, entry 0x46B8 0xFFFF 24,
     entry 0x46B9 0xFFFF 28, entry 0x46F8 0xFFFF 20, entry 0x46F9 0xFFFF 24, entry 0x46FA 0xFFFF 20,
     entry 0x46FB 0xFFFF 22, entry 0x46FC 0xFFFF 16, entry 0x481F 0xFFFF 12, entry 0x4827 0xFFFF 14,
     entry 0x4838 0xFFFF 16, entry 0x4839 0xFFFF 20, entry 0x4878 0xFFFF 16, entry 0x4879 0xFFFF 20,
     entry 0x487A 0xFFFF 16, entry 0x487B 0xFFFF 20, entry 0x48B8 0xFFFF 12, entry 0x48B9 0xFFFF 16,
     entry 0x48F8 0xFFFF 12, entry 0x48F9 0xFFFF 16, entry 0x4A1F 0xFFFF 8, entry 0x4A27 0xFFFF 10,
     entry 0x4A38 0xFFFF 12, entry 0x4A39 0xFFFF 16, entry 0x4A78 0xFFFF 12, entry 0x4A79 0xFFFF 16,
     entry 0x4AB8 0xFFFF 16, entry 0x4AB9 0xFFFF 20, entry 0x4ADF 0xFFFF 18, entry 0x4AE7 0xFFFF 20,
     entry 0x4AF8 0xFFFF 22, entry 0x4AF9 0xFFFF 26, entry 0x4AFC 0xFFFF 4, entry 0x4CB8 0xFFFF 16,
     entry 0x4CB9 0xFFFF 20, entry 0x4CBA 0xFFFF 16]"

definition cycle_entries_12 :: "ng_m68k_cycle_entry list" where
  "cycle_entries_12 =
    [entry 0x4CBB 0xFFFF 18, entry 0x4CF8 0xFFFF 16, entry 0x4CF9 0xFFFF 20, entry 0x4CFA 0xFFFF 16,
     entry 0x4CFB 0xFFFF 18, entry 0x4E57 0xFFFF 16, entry 0x4E5F 0xFFFF 12, entry 0x4E70 0xFFFF 0,
     entry 0x4E71 0xFFFF 4, entry 0x4E72 0xFFFF 4, entry 0x4E73 0xFFFF 20, entry 0x4E75 0xFFFF 16,
     entry 0x4E76 0xFFFF 4, entry 0x4E77 0xFFFF 20, entry 0x4EB8 0xFFFF 18, entry 0x4EB9 0xFFFF 20,
     entry 0x4EBA 0xFFFF 18, entry 0x4EBB 0xFFFF 22, entry 0x4EF8 0xFFFF 10, entry 0x4EF9 0xFFFF 12,
     entry 0x4EFA 0xFFFF 10, entry 0x4EFB 0xFFFF 14, entry 0x50DF 0xFFFF 12, entry 0x50E7 0xFFFF 14,
     entry 0x50F8 0xFFFF 16, entry 0x50F9 0xFFFF 20, entry 0x51DF 0xFFFF 12, entry 0x51E7 0xFFFF 14,
     entry 0x51F8 0xFFFF 16, entry 0x51F9 0xFFFF 20, entry 0x52DF 0xFFFF 12, entry 0x52E7 0xFFFF 14,
     entry 0x52F8 0xFFFF 16, entry 0x52F9 0xFFFF 20, entry 0x53DF 0xFFFF 12, entry 0x53E7 0xFFFF 14,
     entry 0x53F8 0xFFFF 16, entry 0x53F9 0xFFFF 20, entry 0x54DF 0xFFFF 12, entry 0x54E7 0xFFFF 14,
     entry 0x54F8 0xFFFF 16, entry 0x54F9 0xFFFF 20, entry 0x55DF 0xFFFF 12, entry 0x55E7 0xFFFF 14,
     entry 0x55F8 0xFFFF 16, entry 0x55F9 0xFFFF 20, entry 0x56DF 0xFFFF 12, entry 0x56E7 0xFFFF 14,
     entry 0x56F8 0xFFFF 16, entry 0x56F9 0xFFFF 20, entry 0x57DF 0xFFFF 12, entry 0x57E7 0xFFFF 14,
     entry 0x57F8 0xFFFF 16, entry 0x57F9 0xFFFF 20, entry 0x58DF 0xFFFF 12, entry 0x58E7 0xFFFF 14,
     entry 0x58F8 0xFFFF 16, entry 0x58F9 0xFFFF 20, entry 0x59DF 0xFFFF 12, entry 0x59E7 0xFFFF 14,
     entry 0x59F8 0xFFFF 16, entry 0x59F9 0xFFFF 20, entry 0x5ADF 0xFFFF 12, entry 0x5AE7 0xFFFF 14,
     entry 0x5AF8 0xFFFF 16, entry 0x5AF9 0xFFFF 20, entry 0x5BDF 0xFFFF 12, entry 0x5BE7 0xFFFF 14,
     entry 0x5BF8 0xFFFF 16, entry 0x5BF9 0xFFFF 20, entry 0x5CDF 0xFFFF 12, entry 0x5CE7 0xFFFF 14,
     entry 0x5CF8 0xFFFF 16, entry 0x5CF9 0xFFFF 20, entry 0x5DDF 0xFFFF 12, entry 0x5DE7 0xFFFF 14,
     entry 0x5DF8 0xFFFF 16, entry 0x5DF9 0xFFFF 20, entry 0x5EDF 0xFFFF 12, entry 0x5EE7 0xFFFF 14,
     entry 0x5EF8 0xFFFF 16, entry 0x5EF9 0xFFFF 20, entry 0x5FDF 0xFFFF 12, entry 0x5FE7 0xFFFF 14,
     entry 0x5FF8 0xFFFF 16, entry 0x5FF9 0xFFFF 20, entry 0x6000 0xFFFF 10, entry 0x6100 0xFFFF 18,
     entry 0x6200 0xFFFF 10, entry 0x62FF 0xFFFF 10, entry 0x6300 0xFFFF 10, entry 0x63FF 0xFFFF 10,
     entry 0x6400 0xFFFF 10, entry 0x64FF 0xFFFF 10, entry 0x6500 0xFFFF 10, entry 0x65FF 0xFFFF 10,
     entry 0x6600 0xFFFF 10, entry 0x66FF 0xFFFF 10, entry 0x6700 0xFFFF 10, entry 0x67FF 0xFFFF 10,
     entry 0x6800 0xFFFF 10, entry 0x68FF 0xFFFF 10, entry 0x6900 0xFFFF 10, entry 0x69FF 0xFFFF 10,
     entry 0x6A00 0xFFFF 10, entry 0x6AFF 0xFFFF 10, entry 0x6B00 0xFFFF 10, entry 0x6BFF 0xFFFF 10,
     entry 0x6C00 0xFFFF 10, entry 0x6CFF 0xFFFF 10, entry 0x6D00 0xFFFF 10, entry 0x6DFF 0xFFFF 10,
     entry 0x6E00 0xFFFF 10, entry 0x6EFF 0xFFFF 10, entry 0x6F00 0xFFFF 10, entry 0x6FFF 0xFFFF 10,
     entry 0x8F0F 0xFFFF 18, entry 0x9F0F 0xFFFF 18, entry 0xBF0F 0xFFFF 12, entry 0xCF0F 0xFFFF 18,
     entry 0xDF0F 0xFFFF 18, entry 0xE0F8 0xFFFF 16, entry 0xE0F9 0xFFFF 20, entry 0xE1F8 0xFFFF 16,
     entry 0xE1F9 0xFFFF 20, entry 0xE2F8 0xFFFF 16, entry 0xE2F9 0xFFFF 20, entry 0xE3F8 0xFFFF 16,
     entry 0xE3F9 0xFFFF 20, entry 0xE4F8 0xFFFF 16, entry 0xE4F9 0xFFFF 20, entry 0xE5F8 0xFFFF 16,
     entry 0xE5F9 0xFFFF 20, entry 0xE6F8 0xFFFF 16, entry 0xE6F9 0xFFFF 20, entry 0xE7F8 0xFFFF 16,
     entry 0xE7F9 0xFFFF 20]"

definition k_ng_m68k_cycle_entries :: "ng_m68k_cycle_entry list" where
  "k_ng_m68k_cycle_entries =
    cycle_entries_1 @ cycle_entries_2 @ cycle_entries_3 @ cycle_entries_4 @
    cycle_entries_5 @ cycle_entries_6 @ cycle_entries_7 @ cycle_entries_8 @
    cycle_entries_9 @ cycle_entries_10 @ cycle_entries_11 @ cycle_entries_12"

lemmas cycle_entries_defs = cycle_entries_1_def cycle_entries_2_def cycle_entries_3_def cycle_entries_4_def
  cycle_entries_5_def cycle_entries_6_def cycle_entries_7_def cycle_entries_8_def
  cycle_entries_9_def cycle_entries_10_def cycle_entries_11_def cycle_entries_12_def

subsection \<open>Expansion\<close>

type_synonym cycle_table = "u16 \<Rightarrow> u8"

text \<open>\<open>extra = ((extra | entry->mask) + 1u) & (uint32_t)~entry->mask; extra &= 0xFFFFu\<close>\<close>

definition next_extra :: "u16 \<Rightarrow> u32 \<Rightarrow> u32" where
  "next_extra k extra = ((extra OR ucast k) + 1) AND NOT (ucast k) AND 0xFFFF"

partial_function (option) fill_entry ::
  "ng_m68k_cycle_entry \<Rightarrow> cycle_table \<Rightarrow> u32 \<Rightarrow> cycle_table option" where
  "fill_entry e t extra =
     (let t' = t(ucast (ucast (ce_match e) OR extra) := ce_cycles e);
          extra' = next_extra (ce_mask e) extra
      in if extra' \<noteq> 0 then fill_entry e t' extra' else Some t')"

primrec fill_entries :: "ng_m68k_cycle_entry list \<Rightarrow> cycle_table \<Rightarrow> cycle_table option" where
  "fill_entries [] t = Some t"
| "fill_entries (e # es) t = (case fill_entry e t 0 of None \<Rightarrow> None | Some t' \<Rightarrow> fill_entries es t')"

text \<open>The two static variables: the table and whether it has been built.\<close>

record cycle_state =
  g_ng_m68k_cycle_table :: cycle_table
  g_ng_m68k_cycle_table_ready :: bool

definition cycle_state_zero :: cycle_state where
  "cycle_state_zero = \<lparr>g_ng_m68k_cycle_table = (\<lambda>_. 0), g_ng_m68k_cycle_table_ready = False\<rparr>"

definition ng_m68k_init_cycle_table :: "cycle_state \<Rightarrow> cycle_state option" where
  "ng_m68k_init_cycle_table st =
     (if g_ng_m68k_cycle_table_ready st then Some st
      else case fill_entries k_ng_m68k_cycle_entries (\<lambda>_. 0) of
             None \<Rightarrow> None
           | Some t \<Rightarrow> Some \<lparr>g_ng_m68k_cycle_table = t, g_ng_m68k_cycle_table_ready = True\<rparr>)"

definition ng_m68k_base_cycles_for_opcode :: "cycle_state \<Rightarrow> u16 \<Rightarrow> (u8 \<times> cycle_state) option" where
  "ng_m68k_base_cycles_for_opcode st opcode =
     (case ng_m68k_init_cycle_table st of
        None \<Rightarrow> None
      | Some st' \<Rightarrow>
          let cycles = g_ng_m68k_cycle_table st' opcode
          in Some (if cycles \<noteq> 0 then cycles else 4, st'))"

text \<open>\<open>instr\<close> is a null pointer or an instruction.\<close>

definition ng_m68k_base_cycles_for_instr ::
  "cycle_state \<Rightarrow> ng_m68k_instr option \<Rightarrow> (u8 \<times> cycle_state) option" where
  "ng_m68k_base_cycles_for_instr st instr =
     (case instr of None \<Rightarrow> Some (4, st)
      | Some i \<Rightarrow> ng_m68k_base_cycles_for_opcode st (i_opcode i))"

end
