(* ===== verification/M68kCyclesProps.thy ===== *)
theory M68kCyclesProps
  imports M68kCycles
begin

text \<open>
  The cycle table: the enumeration of don't-care bits visits every value once and ends, so the expanded
  table is a search for the last, and thereby the most specific, matching entry.
\<close>

subsection \<open>Enumerating the don't-care bits\<close>

text \<open>The successor of \<open>x\<close> among the numbers that share no bit with \<open>k\<close>, before truncation.\<close>

definition next_free :: "int \<Rightarrow> int \<Rightarrow> int" where
  "next_free k x = ((x OR k) + 1) AND NOT k"

lemma disjoint_halves:
  fixes x k :: int
  assumes "x AND k = 0"
  shows "(x div 2) AND (k div 2) = 0" "\<not> (odd x \<and> odd k)"
proof -
  have *: "of_bool (odd x \<and> odd k) + 2 * ((x div 2) AND (k div 2)) = 0" using and_rec [of x k] assms by simp
  show "\<not> (odd x \<and> odd k)"
  proof
    assume "odd x \<and> odd k"
    with * have "1 + 2 * ((x div 2) AND (k div 2)) = 0" by simp
    then show False by presburger
  qed
  with * show "(x div 2) AND (k div 2) = 0" by auto
qed

lemma next_free_rec:
  assumes "x AND k = 0"
  shows "next_free k x = (if even x \<and> even k then x + 1 else 2 * next_free (k div 2) (x div 2))"
proof -
  have o: "x OR k = of_bool (odd x \<or> odd k) + 2 * ((x div 2) OR (k div 2))" by (rule or_rec)
  have a: "(y AND NOT k) = of_bool (odd y \<and> even k) + 2 * ((y div 2) AND NOT (k div 2))" for y
    by (subst and_rec) (simp add: not_rec [of k])
  note d = disjoint_halves(1) [OF assms]
  show ?thesis
  proof (cases "even x \<and> even k")
    case True
    have "((x div 2) OR (k div 2)) AND NOT (k div 2) = x div 2"
      using d by (simp add: bit_eq_iff bit_simps) blast
    then show ?thesis using True by (simp add: next_free_def o a)
  next
    case False
    then show ?thesis by (auto simp: next_free_def o a add.commute)
  qed
qed

lemma next_free_least:
  fixes x k s :: int
  assumes "0 \<le> x" "0 \<le> k" "x AND k = 0" "s AND k = 0" "x < s"
  shows "x < next_free k x \<and> next_free k x \<le> s"
  using assms
proof (induction "nat (x + k)" arbitrary: x k s rule: less_induct)
  case less
  show ?case
  proof (cases "even x \<and> even k")
    case True
    then show ?thesis using less.prems by (simp add: next_free_rec)
  next
    case False
    define x' k' s' where "x' = x div 2" and "k' = k div 2" and "s' = s div 2"
    have m: "nat (x' + k') < nat (x + k)" using False less.prems(1,2) unfolding x'_def k'_def by (auto elim!: oddE evenE) presburger+
    have lt: "x' < s'" using False less.prems disjoint_halves [OF less.prems(3)] disjoint_halves [OF less.prems(4)]
      unfolding x'_def s'_def by presburger
    have "x' < next_free k' x' \<and> next_free k' x' \<le> s'"
      using less.prems disjoint_halves(1) [OF less.prems(3)] disjoint_halves(1) [OF less.prems(4)] lt
      by (intro less.hyps [OF m]) (simp_all add: x'_def k'_def s'_def)
    moreover have "next_free k x = 2 * next_free k' x'"
      using next_free_rec [OF less.prems(3)] unfolding if_not_P [OF False] by (simp add: x'_def k'_def)
    moreover have "2 * s' \<le> s" "x \<le> 2 * x' + 1" unfolding x'_def s'_def by auto
    ultimately show ?thesis by linarith
  qed
qed

lemma next_free_disjoint: "next_free k x AND k = 0"
  by (simp add: next_free_def and.assoc)


lemma mask16: "(0xFFFF :: u32) = mask 16" by (simp add: mask_eq_exp_minus_1)

lemma uint_next_extra:
  assumes "uint x < 2 ^ 16"
  shows "uint (next_extra k x) = take_bit 16 (next_free (uint k) (uint x))"
proof -
  have k: "uint (ucast k :: u32) = uint k"
    using uint_lt2p [of k] by (simp add: unsigned_ucast_eq take_bit_int_eq_self_iff)
  have "uint k < 2 ^ 16" using uint_lt2p [of k] by simp
  then have o: "uint x OR uint k < 2 ^ 16" "0 \<le> uint x OR uint k" using assms
      OR_upper [of "uint x" 16 "uint k"] by (simp_all add: or_nonnegative_int_iff)
  have "uint ((x OR ucast k) + 1) = take_bit 32 ((uint x OR uint k) + 1)"
    by (simp add: uint_word_ariths unsigned_or_eq k take_bit_eq_mod)
  also have "\<dots> = (uint x OR uint k) + 1" using o by (intro take_bit_int_eq_self) auto
  finally have s: "uint ((x OR ucast k) + 1) = (uint x OR uint k) + 1" .
  have "next_extra k x = take_bit 16 (((x OR ucast k) + 1) AND NOT (ucast k))"
    by (simp add: next_extra_def mask16 take_bit_eq_mask and.assoc)
  then have "uint (next_extra k x) = take_bit 16 (uint (((x OR ucast k) + 1) AND NOT (ucast k)))"
    by (simp only: unsigned_take_bit_eq)
  also have "\<dots> = take_bit 16 (((uint x OR uint k) + 1) AND take_bit 32 (NOT (uint k)))"
    by (simp add: unsigned_and_eq unsigned_not_eq s k)
  also have "\<dots> = take_bit 16 (next_free (uint k) (uint x))"
    unfolding next_free_def by (rule bit_eqI) (auto simp: bit_simps)
  finally show ?thesis .
qed

lemma and_power_zero: "\<not> bit y n \<Longrightarrow> (2 ^ n :: int) AND y = 0"
  by (rule bit_eqI) (auto simp: bit_and_iff bit_exp_iff)

text \<open>The next word, or zero once the last one has been visited.\<close>

lemma next_extra_step:
  assumes "uint x < 2 ^ 16" "uint x AND uint k = 0"
  shows "next_extra k x = 0 \<Longrightarrow> uint s < 2 ^ 16 \<Longrightarrow> uint s AND uint k = 0 \<Longrightarrow> uint s \<le> uint x"
    and "next_extra k x \<noteq> 0 \<Longrightarrow> uint x < uint (next_extra k x) \<and> uint (next_extra k x) < 2 ^ 16 \<and>
      uint (next_extra k x) AND uint k = 0"
    and "next_extra k x \<noteq> 0 \<Longrightarrow> uint s AND uint k = 0 \<Longrightarrow> uint x < uint s \<Longrightarrow> uint (next_extra k x) \<le> uint s"
proof -
  let ?n = "next_free (uint k) (uint x)"
  have k: "0 \<le> uint k" "uint k < 2 ^ 16" using uint_lt2p [of k] by simp_all
  have "take_bit 16 (uint k) = uint k" using k by (simp add: take_bit_int_eq_self)
  then have top: "(2 ^ 16 :: int) AND uint k = 0"
    using bit_take_bit_iff [of 16 "uint k" 16] and_power_zero [of "uint k" 16] by simp
  have n: "uint x < ?n" "?n \<le> 2 ^ 16"
    using next_free_least [of "uint x" "uint k" "2 ^ 16"] assms k top by simp_all
  have small: "?n < 2 ^ 16 \<Longrightarrow> uint (next_extra k x) = ?n"
    using uint_next_extra [OF assms(1), of k] n order.trans [OF uint_ge_0 [of x] less_imp_le [OF n(1)]]
    by (simp add: take_bit_int_eq_self)
  have zero: "next_extra k x = 0 \<longleftrightarrow> ?n = 2 ^ 16"
  proof
    assume "next_extra k x = 0"
    then show "?n = 2 ^ 16" using small n by (cases "?n < 2 ^ 16") auto
  next
    assume "?n = 2 ^ 16"
    then show "next_extra k x = 0" using uint_next_extra [OF assms(1), of k] by (simp add: word_uint_eq_iff)
  qed
  show "next_extra k x = 0 \<Longrightarrow> uint s < 2 ^ 16 \<Longrightarrow> uint s AND uint k = 0 \<Longrightarrow> uint s \<le> uint x"
    using next_free_least [of "uint x" "uint k" "uint s"] assms k zero by force
  show "next_extra k x \<noteq> 0 \<Longrightarrow> uint x < uint (next_extra k x) \<and> uint (next_extra k x) < 2 ^ 16 \<and>
      uint (next_extra k x) AND uint k = 0"
    using zero n small next_free_disjoint [of "uint k" "uint x"] by auto
  show "next_extra k x \<noteq> 0 \<Longrightarrow> uint s AND uint k = 0 \<Longrightarrow> uint x < uint s \<Longrightarrow> uint (next_extra k x) \<le> uint s"
    using next_free_least [of "uint x" "uint k" "uint s"] assms k zero n small by force
qed


subsection \<open>The expansion loop\<close>

text \<open>The opcode words an entry stands for.\<close>

definition entry_matches :: "ng_m68k_cycle_entry \<Rightarrow> u16 \<Rightarrow> bool" where
  "entry_matches e op \<longleftrightarrow> op AND ce_mask e = ce_match e"

definition entry_ok :: "ng_m68k_cycle_entry \<Rightarrow> bool" where
  "entry_ok e \<longleftrightarrow> ce_match e AND ce_mask e = ce_match e"

text \<open>The don't-care part of an opcode word.\<close>

definition extra_of :: "ng_m68k_cycle_entry \<Rightarrow> u16 \<Rightarrow> u32" where
  "extra_of e op = ucast (op AND NOT (ce_mask e))"

lemma extra_of_props:
  "uint (extra_of e op) < 2 ^ 16" "uint (extra_of e op) AND uint (ce_mask e) = 0"
proof -
  have u: "uint (extra_of e op) = uint (op AND NOT (ce_mask e))"
    using uint_lt2p [of "op AND NOT (ce_mask e)"] by (simp add: extra_of_def unsigned_ucast_eq take_bit_int_eq_self_iff)
  show "uint (extra_of e op) < 2 ^ 16" using uint_lt2p [of "op AND NOT (ce_mask e)"] by (simp add: u)
  have "uint ((op AND NOT (ce_mask e)) AND ce_mask e) = 0" by (simp add: and.assoc)
  then show "uint (extra_of e op) AND uint (ce_mask e) = 0" unfolding u unsigned_and_eq .
qed

text \<open>The word written for \<open>x\<close> is the one whose don't-care part is \<open>x\<close>.\<close>

lemma written_word:
  assumes "entry_ok e" "uint x < 2 ^ 16" "uint x AND uint (ce_mask e) = 0"
  shows "op = ucast (ucast (ce_match e) OR x) \<longleftrightarrow> entry_matches e op \<and> extra_of e op = x"
proof -
  define y :: u16 where "y = ucast x"
  have x: "x = ucast y"
  proof -
    have "take_bit 16 (uint x) = uint x" using assms(2) by (intro take_bit_int_eq_self) simp_all
    then have "uint x = uint y" by (simp add: y_def unsigned_ucast_eq)
    moreover have "uint (ucast y :: u32) = uint y"
      using uint_lt2p [of y] by (simp add: unsigned_ucast_eq take_bit_int_eq_self_iff)
    ultimately have "uint x = uint (ucast y :: u32)" by simp
    then show ?thesis by (simp add: word_uint_eq_iff)
  qed
  have uy: "uint x = uint y"
    using uint_lt2p [of y] by (simp add: x unsigned_ucast_eq take_bit_int_eq_self_iff)
  have d: "y AND ce_mask e = 0"
    using assms(3) unfolding uy unsigned_and_eq [symmetric] by (simp add: word_uint_eq_iff)
  have w: "ucast (ucast (ce_match e) OR x) = ce_match e OR y"
    unfolding x by (rule bit_word_eqI) (simp add: bit_simps)
  have i: "extra_of e op = x \<longleftrightarrow> op AND NOT (ce_mask e) = y"
  proof -
    have "ucast (ucast u :: u32) = u" for u :: u16 by (rule bit_word_eqI) (simp add: bit_simps)
    then show ?thesis unfolding extra_of_def x by metis
  qed
  show ?thesis
    unfolding w i entry_matches_def
    using assms(1) d unfolding entry_ok_def by (auto simp: bit_eq_iff bit_simps)
qed


text \<open>From a don't-care value on, the loop ends and writes exactly the remaining words of the entry.\<close>

lemma fill_entry_from:
  assumes "entry_ok e" "uint x < 2 ^ 16" "uint x AND uint (ce_mask e) = 0"
  shows "fill_entry e t x =
    Some (\<lambda>op. if entry_matches e op \<and> x \<le> extra_of e op then ce_cycles e else t op)"
  using assms(2,3)
proof (induction "nat (2 ^ 16 - uint x)" arbitrary: x t rule: less_induct)
  case less
  note step = next_extra_step [OF less.prems]
  note here = written_word [OF assms(1) less.prems]
  let ?t = "t(ucast (ucast (ce_match e) OR x) := ce_cycles e)"
  show ?case
  proof (cases "next_extra (ce_mask e) x = 0")
    case True
    have last: "extra_of e op = x" if "x \<le> extra_of e op" for op
      using step(1) [OF True extra_of_props, of op] that by (simp add: word_le_def word_uint_eq_iff)
    have "fill_entry e t x = Some ?t" using True by (simp add: fill_entry.simps Let_def)
    also have "?t = (\<lambda>op. if entry_matches e op \<and> x \<le> extra_of e op then ce_cycles e else t op)"
      using here last by (auto simp: fun_eq_iff)
    finally show ?thesis .
  next
    case False
    let ?y = "next_extra (ce_mask e) x"
    have y: "uint x < uint ?y" "uint ?y < 2 ^ 16" "uint ?y AND uint (ce_mask e) = 0" using step(2) [OF False] by auto
    have split: "x \<le> extra_of e op \<longleftrightarrow> extra_of e op = x \<or> ?y \<le> extra_of e op" for op
      using step(3) [OF False extra_of_props(2) [of e op]] y(1)
      unfolding word_le_def word_uint_eq_iff by linarith
    have "fill_entry e t x = fill_entry e ?t ?y" using False by (subst fill_entry.simps) (simp add: Let_def)
    also have "\<dots> = Some (\<lambda>op. if entry_matches e op \<and> ?y \<le> extra_of e op then ce_cycles e else ?t op)"
      using less.hyps [of ?y ?t] y less.prems(1) by simp
    also have "\<dots> = Some (\<lambda>op. if entry_matches e op \<and> x \<le> extra_of e op then ce_cycles e else t op)"
      using here split by (auto simp: fun_eq_iff)
    finally show ?thesis .
  qed
qed

lemma fill_entry_exact:
  "entry_ok e \<Longrightarrow> fill_entry e t 0 = Some (\<lambda>op. if entry_matches e op then ce_cycles e else t op)"
  using fill_entry_from [of e 0 t] by simp

lemma fill_entries_exact:
  assumes "list_all entry_ok es"
  shows "fill_entries es t =
    Some (\<lambda>op. case find (\<lambda>e. entry_matches e op) (rev es) of Some e \<Rightarrow> ce_cycles e | None \<Rightarrow> t op)"
  using assms
proof (induction es arbitrary: t)
  case (Cons e es)
  have f: "find P (xs @ [e]) = (case find P xs of None \<Rightarrow> if P e then Some e else None | Some y \<Rightarrow> Some y)" for P xs
    by (induction xs) auto
  from Cons show ?case by (auto simp: fill_entry_exact f fun_eq_iff split: option.splits)
qed simp

text \<open>Entries with more fixed bits are more specific.\<close>

definition specificity :: "ng_m68k_cycle_entry \<Rightarrow> nat" where
  "specificity e = length (filter (bit (ce_mask e)) [0..<16])"

definition entry_shape :: "ng_m68k_cycle_entry \<Rightarrow> bool" where
  "entry_shape e \<longleftrightarrow> entry_ok e \<and> ce_cycles e \<le> 170 \<and> even (ce_cycles e) \<and>
     (4 \<le> ce_cycles e \<or> ce_cycles e = 0)"

lemma bits16: "[0..<16] = [0, 1, 2, 3, 4, 5, 6, 7, 8, 9, 10, 11, 12, 13, 14, 15]"
  by (simp add: upt_rec)

lemma mask_specificity:
  "specificity (entry m 0xF000 c) = 4" "specificity (entry m 0xF100 c) = 5" "specificity (entry m 0xFF00 c) = 8"
  "specificity (entry m 0xF1F8 c) = 10" "specificity (entry m 0xFFF0 c) = 12" "specificity (entry m 0xFFF8 c) = 13"
  "specificity (entry m 0xF1FF c) = 13" "specificity (entry m 0xFFFF c) = 16"
  by (simp_all add: specificity_def bits16)

lemma entries_shape: "list_all entry_shape k_ng_m68k_cycle_entries"
  by (simp add: k_ng_m68k_cycle_entries_def cycle_entries_defs entry_shape_def entry_ok_def word_le_nat_alt)

lemma entries_sorted: "sorted (map specificity k_ng_m68k_cycle_entries)"
  by (simp add: k_ng_m68k_cycle_entries_def cycle_entries_defs mask_specificity sorted1 sorted2 del: sorted_wrt.simps(2))

lemma entries_ok: "list_all entry_ok k_ng_m68k_cycle_entries"
  using entries_shape by (simp add: list_all_iff entry_shape_def)

subsection \<open>Lookups\<close>

text \<open>The entry that decides an opcode word: the last match.\<close>

definition cycle_entry_of :: "u16 \<Rightarrow> ng_m68k_cycle_entry option" where
  "cycle_entry_of op = find (\<lambda>e. entry_matches e op) (rev k_ng_m68k_cycle_entries)"

definition cycles_of :: "u16 \<Rightarrow> u8" where
  "cycles_of op = (case cycle_entry_of op of None \<Rightarrow> 4
     | Some e \<Rightarrow> if ce_cycles e = 0 then 4 else ce_cycles e)"

definition built_table :: cycle_table where
  "built_table op = (case cycle_entry_of op of Some e \<Rightarrow> ce_cycles e | None \<Rightarrow> 0)"

lemma fill_all: "fill_entries k_ng_m68k_cycle_entries (\<lambda>_. 0) = Some built_table"
  by (simp add: fill_entries_exact entries_ok built_table_def [abs_def] cycle_entry_of_def)

text \<open>Lookups one after the other, each on the state the previous one left.\<close>

primrec cycle_lookups :: "cycle_state \<Rightarrow> u16 list \<Rightarrow> (u8 list \<times> cycle_state) option" where
  "cycle_lookups st [] = Some ([], st)"
| "cycle_lookups st (op # ops) =
     (case ng_m68k_base_cycles_for_opcode st op of None \<Rightarrow> None
      | Some (c, st') \<Rightarrow> (case cycle_lookups st' ops of None \<Rightarrow> None | Some (cs, st'') \<Rightarrow> Some (c # cs, st'')))"

definition built_state :: cycle_state where
  "built_state = \<lparr>g_ng_m68k_cycle_table = built_table, g_ng_m68k_cycle_table_ready = True\<rparr>"

lemma lookup_once:
  "st = cycle_state_zero \<or> st = built_state \<Longrightarrow>
   ng_m68k_base_cycles_for_opcode st op = Some (cycles_of op, built_state)"
  by (auto simp: ng_m68k_base_cycles_for_opcode_def ng_m68k_init_cycle_table_def cycle_state_zero_def fill_all
      built_state_def cycles_of_def built_table_def split: option.splits)

lemma lookups_built: "cycle_lookups built_state ops = Some (map cycles_of ops, built_state)"
  by (induction ops) (simp_all add: lookup_once)

lemma lookups_from_start:
  "cycle_lookups cycle_state_zero ops =
     Some (map cycles_of ops, if ops = [] then cycle_state_zero else built_state)"
  by (cases ops) (simp_all add: lookup_once lookups_built)

lemma find_member: "find P xs = Some y \<Longrightarrow> y \<in> set xs \<and> P y"
  by (induction xs) (auto split: if_splits)

lemma cycle_entry_of_member:
  "cycle_entry_of op = Some e \<Longrightarrow> e \<in> set k_ng_m68k_cycle_entries \<and> entry_matches e op"
  using find_member [of "\<lambda>e. entry_matches e op" "rev k_ng_m68k_cycle_entries" e] by (simp add: cycle_entry_of_def)

lemma find_last_max:
  assumes "find P (rev xs) = Some y" "sorted (map f xs)" "x \<in> set xs" "P x"
  shows "(f x :: nat) \<le> f y"
  using assms
proof (induction xs rule: rev_induct)
  case (snoc z zs)
  then show ?case by (cases "P z") (auto simp: sorted_append)
qed simp

text \<open>What a lookup of \<open>op\<close> should return.\<close>

definition most_specific_cycles :: "u16 \<Rightarrow> u8 \<Rightarrow> bool" where
  "most_specific_cycles op c \<longleftrightarrow>
     (let ms = filter (\<lambda>e. entry_matches e op) k_ng_m68k_cycle_entries in
      if ms = [] then c = 4
      else \<exists>e\<in>set ms. (\<forall>e'\<in>set ms. specificity e' \<le> specificity e) \<and>
             c = (if ce_cycles e = 0 then 4 else ce_cycles e))"

lemma cycles_of_most_specific: "most_specific_cycles op (cycles_of op)"
proof (cases "cycle_entry_of op")
  case None
  moreover from None have "\<forall>e\<in>set k_ng_m68k_cycle_entries. \<not> entry_matches e op"
    by (auto simp: cycle_entry_of_def find_None_iff)
  ultimately show ?thesis by (simp add: most_specific_cycles_def cycles_of_def filter_empty_conv Let_def)
next
  case (Some e)
  then have "e \<in> set k_ng_m68k_cycle_entries" "entry_matches e op" using cycle_entry_of_member by auto
  moreover have "specificity e' \<le> specificity e" if "e' \<in> set k_ng_m68k_cycle_entries" "entry_matches e' op" for e'
    using find_last_max [OF Some [unfolded cycle_entry_of_def] entries_sorted that] .
  ultimately show ?thesis using Some by (auto simp: most_specific_cycles_def cycles_of_def filter_empty_conv Let_def)
qed

subsection \<open>Properties\<close>

text \<open>
  C33 (termination): building the cycle table ends, and so do both lookups. The \<open>do ... while\<close> loop of
  every entry leaves its enumeration of the don't-care bits after the last one, and the finished table holds,
  for every opcode word, the cycles of the last entry whose pattern matches it, or 0 when none does. From the
  program's start, after any sequence of lookups, the lookup by opcode returns for every opcode word and leaves
  this table behind, and the lookup by instruction returns for every instruction and for a null pointer.
\<close>

theorem cycle_table_build_terminates:
  "\<exists>t. fill_entries k_ng_m68k_cycle_entries (\<lambda>_. 0) = Some t \<and>
     (\<forall>op. t op = (case find (\<lambda>e. op AND ce_mask e = ce_match e) (rev k_ng_m68k_cycle_entries) of
                     Some e \<Rightarrow> ce_cycles e | None \<Rightarrow> 0)) \<and>
     (\<forall>ops. \<exists>cs st. cycle_lookups cycle_state_zero ops = Some (cs, st) \<and>
        (\<forall>op. \<exists>c st'. ng_m68k_base_cycles_for_opcode st op = Some (c, st') \<and> g_ng_m68k_cycle_table st' = t) \<and>
        (\<forall>instr. \<exists>c st'. ng_m68k_base_cycles_for_instr st instr = Some (c, st')))"
proof (intro exI conjI allI)
  show "fill_entries k_ng_m68k_cycle_entries (\<lambda>_. 0) = Some built_table" by (rule fill_all)
next
  fix op
  show "built_table op = (case find (\<lambda>e. op AND ce_mask e = ce_match e) (rev k_ng_m68k_cycle_entries) of
                     Some e \<Rightarrow> ce_cycles e | None \<Rightarrow> 0)"
    by (simp add: built_table_def cycle_entry_of_def entry_matches_def)
next
  fix ops
  show "cycle_lookups cycle_state_zero ops =
          Some (map cycles_of ops, if ops = [] then cycle_state_zero else built_state)" by (rule lookups_from_start)
next
  fix ops :: "u16 list" and op
  show "ng_m68k_base_cycles_for_opcode (if ops = [] then cycle_state_zero else built_state) op =
          Some (cycles_of op, built_state)"
    by (simp add: lookup_once)
next
  show "g_ng_m68k_cycle_table built_state = built_table" by (simp add: built_state_def)
next
  fix ops :: "u16 list" and instr
  show "ng_m68k_base_cycles_for_instr (if ops = [] then cycle_state_zero else built_state) instr =
          Some (case instr of None \<Rightarrow> 4 | Some i \<Rightarrow> cycles_of (i_opcode i),
                case instr of None \<Rightarrow> (if ops = [] then cycle_state_zero else built_state) | Some i \<Rightarrow> built_state)"
    by (cases instr) (simp_all add: ng_m68k_base_cycles_for_instr_def lookup_once)
qed

text \<open>
  C34 (equivalence): the cached table answers like a search for the most specific pattern. Any sequence of
  lookups from the program's start ends and returns, for each opcode word, 4 when no entry matches and
  otherwise the cycles of a matching entry that no matching entry exceeds in fixed bits (4 again when that
  entry says 0).
\<close>

theorem cycle_lookups_most_specific:
  "\<exists>cs st. cycle_lookups cycle_state_zero ops = Some (cs, st) \<and> list_all2 most_specific_cycles ops cs"
  by (simp add: lookups_from_start list_all2_map2 list_all2_same cycles_of_most_specific)

text \<open>
  Every base cycle count is an even number between 4 and 170.
\<close>

theorem base_cycles_bounded:
  assumes "ng_m68k_base_cycles_for_instr cycle_state_zero (Some i) = Some (c, st)"
  shows "4 \<le> c \<and> c \<le> 170 \<and> even c"
proof -
  have "c = cycles_of (i_opcode i)"
    using assms by (simp add: ng_m68k_base_cycles_for_instr_def lookup_once)
  moreover have "4 \<le> cycles_of op \<and> cycles_of op \<le> 170 \<and> even (cycles_of op)" for op
  proof (cases "cycle_entry_of op")
    case (Some e)
    then have "entry_shape e"
      using entries_shape cycle_entry_of_member [of op e] by (simp add: list_all_iff)
    then show ?thesis using Some by (auto simp: cycles_of_def entry_shape_def word_le_nat_alt)
  qed (simp add: cycles_of_def word_le_nat_alt)
  ultimately show ?thesis by simp
qed

theorem base_cycles_bounded_witness:
  "\<exists>c st. ng_m68k_base_cycles_for_instr cycle_state_zero (Some (instr_zero\<lparr>i_opcode := 0x4E75\<rparr>)) = Some (c, st) \<and>
     4 \<le> c \<and> c \<le> 170 \<and> even c"
  using base_cycles_bounded [of "instr_zero\<lparr>i_opcode := 0x4E75\<rparr>"]
  by (simp add: ng_m68k_base_cycles_for_instr_def lookup_once)

end
