(* ===== verification/M68kAnalyze.thy ===== *)
theory M68kAnalyze
  imports M68kValidate
begin

text \<open>
  The flow analyses of \<open>recompiler/src/m68k_analyze.c\<close>: which address registers hold a known constant,
  which data registers hold a bounded table index, and the instruction patterns that dispatch through a
  table. Function discovery feeds every instruction of a function to the two \<open>update\<close> operations and asks
  the \<open>match\<close> operations at each \<open>JMP\<close> and \<open>JSR\<close>.

  Pointer arguments are non-null. A matcher returns the pattern it writes to \<open>*out\<close>, or \<open>None\<close> where the
  source returns 0. The arrays of 8 per-register slots are lists of length 8.
\<close>

subsection \<open>Jump-table patterns\<close>

datatype ng_m68k_jump_table_entry_kind =
    NG_M68K_JUMP_TABLE_ENTRY_ABS32 | NG_M68K_JUMP_TABLE_ENTRY_ADDRESS
  | NG_M68K_JUMP_TABLE_ENTRY_INLINE_CODE | NG_M68K_JUMP_TABLE_ENTRY_DIRECT_DISPATCH

record ng_m68k_jump_table_pattern =
  jt_table_addr :: u32
  jt_max_entries :: u32
  jt_index_reg :: u8
  jt_target_reg :: u8
  jt_entry_size :: u8
  jt_include_terminal_entry :: u8
  jt_entry_kind :: ng_m68k_jump_table_entry_kind
  jt_entry_signature :: u32

text \<open>\<open>memset(out, 0, sizeof(*out))\<close>\<close>

definition jump_table_zero :: ng_m68k_jump_table_pattern where
  "jump_table_zero = \<lparr>jt_table_addr = 0, jt_max_entries = 0, jt_index_reg = 0, jt_target_reg = 0,
     jt_entry_size = 0, jt_include_terminal_entry = 0, jt_entry_kind = NG_M68K_JUMP_TABLE_ENTRY_ABS32,
     jt_entry_signature = 0\<rparr>"

definition NG_M68K_INDEX_BOUND_MAX_ENTRIES :: u32 where
  "NG_M68K_INDEX_BOUND_MAX_ENTRIES = 64"

definition has_static_code_target :: "ng_m68k_instr \<Rightarrow> bool" where
  "has_static_code_target i \<longleftrightarrow>
     (case ea_mode (i_src i) of
        NG_M68K_EA_ABS_W \<Rightarrow> True | NG_M68K_EA_ABS_L \<Rightarrow> True
      | NG_M68K_EA_PC_DISP \<Rightarrow> True | NG_M68K_EA_PC_INDEX \<Rightarrow> True | _ \<Rightarrow> False)"

definition ng_m68k_match_pc_index_jump_table ::
  "ng_m68k_instr \<Rightarrow> ng_m68k_instr \<Rightarrow> ng_m68k_jump_table_pattern option" where
  "ng_m68k_match_pc_index_jump_table load jump =
     (if i_mnemonic load \<noteq> NG_M68K_MOVEA \<or> i_form load \<noteq> NG_M68K_FORM_PC_INDEX_TO_AREG \<or> i_size load \<noteq> 4
      then None
      else if i_mnemonic jump \<noteq> NG_M68K_JMP \<or> i_form jump \<noteq> NG_M68K_FORM_AREG_INDIRECT \<or>
              i_reg load \<noteq> i_reg jump then None
      else Some (jump_table_zero\<lparr>jt_table_addr := i_target load, jt_index_reg := i_src_reg load,
                   jt_target_reg := i_reg load, jt_entry_size := 4,
                   jt_entry_kind := NG_M68K_JUMP_TABLE_ENTRY_ABS32\<rparr>))"

subsection \<open>Address registers with a known value\<close>

record ng_m68k_static_areg_state =
  sa_target :: "u32 list"
  sa_valid :: "u8 list"

definition ng_m68k_static_areg_reset :: ng_m68k_static_areg_state where
  "ng_m68k_static_areg_reset = \<lparr>sa_target = replicate 8 0, sa_valid = replicate 8 0\<rparr>"

definition static_areg_load_target :: "ng_m68k_instr \<Rightarrow> (u8 \<times> u32) option" where
  "static_areg_load_target i =
     (if i_mnemonic i = NG_M68K_LEA \<and> ea_mode (i_dst i) = NG_M68K_EA_AREG \<and> has_static_code_target i
      then Some (ea_reg (i_dst i), i_target i)
      else if i_mnemonic i = NG_M68K_MOVEA \<and> i_size i = 4 \<and> ea_mode (i_dst i) = NG_M68K_EA_AREG \<and>
              ea_mode (i_src i) = NG_M68K_EA_IMM
      then Some (ea_reg (i_dst i), ea_immediate (i_src i))
      else None)"

definition instr_writes_areg :: "ng_m68k_instr \<Rightarrow> u8 option" where
  "instr_writes_areg i =
     (if i_mnemonic i = NG_M68K_LEA \<or> i_mnemonic i = NG_M68K_MOVEA \<or> i_mnemonic i = NG_M68K_ADDA \<or>
         i_mnemonic i = NG_M68K_SUBA \<or> i_mnemonic i = NG_M68K_ADDQ \<or> i_mnemonic i = NG_M68K_SUBQ
      then if ea_mode (i_dst i) = NG_M68K_EA_AREG then Some (ea_reg (i_dst i)) else None
      else None)"

definition ng_m68k_static_areg_update ::
  "ng_m68k_static_areg_state \<Rightarrow> ng_m68k_instr \<Rightarrow> ng_m68k_static_areg_state" where
  "ng_m68k_static_areg_update st i =
     (if i_mnemonic i = NG_M68K_JSR \<or> i_mnemonic i = NG_M68K_BSR
      then st\<lparr>sa_valid := (sa_valid st)[0 := 0, 1 := 0, 7 := 0]\<rparr>
      else
        let invalidate =
              (case instr_writes_areg i of
                 Some reg \<Rightarrow> if reg < 8 then st\<lparr>sa_valid := (sa_valid st)[unat reg := 0]\<rparr> else st
               | None \<Rightarrow> st)
        in case static_areg_load_target i of
             Some (reg, target) \<Rightarrow>
               if reg < 8 then st\<lparr>sa_target := (sa_target st)[unat reg := target],
                                  sa_valid := (sa_valid st)[unat reg := 1]\<rparr>
               else invalidate
           | None \<Rightarrow> invalidate)"

subsection \<open>Data registers with a bounded value\<close>

record ng_m68k_index_reg_bound_state =
  ib_max_entries :: "u32 list"
  ib_guarded_max_entries :: "u32 list"
  ib_pending_cmp_entries :: "u32 list"
  ib_scale_bytes :: "u8 list"
  ib_valid :: "u8 list"
  ib_guarded_valid :: "u8 list"
  ib_pending_cmp_valid :: "u8 list"

definition ng_m68k_index_reg_bound_reset :: ng_m68k_index_reg_bound_state where
  "ng_m68k_index_reg_bound_reset =
     \<lparr>ib_max_entries = replicate 8 0, ib_guarded_max_entries = replicate 8 0,
      ib_pending_cmp_entries = replicate 8 0, ib_scale_bytes = replicate 8 0, ib_valid = replicate 8 0,
      ib_guarded_valid = replicate 8 0, ib_pending_cmp_valid = replicate 8 0\<rparr>"

definition index_reg_bound_clear ::
  "ng_m68k_index_reg_bound_state \<Rightarrow> u8 \<Rightarrow> ng_m68k_index_reg_bound_state" where
  "index_reg_bound_clear st reg =
     (if 8 \<le> reg then st
      else let r = unat reg in
        st\<lparr>ib_valid := (ib_valid st)[r := 0], ib_max_entries := (ib_max_entries st)[r := 0],
           ib_scale_bytes := (ib_scale_bytes st)[r := 0],
           ib_guarded_valid := (ib_guarded_valid st)[r := 0],
           ib_guarded_max_entries := (ib_guarded_max_entries st)[r := 0],
           ib_pending_cmp_valid := (ib_pending_cmp_valid st)[r := 0],
           ib_pending_cmp_entries := (ib_pending_cmp_entries st)[r := 0]\<rparr>)"

definition instr_is_dreg_self_add :: "ng_m68k_instr \<Rightarrow> u8 \<Rightarrow> bool" where
  "instr_is_dreg_self_add i reg \<longleftrightarrow>
     i_mnemonic i = NG_M68K_ADD \<and> (i_size i = 2 \<or> i_size i = 4) \<and>
     ea_mode (i_src i) = NG_M68K_EA_DREG \<and> ea_mode (i_dst i) = NG_M68K_EA_DREG \<and>
     ea_reg (i_src i) = reg \<and> ea_reg (i_dst i) = reg"

text \<open>The return value and the state.\<close>

definition index_reg_bound_scale ::
  "ng_m68k_index_reg_bound_state \<Rightarrow> u8 \<Rightarrow> u32 \<Rightarrow> bool \<times> ng_m68k_index_reg_bound_state" where
  "index_reg_bound_scale st reg factor =
     (if 8 \<le> reg \<or> factor = 0 \<or> ib_valid st ! unat reg = 0 then (False, st)
      else
        let scale = ucast (ib_scale_bytes st ! unat reg) :: u32 in
        if scale = 0 \<or> 0xFFFFFFFF div factor < scale then (False, index_reg_bound_clear st reg)
        else
          let scale' = scale * factor in
          if 16 < scale' then (False, index_reg_bound_clear st reg)
          else (True, st\<lparr>ib_scale_bytes := (ib_scale_bytes st)[unat reg := ucast scale']\<rparr>))"

definition dreg_writing_mnemonics :: "ng_m68k_mnemonic list" where
  "dreg_writing_mnemonics =
     [NG_M68K_MOVE, NG_M68K_MOVEQ, NG_M68K_ADD, NG_M68K_ADDQ, NG_M68K_ADDX, NG_M68K_SUB, NG_M68K_SUBQ,
      NG_M68K_SUBX, NG_M68K_OR, NG_M68K_AND, NG_M68K_EOR, NG_M68K_MULU, NG_M68K_MULS, NG_M68K_DIVU,
      NG_M68K_DIVS, NG_M68K_CLR, NG_M68K_NEG, NG_M68K_NEGX, NG_M68K_NBCD, NG_M68K_NOT, NG_M68K_EXT,
      NG_M68K_SWAP, NG_M68K_ASL, NG_M68K_ASR, NG_M68K_LSL, NG_M68K_LSR, NG_M68K_ROXL, NG_M68K_ROXR,
      NG_M68K_ROL, NG_M68K_ROR, NG_M68K_ADDI, NG_M68K_SUBI, NG_M68K_ORI, NG_M68K_ANDI, NG_M68K_EORI]"

definition instr_writes_dreg :: "ng_m68k_instr \<Rightarrow> u8 option" where
  "instr_writes_dreg i =
     (if ea_mode (i_dst i) = NG_M68K_EA_DREG \<and> ea_reg (i_dst i) < 8 \<and>
         i_mnemonic i \<in> set dreg_writing_mnemonics
      then Some (ea_reg (i_dst i)) else None)"

definition instr_cmpi_immediate_to_dreg :: "ng_m68k_instr \<Rightarrow> (u8 \<times> u32) option" where
  "instr_cmpi_immediate_to_dreg i =
     (if i_mnemonic i \<noteq> NG_M68K_CMPI \<or> ea_mode (i_dst i) \<noteq> NG_M68K_EA_DREG \<or> 8 \<le> ea_reg (i_dst i) \<or>
         i_immediate i = 0 \<or> NG_M68K_INDEX_BOUND_MAX_ENTRIES < i_immediate i
      then None else Some (ea_reg (i_dst i), i_immediate i))"

definition index_reg_bound_note_cmp ::
  "ng_m68k_index_reg_bound_state \<Rightarrow> u8 \<Rightarrow> u32 \<Rightarrow> ng_m68k_index_reg_bound_state" where
  "index_reg_bound_note_cmp st reg bound =
     (if 8 \<le> reg \<or> bound = 0 \<or> NG_M68K_INDEX_BOUND_MAX_ENTRIES < bound then st
      else st\<lparr>ib_pending_cmp_valid := (ib_pending_cmp_valid st)[unat reg := 1],
              ib_pending_cmp_entries := (ib_pending_cmp_entries st)[unat reg := bound]\<rparr>)"

definition cmp_branch_guard_max_entries :: "u8 \<Rightarrow> u32 \<Rightarrow> u32 option" where
  "cmp_branch_guard_max_entries condition cmp_bound =
     (if cmp_bound = 0 then None
      else if condition = 5 then Some cmp_bound
      else if condition = 3 \<and> cmp_bound < NG_M68K_INDEX_BOUND_MAX_ENTRIES then Some (cmp_bound + 1)
      else None)"

definition clear_pending ::
  "nat \<Rightarrow> ng_m68k_index_reg_bound_state \<Rightarrow> ng_m68k_index_reg_bound_state" where
  "clear_pending r st =
     st\<lparr>ib_pending_cmp_valid := (ib_pending_cmp_valid st)[r := 0],
        ib_pending_cmp_entries := (ib_pending_cmp_entries st)[r := 0]\<rparr>"

text \<open>One iteration of the second loop.\<close>

definition promote_cmp_guard_reg ::
  "ng_m68k_instr \<Rightarrow> nat \<Rightarrow> ng_m68k_index_reg_bound_state \<Rightarrow> ng_m68k_index_reg_bound_state" where
  "promote_cmp_guard_reg i r st =
     clear_pending r
       (if ib_pending_cmp_valid st ! r \<noteq> 0 then
          case cmp_branch_guard_max_entries (i_condition i) (ib_pending_cmp_entries st ! r) of
            Some max_entries \<Rightarrow>
              st\<lparr>ib_guarded_valid := (ib_guarded_valid st)[r := 1],
                 ib_guarded_max_entries := (ib_guarded_max_entries st)[r := max_entries]\<rparr>
          | None \<Rightarrow> st
        else st)"

definition index_reg_bound_promote_cmp_guard ::
  "ng_m68k_index_reg_bound_state \<Rightarrow> ng_m68k_instr \<Rightarrow> ng_m68k_index_reg_bound_state" where
  "index_reg_bound_promote_cmp_guard st i =
     (if i_mnemonic i \<noteq> NG_M68K_BCC then fold clear_pending [0..<8] st
      else fold (promote_cmp_guard_reg i) [0..<8] st)"

definition instr_moves_immediate_to_dreg :: "ng_m68k_instr \<Rightarrow> (u8 \<times> u32) option" where
  "instr_moves_immediate_to_dreg i =
     (if ea_mode (i_dst i) \<noteq> NG_M68K_EA_DREG \<or> 8 \<le> ea_reg (i_dst i) then None
      else if i_mnemonic i = NG_M68K_MOVEQ then Some (ea_reg (i_dst i), i_immediate i)
      else if i_mnemonic i = NG_M68K_MOVE \<and> ea_mode (i_src i) = NG_M68K_EA_IMM
      then Some (ea_reg (i_dst i), ea_immediate (i_src i))
      else None)"

text \<open>\<open>Some\<close> is the return value 1 with the state written.\<close>

definition index_reg_bound_apply_guarded_clamp ::
  "ng_m68k_index_reg_bound_state \<Rightarrow> ng_m68k_instr \<Rightarrow> ng_m68k_index_reg_bound_state option" where
  "index_reg_bound_apply_guarded_clamp st i =
     (case instr_moves_immediate_to_dreg i of None \<Rightarrow> None
      | Some (reg, v) \<Rightarrow>
          let r = unat reg in
          if ib_guarded_valid st ! r = 0 \<or> ib_guarded_max_entries st ! r = 0 \<or>
             ib_guarded_max_entries st ! r \<le> v then None
          else Some (st\<lparr>ib_max_entries := (ib_max_entries st)[r := ib_guarded_max_entries st ! r],
                        ib_scale_bytes := (ib_scale_bytes st)[r := 1],
                        ib_valid := (ib_valid st)[r := 1],
                        ib_guarded_valid := (ib_guarded_valid st)[r := 0],
                        ib_guarded_max_entries := (ib_guarded_max_entries st)[r := 0],
                        ib_pending_cmp_valid := (ib_pending_cmp_valid st)[r := 0],
                        ib_pending_cmp_entries := (ib_pending_cmp_entries st)[r := 0]\<rparr>))"

definition scale_or_clear ::
  "ng_m68k_index_reg_bound_state \<Rightarrow> u8 \<Rightarrow> u32 \<Rightarrow> ng_m68k_index_reg_bound_state" where
  "scale_or_clear st reg factor =
     (case index_reg_bound_scale st reg factor of
        (ok, st') \<Rightarrow> if \<not> ok then index_reg_bound_clear st' reg else st')"

text \<open>The part of \<open>ng_m68k_index_reg_bound_update\<close> after the guarded clamp.\<close>

definition index_reg_bound_transfer ::
  "ng_m68k_index_reg_bound_state \<Rightarrow> ng_m68k_instr \<Rightarrow> ng_m68k_index_reg_bound_state" where
  "index_reg_bound_transfer st i =
     (let reg = ea_reg (i_dst i); r = unat reg;
          to_dreg = (ea_mode (i_dst i) = NG_M68K_EA_DREG \<and> reg < 8) in
      if i_mnemonic i = NG_M68K_ANDI \<and> to_dreg \<and> i_immediate i < NG_M68K_INDEX_BOUND_MAX_ENTRIES then
        let max_entries = i_immediate i + 1;
            max_entries' =
              (if ib_guarded_valid st ! r \<noteq> 0 \<and> ib_guarded_max_entries st ! r \<noteq> 0 \<and>
                  ib_guarded_max_entries st ! r < max_entries
               then ib_guarded_max_entries st ! r else max_entries)
        in st\<lparr>ib_max_entries := (ib_max_entries st)[r := max_entries'],
              ib_scale_bytes := (ib_scale_bytes st)[r := 1], ib_valid := (ib_valid st)[r := 1]\<rparr>
      else if (i_mnemonic i = NG_M68K_LSL \<or> i_mnemonic i = NG_M68K_ASL) \<and> to_dreg \<and>
              ea_mode (i_src i) \<noteq> NG_M68K_EA_DREG \<and> (i_size i = 2 \<or> i_size i = 4) \<and> i_immediate i < 8 then
        scale_or_clear st reg (push_bit (unat (i_immediate i)) 1)
      else if to_dreg \<and> instr_is_dreg_self_add i reg then scale_or_clear st reg 2
      else case instr_writes_dreg i of
             Some reg' \<Rightarrow> index_reg_bound_clear st reg'
           | None \<Rightarrow> st)"

definition ng_m68k_index_reg_bound_update ::
  "ng_m68k_index_reg_bound_state \<Rightarrow> ng_m68k_instr \<Rightarrow> ng_m68k_index_reg_bound_state" where
  "ng_m68k_index_reg_bound_update st i =
     (if i_mnemonic i = NG_M68K_JSR \<or> i_mnemonic i = NG_M68K_BSR then ng_m68k_index_reg_bound_reset
      else case instr_cmpi_immediate_to_dreg i of
        Some (cmp_reg, cmp_bound) \<Rightarrow> index_reg_bound_note_cmp st cmp_reg cmp_bound
      | None \<Rightarrow>
          let st1 = index_reg_bound_promote_cmp_guard st i in
          case index_reg_bound_apply_guarded_clamp st1 i of
            Some st2 \<Rightarrow> st2
          | None \<Rightarrow> index_reg_bound_transfer st1 i)"

definition ng_m68k_jump_table_apply_index_bound ::
  "ng_m68k_jump_table_pattern \<Rightarrow> ng_m68k_index_reg_bound_state \<Rightarrow> ng_m68k_jump_table_pattern" where
  "ng_m68k_jump_table_apply_index_bound p st =
     (if jt_entry_kind p \<noteq> NG_M68K_JUMP_TABLE_ENTRY_ABS32 \<or> 8 \<le> jt_index_reg p \<or>
         ib_valid st ! unat (jt_index_reg p) = 0 \<or>
         ib_scale_bytes st ! unat (jt_index_reg p) \<noteq> jt_entry_size p \<or>
         ib_max_entries st ! unat (jt_index_reg p) = 0
      then p else p\<lparr>jt_max_entries := ib_max_entries st ! unat (jt_index_reg p)\<rparr>)"

subsection \<open>Dispatch patterns\<close>

text \<open>\<open>(uint32_t)(target + (int32_t)displacement) & 0x00FFFFFFu\<close>\<close>

definition table_base :: "u32 \<Rightarrow> u16 \<Rightarrow> u32" where
  "table_base target disp = (target + scast disp) AND 0x00FFFFFF"

definition ng_m68k_match_static_index_jump_table ::
  "ng_m68k_instr \<Rightarrow> ng_m68k_instr \<Rightarrow> ng_m68k_static_areg_state \<Rightarrow> ng_m68k_jump_table_pattern option" where
  "ng_m68k_match_static_index_jump_table load dispatch st =
     (if i_mnemonic load \<noteq> NG_M68K_MOVEA \<or> i_size load \<noteq> 4 \<or> ea_mode (i_src load) \<noteq> NG_M68K_EA_AINDEX \<or>
         ea_mode (i_dst load) \<noteq> NG_M68K_EA_AREG \<or> 7 < ea_reg (i_src load) \<or>
         sa_valid st ! unat (ea_reg (i_src load)) = 0 then None
      else if (i_mnemonic dispatch \<noteq> NG_M68K_JMP \<and> i_mnemonic dispatch \<noteq> NG_M68K_JSR) \<or>
              ea_mode (i_src dispatch) \<noteq> NG_M68K_EA_AIND \<or>
              ea_reg (i_src dispatch) \<noteq> ea_reg (i_dst load) then None
      else Some (jump_table_zero
             \<lparr>jt_table_addr := table_base (sa_target st ! unat (ea_reg (i_src load))) (ea_displacement (i_src load)),
              jt_index_reg := ea_index_reg (i_src load), jt_target_reg := ea_reg (i_dst load),
              jt_entry_size := 4, jt_entry_kind := NG_M68K_JUMP_TABLE_ENTRY_ABS32\<rparr>))"

definition ng_m68k_match_static_index_branch_table ::
  "ng_m68k_instr \<Rightarrow> ng_m68k_static_areg_state \<Rightarrow> ng_m68k_jump_table_pattern option" where
  "ng_m68k_match_static_index_branch_table dispatch st =
     (if (i_mnemonic dispatch \<noteq> NG_M68K_JMP \<and> i_mnemonic dispatch \<noteq> NG_M68K_JSR) \<or>
         ea_mode (i_src dispatch) \<noteq> NG_M68K_EA_AINDEX \<or> 7 < ea_reg (i_src dispatch) \<or>
         sa_valid st ! unat (ea_reg (i_src dispatch)) = 0 then None
      else Some (jump_table_zero
             \<lparr>jt_table_addr := table_base (sa_target st ! unat (ea_reg (i_src dispatch))) (ea_displacement (i_src dispatch)),
              jt_index_reg := ea_index_reg (i_src dispatch), jt_target_reg := ea_reg (i_src dispatch),
              jt_entry_kind := NG_M68K_JUMP_TABLE_ENTRY_ADDRESS\<rparr>))"

text \<open>
  The scan of a table of \<open>BRA\<close> entries: \<open>n\<close> more iterations of the loop, with \<open>entry_addr\<close>,
  \<open>entry_size\<close>, \<open>entry_count\<close> and \<open>last_target\<close> as it left them. \<open>None\<close> is its early \<open>return 0\<close>.
\<close>

record branch_scan =
  bs_entry_addr :: u32
  bs_entry_size :: u32
  bs_entry_count :: u32
  bs_last_target :: u32

primrec branch_table_scan :: "ng_program_rom \<Rightarrow> nat \<Rightarrow> branch_scan \<Rightarrow> branch_scan option" where
  "branch_table_scan rom 0 s = Some s"
| "branch_table_scan rom (Suc n) s =
     (case ng_m68k_decode rom (bs_entry_addr s) of (ok, e) \<Rightarrow>
        if \<not> ok \<or> \<not> ng_m68k_validate e \<or> i_mnemonic e \<noteq> NG_M68K_BRA \<or> i_byte_length e = 0 then Some s
        else if bs_entry_size s \<noteq> 0 \<and> ucast (i_byte_length e) \<noteq> bs_entry_size s then Some s
        else
          let sz = (if bs_entry_size s = 0 then ucast (i_byte_length e) else bs_entry_size s);
              s' = s\<lparr>bs_entry_size := sz, bs_last_target := i_target e AND 0x00FFFFFF,
                     bs_entry_count := bs_entry_count s + 1\<rparr>
          in if 0xFFFFFFFF - bs_entry_addr s < sz then None
             else branch_table_scan rom n (s'\<lparr>bs_entry_addr := bs_entry_addr s + sz\<rparr>))"

definition branch_table_terminal_entry_is_inline_body :: "ng_program_rom \<Rightarrow> u32 \<Rightarrow> bool" where
  "branch_table_terminal_entry_is_inline_body rom table_addr \<longleftrightarrow>
     (case branch_table_scan rom 32
             \<lparr>bs_entry_addr = table_addr, bs_entry_size = 0, bs_entry_count = 0, bs_last_target = 0\<rparr> of
        None \<Rightarrow> False
      | Some s \<Rightarrow>
          if bs_entry_count s < 8 \<or> bs_entry_size s = 0 \<or> bs_last_target s \<le> bs_entry_addr s \<or>
             0x20 < bs_last_target s - bs_entry_addr s then False
          else (case ng_m68k_decode rom (bs_entry_addr s) of (ok, t) \<Rightarrow>
                  ok \<and> ng_m68k_validate t \<and> i_byte_length t \<noteq> 0 \<and> i_mnemonic t \<noteq> NG_M68K_UNKNOWN \<and>
                  i_mnemonic t \<noteq> NG_M68K_INVALID \<and> i_mnemonic t \<noteq> NG_M68K_BRA))"

definition ng_m68k_match_pc_index_branch_table ::
  "ng_program_rom \<Rightarrow> ng_m68k_instr \<Rightarrow> ng_m68k_jump_table_pattern option" where
  "ng_m68k_match_pc_index_branch_table rom dispatch =
     (if (i_mnemonic dispatch \<noteq> NG_M68K_JMP \<and> i_mnemonic dispatch \<noteq> NG_M68K_JSR) \<or>
         ea_mode (i_src dispatch) \<noteq> NG_M68K_EA_PC_INDEX then None
      else
        let table = ea_absolute_addr (i_src dispatch) AND 0x00FFFFFF
        in Some (jump_table_zero
             \<lparr>jt_table_addr := table, jt_index_reg := ea_index_reg (i_src dispatch), jt_target_reg := 0,
              jt_entry_kind := NG_M68K_JUMP_TABLE_ENTRY_ADDRESS,
              jt_include_terminal_entry :=
                (if branch_table_terminal_entry_is_inline_body rom table then 1 else 0)\<rparr>))"

definition is_self_add_word :: "ng_m68k_instr \<Rightarrow> u8 \<Rightarrow> bool" where
  "is_self_add_word i reg \<longleftrightarrow>
     i_mnemonic i = NG_M68K_ADD \<and> i_size i = 2 \<and> ea_mode (i_src i) = NG_M68K_EA_DREG \<and>
     ea_mode (i_dst i) = NG_M68K_EA_DREG \<and> ea_reg (i_src i) = reg \<and> ea_reg (i_dst i) = reg"

definition inline_code_entry_is_repeated :: "ng_program_rom \<Rightarrow> u32 \<Rightarrow> u32 option" where
  "inline_code_entry_is_repeated rom table_addr =
     (if \<not> ng_program_rom_addr_is_mapped rom table_addr \<or>
         \<not> ng_program_rom_addr_is_mapped rom (table_addr + 7) then None
      else case ng_m68k_decode rom table_addr of (ok1, first) \<Rightarrow>
        if \<not> ok1 \<or> \<not> ng_m68k_validate first \<or> i_mnemonic first = NG_M68K_BRA \<or>
           i_mnemonic first = NG_M68K_BSR \<or> i_mnemonic first = NG_M68K_JMP \<or>
           i_mnemonic first = NG_M68K_JSR \<or> i_mnemonic first = NG_M68K_RTS \<or>
           i_mnemonic first = NG_M68K_RTE \<or> i_mnemonic first = NG_M68K_RTR \<or>
           i_byte_length first = 0 \<or> 4 \<le> i_byte_length first then None
        else case ng_m68k_decode rom (table_addr + ucast (i_byte_length first)) of (ok2, second) \<Rightarrow>
          if \<not> ok2 \<or> \<not> ng_m68k_validate second \<or> i_byte_length second = 0 \<or>
             unat (i_byte_length first) + unat (i_byte_length second) \<noteq> 4 then None
          else
            let signature = ng_program_rom_read32 rom table_addr
            in if ng_program_rom_read32 rom (table_addr + 4) \<noteq> signature then None
               else Some signature)"

definition ng_m68k_match_pc_index_inline_code_table ::
  "ng_program_rom \<Rightarrow> ng_m68k_instr \<Rightarrow> ng_m68k_instr \<Rightarrow> ng_m68k_jump_table_pattern option" where
  "ng_m68k_match_pc_index_inline_code_table rom previous dispatch =
     (if i_mnemonic dispatch \<noteq> NG_M68K_JMP \<or> ea_mode (i_src dispatch) \<noteq> NG_M68K_EA_PC_INDEX \<or>
         \<not> is_self_add_word previous (ea_index_reg (i_src dispatch)) then None
      else
        let table_addr = ea_absolute_addr (i_src dispatch) AND 0x00FFFFFF
        in case inline_code_entry_is_repeated rom table_addr of None \<Rightarrow> None
           | Some signature \<Rightarrow>
               Some (jump_table_zero
                 \<lparr>jt_table_addr := table_addr, jt_index_reg := ea_index_reg (i_src dispatch),
                  jt_target_reg := 0, jt_entry_size := 4,
                  jt_entry_kind := NG_M68K_JUMP_TABLE_ENTRY_INLINE_CODE, jt_entry_signature := signature\<rparr>))"

definition is_direct_dispatch_entry :: "ng_m68k_instr \<Rightarrow> ng_m68k_mnemonic \<Rightarrow> u8 \<Rightarrow> bool" where
  "is_direct_dispatch_entry i mnemonic byte_length \<longleftrightarrow>
     (if i_mnemonic i \<noteq> mnemonic \<or> i_byte_length i = 0 \<or> i_byte_length i \<noteq> byte_length then False
      else case ea_mode (i_src i) of
        NG_M68K_EA_ABS_W \<Rightarrow> True | NG_M68K_EA_ABS_L \<Rightarrow> True | NG_M68K_EA_PC_DISP \<Rightarrow> True | _ \<Rightarrow> False)"

definition ng_m68k_match_repeated_direct_dispatch_table ::
  "ng_program_rom \<Rightarrow> ng_m68k_instr \<Rightarrow> ng_m68k_jump_table_pattern option" where
  "ng_m68k_match_repeated_direct_dispatch_table rom dispatch =
     (if i_mnemonic dispatch \<noteq> NG_M68K_JMP \<or> i_byte_length dispatch = 0 \<or>
         \<not> is_direct_dispatch_entry dispatch (i_mnemonic dispatch) (i_byte_length dispatch) then None
      else
        let second_addr = i_addr dispatch + ucast (i_byte_length dispatch);
            third_addr = second_addr + ucast (i_byte_length dispatch)
        in case (ng_m68k_decode rom second_addr, ng_m68k_decode rom third_addr) of
          ((ok2, second), (ok3, third)) \<Rightarrow>
            if \<not> ok2 \<or> \<not> ng_m68k_validate second \<or>
               \<not> is_direct_dispatch_entry second (i_mnemonic dispatch) (i_byte_length dispatch) \<or>
               \<not> ok3 \<or> \<not> ng_m68k_validate third \<or>
               \<not> is_direct_dispatch_entry third (i_mnemonic dispatch) (i_byte_length dispatch) then None
            else Some (jump_table_zero
                   \<lparr>jt_table_addr := i_addr dispatch, jt_entry_size := i_byte_length dispatch,
                    jt_entry_kind := NG_M68K_JUMP_TABLE_ENTRY_DIRECT_DISPATCH\<rparr>))"

end
