(* ===== verification/M68kAnalyzeProps.thy ===== *)
theory M68kAnalyzeProps
  imports M68kAnalyze M68kValidateProps
begin

text \<open>
  The register analyses over a whole instruction sequence: the bounds they claim, what a known address
  register stands for, and what the branch-table scan has seen when it accepts.
\<close>

text \<open>
  A forward analysis: a state, an update per instruction and an invariant the updates keep. Both register
  analyses are one; discovery runs them from the reset state over the instructions of a function in order.
\<close>

locale forward_analysis =
  fixes start :: 's
    and update :: "'s \<Rightarrow> ng_m68k_instr \<Rightarrow> 's"
    and inv :: "'s \<Rightarrow> bool"
  assumes start_inv: "inv start"
    and update_inv: "inv st \<Longrightarrow> inv (update st i)"
begin

lemma run_inv: "inv (foldl update start is)"
  by (induction "is" rule: rev_induct) (simp_all add: start_inv update_inv)

lemma run_inv_from: "inv st \<Longrightarrow> inv (foldl update st is)"
  by (induction "is" rule: rev_induct) (simp_all add: update_inv)

end

subsection \<open>Index bounds\<close>

text \<open>
  A slot of the bound state. \<open>slot_ok\<close> is the invariant of one register; the state is eight slots.
\<close>

record bound_slot =
  s_max :: u32
  s_guarded :: u32
  s_pending :: u32
  s_scale :: u8
  s_valid :: u8
  s_gvalid :: u8
  s_pvalid :: u8

definition slot :: "ng_m68k_index_reg_bound_state \<Rightarrow> nat \<Rightarrow> bound_slot" where
  "slot st r = \<lparr>s_max = ib_max_entries st ! r, s_guarded = ib_guarded_max_entries st ! r,
     s_pending = ib_pending_cmp_entries st ! r, s_scale = ib_scale_bytes st ! r, s_valid = ib_valid st ! r,
     s_gvalid = ib_guarded_valid st ! r, s_pvalid = ib_pending_cmp_valid st ! r\<rparr>"

definition entries_in_range :: "u32 \<Rightarrow> bool" where
  "entries_in_range n \<longleftrightarrow> 1 \<le> n \<and> n \<le> NG_M68K_INDEX_BOUND_MAX_ENTRIES"

definition slot_ok :: "bound_slot \<Rightarrow> bool" where
  "slot_ok s \<longleftrightarrow>
     (s_valid s \<noteq> 0 \<longrightarrow> entries_in_range (s_max s) \<and> s_scale s \<in> {1, 2, 4, 8, 16}) \<and>
     (s_gvalid s \<noteq> 0 \<longrightarrow> entries_in_range (s_guarded s)) \<and>
     (s_pvalid s \<noteq> 0 \<longrightarrow> entries_in_range (s_pending s))"

definition shaped :: "ng_m68k_index_reg_bound_state \<Rightarrow> bool" where
  "shaped st \<longleftrightarrow> length (ib_max_entries st) = 8 \<and> length (ib_guarded_max_entries st) = 8 \<and>
     length (ib_pending_cmp_entries st) = 8 \<and> length (ib_scale_bytes st) = 8 \<and> length (ib_valid st) = 8 \<and>
     length (ib_guarded_valid st) = 8 \<and> length (ib_pending_cmp_valid st) = 8"

definition bounds_ok :: "ng_m68k_index_reg_bound_state \<Rightarrow> bool" where
  "bounds_ok st \<longleftrightarrow> shaped st \<and> (\<forall>r<8. slot_ok (slot st r))"

text \<open>Every operation writes a whole slot.\<close>

definition put_slot :: "ng_m68k_index_reg_bound_state \<Rightarrow> nat \<Rightarrow> bound_slot \<Rightarrow> ng_m68k_index_reg_bound_state" where
  "put_slot st r s =
     \<lparr>ib_max_entries = (ib_max_entries st)[r := s_max s],
      ib_guarded_max_entries = (ib_guarded_max_entries st)[r := s_guarded s],
      ib_pending_cmp_entries = (ib_pending_cmp_entries st)[r := s_pending s],
      ib_scale_bytes = (ib_scale_bytes st)[r := s_scale s], ib_valid = (ib_valid st)[r := s_valid s],
      ib_guarded_valid = (ib_guarded_valid st)[r := s_gvalid s],
      ib_pending_cmp_valid = (ib_pending_cmp_valid st)[r := s_pvalid s]\<rparr>"

lemma put_slot_ok:
  assumes "bounds_ok st" "slot_ok s"
  shows "bounds_ok (put_slot st q s)"
proof -
  have "shaped (put_slot st q s)" using assms(1) by (simp add: bounds_ok_def shaped_def put_slot_def)
  moreover have "slot (put_slot st q s) r = (if r = q then s else slot st r)" if "r < 8" for r
    using assms(1) that by (simp add: bounds_ok_def shaped_def put_slot_def slot_def nth_list_update)
  ultimately show ?thesis using assms by (simp add: bounds_ok_def)
qed

lemma bounds_ok_slot: "bounds_ok st \<Longrightarrow> r < 8 \<Longrightarrow> slot_ok (slot st r)"
  by (simp add: bounds_ok_def)

lemma reset_ok: "bounds_ok ng_m68k_index_reg_bound_reset"
  by (simp add: bounds_ok_def shaped_def slot_ok_def slot_def ng_m68k_index_reg_bound_reset_def)

lemma reg_index: "\<not> 8 \<le> (r :: u8) \<Longrightarrow> unat r < 8" "r < 8 \<Longrightarrow> unat r < 8"
  by (simp_all add: word_le_nat_alt word_less_nat_alt not_le)

definition slot_zero :: bound_slot where
  "slot_zero = \<lparr>s_max = 0, s_guarded = 0, s_pending = 0, s_scale = 0, s_valid = 0, s_gvalid = 0, s_pvalid = 0\<rparr>"

lemma clear_slot: "index_reg_bound_clear st reg = (if 8 \<le> reg then st else put_slot st (unat reg) slot_zero)"
  by (simp add: index_reg_bound_clear_def put_slot_def slot_zero_def Let_def)

lemma clear_ok: "bounds_ok st \<Longrightarrow> bounds_ok (index_reg_bound_clear st reg)"
  by (simp add: clear_slot put_slot_ok slot_ok_def slot_zero_def)

lemma note_cmp_ok:
  assumes "bounds_ok st"
  shows "bounds_ok (index_reg_bound_note_cmp st reg n)"
proof (cases "8 \<le> reg \<or> n = 0 \<or> NG_M68K_INDEX_BOUND_MAX_ENTRIES < n")
  case False
  have "index_reg_bound_note_cmp st reg n =
      put_slot st (unat reg) ((slot st (unat reg))\<lparr>s_pvalid := 1, s_pending := n\<rparr>)"
    using False by (simp add: index_reg_bound_note_cmp_def put_slot_def slot_def)
  moreover have "entries_in_range n"
    using False by (simp add: entries_in_range_def not_less word_le_nat_alt Suc_le_eq unat_gt_0)
  ultimately show ?thesis
    using assms bounds_ok_slot [OF assms reg_index(1), of reg] False by (simp add: put_slot_ok slot_ok_def)
qed (use assms in \<open>simp add: index_reg_bound_note_cmp_def\<close>)

lemma clear_pending_ok:
  assumes "bounds_ok st" "r < 8"
  shows "bounds_ok (clear_pending r st)"
proof -
  have "clear_pending r st = put_slot st r ((slot st r)\<lparr>s_pvalid := 0, s_pending := 0\<rparr>)"
    by (simp add: clear_pending_def put_slot_def slot_def)
  then show ?thesis using assms bounds_ok_slot [OF assms] by (simp add: put_slot_ok slot_ok_def)
qed

lemma guard_in_range:
  assumes "cmp_branch_guard_max_entries c n = Some m" "entries_in_range n"
  shows "entries_in_range m"
proof -
  have "unat (n + 1) = unat n + 1" if "n < NG_M68K_INDEX_BOUND_MAX_ENTRIES"
    using that by (simp add: NG_M68K_INDEX_BOUND_MAX_ENTRIES_def word_less_nat_alt unat_word_ariths)
  then show ?thesis
    using assms by (auto simp: cmp_branch_guard_max_entries_def entries_in_range_def word_le_nat_alt word_less_nat_alt
        split: if_splits)
qed

lemma promote_reg_ok:
  assumes "bounds_ok st" "r < 8"
  shows "bounds_ok (promote_cmp_guard_reg i r st)"
proof -
  have "bounds_ok (st\<lparr>ib_guarded_valid := (ib_guarded_valid st)[r := 1],
      ib_guarded_max_entries := (ib_guarded_max_entries st)[r := m]\<rparr>)" (is "bounds_ok ?st")
    if "ib_pending_cmp_valid st ! r \<noteq> 0"
       "cmp_branch_guard_max_entries (i_condition i) (ib_pending_cmp_entries st ! r) = Some m" for m
  proof -
    have "?st = put_slot st r ((slot st r)\<lparr>s_gvalid := 1, s_guarded := m\<rparr>)" by (simp add: put_slot_def slot_def)
    moreover have "entries_in_range m"
      using guard_in_range [OF that(2)] bounds_ok_slot [OF assms] that(1) by (simp add: slot_ok_def slot_def)
    ultimately show ?thesis using assms bounds_ok_slot [OF assms] by (simp add: put_slot_ok slot_ok_def)
  qed
  then show ?thesis
    using assms by (auto simp: promote_cmp_guard_reg_def intro!: clear_pending_ok split: option.splits)
qed

lemma fold_invariant:
  assumes "P st" "\<And>r st. r \<in> set rs \<Longrightarrow> P st \<Longrightarrow> P (f r st)"
  shows "P (fold f rs st)"
  using assms by (induction rs arbitrary: st) auto

lemma promote_ok: "bounds_ok st \<Longrightarrow> bounds_ok (index_reg_bound_promote_cmp_guard st i)"
  unfolding index_reg_bound_promote_cmp_guard_def
  by (auto intro!: fold_invariant [where P = bounds_ok] clear_pending_ok promote_reg_ok)

lemma clamp_ok:
  assumes "bounds_ok st" "index_reg_bound_apply_guarded_clamp st i = Some st'"
  shows "bounds_ok st'"
proof -
  obtain reg v where m: "instr_moves_immediate_to_dreg i = Some (reg, v)"
    using assms(2) by (auto simp: index_reg_bound_apply_guarded_clamp_def split: option.splits)
  have r: "unat reg < 8"
    using m by (auto simp: instr_moves_immediate_to_dreg_def reg_index split: if_splits)
  let ?s = "slot st (unat reg)"
  have "st' = put_slot st (unat reg) \<lparr>s_max = s_guarded ?s, s_guarded = 0, s_pending = 0, s_scale = 1, s_valid = 1,
      s_gvalid = 0, s_pvalid = 0\<rparr>" "s_gvalid ?s \<noteq> 0"
    using assms(2) m
    by (auto simp: index_reg_bound_apply_guarded_clamp_def Let_def put_slot_def slot_def split: if_splits)
  with assms(1) bounds_ok_slot [OF assms(1) r] show ?thesis by (simp add: put_slot_ok slot_ok_def)
qed

lemma scale_ok:
  assumes "bounds_ok st" "n < 8"
  shows "bounds_ok (scale_or_clear st reg (push_bit n 1))"
proof (cases "8 \<le> reg \<or> ib_valid st ! unat reg = 0")
  case True
  then show ?thesis using assms(1) by (auto simp: scale_or_clear_def index_reg_bound_scale_def clear_ok)
next
  case False
  let ?s = "slot st (unat reg)"
  define f :: u32 where "f = push_bit n 1"
  have r: "unat reg < 8" using False by (simp add: reg_index)
  have s: "s_scale ?s \<in> {1, 2, 4, 8, 16}" "entries_in_range (s_max ?s)"
    using bounds_ok_slot [OF assms(1) r] False by (auto simp: slot_ok_def slot_def)
  have ok: "bounds_ok (st\<lparr>ib_scale_bytes := (ib_scale_bytes st)[unat reg := ucast (ucast (ib_scale_bytes st ! unat reg) * f)]\<rparr>)"
    if "\<not> 16 < ucast (ib_scale_bytes st ! unat reg) * f" "f \<noteq> 0"
      "\<not> 0xFFFFFFFF div f < ucast (ib_scale_bytes st ! unat reg)"
  proof -
    have "(ucast (ucast (s_scale ?s) * f) :: u8) \<in> {1, 2, 4, 8, 16}"
    proof -
      have "n \<in> {0, 1, 2, 3, 4, 5, 6, 7}" using assms(2) by auto
      with s(1) that(1) show ?thesis unfolding f_def slot_def by (elim insertE emptyE) simp_all
    qed
    moreover have "st\<lparr>ib_scale_bytes := (ib_scale_bytes st)[unat reg := x]\<rparr> = put_slot st (unat reg) (?s\<lparr>s_scale := x\<rparr>)" for x
      by (simp add: put_slot_def slot_def)
    ultimately show ?thesis
      using assms bounds_ok_slot [OF assms(1) r] by (simp add: put_slot_ok slot_ok_def slot_def)
  qed
  show ?thesis
    unfolding f_def [symmetric]
    using assms ok by (auto simp: scale_or_clear_def index_reg_bound_scale_def Let_def clear_ok)
qed


lemma transfer_ok:
  assumes "bounds_ok st"
  shows "bounds_ok (index_reg_bound_transfer st i)"
proof -
  let ?r = "unat (ea_reg (i_dst i))" and ?s = "slot st (unat (ea_reg (i_dst i)))"
  have andi: "bounds_ok (st\<lparr>ib_max_entries := (ib_max_entries st)[?r := m],
      ib_scale_bytes := (ib_scale_bytes st)[?r := 1], ib_valid := (ib_valid st)[?r := 1]\<rparr>)" (is "bounds_ok ?st")
    if "ea_reg (i_dst i) < 8" "entries_in_range m" for m
  proof -
    have "?st = put_slot st ?r (?s\<lparr>s_max := m, s_scale := 1, s_valid := 1\<rparr>)" by (simp add: put_slot_def slot_def)
    then show ?thesis using assms bounds_ok_slot [OF assms reg_index(2) [OF that(1)]] that(2)
      by (simp add: put_slot_ok slot_ok_def)
  qed
  have imm: "entries_in_range (i_immediate i + 1)" if "i_immediate i < NG_M68K_INDEX_BOUND_MAX_ENTRIES"
    using that by (simp add: NG_M68K_INDEX_BOUND_MAX_ENTRIES_def entries_in_range_def word_less_nat_alt
        word_le_nat_alt unat_word_ariths)
  have guard: "entries_in_range (ib_guarded_max_entries st ! ?r)" if "ea_reg (i_dst i) < 8" "ib_guarded_valid st ! ?r \<noteq> 0"
    using that bounds_ok_slot [OF assms reg_index(2) [OF that(1)]] by (simp add: slot_ok_def slot_def)
  have two: "bounds_ok (scale_or_clear st reg 2)" for reg
    using scale_ok [OF assms, of 1 reg] by simp
  have shift: "bounds_ok (scale_or_clear st reg (push_bit (unat (i_immediate i)) 1))" if "i_immediate i < 8" for reg
    using scale_ok [OF assms, of "unat (i_immediate i)" reg] that by (simp add: word_less_nat_alt)
  show ?thesis
    unfolding index_reg_bound_transfer_def Let_def
    using assms andi imm guard two shift clear_ok by (simp split: option.splits)
qed

lemma update_ok: "bounds_ok st \<Longrightarrow> bounds_ok (ng_m68k_index_reg_bound_update st i)"
  unfolding ng_m68k_index_reg_bound_update_def
  by (auto simp: Let_def reset_ok note_cmp_ok promote_ok transfer_ok intro: clamp_ok [OF promote_ok] split: option.splits)

interpretation index_bounds: forward_analysis
  ng_m68k_index_reg_bound_reset ng_m68k_index_reg_bound_update bounds_ok
  by unfold_locales (rule reset_ok, rule update_ok)

subsection \<open>Known address registers\<close>

text \<open>The value the analysis knows for a register.\<close>

definition known_areg :: "ng_m68k_static_areg_state \<Rightarrow> u8 \<Rightarrow> u32 option" where
  "known_areg st r = (if sa_valid st ! unat r \<noteq> 0 then Some (sa_target st ! unat r) else None)"

text \<open>The specification, on the instructions already seen, latest first.\<close>

primrec last_load :: "u8 \<Rightarrow> ng_m68k_instr list \<Rightarrow> u32 option" where
  "last_load r [] = None"
| "last_load r (i # earlier) =
     (if i_mnemonic i = NG_M68K_JSR \<or> i_mnemonic i = NG_M68K_BSR then
        if r = 0 \<or> r = 1 \<or> r = 7 then None else last_load r earlier
      else case static_areg_load_target i of
        Some (r', t) \<Rightarrow> if r' = r then Some t else last_load r earlier
      | None \<Rightarrow> if instr_writes_areg i = Some r then None else last_load r earlier)"

definition areg_shaped :: "ng_m68k_static_areg_state \<Rightarrow> bool" where
  "areg_shaped st \<longleftrightarrow> length (sa_target st) = 8 \<and> length (sa_valid st) = 8"

lemma areg_step:
  assumes "areg_shaped st" "r < 8"
  shows "areg_shaped (ng_m68k_static_areg_update st i)"
    and "known_areg (ng_m68k_static_areg_update st i) r =
      (if i_mnemonic i = NG_M68K_JSR \<or> i_mnemonic i = NG_M68K_BSR then
         if r = 0 \<or> r = 1 \<or> r = 7 then None else known_areg st r
       else case static_areg_load_target i of
         Some (r', t) \<Rightarrow> if r' = r then Some t else known_areg st r
       | None \<Rightarrow> if instr_writes_areg i = Some r then None else known_areg st r)"
proof -
  have u: "unat q = unat p \<longleftrightarrow> q = p" for q p :: u8 by (simp add: word_unat_eq_iff)
  have r: "unat r < 8" using assms(2) by (rule reg_index)
  have w: "instr_writes_areg i = Some q" if "static_areg_load_target i = Some (q, t)" for q t
    using that by (auto simp: static_areg_load_target_def instr_writes_areg_def split: if_splits)
  have z: "unat r = 0 \<longleftrightarrow> r = 0" "unat r = 1 \<longleftrightarrow> r = 1" "unat r = 7 \<longleftrightarrow> r = 7"
    by (simp_all add: word_unat_eq_iff)
  show "areg_shaped (ng_m68k_static_areg_update st i)"
    using assms(1) by (auto simp: ng_m68k_static_areg_update_def areg_shaped_def Let_def split: option.splits)
  show "known_areg (ng_m68k_static_areg_update st i) r =
      (if i_mnemonic i = NG_M68K_JSR \<or> i_mnemonic i = NG_M68K_BSR then
         if r = 0 \<or> r = 1 \<or> r = 7 then None else known_areg st r
       else case static_areg_load_target i of
         Some (r', t) \<Rightarrow> if r' = r then Some t else known_areg st r
       | None \<Rightarrow> if instr_writes_areg i = Some r then None else known_areg st r)"
  proof (cases "i_mnemonic i = NG_M68K_JSR \<or> i_mnemonic i = NG_M68K_BSR")
    case True
    then show ?thesis using assms(1) r z
      by (auto simp: ng_m68k_static_areg_update_def known_areg_def areg_shaped_def nth_list_update)
  next
    case False
    then show ?thesis using assms r w
      by (auto simp: ng_m68k_static_areg_update_def known_areg_def areg_shaped_def nth_list_update Let_def u
          split: option.splits)
  qed
qed


interpretation static_aregs: forward_analysis
  ng_m68k_static_areg_reset ng_m68k_static_areg_update areg_shaped
proof
  show "areg_shaped ng_m68k_static_areg_reset" by (simp add: areg_shaped_def ng_m68k_static_areg_reset_def)
  show "areg_shaped st \<Longrightarrow> areg_shaped (ng_m68k_static_areg_update st i)" for st i
    using areg_step(1) [of st 0 i] by simp
qed

subsection \<open>The branch-table scan\<close>

text \<open>What the scan has seen: \<open>entry_count\<close> branches of \<open>entry_size\<close> bytes each, back to back from \<open>a\<close>.\<close>

definition scanned :: "ng_program_rom \<Rightarrow> u32 \<Rightarrow> branch_scan \<Rightarrow> bool" where
  "scanned rom a s \<longleftrightarrow>
     bs_entry_addr s = a + of_nat (unat (bs_entry_count s) * unat (bs_entry_size s)) \<and>
     (bs_entry_count s = 0 \<longleftrightarrow> bs_entry_size s = 0) \<and>
     (\<forall>k<unat (bs_entry_count s). \<exists>e.
        ng_m68k_decode rom (a + of_nat (k * unat (bs_entry_size s))) = (True, e) \<and> ng_m68k_validate e \<and>
        i_mnemonic e = NG_M68K_BRA \<and> ucast (i_byte_length e) = bs_entry_size s)"

lemma byte_up_unat: "unat (ucast (x :: u8) :: u32) = unat x"
  by (simp add: unat_ucast_up)

lemma byte_up_eq: "ucast (x :: u8) = (ucast y :: u32) \<longleftrightarrow> x = y"
  by (simp add: word_unat_eq_iff unat_ucast_up)

lemma byte_up_zero: "ucast (x :: u8) = (0 :: u32) \<longleftrightarrow> x = 0"
  using byte_up_eq [of x 0] by simp

lemma scan_correct:
  assumes "branch_table_scan rom n s = Some s'" "scanned rom a s" "unat (bs_entry_count s) + n \<le> 32"
  shows "scanned rom a s' \<and> unat (bs_entry_count s') \<le> unat (bs_entry_count s) + n"
  using assms
proof (induction n arbitrary: s)
  case (Suc n)
  obtain ok e where d: "ng_m68k_decode rom (bs_entry_addr s) = (ok, e)" by fastforce
  show ?case
  proof (cases "\<not> ok \<or> \<not> ng_m68k_validate e \<or> i_mnemonic e \<noteq> NG_M68K_BRA \<or> i_byte_length e = 0 \<or>
      (bs_entry_size s \<noteq> 0 \<and> ucast (i_byte_length e) \<noteq> bs_entry_size s)")
    case True
    then have "s' = s" using Suc.prems(1) d by (auto split: if_splits)
    then show ?thesis using Suc.prems(2) by simp
  next
    case False
    define sz :: u32 where "sz = (if bs_entry_size s = 0 then ucast (i_byte_length e) else bs_entry_size s)"
    define t where "t = s\<lparr>bs_entry_size := sz, bs_last_target := i_target e AND 0x00FFFFFF,
        bs_entry_count := bs_entry_count s + 1, bs_entry_addr := bs_entry_addr s + sz\<rparr>"
    have run: "branch_table_scan rom n t = Some s'"
      using Suc.prems(1) d False by (auto simp: t_def sz_def Let_def split: if_splits)
    have c: "unat (bs_entry_count s + 1) = unat (bs_entry_count s) + 1"
      using Suc.prems(3) by (simp add: unat_word_ariths)
    have sz: "ucast (i_byte_length e) = sz" "sz \<noteq> 0"
      using False by (auto simp: sz_def byte_up_zero)
    have size: "bs_entry_count s \<noteq> 0 \<Longrightarrow> bs_entry_size s = sz"
      using Suc.prems(2) by (simp add: scanned_def sz_def)
    have "scanned rom a t"
      unfolding scanned_def
    proof (intro conjI allI impI)
      show addr: "bs_entry_addr t = a + of_nat (unat (bs_entry_count t) * unat (bs_entry_size t))"
        using Suc.prems(2) size by (cases "bs_entry_count s = 0") (simp_all add: scanned_def t_def c algebra_simps)
      show "(bs_entry_count t = 0) = (bs_entry_size t = 0)"
        using c sz(2) unat_eq_zero [of "bs_entry_count s + 1"] by (simp add: t_def)
      fix k assume "k < unat (bs_entry_count t)"
      then consider "k < unat (bs_entry_count s)" | "k = unat (bs_entry_count s)" by (auto simp: t_def c less_Suc_eq)
      then show "\<exists>e. ng_m68k_decode rom (a + of_nat (k * unat (bs_entry_size t))) = (True, e) \<and>
          ng_m68k_validate e \<and> i_mnemonic e = NG_M68K_BRA \<and> ucast (i_byte_length e) = bs_entry_size t"
      proof cases
        case 1
        then show ?thesis using Suc.prems(2) size by (auto simp: scanned_def t_def)
      next
        case 2
        have "bs_entry_addr s = a + of_nat (k * unat sz)"
          using Suc.prems(2) size 2 by (cases "bs_entry_count s = 0") (auto simp: scanned_def)
        then show ?thesis using d False sz by (auto simp: t_def)
      qed
    qed
    moreover have "unat (bs_entry_count t) = unat (bs_entry_count s) + 1" by (simp add: t_def c)
    ultimately show ?thesis using Suc.IH [OF run] Suc.prems(3) by simp
  qed
qed simp


subsection \<open>Properties\<close>

text \<open>
  C35 (invariant): after any sequence of instructions from a reset, every register the index analysis calls
  bounded has between 1 and 64 entries and a scale of 1, 2, 4, 8 or 16 bytes, every compare bound and guard it
  remembers is between 1 and 64, and a jump-table pattern without a bound gets one of at most 64 entries,
  and only for a register whose tracked scale is the table's entry size.
\<close>

theorem index_bounds_in_range:
  fixes "is" :: "ng_m68k_instr list"
  defines "st \<equiv> foldl ng_m68k_index_reg_bound_update ng_m68k_index_reg_bound_reset is"
  shows "bounds_ok st \<and>
    (let q = ng_m68k_jump_table_apply_index_bound (p\<lparr>jt_max_entries := 0\<rparr>) st in
     jt_max_entries q \<le> 64 \<and>
     (jt_max_entries q \<noteq> 0 \<longrightarrow> jt_index_reg p < 8 \<and>
        ib_scale_bytes st ! unat (jt_index_reg p) = jt_entry_size p))"
proof -
  have ok: "bounds_ok st" unfolding st_def by (rule index_bounds.run_inv)
  have "ib_max_entries st ! unat r \<le> 64" if "\<not> 8 \<le> r" "ib_valid st ! unat r \<noteq> 0" for r :: u8
    using bounds_ok_slot [OF ok reg_index(1) [OF that(1)]] that(2)
    by (simp add: slot_ok_def slot_def entries_in_range_def NG_M68K_INDEX_BOUND_MAX_ENTRIES_def)
  with ok show ?thesis by (simp add: ng_m68k_jump_table_apply_index_bound_def Let_def not_le)
qed

theorem index_bounds_in_range_witness:
  "bounds_ok (foldl ng_m68k_index_reg_bound_update ng_m68k_index_reg_bound_reset
     [instr_zero\<lparr>i_mnemonic := NG_M68K_ANDI, i_immediate := 7, i_dst := ea_zero\<lparr>ea_mode := NG_M68K_EA_DREG\<rparr>\<rparr>])"
  using index_bounds_in_range [of "[instr_zero\<lparr>i_mnemonic := NG_M68K_ANDI, i_immediate := 7,
    i_dst := ea_zero\<lparr>ea_mode := NG_M68K_EA_DREG\<rparr>\<rparr>]" jump_table_zero] by simp

text \<open>
  The address-register analysis implements its specification. After any instruction
  sequence, the constant it holds for a register is the one the latest static load (\<open>LEA\<close> of a fixed address,
  \<open>MOVEA.L #imm\<close>) put there, provided no later instruction it counts as a write of that register and, for
  A0, A1 and A7, no later call; otherwise it holds none.
\<close>

theorem static_areg_is_last_load:
  assumes "r < 8"
  shows "known_areg (foldl ng_m68k_static_areg_update ng_m68k_static_areg_reset is) r = last_load r (rev is)"
proof (induction "is" rule: rev_induct)
  case Nil
  then show ?case using reg_index(2) [OF assms] by (simp add: known_areg_def ng_m68k_static_areg_reset_def)
next
  case (snoc i "is")
  then show ?case
    by (simp only: foldl_append foldl_Cons foldl_Nil rev_append rev.simps append.simps last_load.simps
        areg_step(2) [OF static_aregs.run_inv assms])
qed

theorem static_areg_is_last_load_witness:
  "known_areg (foldl ng_m68k_static_areg_update ng_m68k_static_areg_reset
     [instr_zero\<lparr>i_mnemonic := NG_M68K_LEA, i_target := 0x1234, i_src := ea_zero\<lparr>ea_mode := NG_M68K_EA_ABS_W\<rparr>,
        i_dst := ea_zero\<lparr>ea_mode := NG_M68K_EA_AREG, ea_reg := 2\<rparr>\<rparr>, instr_zero\<lparr>i_mnemonic := NG_M68K_BSR\<rparr>]) 2 =
   Some 0x1234"
  by (subst static_areg_is_last_load)
    (simp_all add: static_areg_load_target_def has_static_code_target_def)

text \<open>
  When the scan of a PC-indexed branch table reports an inline body after the table, the
  table is what it took it for: between 8 and 32 valid \<open>BRA\<close> instructions of one size back to back from the
  table address, followed by a valid instruction that is not a \<open>BRA\<close>.
\<close>

theorem branch_table_scan_sound:
  assumes "branch_table_terminal_entry_is_inline_body rom a"
  shows "\<exists>n sz. 8 \<le> n \<and> n \<le> 32 \<and> 0 < sz \<and>
    (\<forall>k<n. \<exists>e. ng_m68k_decode rom (a + of_nat (k * unat sz)) = (True, e) \<and> ng_m68k_validate e \<and>
       i_mnemonic e = NG_M68K_BRA \<and> i_byte_length e = sz) \<and>
    (\<exists>t. ng_m68k_decode rom (a + of_nat (n * unat sz)) = (True, t) \<and> ng_m68k_validate t \<and>
       i_mnemonic t \<noteq> NG_M68K_BRA)"
proof -
  obtain s where s: "branch_table_scan rom 32
       \<lparr>bs_entry_addr = a, bs_entry_size = 0, bs_entry_count = 0, bs_last_target = 0\<rparr> = Some s"
    and c: "\<not> bs_entry_count s < 8" "bs_entry_size s \<noteq> 0"
    and t: "\<exists>t. ng_m68k_decode rom (bs_entry_addr s) = (True, t) \<and> ng_m68k_validate t \<and> i_mnemonic t \<noteq> NG_M68K_BRA"
    using assms by (auto simp: branch_table_terminal_entry_is_inline_body_def split: option.splits if_splits)
  have g: "scanned rom a s" "unat (bs_entry_count s) \<le> 32"
    using scan_correct [OF s, of a] by (auto simp: scanned_def)
  have n: "8 \<le> unat (bs_entry_count s)" using c(1) by (simp add: word_less_nat_alt)
  then have "0 < unat (bs_entry_count s)" by linarith
  then obtain e0 :: ng_m68k_instr where e0: "ucast (i_byte_length e0) = bs_entry_size s"
    using g(1) unfolding scanned_def by blast
  define sz where "sz = i_byte_length e0"
  have sz: "bs_entry_size s = ucast sz" unfolding sz_def by (rule e0 [symmetric])
  have "0 < sz" using c(2) by (simp add: sz byte_up_zero word_neq_0_conv)
  moreover have "\<forall>k<unat (bs_entry_count s). \<exists>e. ng_m68k_decode rom (a + of_nat (k * unat sz)) = (True, e) \<and>
      ng_m68k_validate e \<and> i_mnemonic e = NG_M68K_BRA \<and> i_byte_length e = sz"
    using g(1) unfolding scanned_def sz byte_up_eq byte_up_unat by blast
  moreover have "\<exists>t. ng_m68k_decode rom (a + of_nat (unat (bs_entry_count s) * unat sz)) = (True, t) \<and>
      ng_m68k_validate t \<and> i_mnemonic t \<noteq> NG_M68K_BRA"
    using t g(1) unfolding scanned_def sz byte_up_unat by simp
  ultimately show ?thesis using n g(2) by blast
qed

text \<open>A table of eight \<open>BRA.S\<close> entries in front of an \<open>RTS\<close>.\<close>

definition sample_table :: ng_program_rom where
  "sample_table = rom_zero\<lparr>rom_data := [0x60, 0x10, 0x60, 0x10, 0x60, 0x10, 0x60, 0x10, 0x60, 0x10, 0x60, 0x10,
     0x60, 0x10, 0x60, 0x10, 0x4E, 0x75], rom_size := 18\<rparr>"

definition sample_bra :: "u32 \<Rightarrow> ng_m68k_instr" where
  "sample_bra a = instr_zero\<lparr>i_addr := a, i_opcode := 0x6010, i_mnemonic := NG_M68K_BRA, i_byte_length := 2,
     i_displacement := 0x10, i_target := ucast (18 + (ucast a :: u64))\<rparr>"

definition sample_rts :: "u32 \<Rightarrow> ng_m68k_instr" where
  "sample_rts a = instr_zero\<lparr>i_addr := a, i_opcode := 0x4E75, i_mnemonic := NG_M68K_RTS, i_byte_length := 2\<rparr>"

lemma decode_sample:
  assumes "ng_program_rom_addr_is_mapped rom a" "ng_program_rom_addr_is_mapped rom (1 + a)" "a \<le> 1 + a"
  shows "ng_program_rom_read16 rom a = 0x6010 \<Longrightarrow> ng_m68k_decode rom a = (True, sample_bra a)"
    and "ng_program_rom_read16 rom a = 0x4E75 \<Longrightarrow> ng_m68k_decode rom a = (True, sample_rts a)"
  using assms
  by (simp_all add: decode_unfold decode_with_def decode_body_def add.commute [of a]
     finish_decode_def sample_bra_def sample_rts_def stage_list_defs of_helper_def helper_defs control_defs
     field_defs Let_def populate_branch_target_def sign8_def instr_zero_def not_less)

lemma sample_table_decode:
  "a \<in> {0, 2, 4, 6, 8, 10, 12, 14} \<Longrightarrow> ng_m68k_decode sample_table a = (True, sample_bra a)"
  "ng_m68k_decode sample_table 16 = (True, sample_rts 16)"
proof -
  show "ng_m68k_decode sample_table a = (True, sample_bra a)" if "a \<in> {0, 2, 4, 6, 8, 10, 12, 14}"
    using that
    by (intro decode_sample; elim insertE emptyE; hypsubst; simp add: sample_table_def rom_reader.rd16_bytes
        ng_program_rom_read8_def be16_def rom_zero_def ng_program_rom_addr_is_mapped_def
        ng_program_rom_translate_addr_def word_le_nat_alt)
  show "ng_m68k_decode sample_table 16 = (True, sample_rts 16)"
    by (intro decode_sample; simp add: sample_table_def rom_reader.rd16_bytes
        ng_program_rom_read8_def be16_def rom_zero_def ng_program_rom_addr_is_mapped_def
        ng_program_rom_translate_addr_def word_le_nat_alt)
qed

lemma sample_table_valid:
  "a \<in> {0, 2, 4, 6, 8, 10, 12, 14} \<Longrightarrow> ng_m68k_validate (sample_bra a)" "ng_m68k_validate (sample_rts 16)"
proof -
  have valid: "ng_m68k_validate i" if "ng_m68k_decode sample_table b = (True, i)" "i_mnemonic i \<noteq> NG_M68K_UNKNOWN" for b i
    using decode_body_accepted [of sample_table b] that by (simp add: decode_eq_True accepted_def)
  show "a \<in> {0, 2, 4, 6, 8, 10, 12, 14} \<Longrightarrow> ng_m68k_validate (sample_bra a)" "ng_m68k_validate (sample_rts 16)"
    using valid [OF sample_table_decode(1)] valid [OF sample_table_decode(2)]
    by (simp_all add: sample_bra_def sample_rts_def)
qed

lemma sample_table_scan:
  "a \<in> {0, 2, 4, 6, 8, 10, 12, 14} \<Longrightarrow> z = 0 \<or> z = 2 \<Longrightarrow>
   branch_table_scan sample_table (Suc n)
       \<lparr>bs_entry_addr = a, bs_entry_size = z, bs_entry_count = c, bs_last_target = t\<rparr> =
     branch_table_scan sample_table n
       \<lparr>bs_entry_addr = a + 2, bs_entry_size = 2, bs_entry_count = c + 1,
        bs_last_target = ucast (18 + (ucast a :: u64)) AND 0x00FFFFFF\<rparr>"
  "branch_table_scan sample_table (Suc n)
       \<lparr>bs_entry_addr = 16, bs_entry_size = z, bs_entry_count = c, bs_last_target = t\<rparr> =
     Some \<lparr>bs_entry_addr = 16, bs_entry_size = z, bs_entry_count = c, bs_last_target = t\<rparr>"
proof -
  assume a: "a \<in> {0, 2, 4, 6, 8, 10, 12, 14}" and z: "z = 0 \<or> z = 2"
  have "\<not> 0xFFFFFFFF - a < 2" using a by auto
  then show "branch_table_scan sample_table (Suc n)
       \<lparr>bs_entry_addr = a, bs_entry_size = z, bs_entry_count = c, bs_last_target = t\<rparr> =
     branch_table_scan sample_table n
       \<lparr>bs_entry_addr = a + 2, bs_entry_size = 2, bs_entry_count = c + 1,
        bs_last_target = ucast (18 + (ucast a :: u64)) AND 0x00FFFFFF\<rparr>"
    using z sample_table_valid(1) [OF a] sample_table_decode(1) [OF a]
    by (auto simp: sample_bra_def Let_def)
qed (simp add: sample_table_decode sample_rts_def)

lemma sample_table_accepted: "branch_table_terminal_entry_is_inline_body sample_table 0"
proof -
  note step = sample_table_scan [where n = "pred_numeral v" for v, folded numeral_eq_Suc]
  have "branch_table_scan sample_table 32
       \<lparr>bs_entry_addr = 0, bs_entry_size = 0, bs_entry_count = 0, bs_last_target = 0\<rparr> =
     Some \<lparr>bs_entry_addr = 16, bs_entry_size = 2, bs_entry_count = 8, bs_last_target = 32\<rparr>"
    by (simp add: step del: branch_table_scan.simps)
  then show ?thesis
    by (simp add: branch_table_terminal_entry_is_inline_body_def sample_table_decode sample_table_valid(2))
      (simp add: sample_rts_def)
qed

theorem branch_table_scan_sound_witness:
  "\<exists>n sz. 8 \<le> n \<and> n \<le> 32 \<and> 0 < sz \<and>
     (\<forall>k<n. \<exists>e. ng_m68k_decode sample_table (of_nat (k * unat sz)) = (True, e) \<and> i_mnemonic e = NG_M68K_BRA \<and>
        i_byte_length e = sz)"
  using branch_table_scan_sound [OF sample_table_accepted] by (simp only: add_0) blast

end
