(* ===== verification/RuntimeState.thy ===== *)
theory RuntimeState
  imports Prelude
begin

text \<open>
  The state of the Neo Geo runtime (\<open>runtime/src/neogeo_runtime.c\<close>): its static variables, in
  one record per device. Field names drop the \<open>g_ng_neogeo_\<close> and \<open>g_ng_m68k_\<close> prefixes.

  A RAM array is a function from its index. The index of work RAM, backup RAM and palette RAM is
  an address masked by the code, and that every index stays inside the declared array size is a
  theorem of the bus theory; VRAM has \<open>2 ^ 16\<close> words and a 16-bit index.

  The ROM pointers are options (\<open>None\<close> is the null pointer). Diagnostic output to \<open>stderr\<close> is
  not part of the state; the counter that limits it is.
\<close>

subsection \<open>Constants\<close>

definition NG_NEO_SOUND_COMMAND_QUEUE_CAPACITY :: u32 where
  "NG_NEO_SOUND_COMMAND_QUEUE_CAPACITY = 512"

definition NG_NEO_IRQACK_RESET :: u16 where "NG_NEO_IRQACK_RESET = 0x0001"

definition NG_NEO_IRQACK_TIMER :: u16 where "NG_NEO_IRQACK_TIMER = 0x0002"

definition NG_NEO_IRQACK_VBLANK :: u16 where "NG_NEO_IRQACK_VBLANK = 0x0004"

definition NG_NEO_LSPCMODE_TIMER_ENABLE :: u16 where "NG_NEO_LSPCMODE_TIMER_ENABLE = 0x0010"

definition NG_NEO_LSPCMODE_TIMER_RELOAD_ON_WRITE :: u16 where
  "NG_NEO_LSPCMODE_TIMER_RELOAD_ON_WRITE = 0x0020"

definition NG_NEO_LSPCMODE_TIMER_RELOAD_ON_FRAME :: u16 where
  "NG_NEO_LSPCMODE_TIMER_RELOAD_ON_FRAME = 0x0040"

definition NG_NEO_LSPCMODE_TIMER_RELOAD_ON_ZERO :: u16 where
  "NG_NEO_LSPCMODE_TIMER_RELOAD_ON_ZERO = 0x0080"

definition NG_NEO_NTSC_PIXELS_PER_SCANLINE :: u32 where "NG_NEO_NTSC_PIXELS_PER_SCANLINE = 384"

definition NG_NEO_NTSC_SCANLINES_PER_FRAME :: u32 where "NG_NEO_NTSC_SCANLINES_PER_FRAME = 264"

definition NG_NEO_CPU_CYCLES_PER_SCANLINE :: u32 where "NG_NEO_CPU_CYCLES_PER_SCANLINE = 768"

definition NG_NEO_PALETTE_BANK_BYTES :: u32 where "NG_NEO_PALETTE_BANK_BYTES = 0x2000"

definition NG_NEO_PALETTE_RAM_BYTES :: u32 where "NG_NEO_PALETTE_RAM_BYTES = 0x4000"

definition NG_NEO_BACKUP_RAM_BYTES :: u32 where "NG_NEO_BACKUP_RAM_BYTES = 0x10000"

definition NG_NEO_SYSTEM_ROM_BYTES :: u32 where "NG_NEO_SYSTEM_ROM_BYTES = 0x20000"

definition NG_NEO_WORK_RAM_BYTES :: u32 where "NG_NEO_WORK_RAM_BYTES = 0x10000"

lemmas timer_bits = NG_NEO_LSPCMODE_TIMER_ENABLE_def NG_NEO_LSPCMODE_TIMER_RELOAD_ON_WRITE_def
  NG_NEO_LSPCMODE_TIMER_RELOAD_ON_FRAME_def NG_NEO_LSPCMODE_TIMER_RELOAD_ON_ZERO_def

lemmas irq_bits = NG_NEO_IRQACK_RESET_def NG_NEO_IRQACK_TIMER_def NG_NEO_IRQACK_VBLANK_def

lemmas ntsc_consts = NG_NEO_NTSC_PIXELS_PER_SCANLINE_def NG_NEO_NTSC_SCANLINES_PER_FRAME_def
  NG_NEO_CPU_CYCLES_PER_SCANLINE_def

lemmas ram_sizes = NG_NEO_PALETTE_BANK_BYTES_def NG_NEO_PALETTE_RAM_BYTES_def
  NG_NEO_BACKUP_RAM_BYTES_def NG_NEO_SYSTEM_ROM_BYTES_def NG_NEO_WORK_RAM_BYTES_def

subsection \<open>Records\<close>

record ng_m68k_state =
  m68k_d :: "u32 list"
  m68k_a :: "u32 list"
  m68k_pc :: u32
  m68k_sr :: u16
  m68k_usp :: u32
  m68k_ssp :: u32

record palette_state =
  palette_ram :: "u32 \<Rightarrow> u8"
  palette_bank :: u8
  palette_nonzero_bytes :: u32
  palette_checksum :: u32
  palette_write_count :: u32
  palette_nonzero_write_count :: u32
  palette_last_addr :: u32
  palette_last_value :: u16
  palette_last_bank :: u8
  palette_peak_nonzero_bytes :: u32
  palette_peak_checksum :: u32

record backup_state =
  backup_ram :: "u32 \<Rightarrow> u8"
  backup_ram_unlocked :: u8
  backup_ram_write_count :: u32
  backup_ram_last_addr :: u32
  backup_ram_last_value :: u8

record lspc_state =
  vram :: "u16 \<Rightarrow> u16"
  vram_addr :: u16
  vram_mod :: u16
  lspc_mode :: u16
  last_lspc_write_pc :: u32
  last_lspc_write_addr :: u32
  last_lspc_write_value :: u16
  timer_stop :: u16
  timer_reload_value :: u32
  timer_counter_value :: u32
  timer_counter_loaded :: u8

record input_state =
  p1cnt :: u8
  p2cnt :: u8
  status_a :: u8
  status_b :: u8
  system_input_low :: u8
  status_a_reads :: u32
  dipswitch :: u8

record sound_event =
  event_cpu_cycles :: u64
  event_pc :: u32
  event_command :: u8

record sound_state =
  sound_command :: u8
  sound_reply :: u8
  sound_queue :: "sound_event list"
  queue_head :: u32
  queue_tail :: u32
  queue_count :: u32
  queue_overflows :: u32
  last_sound_pc :: u32
  last_sound_addr :: u32

record watchdog_state =
  watchdog_kicks :: u32
  last_watchdog_pc :: u32
  last_watchdog_addr :: u32
  last_watchdog_value :: u8
  timeout_polls :: u32
  last_kick_poll :: u32
  max_gap_polls :: u32
  timeout_cycles :: u32
  last_kick_cycle :: u64
  max_gap_cycles :: u64
  reset_pc :: u32
  reset_ssp :: u32
  watchdog_resets :: u32
  reset_pending :: u8
  last_reset_pc :: u32
  last_reset_poll :: u32
  last_reset_cycle :: u64

record latch_state =
  shadow_enabled :: u8
  bios_vectors_enabled :: u8
  board_fix_enabled :: u8
  port_output :: u8
  last_port_output_pc :: u32
  last_port_output_addr :: u32
  system_latch_writes :: u32
  last_system_latch_pc :: u32
  last_system_latch_addr :: u32
  last_system_latch_value :: u8
  bios_vector_enable_writes :: u32
  bios_vector_disable_writes :: u32
  last_bios_vector_pc :: u32
  last_bios_vector_addr :: u32
  last_bios_vector_value :: u8

record irq_state =
  interrupt_level :: u8
  interrupt_vector :: u8
  level7_edge :: u8
  irq_pending :: u16
  vblank_interrupts :: u32
  timer_interrupts :: u32
  irq_ack_writes :: u32
  last_irq_ack_pc :: u32
  last_irq_ack_value :: u16
  last_interrupt_return_pc :: u32
  last_interrupt_level :: u8
  last_interrupt_vector :: u8

record timing_state =
  current_scanline :: u16
  frame_count :: u32
  interrupt_polls :: u32
  auto_vblank_interval :: u32
  auto_scanline_interval :: u32
  cpu_cycles :: u64
  scanline_cycle :: u32
  cycle_timing_active :: u8

record runtime =
  m68k :: ng_m68k_state
  program_rom :: "u8 list option"
  program_rom_size :: u32
  system_rom :: "u8 list option"
  system_rom_size :: u32
  work_ram :: "u32 \<Rightarrow> u8"
  palette :: palette_state
  backup :: backup_state
  lspc :: lspc_state
  inputs :: input_state
  sound :: sound_state
  watchdog :: watchdog_state
  latch :: latch_state
  irq :: irq_state
  timing :: timing_state
  read_miss_log_count :: u32

text \<open>The recurring \<open>g_ng_m68k.pc & 0x00FFFFFFu\<close>.\<close>

definition pc24 :: "runtime \<Rightarrow> u32" where
  "pc24 s = m68k_pc (m68k s) AND 0x00FFFFFF"

subsection \<open>Device reset values\<close>

definition palette_zero :: palette_state where
  "palette_zero =
     \<lparr>palette_ram = (\<lambda>_. 0), palette_bank = 0, palette_nonzero_bytes = 0, palette_checksum = 0,
      palette_write_count = 0, palette_nonzero_write_count = 0, palette_last_addr = 0,
      palette_last_value = 0, palette_last_bank = 0, palette_peak_nonzero_bytes = 0,
      palette_peak_checksum = 0\<rparr>"

definition backup_zero :: backup_state where
  "backup_zero =
     \<lparr>backup_ram = (\<lambda>_. 0), backup_ram_unlocked = 0, backup_ram_write_count = 0,
      backup_ram_last_addr = 0, backup_ram_last_value = 0\<rparr>"

definition lspc_zero :: lspc_state where
  "lspc_zero =
     \<lparr>vram = (\<lambda>_. 0), vram_addr = 0, vram_mod = 0, lspc_mode = 0, last_lspc_write_pc = 0,
      last_lspc_write_addr = 0, last_lspc_write_value = 0, timer_stop = 0, timer_reload_value = 0,
      timer_counter_value = 0, timer_counter_loaded = 0\<rparr>"

definition watchdog_zero :: watchdog_state where
  "watchdog_zero =
     \<lparr>watchdog_kicks = 0, last_watchdog_pc = 0, last_watchdog_addr = 0, last_watchdog_value = 0,
      timeout_polls = 0, last_kick_poll = 0, max_gap_polls = 0, timeout_cycles = 0,
      last_kick_cycle = 0, max_gap_cycles = 0, reset_pc = 0, reset_ssp = 0, watchdog_resets = 0,
      reset_pending = 0, last_reset_pc = 0, last_reset_poll = 0, last_reset_cycle = 0\<rparr>"

definition latch_zero :: latch_state where
  "latch_zero =
     \<lparr>shadow_enabled = 0, bios_vectors_enabled = 0, board_fix_enabled = 0, port_output = 0,
      last_port_output_pc = 0, last_port_output_addr = 0, system_latch_writes = 0,
      last_system_latch_pc = 0, last_system_latch_addr = 0, last_system_latch_value = 0,
      bios_vector_enable_writes = 0, bios_vector_disable_writes = 0, last_bios_vector_pc = 0,
      last_bios_vector_addr = 0, last_bios_vector_value = 0\<rparr>"

definition irq_zero :: irq_state where
  "irq_zero =
     \<lparr>interrupt_level = 0, interrupt_vector = 0, level7_edge = 0, irq_pending = 0,
      vblank_interrupts = 0, timer_interrupts = 0, irq_ack_writes = 0, last_irq_ack_pc = 0,
      last_irq_ack_value = 0, last_interrupt_return_pc = 0, last_interrupt_level = 0,
      last_interrupt_vector = 0\<rparr>"

text \<open>The static initialisers of the file: everything zero but the active-low inputs.\<close>

definition event_zero :: sound_event where
  "event_zero = \<lparr>event_cpu_cycles = 0, event_pc = 0, event_command = 0\<rparr>"

definition sound_init :: sound_state where
  "sound_init =
     \<lparr>sound_command = 0, sound_reply = 0xFF, sound_queue = replicate 512 event_zero,
      queue_head = 0, queue_tail = 0, queue_count = 0, queue_overflows = 0,
      last_sound_pc = 0, last_sound_addr = 0\<rparr>"

definition inputs_init :: input_state where
  "inputs_init =
     \<lparr>p1cnt = 0xFF, p2cnt = 0xFF, status_a = 0xBF, status_b = 0xFF, system_input_low = 0xFF,
      status_a_reads = 0, dipswitch = 0xFF\<rparr>"

definition timing_zero :: timing_state where
  "timing_zero =
     \<lparr>current_scanline = 0, frame_count = 0, interrupt_polls = 0, auto_vblank_interval = 0,
      auto_scanline_interval = 0, cpu_cycles = 0, scanline_cycle = 0, cycle_timing_active = 0\<rparr>"

definition m68k_zero :: ng_m68k_state where
  "m68k_zero =
     \<lparr>m68k_d = replicate 8 0, m68k_a = replicate 8 0, m68k_pc = 0, m68k_sr = 0, m68k_usp = 0,
      m68k_ssp = 0\<rparr>"

definition runtime_init :: runtime where
  "runtime_init =
     \<lparr>m68k = m68k_zero, program_rom = None, program_rom_size = 0, system_rom = None,
      system_rom_size = 0, work_ram = (\<lambda>_. 0), palette = palette_zero, backup = backup_zero,
      lspc = lspc_zero, inputs = inputs_init, sound = sound_init, watchdog = watchdog_zero,
      latch = latch_zero, irq = irq_zero, timing = timing_zero, read_miss_log_count = 0\<rparr>"

text \<open>
  \<open>ng_neogeo_reset_runtime\<close> clears every device but keeps the CPU registers, the ROM pointers,
  the DIP switches, the two automatic-interrupt intervals and the contents of the event buffer.
\<close>

definition ng_neogeo_reset_runtime :: "runtime \<Rightarrow> runtime" where
  "ng_neogeo_reset_runtime s =
     s\<lparr>work_ram := (\<lambda>_. 0), palette := palette_zero, backup := backup_zero, lspc := lspc_zero,
       inputs := inputs_init\<lparr>dipswitch := dipswitch (inputs s)\<rparr>,
       sound := sound_init\<lparr>sound_queue := sound_queue (sound s)\<rparr>,
       watchdog := watchdog_zero, latch := latch_zero, irq := irq_zero,
       timing := timing_zero\<lparr>auto_vblank_interval := auto_vblank_interval (timing s),
                             auto_scanline_interval := auto_scanline_interval (timing s)\<rparr>,
       read_miss_log_count := 0\<rparr>"

subsection \<open>Configuration\<close>

definition ng_neogeo_set_program_rom :: "u8 list option \<Rightarrow> u32 \<Rightarrow> runtime \<Rightarrow> runtime" where
  "ng_neogeo_set_program_rom data sz s = s\<lparr>program_rom := data, program_rom_size := sz\<rparr>"

definition ng_neogeo_set_system_rom :: "u8 list option \<Rightarrow> u32 \<Rightarrow> runtime \<Rightarrow> runtime" where
  "ng_neogeo_set_system_rom data sz s = s\<lparr>system_rom := data, system_rom_size := sz\<rparr>"

definition ng_neogeo_set_p1_input :: "u8 \<Rightarrow> runtime \<Rightarrow> runtime" where
  "ng_neogeo_set_p1_input v = inputs_update (p1cnt_update (\<lambda>_. v))"

definition ng_neogeo_set_p2_input :: "u8 \<Rightarrow> runtime \<Rightarrow> runtime" where
  "ng_neogeo_set_p2_input v = inputs_update (p2cnt_update (\<lambda>_. v))"

definition ng_neogeo_set_status_a_input :: "u8 \<Rightarrow> runtime \<Rightarrow> runtime" where
  "ng_neogeo_set_status_a_input v = inputs_update (status_a_update (\<lambda>_. v))"

definition ng_neogeo_set_status_b_input :: "u8 \<Rightarrow> runtime \<Rightarrow> runtime" where
  "ng_neogeo_set_status_b_input v = inputs_update (status_b_update (\<lambda>_. v))"

definition ng_neogeo_set_dipswitch_input :: "u8 \<Rightarrow> runtime \<Rightarrow> runtime" where
  "ng_neogeo_set_dipswitch_input v = inputs_update (dipswitch_update (\<lambda>_. v))"

definition ng_neogeo_set_auto_vblank_interval :: "u32 \<Rightarrow> runtime \<Rightarrow> runtime" where
  "ng_neogeo_set_auto_vblank_interval n = timing_update (auto_vblank_interval_update (\<lambda>_. n))"

definition ng_neogeo_set_auto_scanline_interval :: "u32 \<Rightarrow> runtime \<Rightarrow> runtime" where
  "ng_neogeo_set_auto_scanline_interval n = timing_update (auto_scanline_interval_update (\<lambda>_. n))"

definition ng_neogeo_set_watchdog_timeout_polls :: "u32 \<Rightarrow> runtime \<Rightarrow> runtime" where
  "ng_neogeo_set_watchdog_timeout_polls n s =
     watchdog_update (\<lambda>w. w\<lparr>timeout_polls := n, last_kick_poll := interrupt_polls (timing s),
                             reset_pending := 0\<rparr>) s"

definition ng_neogeo_set_watchdog_timeout_cycles :: "u32 \<Rightarrow> runtime \<Rightarrow> runtime" where
  "ng_neogeo_set_watchdog_timeout_cycles n s =
     watchdog_update (\<lambda>w. w\<lparr>timeout_cycles := n, last_kick_cycle := cpu_cycles (timing s),
                             reset_pending := 0\<rparr>) s"

definition ng_neogeo_set_watchdog_reset_vector :: "u32 \<Rightarrow> u32 \<Rightarrow> runtime \<Rightarrow> runtime" where
  "ng_neogeo_set_watchdog_reset_vector pc ssp =
     watchdog_update (\<lambda>w. w\<lparr>reset_pc := pc AND 0x00FFFFFF, reset_ssp := ssp\<rparr>)"

definition ng_neogeo_set_sound_reply :: "u8 \<Rightarrow> runtime \<Rightarrow> runtime" where
  "ng_neogeo_set_sound_reply v = sound_update (sound_reply_update (\<lambda>_. v))"

end
