(* ===== verification/RuntimeTiming.thy ===== *)
theory RuntimeTiming
  imports RuntimeState
begin

text \<open>
  Interrupts, the raster timer, scanlines and the watchdog of
  \<open>runtime/src/neogeo_runtime.c\<close>. Counters keep their C widths and wrap.
\<close>

subsection \<open>Interrupt level\<close>

definition ng_m68k_set_interrupt_level :: "u8 \<Rightarrow> u8 \<Rightarrow> irq_state \<Rightarrow> irq_state" where
  "ng_m68k_set_interrupt_level level vector i =
     (let l = level AND 7;
          edge = (if l = 7 \<and> interrupt_level i < 7 then 1 else if l < 7 then 0 else level7_edge i)
      in i\<lparr>level7_edge := edge, interrupt_level := l, interrupt_vector := vector\<rparr>)"

definition ng_m68k_clear_interrupt_level :: "irq_state \<Rightarrow> irq_state" where
  "ng_m68k_clear_interrupt_level i =
     i\<lparr>interrupt_level := 0, interrupt_vector := 0, level7_edge := 0\<rparr>"

definition ng_neogeo_refresh_interrupt_level :: "irq_state \<Rightarrow> irq_state" where
  "ng_neogeo_refresh_interrupt_level i =
     (if irq_pending i AND NG_NEO_IRQACK_RESET \<noteq> 0 then ng_m68k_set_interrupt_level 3 27 i
      else if irq_pending i AND NG_NEO_IRQACK_TIMER \<noteq> 0 then ng_m68k_set_interrupt_level 2 26 i
      else if irq_pending i AND NG_NEO_IRQACK_VBLANK \<noteq> 0 then ng_m68k_set_interrupt_level 1 25 i
      else ng_m68k_clear_interrupt_level i)"

definition ng_neogeo_request_vblank_interrupt :: "irq_state \<Rightarrow> irq_state" where
  "ng_neogeo_request_vblank_interrupt i =
     ng_neogeo_refresh_interrupt_level
       (i\<lparr>vblank_interrupts := vblank_interrupts i + 1,
          irq_pending := irq_pending i OR NG_NEO_IRQACK_VBLANK\<rparr>)"

definition ng_neogeo_request_timer_interrupt :: "irq_state \<Rightarrow> irq_state" where
  "ng_neogeo_request_timer_interrupt i =
     ng_neogeo_refresh_interrupt_level
       (i\<lparr>timer_interrupts := timer_interrupts i + 1,
          irq_pending := irq_pending i OR NG_NEO_IRQACK_TIMER\<rparr>)"

definition ng_neogeo_request_reset_interrupt :: "irq_state \<Rightarrow> irq_state" where
  "ng_neogeo_request_reset_interrupt i =
     ng_neogeo_refresh_interrupt_level (i\<lparr>irq_pending := irq_pending i OR NG_NEO_IRQACK_RESET\<rparr>)"

definition ng_neogeo_ack_interrupts :: "u16 \<Rightarrow> irq_state \<Rightarrow> irq_state" where
  "ng_neogeo_ack_interrupts ack_mask i =
     (let i1 = (if ack_mask AND 0x0007 \<noteq> 0 then i\<lparr>irq_ack_writes := irq_ack_writes i + 1\<rparr> else i)
      in ng_neogeo_refresh_interrupt_level
           (i1\<lparr>irq_pending := irq_pending i1 AND NOT (ack_mask AND 0x0007)\<rparr>))"

subsection \<open>The raster timer\<close>

definition ng_neogeo_reload_timer_counter :: "lspc_state \<Rightarrow> lspc_state" where
  "ng_neogeo_reload_timer_counter l =
     l\<lparr>timer_counter_value := timer_reload_value l, timer_counter_loaded := 1\<rparr>"

text \<open>What happens when the counter passes zero.\<close>

definition timer_expire :: "lspc_state \<times> irq_state \<Rightarrow> lspc_state \<times> irq_state" where
  "timer_expire = (\<lambda>(l, i).
     let l0 = l\<lparr>timer_counter_value := 0\<rparr>;
         i1 = (if lspc_mode l0 AND NG_NEO_LSPCMODE_TIMER_ENABLE \<noteq> 0
               then ng_neogeo_request_timer_interrupt i else i);
         l1 = (if lspc_mode l0 AND NG_NEO_LSPCMODE_TIMER_RELOAD_ON_ZERO \<noteq> 0
               then ng_neogeo_reload_timer_counter l0 else l0\<lparr>timer_counter_loaded := 0\<rparr>)
     in (l1, i1))"

lemma unat_ticks_until_zero: "unat ((ucast (c :: u32) :: u64) + 1) = unat c + 1"
  using unat_below [of c] by (simp add: unat_word_ariths unat_ucast_up)

lemma ticks_before_zero: "(ucast (t :: u32) :: u64) < ucast (c :: u32) + 1 \<longleftrightarrow> unat t \<le> unat c"
  by (simp add: word_less_nat_alt unat_ticks_until_zero unat_ucast_up less_Suc_eq_le)

lemma unat_ticks_left:
  assumes "\<not> unat (t :: u32) \<le> unat (c :: u32)"
  shows "unat (ucast ((ucast t :: u64) - (ucast c + 1)) :: u32) = unat t - (unat c + 1)"
proof -
  have "unat ((ucast t :: u64) - (ucast c + 1)) = unat t - (unat c + 1)"
    using assms by (subst unat_sub) (simp_all add: word_le_nat_alt unat_ticks_until_zero unat_ucast_up)
  then show ?thesis
    using unat_below [of t] by (simp add: unsigned_ucast_eq take_bit_nat_eq_self)
qed

text \<open>The loop of \<open>ng_neogeo_advance_timer\<close> reads and writes only the LSPC and the interrupts.\<close>

function timer_loop :: "u32 \<Rightarrow> lspc_state \<times> irq_state \<Rightarrow> lspc_state \<times> irq_state" where
  "timer_loop pixel_ticks st =
     (if pixel_ticks \<noteq> 0 \<and> timer_counter_loaded (fst st) \<noteq> 0 then
        let ticks_until_zero = (ucast (timer_counter_value (fst st)) :: u64) + 1 in
        if (ucast pixel_ticks :: u64) < ticks_until_zero then
          ((fst st)\<lparr>timer_counter_value := timer_counter_value (fst st) - pixel_ticks\<rparr>, snd st)
        else timer_loop (ucast ((ucast pixel_ticks :: u64) - ticks_until_zero)) (timer_expire st)
      else st)"
  by pat_completeness auto

termination
proof (relation "measure (\<lambda>(t, st). unat t)", goal_cases)
  case (2 t st z)
  then show ?case
    by (simp add: ticks_before_zero unat_ticks_left)
qed simp

declare timer_loop.simps [simp del]

definition ng_neogeo_advance_timer :: "u32 \<Rightarrow> runtime \<Rightarrow> runtime" where
  "ng_neogeo_advance_timer pixel_ticks s =
     (case timer_loop pixel_ticks (lspc s, irq s) of (l, i) \<Rightarrow> s\<lparr>lspc := l, irq := i\<rparr>)"

subsection \<open>Scanlines and frames\<close>

definition ng_neogeo_begin_vblank :: "runtime \<Rightarrow> runtime" where
  "ng_neogeo_begin_vblank s =
     (let s1 = timing_update (\<lambda>t. t\<lparr>frame_count := frame_count t + 1\<rparr>) s;
          s2 = (if lspc_mode (lspc s1) AND NG_NEO_LSPCMODE_TIMER_RELOAD_ON_FRAME \<noteq> 0
                then lspc_update ng_neogeo_reload_timer_counter s1 else s1)
      in irq_update ng_neogeo_request_vblank_interrupt s2)"

definition ng_neogeo_advance_scanline :: "runtime \<Rightarrow> runtime" where
  "ng_neogeo_advance_scanline s =
     (let s1 = timing_update (\<lambda>t. t\<lparr>scanline_cycle := 0\<rparr>) s;
          s2 = ng_neogeo_advance_timer NG_NEO_NTSC_PIXELS_PER_SCANLINE s1;
          line = ucast ((ucast (current_scanline (timing s2)) + 1) mod NG_NEO_NTSC_SCANLINES_PER_FRAME) :: u16;
          s3 = timing_update (\<lambda>t. t\<lparr>current_scanline := line\<rparr>) s2
      in if line = 0 then ng_neogeo_begin_vblank s3 else s3)"

definition ng_neogeo_advance_frame :: "runtime \<Rightarrow> runtime" where
  "ng_neogeo_advance_frame s =
     ng_neogeo_advance_timer (NG_NEO_NTSC_PIXELS_PER_SCANLINE * NG_NEO_NTSC_SCANLINES_PER_FRAME)
       (ng_neogeo_begin_vblank s)"

subsection \<open>The watchdog\<close>

definition ng_neogeo_note_watchdog_kick :: "runtime \<Rightarrow> runtime" where
  "ng_neogeo_note_watchdog_kick s =
     (let polls = interrupt_polls (timing s); cycles = cpu_cycles (timing s);
          w = watchdog s;
          gap = polls - last_kick_poll w;
          cycle_gap = cycles - last_kick_cycle w
      in s\<lparr>watchdog :=
             w\<lparr>max_gap_polls := (if max_gap_polls w < gap then gap else max_gap_polls w),
               last_kick_poll := polls,
               max_gap_cycles := (if max_gap_cycles w < cycle_gap then cycle_gap else max_gap_cycles w),
               last_kick_cycle := cycles,
               reset_pending := 0\<rparr>\<rparr>)"

text \<open>The four assignments both branches of \<open>ng_neogeo_update_watchdog_timeout\<close> end with.\<close>

definition watchdog_fire :: "runtime \<Rightarrow> watchdog_state \<Rightarrow> watchdog_state" where
  "watchdog_fire s w =
     w\<lparr>reset_pending := 1, last_reset_pc := pc24 s,
       last_reset_poll := interrupt_polls (timing s), last_reset_cycle := cpu_cycles (timing s)\<rparr>"

definition ng_neogeo_update_watchdog_timeout :: "runtime \<Rightarrow> runtime" where
  "ng_neogeo_update_watchdog_timeout s =
     (let w = watchdog s in
      if reset_pending w \<noteq> 0 then s
      else if cycle_timing_active (timing s) \<noteq> 0 \<and> timeout_cycles w \<noteq> 0 then
        let cycle_gap = cpu_cycles (timing s) - last_kick_cycle w in
        if cycle_gap < ucast (timeout_cycles w) then s
        else s\<lparr>watchdog := watchdog_fire s
                 (w\<lparr>max_gap_cycles :=
                      (if max_gap_cycles w < cycle_gap then cycle_gap else max_gap_cycles w)\<rparr>)\<rparr>
      else if timeout_polls w = 0 then s
      else
        let gap = interrupt_polls (timing s) - last_kick_poll w in
        if gap < timeout_polls w then s
        else s\<lparr>watchdog := watchdog_fire s
                 (w\<lparr>max_gap_polls := (if max_gap_polls w < gap then gap else max_gap_polls w)\<rparr>)\<rparr>)"

subsection \<open>CPU cycles\<close>

text \<open>
  The loop of \<open>ng_neogeo_advance_cpu_cycles\<close>. A scanline counter of exactly 768, which only a
  restored state can hold, makes one iteration consume no cycles; the next one does.
\<close>

lemma advance_timer_timing [simp]: "timing (ng_neogeo_advance_timer t s) = timing s"
  by (simp add: ng_neogeo_advance_timer_def split: prod.splits)

lemma begin_vblank_timing:
  "timing (ng_neogeo_begin_vblank s) = (timing s)\<lparr>frame_count := frame_count (timing s) + 1\<rparr>"
  by (simp add: ng_neogeo_begin_vblank_def Let_def)

lemma advance_scanline_cycle [simp]: "scanline_cycle (timing (ng_neogeo_advance_scanline s)) = 0"
  by (simp add: ng_neogeo_advance_scanline_def Let_def begin_vblank_timing)

lemma watchdog_timeout_timing [simp]: "timing (ng_neogeo_update_watchdog_timeout s) = timing s"
  by (simp add: ng_neogeo_update_watchdog_timeout_def Let_def)

function cycles_loop :: "u32 \<Rightarrow> runtime \<Rightarrow> runtime" where
  "cycles_loop n s =
     (if n = 0 then s
      else
        let cycles_until_scanline = NG_NEO_CPU_CYCLES_PER_SCANLINE - scanline_cycle (timing s) in
        if n < cycles_until_scanline then
          ng_neogeo_update_watchdog_timeout
            (timing_update (\<lambda>t. t\<lparr>scanline_cycle := scanline_cycle t + n,
                                  cpu_cycles := cpu_cycles t + ucast n\<rparr>) s)
        else
          cycles_loop (n - cycles_until_scanline)
            (ng_neogeo_update_watchdog_timeout
               (ng_neogeo_advance_scanline
                  (timing_update (\<lambda>t. t\<lparr>cpu_cycles := cpu_cycles t + ucast cycles_until_scanline,
                                        scanline_cycle := 0\<rparr>) s))))"
  by pat_completeness auto
termination
proof (relation "measures [\<lambda>(n, s). unat n, \<lambda>(n, s). unat (scanline_cycle (timing s))]", goal_cases)
  case (2 n s d)
  show ?case
  proof (cases "d = 0")
    case True
    then have "scanline_cycle (timing s) = 768" using 2(2) by (simp add: ntsc_consts)
    then show ?thesis using True by simp
  next
    case False
    then have "0 < unat d" by (simp add: unat_gt_0)
    moreover have "d \<le> n" using 2(3) by simp
    ultimately have "unat (n - d) < unat n" by (simp add: unat_sub word_le_nat_alt)
    then show ?thesis by simp
  qed
qed simp

declare cycles_loop.simps [simp del]

definition ng_neogeo_advance_cpu_cycles :: "u32 \<Rightarrow> runtime \<Rightarrow> runtime" where
  "ng_neogeo_advance_cpu_cycles n s =
     (if n = 0 then s else cycles_loop n (timing_update (\<lambda>t. t\<lparr>cycle_timing_active := 1\<rparr>) s))"

end
