(* ===== verification/RuntimeBus.thy ===== *)
theory RuntimeBus
  imports RuntimeTiming
begin

text \<open>
  The 68000 bus of \<open>runtime/src/neogeo_runtime.c\<close>: address decoding, palette RAM with its running
  statistics, backup RAM, the sound-command queue, the system latch, the LSPC registers, and the
  8-, 16- and 32-bit accesses generated code makes. A read returns the value and the new state
  (reading \<open>STATUS_A\<close> toggles a bit, and an unmapped read counts a diagnostic).
\<close>

subsection \<open>Address predicates\<close>

definition ng_neogeo_is_palette_addr :: "u32 \<Rightarrow> bool" where
  "ng_neogeo_is_palette_addr addr \<longleftrightarrow> 0x00400000 \<le> addr \<and> addr \<le> 0x007FFFFF"

definition ng_neogeo_palette_offset :: "palette_state \<Rightarrow> u32 \<Rightarrow> u32" where
  "ng_neogeo_palette_offset p addr =
     (ucast (palette_bank p) * NG_NEO_PALETTE_BANK_BYTES) OR (addr AND (NG_NEO_PALETTE_BANK_BYTES - 1))"

definition ng_neogeo_is_backup_ram_addr :: "u32 \<Rightarrow> bool" where
  "ng_neogeo_is_backup_ram_addr addr \<longleftrightarrow> 0x00D00000 \<le> addr \<and> addr \<le> 0x00DFFFFF"

definition ng_neogeo_is_dipswitch_addr :: "u32 \<Rightarrow> bool" where
  "ng_neogeo_is_dipswitch_addr addr \<longleftrightarrow> addr AND 0x00FE0081 = 0x00300001"

definition ng_neogeo_is_p1cnt_addr :: "u32 \<Rightarrow> bool" where
  "ng_neogeo_is_p1cnt_addr addr \<longleftrightarrow> addr AND 0x00FE0001 = 0x00300000"

definition ng_neogeo_is_p2cnt_addr :: "u32 \<Rightarrow> bool" where
  "ng_neogeo_is_p2cnt_addr addr \<longleftrightarrow> addr AND 0x00FE0001 = 0x00340000"

definition ng_neogeo_is_sound_addr :: "u32 \<Rightarrow> bool" where
  "ng_neogeo_is_sound_addr addr \<longleftrightarrow> addr AND 0x00FE0001 = 0x00320000"

definition ng_neogeo_is_status_a_addr :: "u32 \<Rightarrow> bool" where
  "ng_neogeo_is_status_a_addr addr \<longleftrightarrow> addr AND 0x00FE0001 = 0x00320001"

definition ng_neogeo_is_status_b_addr :: "u32 \<Rightarrow> bool" where
  "ng_neogeo_is_status_b_addr addr \<longleftrightarrow> addr AND 0x00FE0001 = 0x00380000"

definition ng_neogeo_is_port_output_addr :: "u32 \<Rightarrow> bool" where
  "ng_neogeo_is_port_output_addr addr \<longleftrightarrow> addr AND 0x00FE0001 = 0x00380001"

definition ng_neogeo_is_system_latch_addr :: "u32 \<Rightarrow> bool" where
  "ng_neogeo_is_system_latch_addr addr \<longleftrightarrow> addr AND 0x00FE0001 = 0x003A0001"

definition ng_neogeo_is_lspc_addr :: "u32 \<Rightarrow> bool" where
  "ng_neogeo_is_lspc_addr addr \<longleftrightarrow> 0x003C0000 \<le> addr \<and> addr \<le> 0x003C000E + 1"

definition ng_neogeo_is_memcard_addr :: "u32 \<Rightarrow> bool" where
  "ng_neogeo_is_memcard_addr addr \<longleftrightarrow> 0x00800000 \<le> addr \<and> addr \<le> 0x00BFFFFF"

definition ng_neogeo_is_high_unmapped_addr :: "u32 \<Rightarrow> bool" where
  "ng_neogeo_is_high_unmapped_addr addr \<longleftrightarrow> 0x00E00000 \<le> addr"

definition ng_neogeo_is_system_rom_addr :: "u32 \<Rightarrow> bool" where
  "ng_neogeo_is_system_rom_addr addr \<longleftrightarrow> 0x00C00000 \<le> addr \<and> addr \<le> 0x00CFFFFF"

definition is_work_ram_addr :: "u32 \<Rightarrow> bool" where
  "is_work_ram_addr addr \<longleftrightarrow> 0x00100000 \<le> addr \<and> addr \<le> 0x0010FFFF"

subsection \<open>Palette RAM\<close>

definition ng_neogeo_update_palette_peak :: "palette_state \<Rightarrow> palette_state" where
  "ng_neogeo_update_palette_peak p =
     (if palette_peak_nonzero_bytes p < palette_nonzero_bytes p
      then p\<lparr>palette_peak_nonzero_bytes := palette_nonzero_bytes p,
             palette_peak_checksum := palette_checksum p\<rparr>
      else p)"

definition ng_neogeo_write_palette_byte :: "u32 \<Rightarrow> u8 \<Rightarrow> palette_state \<Rightarrow> palette_state" where
  "ng_neogeo_write_palette_byte offset value p =
     (let old = palette_ram p offset in
      if old = value then p
      else
        let n1 = (if old \<noteq> 0 then palette_nonzero_bytes p - 1 else palette_nonzero_bytes p);
            n2 = (if value \<noteq> 0 then n1 + 1 else n1)
        in ng_neogeo_update_palette_peak
             (p\<lparr>palette_nonzero_bytes := n2,
                palette_checksum := palette_checksum p - ucast old + ucast value,
                palette_ram := (palette_ram p)(offset := value)\<rparr>))"

definition ng_neogeo_note_palette_write :: "u32 \<Rightarrow> u16 \<Rightarrow> palette_state \<Rightarrow> palette_state" where
  "ng_neogeo_note_palette_write addr value p =
     p\<lparr>palette_write_count := palette_write_count p + 1,
       palette_nonzero_write_count :=
         (if value \<noteq> 0 then palette_nonzero_write_count p + 1 else palette_nonzero_write_count p),
       palette_last_addr := addr AND 0x00FFFFFF,
       palette_last_value := value,
       palette_last_bank := palette_bank p\<rparr>"

text \<open>The palette branch of the 8- and 16-bit writes: two byte writes and the statistics.\<close>

definition palette_store :: "u32 \<Rightarrow> u8 \<Rightarrow> u8 \<Rightarrow> u16 \<Rightarrow> palette_state \<Rightarrow> palette_state" where
  "palette_store addr hi lo value p =
     (let offset = ng_neogeo_palette_offset p addr AND NOT 1
      in ng_neogeo_note_palette_write addr value
           (ng_neogeo_write_palette_byte (offset + 1) lo
             (ng_neogeo_write_palette_byte offset hi p)))"

subsection \<open>The sound-command queue\<close>

definition ng_neogeo_queue_sound_command :: "sound_event \<Rightarrow> sound_state \<Rightarrow> sound_state" where
  "ng_neogeo_queue_sound_command event q =
     (let q1 = (if NG_NEO_SOUND_COMMAND_QUEUE_CAPACITY \<le> queue_count q
                then q\<lparr>queue_tail := (queue_tail q + 1) mod NG_NEO_SOUND_COMMAND_QUEUE_CAPACITY,
                       queue_count := queue_count q - 1,
                       queue_overflows := queue_overflows q + 1\<rparr>
                else q)
      in q1\<lparr>sound_queue := (sound_queue q1)[unat (queue_head q1) := event],
            queue_head := (queue_head q1 + 1) mod NG_NEO_SOUND_COMMAND_QUEUE_CAPACITY,
            queue_count := queue_count q1 + 1\<rparr>)"

definition ng_neogeo_pop_sound_command_event ::
  "sound_state \<Rightarrow> (sound_event \<times> sound_state) option" where
  "ng_neogeo_pop_sound_command_event q =
     (if queue_count q = 0 then None
      else Some (sound_queue q ! unat (queue_tail q),
                 q\<lparr>queue_tail := (queue_tail q + 1) mod NG_NEO_SOUND_COMMAND_QUEUE_CAPACITY,
                   queue_count := queue_count q - 1\<rparr>))"

subsection \<open>Reads\<close>

definition ng_neogeo_hi_or_lo :: "u16 \<Rightarrow> u32 \<Rightarrow> u8" where
  "ng_neogeo_hi_or_lo value addr = (if addr AND 1 \<noteq> 0 then ucast value else ucast (drop_bit 8 value))"

definition ng_neogeo_vram_data :: "lspc_state \<Rightarrow> u16" where
  "ng_neogeo_vram_data l = vram l (vram_addr l)"

definition rom_byte :: "u8 list option \<Rightarrow> u32 \<Rightarrow> u32 \<Rightarrow> u8" where
  "rom_byte rom sz offset =
     (case rom of Some data \<Rightarrow> if offset < sz then data ! unat offset else 0xFF | None \<Rightarrow> 0xFF)"

definition ng_neogeo_read_system_rom :: "u32 \<Rightarrow> runtime \<Rightarrow> u8" where
  "ng_neogeo_read_system_rom offset s =
     rom_byte (system_rom s) (system_rom_size s) (offset mod NG_NEO_SYSTEM_ROM_BYTES)"

definition read_lspc :: "u32 \<Rightarrow> lspc_state \<Rightarrow> u8" where
  "read_lspc addr l =
     (let r = addr AND 0x00FFFFFE in
      if r = 0x003C0000 \<or> r = 0x003C0002 then ng_neogeo_hi_or_lo (ng_neogeo_vram_data l) addr
      else if r = 0x003C0004 then ng_neogeo_hi_or_lo (vram_mod l) addr
      else if r = 0x003C0006 then ng_neogeo_hi_or_lo (lspc_mode l) addr
      else if r = 0x003C0008 then ng_neogeo_hi_or_lo (ucast (drop_bit 16 (timer_reload_value l))) addr
      else if r = 0x003C000A then ng_neogeo_hi_or_lo (ucast (timer_reload_value l)) addr
      else if r = 0x003C000E then ng_neogeo_hi_or_lo (timer_stop l) addr
      else 0xFF)"

definition read_status_a :: "runtime \<Rightarrow> u8 \<times> runtime" where
  "read_status_a s =
     (let s1 = inputs_update (\<lambda>i. i\<lparr>status_a_reads := status_a_reads i + 1\<rparr>) s
      in ((status_a (inputs s1) AND 0xBF) OR
          (if status_a_reads (inputs s1) AND 1 \<noteq> 0 then 0x40 else 0x00), s1))"

definition ng_neogeo_log_read_miss :: "runtime \<Rightarrow> runtime" where
  "ng_neogeo_log_read_miss s = s\<lparr>read_miss_log_count := read_miss_log_count s + 1\<rparr>"

definition ng68k_read8 :: "u32 \<Rightarrow> runtime \<Rightarrow> u8 \<times> runtime" where
  "ng68k_read8 address s =
     (let addr = address AND 0x00FFFFFF in
      if bios_vectors_enabled (latch s) \<noteq> 0 \<and> addr \<le> 0x0000007F then
        (ng_neogeo_read_system_rom addr s, s)
      else if addr \<le> 0x000FFFFF then (rom_byte (program_rom s) (program_rom_size s) addr, s)
      else if is_work_ram_addr addr then (work_ram s (addr AND 0xFFFF), s)
      else if 0x00200000 \<le> addr \<and> addr \<le> 0x002FFFFF then
        (rom_byte (program_rom s) (program_rom_size s) (0x00100000 + (addr - 0x00200000)), s)
      else if ng_neogeo_is_palette_addr addr then
        (palette_ram (palette s) (ng_neogeo_palette_offset (palette s) addr), s)
      else if ng_neogeo_is_backup_ram_addr addr then
        (backup_ram (backup s) (addr AND (NG_NEO_BACKUP_RAM_BYTES - 1)), s)
      else if ng_neogeo_is_p1cnt_addr addr then (p1cnt (inputs s), s)
      else if ng_neogeo_is_dipswitch_addr addr then (dipswitch (inputs s), s)
      else if ng_neogeo_is_p2cnt_addr addr then (p2cnt (inputs s), s)
      else if ng_neogeo_is_sound_addr addr then (sound_reply (sound s), s)
      else if ng_neogeo_is_status_a_addr addr then read_status_a s
      else if ng_neogeo_is_status_b_addr addr then (status_b (inputs s), s)
      else if ng_neogeo_is_port_output_addr addr then (system_input_low (inputs s), s)
      else if ng_neogeo_is_lspc_addr addr then (read_lspc addr (lspc s), s)
      else if ng_neogeo_is_memcard_addr addr then (0xFF, s)
      else if ng_neogeo_is_system_rom_addr addr then
        (ng_neogeo_read_system_rom (addr - 0x00C00000) s, s)
      else if ng_neogeo_is_high_unmapped_addr addr then (0xFF, s)
      else (0xFF, ng_neogeo_log_read_miss s))"

definition ng68k_read16 :: "u32 \<Rightarrow> runtime \<Rightarrow> u16 \<times> runtime" where
  "ng68k_read16 addr s =
     (case ng68k_read8 addr s of (hi, s1) \<Rightarrow>
      case ng68k_read8 (addr + 1) s1 of (lo, s2) \<Rightarrow> (be16 hi lo, s2))"

definition ng68k_read32 :: "u32 \<Rightarrow> runtime \<Rightarrow> u32 \<times> runtime" where
  "ng68k_read32 addr s =
     (case ng68k_read16 addr s of (hi, s1) \<Rightarrow>
      case ng68k_read16 (addr + 2) s1 of (lo, s2) \<Rightarrow> (be32 hi lo, s2))"

subsection \<open>Writes\<close>

definition ng_neogeo_write_lspc_word :: "u32 \<Rightarrow> u16 \<Rightarrow> runtime \<Rightarrow> runtime" where
  "ng_neogeo_write_lspc_word addr value s0 =
     (let s = lspc_update (\<lambda>l. l\<lparr>last_lspc_write_pc := pc24 s0,
                                 last_lspc_write_addr := addr AND 0x00FFFFFF,
                                 last_lspc_write_value := value\<rparr>) s0
      in if addr = 0x003C0000 then lspc_update (\<lambda>l. l\<lparr>vram_addr := value\<rparr>) s
         else if addr = 0x003C0002 then
           lspc_update (\<lambda>l. l\<lparr>vram := (vram l)(vram_addr l := value),
                              vram_addr := vram_addr l + vram_mod l\<rparr>) s
         else if addr = 0x003C0004 then lspc_update (\<lambda>l. l\<lparr>vram_mod := value\<rparr>) s
         else if addr = 0x003C0006 then lspc_update (\<lambda>l. l\<lparr>lspc_mode := value\<rparr>) s
         else if addr = 0x003C0008 then
           lspc_update (\<lambda>l. l\<lparr>timer_reload_value :=
             (timer_reload_value l AND 0x0000FFFF) OR push_bit 16 (ucast value)\<rparr>) s
         else if addr = 0x003C000A then
           lspc_update (\<lambda>l.
             let l1 = l\<lparr>timer_reload_value := (timer_reload_value l AND 0xFFFF0000) OR ucast value\<rparr>
             in if lspc_mode l1 AND NG_NEO_LSPCMODE_TIMER_RELOAD_ON_WRITE \<noteq> 0
                then ng_neogeo_reload_timer_counter l1 else l1) s
         else if addr = 0x003C000C then
           irq_update (\<lambda>i. ng_neogeo_ack_interrupts value
                             (i\<lparr>last_irq_ack_pc := pc24 s, last_irq_ack_value := value\<rparr>)) s
         else if addr = 0x003C000E then lspc_update (\<lambda>l. l\<lparr>timer_stop := value\<rparr>) s
         else s)"

text \<open>The \<open>switch (addr & 0x1F)\<close> of the system latch.\<close>

definition write_bios_vectors :: "u8 \<Rightarrow> u32 \<Rightarrow> u8 \<Rightarrow> runtime \<Rightarrow> runtime" where
  "write_bios_vectors enabled addr value s =
     latch_update (\<lambda>l. l\<lparr>bios_vectors_enabled := enabled,
       bios_vector_enable_writes :=
         (if enabled \<noteq> 0 then bios_vector_enable_writes l + 1 else bios_vector_enable_writes l),
       bios_vector_disable_writes :=
         (if enabled \<noteq> 0 then bios_vector_disable_writes l else bios_vector_disable_writes l + 1),
       last_bios_vector_pc := pc24 s, last_bios_vector_addr := addr AND 0x00FFFFFF,
       last_bios_vector_value := value\<rparr>) s"

definition write_system_latch :: "u32 \<Rightarrow> u8 \<Rightarrow> runtime \<Rightarrow> runtime" where
  "write_system_latch addr value s0 =
     (let s = latch_update (\<lambda>l. l\<lparr>system_latch_writes := system_latch_writes l + 1,
                                  last_system_latch_pc := pc24 s0,
                                  last_system_latch_addr := addr AND 0x00FFFFFF,
                                  last_system_latch_value := value\<rparr>) s0;
          r = addr AND 0x1F
      in if r = 0x01 then latch_update (\<lambda>l. l\<lparr>shadow_enabled := 0\<rparr>) s
         else if r = 0x11 then latch_update (\<lambda>l. l\<lparr>shadow_enabled := 1\<rparr>) s
         else if r = 0x03 then write_bios_vectors 1 addr value s
         else if r = 0x13 then write_bios_vectors 0 addr value s
         else if r = 0x0B then latch_update (\<lambda>l. l\<lparr>board_fix_enabled := 1\<rparr>) s
         else if r = 0x1B then latch_update (\<lambda>l. l\<lparr>board_fix_enabled := 0\<rparr>) s
         else if r = 0x0D then backup_update (\<lambda>b. b\<lparr>backup_ram_unlocked := 0\<rparr>) s
         else if r = 0x1D then backup_update (\<lambda>b. b\<lparr>backup_ram_unlocked := 1\<rparr>) s
         else if r = 0x0F then palette_update (\<lambda>p. p\<lparr>palette_bank := 1\<rparr>) s
         else if r = 0x1F then palette_update (\<lambda>p. p\<lparr>palette_bank := 0\<rparr>) s
         else s)"

definition write_backup :: "u32 \<Rightarrow> u8 \<Rightarrow> backup_state \<Rightarrow> backup_state" where
  "write_backup addr value b =
     (if backup_ram_unlocked b \<noteq> 0 then
        b\<lparr>backup_ram := (backup_ram b)(addr AND (NG_NEO_BACKUP_RAM_BYTES - 1) := value),
          backup_ram_write_count := backup_ram_write_count b + 1,
          backup_ram_last_addr := addr AND 0x00FFFFFF,
          backup_ram_last_value := value\<rparr>
      else b)"

definition ng68k_write8 :: "u32 \<Rightarrow> u8 \<Rightarrow> runtime \<Rightarrow> runtime" where
  "ng68k_write8 address value s =
     (let addr = address AND 0x00FFFFFF in
      if is_work_ram_addr addr then s\<lparr>work_ram := (work_ram s)(addr AND 0xFFFF := value)\<rparr>
      else if ng_neogeo_is_palette_addr addr then
        palette_update (palette_store addr value value (be16 value value)) s
      else if ng_neogeo_is_backup_ram_addr addr then backup_update (write_backup addr value) s
      else if ng_neogeo_is_system_rom_addr addr then s
      else if ng_neogeo_is_memcard_addr addr then s
      else if ng_neogeo_is_dipswitch_addr addr then
        ng_neogeo_note_watchdog_kick
          (watchdog_update (\<lambda>w. w\<lparr>watchdog_kicks := watchdog_kicks w + 1, last_watchdog_pc := pc24 s,
                                  last_watchdog_addr := addr AND 0x00FFFFFF,
                                  last_watchdog_value := value\<rparr>) s)
      else if ng_neogeo_is_port_output_addr addr then
        latch_update (\<lambda>l. l\<lparr>port_output := value, last_port_output_pc := pc24 s,
                            last_port_output_addr := addr AND 0x00FFFFFF\<rparr>) s
      else if ng_neogeo_is_sound_addr addr then
        sound_update (\<lambda>q. ng_neogeo_queue_sound_command
          \<lparr>event_cpu_cycles = cpu_cycles (timing s), event_pc = pc24 s, event_command = value\<rparr>
          (q\<lparr>sound_command := value, last_sound_pc := pc24 s,
             last_sound_addr := addr AND 0x00FFFFFF\<rparr>)) s
      else if ng_neogeo_is_system_latch_addr addr then write_system_latch addr value s
      else if ng_neogeo_is_lspc_addr addr then
        ng_neogeo_write_lspc_word (addr AND 0x00FFFFFE) (be16 value value) s
      else s)"

definition ng68k_write16 :: "u32 \<Rightarrow> u16 \<Rightarrow> runtime \<Rightarrow> runtime" where
  "ng68k_write16 address value s =
     (let addr = address AND 0x00FFFFFF;
          hi = ucast (drop_bit 8 value) :: u8; lo = ucast value :: u8
      in if ng_neogeo_is_palette_addr addr then palette_update (palette_store addr hi lo value) s
         else if ng_neogeo_is_lspc_addr addr then
           ng_neogeo_write_lspc_word (addr AND 0x00FFFFFE) value s
         else ng68k_write8 (addr + 1) lo (ng68k_write8 addr hi s))"

definition ng68k_write32 :: "u32 \<Rightarrow> u32 \<Rightarrow> runtime \<Rightarrow> runtime" where
  "ng68k_write32 addr value s =
     ng68k_write16 (addr + 2) (ucast value) (ng68k_write16 addr (ucast (drop_bit 16 value)) s)"

subsection \<open>Direct work-RAM access\<close>

definition ng_neogeo_is_work_ram_range :: "u32 \<Rightarrow> u32 \<Rightarrow> bool" where
  "ng_neogeo_is_work_ram_range address sz =
     (let addr = address AND 0x00FFFFFF in
      if sz = 0 \<or> NG_NEO_WORK_RAM_BYTES < sz then False
      else if addr < 0x00100000 \<or> 0x0010FFFF < addr then False
      else addr - 0x00100000 \<le> NG_NEO_WORK_RAM_BYTES - sz)"

definition ng_neogeo_work_ram_read8_direct :: "runtime \<Rightarrow> u32 \<Rightarrow> u8" where
  "ng_neogeo_work_ram_read8_direct s addr = work_ram s (addr AND 0xFFFF)"

definition ng_neogeo_work_ram_read16_direct :: "runtime \<Rightarrow> u32 \<Rightarrow> u16" where
  "ng_neogeo_work_ram_read16_direct s addr =
     be16 (ng_neogeo_work_ram_read8_direct s addr) (ng_neogeo_work_ram_read8_direct s (addr + 1))"

definition ng_neogeo_work_ram_read32_direct :: "runtime \<Rightarrow> u32 \<Rightarrow> u32" where
  "ng_neogeo_work_ram_read32_direct s addr =
     be32 (ng_neogeo_work_ram_read16_direct s addr) (ng_neogeo_work_ram_read16_direct s (addr + 2))"

subsection \<open>Interrupt and reset delivery\<close>

text \<open>
  \<open>ng_m68k_take_reset\<close> with non-null \<open>pc\<close> and \<open>ssp\<close>: the configured vector, or the one the bus
  shows at addresses 4 and 0 while the vectors of the interrupted program are still mapped.
\<close>

definition ng_m68k_take_reset :: "runtime \<Rightarrow> (u32 \<times> u32) option \<times> runtime" where
  "ng_m68k_take_reset s =
     (if reset_pending (watchdog s) = 0 then (None, s)
      else
        let s1 = watchdog_update (\<lambda>w. w\<lparr>reset_pending := 0, watchdog_resets := watchdog_resets w + 1,
                   last_kick_poll := interrupt_polls (timing s),
                   last_kick_cycle := cpu_cycles (timing s)\<rparr>) s
        in (case (if reset_pc (watchdog s1) \<noteq> 0 then (reset_pc (watchdog s1), s1)
                  else (case ng68k_read32 4 s1 of (v, t) \<Rightarrow> (v AND 0x00FFFFFF, t))) of (pc, s2) \<Rightarrow>
            case (if reset_ssp (watchdog s2) \<noteq> 0 then (reset_ssp (watchdog s2), s2)
                  else ng68k_read32 0 s2) of (ssp, s3) \<Rightarrow>
              (Some (pc, ssp),
               irq_update (\<lambda>i. ng_m68k_clear_interrupt_level (i\<lparr>irq_pending := 0\<rparr>))
                 (latch_update (\<lambda>l. l\<lparr>bios_vectors_enabled := 0\<rparr>)
                   (backup_update (\<lambda>b. b\<lparr>backup_ram_unlocked := 0\<rparr>) s3)))))"

definition interrupt_delivered :: "runtime \<Rightarrow> u8 \<Rightarrow> irq_state \<Rightarrow> irq_state" where
  "interrupt_delivered s level i =
     i\<lparr>last_interrupt_return_pc := pc24 s, last_interrupt_level := level,
       last_interrupt_vector := interrupt_vector i\<rparr>"

text \<open>The automatic scanline and vblank clocks that run on interrupt polls.\<close>

definition poll_clocks :: "runtime \<Rightarrow> runtime" where
  "poll_clocks s0 =
     (let s1 = timing_update (\<lambda>t. t\<lparr>interrupt_polls := interrupt_polls t + 1\<rparr>) s0;
          due = (\<lambda>s n. cycle_timing_active (timing s) = 0 \<and> n \<noteq> 0 \<and>
                        interrupt_polls (timing s) mod n = 0);
          s2 = (if due s1 (auto_scanline_interval (timing s1)) then ng_neogeo_advance_scanline s1 else s1);
          s3 = (if due s2 (auto_vblank_interval (timing s2))
                then irq_update ng_neogeo_request_vblank_interrupt s2 else s2)
      in ng_neogeo_update_watchdog_timeout s3)"

text \<open>
  \<open>ng_m68k_take_interrupt\<close> with non-null \<open>level\<close> and \<open>vector\<close>: the delivered level and vector,
  if any.
\<close>

definition ng_m68k_take_interrupt :: "u8 \<Rightarrow> runtime \<Rightarrow> (u8 \<times> u8) option \<times> runtime" where
  "ng_m68k_take_interrupt current_mask s0 =
     (let s = poll_clocks s0;
          pending_level = interrupt_level (irq s) AND 7;
          vector = interrupt_vector (irq s)
      in if pending_level = 0 then (None, s)
         else if pending_level = 7 \<and> level7_edge (irq s) \<noteq> 0 then
           (Some (pending_level, vector),
            irq_update (\<lambda>i. interrupt_delivered s pending_level (i\<lparr>level7_edge := 0\<rparr>)) s)
         else if pending_level \<le> current_mask AND 7 then (None, s)
         else (Some (pending_level, vector), irq_update (interrupt_delivered s pending_level) s))"

text \<open>\<open>ng_call_by_address\<close>: the external handler, if any, may claim the address.\<close>

definition ng_call_by_address ::
  "(u32 \<Rightarrow> runtime \<Rightarrow> bool \<times> runtime) option \<Rightarrow> u32 \<Rightarrow> runtime \<Rightarrow> bool \<times> runtime" where
  "ng_call_by_address handler address s =
     (let addr = address AND 0x00FFFFFF in
      case handler of None \<Rightarrow> (False, s) | Some h \<Rightarrow> h addr s)"

end
