(* ===== verification/RuntimeSave.thy ===== *)
theory RuntimeSave
  imports RuntimeBus
begin

text \<open>
  Save states, RAM copies, RAM statistics and the seeding of backup RAM
  (\<open>runtime/src/neogeo_runtime.c\<close>).

  A save state is the structure \<open>NgNeoRuntimeStateBlob\<close>; the bytes it is copied to and from with
  \<open>memcpy\<close>, and \<open>sizeof\<close> of it, depend on the ABI: the structure stands for its bytes, and its
  size is the parameter \<open>blob_bytes\<close>. A null buffer is \<open>None\<close> or \<open>False\<close>.
\<close>

subsection \<open>Save states\<close>

record ng_neo_runtime_state_blob =
  blob_magic :: u32
  blob_version :: u32
  blob_size :: u32
  blob_m68k :: ng_m68k_state
  blob_work_ram :: "u32 \<Rightarrow> u8"
  blob_palette :: palette_state
  blob_backup :: backup_state
  blob_lspc :: lspc_state
  blob_inputs :: input_state
  blob_sound :: sound_state
  blob_watchdog :: watchdog_state
  blob_latch :: latch_state
  blob_irq :: irq_state
  blob_timing :: timing_state
  blob_read_miss_log_count :: u32

definition NG_NEO_RUNTIME_STATE_MAGIC :: u32 where "NG_NEO_RUNTIME_STATE_MAGIC = 0x4E475253"

definition NG_NEO_RUNTIME_STATE_VERSION :: u32 where "NG_NEO_RUNTIME_STATE_VERSION = 1"

definition ng_neogeo_runtime_save_state ::
  "u32 \<Rightarrow> bool \<Rightarrow> u32 \<Rightarrow> runtime \<Rightarrow> ng_neo_runtime_state_blob option" where
  "ng_neogeo_runtime_save_state blob_bytes has_out out_size s =
     (if \<not> has_out \<or> out_size < blob_bytes then None
      else Some
        \<lparr>blob_magic = NG_NEO_RUNTIME_STATE_MAGIC, blob_version = NG_NEO_RUNTIME_STATE_VERSION,
         blob_size = blob_bytes, blob_m68k = m68k s, blob_work_ram = work_ram s,
         blob_palette = palette s, blob_backup = backup s, blob_lspc = lspc s,
         blob_inputs = inputs s, blob_sound = sound s, blob_watchdog = watchdog s,
         blob_latch = latch s, blob_irq = irq s, blob_timing = timing s,
         blob_read_miss_log_count = read_miss_log_count s\<rparr>)"

definition ng_neogeo_runtime_load_state ::
  "u32 \<Rightarrow> ng_neo_runtime_state_blob option \<Rightarrow> u32 \<Rightarrow> runtime \<Rightarrow> bool \<times> runtime" where
  "ng_neogeo_runtime_load_state blob_bytes data sz s =
     (case data of
        None \<Rightarrow> (False, s)
      | Some st \<Rightarrow>
          if sz < blob_bytes then (False, s)
          else if blob_magic st \<noteq> NG_NEO_RUNTIME_STATE_MAGIC \<or>
                  blob_version st \<noteq> NG_NEO_RUNTIME_STATE_VERSION \<or>
                  blob_size st \<noteq> blob_bytes then (False, s)
          else if NG_NEO_SOUND_COMMAND_QUEUE_CAPACITY \<le> queue_head (blob_sound st) \<or>
                  NG_NEO_SOUND_COMMAND_QUEUE_CAPACITY \<le> queue_tail (blob_sound st) \<or>
                  NG_NEO_SOUND_COMMAND_QUEUE_CAPACITY < queue_count (blob_sound st) then (False, s)
          else (True,
            s\<lparr>m68k := blob_m68k st, work_ram := blob_work_ram st,
              palette := (blob_palette st)\<lparr>palette_bank := palette_bank (blob_palette st) AND 1\<rparr>,
              backup := blob_backup st, lspc := blob_lspc st, inputs := blob_inputs st,
              sound := blob_sound st, watchdog := blob_watchdog st, latch := blob_latch st,
              irq := (blob_irq st)\<lparr>interrupt_level := interrupt_level (blob_irq st) AND 7\<rparr>,
              timing := blob_timing st,
              read_miss_log_count := blob_read_miss_log_count st\<rparr>))"

subsection \<open>RAM statistics and copies\<close>

text \<open>The counting and summing loops over a RAM array; the counters are 32 bits wide.\<close>

primrec count_nonzero :: "nat \<Rightarrow> ('i::len word \<Rightarrow> 'v::len word) \<Rightarrow> u32" where
  "count_nonzero 0 ram = 0"
| "count_nonzero (Suc n) ram =
     (if ram (of_nat n) \<noteq> 0 then count_nonzero n ram + 1 else count_nonzero n ram)"

primrec sum_cells :: "nat \<Rightarrow> ('i::len word \<Rightarrow> 'v::len word) \<Rightarrow> u32" where
  "sum_cells 0 ram = 0"
| "sum_cells (Suc n) ram = sum_cells n ram + ucast (ram (of_nat n))"

definition ng_neogeo_work_ram_nonzero_bytes :: "runtime \<Rightarrow> u32" where
  "ng_neogeo_work_ram_nonzero_bytes s = count_nonzero 0x10000 (work_ram s)"

definition ng_neogeo_work_ram_checksum :: "runtime \<Rightarrow> u32" where
  "ng_neogeo_work_ram_checksum s = sum_cells 0x10000 (work_ram s)"

definition ng_neogeo_backup_ram_nonzero_bytes :: "runtime \<Rightarrow> u32" where
  "ng_neogeo_backup_ram_nonzero_bytes s = count_nonzero 0x10000 (backup_ram (backup s))"

definition ng_neogeo_backup_ram_checksum :: "runtime \<Rightarrow> u32" where
  "ng_neogeo_backup_ram_checksum s = sum_cells 0x10000 (backup_ram (backup s))"

definition ng_neogeo_vram_nonzero_words :: "runtime \<Rightarrow> u32" where
  "ng_neogeo_vram_nonzero_words s = count_nonzero 0x10000 (vram (lspc s))"

definition ng_neogeo_vram_checksum :: "runtime \<Rightarrow> u32" where
  "ng_neogeo_vram_checksum s = sum_cells 0x10000 (vram (lspc s))"

text \<open>The palette counterparts return the running values kept by the writes.\<close>

definition ng_neogeo_palette_ram_nonzero_bytes :: "runtime \<Rightarrow> u32" where
  "ng_neogeo_palette_ram_nonzero_bytes s = palette_nonzero_bytes (palette s)"

definition ng_neogeo_palette_ram_checksum :: "runtime \<Rightarrow> u32" where
  "ng_neogeo_palette_ram_checksum s = palette_checksum (palette s)"

definition copy_cells :: "nat \<Rightarrow> ('i::len word \<Rightarrow> 'v) \<Rightarrow> 'v list" where
  "copy_cells n ram = map (\<lambda>i. ram (of_nat i)) [0..<n]"

definition ng_neogeo_copy_work_ram :: "bool \<Rightarrow> u32 \<Rightarrow> runtime \<Rightarrow> u8 list option" where
  "ng_neogeo_copy_work_ram has_out out_size s =
     (if \<not> has_out \<or> out_size < NG_NEO_WORK_RAM_BYTES then None
      else Some (copy_cells 0x10000 (work_ram s)))"

definition ng_neogeo_copy_palette_ram :: "bool \<Rightarrow> u32 \<Rightarrow> runtime \<Rightarrow> u8 list option" where
  "ng_neogeo_copy_palette_ram has_out out_size s =
     (if \<not> has_out \<or> out_size < NG_NEO_PALETTE_RAM_BYTES then None
      else Some (copy_cells 0x4000 (palette_ram (palette s))))"

definition ng_neogeo_copy_backup_ram :: "bool \<Rightarrow> u32 \<Rightarrow> runtime \<Rightarrow> u8 list option" where
  "ng_neogeo_copy_backup_ram has_out out_size s =
     (if \<not> has_out \<or> out_size < NG_NEO_BACKUP_RAM_BYTES then None
      else Some (copy_cells 0x10000 (backup_ram (backup s))))"

definition ng_neogeo_copy_vram :: "bool \<Rightarrow> u32 \<Rightarrow> runtime \<Rightarrow> u16 list option" where
  "ng_neogeo_copy_vram has_out out_word_count s =
     (if \<not> has_out \<or> out_word_count < 0x10000 then None
      else Some (copy_cells 0x10000 (vram (lspc s))))"

subsection \<open>Seeding\<close>

definition mslug_seed_runs :: "(u32 \<times> u8 list) list" where
  "mslug_seed_runs =
     [(0x0010, [0x42, 0x41, 0x43, 0x4b, 0x55, 0x50, 0x20, 0x52, 0x41, 0x4d, 0x20, 0x4f, 0x4b, 0x20, 0x21, 0x80, 0xa0, 0xe0, 0x40]),
      (0x003a, [0x01, 0x01, 0x01, 0x02, 0x01, 0x01, 0x01, 0x03]),
      (0x0044, [0x30, 0x3b]),
      (0x0047, [0x02]),
      (0x004c, [0x3b]),
      (0x005a, [0x48, 0x04, 0x36, 0x14, 0xff, 0xff]),
      (0x0104, [0x26, 0x06, 0x21]),
      (0x010b, [0xd0, 0x83, 0x20]),
      (0x010f, [0xd0, 0x9b, 0x20]),
      (0x0113, [0xd0, 0x9b, 0xa0]),
      (0x0117, [0xd0, 0xa0, 0x70]),
      (0x0124, [0x02, 0x01]),
      (0x012a, [0xff, 0xff]),
      (0x012e, [0xff, 0xff]),
      (0x0132, [0xff, 0xff]),
      (0x0136, [0xff, 0xff]),
      (0x013a, [0xff, 0xff]),
      (0x013e, [0xff, 0xff]),
      (0x0142, [0xff, 0xff, 0x26, 0x06, 0x21]),
      (0x0166, [0xff, 0xff]),
      (0x016e, [0xff, 0xff]),
      (0x0176, [0xff, 0xff]),
      (0x017e, [0xff, 0xff]),
      (0x0186, [0xff, 0xff]),
      (0x018e, [0xff, 0xff]),
      (0x0196, [0xff, 0xff]),
      (0x019e, [0xff, 0xff]),
      (0x01a5, [0xd0, 0x95, 0x70]),
      (0x01a9, [0xd0, 0xa1, 0xa0, 0xf0, 0xf0, 0xf0, 0xf0, 0xff, 0xff]),
      (0x0220, [0xff, 0xff, 0xff, 0xff, 0x03, 0xff, 0x01, 0x03]),
      (0x0229, [0x01, 0x01]),
      (0x02a0, [0x4d, 0x45, 0x54, 0x41, 0x4c, 0x20, 0x53, 0x4c, 0x55, 0x47, 0x20, 0x20, 0x20, 0x20, 0x20, 0x20])]"

fun store_run :: "u32 \<Rightarrow> u8 list \<Rightarrow> (u32 \<Rightarrow> u8) \<Rightarrow> u32 \<Rightarrow> u8" where
  "store_run offset [] ram = ram"
| "store_run offset (b # bs) ram = store_run (offset + 1) bs (ram(offset := b))"

definition ng_neogeo_seed_mslug_backup_ram :: "runtime \<Rightarrow> runtime" where
  "ng_neogeo_seed_mslug_backup_ram s =
     backup_update (\<lambda>b. b\<lparr>backup_ram :=
       fold (\<lambda>(offset, data). store_run offset data) mslug_seed_runs (backup_ram b)\<rparr>) s"

definition ng_neogeo_seed_mslug_cart_work_ram :: "runtime \<Rightarrow> runtime" where
  "ng_neogeo_seed_mslug_cart_work_ram s = s\<lparr>work_ram := (work_ram s)(0xFD8D := 0x01)\<rparr>"

end
