(* ===== verification/RuntimeDevices.thy ===== *)
theory RuntimeDevices
  imports RuntimeSave
begin

text \<open>
  Device-level facts: the running statistics of palette RAM against a recount, the sound-command
  ring buffer against a bounded queue, and the interrupt level against the pending sources.
\<close>

subsection \<open>Counting and summing a RAM array\<close>

lemma of_nat_cell_neq:
  assumes "i < n" and "n < 2 ^ LENGTH('i)"
  shows "(of_nat i :: 'i::len word) \<noteq> of_nat n"
  using assms by (simp add: word_unat_eq_iff unsigned_of_nat take_bit_nat_eq_self)

lemma cells_update_outside:
  fixes ram :: "'i::len word \<Rightarrow> 'v::len word"
  assumes "m \<le> n" and "n < 2 ^ LENGTH('i)"
  shows "count_nonzero m (ram(of_nat n := v)) = count_nonzero m ram"
    and "sum_cells m (ram(of_nat n := v)) = sum_cells m ram"
  using assms(1) by (induction m) (simp_all add: of_nat_cell_neq [OF _ assms(2)])

lemma count_update:
  fixes ram :: "'i::len word \<Rightarrow> 'v::len word"
  assumes "i < n" and "n \<le> 2 ^ LENGTH('i)"
  shows "count_nonzero n (ram(of_nat i := v)) =
      count_nonzero n ram - (if ram (of_nat i) \<noteq> 0 then 1 else 0) + (if v \<noteq> 0 then 1 else 0)"
  using assms
proof (induction n)
  case (Suc n)
  then have lt: "n < 2 ^ LENGTH('i)" by simp
  show ?case
  proof (cases "i = n")
    case True
    then show ?thesis using cells_update_outside(1) [OF _ lt, of n ram v] by (auto simp del: fun_upd_apply simp: fun_upd_same)
  next
    case False
    with Suc lt show ?thesis by (simp add: of_nat_cell_neq [symmetric])
  qed
qed simp

lemma sum_update:
  fixes ram :: "'i::len word \<Rightarrow> 'v::len word"
  assumes "i < n" and "n \<le> 2 ^ LENGTH('i)"
  shows "sum_cells n (ram(of_nat i := v)) = sum_cells n ram - ucast (ram (of_nat i)) + ucast v"
  using assms
proof (induction n)
  case (Suc n)
  then have lt: "n < 2 ^ LENGTH('i)" by simp
  show ?case
  proof (cases "i = n")
    case True
    then show ?thesis using cells_update_outside(2) [OF _ lt, of n ram v] by (simp del: fun_upd_apply add: fun_upd_same)
  next
    case False
    with Suc lt show ?thesis by (simp add: of_nat_cell_neq [symmetric])
  qed
qed simp

subsection \<open>Palette RAM\<close>

definition palette_ok :: "palette_state \<Rightarrow> bool" where
  "palette_ok p \<longleftrightarrow>
     palette_bank p \<le> 1 \<and>
     palette_nonzero_bytes p = count_nonzero 0x4000 (palette_ram p) \<and>
     palette_checksum p = sum_cells 0x4000 (palette_ram p) \<and>
     palette_nonzero_bytes p \<le> palette_peak_nonzero_bytes p"

lemma low14_bound: "take_bit 14 x = (x :: u32) \<Longrightarrow> unat x < 0x4000"
  using unat_take_bit_less [of 14 x] by simp

lemma and_13bit: "a AND 0x1FFF = take_bit 13 (a :: u32)"
proof -
  have "(0x1FFF :: u32) = mask 13" by (simp add: mask_eq_exp_minus_1)
  then show ?thesis by (simp only: and_mask_eq_take_bit)
qed

lemma palette_bank_cases: "palette_bank p \<le> 1 \<Longrightarrow> palette_bank p = 0 \<or> palette_bank p = 1"
  by (auto simp: word_le_nat_alt word_unat_eq_iff)

lemma palette_offset_low14:
  assumes "palette_bank p \<le> 1"
  shows "take_bit 14 (ng_neogeo_palette_offset p a) = ng_neogeo_palette_offset p a"
proof -
  show ?thesis
    using palette_bank_cases [OF assms]
    by (auto simp: ng_neogeo_palette_offset_def ram_sizes and_13bit)
qed

lemma even_plus_one: "(x AND NOT 1) + 1 = (x OR 1 :: u32)"
proof -
  have "(x AND NOT 1) + 1 = (x AND NOT 1) OR 1"
    by (rule disjunctive_add) (auto simp: bit_simps)
  also have "\<dots> = x OR 1" by (rule bit_word_eqI) (auto simp: bit_simps)
  finally show ?thesis .
qed

lemma palette_pair_bounds:
  assumes "palette_bank p \<le> 1"
  shows "unat (ng_neogeo_palette_offset p a AND NOT 1) < 0x4000"
    and "unat ((ng_neogeo_palette_offset p a AND NOT 1) + 1) < 0x4000"
    and "unat (ng_neogeo_palette_offset p a) < 0x4000"
proof -
  let ?o = "ng_neogeo_palette_offset p a"
  note o = palette_offset_low14 [OF assms, of a]
  show "unat ?o < 0x4000" by (rule low14_bound [OF o])
  have "take_bit 14 (?o AND m) = take_bit 14 ?o AND m" for m
    by (rule bit_word_eqI) (auto simp: bit_simps)
  then have "take_bit 14 (?o AND NOT 1) = ?o AND NOT 1" by (simp only: o)
  then show "unat (?o AND NOT 1) < 0x4000" by (rule low14_bound)
  have "take_bit 14 (?o OR 1) = ?o OR 1" by (simp add: o)
  then show "unat ((?o AND NOT 1) + 1) < 0x4000" unfolding even_plus_one by (rule low14_bound)
qed

lemma write_palette_byte_ok:
  assumes "palette_ok p" and "unat offset < 0x4000"
  shows "palette_ok (ng_neogeo_write_palette_byte offset v p)"
proof -
  have o: "of_nat (unat offset) = offset" by simp
  have "unat offset < 0x4000" "(0x4000 :: nat) \<le> 2 ^ LENGTH(32)" using assms(2) by simp_all
  note upd = count_update [OF this, of "palette_ram p" v, unfolded o]
    sum_update [OF this, of "palette_ram p" v, unfolded o]
  show ?thesis
    using assms(1) upd
    by (auto simp: palette_ok_def ng_neogeo_write_palette_byte_def ng_neogeo_update_palette_peak_def Let_def)
qed

lemma palette_store_ok: "palette_ok p \<Longrightarrow> palette_ok (palette_store a hi lo v p)"
proof -
  assume p: "palette_ok p"
  have noted: "palette_ok (ng_neogeo_note_palette_write a v q)" if "palette_ok q" for q
    using that by (auto simp: palette_ok_def ng_neogeo_note_palette_write_def)
  have bank: "palette_bank p \<le> 1" using p by (simp add: palette_ok_def)
  show ?thesis
    unfolding palette_store_def Let_def
    by (intro noted write_palette_byte_ok palette_pair_bounds bank p)
qed

subsection \<open>The sound-command queue\<close>

text \<open>
  The contract of a queue of bounded capacity that drops its oldest element when it is full:
  \<open>abs\<close> lists the elements, oldest first.
\<close>

definition fifo_push :: "nat \<Rightarrow> 'a \<Rightarrow> 'a list \<Rightarrow> 'a list" where
  "fifo_push cap x xs = (if cap \<le> length xs then tl xs else xs) @ [x]"

locale bounded_fifo =
  fixes inv :: "'q \<Rightarrow> bool"
    and abs :: "'q \<Rightarrow> 'a list"
    and push :: "'a \<Rightarrow> 'q \<Rightarrow> 'q"
    and pop :: "'q \<Rightarrow> ('a \<times> 'q) option"
    and cap :: nat
  assumes cap_pos: "0 < cap"
    and abs_bound: "inv q \<Longrightarrow> length (abs q) \<le> cap"
    and push_inv: "inv q \<Longrightarrow> inv (push x q)"
    and push_abs: "inv q \<Longrightarrow> abs (push x q) = fifo_push cap x (abs q)"
    and pop_empty: "inv q \<Longrightarrow> pop q = None \<longleftrightarrow> abs q = []"
    and pop_inv: "inv q \<Longrightarrow> pop q = Some (x, q') \<Longrightarrow> inv q'"
    and pop_abs: "inv q \<Longrightarrow> pop q = Some (x, q') \<Longrightarrow> abs q = x # abs q'"
begin

lemma pushes_inv: "inv q \<Longrightarrow> inv (fold push xs q)"
  by (induction xs arbitrary: q) (simp_all add: push_inv)

lemma fifo_push_last:
  assumes "length xs \<le> cap"
  shows "fifo_push cap x xs = drop (length (xs @ [x]) - cap) (xs @ [x])"
  using assms cap_pos by (cases "length xs = cap") (auto simp: fifo_push_def drop_Suc tl_append split: list.splits)

lemma pushes_keep_last:
  "inv q \<Longrightarrow> abs (fold push xs q) = drop (length (abs q @ xs) - cap) (abs q @ xs)"
proof (induction xs arbitrary: q)
  case Nil
  then show ?case using abs_bound [of q] by simp
next
  case (Cons x xs)
  have b: "length (abs q) \<le> cap" using Cons.prems by (rule abs_bound)
  have "abs (fold push (x # xs) q) = abs (fold push xs (push x q))" by simp
  also have "\<dots> = drop (length (abs (push x q) @ xs) - cap) (abs (push x q) @ xs)"
    using Cons.IH [OF push_inv [OF Cons.prems]] .
  also have "\<dots> = drop (length (abs q @ x # xs) - cap) (abs q @ x # xs)"
    using b cap_pos unfolding push_abs [OF Cons.prems] fifo_push_last [OF b]
    by (cases "length (abs q) = cap") auto
  finally show ?case .
qed

lemma push_then_drain:
  assumes "inv q" and "abs q = []"
  shows "\<exists>q'. pop (push x q) = Some (x, q') \<and> abs q' = []"
proof -
  have a: "abs (push x q) = [x]" using assms cap_pos by (simp add: push_abs fifo_push_def)
  then obtain y q' where p: "pop (push x q) = Some (y, q')"
    using pop_empty [OF push_inv [OF assms(1)]] by (cases "pop (push x q)") auto
  with pop_abs [OF push_inv [OF assms(1)] p] a show ?thesis by auto
qed

end

definition sound_queue_ok :: "sound_state \<Rightarrow> bool" where
  "sound_queue_ok q \<longleftrightarrow>
     length (sound_queue q) = 512 \<and> queue_head q < 512 \<and> queue_tail q < 512 \<and> queue_count q \<le> 512 \<and>
     unat (queue_head q) = (unat (queue_tail q) + unat (queue_count q)) mod 512"

definition sound_events :: "sound_state \<Rightarrow> sound_event list" where
  "sound_events q = map (\<lambda>k. sound_queue q ! ((unat (queue_tail q) + k) mod 512)) [0..<unat (queue_count q)]"

lemma ring_step: "i < 512 \<Longrightarrow> unat ((i + 1) mod NG_NEO_SOUND_COMMAND_QUEUE_CAPACITY) = (unat i + 1) mod 512"
  for i :: u32
  using no_wrap_succ [of i 512] by (simp add: NG_NEO_SOUND_COMMAND_QUEUE_CAPACITY_def unat_mod)

lemma length_sound_events [simp]: "length (sound_events q) = unat (queue_count q)"
  by (simp add: sound_events_def)

lemma pop_sound_ok:
  assumes "sound_queue_ok q" and "ng_neogeo_pop_sound_command_event q = Some (e, q')"
  shows "sound_queue_ok q'" and "sound_events q = e # sound_events q'"
proof -
  have c: "queue_count q \<noteq> 0" and e: "e = sound_queue q ! unat (queue_tail q)"
    and q': "q' = q\<lparr>queue_tail := (queue_tail q + 1) mod NG_NEO_SOUND_COMMAND_QUEUE_CAPACITY,
                   queue_count := queue_count q - 1\<rparr>"
    using assms(2) by (auto simp: ng_neogeo_pop_sound_command_event_def split: if_splits)
  have t: "queue_tail q < 512" "unat (queue_tail q) < 512" using assms(1)
    by (simp_all add: sound_queue_ok_def word_less_nat_alt)
  have n: "unat (queue_count q - 1) = unat (queue_count q) - 1" "0 < unat (queue_count q)"
    using c by (simp_all add: unat_minus_one unat_gt_0)
  have "((unat (queue_tail q) + 1) mod 512 + (unat (queue_count q) - 1)) mod 512 =
        (unat (queue_tail q) + unat (queue_count q)) mod 512"
  proof -
    obtain c where "unat (queue_count q) = Suc c" using n(2) by (cases "unat (queue_count q)") auto
    then show ?thesis by (simp add: mod_simps)
  qed
  then show "sound_queue_ok q'"
    using assms(1) n ring_step [OF t(1)]
    by (auto simp: sound_queue_ok_def q' word_less_nat_alt word_le_nat_alt)
  have "[0..<unat (queue_count q)] = 0 # map Suc [0..<unat (queue_count q) - 1]"
    using n(2) by (metis Suc_diff_1 map_Suc_upt upt_conv_Cons)
  then show "sound_events q = e # sound_events q'"
    using t n(1) by (simp add: sound_events_def e q' ring_step mod_simps)
qed

text \<open>Storing an event at the head of a queue that is not full.\<close>

definition ring_store :: "sound_event \<Rightarrow> sound_state \<Rightarrow> sound_state" where
  "ring_store event q =
     q\<lparr>sound_queue := (sound_queue q)[unat (queue_head q) := event],
       queue_head := (queue_head q + 1) mod NG_NEO_SOUND_COMMAND_QUEUE_CAPACITY,
       queue_count := queue_count q + 1\<rparr>"

lemma ring_slots_distinct:
  fixes t c k :: nat
  assumes "k < c" and "c < 512"
  shows "(t + k) mod 512 \<noteq> (t + c) mod 512"
proof
  assume "(t + k) mod 512 = (t + c) mod 512"
  then have "(512 :: nat) dvd (t + c) - (t + k)"
    using assms(1) mod_eq_dvd_iff_nat [of "t + k" "t + c" 512] by (simp del: add_diff_cancel_left)
  then show False using assms by (auto dest: dvd_imp_le)
qed

lemma ring_store_ok:
  assumes "sound_queue_ok q" and "queue_count q < 512"
  shows "sound_queue_ok (ring_store e q)" and "sound_events (ring_store e q) = sound_events q @ [e]"
proof -
  have h: "queue_head q < 512" "unat (queue_head q) < 512" and len: "length (sound_queue q) = 512"
    and hd: "unat (queue_head q) = (unat (queue_tail q) + unat (queue_count q)) mod 512"
    using assms(1) by (simp_all add: sound_queue_ok_def word_less_nat_alt)
  have c: "unat (queue_count q + 1) = unat (queue_count q) + 1" "unat (queue_count q) < 512"
    using no_wrap_succ [OF assms(2)] assms(2) by (simp_all add: word_less_nat_alt)
  have "unat ((queue_head q + 1) mod NG_NEO_SOUND_COMMAND_QUEUE_CAPACITY) =
        (unat (queue_tail q) + unat (queue_count q + 1)) mod 512"
    unfolding ring_step [OF h(1)] hd c(1) by (simp add: mod_simps)
  then show "sound_queue_ok (ring_store e q)"
    using assms(1) c by (auto simp: sound_queue_ok_def ring_store_def word_less_nat_alt word_le_nat_alt)
  have "(sound_queue q)[unat (queue_head q) := e] ! ((unat (queue_tail q) + k) mod 512) =
        sound_queue q ! ((unat (queue_tail q) + k) mod 512)" if "k < unat (queue_count q)" for k
    using ring_slots_distinct [OF that c(2), of "unat (queue_tail q)"] hd by simp
  then show "sound_events (ring_store e q) = sound_events q @ [e]"
    using h len hd by (simp add: sound_events_def ring_store_def c(1))
qed

lemma queue_sound_command_cases:
  "ng_neogeo_queue_sound_command e q =
     (case (if 512 \<le> queue_count q then ng_neogeo_pop_sound_command_event q else None) of
        None \<Rightarrow> ring_store e q
      | Some (_, q1) \<Rightarrow> ring_store e (q1\<lparr>queue_overflows := queue_overflows q + 1\<rparr>))"
proof -
  have "512 \<le> queue_count q \<Longrightarrow> queue_count q \<noteq> 0" by auto
  then show ?thesis
    by (auto simp: ng_neogeo_queue_sound_command_def ng_neogeo_pop_sound_command_event_def ring_store_def
        NG_NEO_SOUND_COMMAND_QUEUE_CAPACITY_def Let_def)
qed

lemma overflow_irrelevant [simp]:
  "sound_queue_ok (q\<lparr>queue_overflows := n\<rparr>) = sound_queue_ok q"
  "sound_events (q\<lparr>queue_overflows := n\<rparr>) = sound_events q"
  by (simp_all add: sound_queue_ok_def sound_events_def)

lemma queue_sound_command_ok:
  assumes ok: "sound_queue_ok q"
  shows "sound_queue_ok (ng_neogeo_queue_sound_command e q)" (is ?A)
    and "sound_events (ng_neogeo_queue_sound_command e q) = fifo_push 512 e (sound_events q)" (is ?B)
    and "queue_overflows (ng_neogeo_queue_sound_command e q) =
           queue_overflows q + (if length (sound_events q) = 512 then 1 else 0)" (is ?C)
proof -
  have le: "unat (queue_count q) \<le> 512" using ok by (simp add: sound_queue_ok_def word_le_nat_alt)
  have "?A \<and> ?B \<and> ?C"
  proof (cases "512 \<le> queue_count q")
    case False
    then have "queue_count q < 512" "unat (queue_count q) < 512" by (auto simp: word_le_nat_alt word_less_nat_alt)
    with False ring_store_ok [OF ok] show ?thesis
      by (simp add: queue_sound_command_cases fifo_push_def ring_store_def)
  next
    case True
    then have full: "unat (queue_count q) = 512" using le by (simp add: word_le_nat_alt)
    then obtain x q1 where p: "ng_neogeo_pop_sound_command_event q = Some (x, q1)"
      by (cases "ng_neogeo_pop_sound_command_event q")
        (auto simp: ng_neogeo_pop_sound_command_event_def split: if_splits)
    note pop = pop_sound_ok [OF ok p]
    have "unat (queue_count q1) = 511" using arg_cong [OF pop(2), of length] full by simp
    moreover from this have "queue_count q1 < 512" by (simp add: word_less_nat_alt)
    ultimately show ?thesis
      using pop ring_store_ok [of "q1\<lparr>queue_overflows := queue_overflows q + 1\<rparr>"] p True full
      by (simp add: queue_sound_command_cases fifo_push_def ring_store_def)
  qed
  then show ?A ?B ?C by simp_all
qed

interpretation sound_fifo: bounded_fifo sound_queue_ok sound_events ng_neogeo_queue_sound_command
  ng_neogeo_pop_sound_command_event 512
proof
  fix q :: sound_state and x q'
  assume ok: "sound_queue_ok q"
  show "length (sound_events q) \<le> 512" using ok by (simp add: sound_queue_ok_def word_le_nat_alt)
  show "(ng_neogeo_pop_sound_command_event q = None) = (sound_events q = [])"
    by (simp add: ng_neogeo_pop_sound_command_event_def sound_events_def unat_eq_0)
qed (simp_all add: queue_sound_command_ok pop_sound_ok)

end
