(* ===== verification/RuntimeClock.thy ===== *)
theory RuntimeClock
  imports RuntimeSave
begin

text \<open>
  Interrupt arbitration, the raster timer and the CPU-cycle clock: closed forms of the loops, and
  what each operation leaves unchanged.
\<close>

subsection \<open>Interrupt arbitration\<close>

text \<open>The level and vector the pending sources ask for: reset over timer over vertical blank.\<close>

definition irq_priority :: "u16 \<Rightarrow> u8 \<times> u8" where
  "irq_priority pending =
     (if pending AND NG_NEO_IRQACK_RESET \<noteq> 0 then (3, 27)
      else if pending AND NG_NEO_IRQACK_TIMER \<noteq> 0 then (2, 26)
      else if pending AND NG_NEO_IRQACK_VBLANK \<noteq> 0 then (1, 25)
      else (0, 0))"

text \<open>
  The invariant of the interrupt pins. When only the devices set the level, it is the one the pending sources ask for.
  When a caller may drive the pins (\<open>driven\<close>), the level is one of the eight levels, and an edge is latched only at
  level 7.
\<close>

definition irq_ok :: "bool \<Rightarrow> irq_state \<Rightarrow> bool" where
  "irq_ok driven i \<longleftrightarrow>
     (if driven then interrupt_level i \<le> 7 \<and> (level7_edge i \<noteq> 0 \<longrightarrow> interrupt_level i = 7)
      else (interrupt_level i, interrupt_vector i) = irq_priority (irq_pending i) \<and> level7_edge i = 0)"

lemma irq_ok_driven: "irq_ok False i \<Longrightarrow> irq_ok driven i"
  by (auto simp: irq_ok_def irq_priority_def split: if_splits)

lemma refresh_irq_ok [simp]: "irq_ok driven (ng_neogeo_refresh_interrupt_level i)"
  by (rule irq_ok_driven) (simp add: irq_ok_def irq_priority_def ng_neogeo_refresh_interrupt_level_def
      ng_m68k_set_interrupt_level_def ng_m68k_clear_interrupt_level_def Let_def)

lemma irq_ops_ok [simp]:
  "irq_ok driven (ng_neogeo_request_vblank_interrupt i)"
  "irq_ok driven (ng_neogeo_request_timer_interrupt i)"
  "irq_ok driven (ng_neogeo_request_reset_interrupt i)"
  "irq_ok driven (ng_neogeo_ack_interrupts m i)"
  by (simp_all add: ng_neogeo_request_vblank_interrupt_def ng_neogeo_request_timer_interrupt_def
      ng_neogeo_request_reset_interrupt_def ng_neogeo_ack_interrupts_def Let_def)

lemma driven_level_ok:
  "irq_ok True i \<Longrightarrow> irq_ok True (ng_m68k_set_interrupt_level l v i)" "irq_ok True (ng_m68k_clear_interrupt_level i)"
proof -
  assume i: "irq_ok True i"
  have l: "l AND 7 \<le> 7" by (rule word_and_le1)
  show "irq_ok True (ng_m68k_set_interrupt_level l v i)"
    using i l by (auto simp: irq_ok_def ng_m68k_set_interrupt_level_def Let_def not_less)
qed (simp add: irq_ok_def ng_m68k_clear_interrupt_level_def)

lemma refresh_keeps [simp]:
  "irq_pending (ng_neogeo_refresh_interrupt_level i) = irq_pending i"
  "timer_interrupts (ng_neogeo_refresh_interrupt_level i) = timer_interrupts i"
  "vblank_interrupts (ng_neogeo_refresh_interrupt_level i) = vblank_interrupts i"
  by (simp_all add: ng_neogeo_refresh_interrupt_level_def ng_m68k_set_interrupt_level_def
      ng_m68k_clear_interrupt_level_def Let_def)

subsection \<open>The raster timer\<close>

text \<open>The loop with its 64-bit arithmetic read as natural numbers.\<close>

lemma unat_minus_succ:
  fixes a c :: "'a::len word"
  assumes "unat c < unat a"
  shows "unat (a - c - 1) = unat a - (unat c + 1)"
proof -
  have "unat (a - c) = unat a - unat c" using assms by (simp add: unat_sub word_le_nat_alt)
  moreover from this assms have "a - c \<noteq> 0" by auto
  ultimately show ?thesis by (simp add: unat_minus_one)
qed

lemma timer_loop_eq:
  "timer_loop t st =
     (if t = 0 \<or> timer_counter_loaded (fst st) = 0 then st
      else if unat t \<le> unat (timer_counter_value (fst st)) then
        ((fst st)\<lparr>timer_counter_value := timer_counter_value (fst st) - t\<rparr>, snd st)
      else timer_loop (t - timer_counter_value (fst st) - 1) (timer_expire st))"
proof -
  let ?c = "timer_counter_value (fst st)"
  have "ucast ((ucast t :: u64) - (ucast ?c + 1)) = t - ?c - 1" if "\<not> unat t \<le> unat ?c"
    using that unat_ticks_left [OF that] by (simp add: word_unat_eq_iff unat_minus_succ)
  then show ?thesis by (subst timer_loop.simps) (auto simp: Let_def ticks_before_zero)
qed

lemma timer_expire_reset:
  "timer_expire (l\<lparr>timer_counter_value := c\<rparr>, i) = timer_expire (l, i)"
  by (simp add: timer_expire_def)

lemma timer_loop_split:
  "unat a + unat b < 2 ^ 32 \<Longrightarrow> timer_loop (a + b) st = timer_loop b (timer_loop a st)"
proof (induction "unat a" arbitrary: a st rule: less_induct)
  case less
  obtain l i where st: "st = (l, i)" by (cases st)
  let ?c = "timer_counter_value l"
  have ab: "unat (a + b) = unat a + unat b" using less.prems by (simp add: unat_word_ariths)
  consider "a = 0" | "timer_counter_loaded l = 0" | "a \<noteq> 0" "timer_counter_loaded l \<noteq> 0" "unat a \<le> unat ?c"
    | "a \<noteq> 0" "timer_counter_loaded l \<noteq> 0" "unat ?c < unat a" by linarith
  then show ?case
  proof cases
    case 1
    then show ?thesis by (simp add: timer_loop_eq [of 0])
  next
    case 2
    then show ?thesis by (simp add: st timer_loop_eq)
  next
    case 3
    have nz: "a + b \<noteq> 0" using 3(1) ab by (metis add_is_0 unat_eq_0)
    have "unat (?c - a) = unat ?c - unat a" using 3(3) by (simp add: unat_sub word_le_nat_alt)
    then have ca: "unat b \<le> unat (?c - a) \<longleftrightarrow> unat a + unat b \<le> unat ?c" using 3(3) by linarith
    have "timer_loop a st = (l\<lparr>timer_counter_value := ?c - a\<rparr>, i)"
      using 3 by (simp add: st timer_loop_eq [of a])
    moreover have "timer_loop (a + b) st = timer_loop b (l\<lparr>timer_counter_value := ?c - a\<rparr>, i)"
      using 3 nz ab ca
      by (simp add: st timer_loop_eq [of "a + b"] timer_loop_eq [of b] timer_expire_reset algebra_simps)
    ultimately show ?thesis by simp
  next
    case 4
    have c1: "unat (a - ?c - 1) = unat a - (unat ?c + 1)" using 4(3) by (rule unat_minus_succ)
    have "a + b \<noteq> 0" using 4(1) ab by (metis add_is_0 unat_eq_0)
    then have "timer_loop (a + b) st = timer_loop ((a - ?c - 1) + b) (timer_expire st)"
      using 4 ab by (simp add: st timer_loop_eq [of "a + b"] algebra_simps)
    also have "\<dots> = timer_loop b (timer_loop (a - ?c - 1) (timer_expire st))"
      using less.prems 4(3) c1 by (intro less.hyps) auto
    also have "timer_loop (a - ?c - 1) (timer_expire st) = timer_loop a st"
      using 4 by (simp add: st timer_loop_eq [of a])
    finally show ?thesis .
  qed
qed

text \<open>In reload mode the timer fires once per \<open>reload + 1\<close> ticks after the first expiry.\<close>

definition timer_fires :: "nat \<Rightarrow> nat \<Rightarrow> nat \<Rightarrow> nat" where
  "timer_fires ticks counter reload =
     (if ticks \<le> counter then 0 else 1 + (ticks - (counter + 1)) div (reload + 1))"

lemma timer_fires_step:
  assumes "counter < ticks"
  shows "timer_fires ticks counter reload = 1 + timer_fires (ticks - (counter + 1)) reload reload"
proof (cases "ticks - (counter + 1) \<le> reload")
  case True
  then show ?thesis using assms by (simp add: timer_fires_def)
next
  case False
  then show ?thesis using assms by (simp add: timer_fires_def le_div_geq)
qed

lemma timer_loop_periodic:
  assumes "timer_counter_loaded l \<noteq> 0"
    and "lspc_mode l AND NG_NEO_LSPCMODE_TIMER_ENABLE \<noteq> 0"
    and "lspc_mode l AND NG_NEO_LSPCMODE_TIMER_RELOAD_ON_ZERO \<noteq> 0"
  shows "timer_interrupts (snd (timer_loop t (l, i))) =
     timer_interrupts i + of_nat (timer_fires (unat t) (unat (timer_counter_value l)) (unat (timer_reload_value l)))"
  using assms
proof (induction "unat t" arbitrary: t l i rule: less_induct)
  case less
  let ?c = "timer_counter_value l"
  show ?case
  proof (cases "unat t \<le> unat ?c")
    case True
    then show ?thesis by (simp add: timer_loop_eq [of t] timer_fires_def)
  next
    case False
    then have lt: "unat ?c < unat t" and "t \<noteq> 0" by auto
    let ?l = "l\<lparr>timer_counter_value := timer_reload_value l, timer_counter_loaded := 1\<rparr>"
    have "timer_loop t (l, i) = timer_loop (t - ?c - 1) (?l, ng_neogeo_request_timer_interrupt i)"
      using less.prems lt \<open>t \<noteq> 0\<close>
      by (simp add: timer_loop_eq [of t] timer_expire_def Let_def ng_neogeo_reload_timer_counter_def)
    moreover have "timer_interrupts (snd (timer_loop (t - ?c - 1) (?l, ng_neogeo_request_timer_interrupt i))) =
        timer_interrupts (ng_neogeo_request_timer_interrupt i) +
        of_nat (timer_fires (unat (t - ?c - 1)) (unat (timer_counter_value ?l)) (unat (timer_reload_value ?l)))"
      using less.prems lt by (intro less.hyps) (simp_all add: unat_minus_succ)
    ultimately show ?thesis
      using timer_fires_step [OF lt] lt
      by (simp add: ng_neogeo_request_timer_interrupt_def unat_minus_succ)
  qed
qed

lemma timer_expire_irq_ok: "irq_ok driven (snd st) \<Longrightarrow> irq_ok driven (snd (timer_expire st))"
  by (cases st) (simp add: timer_expire_def Let_def)

lemma timer_loop_irq_ok: "irq_ok driven (snd st) \<Longrightarrow> irq_ok driven (snd (timer_loop t st))"
proof (induction t st rule: timer_loop.induct)
  case (1 t st)
  then show ?case
    by (subst timer_loop.simps) (auto simp: Let_def timer_expire_irq_ok)
qed

subsection \<open>Scanlines and CPU cycles\<close>

text \<open>What the clocks leave alone.\<close>

lemma advance_timer_frame [simp]:
  "palette (ng_neogeo_advance_timer t s) = palette s"
  "backup (ng_neogeo_advance_timer t s) = backup s"
  "inputs (ng_neogeo_advance_timer t s) = inputs s"
  "sound (ng_neogeo_advance_timer t s) = sound s"
  "watchdog (ng_neogeo_advance_timer t s) = watchdog s"
  "latch (ng_neogeo_advance_timer t s) = latch s"
  "m68k (ng_neogeo_advance_timer t s) = m68k s"
  "work_ram (ng_neogeo_advance_timer t s) = work_ram s"
  by (simp_all add: ng_neogeo_advance_timer_def split: prod.splits)

lemma clock_frames [simp]:
  "palette (ng_neogeo_advance_scanline s) = palette s"
  "backup (ng_neogeo_advance_scanline s) = backup s"
  "sound (ng_neogeo_advance_scanline s) = sound s"
  "palette (ng_neogeo_update_watchdog_timeout s) = palette s"
  "backup (ng_neogeo_update_watchdog_timeout s) = backup s"
  "sound (ng_neogeo_update_watchdog_timeout s) = sound s"
  "irq (ng_neogeo_update_watchdog_timeout s) = irq s"
  by (simp_all add: ng_neogeo_advance_scanline_def ng_neogeo_begin_vblank_def
      ng_neogeo_update_watchdog_timeout_def Let_def)

lemma advance_timer_irq_ok: "irq_ok driven (irq s) \<Longrightarrow> irq_ok driven (irq (ng_neogeo_advance_timer t s))"
  using timer_loop_irq_ok [of driven "(lspc s, irq s)" t]
  by (auto simp: ng_neogeo_advance_timer_def split: prod.splits)

lemma advance_scanline_irq_ok: "irq_ok driven (irq s) \<Longrightarrow> irq_ok driven (irq (ng_neogeo_advance_scanline s))"
  using advance_timer_irq_ok [of driven "timing_update (\<lambda>t. t\<lparr>scanline_cycle := 0\<rparr>) s"]
  by (simp add: ng_neogeo_advance_scanline_def ng_neogeo_begin_vblank_def Let_def)

text \<open>The raster position: scanline below 264, cycle within the scanline below 768.\<close>

definition raster_ok :: "timing_state \<Rightarrow> bool" where
  "raster_ok t \<longleftrightarrow> current_scanline t < 264 \<and> scanline_cycle t < 768"

lemma next_scanline:
  fixes line :: u16
  assumes "line < 264"
  shows "unat (ucast ((ucast line + 1) mod NG_NEO_NTSC_SCANLINES_PER_FRAME) :: u16) = (unat line + 1) mod 264"
proof -
  have "unat ((ucast line :: u32) + 1) = unat line + 1"
    using unat_below [of line] by (simp add: unat_word_ariths unat_ucast_up)
  then have "unat (((ucast line :: u32) + 1) mod 264) = (unat line + 1) mod 264" by (simp add: unat_mod)
  moreover have "(unat line + 1) mod 264 < 2 ^ 16" by (rule less_trans [of _ 264]) simp_all
  ultimately show ?thesis
    by (simp add: ntsc_consts unsigned_ucast_eq take_bit_nat_eq_self)
qed

lemma advance_scanline_timing:
  assumes "current_scanline (timing s) < 264"
  shows "unat (current_scanline (timing (ng_neogeo_advance_scanline s))) =
           (unat (current_scanline (timing s)) + 1) mod 264"
    and "frame_count (timing (ng_neogeo_advance_scanline s)) =
           frame_count (timing s) + of_nat ((unat (current_scanline (timing s)) + 1) div 264)"
    and "cpu_cycles (timing (ng_neogeo_advance_scanline s)) = cpu_cycles (timing s)"
    and "interrupt_polls (timing (ng_neogeo_advance_scanline s)) = interrupt_polls (timing s)"
    and "cycle_timing_active (timing (ng_neogeo_advance_scanline s)) = cycle_timing_active (timing s)"
proof -
  let ?n = "unat (current_scanline (timing s))"
  let ?line = "ucast ((ucast (current_scanline (timing s)) + 1) mod NG_NEO_NTSC_SCANLINES_PER_FRAME) :: u16"
  have line: "unat ?line = (?n + 1) mod 264" using assms by (rule next_scanline)
  have lt: "?n < 264" using assms by (simp add: word_less_nat_alt)
  have "(?n + 1) mod 264 = 0 \<longleftrightarrow> ?n + 1 = 264" using lt by (cases "?n + 1 = 264") auto
  then have zero: "?line = 0 \<longleftrightarrow> ?n + 1 = 264" unfolding unat_eq_0 [symmetric] line .
  have div: "(?n + 1) div 264 = (if ?n + 1 = 264 then 1 else 0)" using lt by auto
  show "unat (current_scanline (timing (ng_neogeo_advance_scanline s))) = (?n + 1) mod 264"
    using line by (auto simp: ng_neogeo_advance_scanline_def Let_def begin_vblank_timing)
  show "frame_count (timing (ng_neogeo_advance_scanline s)) =
          frame_count (timing s) + of_nat ((?n + 1) div 264)"
    using zero div by (simp add: ng_neogeo_advance_scanline_def Let_def begin_vblank_timing)
qed (simp_all add: ng_neogeo_advance_scanline_def Let_def begin_vblank_timing)

text \<open>Closed form of the cycle clock.\<close>

lemma div_carry:
  fixes a b k :: nat
  assumes "0 < k"
  shows "a div k + (a mod k + b) div k = (a + b) div k"
proof -
  have "a + b = a div k * k + (a mod k + b)" by simp
  then show ?thesis using assms by (metis div_mult_self3 less_numeral_extra(3))
qed

definition elapsed_cycles :: "timing_state \<Rightarrow> u32 \<Rightarrow> nat" where
  "elapsed_cycles t n = unat (scanline_cycle t) + unat n"

definition elapsed_lines :: "timing_state \<Rightarrow> u32 \<Rightarrow> nat" where
  "elapsed_lines t n = unat (current_scanline t) + elapsed_cycles t n div 768"

text \<open>One iteration of the loop that reaches the end of the scanline.\<close>

definition line_rest :: "timing_state \<Rightarrow> u32" where
  "line_rest t = NG_NEO_CPU_CYCLES_PER_SCANLINE - scanline_cycle t"

definition finish_line :: "runtime \<Rightarrow> runtime" where
  "finish_line s = ng_neogeo_update_watchdog_timeout (ng_neogeo_advance_scanline
     (timing_update (\<lambda>t. t\<lparr>cpu_cycles := cpu_cycles t + ucast (line_rest (timing s)), scanline_cycle := 0\<rparr>) s))"

lemma line_rest: "raster_ok t \<Longrightarrow> unat (line_rest t) = 768 - unat (scanline_cycle t)"
  unfolding line_rest_def
  by (subst unat_sub) (simp_all add: ntsc_consts word_le_nat_alt raster_ok_def word_less_nat_alt)

lemma finish_line_timing:
  assumes "raster_ok (timing s)"
  shows "unat (current_scanline (timing (finish_line s))) = (unat (current_scanline (timing s)) + 1) mod 264"
    and "frame_count (timing (finish_line s)) =
           frame_count (timing s) + of_nat ((unat (current_scanline (timing s)) + 1) div 264)"
    and "cpu_cycles (timing (finish_line s)) = cpu_cycles (timing s) + ucast (line_rest (timing s))"
    and "scanline_cycle (timing (finish_line s)) = 0"
    and "raster_ok (timing (finish_line s))"
proof -
  let ?s = "timing_update (\<lambda>t. t\<lparr>cpu_cycles := cpu_cycles t + ucast (line_rest (timing s)), scanline_cycle := 0\<rparr>) s"
  have "current_scanline (timing ?s) < 264" using assms by (simp add: raster_ok_def)
  note adv = advance_scanline_timing [OF this]
  show l: "unat (current_scanline (timing (finish_line s))) = (unat (current_scanline (timing s)) + 1) mod 264"
    using adv(1) by (simp add: finish_line_def)
  show c: "scanline_cycle (timing (finish_line s)) = 0" by (simp add: finish_line_def)
  show "raster_ok (timing (finish_line s))" unfolding raster_ok_def word_less_nat_alt l c by simp
qed (use advance_scanline_timing [of "timing_update (\<lambda>t. t\<lparr>cpu_cycles := cpu_cycles t +
    ucast (line_rest (timing s)), scanline_cycle := 0\<rparr>) s"] assms in \<open>simp_all add: finish_line_def raster_ok_def\<close>)

lemma cycles_loop_cases:
  assumes "raster_ok (timing s)"
  shows "cycles_loop n s =
     (if n < line_rest (timing s)
      then if n = 0 then s else ng_neogeo_update_watchdog_timeout
             (timing_update (\<lambda>t. t\<lparr>scanline_cycle := scanline_cycle t + n, cpu_cycles := cpu_cycles t + ucast n\<rparr>) s)
      else cycles_loop (n - line_rest (timing s)) (finish_line s))"
proof -
  have "0 < line_rest (timing s)"
    using assms line_rest [OF assms] by (simp add: word_less_nat_alt raster_ok_def)
  then show ?thesis by (subst cycles_loop.simps) (auto simp: Let_def finish_line_def line_rest_def)
qed

lemma elapsed_step:
  assumes "raster_ok (timing s)" and "\<not> n < line_rest (timing s)"
  shows "elapsed_cycles (timing s) n = elapsed_cycles (timing (finish_line s)) (n - line_rest (timing s)) + 768"
    and "elapsed_lines (timing s) n mod 264 = elapsed_lines (timing (finish_line s)) (n - line_rest (timing s)) mod 264"
    and "elapsed_lines (timing s) n div 264 = (unat (current_scanline (timing s)) + 1) div 264 +
           elapsed_lines (timing (finish_line s)) (n - line_rest (timing s)) div 264"
proof -
  let ?n' = "n - line_rest (timing s)"
  have le: "unat (line_rest (timing s)) \<le> unat n" using assms(2) by (simp add: word_less_nat_alt)
  then have n': "unat ?n' = unat n - unat (line_rest (timing s))" by (simp add: unat_sub word_le_nat_alt)
  show cyc: "elapsed_cycles (timing s) n = elapsed_cycles (timing (finish_line s)) ?n' + 768"
    using le n' line_rest [OF assms(1)] assms(1) finish_line_timing(4) [OF assms(1)]
    by (simp add: elapsed_cycles_def raster_ok_def word_less_nat_alt)
  have lin: "elapsed_lines (timing (finish_line s)) ?n' =
      (unat (current_scanline (timing s)) + 1) mod 264 + elapsed_cycles (timing (finish_line s)) ?n' div 768"
    "elapsed_lines (timing s) n =
      (unat (current_scanline (timing s)) + 1) + elapsed_cycles (timing (finish_line s)) ?n' div 768"
    unfolding elapsed_lines_def finish_line_timing(1) [OF assms(1)] cyc by simp_all
  show "elapsed_lines (timing s) n mod 264 = elapsed_lines (timing (finish_line s)) ?n' mod 264"
    unfolding lin by (rule mod_add_left_eq [symmetric])
  show "elapsed_lines (timing s) n div 264 = (unat (current_scanline (timing s)) + 1) div 264 +
      elapsed_lines (timing (finish_line s)) ?n' div 264"
    unfolding lin by (rule div_carry [symmetric]) simp
qed

lemma ucast_split: "b \<le> a \<Longrightarrow> ucast b + ucast (a - b) = (ucast a :: u64)" for a b :: u32
  using unat_below [of a]
  by (simp add: word_unat_eq_iff unat_word_ariths unat_ucast_up unat_sub word_le_nat_alt)

lemma cycles_loop_timing:
  assumes "raster_ok (timing s)"
  shows "cpu_cycles (timing (cycles_loop n s)) = cpu_cycles (timing s) + ucast n \<and>
    unat (scanline_cycle (timing (cycles_loop n s))) = elapsed_cycles (timing s) n mod 768 \<and>
    unat (current_scanline (timing (cycles_loop n s))) = elapsed_lines (timing s) n mod 264 \<and>
    frame_count (timing (cycles_loop n s)) =
      frame_count (timing s) + of_nat (elapsed_lines (timing s) n div 264)"
  using assms
proof (induction "unat n" arbitrary: n s rule: less_induct)
  case less
  have c: "unat (scanline_cycle (timing s)) < 768" and l: "unat (current_scanline (timing s)) < 264"
    using less.prems by (simp_all add: raster_ok_def word_less_nat_alt)
  note d = line_rest [OF less.prems] and step = cycles_loop_cases [OF less.prems, of n]
  show ?case
  proof (cases "n < line_rest (timing s)")
    case True
    then have lt: "unat (scanline_cycle (timing s)) + unat n < 768" using d c by (simp add: word_less_nat_alt)
    then have "unat (scanline_cycle (timing s) + n) = unat (scanline_cycle (timing s)) + unat n"
      by (simp add: unat_word_ariths)
    with True lt c l show ?thesis by (simp add: step elapsed_lines_def elapsed_cycles_def)
  next
    case False
    let ?n' = "n - line_rest (timing s)" and ?s = "finish_line s"
    note fin = finish_line_timing [OF less.prems] and el = elapsed_step [OF less.prems False]
    have "unat ?n' < unat n" using False d c by (simp add: unat_sub word_le_nat_alt word_less_nat_alt)
    note IH = less.hyps [OF this fin(5)]
    have s: "cycles_loop n s = cycles_loop ?n' ?s" using False by (simp add: step)
    have "cpu_cycles (timing s) + ucast n = cpu_cycles (timing ?s) + ucast ?n'"
      using ucast_split [of "line_rest (timing s)" n] False by (simp add: fin(3) add.assoc)
    moreover have "frame_count (timing s) + of_nat (elapsed_lines (timing s) n div 264) =
        frame_count (timing ?s) + of_nat (elapsed_lines (timing ?s) ?n' div 264)"
      by (simp add: fin(2) el(3) add.assoc)
    ultimately show ?thesis using IH unfolding s el(2) by (simp add: el(1))
  qed
qed

end
