(* ===== verification/RuntimeInv.thy ===== *)
theory RuntimeInv
  imports RuntimeDevices RuntimeClock
begin

text \<open>
  The invariant of the runtime: palette statistics exact, the sound ring consistent, the interrupt
  level the one the pending sources ask for, and the raster position in range. It holds initially
  and every public operation keeps it, so it holds after any sequence of operations.
\<close>

subsection \<open>What reads change\<close>

lemma read8_frame:
  "m68k (snd (ng68k_read8 a s)) = m68k s" "work_ram (snd (ng68k_read8 a s)) = work_ram s"
  "palette (snd (ng68k_read8 a s)) = palette s" "backup (snd (ng68k_read8 a s)) = backup s"
  "lspc (snd (ng68k_read8 a s)) = lspc s" "sound (snd (ng68k_read8 a s)) = sound s"
  "watchdog (snd (ng68k_read8 a s)) = watchdog s" "latch (snd (ng68k_read8 a s)) = latch s"
  "irq (snd (ng68k_read8 a s)) = irq s" "timing (snd (ng68k_read8 a s)) = timing s"
  by (simp_all add: ng68k_read8_def read_status_a_def ng_neogeo_log_read_miss_def Let_def)

lemma read16_frame:
  "m68k (snd (ng68k_read16 a s)) = m68k s" "work_ram (snd (ng68k_read16 a s)) = work_ram s"
  "palette (snd (ng68k_read16 a s)) = palette s" "backup (snd (ng68k_read16 a s)) = backup s"
  "lspc (snd (ng68k_read16 a s)) = lspc s" "sound (snd (ng68k_read16 a s)) = sound s"
  "watchdog (snd (ng68k_read16 a s)) = watchdog s" "latch (snd (ng68k_read16 a s)) = latch s"
  "irq (snd (ng68k_read16 a s)) = irq s" "timing (snd (ng68k_read16 a s)) = timing s"
  by (simp_all add: ng68k_read16_def case_prod_unfold read8_frame)

lemma read32_frame:
  "m68k (snd (ng68k_read32 a s)) = m68k s" "work_ram (snd (ng68k_read32 a s)) = work_ram s"
  "palette (snd (ng68k_read32 a s)) = palette s" "backup (snd (ng68k_read32 a s)) = backup s"
  "lspc (snd (ng68k_read32 a s)) = lspc s" "sound (snd (ng68k_read32 a s)) = sound s"
  "watchdog (snd (ng68k_read32 a s)) = watchdog s" "latch (snd (ng68k_read32 a s)) = latch s"
  "irq (snd (ng68k_read32 a s)) = irq s" "timing (snd (ng68k_read32 a s)) = timing s"
  by (simp_all add: ng68k_read32_def case_prod_unfold read16_frame)

lemmas read_frames = read8_frame read16_frame read32_frame

subsection \<open>The invariant\<close>

definition runtime_ok :: "bool \<Rightarrow> runtime \<Rightarrow> bool" where
  "runtime_ok driven s \<longleftrightarrow>
     palette_ok (palette s) \<and> sound_queue_ok (sound s) \<and> irq_ok driven (irq s) \<and> raster_ok (timing s)"

lemma runtime_ok_cong:
  "palette t = palette s \<Longrightarrow> sound t = sound s \<Longrightarrow> irq t = irq s \<Longrightarrow> timing t = timing s \<Longrightarrow>
   runtime_ok driven t = runtime_ok driven s"
  by (simp add: runtime_ok_def)

lemma read_ok:
  "runtime_ok driven (snd (ng68k_read8 a s)) = runtime_ok driven s"
  "runtime_ok driven (snd (ng68k_read16 a s)) = runtime_ok driven s"
  "runtime_ok driven (snd (ng68k_read32 a s)) = runtime_ok driven s"
  by (simp_all add: runtime_ok_def read_frames)

lemma sound_fields_irrelevant [simp]:
  "sound_queue_ok (q\<lparr>sound_command := c\<rparr>) = sound_queue_ok q"
  "sound_queue_ok (q\<lparr>last_sound_pc := a\<rparr>) = sound_queue_ok q"
  "sound_queue_ok (q\<lparr>last_sound_addr := a\<rparr>) = sound_queue_ok q"
  "sound_queue_ok (q\<lparr>sound_reply := c\<rparr>) = sound_queue_ok q"
  by (simp_all add: sound_queue_ok_def)

lemma palette_bank_ok [simp]:
  "palette_ok p \<Longrightarrow> palette_ok (p\<lparr>palette_bank := 0\<rparr>)"
  "palette_ok p \<Longrightarrow> palette_ok (p\<lparr>palette_bank := 1\<rparr>)"
  by (auto simp: palette_ok_def)

lemma write_lspc_ok: "runtime_ok driven s \<Longrightarrow> runtime_ok driven (ng_neogeo_write_lspc_word a v s)"
  by (simp add: runtime_ok_def ng_neogeo_write_lspc_word_def Let_def)

lemma write_latch_ok: "runtime_ok driven s \<Longrightarrow> runtime_ok driven (write_system_latch a v s)"
  by (simp add: runtime_ok_def write_system_latch_def write_bios_vectors_def Let_def)

lemma write8_ok: "runtime_ok driven s \<Longrightarrow> runtime_ok driven (ng68k_write8 a v s)"
  unfolding ng68k_write8_def Let_def
  by (auto simp: write_lspc_ok write_latch_ok)
    (auto simp: runtime_ok_def palette_store_ok queue_sound_command_ok ng_neogeo_note_watchdog_kick_def Let_def)

lemma write16_ok: "runtime_ok driven s \<Longrightarrow> runtime_ok driven (ng68k_write16 a v s)"
  unfolding ng68k_write16_def Let_def
  by (auto simp: write_lspc_ok write8_ok) (auto simp: runtime_ok_def palette_store_ok)

lemma write32_ok: "runtime_ok driven s \<Longrightarrow> runtime_ok driven (ng68k_write32 a v s)"
  by (simp add: ng68k_write32_def write16_ok)

lemma advance_timer_ok: "runtime_ok driven s \<Longrightarrow> runtime_ok driven (ng_neogeo_advance_timer t s)"
  by (simp add: runtime_ok_def advance_timer_irq_ok)

lemma begin_vblank_ok: "runtime_ok driven s \<Longrightarrow> runtime_ok driven (ng_neogeo_begin_vblank s)"
  by (simp add: runtime_ok_def ng_neogeo_begin_vblank_def raster_ok_def Let_def)

lemma advance_scanline_ok: "runtime_ok driven s \<Longrightarrow> runtime_ok driven (ng_neogeo_advance_scanline s)"
  using advance_scanline_timing(1) [of s] advance_scanline_irq_ok [of driven s]
  by (simp add: runtime_ok_def raster_ok_def word_less_nat_alt)

lemma update_watchdog_ok: "runtime_ok driven (ng_neogeo_update_watchdog_timeout s) = runtime_ok driven s"
  by (simp add: runtime_ok_def)

lemma cycles_loop_ok: "runtime_ok driven s \<Longrightarrow> runtime_ok driven (cycles_loop n s)"
proof (induction "unat n" arbitrary: n s rule: less_induct)
  case less
  have r: "raster_ok (timing s)" using less.prems by (simp add: runtime_ok_def)
  note step = cycles_loop_cases [OF r, of n] and d = line_rest [OF r]
  have c: "unat (scanline_cycle (timing s)) < 768" using r by (simp add: raster_ok_def word_less_nat_alt)
  show ?case
  proof (cases "n < line_rest (timing s)")
    case True
    then have "unat (scanline_cycle (timing s)) + unat n < 768" using d c by (simp add: word_less_nat_alt)
    then have "scanline_cycle (timing s) + n < 768" by (simp add: word_less_nat_alt unat_word_ariths)
    with True less.prems show ?thesis
      by (simp add: step update_watchdog_ok) (simp add: runtime_ok_def raster_ok_def)
  next
    case False
    have "unat (n - line_rest (timing s)) < unat n"
      using False d c by (simp add: unat_sub word_le_nat_alt word_less_nat_alt)
    moreover have "runtime_ok driven (finish_line s)"
      using less.prems unfolding finish_line_def update_watchdog_ok
      by (intro advance_scanline_ok) (simp add: runtime_ok_def raster_ok_def)
    ultimately show ?thesis using less.hyps False by (simp add: step)
  qed
qed

lemma runtime_ok_cong_active:
  "runtime_ok driven (timing_update (\<lambda>t. t\<lparr>cycle_timing_active := x\<rparr>) s) = runtime_ok driven s"
  by (simp add: runtime_ok_def raster_ok_def)

lemma advance_cycles_ok: "runtime_ok driven s \<Longrightarrow> runtime_ok driven (ng_neogeo_advance_cpu_cycles n s)"
  by (cases "n = 0") (simp_all add: ng_neogeo_advance_cpu_cycles_def cycles_loop_ok runtime_ok_cong_active)

lemma cleared_irq_ok [simp]: "irq_ok driven (ng_m68k_clear_interrupt_level (i\<lparr>irq_pending := 0\<rparr>))"
  by (simp add: irq_ok_def irq_priority_def ng_m68k_clear_interrupt_level_def)

lemma take_reset_ok: "runtime_ok driven s \<Longrightarrow> runtime_ok driven (snd (ng_m68k_take_reset s))"
  by (simp add: runtime_ok_def ng_m68k_take_reset_def case_prod_unfold read_frames Let_def)

lemma poll_clocks_ok: "runtime_ok driven s \<Longrightarrow> runtime_ok driven (poll_clocks s)"
proof -
  assume s: "runtime_ok driven s"
  let ?s1 = "timing_update (\<lambda>t. t\<lparr>interrupt_polls := interrupt_polls t + 1\<rparr>) s"
  have "runtime_ok driven ?s1" using s by (simp add: runtime_ok_def raster_ok_def)
  then have "runtime_ok driven (ng_neogeo_advance_scanline ?s1)" by (rule advance_scanline_ok)
  with \<open>runtime_ok driven ?s1\<close> show ?thesis
    unfolding poll_clocks_def Let_def update_watchdog_ok by (auto simp: runtime_ok_def)
qed

lemma delivered_irq_ok:
  assumes "irq_ok driven i"
  shows "irq_ok driven (interrupt_delivered s l i)" "irq_ok driven (interrupt_delivered s l (i\<lparr>level7_edge := 0\<rparr>))"
  using assms by (simp_all add: irq_ok_def interrupt_delivered_def)

lemma take_interrupt_ok: "runtime_ok driven s \<Longrightarrow> runtime_ok driven (snd (ng_m68k_take_interrupt m s))"
  using poll_clocks_ok [of driven s]
  by (simp add: ng_m68k_take_interrupt_def Let_def runtime_ok_def delivered_irq_ok)

lemma zero_cells [simp]: "count_nonzero n (\<lambda>_. 0) = 0" "sum_cells n (\<lambda>_. 0) = 0"
  by (induction n) simp_all

lemma device_zero_ok [simp]: "palette_ok palette_zero" "irq_ok driven irq_zero" "raster_ok timing_zero"
  "sound_queue_ok sound_init"
  by (simp_all add: palette_ok_def palette_zero_def irq_ok_def irq_zero_def irq_priority_def
      raster_ok_def timing_zero_def sound_queue_ok_def sound_init_def)

lemma reset_runtime_ok: "runtime_ok driven s \<Longrightarrow> runtime_ok driven (ng_neogeo_reset_runtime s)"
  by (simp add: runtime_ok_def ng_neogeo_reset_runtime_def)
    (simp add: sound_queue_ok_def sound_init_def raster_ok_def timing_zero_def)

lemma and_mask_7: "l \<le> 7 \<Longrightarrow> l AND 7 = (l :: u8)"
proof -
  assume "l \<le> 7"
  then have "unat l < 2 ^ 3" by (simp add: word_le_nat_alt)
  then have "take_bit 3 (unat l) = unat l" by (rule take_bit_nat_eq_self)
  then have "take_bit 3 l = l" by (simp add: word_unat_eq_iff unsigned_take_bit_eq)
  then show ?thesis by (simp add: take_bit_eq_mask mask_eq_exp_minus_1)
qed

subsection \<open>Operations\<close>

text \<open>
  The operations that change the state of the runtime, but for restoring a save state, which replaces it by what the
  caller supplies. \<open>OpSetLevel\<close> and \<open>OpClearLevel\<close> drive the interrupt pins of the CPU, and \<open>OpCpu\<close> stands for the
  generated code, which writes the registers in \<open>g_ng_m68k\<close>.
\<close>

datatype runtime_op =
    OpRead8 u32 | OpRead16 u32 | OpRead32 u32
  | OpWrite8 u32 u8 | OpWrite16 u32 u16 | OpWrite32 u32 u32
  | OpRequestVblank | OpRequestTimer | OpRequestReset | OpAck u16
  | OpBeginVblank | OpAdvanceTimer u32 | OpAdvanceScanline | OpAdvanceFrame | OpAdvanceCycles u32
  | OpTakeReset | OpTakeInterrupt u8
  | OpPopSound | OpSoundReply u8
  | OpReset
  | OpSetProgramRom "u8 list option" u32 | OpSetSystemRom "u8 list option" u32
  | OpP1 u8 | OpP2 u8 | OpStatusA u8 | OpStatusB u8 | OpDip u8
  | OpAutoVblank u32 | OpAutoScanline u32
  | OpWatchdogPolls u32 | OpWatchdogCycles u32 | OpWatchdogVector u32 u32
  | OpSeedBackup | OpSeedWork
  | OpSetLevel u8 u8 | OpClearLevel | OpCpu ng_m68k_state

fun runtime_step :: "runtime_op \<Rightarrow> runtime \<Rightarrow> runtime" where
  "runtime_step (OpRead8 a) s = snd (ng68k_read8 a s)"
| "runtime_step (OpRead16 a) s = snd (ng68k_read16 a s)"
| "runtime_step (OpRead32 a) s = snd (ng68k_read32 a s)"
| "runtime_step (OpWrite8 a v) s = ng68k_write8 a v s"
| "runtime_step (OpWrite16 a v') s = ng68k_write16 a v' s"
| "runtime_step (OpWrite32 a v'') s = ng68k_write32 a v'' s"
| "runtime_step OpRequestVblank s = irq_update ng_neogeo_request_vblank_interrupt s"
| "runtime_step OpRequestTimer s = irq_update ng_neogeo_request_timer_interrupt s"
| "runtime_step OpRequestReset s = irq_update ng_neogeo_request_reset_interrupt s"
| "runtime_step (OpAck m) s = irq_update (ng_neogeo_ack_interrupts m) s"
| "runtime_step OpBeginVblank s = ng_neogeo_begin_vblank s"
| "runtime_step (OpAdvanceTimer n) s = ng_neogeo_advance_timer n s"
| "runtime_step OpAdvanceScanline s = ng_neogeo_advance_scanline s"
| "runtime_step OpAdvanceFrame s = ng_neogeo_advance_frame s"
| "runtime_step (OpAdvanceCycles n) s = ng_neogeo_advance_cpu_cycles n s"
| "runtime_step OpTakeReset s = snd (ng_m68k_take_reset s)"
| "runtime_step (OpTakeInterrupt v) s = snd (ng_m68k_take_interrupt v s)"
| "runtime_step OpPopSound s =
     (case ng_neogeo_pop_sound_command_event (sound s) of None \<Rightarrow> s | Some (_, q) \<Rightarrow> s\<lparr>sound := q\<rparr>)"
| "runtime_step (OpSoundReply v) s = ng_neogeo_set_sound_reply v s"
| "runtime_step OpReset s = ng_neogeo_reset_runtime s"
| "runtime_step (OpSetProgramRom d n) s = ng_neogeo_set_program_rom d n s"
| "runtime_step (OpSetSystemRom d n) s = ng_neogeo_set_system_rom d n s"
| "runtime_step (OpP1 v) s = ng_neogeo_set_p1_input v s"
| "runtime_step (OpP2 v) s = ng_neogeo_set_p2_input v s"
| "runtime_step (OpStatusA v) s = ng_neogeo_set_status_a_input v s"
| "runtime_step (OpStatusB v) s = ng_neogeo_set_status_b_input v s"
| "runtime_step (OpDip v) s = ng_neogeo_set_dipswitch_input v s"
| "runtime_step (OpAutoVblank n) s = ng_neogeo_set_auto_vblank_interval n s"
| "runtime_step (OpAutoScanline n) s = ng_neogeo_set_auto_scanline_interval n s"
| "runtime_step (OpWatchdogPolls n) s = ng_neogeo_set_watchdog_timeout_polls n s"
| "runtime_step (OpWatchdogCycles n) s = ng_neogeo_set_watchdog_timeout_cycles n s"
| "runtime_step (OpWatchdogVector n k) s = ng_neogeo_set_watchdog_reset_vector n k s"
| "runtime_step OpSeedBackup s = ng_neogeo_seed_mslug_backup_ram s"
| "runtime_step OpSeedWork s = ng_neogeo_seed_mslug_cart_work_ram s"
| "runtime_step (OpSetLevel v k) s = irq_update (ng_m68k_set_interrupt_level v k) s"
| "runtime_step OpClearLevel s = irq_update ng_m68k_clear_interrupt_level s"
| "runtime_step (OpCpu c) s = s\<lparr>m68k := c\<rparr>"

fun drives_level :: "runtime_op \<Rightarrow> bool" where
  "drives_level (OpSetLevel v k) \<longleftrightarrow> True"
| "drives_level OpClearLevel \<longleftrightarrow> True"
| "drives_level _ \<longleftrightarrow> False"

lemmas config_defs = ng_neogeo_set_sound_reply_def ng_neogeo_set_program_rom_def
  ng_neogeo_set_system_rom_def ng_neogeo_set_p1_input_def ng_neogeo_set_p2_input_def
  ng_neogeo_set_status_a_input_def ng_neogeo_set_status_b_input_def ng_neogeo_set_dipswitch_input_def
  ng_neogeo_set_auto_vblank_interval_def ng_neogeo_set_auto_scanline_interval_def
  ng_neogeo_set_watchdog_timeout_polls_def ng_neogeo_set_watchdog_timeout_cycles_def
  ng_neogeo_set_watchdog_reset_vector_def ng_neogeo_seed_mslug_backup_ram_def
  ng_neogeo_seed_mslug_cart_work_ram_def

lemma config_ok:
  assumes "runtime_ok driven s"
  shows "runtime_ok driven (ng_neogeo_set_sound_reply v s)" "runtime_ok driven (ng_neogeo_set_program_rom d n s)"
    "runtime_ok driven (ng_neogeo_set_system_rom d n s)" "runtime_ok driven (ng_neogeo_set_p1_input v s)"
    "runtime_ok driven (ng_neogeo_set_p2_input v s)" "runtime_ok driven (ng_neogeo_set_status_a_input v s)"
    "runtime_ok driven (ng_neogeo_set_status_b_input v s)" "runtime_ok driven (ng_neogeo_set_dipswitch_input v s)"
    "runtime_ok driven (ng_neogeo_set_auto_vblank_interval n s)"
    "runtime_ok driven (ng_neogeo_set_auto_scanline_interval n s)"
    "runtime_ok driven (ng_neogeo_set_watchdog_timeout_polls n s)"
    "runtime_ok driven (ng_neogeo_set_watchdog_timeout_cycles n s)"
    "runtime_ok driven (ng_neogeo_set_watchdog_reset_vector n k s)"
    "runtime_ok driven (ng_neogeo_seed_mslug_backup_ram s)" "runtime_ok driven (ng_neogeo_seed_mslug_cart_work_ram s)"
  using assms by (simp_all add: config_defs runtime_ok_def raster_ok_def)

lemma pop_sound_step_ok:
  "runtime_ok driven s \<Longrightarrow> runtime_ok driven (runtime_step OpPopSound s)"
  by (auto simp: runtime_ok_def dest: pop_sound_ok(1) split: option.splits)

lemma irq_step_ok: "runtime_ok driven s \<Longrightarrow> (\<And>i. irq_ok driven (f i)) \<Longrightarrow> runtime_ok driven (irq_update f s)"
  by (simp add: runtime_ok_def)

lemma advance_frame_ok: "runtime_ok driven s \<Longrightarrow> runtime_ok driven (ng_neogeo_advance_frame s)"
  by (simp add: ng_neogeo_advance_frame_def advance_timer_ok begin_vblank_ok)

lemma driven_step_ok:
  assumes "runtime_ok True s"
  shows "runtime_ok True (irq_update (ng_m68k_set_interrupt_level l v) s)"
    "runtime_ok True (irq_update ng_m68k_clear_interrupt_level s)"
  using assms by (simp_all add: runtime_ok_def driven_level_ok)

lemma cpu_step_ok: "runtime_ok driven (s\<lparr>m68k := c\<rparr>) = runtime_ok driven s"
  by (simp add: runtime_ok_def)

lemma runtime_step_ok: "runtime_ok driven s \<Longrightarrow> driven \<or> \<not> drives_level x \<Longrightarrow> runtime_ok driven (runtime_step x s)"
  by (cases x)
    (simp_all only: runtime_step.simps drives_level.simps read_ok write8_ok write16_ok write32_ok begin_vblank_ok
      advance_timer_ok advance_scanline_ok advance_frame_ok advance_cycles_ok take_reset_ok
      take_interrupt_ok reset_runtime_ok config_ok irq_step_ok irq_ops_ok driven_step_ok cpu_step_ok
      pop_sound_step_ok [unfolded runtime_step.simps] not_True_eq_False simp_thms)

interpretation runtime_steps: guarded_steps "runtime_ok True" runtime_step
  by unfold_locales (simp add: runtime_step_ok)

lemma runtime_init_ok: "runtime_ok driven runtime_init"
  by (simp add: runtime_ok_def runtime_init_def)

lemma reachable_ok: "runtime_ok True (fold runtime_step ops runtime_init)"
  by (rule runtime_steps.run_inv [OF runtime_init_ok])

lemma undriven_ok:
  "list_all (\<lambda>x. \<not> drives_level x) ops \<Longrightarrow> runtime_ok False s \<Longrightarrow> runtime_ok False (fold runtime_step ops s)"
  by (induction ops arbitrary: s) (simp_all add: runtime_step_ok del: runtime_step.simps)

end
