(* ===== verification/RuntimeProps.thy ===== *)
theory RuntimeProps
  imports RuntimeInv
begin

text \<open>
  The properties of the runtime. Those that hold in every reachable state are stated for the state
  after an arbitrary sequence of operations from the initial one, so they need no hypothesis.
\<close>

abbreviation reached :: "runtime_op list \<Rightarrow> runtime" where
  "reached ops \<equiv> fold runtime_step ops runtime_init"

subsection \<open>Properties of reachable states\<close>

text \<open>
  C20 (invariant): after any sequence of operations the palette statistics the runtime keeps
  incrementally are what a recount of palette RAM gives: the number of non-zero bytes, the 32-bit
  sum, and a recorded peak that is at least the current count.
\<close>

theorem palette_statistics_exact:
  "ng_neogeo_palette_ram_nonzero_bytes (reached ops) =
     count_nonzero 0x4000 (palette_ram (palette (reached ops))) \<and>
   ng_neogeo_palette_ram_checksum (reached ops) =
     sum_cells 0x4000 (palette_ram (palette (reached ops))) \<and>
   ng_neogeo_palette_ram_nonzero_bytes (reached ops)
     \<le> palette_peak_nonzero_bytes (palette (reached ops))"
  using reachable_ok [of ops]
  by (auto simp: runtime_ok_def palette_ok_def ng_neogeo_palette_ram_nonzero_bytes_def
      ng_neogeo_palette_ram_checksum_def)

text \<open>
  In every reachable state, every palette offset the bus computes, for a read or
  for either byte of a write, lies inside the 16 KiB array, whatever the address.
\<close>

theorem palette_accesses_in_bounds:
  "unat (ng_neogeo_palette_offset (palette (reached ops)) a) < 0x4000 \<and>
   unat (ng_neogeo_palette_offset (palette (reached ops)) a AND NOT 1) < 0x4000 \<and>
   unat ((ng_neogeo_palette_offset (palette (reached ops)) a AND NOT 1) + 1) < 0x4000"
proof -
  have "palette_bank (palette (reached ops)) \<le> 1"
    using reachable_ok [of ops] by (simp add: runtime_ok_def palette_ok_def)
  then show ?thesis by (intro conjI palette_pair_bounds)
qed

text \<open>
  C22 (functional): interrupt delivery from the devices. After any operations that do not drive the interrupt pins,
  polling with interrupt mask \<open>m\<close> first runs the automatic clocks, then delivers the level and vector of the most
  urgent pending source (reset, then timer, then vertical blank) exactly when its level exceeds the mask, and leaves
  the pending sources as they are until they are acknowledged.
\<close>

theorem take_interrupt_arbitration:
  assumes "list_all (\<lambda>x. \<not> drives_level x) ops"
  shows "fst (ng_m68k_take_interrupt m (reached ops)) =
     (case irq_priority (irq_pending (irq (poll_clocks (reached ops)))) of
        (level, vector) \<Rightarrow> if m AND 7 < level then Some (level, vector) else None) \<and>
   irq_pending (irq (snd (ng_m68k_take_interrupt m (reached ops)))) =
     irq_pending (irq (poll_clocks (reached ops)))"
proof -
  let ?s = "poll_clocks (reached ops)"
  have "irq_ok False (irq ?s)"
    using poll_clocks_ok [OF undriven_ok [OF assms runtime_init_ok]] by (simp add: runtime_ok_def)
  then have lv: "(interrupt_level (irq ?s), interrupt_vector (irq ?s)) = irq_priority (irq_pending (irq ?s))"
    and edge: "level7_edge (irq ?s) = 0" by (simp_all add: irq_ok_def)
  have small: "interrupt_level (irq ?s) AND 7 = interrupt_level (irq ?s)"
    using lv by (auto simp: irq_priority_def split: if_splits)
  show ?thesis
    by (auto simp: ng_m68k_take_interrupt_def Let_def small edge lv [symmetric] interrupt_delivered_def not_le)
qed

theorem take_interrupt_arbitration_witness:
  "fst (ng_m68k_take_interrupt 1 (reached [OpRequestVblank, OpRequestTimer])) = Some (2, 26)"
proof -
  have "irq_pending (irq (poll_clocks (reached [OpRequestVblank, OpRequestTimer]))) =
      NG_NEO_IRQACK_VBLANK OR NG_NEO_IRQACK_TIMER"
    by (simp add: poll_clocks_def Let_def runtime_init_def timing_zero_def irq_zero_def
        ng_neogeo_request_vblank_interrupt_def ng_neogeo_request_timer_interrupt_def)
  then show ?thesis
    using take_interrupt_arbitration [of "[OpRequestVblank, OpRequestTimer]" 1]
    by (simp add: irq_priority_def NG_NEO_IRQACK_VBLANK_def NG_NEO_IRQACK_TIMER_def NG_NEO_IRQACK_RESET_def)
qed

text \<open>A poll with the automatic clocks off: what is delivered, and what happens to the pins.\<close>

definition clocks_off :: "runtime \<Rightarrow> bool" where
  "clocks_off s \<longleftrightarrow> auto_scanline_interval (timing s) = 0 \<and> auto_vblank_interval (timing s) = 0"

lemma poll_clocks_off: "clocks_off s \<Longrightarrow> irq (poll_clocks s) = irq s \<and> clocks_off (poll_clocks s)"
  by (simp add: clocks_off_def poll_clocks_def Let_def)

lemma take_interrupt_pins:
  assumes "clocks_off s" "interrupt_level (irq s) = l" "l \<le> 7" "level7_edge (irq s) \<noteq> 0 \<longrightarrow> l = 7"
  shows "fst (ng_m68k_take_interrupt m s) =
      (if level7_edge (irq s) \<noteq> 0 \<or> m AND 7 < l then Some (l, interrupt_vector (irq s)) else None)"
    and "interrupt_level (irq (snd (ng_m68k_take_interrupt m s))) = l"
    and "interrupt_vector (irq (snd (ng_m68k_take_interrupt m s))) = interrupt_vector (irq s)"
    and "level7_edge (irq (snd (ng_m68k_take_interrupt m s))) = 0"
    and "clocks_off (snd (ng_m68k_take_interrupt m s))"
proof -
  have l: "l AND 7 = l" using assms(3) by (rule and_mask_7)
  note p = poll_clocks_off [OF assms(1)]
  show "fst (ng_m68k_take_interrupt m s) =
      (if level7_edge (irq s) \<noteq> 0 \<or> m AND 7 < l then Some (l, interrupt_vector (irq s)) else None)"
    using assms p l by (auto simp: ng_m68k_take_interrupt_def Let_def not_le)
  show "interrupt_level (irq (snd (ng_m68k_take_interrupt m s))) = l"
    "interrupt_vector (irq (snd (ng_m68k_take_interrupt m s))) = interrupt_vector (irq s)"
    "clocks_off (snd (ng_m68k_take_interrupt m s))"
    using assms(2) p by (simp_all add: ng_m68k_take_interrupt_def interrupt_delivered_def Let_def clocks_off_def)
  show "level7_edge (irq (snd (ng_m68k_take_interrupt m s))) = 0"
    using assms p l by (auto simp: ng_m68k_take_interrupt_def interrupt_delivered_def Let_def)
qed

text \<open>
  C23 (functional): interrupt pins. Let the state be reached by any operations, the level be below 7 and the automatic
  clocks be off, and let a caller drive level \<open>l\<close> with a vector. The next poll delivers them when the level exceeds
  the mask, and level 7 whatever the mask; from then on level 7 counts as any other level, so the edge is delivered
  once, and the level is delivered again as long as it is above the mask.
\<close>

theorem driven_level_delivery:
  assumes "interrupt_level (irq (reached ops)) < 7" and "clocks_off (reached ops)"
  shows "fst (ng_m68k_take_interrupt m (reached (ops @ [OpSetLevel l v]))) =
      (if l AND 7 = 7 \<or> m AND 7 < l AND 7 then Some (l AND 7, v) else None) \<and>
    fst (ng_m68k_take_interrupt m' (reached (ops @ [OpSetLevel l v, OpTakeInterrupt m]))) =
      (if m' AND 7 < l AND 7 then Some (l AND 7, v) else None)"
proof -
  let ?s = "reached (ops @ [OpSetLevel l v])"
  have l: "l AND 7 \<le> 7" by (rule word_and_le1)
  have pins: "interrupt_level (irq ?s) = l AND 7" "interrupt_vector (irq ?s) = v"
    "level7_edge (irq ?s) \<noteq> 0 \<longleftrightarrow> l AND 7 = 7"
    using assms(1) l by (auto simp: ng_m68k_set_interrupt_level_def Let_def)
  have "clocks_off ?s" using assms(2) by (simp add: clocks_off_def)
  note first = take_interrupt_pins [OF this pins(1) l] 
  have edge: "level7_edge (irq ?s) \<noteq> 0 \<longrightarrow> l AND 7 = 7" using pins(3) by simp
  note first = first [OF edge]
  have "fst (ng_m68k_take_interrupt m' (snd (ng_m68k_take_interrupt m ?s))) =
      (if m' AND 7 < l AND 7 then Some (l AND 7, v) else None)"
    using take_interrupt_pins(1) [OF first(5) first(2) l] first(3,4) pins(2) by simp
  moreover have "fst (ng_m68k_take_interrupt m ?s) = (if l AND 7 = 7 \<or> m AND 7 < l AND 7 then Some (l AND 7, v) else None)"
    unfolding first(1) pins(2,3) ..
  ultimately show ?thesis by simp
qed

theorem driven_level_delivery_witness:
  "fst (ng_m68k_take_interrupt 7 (reached [OpSetLevel 7 31])) = Some (7, 31) \<and>
   fst (ng_m68k_take_interrupt 7 (reached [OpSetLevel 7 31, OpTakeInterrupt 7])) = None"
  using driven_level_delivery [of "[]" 7 7 31 7]
  by (simp add: clocks_off_def runtime_init_def irq_zero_def timing_zero_def)

text \<open>
  C24 (functional): the clock. From every reachable state, advancing by \<open>n\<close> CPU cycles moves the
  cycle counter by \<open>n\<close>, and scanline cycle, scanline and frame counter to the positions given by
  dividing the elapsed cycles by 768 cycles per line and 264 lines per frame.
\<close>

theorem advance_cpu_cycles_raster:
  "cpu_cycles (timing (ng_neogeo_advance_cpu_cycles n (reached ops))) =
     cpu_cycles (timing (reached ops)) + ucast n \<and>
   unat (scanline_cycle (timing (ng_neogeo_advance_cpu_cycles n (reached ops)))) =
     elapsed_cycles (timing (reached ops)) n mod 768 \<and>
   unat (current_scanline (timing (ng_neogeo_advance_cpu_cycles n (reached ops)))) =
     elapsed_lines (timing (reached ops)) n mod 264 \<and>
   frame_count (timing (ng_neogeo_advance_cpu_cycles n (reached ops))) =
     frame_count (timing (reached ops)) + of_nat (elapsed_lines (timing (reached ops)) n div 264)"
proof -
  have r: "raster_ok (timing (reached ops))" using reachable_ok [of ops] by (simp add: runtime_ok_def)
  show ?thesis
  proof (cases "n = 0")
    case True
    with r show ?thesis
      by (simp add: ng_neogeo_advance_cpu_cycles_def elapsed_cycles_def elapsed_lines_def raster_ok_def
          word_less_nat_alt)
  next
    case False
    let ?s = "timing_update (\<lambda>t. t\<lparr>cycle_timing_active := 1\<rparr>) (reached ops)"
    have "raster_ok (timing ?s)" using r by (simp add: raster_ok_def)
    from cycles_loop_timing [OF this, of n] False show ?thesis
      by (simp add: ng_neogeo_advance_cpu_cycles_def elapsed_cycles_def elapsed_lines_def)
  qed
qed

text \<open>
  C21 (refinement): the sound-command ring is a queue that keeps the last 512 commands. From
  every reachable state, after queueing the events \<open>es\<close> the buffered events are the last 512 of the
  old ones followed by \<open>es\<close>, and the next pop returns the oldest of them and leaves the rest.
\<close>

theorem sound_queue_keeps_last_512:
  "sound_events (fold ng_neogeo_queue_sound_command es (sound (reached ops))) =
     drop (length (sound_events (sound (reached ops)) @ es) - 512) (sound_events (sound (reached ops)) @ es) \<and>
   (case ng_neogeo_pop_sound_command_event (fold ng_neogeo_queue_sound_command es (sound (reached ops))) of
      None \<Rightarrow> sound_events (fold ng_neogeo_queue_sound_command es (sound (reached ops))) = []
    | Some (e, q) \<Rightarrow>
        sound_events (fold ng_neogeo_queue_sound_command es (sound (reached ops))) = e # sound_events q)"
proof -
  let ?q = "fold ng_neogeo_queue_sound_command es (sound (reached ops))"
  have ok: "sound_queue_ok (sound (reached ops))" using reachable_ok [of ops] by (simp add: runtime_ok_def)
  then have "sound_queue_ok ?q" by (rule sound_fifo.pushes_inv)
  then show ?thesis
    using sound_fifo.pushes_keep_last [OF ok, of es] sound_fifo.pop_empty sound_fifo.pop_abs
    by (auto split: option.splits)
qed

subsection \<open>Timer and watchdog\<close>

text \<open>
  The raster timer is independent of how time is sliced: advancing by \<open>a\<close> and
  then by \<open>b\<close> pixel ticks is advancing by \<open>a + b\<close>, interrupts and reloads included.
\<close>

theorem advance_timer_additive:
  assumes "unat a + unat b < 2 ^ 32"
  shows "ng_neogeo_advance_timer (a + b) s = ng_neogeo_advance_timer b (ng_neogeo_advance_timer a s)"
  by (simp add: ng_neogeo_advance_timer_def timer_loop_split [OF assms] split: prod.splits)

theorem advance_timer_additive_witness:
  "ng_neogeo_advance_timer (3 + 5) runtime_init =
   ng_neogeo_advance_timer 5 (ng_neogeo_advance_timer 3 runtime_init)"
  by (rule advance_timer_additive) simp

text \<open>
  C25 (functional): with the timer enabled, its counter loaded and reload on zero, \<open>t\<close> pixel ticks raise exactly one
  timer interrupt when the counter first passes zero and one more every \<open>reload + 1\<close> ticks.
\<close>

theorem timer_interrupt_period:
  assumes "timer_counter_loaded (lspc s) \<noteq> 0"
    and "lspc_mode (lspc s) AND NG_NEO_LSPCMODE_TIMER_ENABLE \<noteq> 0"
    and "lspc_mode (lspc s) AND NG_NEO_LSPCMODE_TIMER_RELOAD_ON_ZERO \<noteq> 0"
  shows "timer_interrupts (irq (ng_neogeo_advance_timer t s)) =
     timer_interrupts (irq s) +
     of_nat (timer_fires (unat t) (unat (timer_counter_value (lspc s))) (unat (timer_reload_value (lspc s))))"
  using timer_loop_periodic [OF assms, of t "irq s"]
  by (auto simp: ng_neogeo_advance_timer_def split: prod.splits)

definition sample_timer :: runtime where
  "sample_timer = runtime_init\<lparr>lspc := lspc_zero\<lparr>lspc_mode := 0x90, timer_counter_loaded := 1,
     timer_counter_value := 4, timer_reload_value := 9\<rparr>\<rparr>"

theorem timer_interrupt_period_witness:
  "timer_interrupts (irq (ng_neogeo_advance_timer 25 sample_timer)) = 3"
proof -
  have "timer_interrupts (irq (ng_neogeo_advance_timer 25 sample_timer)) =
      timer_interrupts (irq sample_timer) + of_nat (timer_fires (unat (25 :: u32))
        (unat (timer_counter_value (lspc sample_timer))) (unat (timer_reload_value (lspc sample_timer))))"
    by (rule timer_interrupt_period) (simp_all add: sample_timer_def timer_bits)
  then show ?thesis
    by (simp add: sample_timer_def timer_fires_def runtime_init_def irq_zero_def)
qed

text \<open>
  While cycle timing is active, the reset request tells whether the cycles since the last kick
  have reached the timeout.
\<close>

definition kick_gap :: "runtime \<Rightarrow> u64" where
  "kick_gap s = cpu_cycles (timing s) - last_kick_cycle (watchdog s)"

definition watchdog_exact :: "runtime \<Rightarrow> bool" where
  "watchdog_exact s \<longleftrightarrow>
     cycle_timing_active (timing s) \<noteq> 0 \<and> timeout_cycles (watchdog s) \<noteq> 0 \<and>
     reset_pending (watchdog s) = (if kick_gap s < ucast (timeout_cycles (watchdog s)) then 0 else 1)"

lemma update_watchdog_fields:
  "last_kick_cycle (watchdog (ng_neogeo_update_watchdog_timeout s)) = last_kick_cycle (watchdog s)"
  "timeout_cycles (watchdog (ng_neogeo_update_watchdog_timeout s)) = timeout_cycles (watchdog s)"
  by (simp_all add: ng_neogeo_update_watchdog_timeout_def watchdog_fire_def Let_def)

lemma update_watchdog_exact:
  assumes "watchdog_exact s" and "watchdog t = watchdog s"
    and "cycle_timing_active (timing t) = cycle_timing_active (timing s)"
    and "kick_gap s \<le> kick_gap t"
  shows "watchdog_exact (ng_neogeo_update_watchdog_timeout t)"
proof -
  let ?T = "ucast (timeout_cycles (watchdog s)) :: u64"
  have gap: "kick_gap (ng_neogeo_update_watchdog_timeout t) = kick_gap t"
    by (simp add: kick_gap_def update_watchdog_fields)
  have "reset_pending (watchdog (ng_neogeo_update_watchdog_timeout t)) =
      (if reset_pending (watchdog s) \<noteq> 0 then reset_pending (watchdog s)
       else if kick_gap t < ?T then 0 else 1)"
    using assms by (simp add: ng_neogeo_update_watchdog_timeout_def watchdog_fire_def watchdog_exact_def
        kick_gap_def Let_def)
  moreover have "\<not> kick_gap t < ?T" if "\<not> kick_gap s < ?T" using that assms(4) by simp
  ultimately show ?thesis
    using assms(1-3) by (auto simp: watchdog_exact_def gap update_watchdog_fields)
qed

lemma advance_scanline_watchdog [simp]: "watchdog (ng_neogeo_advance_scanline s) = watchdog s"
  by (simp add: ng_neogeo_advance_scanline_def ng_neogeo_begin_vblank_def Let_def)

lemma unat_ucast_64 [simp]: "unat (ucast (n :: u32) :: u64) = unat n"
  by (simp add: unat_ucast_up)

lemma kick_gap_add:
  assumes "watchdog t = watchdog s" and "cpu_cycles (timing t) = cpu_cycles (timing s) + ucast (d :: u32)"
    and "unat (kick_gap s) + unat d < 2 ^ 64"
  shows "unat (kick_gap t) = unat (kick_gap s) + unat d"
proof -
  have "kick_gap t = kick_gap s + ucast d" using assms(1,2) by (simp add: kick_gap_def)
  then show ?thesis using assms(3) by (simp add: unat_word_ariths)
qed

lemma finish_line_watchdog:
  assumes "raster_ok (timing s)" and "watchdog_exact s"
    and "unat (kick_gap s) + unat (line_rest (timing s)) < 2 ^ 64"
  shows "watchdog_exact (finish_line s)"
    and "unat (kick_gap (finish_line s)) = unat (kick_gap s) + unat (line_rest (timing s))"
    and "last_kick_cycle (watchdog (finish_line s)) = last_kick_cycle (watchdog s)"
    and "timeout_cycles (watchdog (finish_line s)) = timeout_cycles (watchdog s)"
proof -
  let ?t = "ng_neogeo_advance_scanline (timing_update (\<lambda>t. t\<lparr>cpu_cycles := cpu_cycles t +
      ucast (line_rest (timing s)), scanline_cycle := 0\<rparr>) s)"
  have f: "finish_line s = ng_neogeo_update_watchdog_timeout ?t" by (simp add: finish_line_def)
  have "current_scanline (timing s) < 264" using assms(1) by (simp add: raster_ok_def)
  then have t: "cpu_cycles (timing ?t) = cpu_cycles (timing s) + ucast (line_rest (timing s))"
    "cycle_timing_active (timing ?t) = cycle_timing_active (timing s)" "watchdog ?t = watchdog s"
    using advance_scanline_timing(3,5) [of "timing_update (\<lambda>t. t\<lparr>cpu_cycles := cpu_cycles t +
      ucast (line_rest (timing s)), scanline_cycle := 0\<rparr>) s"] by simp_all
  have g: "unat (kick_gap ?t) = unat (kick_gap s) + unat (line_rest (timing s))"
    using t(3,1) assms(3) by (rule kick_gap_add)
  show "watchdog_exact (finish_line s)"
    unfolding f using assms(2) t(3,2) by (rule update_watchdog_exact) (simp add: word_le_nat_alt g)
  show "unat (kick_gap (finish_line s)) = unat (kick_gap s) + unat (line_rest (timing s))"
    unfolding f using g by (simp add: kick_gap_def update_watchdog_fields)
qed (simp_all add: finish_line_def update_watchdog_fields)

lemma cycles_loop_watchdog:
  assumes "raster_ok (timing s)" and "watchdog_exact s" and "unat (kick_gap s) + unat n < 2 ^ 64"
  shows "watchdog_exact (cycles_loop n s) \<and>
    timeout_cycles (watchdog (cycles_loop n s)) = timeout_cycles (watchdog s) \<and>
    last_kick_cycle (watchdog (cycles_loop n s)) = last_kick_cycle (watchdog s)"
  using assms
proof (induction "unat n" arbitrary: n s rule: less_induct)
  case less
  note step = cycles_loop_cases [OF less.prems(1), of n]
  show ?case
  proof (cases "n < line_rest (timing s)")
    case True
    let ?t = "timing_update (\<lambda>t. t\<lparr>scanline_cycle := scanline_cycle t + n, cpu_cycles := cpu_cycles t + ucast n\<rparr>) s"
    have "unat (kick_gap ?t) = unat (kick_gap s) + unat n"
      by (rule kick_gap_add) (use less.prems in simp_all)
    then have "watchdog_exact (ng_neogeo_update_watchdog_timeout ?t)"
      by (intro update_watchdog_exact [OF less.prems(2)]) (simp_all add: word_le_nat_alt)
    with True less.prems show ?thesis by (simp add: step update_watchdog_fields)
  next
    case False
    then have le: "unat (line_rest (timing s)) \<le> unat n" by (simp add: word_less_nat_alt)
    have pos: "0 < unat (line_rest (timing s))"
      using line_rest [OF less.prems(1)] less.prems(1) by (simp add: raster_ok_def word_less_nat_alt)
    have n': "unat (n - line_rest (timing s)) = unat n - unat (line_rest (timing s))"
      using le by (simp add: unat_sub word_le_nat_alt)
    have "unat (kick_gap s) + unat (line_rest (timing s)) < 2 ^ 64" using le less.prems(3) by linarith
    note fin = finish_line_watchdog [OF less.prems(1,2) this]
    have "watchdog_exact (cycles_loop (n - line_rest (timing s)) (finish_line s)) \<and>
      timeout_cycles (watchdog (cycles_loop (n - line_rest (timing s)) (finish_line s))) = timeout_cycles (watchdog (finish_line s)) \<and>
      last_kick_cycle (watchdog (cycles_loop (n - line_rest (timing s)) (finish_line s))) = last_kick_cycle (watchdog (finish_line s))"
      using le pos n' fin(1,2) finish_line_timing(5) [OF less.prems(1)] less.prems(3)
      by (intro less.hyps) simp_all
    then show ?thesis using False fin by (simp add: step)
  qed
qed

text \<open>
  C37 (safety and liveness): the watchdog. From a state in which the watchdog was just kicked
  (or its timeout just set), with timeout \<open>T\<close> cycles, advancing the clock by \<open>n > 0\<close> cycles in one
  call requests a reset exactly when \<open>n\<close> reaches \<open>T\<close>.
\<close>

theorem watchdog_resets_on_timeout:
  assumes "raster_ok (timing s)" and "reset_pending (watchdog s) = 0"
    and "timeout_cycles (watchdog s) \<noteq> 0"
    and "last_kick_cycle (watchdog s) = cpu_cycles (timing s)" and "n \<noteq> 0"
  shows "reset_pending (watchdog (ng_neogeo_advance_cpu_cycles n s)) =
     (if n < timeout_cycles (watchdog s) then 0 else 1)"
proof -
  let ?s = "timing_update (\<lambda>t. t\<lparr>cycle_timing_active := 1\<rparr>) s"
  have gap: "kick_gap ?s = 0" using assms(4) by (simp add: kick_gap_def)
  have T: "0 < (ucast (timeout_cycles (watchdog s)) :: u64)"
    using assms(3) by (simp add: word_less_nat_alt unat_gt_0)
  have r: "raster_ok (timing ?s)" using assms(1) by (simp add: raster_ok_def)
  have w: "watchdog_exact ?s" unfolding watchdog_exact_def gap using assms(2,3) T by simp
  have b: "unat (kick_gap ?s) + unat n < 2 ^ 64"
    unfolding gap using unat_below [of n] by simp
  note loop = cycles_loop_watchdog [OF r w b] and time = cycles_loop_timing [OF r, of n]
  have "kick_gap (cycles_loop n ?s) = ucast n"
    using loop time assms(4) by (simp add: kick_gap_def)
  with loop assms(5) show ?thesis
    by (simp add: ng_neogeo_advance_cpu_cycles_def watchdog_exact_def word_less_nat_alt)
qed

theorem watchdog_resets_on_timeout_witness:
  "reset_pending (watchdog (ng_neogeo_advance_cpu_cycles 1000000
     (ng_neogeo_set_watchdog_timeout_cycles 1000000 runtime_init))) = 1 \<and>
   reset_pending (watchdog (ng_neogeo_advance_cpu_cycles 999999
     (ng_neogeo_set_watchdog_timeout_cycles 1000000 runtime_init))) = 0"
proof -
  let ?s = "ng_neogeo_set_watchdog_timeout_cycles 1000000 runtime_init"
  have "raster_ok (timing ?s)" "reset_pending (watchdog ?s) = 0" "timeout_cycles (watchdog ?s) \<noteq> 0"
    "last_kick_cycle (watchdog ?s) = cpu_cycles (timing ?s)"
    by (simp_all add: ng_neogeo_set_watchdog_timeout_cycles_def runtime_init_def)
  from watchdog_resets_on_timeout [OF this, of 1000000] watchdog_resets_on_timeout [OF this, of 999999]
  show ?thesis
    by (simp add: ng_neogeo_set_watchdog_timeout_cycles_def word_less_nat_alt)
qed

end
