(* ===== verification/RuntimeBusProps.thy ===== *)
theory RuntimeBusProps
  imports RuntimeInv
begin

text \<open>
  Properties of the bus: what is written is read back, locked backup RAM is not written, VRAM
  streams through its auto-incrementing port, and save states restore the runtime.
\<close>

subsection \<open>Addresses\<close>

lemma unat_take_bit: "unat (take_bit n (c :: 'a::len word)) = unat c mod 2 ^ n"
  unfolding unsigned_take_bit_eq by (simp add: take_bit_eq_mod)

lemma addr24_add: "((a AND 0x00FFFFFF) + b) AND 0x00FFFFFF = (a + b AND 0x00FFFFFF :: u32)"
proof -
  have "(unat a mod 2 ^ 24 + unat b) mod 2 ^ 32 mod 2 ^ 24 = (unat a mod 2 ^ 24 + unat b) mod 2 ^ 24"
    by (rule mod_mod_cancel) simp
  also have "\<dots> = (unat a + unat b) mod 2 ^ 24" by (rule mod_add_left_eq)
  also have "\<dots> = (unat a + unat b) mod 2 ^ 32 mod 2 ^ 24"
    by (rule mod_mod_cancel [symmetric]) simp
  finally show ?thesis
    unfolding and_24bit word_unat_eq_iff unat_take_bit unat_word_ariths by simp
qed

lemma addr24_step:
  assumes "unat (a AND 0x00FFFFFF) + unat k < 0x1000000"
  shows "a + k AND 0x00FFFFFF = (a AND 0x00FFFFFF) + (k :: u32)"
proof -
  have "unat ((a AND 0x00FFFFFF) + k) = unat (a AND 0x00FFFFFF) + unat k"
    using assms by (simp add: unat_word_ariths)
  then have "take_bit 24 ((a AND 0x00FFFFFF) + k) = (a AND 0x00FFFFFF) + k"
    using assms by (simp add: word_unat_eq_iff unat_take_bit)
  then show ?thesis using addr24_add [of a k] by (simp add: and_24bit)
qed

subsection \<open>Work RAM\<close>

lemma read8_work: "is_work_ram_addr (a AND 0x00FFFFFF) \<Longrightarrow>
   ng68k_read8 a s = (work_ram s ((a AND 0x00FFFFFF) AND 0xFFFF), s)"
  by (auto simp: ng68k_read8_def is_work_ram_addr_def Let_def word_le_nat_alt)

lemma write8_work: "is_work_ram_addr (a AND 0x00FFFFFF) \<Longrightarrow>
   ng68k_write8 a v s = s\<lparr>work_ram := (work_ram s)((a AND 0x00FFFFFF) AND 0xFFFF := v)\<rparr>"
  by (simp add: ng68k_write8_def Let_def)

lemma write16_work: "is_work_ram_addr (a AND 0x00FFFFFF) \<Longrightarrow>
   ng68k_write16 a v s =
     ng68k_write8 (a + 1) (ucast v) (ng68k_write8 a (ucast (drop_bit 8 v)) s)"
  by (auto simp: ng68k_write16_def ng68k_write8_def Let_def ng_neogeo_is_palette_addr_def
      ng_neogeo_is_lspc_addr_def is_work_ram_addr_def word_le_nat_alt addr24_add)

lemma work_index:
  assumes "is_work_ram_addr c"
  shows "unat (c AND 0xFFFF) = unat c - 0x100000"
proof -
  have c: "0x100000 \<le> unat c" "unat c \<le> 0x10FFFF" using assms by (simp_all add: is_work_ram_addr_def word_le_nat_alt)
  then have "unat c = 16 * 2 ^ 16 + (unat c - 0x100000)" by simp
  then have "unat c mod 2 ^ 16 = (unat c - 0x100000) mod 2 ^ 16" by (metis mod_mult_self3)
  also have "\<dots> = unat c - 0x100000" using c by simp
  finally show ?thesis by (simp add: and_16bit unat_take_bit)
qed

text \<open>The four bytes of a long word in work RAM.\<close>

lemma work_long:
  assumes "0x00100000 \<le> a AND 0x00FFFFFF" and "a AND 0x00FFFFFF \<le> 0x0010FFFC" and "k \<le> 3"
  shows "is_work_ram_addr (a + k AND 0x00FFFFFF)"
    and "unat ((a + k AND 0x00FFFFFF) AND 0xFFFF) = unat (a AND 0x00FFFFFF) - 0x100000 + unat k"
proof -
  have b: "0x100000 \<le> unat (a AND 0x00FFFFFF)" "unat (a AND 0x00FFFFFF) \<le> 0x10FFFC" "unat k \<le> 3"
    using assms by (simp_all add: word_le_nat_alt)
  have s: "a + k AND 0x00FFFFFF = (a AND 0x00FFFFFF) + k" using b by (intro addr24_step) simp
  have u: "unat ((a AND 0x00FFFFFF) + k) = unat (a AND 0x00FFFFFF) + unat k"
    using b by (simp add: unat_word_ariths)
  show w: "is_work_ram_addr (a + k AND 0x00FFFFFF)"
    unfolding s is_work_ram_addr_def word_le_nat_alt u using b by simp
  show "unat ((a + k AND 0x00FFFFFF) AND 0xFFFF) = unat (a AND 0x00FFFFFF) - 0x100000 + unat k"
    using work_index [OF w] u b unfolding s by simp
qed

lemma work_long_distinct:
  fixes a j k :: u32
  assumes "0x00100000 \<le> a AND 0x00FFFFFF" and "a AND 0x00FFFFFF \<le> 0x0010FFFC" and "j \<le> 3" and "k \<le> 3"
  shows "(a + j AND 0x00FFFFFF) AND 0xFFFF = (a + k AND 0x00FFFFFF) AND 0xFFFF \<longleftrightarrow> j = k"
  using work_long(2) [OF assms(1,2,3)] work_long(2) [OF assms(1,2,4)]
  by (metis add_left_cancel word_unat_eq_iff)

text \<open>
  A 32-bit write to work RAM, at any alignment and with any value in the ignored
  upper address byte, is read back by a 32-bit read.
\<close>

theorem work_ram_read_after_write:
  assumes "0x00100000 \<le> a AND 0x00FFFFFF" and "a AND 0x00FFFFFF \<le> 0x0010FFFC"
  shows "fst (ng68k_read32 a (ng68k_write32 a v s)) = v"
proof -
  have le: "(0 :: u32) \<le> 3" "(1 :: u32) \<le> 3" "(2 :: u32) \<le> 3" "(3 :: u32) \<le> 3" by simp_all
  note w = work_long(1) [OF assms le(1)] work_long(1) [OF assms le(2)] work_long(1) [OF assms le(3)]
    work_long(1) [OF assms le(4)]
  note d = work_long_distinct [OF assms le(1) le(2)] work_long_distinct [OF assms le(1) le(3)]
    work_long_distinct [OF assms le(1) le(4)] work_long_distinct [OF assms le(2) le(3)]
    work_long_distinct [OF assms le(2) le(4)] work_long_distinct [OF assms le(3) le(4)]
  have sums: "a + 1 + 1 = a + 2" "a + 2 + 1 = a + 3" by simp_all
  show ?thesis
    using w d
    by (simp add: ng68k_read32_def ng68k_read16_def ng68k_write32_def write16_work write8_work read8_work
        sums be16_split be32_split add.assoc)
qed

theorem work_ram_read_after_write_witness:
  "fst (ng68k_read32 0xFF10FFFB (ng68k_write32 0xFF10FFFB 0xDEADBEEF runtime_init)) = 0xDEADBEEF"
  by (rule work_ram_read_after_write) (simp_all add: word_le_nat_alt)

subsection \<open>Direct work-RAM reads\<close>

interpretation work_ram_reader: be_reader ng_neogeo_work_ram_read8_direct
  ng_neogeo_work_ram_read16_direct ng_neogeo_work_ram_read32_direct
  by unfold_locales
    (simp_all add: ng_neogeo_work_ram_read16_direct_def ng_neogeo_work_ram_read32_direct_def)

lemma addr24_low16: "(a AND 0x00FFFFFF) AND 0xFFFF = (a AND 0xFFFF :: u32)"
  by (simp add: and.assoc)

lemma work_range_step:
  assumes "ng_neogeo_is_work_ram_range a n" and "k < n"
  shows "is_work_ram_addr (a + k AND 0x00FFFFFF)"
proof -
  let ?a = "a AND 0x00FFFFFF"
  have n: "unat n \<le> 0x10000" and lo: "0x100000 \<le> unat ?a" and hi: "unat ?a \<le> 0x10FFFF"
    and fit: "?a - 0x100000 \<le> 0x10000 - n"
    using assms(1)
    by (auto simp: ng_neogeo_is_work_ram_range_def Let_def ram_sizes word_le_nat_alt word_less_nat_alt
        split: if_splits)
  have "unat (?a - 0x100000) = unat ?a - 0x100000" "unat (0x10000 - n) = 0x10000 - unat n"
    using lo n by (simp_all add: unat_sub word_le_nat_alt)
  then have "unat ?a - 0x100000 \<le> 0x10000 - unat n" using fit by (simp add: word_le_nat_alt)
  then have le: "unat ?a + unat k \<le> 0x10FFFF"
    using n lo assms(2) by (simp add: word_less_nat_alt)
  then have s: "a + k AND 0x00FFFFFF = ?a + k" by (intro addr24_step) simp
  have "unat (?a + k) = unat ?a + unat k" using le by (simp add: unat_word_ariths)
  then show ?thesis unfolding s is_work_ram_addr_def word_le_nat_alt using le lo by simp
qed

lemma direct_read8:
  assumes "ng_neogeo_is_work_ram_range a n" and "k < n"
  shows "ng68k_read8 (a + k) s = (ng_neogeo_work_ram_read8_direct s (a + k), s)"
  using work_range_step [OF assms]
  by (simp add: read8_work ng_neogeo_work_ram_read8_direct_def addr24_low16)

text \<open>
  The direct work-RAM readers, which the dispatch-miss diagnostics use instead of the
  bus, return what the bus returns whenever \<open>ng_neogeo_is_work_ram_range\<close> accepts the address and the
  access size, for each access size, and such a bus read has no side effect.
\<close>

theorem direct_reads_are_bus_reads:
  "(ng_neogeo_is_work_ram_range a 1 \<longrightarrow> ng68k_read8 a s = (ng_neogeo_work_ram_read8_direct s a, s)) \<and>
   (ng_neogeo_is_work_ram_range a 2 \<longrightarrow> ng68k_read16 a s = (ng_neogeo_work_ram_read16_direct s a, s)) \<and>
   (ng_neogeo_is_work_ram_range a 4 \<longrightarrow> ng68k_read32 a s = (ng_neogeo_work_ram_read32_direct s a, s))"
proof (intro conjI impI)
  show "ng68k_read8 a s = (ng_neogeo_work_ram_read8_direct s a, s)" if "ng_neogeo_is_work_ram_range a 1"
    using direct_read8 [OF that, of 0] by simp
  show "ng68k_read16 a s = (ng_neogeo_work_ram_read16_direct s a, s)" if "ng_neogeo_is_work_ram_range a 2"
    using direct_read8 [OF that, of 0] direct_read8 [OF that, of 1]
    by (simp add: ng68k_read16_def work_ram_reader.rd16_bytes)
  show "ng68k_read32 a s = (ng_neogeo_work_ram_read32_direct s a, s)" if "ng_neogeo_is_work_ram_range a 4"
    using direct_read8 [OF that, of 0] direct_read8 [OF that, of 1] direct_read8 [OF that, of 2]
      direct_read8 [OF that, of 3]
    by (simp add: ng68k_read32_def ng68k_read16_def work_ram_reader.rd32_bytes add.assoc)
qed

theorem direct_reads_are_bus_reads_witness:
  "ng68k_read32 0x0010FFFC runtime_init = (ng_neogeo_work_ram_read32_direct runtime_init 0x0010FFFC, runtime_init)"
  using direct_reads_are_bus_reads [of "0x0010FFFC" runtime_init]
  by (simp add: ng_neogeo_is_work_ram_range_def ram_sizes word_le_nat_alt word_less_nat_alt unat_sub)

subsection \<open>Palette RAM\<close>

lemma palette_byte_ram [simp]:
  "palette_ram (ng_neogeo_write_palette_byte k v p) = (palette_ram p)(k := v)"
  "palette_bank (ng_neogeo_write_palette_byte k v p) = palette_bank p"
  by (auto simp: ng_neogeo_write_palette_byte_def ng_neogeo_update_palette_peak_def Let_def)

lemma palette_store_ram:
  "palette_ram (palette_store a hi lo v p) =
     (palette_ram p)(ng_neogeo_palette_offset p a AND NOT 1 := hi,
                     (ng_neogeo_palette_offset p a AND NOT 1) + 1 := lo)"
  "palette_bank (palette_store a hi lo v p) = palette_bank p"
  by (simp_all add: palette_store_def ng_neogeo_note_palette_write_def Let_def)

lemma palette_offset_cong:
  "palette_bank q = palette_bank p \<Longrightarrow> ng_neogeo_palette_offset q a = ng_neogeo_palette_offset p a"
  by (simp add: ng_neogeo_palette_offset_def)

lemma read8_palette: "ng_neogeo_is_palette_addr (a AND 0x00FFFFFF) \<Longrightarrow>
   ng68k_read8 a s = (palette_ram (palette s) (ng_neogeo_palette_offset (palette s) (a AND 0x00FFFFFF)), s)"
  by (auto simp: ng68k_read8_def is_work_ram_addr_def ng_neogeo_is_palette_addr_def Let_def word_le_nat_alt)

lemma even_offset:
  assumes "\<not> bit a 0"
  shows "ng_neogeo_palette_offset p a AND NOT 1 = ng_neogeo_palette_offset p a"
    and "ng_neogeo_palette_offset p (a + 1) = ng_neogeo_palette_offset p a + 1"
proof -
  let ?o = "ng_neogeo_palette_offset p"
  have o: "?o b = push_bit 13 (ucast (palette_bank p)) OR take_bit 13 b" for b
    by (simp add: ng_neogeo_palette_offset_def ram_sizes and_13bit push_bit_eq_mult mult.commute)
  have clear: "\<not> bit (?o a) 0" using assms by (simp add: o bit_simps)
  then show e: "?o a AND NOT 1 = ?o a"
    by (intro bit_word_eqI) (auto simp: bit_simps intro: gr0I)
  have "a + 1 = a OR 1" using assms by (intro disjunctive_add) (auto simp: bit_simps, metis gr0I)
  then have "?o (a + 1) = ?o a OR 1" unfolding o by (intro bit_word_eqI) (auto simp: bit_simps)
  also have "\<dots> = ?o a + 1" using even_plus_one [of "?o a"] by (simp only: e)
  finally show "?o (a + 1) = ?o a + 1" .
qed

text \<open>
  A 16-bit write to an even palette address is read back, in whichever bank is
  selected and through any of the mirrors of the palette window.
\<close>

theorem palette_read_after_write:
  assumes "0x00400000 \<le> a AND 0x00FFFFFF" and "a AND 0x00FFFFFF \<le> 0x007FFFFF" and "\<not> bit a 0"
  shows "fst (ng68k_read16 a (ng68k_write16 a v s)) = v"
proof -
  let ?b = "a AND 0x00FFFFFF" and ?o = "ng_neogeo_palette_offset (palette s)"
  let ?s = "ng68k_write16 a v s"
  have b: "unat ?b \<le> 0x7FFFFF" "0x400000 \<le> unat ?b" using assms by (simp_all add: word_le_nat_alt)
  have even: "\<not> bit ?b 0" using assms(3) by (simp add: bit_simps)
  have "unat ?b \<noteq> 0x7FFFFF"
  proof
    assume "unat ?b = 0x7FFFFF"
    then have "?b = 0x7FFFFF" by (simp add: word_unat_eq_iff)
    then show False using even by simp
  qed
  then have lt: "unat ?b < 0x7FFFFF" using b by simp
  have b1: "a + 1 AND 0x00FFFFFF = ?b + 1" using lt by (intro addr24_step) simp
  have u1: "unat (?b + 1) = unat ?b + 1" using lt by (simp add: unat_word_ariths)
  have pal: "ng_neogeo_is_palette_addr ?b" "ng_neogeo_is_palette_addr (a + 1 AND 0x00FFFFFF)"
    unfolding b1 ng_neogeo_is_palette_addr_def word_le_nat_alt u1 using b lt by simp_all
  have s: "palette ?s = palette_store ?b (ucast (drop_bit 8 v)) (ucast v) v (palette s)"
    using pal(1) by (simp add: ng68k_write16_def Let_def)
  have bank: "ng_neogeo_palette_offset (palette ?s) c = ?o c" for c
    by (rule palette_offset_cong) (simp add: s palette_store_ram)
  have "fst (ng68k_read8 a ?s) = ucast (drop_bit 8 v)" "fst (ng68k_read8 (a + 1) ?s) = ucast v"
    using even_offset [OF even, of "palette s"]
    unfolding read8_palette [OF pal(1)] read8_palette [OF pal(2)] bank
    by (simp_all add: b1 s palette_store_ram)
  moreover have "snd (ng68k_read8 a ?s) = ?s" using pal(1) by (simp add: read8_palette)
  ultimately show ?thesis by (simp add: ng68k_read16_def case_prod_unfold be16_split)
qed

theorem palette_read_after_write_witness:
  "fst (ng68k_read16 0x402468 (ng68k_write16 0x402468 0x7FFF runtime_init)) = 0x7FFF"
  by (rule palette_read_after_write) (simp_all add: word_le_nat_alt)

subsection \<open>VRAM\<close>

lemma vram_port_write:
  "lspc (ng68k_write16 0x003C0002 v s) =
     (lspc s)\<lparr>last_lspc_write_pc := pc24 s, last_lspc_write_addr := 0x003C0002, last_lspc_write_value := v,
       vram := (vram (lspc s))(vram_addr (lspc s) := v),
       vram_addr := vram_addr (lspc s) + vram_mod (lspc s)\<rparr>"
  by (simp add: ng68k_write16_def Let_def ng_neogeo_is_palette_addr_def ng_neogeo_is_lspc_addr_def
      ng_neogeo_write_lspc_word_def word_le_nat_alt)

abbreviation vram_stream :: "u16 list \<Rightarrow> runtime \<Rightarrow> runtime" where
  "vram_stream \<equiv> fold (ng68k_write16 0x003C0002)"

lemma vram_stream_port:
  "vram_mod (lspc (vram_stream ws s)) = vram_mod (lspc s) \<and>
   vram_addr (lspc (vram_stream ws s)) = vram_addr (lspc s) + of_nat (length ws) * vram_mod (lspc s)"
  by (induction ws rule: rev_induct) (simp_all add: vram_port_write algebra_simps)

text \<open>
  Streaming words through the VRAM data port. With the address modulus 1, writing
  the words \<open>ws\<close> (at most 65536) to \<open>VRAMRW\<close> stores them at consecutive, wrapping VRAM addresses from
  the current address on, and leaves the address just after the last one.
\<close>

theorem vram_stream_consecutive:
  assumes "vram_mod (lspc s) = 1" and "length ws \<le> 65536"
  shows "vram_addr (lspc (vram_stream ws s)) = vram_addr (lspc s) + of_nat (length ws) \<and>
    (\<forall>k<length ws. vram (lspc (vram_stream ws s)) (vram_addr (lspc s) + of_nat k) = ws ! k)"
  using assms(2)
proof (induction ws rule: rev_induct)
  case (snoc w ws)
  then have IH: "vram (lspc (vram_stream ws s)) (vram_addr (lspc s) + of_nat k) = ws ! k" if "k < length ws" for k
    using that by simp
  have at: "vram_addr (lspc (vram_stream ws s)) = vram_addr (lspc s) + of_nat (length ws)"
    using vram_stream_port [of ws s] assms(1) by simp
  have "(of_nat k :: u16) \<noteq> of_nat (length ws)" if "k < length ws" for k
    using that snoc.prems by (intro of_nat_cell_neq) auto
  with IH at show ?case
    using vram_stream_port [of "ws @ [w]" s] assms(1)
    by (auto simp: vram_port_write nth_append less_Suc_eq)
qed simp

theorem vram_stream_consecutive_witness:
  "vram (lspc (vram_stream [1, 2, 3] (runtime_init\<lparr>lspc := lspc_zero\<lparr>vram_mod := 1, vram_addr := 0xFFFF\<rparr>\<rparr>))) 1 = 3"
proof -
  let ?s = "runtime_init\<lparr>lspc := lspc_zero\<lparr>vram_mod := 1, vram_addr := 0xFFFF\<rparr>\<rparr>"
  have "vram (lspc (vram_stream [1, 2, 3] ?s)) (vram_addr (lspc ?s) + of_nat 2) = [1, 2, 3] ! 2"
    using vram_stream_consecutive [of ?s "[1, 2, 3]"] by fastforce
  moreover have "vram_addr (lspc ?s) + of_nat 2 = 1"
    by (simp add: word_unat_eq_iff unat_word_ariths)
  ultimately have "vram (lspc (vram_stream [1, 2, 3] ?s)) 1 = [1, 2, 3] ! 2"
    by (simp only:)
  then show ?thesis by (simp del: fold_simps)
qed

subsection \<open>Backup RAM\<close>

text \<open>The write that unlocks backup RAM.\<close>

definition is_unlock_addr :: "u32 \<Rightarrow> bool" where
  "is_unlock_addr a \<longleftrightarrow> ng_neogeo_is_system_latch_addr (a AND 0x00FFFFFF) \<and> (a AND 0x00FFFFFF) AND 0x1F = 0x1D"

definition locked_as :: "(u32 \<Rightarrow> u8) \<Rightarrow> runtime \<Rightarrow> bool" where
  "locked_as ram s \<longleftrightarrow> backup_ram (backup s) = ram \<and> backup_ram_unlocked (backup s) = 0"

lemma lspc_write_locked: "locked_as ram s \<Longrightarrow> locked_as ram (ng_neogeo_write_lspc_word a v s)"
  by (simp add: locked_as_def ng_neogeo_write_lspc_word_def Let_def)

lemma latch_write_locked:
  "a AND 0x1F \<noteq> 0x1D \<Longrightarrow> locked_as ram s \<Longrightarrow> locked_as ram (write_system_latch a v s)"
  by (simp add: locked_as_def write_system_latch_def write_bios_vectors_def Let_def)

lemma write8_locked:
  assumes "\<not> is_unlock_addr a" and "locked_as ram s"
  shows "locked_as ram (ng68k_write8 a v s)"
  using assms unfolding ng68k_write8_def Let_def is_unlock_addr_def
  by (auto simp: lspc_write_locked latch_write_locked)
    (auto simp: locked_as_def write_backup_def ng_neogeo_note_watchdog_kick_def Let_def)

lemma is_unlock_mask: "is_unlock_addr ((a AND 0x00FFFFFF) + k) = is_unlock_addr (a + k)"
  "is_unlock_addr (a AND 0x00FFFFFF) = is_unlock_addr a"
  by (simp_all add: is_unlock_addr_def addr24_add)

lemma write16_locked:
  assumes "\<not> is_unlock_addr a" "\<not> is_unlock_addr (a + 1)" and "locked_as ram s"
  shows "locked_as ram (ng68k_write16 a v s)"
  using assms(3) write8_locked is_unlock_mask assms(1,2)
  by (auto simp: ng68k_write16_def Let_def lspc_write_locked) (auto simp: locked_as_def)

text \<open>The addresses of the bytes a bus write touches.\<close>

fun write_addrs :: "runtime_op \<Rightarrow> u32 list" where
  "write_addrs (OpWrite8 a v) = [a]"
| "write_addrs (OpWrite16 a v) = [a, a + 1]"
| "write_addrs (OpWrite32 a v) = [a, a + 1, a + 2, a + 3]"
| "write_addrs _ = []"

fun is_bus_write :: "runtime_op \<Rightarrow> bool" where
  "is_bus_write (OpWrite8 a v) = True"
| "is_bus_write (OpWrite16 a v) = True"
| "is_bus_write (OpWrite32 a v) = True"
| "is_bus_write _ = False"

lemma bus_write_locked:
  assumes "is_bus_write x" and "list_all (\<lambda>a. \<not> is_unlock_addr a) (write_addrs x)" and "locked_as ram s"
  shows "locked_as ram (runtime_step x s)"
  using assms by (cases x) (auto simp: write8_locked write16_locked ng68k_write32_def add.assoc)

text \<open>
  C36 (safety): write protection of backup RAM. While it is locked, no sequence of 8-, 16- and
  32-bit bus writes changes a byte of it or unlocks it, unless one of the written bytes is the
  unlock latch itself.
\<close>

theorem locked_backup_ram_is_kept:
  assumes "backup_ram_unlocked (backup s) = 0"
    and "list_all (\<lambda>x. is_bus_write x \<and> list_all (\<lambda>a. \<not> is_unlock_addr a) (write_addrs x)) ops"
  shows "backup_ram (backup (fold runtime_step ops s)) = backup_ram (backup s) \<and>
         backup_ram_unlocked (backup (fold runtime_step ops s)) = 0"
proof -
  have "locked_as (backup_ram (backup s)) t \<Longrightarrow>
      locked_as (backup_ram (backup s)) (fold runtime_step ops t)" for t
    using assms(2) by (induction ops arbitrary: t) (simp_all add: bus_write_locked)
  moreover have "locked_as (backup_ram (backup s)) s" using assms(1) by (simp add: locked_as_def)
  ultimately show ?thesis by (simp add: locked_as_def)
qed

theorem locked_backup_ram_is_kept_witness:
  "backup_ram (backup (fold runtime_step [OpWrite8 0xD00010 7, OpWrite16 0x3A000C 1, OpWrite32 0xD00000 9]
      runtime_init)) 0x10 = 0"
proof -
  have "list_all (\<lambda>x. is_bus_write x \<and> list_all (\<lambda>a. \<not> is_unlock_addr a) (write_addrs x))
      [OpWrite8 0xD00010 7, OpWrite16 0x3A000C 1, OpWrite32 0xD00000 9]"
    by (simp add: is_unlock_addr_def ng_neogeo_is_system_latch_addr_def)
  moreover have "backup_ram_unlocked (backup runtime_init) = 0"
    by (simp add: runtime_init_def backup_zero_def)
  ultimately show ?thesis
    using locked_backup_ram_is_kept [of runtime_init]
    by (simp del: fold.simps fold_Cons runtime_step.simps) (simp add: runtime_init_def backup_zero_def)
qed

subsection \<open>Save states\<close>

text \<open>
  C26 (roundtrip): saving a state reached by any operations, the register writes of the generated code and driven
  interrupt pins included, and loading it into a runtime in any state brings back the CPU registers, the RAMs and the
  state of every device; only the attached ROM images stay those of the loading runtime. The two settings of the host
  outside this state, the dispatch handler and the path of the dispatch-miss log, are not saved.
\<close>

theorem save_load_roundtrip:
  assumes "blob_bytes \<le> out_size"
  shows "\<exists>blob. ng_neogeo_runtime_save_state blob_bytes True out_size (fold runtime_step ops runtime_init) = Some blob \<and>
    ng_neogeo_runtime_load_state blob_bytes (Some blob) out_size t =
      (True, (fold runtime_step ops runtime_init)
         \<lparr>program_rom := program_rom t, program_rom_size := program_rom_size t,
          system_rom := system_rom t, system_rom_size := system_rom_size t\<rparr>)"
proof -
  let ?s = "fold runtime_step ops runtime_init"
  have ok: "palette_ok (palette ?s)" "sound_queue_ok (sound ?s)" "irq_ok True (irq ?s)"
    using reachable_ok [of ops] by (simp_all add: runtime_ok_def)
  have "palette_bank (palette ?s) = 0 \<or> palette_bank (palette ?s) = 1"
    using ok(1) by (intro palette_bank_cases) (simp add: palette_ok_def)
  then have p: "(palette ?s)\<lparr>palette_bank := palette_bank (palette ?s) AND 1\<rparr> = palette ?s" by auto
  have "interrupt_level (irq ?s) AND 7 = interrupt_level (irq ?s)"
    using ok(3) and_mask_7 by (simp add: irq_ok_def)
  then have i: "(irq ?s)\<lparr>interrupt_level := interrupt_level (irq ?s) AND 7\<rparr> = irq ?s" by simp
  have q: "queue_head (sound ?s) < 512" "queue_tail (sound ?s) < 512" "queue_count (sound ?s) \<le> 512"
    using ok(2) by (simp_all add: sound_queue_ok_def)
  show ?thesis
    using assms q
    by (auto simp: ng_neogeo_runtime_save_state_def ng_neogeo_runtime_load_state_def p i
        NG_NEO_SOUND_COMMAND_QUEUE_CAPACITY_def intro!: runtime.equality)
qed

theorem save_load_roundtrip_witness:
  "\<exists>blob. ng_neogeo_runtime_save_state 500000 True 500000 (fold runtime_step [OpWrite8 0x100000 7, OpSetLevel 7 31] runtime_init) = Some blob \<and>
    fst (ng_neogeo_runtime_load_state 500000 (Some blob) 500000 runtime_init)"
  using save_load_roundtrip [of 500000 500000 "[OpWrite8 0x100000 7, OpSetLevel 7 31]" runtime_init] by force

text \<open>
  The ring indices of a save state are range-checked one by one, not against each other: a state
  whose head, tail and count disagree is accepted.
\<close>

lemma load_accepts_inconsistent_queue:
  "\<exists>blob. fst (ng_neogeo_runtime_load_state n (Some blob) n t) \<and>
     \<not> sound_queue_ok (sound (snd (ng_neogeo_runtime_load_state n (Some blob) n t)))"
proof -
  let ?s = "runtime_init\<lparr>sound := sound_init\<lparr>queue_head := 5\<rparr>\<rparr>"
  let ?blob = "the (ng_neogeo_runtime_save_state n True n ?s)"
  have "fst (ng_neogeo_runtime_load_state n (Some ?blob) n t) \<and>
     \<not> sound_queue_ok (sound (snd (ng_neogeo_runtime_load_state n (Some ?blob) n t)))"
    by (simp add: ng_neogeo_runtime_save_state_def ng_neogeo_runtime_load_state_def sound_queue_ok_def
        sound_init_def NG_NEO_SOUND_COMMAND_QUEUE_CAPACITY_def word_le_nat_alt)
  then show ?thesis by blast
qed

end
