(* ===== verification/Buffers.thy ===== *)
theory Buffers
  imports Prelude "HOL-Library.Monad_Syntax"
begin

text \<open>
  Array accesses that may be out of range. A read or a write outside an array is \<open>None\<close>, and so is every
  computation that continues from one; a C loop over a range is \<open>loopM\<close>. \<open>ok P r\<close> says that \<open>r\<close> makes no
  access out of range and ends in a state that satisfies \<open>P\<close>.
\<close>

definition rd :: "'a list \<Rightarrow> nat \<Rightarrow> 'a option" where
  "rd xs i = (if i < length xs then Some (xs ! i) else None)"

definition wr :: "'a list \<Rightarrow> nat \<Rightarrow> 'a \<Rightarrow> 'a list option" where
  "wr xs i v = (if i < length xs then Some (xs[i := v]) else None)"

primrec loopM :: "('a \<Rightarrow> 's \<Rightarrow> 's option) \<Rightarrow> 'a list \<Rightarrow> 's \<Rightarrow> 's option" where
  "loopM f [] s = Some s"
| "loopM f (x # xs) s = f x s \<bind> loopM f xs"

definition ok :: "('s \<Rightarrow> bool) \<Rightarrow> 's option \<Rightarrow> bool" where
  "ok P r \<longleftrightarrow> (case r of None \<Rightarrow> False | Some s \<Rightarrow> P s)"

lemma ok_simps [simp]: "\<not> ok P None" "ok P (Some s) \<longleftrightarrow> P s"
  by (simp_all add: ok_def)

lemma ok_iff: "ok P r \<longleftrightarrow> (\<exists>s. r = Some s \<and> P s)"
  by (cases r) simp_all

lemma ok_bind [simp]: "ok P (r \<bind> f) \<longleftrightarrow> ok (\<lambda>s. ok P (f s)) r"
  by (cases r) simp_all

lemma ok_mono: "ok P r \<Longrightarrow> (\<And>s. P s \<Longrightarrow> Q s) \<Longrightarrow> ok Q r"
  by (cases r) simp_all

lemma ok_rd [simp]: "ok P (rd xs i) \<longleftrightarrow> i < length xs \<and> P (xs ! i)"
  by (simp add: rd_def)

lemma ok_wr [simp]: "ok P (wr xs i v) \<longleftrightarrow> i < length xs \<and> P (xs[i := v])"
  by (simp add: wr_def)

lemma ok_loop:
  assumes "I s" and "\<And>x s. x \<in> set xs \<Longrightarrow> I s \<Longrightarrow> ok I (f x s)"
  shows "ok I (loopM f xs s)"
  using assms
proof (induction xs arbitrary: s)
  case (Cons x xs)
  have "ok I (f x s)" using Cons.prems by simp
  then have "ok (\<lambda>s. ok I (loopM f xs s)) (f x s)"
    by (rule ok_mono) (use Cons in simp)
  then show ?case by simp
qed simp

lemma ok_loop_length:
  assumes "length out = N" "\<And>x s. x \<in> set xs \<Longrightarrow> length s = N \<Longrightarrow> ok (\<lambda>s'. length s' = length s) (f x s)"
  shows "ok (\<lambda>s. length s = N) (loopM f xs out)"
  using assms by (intro ok_loop) (auto intro: ok_mono)

lemma loopM_Nil [simp]: "loopM f [] = Some"
  by (simp add: fun_eq_iff)

lemma loopM_append: "loopM f (xs @ ys) s = loopM f xs s \<bind> loopM f ys"
proof (induction xs arbitrary: s)
  case (Cons x xs)
  then show ?case by (cases "f x s") simp_all
qed simp

lemma rd_in_range: "i < length xs \<Longrightarrow> rd xs i = Some (xs ! i)"
  by (simp add: rd_def)

lemma ok_if: "(b \<Longrightarrow> ok P r) \<Longrightarrow> (\<not> b \<Longrightarrow> ok P q) \<Longrightarrow> ok P (if b then r else q)"
  by simp

lemma unat_wrap_le [bounds]:
  "unat (a + b) \<le> unat a + unat (b :: 'a::len word)" "unat (a * b) \<le> unat a * unat b"
  "unat (of_nat n :: 'a word) \<le> n"
  by (simp_all add: unat_word_ariths unsigned_of_nat take_bit_nat_less_eq_self)

text \<open>The offset of a pixel in a frame, computed in 32 bits, is at most its offset in unbounded arithmetic.\<close>

lemma frame_offset:
  fixes y stride :: u32
  assumes "unat y < h" "c < w" "w \<le> unat stride" "h * unat stride \<le> n"
  shows "unat (y * stride) + c < n" and "unat (y * stride + of_nat c) < n"
proof -
  have "unat y * unat stride + c < (unat y + 1) * unat stride" using assms(2,3) by simp
  also have "\<dots> \<le> h * unat stride" using assms(1) by (intro mult_right_mono) simp_all
  finally have lt: "unat y * unat stride + c < n" using assms(4) by simp
  show "unat (y * stride) + c < n" "unat (y * stride + of_nat c) < n"
    using lt unat_wrap_le(2) [of y stride] unat_wrap_le(1) [of "y * stride" "of_nat c"]
      unat_wrap_le(3) [of c, where 'a = 32] by linarith+
qed

end
