(* ===== verification/NeogeoVideo.thy ===== *)
theory NeogeoVideo
  imports Buffers
begin

text \<open>
  \<open>neogeo_video.c\<close>: palette colours, tile lines, the sprite list of a scanline, sprite chains, and the
  sprite, fix and combined frames. ROMs, VRAM, palette and output are arrays with bounds-checked accesses;
  pointers that may be null are options. A frame function yields the returned flag and the output array.
\<close>

subsection \<open>Colours\<close>

record ng_neo_rgb =
  rgb_r :: u8
  rgb_g :: u8
  rgb_b :: u8

record ng_neo_sprite_map_entry =
  sm_tile_index :: u32
  sm_palette :: u8
  sm_auto_animation :: u8
  sm_vflip :: u8
  sm_hflip :: u8

record ng_neo_video_render_options =
  zoom_rom :: "u8 list option"
  zoom_rom_size :: u32
  auto_animation_counter :: u8
  auto_animation_disabled :: u8

definition render_options_zero :: ng_neo_video_render_options where
  "render_options_zero =
     \<lparr>zoom_rom = None, zoom_rom_size = 0, auto_animation_counter = 0, auto_animation_disabled = 0\<rparr>"

definition ng_neogeo_video_scale5 :: "u8 \<Rightarrow> u8" where
  "ng_neogeo_video_scale5 v = ucast ((ucast (v AND 0x1F) :: u32) * 255 div 31)"

definition ng_neogeo_video_palette_word_to_rgb :: "u16 \<Rightarrow> ng_neo_rgb" where
  "ng_neogeo_video_palette_word_to_rgb w =
     (let r5 = ucast ((drop_bit 7 w AND 0x1E) OR (drop_bit 14 w AND 0x01)) :: u8;
          g5 = ucast ((drop_bit 3 w AND 0x1E) OR (drop_bit 13 w AND 0x01)) :: u8;
          b5 = ucast ((push_bit 1 w AND 0x1E) OR (drop_bit 12 w AND 0x01)) :: u8;
          rgb = \<lparr>rgb_r = ng_neogeo_video_scale5 r5, rgb_g = ng_neogeo_video_scale5 g5,
                 rgb_b = ng_neogeo_video_scale5 b5\<rparr>
      in if w AND 0x8000 \<noteq> 0
         then \<lparr>rgb_r = ucast ((ucast (rgb_r rgb) :: u32) * 2 div 3),
               rgb_g = ucast ((ucast (rgb_g rgb) :: u32) * 2 div 3),
               rgb_b = ucast ((ucast (rgb_b rgb) :: u32) * 2 div 3)\<rparr>
         else rgb)"

definition ng_neogeo_video_palette_word_to_argb :: "u16 \<Rightarrow> u32" where
  "ng_neogeo_video_palette_word_to_argb w =
     (let rgb = ng_neogeo_video_palette_word_to_rgb w
      in 0xFF000000 OR push_bit 16 (ucast (rgb_r rgb)) OR push_bit 8 (ucast (rgb_g rgb)) OR ucast (rgb_b rgb))"

definition ng_neogeo_video_palette_argb :: "u16 list option \<Rightarrow> u32 \<Rightarrow> u16 \<Rightarrow> u32 option" where
  "ng_neogeo_video_palette_argb palette_words palette_word_count palette_index =
     (case palette_words of
        None \<Rightarrow> Some 0xFF000000
      | Some words \<Rightarrow>
          if palette_word_count \<le> ucast palette_index then Some 0xFF000000
          else map_option ng_neogeo_video_palette_word_to_argb (rd words (unat palette_index)))"

subsection \<open>Tile lines\<close>

definition ng_neogeo_video_decode_4bpp_planar_line :: "u16 \<Rightarrow> u16 \<Rightarrow> u16 \<Rightarrow> u16 \<Rightarrow> u8 list" where
  "ng_neogeo_video_decode_4bpp_planar_line plane0 plane1 plane2 plane3 =
     map (\<lambda>x. let b = 15 - x in
            ucast ((drop_bit b plane0 AND 1) OR push_bit 1 (drop_bit b plane1 AND 1) OR
                   push_bit 2 (drop_bit b plane2 AND 1) OR push_bit 3 (drop_bit b plane3 AND 1))) [0..<16]"

definition ng_neogeo_video_decode_sprite_map_entry :: "u16 \<Rightarrow> u16 \<Rightarrow> ng_neo_sprite_map_entry" where
  "ng_neogeo_video_decode_sprite_map_entry tile_word attr_word =
     \<lparr>sm_tile_index = push_bit 16 (ucast (drop_bit 4 attr_word AND 0x0F)) OR ucast tile_word,
      sm_palette = ucast (drop_bit 8 attr_word),
      sm_auto_animation = ucast (drop_bit 2 attr_word AND 0x03),
      sm_vflip = ucast (drop_bit 1 attr_word AND 0x01),
      sm_hflip = ucast (attr_word AND 0x01)\<rparr>"

text \<open>\<open>tile\<close> is the offset of the tile in the ROM.\<close>

definition ng_neogeo_video_decode_sprite_half :: "u8 list \<Rightarrow> nat \<Rightarrow> u32 \<Rightarrow> u8 \<Rightarrow> u8 list option" where
  "ng_neogeo_video_decode_sprite_half c_rom tile plane_base y =
     (let planes = tile + unat plane_base + unat (ucast y * 4 :: u32) in do {
        p0 \<leftarrow> rd c_rom planes;
        p1 \<leftarrow> rd c_rom (planes + 1);
        p2 \<leftarrow> rd c_rom (planes + 2);
        p3 \<leftarrow> rd c_rom (planes + 3);
        Some (map (\<lambda>x. (drop_bit x p0 AND 1) OR push_bit 1 (drop_bit x p2 AND 1) OR
                       push_bit 2 (drop_bit x p1 AND 1) OR push_bit 3 (drop_bit x p3 AND 1)) [0..<8])
      })"

text \<open>One iteration of the flip loop swaps two pixels.\<close>

definition flip_pixel :: "nat \<Rightarrow> u8 list \<Rightarrow> u8 list" where
  "flip_pixel i px = px[i := px ! (15 - i), 15 - i := px ! i]"

definition ng_neogeo_video_decode_sprite_tile_line ::
  "u8 list option \<Rightarrow> u32 \<Rightarrow> u32 \<Rightarrow> u8 \<Rightarrow> u8 \<Rightarrow> u8 list \<Rightarrow> (bool \<times> u8 list) option" where
  "ng_neogeo_video_decode_sprite_tile_line c_rom c_rom_size tile_index y hflip out_pixels =
     (case c_rom of
        None \<Rightarrow> Some (False, out_pixels)
      | Some rom \<Rightarrow>
          if 16 \<le> y then Some (False, out_pixels)
          else if 0xFFFFFFFF div 128 < tile_index then Some (False, replicate 16 0)
          else
            let tile_offset = tile_index * 128
            in if c_rom_size < tile_offset \<or> c_rom_size - tile_offset < 128 then Some (False, replicate 16 0)
               else do {
                 left \<leftarrow> ng_neogeo_video_decode_sprite_half rom (unat tile_offset) 0x40 y;
                 right \<leftarrow> ng_neogeo_video_decode_sprite_half rom (unat tile_offset) 0x00 y;
                 Some (True, if hflip \<noteq> 0 then fold flip_pixel [0..<8] (left @ right) else left @ right)
               })"

definition ng_neogeo_video_decode_fix_tile_line ::
  "u8 list option \<Rightarrow> u32 \<Rightarrow> u16 \<Rightarrow> u8 \<Rightarrow> u8 list \<Rightarrow> (bool \<times> u8 list) option" where
  "ng_neogeo_video_decode_fix_tile_line s_rom s_rom_size tile_index y out_pixels =
     (case s_rom of
        None \<Rightarrow> Some (False, out_pixels)
      | Some rom \<Rightarrow>
          if 8 \<le> y then Some (False, out_pixels)
          else
            let tile_offset = ucast tile_index * 32 :: u32
            in if s_rom_size < tile_offset \<or> s_rom_size - tile_offset < 32 then Some (False, replicate 8 0)
               else do {
                 p0 \<leftarrow> rd rom (unat tile_offset + (0x10 + unat y));
                 p1 \<leftarrow> rd rom (unat tile_offset + (0x18 + unat y));
                 p2 \<leftarrow> rd rom (unat tile_offset + (0x00 + unat y));
                 p3 \<leftarrow> rd rom (unat tile_offset + (0x08 + unat y));
                 Some (True, concat (map (\<lambda>p. [p AND 0x0F, drop_bit 4 p]) [p0, p1, p2, p3]))
               })"

text \<open>\<open>if (!decode(..., pixels)) memset(pixels, 0, sizeof(pixels))\<close>\<close>

definition line_or_blank :: "nat \<Rightarrow> (bool \<times> u8 list) option \<Rightarrow> u8 list option" where
  "line_or_blank n r = map_option (\<lambda>(found, pixels). if found then pixels else replicate n 0) r"

subsection \<open>Filling and copying lines\<close>

definition fill_frame :: "u32 \<Rightarrow> u32 \<Rightarrow> u32 \<Rightarrow> u32 \<Rightarrow> u32 list \<Rightarrow> u32 list option" where
  "fill_frame colour out_width out_height out_stride_pixels out_argb =
     loopM (\<lambda>y. loopM (\<lambda>x out. wr out (unat (of_nat y * out_stride_pixels + of_nat x)) colour)
                  [0..<unat out_width]) [0..<unat out_height] out_argb"

text \<open>
  The pixel loop of a tile line at \<open>dst\<close>: colour 0 writes \<open>blank\<close>, or nothing when there is no \<open>blank\<close>
  (\<open>continue\<close>).
\<close>

definition put_line ::
  "u16 list option \<Rightarrow> u32 \<Rightarrow> u16 \<Rightarrow> u32 option \<Rightarrow> u8 list \<Rightarrow> nat \<Rightarrow> u32 list \<Rightarrow> u32 list option" where
  "put_line palette_words palette_word_count palette_base blank pixels dst out_argb =
     loopM (\<lambda>px out. do {
        p \<leftarrow> rd pixels px;
        let color = p AND 0x0F;
        if color = 0 then (case blank of None \<Rightarrow> Some out | Some b \<Rightarrow> wr out (dst + px) b)
        else do {
          c \<leftarrow> ng_neogeo_video_palette_argb palette_words palette_word_count (palette_base OR ucast color);
          wr out (dst + px) c
        }}) [0..<length pixels] out_argb"

definition atlas_tile_line ::
  "u8 list option \<Rightarrow> u32 \<Rightarrow> u16 list option \<Rightarrow> u32 \<Rightarrow> ng_neo_sprite_map_entry \<Rightarrow> u32 \<Rightarrow> u32 \<Rightarrow> u32 \<Rightarrow>
   nat \<Rightarrow> u32 list \<Rightarrow> u32 list option" where
  "atlas_tile_line c_rom c_rom_size palette_words palette_word_count entry atlas_x atlas_y out_stride_pixels py out =
     (let source_y = (if sm_vflip entry \<noteq> 0 then 16 - 1 - of_nat py else of_nat py :: u8) in do {
        pixels \<leftarrow> line_or_blank 16 (ng_neogeo_video_decode_sprite_tile_line c_rom c_rom_size
                     (sm_tile_index entry) source_y (sm_hflip entry) (replicate 16 0));
        let out_y = atlas_y * 16 + of_nat py;
        let dst = unat (out_y * out_stride_pixels) + unat (atlas_x * 16);
        put_line palette_words palette_word_count (push_bit 4 (ucast (sm_palette entry))) (Some 0xFF000000)
          pixels dst out
      })"

definition ng_neogeo_video_render_sprite_map_atlas_argb ::
  "u8 list option \<Rightarrow> u32 \<Rightarrow> u16 list option \<Rightarrow> u32 \<Rightarrow> u32 \<Rightarrow> u16 list option \<Rightarrow> u32 \<Rightarrow> u32 list \<Rightarrow>
   u32 \<Rightarrow> u32 \<Rightarrow> u32 \<Rightarrow> u32 \<Rightarrow> u32 \<Rightarrow> (bool \<times> u32 list) option" where
  "ng_neogeo_video_render_sprite_map_atlas_argb c_rom c_rom_size vram_words vram_word_count
       sprite_map_base_word palette_words palette_word_count out_argb atlas_cols atlas_rows
       out_width out_height out_stride_pixels =
     (case vram_words of None \<Rightarrow> Some (False, out_argb)
      | Some vram \<Rightarrow>
        if c_rom = None \<or> atlas_cols = 0 \<or> atlas_rows = 0 \<or> out_stride_pixels < out_width
        then Some (False, out_argb)
        else if 0xFFFFFFFF div atlas_rows < atlas_cols then Some (False, out_argb)
        else
          let entry_count = atlas_cols * atlas_rows in
          if 0xFFFFFFFF div 16 < atlas_cols \<or> 0xFFFFFFFF div 16 < atlas_rows then Some (False, out_argb)
          else if out_width < atlas_cols * 16 \<or> out_height < atlas_rows * 16 then Some (False, out_argb)
          else if 0xFFFFFFFF div 2 < entry_count then Some (False, out_argb)
          else if vram_word_count < sprite_map_base_word \<or>
                  vram_word_count - sprite_map_base_word < entry_count * 2 then Some (False, out_argb)
          else do {
            filled \<leftarrow> fill_frame 0xFF000000 out_width out_height out_stride_pixels out_argb;
            out \<leftarrow> loopM (\<lambda>t out. do {
                let tile = (of_nat t :: u32);
                let vram_addr = sprite_map_base_word + tile * 2;
                tile_word \<leftarrow> rd vram (unat vram_addr);
                attr_word \<leftarrow> rd vram (unat (vram_addr + 1));
                let entry = ng_neogeo_video_decode_sprite_map_entry tile_word attr_word;
                loopM (atlas_tile_line c_rom c_rom_size palette_words palette_word_count entry
                         (tile mod atlas_cols) (tile div atlas_cols) out_stride_pixels) [0..<16] out
              }) [0..<unat entry_count] filled;
            Some (True, out)
          })"

subsection \<open>Sprites of a scanline\<close>

definition ng_neogeo_video_hshrink_masks :: "u16 list" where
  "ng_neogeo_video_hshrink_masks =
     [0x0080, 0x0880, 0x0888, 0x2888, 0x288A, 0x2A8A, 0x2AAA, 0xAAAA,
      0xAAEA, 0xBAEA, 0xBAEB, 0xBBEB, 0xBBEF, 0xFBEF, 0xFBFF, 0xFFFF]"

definition ng_neogeo_video_sprite_y :: "u16 \<Rightarrow> u16" where
  "ng_neogeo_video_sprite_y scb3_word = ucast ((496 - ucast (drop_bit 7 scb3_word AND 0x01FF) :: u32) AND 0x01FF)"

definition ng_neogeo_video_sprite_on_scanline :: "u32 \<Rightarrow> u16 \<Rightarrow> u8 \<Rightarrow> bool" where
  "ng_neogeo_video_sprite_on_scanline scanline y rows \<longleftrightarrow>
     0x20 \<le> rows \<or> (scanline - ucast y) AND 0x01FF < ucast rows * 16"

text \<open>The source line without a zoom ROM.\<close>

definition zoom_approximation :: "u8 \<Rightarrow> u8 \<Rightarrow> u8 \<times> u8" where
  "zoom_approximation zoom_y zoom_line =
     (let source_line = (if zoom_y = 0xFF then ucast zoom_line
                         else if zoom_line \<le> zoom_y then ucast ((ucast zoom_line * 256 :: u32) div (ucast zoom_y + 1))
                         else 0xFF :: u16)
      in (ucast (drop_bit 4 source_line), ucast (source_line AND 0x0F)))"

definition ng_neogeo_video_sprite_zoom_source ::
  "u8 list option \<Rightarrow> u32 \<Rightarrow> u8 \<Rightarrow> u8 \<Rightarrow> (u8 \<times> u8) option" where
  "ng_neogeo_video_sprite_zoom_source zrom zrom_size zoom_y zoom_line =
     (if zrom \<noteq> None \<and> 0x10000 \<le> zrom_size then do {
        source_line \<leftarrow> rd (the zrom) (unat (push_bit 8 (ucast zoom_y) OR ucast zoom_line :: u32));
        Some (drop_bit 4 source_line, source_line AND 0x0F)
      }
      else Some (zoom_approximation zoom_y zoom_line))"

text \<open>
  The loop over the display list, with \<open>y\<close>, \<open>rows\<close> and the sprites found so far. The array has 96
  places, and the loop stops when it is full.
\<close>

primrec active_sprite_loop ::
  "u16 list \<Rightarrow> u32 \<Rightarrow> u16 list \<Rightarrow> u16 \<Rightarrow> u8 \<Rightarrow> u16 list \<Rightarrow> u16 list option" where
  "active_sprite_loop vram scanline [] y rows active = Some active"
| "active_sprite_loop vram scanline (sprite # sprites) y rows active =
     rd vram (0x8200 + unat sprite) \<bind> (\<lambda>scb3.
       let (y, rows) = (if drop_bit 6 scb3 AND 1 = 0
                        then (ng_neogeo_video_sprite_y scb3, ucast (scb3 AND 0x3F)) else (y, rows))
       in if rows = 0 \<or> \<not> ng_neogeo_video_sprite_on_scanline scanline y rows
          then active_sprite_loop vram scanline sprites y rows active
          else if 96 \<le> length active then None
          else if length active + 1 = 96 then Some (active @ [sprite])
          else active_sprite_loop vram scanline sprites y rows (active @ [sprite]))"

definition ng_neogeo_video_build_active_sprite_list :: "u16 list \<Rightarrow> u32 \<Rightarrow> u16 list option" where
  "ng_neogeo_video_build_active_sprite_list vram scanline =
     active_sprite_loop vram scanline (map of_nat [0..<381]) 0 0 []"

text \<open>The chain variables, and what the first part of the drawing routine makes of them for one sprite.\<close>

record sprite_chain =
  chain_x :: u16
  chain_y :: u16
  chain_rows :: u8
  chain_zoom_y :: u8
  chain_zoom_x :: u8

definition sprite_chain_start :: sprite_chain where
  "sprite_chain_start = \<lparr>chain_x = 0, chain_y = 0, chain_rows = 0, chain_zoom_y = 0xFF, chain_zoom_x = 0x0F\<rparr>"

definition sprite_chain_next :: "u16 \<Rightarrow> u16 \<Rightarrow> u16 \<Rightarrow> sprite_chain \<Rightarrow> sprite_chain" where
  "sprite_chain_next scb2 scb3 scb4 ch =
     (if drop_bit 6 scb3 AND 1 \<noteq> 0
      then ch\<lparr>chain_x := ucast ((ucast (chain_x ch) + ucast (chain_zoom_x ch) + 1 :: u32) AND 0x01FF),
              chain_zoom_x := ucast (drop_bit 8 scb2 AND 0x0F)\<rparr>
      else \<lparr>chain_x = drop_bit 7 scb4 AND 0x01FF, chain_y = ng_neogeo_video_sprite_y scb3,
            chain_rows = ucast (scb3 AND 0x3F), chain_zoom_y = ucast (scb2 AND 0xFF),
            chain_zoom_x = ucast (drop_bit 8 scb2 AND 0x0F)\<rparr>)"

definition sprite_chain_step :: "u16 list \<Rightarrow> u16 \<Rightarrow> sprite_chain \<Rightarrow> sprite_chain option" where
  "sprite_chain_step vram sprite ch = do {
     scb2 \<leftarrow> rd vram (0x8000 + unat sprite);
     scb3 \<leftarrow> rd vram (0x8200 + unat sprite);
     scb4 \<leftarrow> rd vram (0x8400 + unat sprite);
     Some (sprite_chain_next scb2 scb3 scb4 ch)
   }"

text \<open>The line of the unzoomed sprite and whether the lower half is mirrored.\<close>

definition sprite_zoom_line :: "u32 \<Rightarrow> sprite_chain \<Rightarrow> u8 \<times> bool" where
  "sprite_zoom_line scanline ch =
     (let sprite_line = ucast ((scanline - ucast (chain_y ch)) AND 0x01FF) :: u16;
          invert = drop_bit 8 sprite_line AND 1 \<noteq> 0;
          zoom_line = (if invert then ucast sprite_line XOR 0xFF else ucast sprite_line :: u8)
      in if 0x20 < chain_rows ch then
           let period = push_bit 1 (ucast (chain_zoom_y ch) + 1) :: u16
           in if period \<noteq> 0 then
                let zoom_line = ucast (ucast zoom_line mod period) :: u8
                in if chain_zoom_y ch < zoom_line then (ucast (period - 1 - ucast zoom_line), \<not> invert)
                   else (zoom_line, invert)
              else (zoom_line, invert)
         else (zoom_line, invert))"

definition animated_tile :: "ng_neo_video_render_options option \<Rightarrow> ng_neo_sprite_map_entry \<Rightarrow> u32" where
  "animated_tile options entry =
     (let counter = (case options of None \<Rightarrow> 0 | Some opts \<Rightarrow> auto_animation_counter opts)
      in if (case options of None \<Rightarrow> True | Some opts \<Rightarrow> auto_animation_disabled opts = 0) then
           if sm_auto_animation entry AND 0x02 \<noteq> 0
           then (sm_tile_index entry AND NOT 0x07) OR ucast (counter AND 0x07)
           else if sm_auto_animation entry AND 0x01 \<noteq> 0
           then (sm_tile_index entry AND NOT 0x03) OR ucast (counter AND 0x03)
           else sm_tile_index entry
         else sm_tile_index entry)"

text \<open>
  The pixel loop: \<open>hmask\<close>, \<open>wrap_x\<close> and \<open>out_x\<close> are the loop's variables, \<open>dst\<close> is the offset of the
  scanline. It stops when no pixel of the mask is left.
\<close>

primrec sprite_pixel_loop ::
  "u16 list option \<Rightarrow> u32 \<Rightarrow> u16 \<Rightarrow> u8 list \<Rightarrow> u16 \<Rightarrow> nat \<Rightarrow> nat list \<Rightarrow> u16 \<Rightarrow> u16 \<Rightarrow> u32 \<Rightarrow>
   u32 list \<Rightarrow> u32 list option" where
  "sprite_pixel_loop palette_words palette_word_count palette_base pixels x dst [] hmask wrap_x out_x out = Some out"
| "sprite_pixel_loop palette_words palette_word_count palette_base pixels x dst (px # pxs) hmask wrap_x out_x out = do {
     p \<leftarrow> rd pixels px;
     let color = p AND 0x0F;
     let kept = hmask AND 0x8000 \<noteq> 0;
     let visible = kept \<and> (0x01F0 < x \<longrightarrow> 0x0200 \<le> wrap_x);
     out \<leftarrow> (if visible \<and> out_x < 320 \<and> color \<noteq> 0 then do {
               c \<leftarrow> ng_neogeo_video_palette_argb palette_words palette_word_count (palette_base OR ucast color);
               wr out (dst + unat out_x) c
             } else Some out);
     let hmask' = push_bit 1 hmask;
     if hmask' = 0 then Some out
     else sprite_pixel_loop palette_words palette_word_count palette_base pixels x dst pxs hmask'
            (if kept \<and> 0x01F0 < x then wrap_x + 1 else wrap_x) (if visible then out_x + 1 else out_x) out
   }"

definition draw_sprite_line ::
  "u8 list option \<Rightarrow> u32 \<Rightarrow> ng_neo_video_render_options option \<Rightarrow> u16 list \<Rightarrow> u16 list option \<Rightarrow> u32 \<Rightarrow>
   nat \<Rightarrow> u32 \<Rightarrow> u16 \<Rightarrow> sprite_chain \<Rightarrow> u32 list \<Rightarrow> u32 list option" where
  "draw_sprite_line c_rom c_rom_size options vram palette_words palette_word_count dst scanline sprite ch out =
     (let x = chain_x ch in
      if chain_rows ch = 0 \<or> (320 \<le> x \<and> x \<le> 0x01F0) \<or>
         \<not> ng_neogeo_video_sprite_on_scanline scanline (chain_y ch) (chain_rows ch) then Some out
      else do {
        let (zoom_line, invert) = sprite_zoom_line scanline ch;
        (tile_y, source_y) \<leftarrow> ng_neogeo_video_sprite_zoom_source
           (case options of None \<Rightarrow> None | Some opts \<Rightarrow> zoom_rom opts)
           (case options of None \<Rightarrow> 0 | Some opts \<Rightarrow> zoom_rom_size opts) (chain_zoom_y ch) zoom_line;
        let tile_y = (if invert then tile_y XOR 0x1F else tile_y);
        let source_y = (if invert then source_y XOR 0x0F else source_y);
        let map_addr = (ucast sprite * 64 + ucast tile_y * 2 :: u32);
        if 0x7000 \<le> map_addr + 1 then Some out
        else do {
          tile_word \<leftarrow> rd vram (unat map_addr);
          attr_word \<leftarrow> rd vram (unat (map_addr + 1));
          let entry = ng_neogeo_video_decode_sprite_map_entry tile_word attr_word;
          let source_y = (if sm_vflip entry \<noteq> 0 then source_y XOR 0x0F else source_y);
          pixels \<leftarrow> line_or_blank 16 (ng_neogeo_video_decode_sprite_tile_line c_rom c_rom_size
                       (animated_tile options entry) source_y (sm_hflip entry) (replicate 16 0));
          hmask \<leftarrow> rd ng_neogeo_video_hshrink_masks (unat (chain_zoom_x ch AND 0x0F));
          sprite_pixel_loop palette_words palette_word_count (push_bit 4 (ucast (sm_palette entry))) pixels x dst
            [0..<16] hmask x (if x \<le> 0x01F0 then ucast x else 0) out
        }
      })"

definition ng_neogeo_video_draw_sprite_scanline ::
  "u8 list option \<Rightarrow> u32 \<Rightarrow> ng_neo_video_render_options option \<Rightarrow> u16 list \<Rightarrow> u16 list option \<Rightarrow> u32 \<Rightarrow>
   nat \<Rightarrow> u32 \<Rightarrow> u16 \<Rightarrow> sprite_chain \<times> u32 list \<Rightarrow> (sprite_chain \<times> u32 list) option" where
  "ng_neogeo_video_draw_sprite_scanline c_rom c_rom_size options vram palette_words palette_word_count
       dst scanline sprite s = do {
     ch \<leftarrow> sprite_chain_step vram sprite (fst s);
     out \<leftarrow> draw_sprite_line c_rom c_rom_size options vram palette_words palette_word_count dst scanline
              sprite ch (snd s);
     Some (ch, out)
   }"

subsection \<open>Frames\<close>

definition sprite_scanline ::
  "u8 list option \<Rightarrow> u32 \<Rightarrow> ng_neo_video_render_options option \<Rightarrow> u16 list \<Rightarrow> u16 list option \<Rightarrow> u32 \<Rightarrow>
   u32 \<Rightarrow> nat \<Rightarrow> u32 list \<Rightarrow> u32 list option" where
  "sprite_scanline c_rom c_rom_size options vram palette_words palette_word_count out_stride_pixels line out = do {
     let scanline = (of_nat line :: u32);
     active \<leftarrow> ng_neogeo_video_build_active_sprite_list vram scanline;
     s \<leftarrow> loopM (ng_neogeo_video_draw_sprite_scanline c_rom c_rom_size options vram palette_words
                   palette_word_count (unat (scanline * out_stride_pixels)) scanline)
            active (sprite_chain_start, out);
     Some (snd s)
   }"

definition ng_neogeo_video_render_sprite_frame_argb_with_options ::
  "u8 list option \<Rightarrow> u32 \<Rightarrow> ng_neo_video_render_options option \<Rightarrow> u16 list option \<Rightarrow> u32 \<Rightarrow>
   u16 list option \<Rightarrow> u32 \<Rightarrow> u32 list \<Rightarrow> u32 \<Rightarrow> u32 \<Rightarrow> u32 \<Rightarrow> (bool \<times> u32 list) option" where
  "ng_neogeo_video_render_sprite_frame_argb_with_options c_rom c_rom_size options vram_words vram_word_count
       palette_words palette_word_count out_argb out_width out_height out_stride_pixels =
     (case vram_words of None \<Rightarrow> Some (False, out_argb)
      | Some vram \<Rightarrow>
        if c_rom = None \<or> vram_word_count < 0x8600 \<or> out_width < 320 \<or> out_height < 224 \<or>
           out_stride_pixels < out_width then Some (False, out_argb)
        else do {
          background \<leftarrow> ng_neogeo_video_palette_argb palette_words palette_word_count 0x0FFF;
          filled \<leftarrow> fill_frame background out_width out_height out_stride_pixels out_argb;
          out \<leftarrow> loopM (sprite_scanline c_rom c_rom_size options vram palette_words palette_word_count
                          out_stride_pixels) [0..<224] filled;
          Some (True, out)
        })"

definition ng_neogeo_video_render_sprite_frame_argb_with_zoom ::
  "u8 list option \<Rightarrow> u32 \<Rightarrow> u8 list option \<Rightarrow> u32 \<Rightarrow> u16 list option \<Rightarrow> u32 \<Rightarrow>
   u16 list option \<Rightarrow> u32 \<Rightarrow> u32 list \<Rightarrow> u32 \<Rightarrow> u32 \<Rightarrow> u32 \<Rightarrow> (bool \<times> u32 list) option" where
  "ng_neogeo_video_render_sprite_frame_argb_with_zoom c_rom c_rom_size zrom zrom_size =
     ng_neogeo_video_render_sprite_frame_argb_with_options c_rom c_rom_size
       (Some (render_options_zero\<lparr>zoom_rom := zrom, zoom_rom_size := zrom_size\<rparr>))"

definition ng_neogeo_video_render_sprite_frame_argb ::
  "u8 list option \<Rightarrow> u32 \<Rightarrow> u16 list option \<Rightarrow> u32 \<Rightarrow>
   u16 list option \<Rightarrow> u32 \<Rightarrow> u32 list \<Rightarrow> u32 \<Rightarrow> u32 \<Rightarrow> u32 \<Rightarrow> (bool \<times> u32 list) option" where
  "ng_neogeo_video_render_sprite_frame_argb c_rom c_rom_size =
     ng_neogeo_video_render_sprite_frame_argb_with_options c_rom c_rom_size None"

text \<open>One line of one tile of the fix map: \<open>blank\<close> as in \<open>put_line\<close>.\<close>

definition fix_tile_line ::
  "u8 list option \<Rightarrow> u32 \<Rightarrow> u16 list option \<Rightarrow> u32 \<Rightarrow> u32 \<Rightarrow> u32 option \<Rightarrow> u16 \<Rightarrow> u32 \<Rightarrow> nat \<Rightarrow> u32 \<Rightarrow>
   u32 list \<Rightarrow> u32 list option" where
  "fix_tile_line s_rom s_rom_size palette_words palette_word_count out_stride_pixels blank map_word tile_x py out_y out = do {
     pixels \<leftarrow> line_or_blank 8 (ng_neogeo_video_decode_fix_tile_line s_rom s_rom_size (map_word AND 0x0FFF)
                 (of_nat py) (replicate 8 0));
     put_line palette_words palette_word_count (push_bit 4 (drop_bit 12 map_word)) blank pixels
       (unat (out_y * out_stride_pixels) + unat (tile_x * 8)) out
   }"

definition ng_neogeo_video_overlay_fix_layer_argb ::
  "u8 list option \<Rightarrow> u32 \<Rightarrow> u16 list option \<Rightarrow> u32 \<Rightarrow> u16 list option \<Rightarrow> u32 \<Rightarrow> u32 list \<Rightarrow>
   u32 \<Rightarrow> u32 \<Rightarrow> u32 \<Rightarrow> u32 \<Rightarrow> (bool \<times> u32 list) option" where
  "ng_neogeo_video_overlay_fix_layer_argb s_rom s_rom_size vram_words vram_word_count palette_words
       palette_word_count out_argb out_width out_height out_stride_pixels source_y_offset =
     (case vram_words of None \<Rightarrow> Some (False, out_argb)
      | Some vram \<Rightarrow>
        if s_rom = None \<or> vram_word_count < 0x7000 + 40 * 32 \<or> out_width < 320 \<or> out_height < 224 \<or>
           out_stride_pixels < out_width \<or> 256 < source_y_offset \<or> 256 - source_y_offset < out_height
        then Some (False, out_argb)
        else do {
          out \<leftarrow> loopM (\<lambda>tx. loopM (\<lambda>ty out. do {
              let tile_x = (of_nat tx :: u32);
              let tile_y = (of_nat ty :: u32);
              map_word \<leftarrow> rd vram (unat (0x7000 + tile_x * 32 + tile_y));
              loopM (\<lambda>py out.
                let source_y = tile_y * 8 + of_nat py
                in if source_y < source_y_offset \<or> source_y_offset + out_height \<le> source_y then Some out
                   else fix_tile_line s_rom s_rom_size palette_words palette_word_count out_stride_pixels None
                          map_word tile_x py (source_y - source_y_offset) out) [0..<8] out
            }) [0..<32]) [0..<40] out_argb;
          Some (True, out)
        })"

definition ng_neogeo_video_render_frame_argb_with_options ::
  "u8 list option \<Rightarrow> u32 \<Rightarrow> u8 list option \<Rightarrow> u32 \<Rightarrow> ng_neo_video_render_options option \<Rightarrow>
   u16 list option \<Rightarrow> u32 \<Rightarrow> u16 list option \<Rightarrow> u32 \<Rightarrow> u32 list \<Rightarrow> u32 \<Rightarrow> u32 \<Rightarrow> u32 \<Rightarrow> (bool \<times> u32 list) option" where
  "ng_neogeo_video_render_frame_argb_with_options s_rom s_rom_size c_rom c_rom_size options vram_words
       vram_word_count palette_words palette_word_count out_argb out_width out_height out_stride_pixels = do {
     (drawn, out) \<leftarrow> ng_neogeo_video_render_sprite_frame_argb_with_options c_rom c_rom_size options vram_words
        vram_word_count palette_words palette_word_count out_argb out_width out_height out_stride_pixels;
     if \<not> drawn then Some (False, out)
     else ng_neogeo_video_overlay_fix_layer_argb s_rom s_rom_size vram_words vram_word_count palette_words
            palette_word_count out out_width out_height out_stride_pixels 16
   }"

definition ng_neogeo_video_render_frame_argb_with_zoom ::
  "u8 list option \<Rightarrow> u32 \<Rightarrow> u8 list option \<Rightarrow> u32 \<Rightarrow> u8 list option \<Rightarrow> u32 \<Rightarrow>
   u16 list option \<Rightarrow> u32 \<Rightarrow> u16 list option \<Rightarrow> u32 \<Rightarrow> u32 list \<Rightarrow> u32 \<Rightarrow> u32 \<Rightarrow> u32 \<Rightarrow> (bool \<times> u32 list) option" where
  "ng_neogeo_video_render_frame_argb_with_zoom s_rom s_rom_size c_rom c_rom_size zrom zrom_size =
     ng_neogeo_video_render_frame_argb_with_options s_rom s_rom_size c_rom c_rom_size
       (Some (render_options_zero\<lparr>zoom_rom := zrom, zoom_rom_size := zrom_size\<rparr>))"

definition ng_neogeo_video_render_frame_argb ::
  "u8 list option \<Rightarrow> u32 \<Rightarrow> u8 list option \<Rightarrow> u32 \<Rightarrow>
   u16 list option \<Rightarrow> u32 \<Rightarrow> u16 list option \<Rightarrow> u32 \<Rightarrow> u32 list \<Rightarrow> u32 \<Rightarrow> u32 \<Rightarrow> u32 \<Rightarrow> (bool \<times> u32 list) option" where
  "ng_neogeo_video_render_frame_argb s_rom s_rom_size c_rom c_rom_size =
     ng_neogeo_video_render_frame_argb_with_options s_rom s_rom_size c_rom c_rom_size None"

definition ng_neogeo_video_render_fix_layer_argb ::
  "u8 list option \<Rightarrow> u32 \<Rightarrow> u16 list option \<Rightarrow> u32 \<Rightarrow> u16 list option \<Rightarrow> u32 \<Rightarrow> u32 list \<Rightarrow>
   u32 \<Rightarrow> u32 \<Rightarrow> u32 \<Rightarrow> (bool \<times> u32 list) option" where
  "ng_neogeo_video_render_fix_layer_argb s_rom s_rom_size vram_words vram_word_count palette_words
       palette_word_count out_argb out_width out_height out_stride_pixels =
     (case vram_words of None \<Rightarrow> Some (False, out_argb)
      | Some vram \<Rightarrow>
        if s_rom = None \<or> vram_word_count < 0x7000 + 40 * 32 \<or> out_width < 320 \<or> out_height < 256 \<or>
           out_stride_pixels < out_width
        then Some (False, out_argb)
        else do {
          filled \<leftarrow> fill_frame 0xFF000000 out_width out_height out_stride_pixels out_argb;
          out \<leftarrow> loopM (\<lambda>tx. loopM (\<lambda>ty out. do {
              let tile_x = (of_nat tx :: u32);
              let tile_y = (of_nat ty :: u32);
              map_word \<leftarrow> rd vram (unat (0x7000 + tile_x * 32 + tile_y));
              loopM (\<lambda>py. fix_tile_line s_rom s_rom_size palette_words palette_word_count out_stride_pixels
                            (Some 0xFF000000) map_word tile_x py (tile_y * 8 + of_nat py)) [0..<8] out
            }) [0..<32]) [0..<40] filled;
          Some (True, out)
        })"

end
