(* ===== verification/NeogeoVideoProps.thy ===== *)
theory NeogeoVideoProps
  imports NeogeoVideo
begin

text \<open>
  The renderer stays inside its buffers, and the short list of sprites it draws on a scanline gives every
  chained sprite the position it has in the whole display list.
\<close>

subsection \<open>Buffers large enough for the sizes passed with them\<close>

definition array_ok :: "'a list option \<Rightarrow> u32 \<Rightarrow> bool" where
  "array_ok p n \<longleftrightarrow> (case p of None \<Rightarrow> True | Some xs \<Rightarrow> unat n \<le> length xs)"

definition zoom_ok :: "ng_neo_video_render_options option \<Rightarrow> bool" where
  "zoom_ok options \<longleftrightarrow> (case options of None \<Rightarrow> True | Some opts \<Rightarrow> array_ok (zoom_rom opts) (zoom_rom_size opts))"

lemma array_ok_simps [simp]: "array_ok None n" "array_ok (Some xs) n \<longleftrightarrow> unat n \<le> length xs"
  by (simp_all add: array_ok_def)

lemma ok_map_option [simp]: "ok P (map_option f r) \<longleftrightarrow> ok (\<lambda>x. P (f x)) r"
  by (cases r) simp_all

lemma ok_True_iff: "ok (\<lambda>_. True) r \<longleftrightarrow> r \<noteq> None"
  by (cases r) simp_all

lemma palette_argb_ok: "array_ok pal n \<Longrightarrow> ok (\<lambda>_. True) (ng_neogeo_video_palette_argb pal n i)"
  by (auto simp: ng_neogeo_video_palette_argb_def not_le word_less_nat_alt unat_ucast_up split: option.splits)

lemma sprite_half_ok:
  assumes "tile + 128 \<le> length rom" "b \<le> 0x40" "y < 16"
  shows "ok (\<lambda>px. length px = 8) (ng_neogeo_video_decode_sprite_half rom tile b y)"
proof -
  have "unat (ucast y * 4 :: u32) \<le> 60"
    using assms(3) by (simp add: unat_word_ariths unat_ucast_up word_less_nat_alt)
  moreover have "unat b \<le> 64" using assms(2) by (simp add: word_le_nat_alt)
  ultimately show ?thesis using assms(1) by (simp add: ng_neogeo_video_decode_sprite_half_def Let_def)
qed

lemma flip_loop_length [simp]: "length (fold flip_pixel is px) = length px"
  by (induction "is" arbitrary: px) (simp_all add: flip_pixel_def)

lemma flip_loop_is_rev: "length px = 16 \<Longrightarrow> fold flip_pixel [0..<8] px = rev px"
  by (auto simp: flip_pixel_def length_Suc_conv numeral_eq_Suc upt_rec)

lemma tile_line_ok:
  assumes "array_ok c_rom n"
  shows "ok (\<lambda>px. length px = 16) (line_or_blank 16 (ng_neogeo_video_decode_sprite_tile_line c_rom n t y f out))"
proof -
  { fix rom assume c: "c_rom = Some rom" and y: "\<not> 16 \<le> y" and t: "\<not> 0xFFFFFFFF div 128 < t"
      and s: "\<not> n < t * 128" "\<not> n - t * 128 < 128"
    have "unat (n - t * 128) = unat n - unat (t * 128)" using s(1) by (simp add: unat_sub not_less)
    then have fits: "unat (t * 128) + 128 \<le> length rom"
      using assms c s by (simp add: not_less word_le_nat_alt)
    have "ok (\<lambda>l. length l = 8) (ng_neogeo_video_decode_sprite_half rom (unat (t * 128)) 0x40 y)"
      "ok (\<lambda>l. length l = 8) (ng_neogeo_video_decode_sprite_half rom (unat (t * 128)) 0x00 y)"
      using y by (auto intro!: sprite_half_ok fits)
    then have "ok (\<lambda>l. ok (\<lambda>r. length l + length r = 16)
        (ng_neogeo_video_decode_sprite_half rom (unat (t * 128)) 0x00 y))
        (ng_neogeo_video_decode_sprite_half rom (unat (t * 128)) 0x40 y)"
      by (auto simp: ok_iff) }
  then show ?thesis
    by (auto simp: line_or_blank_def ng_neogeo_video_decode_sprite_tile_line_def Let_def if_distrib [of length]
        cong: if_cong split: option.splits)
qed

lemma fix_line_ok:
  assumes "array_ok s_rom n"
  shows "ok (\<lambda>px. length px = 8) (line_or_blank 8 (ng_neogeo_video_decode_fix_tile_line s_rom n t y out))"
proof -
  { fix rom assume c: "s_rom = Some rom" and y: "\<not> 8 \<le> y"
      and s: "\<not> n < ucast t * 32" "\<not> n - ucast t * 32 < 32"
    have "unat (n - ucast t * 32) = unat n - unat (ucast t * 32 :: u32)" using s(1) by (simp add: unat_sub not_less)
    then have "unat (ucast t * 32 :: u32) + 32 \<le> length rom"
      using assms c s by (simp add: not_less word_le_nat_alt)
    moreover have "unat y < 8" using y by (simp add: not_le word_less_nat_alt)
    ultimately have "unat (ucast t * 32 :: u32) + (k + unat y) < length rom" if "k \<le> 24" for k
      using that by linarith
    from this [of 0] this have "unat (ucast t * 32 :: u32) + unat y < length rom"
      "\<And>k. k \<le> 24 \<Longrightarrow> unat (ucast t * 32 :: u32) + (k + unat y) < length rom" by simp_all }
  then show ?thesis
    by (simp add: line_or_blank_def ng_neogeo_video_decode_fix_tile_line_def Let_def add.assoc split: option.splits)
qed

lemma fill_frame_ok:
  assumes "unat h * unat stride \<le> length out" "w \<le> stride"
  shows "ok (\<lambda>out'. length out' = length out) (fill_frame c w h stride out)"
  unfolding fill_frame_def
  using assms by (intro ok_loop) (auto simp: word_le_nat_alt unsigned_of_nat
      intro!: le_less_trans [OF take_bit_nat_less_eq_self] frame_offset(2) [where h = "unat h" and w = "unat w"] ok_loop)

lemma put_line_ok:
  assumes "array_ok pal n" "dst + length px \<le> length out"
  shows "ok (\<lambda>out'. length out' = length out) (put_line pal n base blank px dst out)"
  unfolding put_line_def
proof (rule ok_loop)
  fix x and s :: "u32 list"
  assume x: "x \<in> set [0..<length px]" and s: "length s = length out"
  have "ok (\<lambda>c. ok (\<lambda>out'. length out' = length out) (wr s (dst + x) c)) (ng_neogeo_video_palette_argb pal n i)" for i
    using palette_argb_ok [OF assms(1)] by (rule ok_mono) (use x s assms in simp)
  then show "ok (\<lambda>out'. length out' = length out) (do {
        p \<leftarrow> rd px x;
        let color = p AND 0x0F;
        if color = 0 then (case blank of None \<Rightarrow> Some s | Some b \<Rightarrow> wr s (dst + x) b)
        else do {
          c \<leftarrow> ng_neogeo_video_palette_argb pal n (base OR ucast color);
          wr s (dst + x) c
        }})"
    using x s assms by (auto simp: Let_def split: option.splits)
qed simp

subsection \<open>The atlas\<close>

lemma ok_bindI: "ok Q r \<Longrightarrow> (\<And>x. Q x \<Longrightarrow> ok P (f x)) \<Longrightarrow> ok P (r \<bind> f)"
  by (cases r) simp_all

lemma atlas_tile_line_ok:
  assumes "array_ok c_rom n" "array_ok pal pn" "unat (ay * 16 + of_nat py) < unat h"
    "unat (ax * 16) + 16 \<le> unat stride" "unat h * unat stride \<le> length out"
  shows "ok (\<lambda>out'. length out' = length out) (atlas_tile_line c_rom n pal pn e ax ay stride py out)"
proof -
  have "unat ((ay * 16 + of_nat py) * stride) + (unat (ax * 16) + 15) < length out"
    using assms(3-5) by (intro frame_offset(1) [where y = "ay * 16 + of_nat py" and stride = stride and w = "unat stride"
        and h = "unat h"]) simp_all
  then have "unat ((ay * 16 + of_nat py) * stride) + unat (ax * 16) + 16 \<le> length out" by simp
  then show ?thesis
    unfolding atlas_tile_line_def Let_def
    by (intro ok_bindI [OF tile_line_ok [OF assms(1)]] put_line_ok [OF assms(2)]) simp
qed

lemma not_gt_div:
  fixes a b :: u32
  assumes "\<not> 0xFFFFFFFF div b < a" "b \<noteq> 0"
  shows "unat (a * b) = unat a * unat b"
proof -
  have "unat a \<le> 0xFFFFFFFF div unat b" using assms(1) by (simp add: not_less word_le_nat_alt unat_div)
  then have "unat a * unat b \<le> (0xFFFFFFFF div unat b) * unat b" by (rule mult_right_mono) simp
  also have "\<dots> \<le> 0xFFFFFFFF" by (rule div_times_less_eq_dividend)
  finally show ?thesis by (simp add: unat_word_ariths)
qed

lemma atlas_reads:
  fixes count vn base :: u32
  assumes "\<not> 0xFFFFFFFF div 2 < count" "\<not> vn < base" "\<not> vn - base < count * 2"
    "unat vn \<le> length v" "t < unat count"
  shows "unat (base + of_nat t * 2) < length v" "unat (base + of_nat t * 2 + 1) < length v"
proof -
  have n: "unat (count * 2) = unat count * 2" using not_gt_div [OF assms(1)] by simp
  have "unat (vn - base) = unat vn - unat base" using assms(2) by (simp add: unat_sub not_less)
  then have vb: "unat base + unat count * 2 \<le> unat vn"
    using assms(2,3) n by (simp add: not_less word_le_nat_alt)
  have "unat (base + of_nat t * 2) \<le> unat base + t * 2" "unat (base + of_nat t * 2 + 1) \<le> unat base + t * 2 + 1"
    using unat_wrap_le(1) [of base "of_nat t * 2"] unat_wrap_le(1) [of "base + of_nat t * 2" 1]
      unat_wrap_le(2) [of "of_nat t :: u32" 2] unat_wrap_le(3) [of t, where 'a = 32] by simp_all
  then show "unat (base + of_nat t * 2) < length v" "unat (base + of_nat t * 2 + 1) < length v"
    using vb assms(4,5) by linarith+
qed

lemma atlas_position:
  fixes cols rows w h stride :: u32
  assumes "\<not> 0xFFFFFFFF div rows < cols" "\<not> 0xFFFFFFFF div 16 < cols" "\<not> 0xFFFFFFFF div 16 < rows"
    "cols \<noteq> 0" "rows \<noteq> 0" "\<not> w < cols * 16" "\<not> h < rows * 16" "\<not> stride < w" "t < unat (cols * rows)"
  shows "unat ((of_nat t mod cols) * 16) + 16 \<le> unat stride"
    and "py < 16 \<Longrightarrow> unat ((of_nat t div cols) * 16 + of_nat py) < unat h"
proof -
  have n: "unat (cols * rows) = unat cols * unat rows" "unat (cols * 16) = unat cols * 16"
    "unat (rows * 16) = unat rows * 16"
    using not_gt_div [OF assms(1,5)] not_gt_div [OF assms(2)] not_gt_div [OF assms(3)] by simp_all
  have tt: "unat (of_nat t :: u32) = t"
    using assms(9) unat_below [of "cols * rows"] by (simp add: unsigned_of_nat take_bit_nat_eq_self)
  have x: "unat (of_nat t mod cols) = t mod unat cols" and y: "unat (of_nat t div cols) = t div unat cols"
    using tt by (simp_all add: unat_mod unat_div)
  have pos: "0 < unat cols" using assms(4) by (simp add: unat_gt_0)
  have mx: "t mod unat cols < unat cols" and dy: "t div unat cols < unat rows"
    using assms(9) n(1) pos by (simp_all add: less_mult_imp_div_less mult.commute)
  have whn: "unat cols * 16 \<le> unat w" "unat rows * 16 \<le> unat h" "unat w \<le> unat stride"
    using assms(6-8) n by (simp_all add: not_less word_le_nat_alt)
  show "unat ((of_nat t mod cols) * 16) + 16 \<le> unat stride"
    using unat_wrap_le(2) [of "of_nat t mod cols" 16] x mx whn by simp
  show "unat ((of_nat t div cols) * 16 + of_nat py) < unat h" if "py < 16"
    using unat_wrap_le(1) [of "(of_nat t div cols) * 16" "of_nat py"] unat_wrap_le(3) [of py, where 'a = 32]
      unat_wrap_le(2) [of "of_nat t div cols" 16] y dy whn that by simp
qed

lemma atlas_in_bounds:
  assumes "array_ok c_rom n" "array_ok pal pn" "array_ok vram vn" "unat h * unat stride \<le> length out"
  shows "ok (\<lambda>(_, out'). length out' = length out)
    (ng_neogeo_video_render_sprite_map_atlas_argb c_rom n vram vn base pal pn out cols rows w h stride)"
proof (cases vram)
  case (Some v)
  then have v: "unat vn \<le> length v" using assms(3) by simp
  have tile: "ok (\<lambda>s. length s = length out)
      (loopM (atlas_tile_line c_rom n pal pn en ax ay stride) [0..<16] s)"
    if "length s = length out" "unat (ax * 16) + 16 \<le> unat stride"
      "\<And>py. py < 16 \<Longrightarrow> unat (ay * 16 + of_nat py) < unat h" for en ax ay s
    by (intro ok_loop_length atlas_tile_line_ok [OF assms(1,2), where h = h]) (use that assms(4) in simp_all)
  show ?thesis
    unfolding ng_neogeo_video_render_sprite_map_atlas_argb_def Let_def Some option.case
    apply (intro ok_if)
         apply (simp_all only: ok_simps prod.case simp_thms)
    apply (rule ok_bindI [OF fill_frame_ok [OF assms(4)]], simp add: not_less)
    apply (rule ok_bindI [where Q = "\<lambda>s. length s = length out"])
     apply (rule ok_loop, simp)
     apply (simp add: atlas_reads [OF _ _ _ v])
     apply (intro tile atlas_position [where rows = rows and w = w and h = h and stride = stride]; simp)
    apply simp
    done
qed (simp add: ng_neogeo_video_render_sprite_map_atlas_argb_def)

subsection \<open>Sprite scanlines\<close>

lemma active_loop_ok:
  assumes "\<forall>sp \<in> set sprites. 0x8200 + unat sp < length vram" "length active < 96"
  shows "ok (\<lambda>l. length l \<le> 96 \<and> set l \<subseteq> set active \<union> set sprites)
    (active_sprite_loop vram line sprites y rows active)"
  using assms
proof (induction sprites arbitrary: y rows active)
  case (Cons sp sprites)
  note IH = Cons.IH [THEN ok_mono]
  show ?case using Cons.prems
    by (auto simp: Let_def intro!: IH split: prod.splits)
qed simp

lemma active_list_ok:
  assumes "0x8600 \<le> length vram"
  shows "ok (\<lambda>l. length l \<le> 96 \<and> (\<forall>sp\<in>set l. unat sp < 381)) (ng_neogeo_video_build_active_sprite_list vram line)"
proof -
  have n: "unat (of_nat k :: u16) = k" if "k < 381" for k
    using that by (simp add: unsigned_of_nat take_bit_nat_eq_self)
  have "ok (\<lambda>l. length l \<le> 96 \<and> set l \<subseteq> set [] \<union> set (map of_nat [0..<381]))
     (active_sprite_loop vram line (map of_nat [0..<381]) 0 0 [])"
    by (rule active_loop_ok) (use assms n in auto)
  then show ?thesis
    unfolding ng_neogeo_video_build_active_sprite_list_def by (rule ok_mono) (auto simp: n subset_iff)
qed

lemma pixel_loop_ok:
  assumes "array_ok pal n" "dst + 320 \<le> length out" "\<forall>k\<in>set pxs. k < length pixels"
  shows "ok (\<lambda>out'. length out' = length out) (sprite_pixel_loop pal n base pixels x dst pxs hmask wx ox out)"
  using assms(2,3)
proof (induction pxs arbitrary: hmask wx ox out)
  case (Cons px pxs)
  have c: "ok (\<lambda>c. ok (\<lambda>out'. length out' = length out) (wr out (dst + unat ox) c))
      (ng_neogeo_video_palette_argb pal n i)" if "ox < 320" for i
    using palette_argb_ok [OF assms(1)]
    by (rule ok_mono) (use that Cons.prems(1) in \<open>simp add: word_less_nat_alt\<close>)
  have draw: "ok (\<lambda>out'. length out' = length out)
     (if b \<and> ox < 320 \<and> color \<noteq> 0
      then do { c \<leftarrow> ng_neogeo_video_palette_argb pal n (base OR ucast (color :: u8)); wr out (dst + unat ox) c }
      else Some out)" for b color
    using c by simp
  have IH: "ok (\<lambda>out'. length out' = length out) (sprite_pixel_loop pal n base pixels x dst pxs hmask' wx' ox' out')"
    if "length out' = length out" for hmask' wx' ox' out'
    using Cons.IH [of out'] Cons.prems that by simp
  show ?case
    unfolding sprite_pixel_loop.simps Let_def
    by (rule ok_bindI [where Q = "\<lambda>_. True"], use Cons.prems in simp)
      (rule ok_bindI [OF draw], simp add: IH)
qed simp

lemma zoom_source_ok:
  assumes "array_ok z n"
  shows "ok (\<lambda>_. True) (ng_neogeo_video_sprite_zoom_source z n zy zl)"
proof -
  have "unat (push_bit 8 (ucast zy) OR ucast zl :: u32) < 0x10000"
  proof -
    have "(push_bit 8 (ucast zy) OR ucast zl :: u32) = take_bit 16 (push_bit 8 (ucast zy) OR ucast zl)"
      by (rule bit_word_eqI) (auto simp: bit_simps dest: bit_imp_le_length)
    then have "unat (push_bit 8 (ucast zy) OR ucast zl :: u32) < 2 ^ 16" by (metis unat_take_bit_less)
    then show ?thesis by simp
  qed
  then show ?thesis
    using assms by (auto simp: ng_neogeo_video_sprite_zoom_source_def word_le_nat_alt)
qed

lemma draw_line_ok:
  assumes "array_ok c_rom n" "array_ok pal pn" "zoom_ok options" "0x7000 \<le> length vram" "dst + 320 \<le> length out"
  shows "ok (\<lambda>out'. length out' = length out)
    (draw_sprite_line c_rom n options vram pal pn dst line sp ch out)"
proof -
  have z: "array_ok (case options of None \<Rightarrow> None | Some opts \<Rightarrow> zoom_rom opts)
      (case options of None \<Rightarrow> 0 | Some opts \<Rightarrow> zoom_rom_size opts)"
    using assms(3) by (simp add: zoom_ok_def split: option.splits)
  have m: "unat (chain_zoom_x ch AND 0x0F) < length ng_neogeo_video_hshrink_masks"
    using unat_and_le [where a = "chain_zoom_x ch" and b = "0x0F"] by (simp add: ng_neogeo_video_hshrink_masks_def)
  have addr: "unat a < length vram \<and> unat (a + 1) < length vram"
    if "a = ucast (sp :: u16) * 64 + ucast (ty :: u8) * 2" "\<not> 0x7000 \<le> a + 1" for a :: u32 and ty
  proof -
    have "unat a \<le> unat sp * 64 + unat ty * 2"
      unfolding that using unat_wrap_le(1) [of "ucast sp * 64 :: u32" "ucast ty * 2"]
        unat_wrap_le(2) [of "ucast sp :: u32" 64] unat_wrap_le(2) [of "ucast ty :: u32" 2]
      by (simp add: unat_ucast_up)
    then have "unat a + 1 < 2 ^ 32" using unat_below [of sp] unat_below [of ty] by simp
    then have "unat (a + 1) = unat a + 1" by (simp add: unat_word_ariths)
    then show ?thesis using that(2) assms(4) by (simp add: not_le word_less_nat_alt)
  qed
  have pix: "ok (\<lambda>out'. length out' = length out)
      (sprite_pixel_loop pal pn base px x dst [0..<16] hm wx ox out)" if "length px = 16" for base px x hm wx ox
    using pixel_loop_ok [OF assms(2,5)] that by simp
  show ?thesis
    unfolding draw_sprite_line_def Let_def
    apply (rule ok_if, simp)
    apply (simp only: prod.case_distrib [symmetric] split_def)
    apply (rule ok_bindI [OF zoom_source_ok [OF z]])
    apply (rule ok_if, simp)
    apply (rule ok_bindI [where Q = "\<lambda>_. True"], use addr in simp)
    apply (rule ok_bindI [where Q = "\<lambda>_. True"], use addr in simp)
    apply (rule ok_bindI [OF tile_line_ok [OF assms(1)]])
    apply (rule ok_bindI [where Q = "\<lambda>_. True"], use m in simp)
    apply (rule pix, assumption)
    done
qed

lemma sprite_scanline_ok:
  assumes "array_ok c_rom n" "array_ok pal pn" "zoom_ok options" "0x8600 \<le> length vram"
    "line < 224" "320 \<le> unat stride" "224 \<le> unat h" "unat h * unat stride \<le> length out"
  shows "ok (\<lambda>out'. length out' = length out) (sprite_scanline c_rom n options vram pal pn stride line out)"
proof -
  have "unat (of_nat line :: u32) < unat h" using unat_wrap_le(3) [of line, where 'a = 32] assms(5,7) by linarith
  then have "unat (of_nat line * stride) + 319 < length out"
    using assms(6,8) by (intro frame_offset(1) [where h = "unat h" and w = "unat stride"]) simp_all
  then have dst: "unat (of_nat line * stride) + 320 \<le> length out" by simp
  have "ok (\<lambda>s. length (snd s) = length out)
      (ng_neogeo_video_draw_sprite_scanline c_rom n options vram pal pn (unat (of_nat line * stride)) l sp s)"
    if "unat sp < 381" "length (snd s) = length out" for sp s l
    unfolding ng_neogeo_video_draw_sprite_scanline_def sprite_chain_step_def
    using that assms(4) draw_line_ok [OF assms(1-3), of vram _ "snd s"] dst
    by (simp add: ok_mono [where P = "\<lambda>out'. length out' = length out"])
  then have "ok (\<lambda>s. length (snd s) = length out)
      (loopM (ng_neogeo_video_draw_sprite_scanline c_rom n options vram pal pn (unat (of_nat line * stride)) l)
         active (ch, out))" if "\<forall>sp\<in>set active. unat sp < 381" for active l ch
    using that by (intro ok_loop) simp_all
  then show ?thesis
    unfolding sprite_scanline_def Let_def
    by (intro ok_bindI [OF active_list_ok [OF assms(4)]])
      (rule ok_bindI [where Q = "\<lambda>s. length (snd s) = length out"], simp_all)
qed

lemma sprite_frame_in_bounds:
  assumes "array_ok c_rom n" "array_ok pal pn" "zoom_ok options" "array_ok vram vn"
    "unat h * unat stride \<le> length out"
  shows "ok (\<lambda>(_, out'). length out' = length out)
    (ng_neogeo_video_render_sprite_frame_argb_with_options c_rom n options vram vn pal pn out w h stride)"
proof (cases vram)
  case (Some v)
  { assume g: "\<not> vn < 0x8600" "\<not> w < 320" "\<not> h < 224" "\<not> stride < w"
    have nat: "0x8600 \<le> length v" "320 \<le> unat stride" "224 \<le> unat h" "w \<le> stride"
      using g assms(4) Some by (simp_all add: not_less word_le_nat_alt)
    have "ok (\<lambda>s. length s = length out)
        (loopM (sprite_scanline c_rom n options v pal pn stride) [0..<224] filled)"
      if "length filled = length out" for filled
      by (intro ok_loop_length sprite_scanline_ok [OF assms(1-3) nat(1) _ nat(2,3)]) (use that assms(5) in simp_all)
    note this fill_frame_ok [OF assms(5) nat(4)] }
  note body = this
  show ?thesis
    unfolding ng_neogeo_video_render_sprite_frame_argb_with_options_def Some option.case
    apply (rule ok_if, simp)
    apply (rule ok_bindI [OF palette_argb_ok [OF assms(2)]])
    apply (rule ok_bindI [OF body(2)], simp_all)
    apply (rule ok_mono [OF body(1)], simp_all)
    done
qed (simp add: ng_neogeo_video_render_sprite_frame_argb_with_options_def)

subsection \<open>The fix layer\<close>

lemma fix_tile_line_ok:
  assumes "array_ok s_rom n" "array_ok pal pn" "unat oy < unat h" "tx < 40" "320 \<le> unat stride"
    "unat h * unat stride \<le> length out"
  shows "ok (\<lambda>out'. length out' = length out) (fix_tile_line s_rom n pal pn stride blank mw (of_nat tx) py oy out)"
proof -
  have "unat (of_nat tx * 8 :: u32) \<le> tx * 8"
    using unat_wrap_le(2) [of "of_nat tx :: u32" 8] unat_wrap_le(3) [of tx, where 'a = 32] by simp
  then have "unat (of_nat tx * 8 :: u32) + 7 < 320" using assms(4) by linarith
  then have "unat (oy * stride) + (unat (of_nat tx * 8 :: u32) + 7) < length out"
    using assms(3,5,6) by (intro frame_offset(1) [where y = oy and stride = stride and h = "unat h" and w = 320])
  then have "unat (oy * stride) + unat (of_nat tx * 8 :: u32) + 8 \<le> length out" by simp
  then show ?thesis
    unfolding fix_tile_line_def
    by (intro ok_bindI [OF fix_line_ok [OF assms(1)]] put_line_ok [OF assms(2)]) simp
qed

lemma fix_map_read:
  assumes "tx < 40" "ty < 32" "0x7000 + 1280 \<le> length vram"
  shows "unat (0x7000 + of_nat tx * 32 + of_nat ty :: u32) < length vram"
proof -
  have "unat (0x7000 + of_nat tx * 32 + of_nat ty :: u32) \<le> 0x7000 + tx * 32 + ty"
    using unat_wrap_le(1) [of "0x7000 + of_nat tx * 32 :: u32" "of_nat ty"]
      unat_wrap_le(1) [of "0x7000 :: u32" "of_nat tx * 32"] unat_wrap_le(2) [of "of_nat tx :: u32" 32]
      unat_wrap_le(3) [of tx, where 'a = 32] unat_wrap_le(3) [of ty, where 'a = 32] by simp
  then show ?thesis using assms by linarith
qed

lemma overlay_in_bounds:
  assumes "array_ok s_rom n" "array_ok pal pn" "array_ok vram vn" "unat h * unat stride \<le> length out"
  shows "ok (\<lambda>(_, out'). length out' = length out)
    (ng_neogeo_video_overlay_fix_layer_argb s_rom n vram vn pal pn out w h stride off)"
proof (cases vram)
  case (Some v)
  { fix tx ty py :: nat and s :: "u32 list"
    assume g: "\<not> vn < 0x7000 + 40 * 32" "\<not> w < 320" "\<not> stride < w" "\<not> 256 < off" "\<not> 256 - off < h"
      and r: "\<not> (of_nat ty * 8 + of_nat py < off \<or> off + h \<le> (of_nat ty * 8 + of_nat py :: u32))" and t: "tx < 40"
      and s: "length s = length out"
    have "unat (off + h) = unat off + unat h"
      using g(4,5) by (simp add: not_less word_le_nat_alt unat_sub unat_word_ariths)
    then have "unat (of_nat ty * 8 + of_nat py - off) < unat h"
      using r by (simp add: not_le not_less unat_sub word_le_nat_alt word_less_nat_alt) linarith
    then have "ok (\<lambda>s. length s = length out)
        (fix_tile_line s_rom n pal pn stride None mw (of_nat tx) py (of_nat ty * 8 + of_nat py - off) s)" for mw
      using fix_tile_line_ok [OF assms(1,2), of _ h tx stride s] t g assms(4) s
      by (simp add: not_less word_le_nat_alt) }
  note line = this
  show ?thesis
    unfolding ng_neogeo_video_overlay_fix_layer_argb_def Some option.case Let_def
    apply (rule ok_if, simp)
    apply (rule ok_bindI [where Q = "\<lambda>s. length s = length out"])
     apply (intro ok_loop; simp)
    apply (rule conjI)
    using fix_map_read [of _ _ v] assms(3) Some apply (simp add: not_less word_le_nat_alt)
    apply (intro ok_loop; simp add: line)
    apply simp
    done
qed (simp add: ng_neogeo_video_overlay_fix_layer_argb_def)

lemma fix_layer_in_bounds:
  assumes "array_ok s_rom n" "array_ok pal pn" "array_ok vram vn" "unat h * unat stride \<le> length out"
  shows "ok (\<lambda>(_, out'). length out' = length out)
    (ng_neogeo_video_render_fix_layer_argb s_rom n vram vn pal pn out w h stride)"
proof (cases vram)
  case (Some v)
  { fix tx ty py :: nat and s :: "u32 list"
    assume g: "\<not> vn < 0x7000 + 40 * 32" "\<not> w < 320" "\<not> stride < w" "\<not> h < 256"
      and t: "tx < 40" "ty < 32" "py < 8" and s: "length s = length out"
    have "unat (of_nat ty * 8 + of_nat py :: u32) \<le> ty * 8 + py"
      using unat_wrap_le(1) [of "of_nat ty * 8 :: u32" "of_nat py"] unat_wrap_le(2) [of "of_nat ty :: u32" 8]
        unat_wrap_le(3) [of ty, where 'a = 32] unat_wrap_le(3) [of py, where 'a = 32] by simp
    then have "unat (of_nat ty * 8 + of_nat py :: u32) < unat h"
      using t g(4) by (simp add: not_less word_le_nat_alt)
    then have "ok (\<lambda>s. length s = length out)
        (fix_tile_line s_rom n pal pn stride blank mw (of_nat tx) py (of_nat ty * 8 + of_nat py) s)" for mw blank
      using fix_tile_line_ok [OF assms(1,2), of _ h tx stride s] t g assms(4) s
      by (simp add: not_less word_le_nat_alt) }
  note line = this
  show ?thesis
    unfolding ng_neogeo_video_render_fix_layer_argb_def Some option.case Let_def
    apply (rule ok_if, simp)
    apply (rule ok_bindI [OF fill_frame_ok [OF assms(4)]], simp add: not_less)
    apply (rule ok_bindI [where Q = "\<lambda>s. length s = length out"])
     apply (intro ok_loop; simp)
    apply (rule conjI)
    using fix_map_read [of _ _ v] assms(3) Some apply (simp add: not_less word_le_nat_alt)
    apply (intro ok_loop; simp add: line)
    apply simp
    done
qed (simp add: ng_neogeo_video_render_fix_layer_argb_def)

subsection \<open>Chains\<close>

text \<open>
  The chain variables after the first \<open>k\<close> sprites of the whole display list, and whether sprite \<open>k\<close> is on a
  scanline with the position and height it has there.
\<close>

definition next_in_chain :: "u16 list \<Rightarrow> nat \<Rightarrow> sprite_chain \<Rightarrow> sprite_chain" where
  "next_in_chain vram k ch = sprite_chain_next (vram ! (0x8000 + k)) (vram ! (0x8200 + k)) (vram ! (0x8400 + k)) ch"

primrec chain_upto :: "u16 list \<Rightarrow> nat \<Rightarrow> sprite_chain" where
  "chain_upto vram 0 = sprite_chain_start"
| "chain_upto vram (Suc k) = next_in_chain vram k (chain_upto vram k)"

definition on_line :: "u16 list \<Rightarrow> u32 \<Rightarrow> nat \<Rightarrow> bool" where
  "on_line vram line k \<longleftrightarrow>
     (let ch = chain_upto vram (Suc k)
      in chain_rows ch \<noteq> 0 \<and> ng_neogeo_video_sprite_on_scanline line (chain_y ch) (chain_rows ch))"

definition sticky :: "u16 list \<Rightarrow> nat \<Rightarrow> bool" where
  "sticky vram k \<longleftrightarrow> drop_bit 6 (vram ! (0x8200 + k)) AND 1 \<noteq> 0"

lemma next_in_chain_fresh: "\<not> sticky vram k \<Longrightarrow> next_in_chain vram k ch = next_in_chain vram k ch'"
  by (simp add: sticky_def next_in_chain_def sprite_chain_next_def)

lemma next_in_chain_sticky [simp]:
  "sticky vram k \<Longrightarrow> chain_y (next_in_chain vram k ch) = chain_y ch"
  "sticky vram k \<Longrightarrow> chain_rows (next_in_chain vram k ch) = chain_rows ch"
  by (simp_all add: sticky_def next_in_chain_def sprite_chain_next_def)

lemma active_loop_eq:
  assumes "k \<le> 381" "0x8600 \<le> length vram" "length active < 96"
  shows "active_sprite_loop vram line (map of_nat [k..<381]) (chain_y (chain_upto vram k))
      (chain_rows (chain_upto vram k)) active =
    Some (take 96 (active @ map of_nat (filter (on_line vram line) [k..<381])))"
  using assms(1,3)
proof (induction "381 - k" arbitrary: k active)
  case (Suc d)
  then have k: "k < 381" "d = 381 - Suc k" by simp_all
  have u: "unat (of_nat k :: u16) = k" using k by (simp add: unsigned_of_nat take_bit_nat_eq_self)
  have r: "rd vram (0x8200 + unat (of_nat k :: u16)) = Some (vram ! (0x8200 + k))"
    unfolding u using assms(2) k by (simp add: rd_in_range)
  have ch: "(if drop_bit 6 (vram ! (0x8200 + k)) AND 1 = 0
       then (ng_neogeo_video_sprite_y (vram ! (0x8200 + k)), ucast (vram ! (0x8200 + k) AND 0x3F))
       else (chain_y (chain_upto vram k), chain_rows (chain_upto vram k))) =
     (chain_y (chain_upto vram (Suc k)), chain_rows (chain_upto vram (Suc k)))"
    by (simp add: next_in_chain_def sprite_chain_next_def)
  have up: "[k..<381] = k # [Suc k..<381]" using k by (simp add: upt_conv_Cons)
  have IH: "active_sprite_loop vram line (map of_nat [Suc k..<381]) (chain_y (chain_upto vram (Suc k)))
      (chain_rows (chain_upto vram (Suc k))) a =
    Some (take 96 (a @ map of_nat (filter (on_line vram line) [Suc k..<381])))" if "length a < 96" for a
    using Suc.hyps(1) [OF k(2)] k that by simp
  show ?case
    unfolding up list.map active_sprite_loop.simps r Option.bind.bind_lunit Let_def ch prod.case
    using Suc.prems(2) IH [of active] IH [of "active @ [of_nat k]"]
    by (auto simp: on_line_def Let_def simp del: chain_upto.simps)
qed simp

lemma previous_in_filter:
  assumes "i < length (filter P [0..<n])" "filter P [0..<n] ! i = Suc s" "P s"
  shows "\<exists>j. i = Suc j \<and> filter P [0..<n] ! j = s"
proof -
  let ?l = "filter P [0..<n]"
  have "Suc s \<in> set ?l" using assms(1,2) nth_mem by metis
  then have "s \<in> set ?l" using assms(3) by simp
  then obtain j where j: "j < length ?l" "?l ! j = s" unfolding in_set_conv_nth by blast
  have less: "?l ! a < ?l ! b" if "a < b" "b < length ?l" for a b
    using that sorted_wrt_nth_less [of "(<)" ?l a b] by (simp add: sorted_wrt_filter)
  have "j < i" using less [of i j] j assms(2) by (metis less_Suc_eq less_asym linorder_neqE_nat n_not_Suc_n)
  moreover have "\<not> Suc j < i"
    using less [of j "Suc j"] less [of "Suc j" i] j assms(1,2) by force
  ultimately show ?thesis using j by (metis Suc_lessI)
qed

text \<open>A chained sprite on the line follows the sprite before it: both have the height and position of the chain.\<close>

lemma on_line_chained: "on_line vram line k \<Longrightarrow> sticky vram k \<Longrightarrow> \<exists>j. k = Suc j \<and> on_line vram line j"
  by (cases k) (simp_all add: on_line_def Let_def sprite_chain_start_def)

definition display_list :: "u16 list \<Rightarrow> u32 \<Rightarrow> nat list" where
  "display_list vram line = filter (on_line vram line) [0..<381]"

lemma chain_before:
  assumes "i < length (display_list vram line)"
  shows "next_in_chain vram (display_list vram line ! i)
      (if i = 0 then sprite_chain_start else chain_upto vram (Suc (display_list vram line ! (i - 1)))) =
    chain_upto vram (Suc (display_list vram line ! i))"
proof (cases "sticky vram (display_list vram line ! i)")
  case True
  have "on_line vram line (display_list vram line ! i)"
    using assms nth_mem [OF assms] by (simp add: display_list_def)
  then obtain s where s: "display_list vram line ! i = Suc s" "on_line vram line s"
    using on_line_chained True by blast
  then obtain j where "i = Suc j" "display_list vram line ! j = s"
    using previous_in_filter assms unfolding display_list_def by blast
  then show ?thesis using s by simp
qed (simp add: next_in_chain_fresh [of vram _ _ "chain_upto vram _"])

lemma draw_loop_eq:
  assumes "0x8600 \<le> length vram" "i \<le> length (display_list vram line)"
  shows "loopM (ng_neogeo_video_draw_sprite_scanline c_rom n options vram pal pn dst l)
      (map of_nat (take i (display_list vram line))) (sprite_chain_start, out) =
    map_option (Pair (if i = 0 then sprite_chain_start else chain_upto vram (Suc (display_list vram line ! (i - 1)))))
      (loopM (\<lambda>k. draw_sprite_line c_rom n options vram pal pn dst l (of_nat k) (chain_upto vram (Suc k)))
         (take i (display_list vram line)) out)"
  using assms(2)
proof (induction i)
  case (Suc i)
  let ?k = "display_list vram line ! i"
  have k: "?k < 381" using nth_mem [of i "display_list vram line"] Suc.prems by (simp add: display_list_def)
  then have u: "unat (of_nat ?k :: u16) = ?k" by (simp add: unsigned_of_nat take_bit_nat_eq_self)
  have step: "sprite_chain_step vram (of_nat ?k) ch = Some (next_in_chain vram ?k ch)" for ch
    using k assms(1) by (simp add: sprite_chain_step_def u rd_in_range next_in_chain_def)
  have draw: "ng_neogeo_video_draw_sprite_scanline c_rom n options vram pal pn dst l (of_nat ?k) (ch, out) =
     map_option (Pair (next_in_chain vram ?k ch))
       (draw_sprite_line c_rom n options vram pal pn dst l (of_nat ?k) (next_in_chain vram ?k ch) out)" for ch out
    by (simp add: ng_neogeo_video_draw_sprite_scanline_def step map_conv_bind_option o_def)
  have tk: "take (Suc i) (display_list vram line) = take i (display_list vram line) @ [?k]"
    using Suc.prems by (simp add: take_Suc_conv_app_nth)
  have ch: "next_in_chain vram ?k (if i = 0 then sprite_chain_start
      else chain_upto vram (Suc (display_list vram line ! (i - 1)))) = chain_upto vram (Suc ?k)"
    using Suc.prems by (intro chain_before) simp
  show ?case
    unfolding tk map_append list.map loopM_append Suc.IH [OF Suc_leD [OF Suc.prems]]
    by (cases "loopM (\<lambda>k. draw_sprite_line c_rom n options vram pal pn dst l (of_nat k) (chain_upto vram (Suc k)))
         (take i (display_list vram line)) out")
      (simp_all add: draw ch del: chain_upto.simps)
qed simp

subsection \<open>Properties\<close>

text \<open>
  C32 (safety): the renderer makes no access outside its buffers. With ROMs, VRAM, palette and zoom ROM at
  least as long as the sizes passed with them and an output of at least height times stride pixels, the
  combined frame, the fix layer and the sprite-map atlas run to the end for every VRAM content, every
  option and every size and stride, including those whose pixel offsets exceed 32 bits, and keep the
  output array's length.
\<close>

theorem video_accesses_in_bounds:
  assumes "array_ok s_rom sn" and "array_ok c_rom cn" and "array_ok vram vn" and "array_ok pal pn"
    and "zoom_ok options" and "unat h * unat stride \<le> length out"
  shows "(\<exists>drawn out'. ng_neogeo_video_render_frame_argb_with_options s_rom sn c_rom cn options vram vn pal pn
            out w h stride = Some (drawn, out') \<and> length out' = length out) \<and>
    (\<exists>drawn out'. ng_neogeo_video_render_fix_layer_argb s_rom sn vram vn pal pn out w h stride =
            Some (drawn, out') \<and> length out' = length out) \<and>
    (\<exists>drawn out'. ng_neogeo_video_render_sprite_map_atlas_argb c_rom cn vram vn base pal pn out cols rows
            w h stride = Some (drawn, out') \<and> length out' = length out)"
proof -
  have "ok (\<lambda>(_, out'). length out' = length out) (ng_neogeo_video_render_frame_argb_with_options s_rom sn c_rom cn
      options vram vn pal pn out w h stride)"
    unfolding ng_neogeo_video_render_frame_argb_with_options_def
  proof (rule ok_bindI [OF sprite_frame_in_bounds [OF assms(2,4,5,3,6), of w]])
    fix r :: "bool \<times> u32 list" assume r: "case r of (_, out') \<Rightarrow> length out' = length out"
    obtain drawn out' where [simp]: "r = (drawn, out')" by fastforce
    show "ok (\<lambda>(_, out'). length out' = length out) (case r of (drawn, out) \<Rightarrow> if \<not> drawn then Some (False, out)
       else ng_neogeo_video_overlay_fix_layer_argb s_rom sn vram vn pal pn out w h stride 16)"
      using r overlay_in_bounds [OF assms(1,4,3), of h stride out' w 16] assms(6) by simp
  qed
  moreover note fix_layer_in_bounds [OF assms(1,4,3,6), of w]
    atlas_in_bounds [OF assms(2,4,3,6), of base cols rows w]
  ultimately show ?thesis by (auto simp: ok_iff)
qed

text \<open>
  C31 (equivalence): a scanline shows what the hardware's display list prescribes. The renderer collects the
  sprites on the line and runs the chain variables over this short list only; the result is the one of
  drawing the first 96 sprites that are on the line, in order, each at the position, height and zoom its
  chain has when all the sprites before it in the display list are counted.
\<close>

theorem scanline_draws_display_list:
  assumes "0x8600 \<le> length vram"
  shows "sprite_scanline c_rom cn options vram pal pn stride line out =
    loopM (\<lambda>k. draw_sprite_line c_rom cn options vram pal pn (unat (of_nat line * stride)) (of_nat line)
               (of_nat k) (chain_upto vram (Suc k)))
      (take 96 (filter (on_line vram (of_nat line)) [0..<381])) out"
proof -
  let ?l = "display_list vram (of_nat line)"
  have "ng_neogeo_video_build_active_sprite_list vram (of_nat line) = Some (map of_nat (take 96 ?l))"
    using active_loop_eq [of 0 vram "[]" "of_nat line"] assms
    by (simp add: ng_neogeo_video_build_active_sprite_list_def sprite_chain_start_def display_list_def take_map)
  moreover have "take 96 ?l = take (min 96 (length ?l)) ?l" by (simp add: min_def)
  ultimately show ?thesis
    unfolding display_list_def [symmetric]
    using draw_loop_eq [OF assms, of "min 96 (length ?l)"]
    by (simp add: sprite_scanline_def map_conv_bind_option o_def Let_def del: chain_upto.simps)
qed

theorem video_accesses_in_bounds_witness:
  "\<exists>drawn out'. ng_neogeo_video_render_frame_argb_with_options (Some (replicate 32 1)) 32 (Some (replicate 128 1)) 128 None
     (Some (replicate 0x8600 0)) 0x8600 (Some (replicate 0x1000 0)) 0x1000 (replicate 71680 0) 320 224 320 =
       Some (drawn, out') \<and> length out' = 71680"
  using video_accesses_in_bounds [of "Some (replicate 32 1)" 32 "Some (replicate 128 1)" 128
      "Some (replicate 0x8600 0)" "0x8600" "Some (replicate 0x1000 0)" "0x1000" None 224 320 "replicate 71680 0" 320]
  by (simp only: array_ok_simps zoom_ok_def option.case length_replicate) simp

theorem scanline_draws_display_list_witness:
  "sprite_scanline (Some []) 0 None (replicate 0x8600 0x1041) None 0 320 7 (replicate 71680 0) =
    loopM (\<lambda>k. draw_sprite_line (Some []) 0 None (replicate 0x8600 0x1041) None 0 (unat (of_nat 7 * 320 :: u32)) (of_nat 7)
               (of_nat k) (chain_upto (replicate 0x8600 0x1041) (Suc k)))
      (take 96 (filter (on_line (replicate 0x8600 0x1041) (of_nat 7)) [0..<381])) (replicate 71680 0)"
  by (rule scanline_draws_display_list) (simp only: length_replicate)

end
