(* ===== verification/NeogeoAudio.thy ===== *)
theory NeogeoAudio
  imports Prelude
begin

text \<open>
  The sound board of \<open>runtime/src/neogeo_audio.c\<close>: the Z80 bus with its banked M1 ROM, the ports, the log of
  YM2610 writes, the interrupt lines, the cycle accounting and the save states. Of the third-party Z80 core
  (\<open>third_party/superzazu\<close>) only the state and the three functions that set it are modelled; \<open>z80_step\<close> and
  the YM2610 binding are parameters. \<open>unsigned long\<close> has 64 bits.
\<close>

subsection \<open>Z80 state\<close>

record z80 =
  z_cyc :: u64
  z_pc :: u16
  z_sp :: u16
  z_ix :: u16
  z_iy :: u16
  z_mem_ptr :: u16
  z_a :: u8
  z_b :: u8
  z_c :: u8
  z_d :: u8
  z_e :: u8
  z_h :: u8
  z_l :: u8
  z_a2 :: u8
  z_b2 :: u8
  z_c2 :: u8
  z_d2 :: u8
  z_e2 :: u8
  z_h2 :: u8
  z_l2 :: u8
  z_f2 :: u8
  z_i :: u8
  z_r :: u8
  z_sf :: bool
  z_zf :: bool
  z_yf :: bool
  z_hf :: bool
  z_xf :: bool
  z_pf :: bool
  z_nf :: bool
  z_cf :: bool
  z_iff_delay :: u8
  z_interrupt_mode :: u8
  z_int_data :: u8
  z_iff1 :: bool
  z_iff2 :: bool
  z_halted :: bool
  z_int_pending :: bool
  z_nmi_pending :: bool

definition z80_init :: z80 where
  "z80_init =
     \<lparr>z_cyc = 0, z_pc = 0, z_sp = 0xFFFF, z_ix = 0, z_iy = 0, z_mem_ptr = 0, z_a = 0xFF, z_b = 0, z_c = 0,
      z_d = 0, z_e = 0, z_h = 0, z_l = 0, z_a2 = 0, z_b2 = 0, z_c2 = 0, z_d2 = 0, z_e2 = 0, z_h2 = 0, z_l2 = 0,
      z_f2 = 0, z_i = 0, z_r = 0, z_sf = True, z_zf = True, z_yf = True, z_hf = True, z_xf = True, z_pf = True,
      z_nf = True, z_cf = True, z_iff_delay = 0, z_interrupt_mode = 0, z_int_data = 0, z_iff1 = False,
      z_iff2 = False, z_halted = False, z_int_pending = False, z_nmi_pending = False\<rparr>"

definition z80_gen_nmi :: "z80 \<Rightarrow> z80" where
  "z80_gen_nmi z = z\<lparr>z_nmi_pending := True\<rparr>"

definition z80_gen_int :: "u8 \<Rightarrow> z80 \<Rightarrow> z80" where
  "z80_gen_int data z = z\<lparr>z_int_pending := True, z_int_data := data\<rparr>"

record ng_neo_audio_z80_state =
  zs_cyc :: u64
  zs_pc :: u16
  zs_sp :: u16
  zs_ix :: u16
  zs_iy :: u16
  zs_mem_ptr :: u16
  zs_a :: u8
  zs_b :: u8
  zs_c :: u8
  zs_d :: u8
  zs_e :: u8
  zs_h :: u8
  zs_l :: u8
  zs_a2 :: u8
  zs_b2 :: u8
  zs_c2 :: u8
  zs_d2 :: u8
  zs_e2 :: u8
  zs_h2 :: u8
  zs_l2 :: u8
  zs_f2 :: u8
  zs_i :: u8
  zs_r :: u8
  zs_sf :: u8
  zs_zf :: u8
  zs_yf :: u8
  zs_hf :: u8
  zs_xf :: u8
  zs_pf :: u8
  zs_nf :: u8
  zs_cf :: u8
  zs_iff_delay :: u8
  zs_interrupt_mode :: u8
  zs_int_data :: u8
  zs_iff1 :: u8
  zs_iff2 :: u8
  zs_halted :: u8
  zs_int_pending :: u8
  zs_nmi_pending :: u8

definition ng_audio_capture_z80_state :: "z80 \<Rightarrow> ng_neo_audio_z80_state" where
  "ng_audio_capture_z80_state cpu =
     \<lparr>zs_cyc = z_cyc cpu, zs_pc = z_pc cpu, zs_sp = z_sp cpu, zs_ix = z_ix cpu, zs_iy = z_iy cpu,
      zs_mem_ptr = z_mem_ptr cpu, zs_a = z_a cpu, zs_b = z_b cpu, zs_c = z_c cpu, zs_d = z_d cpu,
      zs_e = z_e cpu, zs_h = z_h cpu, zs_l = z_l cpu, zs_a2 = z_a2 cpu, zs_b2 = z_b2 cpu, zs_c2 = z_c2 cpu,
      zs_d2 = z_d2 cpu, zs_e2 = z_e2 cpu, zs_h2 = z_h2 cpu, zs_l2 = z_l2 cpu, zs_f2 = z_f2 cpu, zs_i = z_i cpu,
      zs_r = z_r cpu, zs_sf = of_bool (z_sf cpu), zs_zf = of_bool (z_zf cpu), zs_yf = of_bool (z_yf cpu),
      zs_hf = of_bool (z_hf cpu), zs_xf = of_bool (z_xf cpu), zs_pf = of_bool (z_pf cpu),
      zs_nf = of_bool (z_nf cpu), zs_cf = of_bool (z_cf cpu), zs_iff_delay = z_iff_delay cpu,
      zs_interrupt_mode = z_interrupt_mode cpu, zs_int_data = z_int_data cpu, zs_iff1 = of_bool (z_iff1 cpu),
      zs_iff2 = of_bool (z_iff2 cpu), zs_halted = of_bool (z_halted cpu),
      zs_int_pending = of_bool (z_int_pending cpu), zs_nmi_pending = of_bool (z_nmi_pending cpu)\<rparr>"

definition ng_audio_restore_z80_state :: "ng_neo_audio_z80_state \<Rightarrow> z80" where
  "ng_audio_restore_z80_state st =
     \<lparr>z_cyc = zs_cyc st, z_pc = zs_pc st, z_sp = zs_sp st, z_ix = zs_ix st, z_iy = zs_iy st,
      z_mem_ptr = zs_mem_ptr st, z_a = zs_a st, z_b = zs_b st, z_c = zs_c st, z_d = zs_d st, z_e = zs_e st,
      z_h = zs_h st, z_l = zs_l st, z_a2 = zs_a2 st, z_b2 = zs_b2 st, z_c2 = zs_c2 st, z_d2 = zs_d2 st,
      z_e2 = zs_e2 st, z_h2 = zs_h2 st, z_l2 = zs_l2 st, z_f2 = zs_f2 st, z_i = zs_i st, z_r = zs_r st,
      z_sf = (zs_sf st \<noteq> 0), z_zf = (zs_zf st \<noteq> 0), z_yf = (zs_yf st \<noteq> 0),
      z_hf = (zs_hf st \<noteq> 0), z_xf = (zs_xf st \<noteq> 0), z_pf = (zs_pf st \<noteq> 0),
      z_nf = (zs_nf st \<noteq> 0), z_cf = (zs_cf st \<noteq> 0), z_iff_delay = zs_iff_delay st,
      z_interrupt_mode = zs_interrupt_mode st, z_int_data = zs_int_data st, z_iff1 = (zs_iff1 st \<noteq> 0),
      z_iff2 = (zs_iff2 st \<noteq> 0), z_halted = (zs_halted st \<noteq> 0),
      z_int_pending = (zs_int_pending st \<noteq> 0), z_nmi_pending = (zs_nmi_pending st \<noteq> 0)\<rparr>"
subsection \<open>The sound board\<close>

text \<open>
  The YM2610 binding is C++ code over a third-party core: its operations are a record of functions on an
  arbitrary chip state \<open>'ym\<close>. \<open>z80_step\<close> runs one instruction of the third-party Z80 core, which reaches the
  board through the four callbacks; it is a function on the board.
\<close>

record 'ym ym2610 =
  ym_set_roms :: "u8 list option \<Rightarrow> u32 \<Rightarrow> u8 list option \<Rightarrow> u32 \<Rightarrow> 'ym \<Rightarrow> 'ym"
  ym_reset :: "'ym \<Rightarrow> 'ym"
  ym_read :: "u8 \<Rightarrow> 'ym \<Rightarrow> u8 \<times> 'ym"
  ym_write :: "u8 \<Rightarrow> u8 \<Rightarrow> 'ym \<Rightarrow> 'ym"
  ym_advance_clocks :: "u32 \<Rightarrow> 'ym \<Rightarrow> 'ym"
  ym_generate :: "u32 \<Rightarrow> u32 \<Rightarrow> 'ym \<Rightarrow> u16 list \<times> 'ym"
  ym_native_sample_rate :: "'ym \<Rightarrow> u32"
  ym_irq_pending :: "'ym \<Rightarrow> u8"
  ym_state_size :: "'ym option \<Rightarrow> u32"
  ym_save_state :: "'ym option \<Rightarrow> u32 \<Rightarrow> (u8 list \<times> u32) option"
  ym_load_state :: "u8 list \<Rightarrow> u32 \<Rightarrow> 'ym option \<Rightarrow> bool \<times> 'ym option"

record ng_neo_audio_ym_write =
  yw_z80_cycles :: u64
  yw_z80_pc :: u16
  yw_z80_caller :: u16
  yw_port :: u8
  yw_address :: u8
  yw_data :: u8

record ng_neo_audio_adpcm_a_event =
  ea_keyon_count :: u32
  ea_keyoff_count :: u32
  ea_start_addr :: u32
  ea_end_addr :: u32
  ea_channel :: u8
  ea_level :: u8
  ea_total_level :: u8
  ea_pan_left :: u8
  ea_pan_right :: u8

record ng_neo_audio_adpcm_b_event =
  eb_keyon_count :: u32
  eb_reset_count :: u32
  eb_start_addr :: u32
  eb_end_addr :: u32
  eb_delta_n :: u16
  eb_level :: u8
  eb_control :: u8
  eb_pan_left :: u8
  eb_pan_right :: u8
  eb_repeat :: u8
  eb_speaker_off :: u8

record 'ym ng_neo_audio =
  au_cpu :: z80
  au_ram :: "u8 list"
  au_m_rom :: "u8 list option"
  au_m_rom_size :: u32
  au_v1_rom :: "u8 list option"
  au_v1_rom_size :: u32
  au_v2_rom :: "u8 list option"
  au_v2_rom_size :: u32
  au_bank_a :: u8
  au_bank_b :: u8
  au_bank_c :: u8
  au_bank_d :: u8
  au_command_latch :: u8
  au_reply_latch :: u8
  au_nmi_enabled :: u8
  au_nmi_pending :: u8
  au_z80_cycle_credit :: u32
  au_command_ack_count :: u32
  au_command_read_count :: u32
  au_command_clear_count :: u32
  au_nmi_service_count :: u32
  au_ym_address :: "u8 list"
  au_ym_write_count :: u32
  au_ym_read_count :: u32
  au_ym_write_log :: "ng_neo_audio_ym_write list"
  au_ym_write_log_head :: u32
  au_adpcm_a_regs :: "u8 list"
  au_adpcm_b_regs :: "u8 list"
  au_last_adpcm_a :: ng_neo_audio_adpcm_a_event
  au_last_adpcm_b :: ng_neo_audio_adpcm_b_event
  au_ym :: "'ym option"

subsection \<open>The M1 ROM and the Z80 bus\<close>

definition ng_audio_effective_m_rom_size :: "'ym ng_neo_audio \<Rightarrow> u32" where
  "ng_audio_effective_m_rom_size audio =
     (if au_m_rom_size audio = 0x20000 then 0x30000 else au_m_rom_size audio)"

text \<open>The index \<open>ng_audio_read_m\<close> reads of a ROM that is present.\<close>

definition m_rom_index :: "'ym ng_neo_audio \<Rightarrow> u32 \<Rightarrow> u32" where
  "m_rom_index audio address =
     (let effective_size = ng_audio_effective_m_rom_size audio;
          addr = (if effective_size \<noteq> 0 \<and> effective_size \<le> address then address mod effective_size else address)
      in if au_m_rom_size audio = 0x20000 \<and> 0x10000 \<le> addr then (addr - 0x10000) AND 0x1FFFF
         else if addr < au_m_rom_size audio then addr
         else addr mod au_m_rom_size audio)"

definition ng_audio_read_m :: "'ym ng_neo_audio \<Rightarrow> u32 \<Rightarrow> u8" where
  "ng_audio_read_m audio addr =
     (case au_m_rom audio of
        None \<Rightarrow> 0xFF
      | Some rom \<Rightarrow> if au_m_rom_size audio = 0 then 0xFF else rom ! unat (m_rom_index audio addr))"

definition ng_audio_m_bank_base :: "'ym ng_neo_audio \<Rightarrow> u8 \<Rightarrow> nat \<Rightarrow> u32" where
  "ng_audio_m_bank_base audio bank shift =
     (let effective_size = ng_audio_effective_m_rom_size audio in
      if effective_size \<le> 0x10000 then 0
      else
        let m = (effective_size - 0x10000 - 1) AND 0x3FFFF;
            base = 0x10000 + (push_bit shift (ucast bank) AND m)
        in if base < effective_size then base
           else if effective_size - 0x10000 = 0 then 0
           else 0x10000 + (base - 0x10000) mod (effective_size - 0x10000))"

definition ng_audio_debug_read_z80_impl :: "'ym ng_neo_audio \<Rightarrow> u16 \<Rightarrow> u8" where
  "ng_audio_debug_read_z80_impl audio addr =
     (let bank = (\<lambda>b shift m. ng_audio_read_m audio (ng_audio_m_bank_base audio b shift + ucast (addr AND m))) in
      if addr \<le> 0x7FFF then ng_audio_read_m audio (ucast addr)
      else if addr \<le> 0xBFFF then bank (au_bank_a audio) 14 0x3FFF
      else if addr \<le> 0xDFFF then bank (au_bank_b audio) 13 0x1FFF
      else if addr \<le> 0xEFFF then bank (au_bank_c audio) 12 0x0FFF
      else if addr \<le> 0xF7FF then bank (au_bank_d audio) 11 0x07FF
      else au_ram audio ! unat (addr AND 0x7FF))"

definition ng_audio_debug_write_z80_impl :: "u16 \<Rightarrow> u8 \<Rightarrow> 'ym ng_neo_audio \<Rightarrow> 'ym ng_neo_audio" where
  "ng_audio_debug_write_z80_impl addr v audio =
     (if 0xF800 \<le> addr then audio\<lparr>au_ram := (au_ram audio)[unat (addr AND 0x7FF) := v]\<rparr> else audio)"

subsection \<open>Writes to the YM2610\<close>

definition ng_audio_record_ym_write :: "u8 \<Rightarrow> u8 \<Rightarrow> u8 \<Rightarrow> 'ym ng_neo_audio \<Rightarrow> 'ym ng_neo_audio" where
  "ng_audio_record_ym_write port address data audio =
     (let sp = z_sp (au_cpu audio);
          entry = \<lparr>yw_z80_cycles = z_cyc (au_cpu audio), yw_z80_pc = z_pc (au_cpu audio),
            yw_z80_caller = ucast (ng_audio_debug_read_z80_impl audio sp) OR
              push_bit 8 (ucast (ng_audio_debug_read_z80_impl audio (sp + 1))),
            yw_port = port, yw_address = address, yw_data = data\<rparr>
      in audio\<lparr>au_ym_write_log := (au_ym_write_log audio)[unat (au_ym_write_log_head audio) := entry],
               au_ym_write_log_head := (au_ym_write_log_head audio + 1) mod 256,
               au_ym_write_count := au_ym_write_count audio + 1\<rparr>)"

text \<open>A 16-bit address in two registers, in units of 256 bytes.\<close>

definition adpcm_addr :: "u8 list \<Rightarrow> nat \<Rightarrow> nat \<Rightarrow> u32" where
  "adpcm_addr regs lo hi = push_bit 8 (ucast (regs ! lo) OR push_bit 8 (ucast (regs ! hi)))"

definition ng_audio_refresh_last_adpcm_a_event :: "'ym ng_neo_audio \<Rightarrow> 'ym ng_neo_audio" where
  "ng_audio_refresh_last_adpcm_a_event audio =
     (let e = au_last_adpcm_a audio; ch = unat (ea_channel e); r = au_adpcm_a_regs audio in
      if ea_keyon_count e = 0 \<or> 6 \<le> ea_channel e then audio
      else audio\<lparr>au_last_adpcm_a := e\<lparr>
        ea_start_addr := adpcm_addr r (0x10 + ch) (0x18 + ch), ea_end_addr := adpcm_addr r (0x20 + ch) (0x28 + ch),
        ea_level := r ! (0x08 + ch) AND 0x1F, ea_total_level := r ! 0x01 AND 0x3F,
        ea_pan_left := of_bool (r ! (0x08 + ch) AND 0x80 \<noteq> 0), ea_pan_right := of_bool (r ! (0x08 + ch) AND 0x40 \<noteq> 0)\<rparr>\<rparr>)"

definition ng_audio_refresh_last_adpcm_b_event :: "'ym ng_neo_audio \<Rightarrow> 'ym ng_neo_audio" where
  "ng_audio_refresh_last_adpcm_b_event audio =
     (let e = au_last_adpcm_b audio; r = au_adpcm_b_regs audio in
      if eb_keyon_count e = 0 then audio
      else audio\<lparr>au_last_adpcm_b := e\<lparr>
        eb_start_addr := adpcm_addr r 0x02 0x03, eb_end_addr := adpcm_addr r 0x04 0x05,
        eb_delta_n := ucast (r ! 0x09) OR push_bit 8 (ucast (r ! 0x0A)), eb_level := r ! 0x0B, eb_control := r ! 0x00,
        eb_pan_left := of_bool (r ! 0x01 AND 0x80 \<noteq> 0), eb_pan_right := of_bool (r ! 0x01 AND 0x40 \<noteq> 0),
        eb_repeat := of_bool (r ! 0x00 AND 0x10 \<noteq> 0), eb_speaker_off := of_bool (r ! 0x00 AND 0x08 \<noteq> 0)\<rparr>\<rparr>)"

text \<open>The key-on and key-off bits of the ADPCM-A control register.\<close>

definition adpcm_a_keys :: "u8 \<Rightarrow> ng_neo_audio_adpcm_a_event \<Rightarrow> ng_neo_audio_adpcm_a_event" where
  "adpcm_a_keys data e =
     fold (\<lambda>ch e.
         if (data AND 0x3F) AND push_bit ch 1 = 0 then e
         else if data AND 0x80 \<noteq> 0 then e\<lparr>ea_keyoff_count := ea_keyoff_count e + 1\<rparr>
         else e\<lparr>ea_keyon_count := ea_keyon_count e + 1, ea_channel := of_nat ch\<rparr>)
       [0..<6] e"

definition ng_audio_track_ym_data_write :: "u8 \<Rightarrow> u8 \<Rightarrow> u8 \<Rightarrow> 'ym ng_neo_audio \<Rightarrow> 'ym ng_neo_audio" where
  "ng_audio_track_ym_data_write port address data audio =
     (if port = 3 \<and> address < 0x30 then
        let a1 = audio\<lparr>au_adpcm_a_regs := (au_adpcm_a_regs audio)[unat address := data]\<rparr>;
            a2 = (if address = 0 then a1\<lparr>au_last_adpcm_a := adpcm_a_keys data (au_last_adpcm_a a1)\<rparr> else a1)
        in ng_audio_refresh_last_adpcm_a_event a2
      else if port = 1 \<and> 0x10 \<le> address \<and> address \<le> 0x1B then
        let reg = address - 0x10;
            effective = (if reg = 0 then (data OR 0x20) AND NOT 0x40 else data);
            a1 = audio\<lparr>au_adpcm_b_regs := (au_adpcm_b_regs audio)[unat reg := effective]\<rparr>;
            e = au_last_adpcm_b a1;
            e1 = (if reg = 0 \<and> effective AND 0x80 \<noteq> 0 then e\<lparr>eb_keyon_count := eb_keyon_count e + 1\<rparr> else e);
            e2 = (if reg = 0 \<and> effective AND 0x01 \<noteq> 0 then e1\<lparr>eb_reset_count := eb_reset_count e1 + 1\<rparr> else e1)
        in ng_audio_refresh_last_adpcm_b_event (a1\<lparr>au_last_adpcm_b := e2\<rparr>)
      else audio)"

definition ng_audio_ym_read :: "'ym ym2610 \<Rightarrow> u8 \<Rightarrow> 'ym ng_neo_audio \<Rightarrow> u8 \<times> 'ym ng_neo_audio" where
  "ng_audio_ym_read chip port audio =
     (let a1 = audio\<lparr>au_ym_read_count := au_ym_read_count audio + 1\<rparr> in
      case au_ym a1 of
        None \<Rightarrow> (0, a1)
      | Some ym \<Rightarrow> (case ym_read chip port ym of (v, ym') \<Rightarrow> (v, a1\<lparr>au_ym := Some ym'\<rparr>)))"

definition ng_audio_ym_write :: "'ym ym2610 \<Rightarrow> u8 \<Rightarrow> u8 \<Rightarrow> 'ym ng_neo_audio \<Rightarrow> 'ym ng_neo_audio" where
  "ng_audio_ym_write chip port data audio =
     (let latch = unat (drop_bit 1 port AND 1); send = (\<lambda>a. a\<lparr>au_ym := map_option (ym_write chip port data) (au_ym a)\<rparr>) in
      if port AND 1 = 0 then send (audio\<lparr>au_ym_address := (au_ym_address audio)[latch := data]\<rparr>)
      else
        let address = au_ym_address audio ! latch
        in send (ng_audio_track_ym_data_write port address data (ng_audio_record_ym_write port address data audio)))"

subsection \<open>Z80 ports\<close>

definition ng_audio_port_read_impl :: "'ym ym2610 \<Rightarrow> u16 \<Rightarrow> 'ym ng_neo_audio \<Rightarrow> u8 \<times> 'ym ng_neo_audio" where
  "ng_audio_port_read_impl chip port_addr audio =
     (let p = port_addr AND 0x000F; high = ucast (drop_bit 8 port_addr) in
      if p = 0x00 then
        (au_command_latch audio,
         audio\<lparr>au_command_ack_count := au_command_ack_count audio + 1,
               au_command_read_count := au_command_read_count audio + 1, au_nmi_pending := 0\<rparr>)
      else if p = 0x04 then ng_audio_ym_read chip 0 audio
      else if p = 0x05 then ng_audio_ym_read chip 1 audio
      else if p = 0x06 then ng_audio_ym_read chip 2 audio
      else if p = 0x07 then ng_audio_ym_read chip 3 audio
      else if p = 0x08 then (0, audio\<lparr>au_bank_d := high\<rparr>)
      else if p = 0x09 then (0, audio\<lparr>au_bank_c := high\<rparr>)
      else if p = 0x0A then (0, audio\<lparr>au_bank_b := high\<rparr>)
      else if p = 0x0B then (0, audio\<lparr>au_bank_a := high\<rparr>)
      else if p = 0x0C then (0, audio)
      else (0xFF, audio))"

definition ng_audio_port_write_impl :: "'ym ym2610 \<Rightarrow> u16 \<Rightarrow> u8 \<Rightarrow> 'ym ng_neo_audio \<Rightarrow> 'ym ng_neo_audio" where
  "ng_audio_port_write_impl chip port_addr v audio =
     (let q = port_addr AND 0x001F; p = port_addr AND 0x000F in
      if q = 0x08 \<or> q = 0x09 \<or> q = 0x0A \<or> q = 0x0B then audio\<lparr>au_nmi_enabled := 1\<rparr>
      else if q = 0x18 then audio\<lparr>au_nmi_enabled := 0\<rparr>
      else if p = 0x00 then
        audio\<lparr>au_command_latch := 0, au_command_ack_count := au_command_ack_count audio + 1,
              au_command_clear_count := au_command_clear_count audio + 1\<rparr>
      else if p = 0x04 then ng_audio_ym_write chip 0 v audio
      else if p = 0x05 then ng_audio_ym_write chip 1 v audio
      else if p = 0x06 then ng_audio_ym_write chip 2 v audio
      else if p = 0x07 then ng_audio_ym_write chip 3 v audio
      else if p = 0x0C then audio\<lparr>au_reply_latch := v\<rparr>
      else audio)"

subsection \<open>Life cycle and clocks\<close>

definition ym_write_zero :: ng_neo_audio_ym_write where
  "ym_write_zero = \<lparr>yw_z80_cycles = 0, yw_z80_pc = 0, yw_z80_caller = 0, yw_port = 0, yw_address = 0, yw_data = 0\<rparr>"

definition adpcm_a_zero :: ng_neo_audio_adpcm_a_event where
  "adpcm_a_zero = \<lparr>ea_keyon_count = 0, ea_keyoff_count = 0, ea_start_addr = 0, ea_end_addr = 0, ea_channel = 0,
     ea_level = 0, ea_total_level = 0, ea_pan_left = 0, ea_pan_right = 0\<rparr>"

definition adpcm_b_zero :: ng_neo_audio_adpcm_b_event where
  "adpcm_b_zero = \<lparr>eb_keyon_count = 0, eb_reset_count = 0, eb_start_addr = 0, eb_end_addr = 0, eb_delta_n = 0,
     eb_level = 0, eb_control = 0, eb_pan_left = 0, eb_pan_right = 0, eb_repeat = 0, eb_speaker_off = 0\<rparr>"

definition ng_neogeo_audio_set_roms ::
  "'ym ym2610 \<Rightarrow> u8 list option \<Rightarrow> u32 \<Rightarrow> u8 list option \<Rightarrow> u32 \<Rightarrow> u8 list option \<Rightarrow> u32 \<Rightarrow>
   'ym ng_neo_audio \<Rightarrow> 'ym ng_neo_audio" where
  "ng_neogeo_audio_set_roms chip m m_size v1 v1_size v2 v2_size audio =
     audio\<lparr>au_m_rom := m, au_m_rom_size := m_size, au_v1_rom := v1, au_v1_rom_size := v1_size,
           au_v2_rom := v2, au_v2_rom_size := v2_size,
           au_ym := map_option (ym_set_roms chip v1 v1_size v2 v2_size) (au_ym audio)\<rparr>"

definition ng_neogeo_audio_reset :: "'ym ym2610 \<Rightarrow> 'ym ng_neo_audio \<Rightarrow> 'ym ng_neo_audio" where
  "ng_neogeo_audio_reset chip audio =
     \<lparr>au_cpu = z80_init, au_ram = replicate 0x800 0, au_m_rom = au_m_rom audio, au_m_rom_size = au_m_rom_size audio,
      au_v1_rom = au_v1_rom audio, au_v1_rom_size = au_v1_rom_size audio, au_v2_rom = au_v2_rom audio,
      au_v2_rom_size = au_v2_rom_size audio, au_bank_a = 0x02, au_bank_b = 0x06, au_bank_c = 0x0E, au_bank_d = 0x1E,
      au_command_latch = 0, au_reply_latch = 0xFF, au_nmi_enabled = 0, au_nmi_pending = 0, au_z80_cycle_credit = 0,
      au_command_ack_count = 0, au_command_read_count = 0, au_command_clear_count = 0, au_nmi_service_count = 0,
      au_ym_address = [0, 0], au_ym_write_count = 0, au_ym_read_count = 0,
      au_ym_write_log = replicate 256 ym_write_zero, au_ym_write_log_head = 0, au_adpcm_a_regs = replicate 0x30 0,
      au_adpcm_b_regs = replicate 0x11 0, au_last_adpcm_a = adpcm_a_zero\<lparr>ea_channel := 0xFF\<rparr>,
      au_last_adpcm_b = adpcm_b_zero,
      au_ym = map_option (\<lambda>ym. ym_reset chip (ym_set_roms chip (au_v1_rom audio) (au_v1_rom_size audio)
                             (au_v2_rom audio) (au_v2_rom_size audio) ym)) (au_ym audio)\<rparr>"

text \<open>The zeroed board of \<open>calloc\<close>, with the chip \<open>ng_neogeo_ym2610_create\<close> returned, reset.\<close>

definition ng_neogeo_audio_create :: "'ym ym2610 \<Rightarrow> 'ym option \<Rightarrow> 'ym ng_neo_audio" where
  "ng_neogeo_audio_create chip ym =
     ng_neogeo_audio_reset chip
       \<lparr>au_cpu = z80_init, au_ram = replicate 0x800 0, au_m_rom = None, au_m_rom_size = 0, au_v1_rom = None,
        au_v1_rom_size = 0, au_v2_rom = None, au_v2_rom_size = 0, au_bank_a = 0, au_bank_b = 0, au_bank_c = 0,
        au_bank_d = 0, au_command_latch = 0, au_reply_latch = 0, au_nmi_enabled = 0, au_nmi_pending = 0,
        au_z80_cycle_credit = 0, au_command_ack_count = 0, au_command_read_count = 0, au_command_clear_count = 0,
        au_nmi_service_count = 0, au_ym_address = [0, 0], au_ym_write_count = 0, au_ym_read_count = 0,
        au_ym_write_log = replicate 256 ym_write_zero, au_ym_write_log_head = 0, au_adpcm_a_regs = replicate 0x30 0,
        au_adpcm_b_regs = replicate 0x11 0, au_last_adpcm_a = adpcm_a_zero, au_last_adpcm_b = adpcm_b_zero, au_ym = ym\<rparr>"

definition ng_neogeo_audio_write_command :: "u8 \<Rightarrow> 'ym ng_neo_audio \<Rightarrow> 'ym ng_neo_audio" where
  "ng_neogeo_audio_write_command command audio = audio\<lparr>au_command_latch := command, au_nmi_pending := 1\<rparr>"

text \<open>The interrupt lines as \<open>ng_audio_step_z80\<close> sets them before the instruction.\<close>

definition deliver_nmi :: "'ym ng_neo_audio \<Rightarrow> 'ym ng_neo_audio" where
  "deliver_nmi audio =
     (if au_nmi_pending audio \<noteq> 0 \<and> au_nmi_enabled audio \<noteq> 0 \<and> \<not> z_nmi_pending (au_cpu audio)
      then audio\<lparr>au_cpu := z80_gen_nmi (au_cpu audio), au_nmi_pending := 0,
                 au_nmi_service_count := au_nmi_service_count audio + 1\<rparr>
      else audio)"

definition ym_irq_line :: "'ym ym2610 \<Rightarrow> 'ym ng_neo_audio \<Rightarrow> bool" where
  "ym_irq_line chip audio \<longleftrightarrow> (case au_ym audio of None \<Rightarrow> False | Some ym \<Rightarrow> ym_irq_pending chip ym \<noteq> 0)"

definition deliver_int :: "'ym ym2610 \<Rightarrow> 'ym ng_neo_audio \<Rightarrow> 'ym ng_neo_audio" where
  "deliver_int chip audio =
     (if ym_irq_line chip audio then
        (if \<not> z_int_pending (au_cpu audio) then audio\<lparr>au_cpu := z80_gen_int 0xFF (au_cpu audio)\<rparr> else audio)
      else if z_int_pending (au_cpu audio) then audio\<lparr>au_cpu := (au_cpu audio)\<lparr>z_int_pending := False\<rparr>\<rparr>
      else audio)"

definition ng_audio_step_z80 ::
  "'ym ym2610 \<Rightarrow> ('ym ng_neo_audio \<Rightarrow> 'ym ng_neo_audio) \<Rightarrow> 'ym ng_neo_audio \<Rightarrow> 'ym ng_neo_audio" where
  "ng_audio_step_z80 chip z80_step audio =
     (let a1 = deliver_int chip (deliver_nmi audio);
          before = z_cyc (au_cpu a1);
          a2 = z80_step a1;
          after = z_cyc (au_cpu a2)
      in if before < after
         then a2\<lparr>au_ym := map_option (ym_advance_clocks chip (ucast (after - before) * 2)) (au_ym a2)\<rparr>
         else a2)"

text \<open>The loop of \<open>ng_neogeo_audio_advance_z80_cycles\<close>, with \<open>max_instructions\<close> as its own bound.\<close>

primrec advance_loop ::
  "'ym ym2610 \<Rightarrow> ('ym ng_neo_audio \<Rightarrow> 'ym ng_neo_audio) \<Rightarrow> u64 \<Rightarrow> u32 \<Rightarrow> nat \<Rightarrow> 'ym ng_neo_audio \<Rightarrow> 'ym ng_neo_audio" where
  "advance_loop chip z80_step start cycles 0 audio = audio"
| "advance_loop chip z80_step start cycles (Suc n) audio =
     (if ucast (z_cyc (au_cpu audio) - start) < cycles
      then advance_loop chip z80_step start cycles n (ng_audio_step_z80 chip z80_step audio)
      else audio)"

definition ng_neogeo_audio_advance_z80_cycles ::
  "'ym ym2610 \<Rightarrow> ('ym ng_neo_audio \<Rightarrow> 'ym ng_neo_audio) \<Rightarrow> u32 \<Rightarrow> 'ym ng_neo_audio \<Rightarrow> 'ym ng_neo_audio" where
  "ng_neogeo_audio_advance_z80_cycles chip z80_step cycles0 audio =
     (if cycles0 = 0 then audio
      else if au_z80_cycle_credit audio \<noteq> 0 \<and> cycles0 \<le> au_z80_cycle_credit audio
      then audio\<lparr>au_z80_cycle_credit := au_z80_cycle_credit audio - cycles0\<rparr>
      else
        let cycles = cycles0 - au_z80_cycle_credit audio;
            a1 = audio\<lparr>au_z80_cycle_credit := 0\<rparr>;
            start = z_cyc (au_cpu a1);
            a2 = advance_loop chip z80_step start cycles (unat (cycles * 2 + 1024)) a1;
            advanced = ucast (z_cyc (au_cpu a2) - start)
        in if cycles < advanced then a2\<lparr>au_z80_cycle_credit := advanced - cycles\<rparr> else a2)"

subsection \<open>Output and inspection\<close>

text \<open>The samples written to \<open>stereo_out\<close>; \<open>None\<close> when the call returns at once.\<close>

definition ng_neogeo_audio_generate ::
  "'ym ym2610 \<Rightarrow> u32 \<Rightarrow> u32 \<Rightarrow> 'ym ng_neo_audio \<Rightarrow> u16 list option \<times> 'ym ng_neo_audio" where
  "ng_neogeo_audio_generate chip frames sample_rate audio =
     (if frames = 0 then (None, audio)
      else case au_ym audio of
        None \<Rightarrow> (Some (replicate (unat frames * 2) 0), audio)
      | Some ym \<Rightarrow> (case ym_generate chip frames sample_rate ym of (xs, ym') \<Rightarrow> (Some xs, audio\<lparr>au_ym := Some ym'\<rparr>)))"

definition ng_neogeo_audio_ym2610_native_sample_rate :: "'ym ym2610 \<Rightarrow> 'ym ng_neo_audio \<Rightarrow> u32" where
  "ng_neogeo_audio_ym2610_native_sample_rate chip audio =
     (case au_ym audio of None \<Rightarrow> 0 | Some ym \<Rightarrow> ym_native_sample_rate chip ym)"

definition ng_neogeo_audio_ym2610_irq_pending :: "'ym ym2610 \<Rightarrow> 'ym ng_neo_audio \<Rightarrow> u8" where
  "ng_neogeo_audio_ym2610_irq_pending chip audio =
     (case au_ym audio of None \<Rightarrow> 0 | Some ym \<Rightarrow> ym_irq_pending chip ym)"

definition ng_neogeo_audio_last_ym_write :: "'ym ng_neo_audio \<Rightarrow> ng_neo_audio_ym_write" where
  "ng_neogeo_audio_last_ym_write audio =
     (if au_ym_write_count audio = 0 then ym_write_zero
      else au_ym_write_log audio !
             (if au_ym_write_log_head audio = 0 then 255 else unat (au_ym_write_log_head audio - 1)))"

definition ng_neogeo_audio_copy_recent_ym_writes :: "'ym ng_neo_audio \<Rightarrow> u32 \<Rightarrow> ng_neo_audio_ym_write list" where
  "ng_neogeo_audio_copy_recent_ym_writes audio out_capacity =
     (if out_capacity = 0 \<or> au_ym_write_count audio = 0 then []
      else
        let available = (if 256 < au_ym_write_count audio then 256 else au_ym_write_count audio);
            n = (if available < out_capacity then available else out_capacity);
            start = (au_ym_write_log_head audio + 256 - n) mod 256
        in map (\<lambda>i. au_ym_write_log audio ! unat ((start + of_nat i) mod 256)) [0..<unat n])"

definition ng_neogeo_audio_copy_work_ram :: "'ym ng_neo_audio \<Rightarrow> u32 \<Rightarrow> u8 list option" where
  "ng_neogeo_audio_copy_work_ram audio out_size = (if out_size < 0x800 then None else Some (au_ram audio))"

subsection \<open>Save states\<close>

text \<open>
  As in \<open>RuntimeSave\<close>, the structure stands for its bytes and its size is the parameter \<open>prefix_bytes\<close>; the chip's
  own state follows it as bytes.
\<close>

record ng_neo_audio_state_prefix =
  sp_magic :: u32
  sp_version :: u32
  sp_size :: u32
  sp_ym_state_size :: u32
  sp_cpu :: ng_neo_audio_z80_state
  sp_ram :: "u8 list"
  sp_banks :: "u8 \<times> u8 \<times> u8 \<times> u8"
  sp_command_latch :: u8
  sp_reply_latch :: u8
  sp_nmi_enabled :: u8
  sp_nmi_pending :: u8
  sp_z80_cycle_credit :: u32
  sp_command_ack_count :: u32
  sp_command_read_count :: u32
  sp_command_clear_count :: u32
  sp_nmi_service_count :: u32
  sp_ym_address :: "u8 \<times> u8"
  sp_ym_write_count :: u32
  sp_ym_read_count :: u32
  sp_ym_write_log :: "ng_neo_audio_ym_write list"
  sp_ym_write_log_head :: u32
  sp_adpcm_a_regs :: "u8 list"
  sp_adpcm_b_regs :: "u8 list"
  sp_last_adpcm_a :: ng_neo_audio_adpcm_a_event
  sp_last_adpcm_b :: ng_neo_audio_adpcm_b_event

definition NG_NEO_AUDIO_STATE_MAGIC :: u32 where "NG_NEO_AUDIO_STATE_MAGIC = 0x4E474153"

definition NG_NEO_AUDIO_STATE_VERSION :: u32 where "NG_NEO_AUDIO_STATE_VERSION = 1"

definition ng_neogeo_audio_state_size :: "u32 \<Rightarrow> 'ym ym2610 \<Rightarrow> 'ym ng_neo_audio \<Rightarrow> u32" where
  "ng_neogeo_audio_state_size prefix_bytes chip audio =
     (if 0xFFFFFFFF - prefix_bytes < ym_state_size chip (au_ym audio) then 0
      else prefix_bytes + ym_state_size chip (au_ym audio))"

definition ng_neogeo_audio_save_state ::
  "u32 \<Rightarrow> 'ym ym2610 \<Rightarrow> 'ym ng_neo_audio \<Rightarrow> u32 \<Rightarrow> (ng_neo_audio_state_prefix \<times> u8 list) option \<times> u32" where
  "ng_neogeo_audio_save_state prefix_bytes chip audio out_size =
     (let total_size = ng_neogeo_audio_state_size prefix_bytes chip audio;
          ym_size = (if prefix_bytes \<le> total_size then total_size - prefix_bytes else 0) in
      if total_size = 0 \<or> out_size < total_size then (None, 0)
      else
        let st = \<lparr>sp_magic = NG_NEO_AUDIO_STATE_MAGIC, sp_version = NG_NEO_AUDIO_STATE_VERSION, sp_size = total_size,
          sp_ym_state_size = ym_size, sp_cpu = ng_audio_capture_z80_state (au_cpu audio), sp_ram = au_ram audio,
          sp_banks = (au_bank_a audio, au_bank_b audio, au_bank_c audio, au_bank_d audio),
          sp_command_latch = au_command_latch audio, sp_reply_latch = au_reply_latch audio,
          sp_nmi_enabled = au_nmi_enabled audio, sp_nmi_pending = au_nmi_pending audio,
          sp_z80_cycle_credit = au_z80_cycle_credit audio, sp_command_ack_count = au_command_ack_count audio,
          sp_command_read_count = au_command_read_count audio, sp_command_clear_count = au_command_clear_count audio,
          sp_nmi_service_count = au_nmi_service_count audio,
          sp_ym_address = (au_ym_address audio ! 0, au_ym_address audio ! 1),
          sp_ym_write_count = au_ym_write_count audio, sp_ym_read_count = au_ym_read_count audio,
          sp_ym_write_log = au_ym_write_log audio, sp_ym_write_log_head = au_ym_write_log_head audio,
          sp_adpcm_a_regs = au_adpcm_a_regs audio, sp_adpcm_b_regs = au_adpcm_b_regs audio,
          sp_last_adpcm_a = au_last_adpcm_a audio, sp_last_adpcm_b = au_last_adpcm_b audio\<rparr>
        in if ym_size = 0 then (Some (st, []), total_size)
           else case ym_save_state chip (au_ym audio) (out_size - prefix_bytes) of
             None \<Rightarrow> (None, 0)
           | Some (bytes, written) \<Rightarrow> if written \<noteq> ym_size then (None, 0) else (Some (st, bytes), total_size))"

definition ng_neogeo_audio_load_state ::
  "u32 \<Rightarrow> 'ym ym2610 \<Rightarrow> ng_neo_audio_state_prefix \<times> u8 list \<Rightarrow> u32 \<Rightarrow> 'ym ng_neo_audio \<Rightarrow> bool \<times> 'ym ng_neo_audio" where
  "ng_neogeo_audio_load_state prefix_bytes chip data sz audio =
     (case data of (st, bytes) \<Rightarrow>
        if sz < prefix_bytes then (False, audio)
        else if sp_magic st \<noteq> NG_NEO_AUDIO_STATE_MAGIC \<or> sp_version st \<noteq> NG_NEO_AUDIO_STATE_VERSION \<or>
                sp_size st \<noteq> sz \<or> sp_ym_state_size st \<noteq> sz - prefix_bytes then (False, audio)
        else if 256 \<le> sp_ym_write_log_head st then (False, audio)
        else
          let a1 = audio\<lparr>au_cpu := ng_audio_restore_z80_state (sp_cpu st), au_ram := sp_ram st,
            au_bank_a := fst (sp_banks st), au_bank_b := fst (snd (sp_banks st)),
            au_bank_c := fst (snd (snd (sp_banks st))), au_bank_d := snd (snd (snd (sp_banks st))),
            au_command_latch := sp_command_latch st, au_reply_latch := sp_reply_latch st,
            au_nmi_enabled := sp_nmi_enabled st, au_nmi_pending := sp_nmi_pending st,
            au_z80_cycle_credit := sp_z80_cycle_credit st, au_command_ack_count := sp_command_ack_count st,
            au_command_read_count := sp_command_read_count st, au_command_clear_count := sp_command_clear_count st,
            au_nmi_service_count := sp_nmi_service_count st,
            au_ym_address := [fst (sp_ym_address st), snd (sp_ym_address st)],
            au_ym_write_count := sp_ym_write_count st, au_ym_read_count := sp_ym_read_count st,
            au_ym_write_log := sp_ym_write_log st, au_ym_write_log_head := sp_ym_write_log_head st,
            au_adpcm_a_regs := sp_adpcm_a_regs st, au_adpcm_b_regs := sp_adpcm_b_regs st,
            au_last_adpcm_a := sp_last_adpcm_a st, au_last_adpcm_b := sp_last_adpcm_b st\<rparr>
          in if sp_ym_state_size st = 0 then (True, a1)
             else (case ym_load_state chip bytes (sp_ym_state_size st) (au_ym a1) of (ok, ym) \<Rightarrow> (ok, a1\<lparr>au_ym := ym\<rparr>)))"

end
