(* ===== verification/NeogeoAudioProps.thy ===== *)
theory NeogeoAudioProps
  imports NeogeoAudio
begin

text \<open>
  What the sound board promises: every M1 address reads the image the code comment describes, slices of time add
  up without drift, the log returns the last YM2610 writes, and a save state restores the board.
\<close>

subsection \<open>The M1 image\<close>

definition effective_image :: "u8 list \<Rightarrow> u8 list" where
  "effective_image rom = (if length rom = 0x20000 then take 0x10000 rom @ rom else rom)"

definition m1_loaded :: "u8 list \<Rightarrow> 'ym ng_neo_audio \<Rightarrow> bool" where
  "m1_loaded rom audio \<longleftrightarrow> au_m_rom audio = Some rom \<and> unat (au_m_rom_size audio) = length rom \<and> rom \<noteq> []"

lemma and_17bit: "(x :: u32) < 0x20000 \<Longrightarrow> x AND 0x1FFFF = x"
proof -
  assume "x < 0x20000"
  then have "take_bit 17 (unat x) = unat x" by (simp add: take_bit_nat_eq_self word_less_nat_alt)
  then have "unat (take_bit 17 x) = unat x" by (simp add: unsigned_take_bit_eq)
  then have "take_bit 17 x = x" by (rule unsigned_word_eqI)
  moreover have "(0x1FFFF :: u32) = mask 17" by (simp add: mask_eq_exp_minus_1)
  ultimately show ?thesis by (simp only: take_bit_eq_mask)
qed

lemma m_rom_index_128k:
  assumes "au_m_rom_size audio = 0x20000"
  shows "unat (m_rom_index audio a) =
    (let k = unat a mod 0x30000 in if k < 0x10000 then k else k - 0x10000)"
proof -
  have e: "(if (0x30000 :: u32) \<le> a then a mod 0x30000 else a) = a mod 0x30000"
    by (simp add: word_le_nat_alt word_less_nat_alt word_arith_nat_mod unat_mod)
  let ?k = "a mod 0x30000"
  have k: "unat ?k = unat a mod 0x30000" by (simp add: unat_mod)
  have lt: "unat ?k < 0x30000" using k by simp
  have "unat ((?k - 0x10000) AND 0x1FFFF) = unat ?k - 0x10000" if "0x10000 \<le> ?k"
  proof -
    have "unat (?k - 0x10000) = unat ?k - 0x10000" using that by (simp add: unat_sub)
    moreover from this have "?k - 0x10000 < 0x20000" using lt by (simp add: word_less_nat_alt)
    ultimately show ?thesis by (simp add: and_17bit)
  qed
  then show ?thesis
    using assms e by (simp add: m_rom_index_def ng_audio_effective_m_rom_size_def Let_def k word_le_nat_alt word_less_nat_alt)
qed

lemma m_rom_index_plain:
  assumes "au_m_rom_size audio \<noteq> 0x20000" "au_m_rom_size audio \<noteq> 0"
  shows "unat (m_rom_index audio a) = unat a mod unat (au_m_rom_size audio)"
  using assms by (simp add: m_rom_index_def ng_audio_effective_m_rom_size_def Let_def word_le_nat_alt word_less_nat_alt unat_mod)

lemma m_rom_index_bound:
  assumes "m1_loaded rom audio"
  shows "unat (m_rom_index audio a) < length rom"
proof (cases "au_m_rom_size audio = 0x20000")
  case True
  then have "length rom = 0x20000" using assms by (simp add: m1_loaded_def)
  moreover have "unat a mod 0x30000 < 0x30000" by simp
  ultimately show ?thesis using m_rom_index_128k [OF True, of a] by (simp add: Let_def split: if_splits)
next
  case False
  have "au_m_rom_size audio \<noteq> 0" "0 < length rom" using assms by (auto simp: m1_loaded_def)
  then show ?thesis using m_rom_index_plain [OF False] assms by (simp add: m1_loaded_def)
qed

lemma read_m_image:
  assumes "m1_loaded rom audio"
  shows "ng_audio_read_m audio a = effective_image rom ! (unat a mod length (effective_image rom))"
proof -
  have r: "ng_audio_read_m audio a = rom ! unat (m_rom_index audio a)"
    using assms by (auto simp: ng_audio_read_m_def m1_loaded_def)
  show ?thesis
  proof (cases "au_m_rom_size audio = 0x20000")
    case True
    then have l: "length rom = 0x20000" using assms by (simp add: m1_loaded_def)
    then show ?thesis
      using m_rom_index_128k [OF True, of a] by (auto simp: r effective_image_def nth_append Let_def)
  next
    case False
    then have "unat (au_m_rom_size audio) \<noteq> unat (0x20000 :: u32)" by (metis unsigned_word_eqI)
    then have "length rom \<noteq> 0x20000" using assms by (simp add: m1_loaded_def)
    moreover have "au_m_rom_size audio \<noteq> 0" using assms by (auto simp: m1_loaded_def)
    ultimately show ?thesis
      using m_rom_index_plain [OF False, of a] assms by (simp add: r effective_image_def m1_loaded_def)
  qed
qed

text \<open>The bus of the Z80 below work RAM reads this image through the bank registers.\<close>

definition m1_address :: "'ym ng_neo_audio \<Rightarrow> u16 \<Rightarrow> u32" where
  "m1_address audio addr =
     (let bank = (\<lambda>b shift m. ng_audio_m_bank_base audio b shift + ucast (addr AND m)) in
      if addr \<le> 0x7FFF then ucast addr
      else if addr \<le> 0xBFFF then bank (au_bank_a audio) 14 0x3FFF
      else if addr \<le> 0xDFFF then bank (au_bank_b audio) 13 0x1FFF
      else if addr \<le> 0xEFFF then bank (au_bank_c audio) 12 0x0FFF
      else bank (au_bank_d audio) 11 0x07FF)"

lemma read_z80_m1: "addr \<le> 0xF7FF \<Longrightarrow> ng_audio_debug_read_z80_impl audio addr = ng_audio_read_m audio (m1_address audio addr)"
  by (simp add: ng_audio_debug_read_z80_impl_def m1_address_def Let_def)

lemma read_z80_ram: "\<not> addr \<le> 0xF7FF \<Longrightarrow> ng_audio_debug_read_z80_impl audio addr = au_ram audio ! unat (addr AND 0x7FF)"
  by (simp add: ng_audio_debug_read_z80_impl_def Let_def word_le_nat_alt)

subsection \<open>Bank windows of a 256 KiB ROM\<close>

text \<open>The bank number and the offset use different bits, so an offset never carries into the bank bits.\<close>

lemma window_bits:
  fixes b :: u8 and off :: u16
  assumes "s \<le> 14"
  shows "(push_bit s (ucast b) AND m :: u32) + ucast (off AND mask s) = (push_bit s (ucast b) AND m) OR ucast (off AND mask s)"
proof (rule disjunctive_add)
  fix n
  show "\<not> bit (push_bit s (ucast b) AND m :: u32) n \<or> \<not> bit (ucast (off AND mask s) :: u32) n"
    by (auto simp: bit_and_iff bit_push_bit_iff bit_ucast_iff bit_mask_iff)
qed

lemma skipped_bit:
  fixes y :: u32
  assumes "\<not> bit y 16" "unat y < 0x40000"
  shows "unat y < 0x10000 \<or> 0x20000 \<le> unat y \<and> unat y < 0x30000"
proof (rule ccontr)
  assume "\<not> ?thesis"
  then have "unat y div 2 ^ 16 = 1 \<or> unat y div 2 ^ 16 = 3" using assms(2) by auto
  then have "bit (unat y) 16" by (auto simp: bit_iff_odd)
  then show False using assms(1) by (simp add: bit_unsigned_iff)
qed

lemma small_offset:
  assumes "s \<le> 14"
  shows "\<not> bit (ucast (off AND mask s :: u16) :: u32) 16" "unat (ucast (off AND mask s :: u16) :: u32) < 0x4000"
proof -
  show "\<not> bit (ucast (off AND mask s :: u16) :: u32) 16"
    using assms by (simp add: bit_and_iff bit_ucast_iff bit_mask_iff)
  have "unat (off AND mask s) = take_bit s (unat off)" by (simp add: and_mask_eq_take_bit unsigned_take_bit_eq)
  also have "\<dots> < 2 ^ s" by simp
  also have "\<dots> \<le> 2 ^ 14" using assms by (intro power_increasing) simp_all
  finally show "unat (ucast (off AND mask s :: u16) :: u32) < 0x4000" by (simp add: unat_ucast_up)
qed

lemma no_bit_16: "\<not> bit (0x2FFFF :: u32) 16"
proof -
  have "\<not> bit (unat (0x2FFFF :: u32)) 16" by (simp add: bit_iff_odd)
  then show ?thesis by (simp add: bit_unsigned_iff)
qed

lemma bank_window_256k:
  assumes "au_m_rom_size audio = 0x40000" "s \<le> 14"
  shows "\<exists>y. ng_audio_m_bank_base audio b s + ucast (off AND mask s :: u16) = 0x10000 + y \<and>
    (unat y < 0x10000 \<or> 0x20000 \<le> unat y \<and> unat y < 0x30000)"
proof (intro exI conjI)
  let ?x = "push_bit s (ucast b) AND 0x2FFFF :: u32" and ?o = "ucast (off AND mask s) :: u32"
  have "?x \<le> 0x2FFFF" by (rule word_and_le1)
  then have x: "unat ?x \<le> 0x2FFFF" by (simp add: word_le_nat_alt)
  then have "unat (0x10000 + ?x) = 0x10000 + unat ?x" by (simp add: unat_word_ariths)
  then have "0x10000 + ?x < 0x40000" using x by (simp add: word_less_nat_alt)
  then have base: "ng_audio_m_bank_base audio b s = 0x10000 + ?x"
    using assms(1) by (simp add: ng_audio_m_bank_base_def ng_audio_effective_m_rom_size_def Let_def)
  then show "ng_audio_m_bank_base audio b s + ?o = 0x10000 + (?x + ?o)" by (simp add: add.assoc)
  have "\<not> bit (?x OR ?o) 16" using no_bit_16 small_offset(1) [OF assms(2)] by (simp add: bit_or_iff bit_and_iff)
  then have "\<not> bit (?x + ?o) 16" by (simp only: window_bits [OF assms(2)] not_False_eq_True)
  moreover have "unat (?x + ?o) < 0x40000"
    using x small_offset(2) [OF assms(2), of off] by (simp add: unat_word_ariths)
  ultimately show "unat (?x + ?o) < 0x10000 \<or> 0x20000 \<le> unat (?x + ?o) \<and> unat (?x + ?o) < 0x30000"
    by (rule skipped_bit)
qed

lemma window_masks: "(0x3FFF :: u16) = mask 14" "(0x1FFF :: u16) = mask 13" "(0x0FFF :: u16) = mask 12" "(0x07FF :: u16) = mask 11"
  by (simp_all add: mask_eq_exp_minus_1)

lemma m1_address_256k:
  assumes "au_m_rom_size audio = 0x40000"
  shows "unat (m_rom_index audio (m1_address audio addr)) \<notin> {0x20000..<0x30000}"
proof -
  have "unat (m1_address audio addr) < 0x40000 \<and> unat (m1_address audio addr) \<notin> {0x20000..<0x30000}"
  proof (cases "addr \<le> 0x7FFF")
    case True
    then have "unat (ucast addr :: u32) \<le> 0x7FFF" by (simp add: unat_ucast_up word_le_nat_alt)
    then show ?thesis using True by (simp add: m1_address_def)
  next
    case False
    have w: "unat (ng_audio_m_bank_base audio b s + ucast (addr AND mask s)) < 0x40000 \<and>
      unat (ng_audio_m_bank_base audio b s + ucast (addr AND mask s)) \<notin> {0x20000..<0x30000}" if s14: "s \<le> 14" for b s
    proof -
      obtain y where y: "ng_audio_m_bank_base audio b s + ucast (addr AND mask s) = 0x10000 + y"
        "unat y < 0x10000 \<or> 0x20000 \<le> unat y \<and> unat y < 0x30000" using bank_window_256k [OF assms s14] by blast
      have "unat (0x10000 + y) = 0x10000 + unat y" using y(2) by (auto simp: unat_word_ariths)
      then show ?thesis unfolding y(1) using y(2) by auto
    qed
    show ?thesis
      using False w [of 14 "au_bank_a audio"] w [of 13 "au_bank_b audio"] w [of 12 "au_bank_c audio"]
        w [of 11 "au_bank_d audio"] by (simp add: m1_address_def window_masks)
  qed
  then show ?thesis using assms by (simp add: m_rom_index_plain)
qed

subsection \<open>Time\<close>

text \<open>
  What the accounting of cycles relies on in the Z80 core: an instruction takes at least one and at most
  \<open>B\<close> cycles, and the callbacks it runs do not touch the credit. The core runs a chain of DD and FD prefixes
  as part of one instruction at four cycles each, so \<open>B\<close> grows with the longest chain in the ROM.
\<close>

definition z80_core_ok :: "nat \<Rightarrow> ('ym ng_neo_audio \<Rightarrow> 'ym ng_neo_audio) \<Rightarrow> bool" where
  "z80_core_ok B step \<longleftrightarrow>
     (\<forall>a. au_z80_cycle_credit (step a) = au_z80_cycle_credit a \<and>
        (\<exists>k. 1 \<le> k \<and> k \<le> B \<and> z_cyc (au_cpu (step a)) = z_cyc (au_cpu a) + of_nat k))"

lemma deliver_keeps:
  "z_cyc (au_cpu (deliver_int chip (deliver_nmi a))) = z_cyc (au_cpu a)"
  "au_z80_cycle_credit (deliver_int chip (deliver_nmi a)) = au_z80_cycle_credit a"
  by (simp_all add: deliver_int_def deliver_nmi_def z80_gen_nmi_def z80_gen_int_def)

lemma step_cycles:
  assumes "z80_core_ok B step"
  obtains k where "1 \<le> k" "k \<le> B" "z_cyc (au_cpu (ng_audio_step_z80 chip step a)) = z_cyc (au_cpu a) + of_nat k"
    "au_z80_cycle_credit (ng_audio_step_z80 chip step a) = au_z80_cycle_credit a"
proof -
  let ?a = "deliver_int chip (deliver_nmi a)"
  have "z_cyc (au_cpu (ng_audio_step_z80 chip step a)) = z_cyc (au_cpu (step ?a))"
    "au_z80_cycle_credit (ng_audio_step_z80 chip step a) = au_z80_cycle_credit (step ?a)"
    by (simp_all add: ng_audio_step_z80_def Let_def)
  moreover obtain k where "1 \<le> k" "k \<le> B" "z_cyc (au_cpu (step ?a)) = z_cyc (au_cpu ?a) + of_nat k"
    "au_z80_cycle_credit (step ?a) = au_z80_cycle_credit ?a" using assms unfolding z80_core_ok_def by blast
  ultimately show thesis using that by (simp add: deliver_keeps)
qed

lemma core_bound: "z80_core_ok B step \<Longrightarrow> 0 < B"
  unfolding z80_core_ok_def by (metis gr_zeroI le_zero_eq not_one_le_zero)

text \<open>The loop stops in the first instruction that reaches the requested number of cycles.\<close>

lemma advance_loop_reaches:
  assumes "z80_core_ok B step" and "unat cycles + B < 2 ^ 31" and "z_cyc (au_cpu a) = start + of_nat d"
    and "d < unat cycles + B" and "unat cycles \<le> d + n"
  shows "\<exists>e. z_cyc (au_cpu (advance_loop chip step start cycles n a)) = start + of_nat e \<and>
    unat cycles \<le> e \<and> e < unat cycles + B \<and>
    au_z80_cycle_credit (advance_loop chip step start cycles n a) = au_z80_cycle_credit a"
  using assms(3-5)
proof (induction n arbitrary: a d)
  case 0
  then show ?case by (intro exI [of _ d]) simp
next
  case (Suc n)
  have small: "d < 2 ^ 32" using Suc.prems(2) assms(2) by simp
  have "unat (ucast (z_cyc (au_cpu a) - start) :: u32) = d"
    using small Suc.prems(1) by (simp add: unsigned_ucast_eq unsigned_of_nat take_bit_nat_eq_self)
  then have test: "ucast (z_cyc (au_cpu a) - start) < cycles \<longleftrightarrow> d < unat cycles" by (simp add: word_less_nat_alt)
  show ?case
  proof (cases "d < unat cycles")
    case True
    obtain k where k: "1 \<le> k" "k \<le> B" "z_cyc (au_cpu (ng_audio_step_z80 chip step a)) = z_cyc (au_cpu a) + of_nat k"
      "au_z80_cycle_credit (ng_audio_step_z80 chip step a) = au_z80_cycle_credit a"
      using step_cycles [OF assms(1)] by metis
    have "z_cyc (au_cpu (ng_audio_step_z80 chip step a)) = start + of_nat (d + k)" using k(3) Suc.prems(1) by simp
    from Suc.IH [OF this] True k(1,2,4) Suc.prems(3) show ?thesis by (simp add: test)
  next
    case False
    then have "advance_loop chip step start cycles (Suc n) a = a" by (simp add: test)
    then show ?thesis using Suc.prems(1,2) False by (intro exI [of _ d]) simp
  qed
qed

lemma ucast_of_unat: "(ucast (x :: u32) :: u64) = of_nat (unat x)"
  by simp

lemma ucast_sub: "y \<le> x \<Longrightarrow> (ucast (x - y :: u32) :: u64) = ucast x - ucast y"
proof -
  assume le: "y \<le> x"
  then have "unat (x - y) = unat x - unat y" "unat y \<le> unat x" by (simp_all add: unat_sub word_le_nat_alt)
  then show ?thesis unfolding ucast_of_unat by (simp only: of_nat_diff)
qed

lemma fuel_enough: "unat (c :: u32) + 512 < 2 ^ 31 \<Longrightarrow> unat (c * 2 + 1024) = unat c * 2 + 1024"
  by (simp add: unat_word_ariths)

lemma slice_reaches:
  assumes "z80_core_ok B step" "unat c + B + 512 < 2 ^ 31" "0 < B"
  obtains e where
    "z_cyc (au_cpu (advance_loop chip step (z_cyc (au_cpu a)) c (unat (c * 2 + 1024)) a)) = z_cyc (au_cpu a) + of_nat e"
    "unat c \<le> e" "e < unat c + B"
    "au_z80_cycle_credit (advance_loop chip step (z_cyc (au_cpu a)) c (unat (c * 2 + 1024)) a) = au_z80_cycle_credit a"
proof -
  have "unat (c * 2 + 1024) = unat c * 2 + 1024" by (rule fuel_enough) (use assms(2) in linarith)
  then have "unat c + B < 2 ^ 31" "0 < unat c + B" "unat c \<le> 0 + unat (c * 2 + 1024)" using assms(2,3) by linarith+
  then show thesis
    using advance_loop_reaches [OF assms(1), of c a "z_cyc (au_cpu a)" 0 "unat (c * 2 + 1024)" chip] that by auto
qed

text \<open>The time the board has been given: the cycles run, less those run ahead of a slice.\<close>

definition board_time :: "'ym ng_neo_audio \<Rightarrow> u64" where
  "board_time a = z_cyc (au_cpu a) - ucast (au_z80_cycle_credit a)"

lemma advance_time:
  assumes "z80_core_ok B step" "unat cycles0 + B + 512 < 2 ^ 31"
  shows "board_time (ng_neogeo_audio_advance_z80_cycles chip step cycles0 a) = board_time a + ucast cycles0 \<and>
    unat (au_z80_cycle_credit (ng_neogeo_audio_advance_z80_cycles chip step cycles0 a)) \<le>
      max (B - 1) (unat (au_z80_cycle_credit a))"
proof -
  let ?credit = "au_z80_cycle_credit a" and ?b = "ng_neogeo_audio_advance_z80_cycles chip step cycles0 a"
  consider (none) "cycles0 = 0" | (credit) "cycles0 \<noteq> 0" "cycles0 \<le> ?credit"
    | (run) "cycles0 \<noteq> 0" "unat ?credit < unat cycles0"
    using not_le by (fastforce simp: word_le_nat_alt)
  then show ?thesis
  proof cases
    case none
    then show ?thesis by (simp add: ng_neogeo_audio_advance_z80_cycles_def board_time_def)
  next
    case credit
    then have "?credit \<noteq> 0" by auto
    then have b: "?b = a\<lparr>au_z80_cycle_credit := ?credit - cycles0\<rparr>"
      using credit by (simp add: ng_neogeo_audio_advance_z80_cycles_def)
    have "unat (?credit - cycles0) = unat ?credit - unat cycles0" using credit(2) by (simp add: unat_sub)
    then show ?thesis using b credit(2) by (simp add: board_time_def ucast_sub)
  next
    case run
    let ?c = "cycles0 - ?credit" and ?a = "a\<lparr>au_z80_cycle_credit := 0\<rparr>" and ?start = "z_cyc (au_cpu a)"
    let ?r = "advance_loop chip step ?start ?c (unat (?c * 2 + 1024)) ?a"
    have le: "?credit \<le> cycles0" using run(2) by (simp add: word_le_nat_alt)
    have c: "unat ?c = unat cycles0 - unat ?credit" using le by (simp add: unat_sub)
    have small: "unat ?c + B + 512 < 2 ^ 31" using c assms(2) by linarith
    obtain e where e: "z_cyc (au_cpu ?r) = ?start + of_nat e" "unat ?c \<le> e" "e < unat ?c + B" "au_z80_cycle_credit ?r = 0"
      using slice_reaches [OF assms(1) small core_bound [OF assms(1)], of chip ?a] by auto
    have adv: "unat (ucast (z_cyc (au_cpu ?r) - ?start) :: u32) = e"
      using e(1,3) small by (simp add: unsigned_ucast_eq unsigned_of_nat take_bit_nat_eq_self)
    have b: "z_cyc (au_cpu ?b) = ?start + of_nat e" "unat (au_z80_cycle_credit ?b) = e - unat ?c"
      using e run adv by (auto simp: ng_neogeo_audio_advance_z80_cycles_def Let_def word_le_nat_alt word_less_nat_alt unat_sub)
    have "board_time ?b = ?start + of_nat e - of_nat (e - unat ?c)"
      using b by (simp add: board_time_def ucast_of_unat)
    also have "\<dots> = ?start + of_nat (unat ?c)" using e(2) by simp
    also have "\<dots> = board_time a + ucast cycles0" using le by (simp add: ucast_of_unat [symmetric] ucast_sub board_time_def)
    finally show ?thesis using b(2) e(3) by simp
  qed
qed

definition run_slices ::
  "'ym ym2610 \<Rightarrow> ('ym ng_neo_audio \<Rightarrow> 'ym ng_neo_audio) \<Rightarrow> u32 list \<Rightarrow> 'ym ng_neo_audio \<Rightarrow> 'ym ng_neo_audio" where
  "run_slices chip step = fold (ng_neogeo_audio_advance_z80_cycles chip step)"

text \<open>A silent chip and a core that runs only four-cycle instructions, for concrete runs.\<close>

definition silent_chip :: "unit ym2610" where
  "silent_chip = \<lparr>ym_set_roms = (\<lambda>_ _ _ _ y. y), ym_reset = id, ym_read = (\<lambda>_ y. (0, y)), ym_write = (\<lambda>_ _ y. y),
     ym_advance_clocks = (\<lambda>_ y. y), ym_generate = (\<lambda>n _ y. (replicate (unat n * 2) 0, y)),
     ym_native_sample_rate = (\<lambda>_. 0), ym_irq_pending = (\<lambda>_. 0), ym_state_size = (\<lambda>_. 1),
     ym_save_state = (\<lambda>y _. case y of None \<Rightarrow> None | Some _ \<Rightarrow> Some ([7], 1)),
     ym_load_state = (\<lambda>bytes _ _. (bytes = [7], Some ()))\<rparr>"

definition nop_core :: "'ym ng_neo_audio \<Rightarrow> 'ym ng_neo_audio" where
  "nop_core a = a\<lparr>au_cpu := (au_cpu a)\<lparr>z_cyc := z_cyc (au_cpu a) + 4\<rparr>\<rparr>"

definition silent_board :: "unit ng_neo_audio" where
  "silent_board = ng_neogeo_audio_create silent_chip (Some ())"

lemma nop_core_ok: "z80_core_ok 4 nop_core"
proof -
  have "\<exists>k. 1 \<le> k \<and> k \<le> 4 \<and> z_cyc (au_cpu (nop_core a)) = z_cyc (au_cpu a) + of_nat k" for a :: "'a ng_neo_audio"
    by (rule exI [of _ 4]) (simp add: nop_core_def)
  then show ?thesis by (simp add: z80_core_ok_def nop_core_def)
qed

text \<open>
  C13 (cycle accounting): slices of time add up. However the host cuts its time, the cycles run less those run ahead are
  the cycles asked for, and the board is never further ahead than the one instruction it stopped in (or than it was). The
  Z80 core is one whose instructions take at least one and at most \<open>B\<close> cycles, and no slice comes near \<open>2 ^ 31\<close> cycles.
\<close>
theorem slices_do_not_drift:
  assumes "z80_core_ok B step" and "\<forall>c\<in>set slices. unat c + B + 512 < 2 ^ 31"
  shows "board_time (run_slices chip step slices a) = board_time a + sum_list (map ucast slices) \<and>
    unat (au_z80_cycle_credit (run_slices chip step slices a)) \<le> max (B - 1) (unat (au_z80_cycle_credit a))"
  using assms(2) unfolding run_slices_def
proof (induction slices arbitrary: a)
  case Nil
  then show ?case by simp
next
  case (Cons c slices)
  have "unat c + B + 512 < 2 ^ 31" using Cons.prems by simp
  note one = advance_time [OF assms(1) this, of chip a]
  show ?case
    using Cons.IH [of "ng_neogeo_audio_advance_z80_cycles chip step c a"] Cons.prems one by (auto simp: add.assoc)
qed

theorem slices_do_not_drift_witness:
  "board_time (run_slices silent_chip nop_core [3, 5, 6] silent_board) = 14 \<and>
   unat (au_z80_cycle_credit (run_slices silent_chip nop_core [3, 5, 6] silent_board)) \<le> 3"
  using slices_do_not_drift [OF nop_core_ok, of "[3, 5, 6]" silent_chip silent_board]
  by (simp add: board_time_def silent_board_def ng_neogeo_audio_create_def ng_neogeo_audio_reset_def z80_init_def)

subsection \<open>The M1 claims\<close>

text \<open>
  C15 (M1 image): every read of the M1 ROM is inside the array and returns the byte of the effective image, which for a
  128 KiB ROM is its first 64 KiB followed by the whole ROM and otherwise the ROM itself, repeated.
\<close>
theorem m1_reads_the_effective_image:
  assumes "m1_loaded rom audio"
  shows "unat (m_rom_index audio a) < length rom \<and>
    ng_audio_read_m audio a = effective_image rom ! (unat a mod length (effective_image rom))"
  using m_rom_index_bound [OF assms] read_m_image [OF assms] by blast

theorem m1_reads_the_effective_image_witness:
  "ng_audio_read_m (silent_board\<lparr>au_m_rom := Some [1, 2, 3], au_m_rom_size := 3\<rparr>) 5 = 3"
  using m1_reads_the_effective_image [of "[1, 2, 3]" "silent_board\<lparr>au_m_rom := Some [1, 2, 3], au_m_rom_size := 3\<rparr>" 5]
  by (simp add: m1_loaded_def effective_image_def)

text \<open>
  C16 (M1 banks): of a 256 KiB ROM the Z80 cannot see the third quarter. Two boards whose ROMs differ only in the
  bytes 0x20000 to 0x2FFFF read alike at every address, whatever the bank registers hold.
\<close>
theorem m1_256k_hides_a_quarter:
  assumes "m1_loaded rom audio" "length rom = 0x40000"
    and "\<forall>i. i \<notin> {0x20000..<0x30000} \<longrightarrow> rom' ! i = rom ! i"
  shows "ng_audio_debug_read_z80_impl (audio\<lparr>au_m_rom := Some rom'\<rparr>) addr = ng_audio_debug_read_z80_impl audio addr"
proof -
  let ?b = "audio\<lparr>au_m_rom := Some rom'\<rparr>"
  have s: "au_m_rom_size audio = 0x40000" using assms(1,2) by (auto simp: m1_loaded_def intro: unsigned_word_eqI)
  have i: "m_rom_index ?b a = m_rom_index audio a" "m1_address ?b addr = m1_address audio addr" for a
    by (simp_all add: m_rom_index_def m1_address_def ng_audio_m_bank_base_def ng_audio_effective_m_rom_size_def Let_def)
  show ?thesis
  proof (cases "addr \<le> 0xF7FF")
    case True
    have "ng_audio_read_m ?b (m1_address ?b addr) = ng_audio_read_m audio (m1_address audio addr)"
      using assms(1,3) s m1_address_256k [OF s, of addr] unfolding i(2) by (simp add: ng_audio_read_m_def m1_loaded_def i(1))
    then show ?thesis using True by (simp add: read_z80_m1)
  next
    case False
    then show ?thesis by (simp add: read_z80_ram)
  qed
qed

definition board_256k :: "unit ng_neo_audio" where
  "board_256k = silent_board\<lparr>au_m_rom := Some (replicate 0x40000 0), au_m_rom_size := 0x40000\<rparr>"

theorem m1_256k_hides_a_quarter_witness:
  "ng_audio_debug_read_z80_impl (board_256k\<lparr>au_m_rom := Some ((replicate 0x40000 0)[0x2ABCD := 9])\<rparr>) 0x9234 =
   ng_audio_debug_read_z80_impl board_256k 0x9234"
  by (rule m1_256k_hides_a_quarter) (auto simp: board_256k_def m1_loaded_def nth_list_update)

subsection \<open>The log of YM2610 writes\<close>

text \<open>The ring buffer stands for the history of writes: it holds the last 256 of them.\<close>

definition ym_log_holds :: "ng_neo_audio_ym_write list \<Rightarrow> 'ym ng_neo_audio \<Rightarrow> bool" where
  "ym_log_holds hist a \<longleftrightarrow>
     length (au_ym_write_log a) = 256 \<and> unat (au_ym_write_count a) = length hist \<and>
     unat (au_ym_write_log_head a) = length hist mod 256 \<and>
     (\<forall>i<length hist. length hist \<le> i + 256 \<longrightarrow> au_ym_write_log a ! (i mod 256) = hist ! i)"

lemma record_keeps_log:
  assumes "ym_log_holds hist a" "length hist + 1 < 2 ^ 32"
  shows "\<exists>e. yw_port e = port \<and> yw_address e = address \<and> yw_data e = data \<and>
    ym_log_holds (hist @ [e]) (ng_audio_record_ym_write port address data a)"
proof -
  let ?b = "ng_audio_record_ym_write port address data a" and ?h = "length hist mod 256"
  define e where "e = au_ym_write_log ?b ! ?h"
  have len: "length (au_ym_write_log a) = 256" and cnt: "unat (au_ym_write_count a) = length hist"
    and head: "unat (au_ym_write_log_head a) = ?h"
    and old: "\<And>i. i < length hist \<Longrightarrow> length hist \<le> i + 256 \<Longrightarrow> au_ym_write_log a ! (i mod 256) = hist ! i"
    using assms(1) by (simp_all add: ym_log_holds_def)
  have h: "?h < 256" by simp
  have fields: "yw_port e = port" "yw_address e = address" "yw_data e = data"
    unfolding e_def by (simp_all add: ng_audio_record_ym_write_def Let_def head len)
  have log: "au_ym_write_log ?b = (au_ym_write_log a)[?h := e]"
    unfolding e_def by (simp add: ng_audio_record_ym_write_def Let_def head len)
  have cnt': "unat (au_ym_write_count ?b) = length hist + 1"
    using assms(2) cnt by (simp add: ng_audio_record_ym_write_def Let_def unat_word_ariths)
  have "unat (au_ym_write_log_head a + 1) = ?h + 1" using head h by (simp add: unat_word_ariths)
  then have head': "unat (au_ym_write_log_head ?b) = (length hist + 1) mod 256"
    by (simp add: ng_audio_record_ym_write_def Let_def unat_mod mod_simps)
  have "au_ym_write_log ?b ! (i mod 256) = (hist @ [e]) ! i" if "i < length hist + 1" "length hist + 1 \<le> i + 256" for i
  proof (cases "i = length hist")
    case True
    then show ?thesis by (simp add: log len)
  next
    case False
    then have "i mod 256 \<noteq> ?h" using that mod_eq_dvd_iff_nat [of i "length hist" 256] by (auto dest: dvd_imp_le)
    then show ?thesis using False that old [of i] by (simp add: log nth_append)
  qed
  then show ?thesis using fields cnt' head' len log by (intro exI [of _ e]) (auto simp: ym_log_holds_def)
qed

lemma ring_back:
  fixes m n :: nat
  assumes "n \<le> 256" "n \<le> m"
  shows "(m mod 256 + 256 - n + i) mod 256 = (m - n + i) mod 256"
proof -
  have "m - n + i + 256 = m mod 256 + 256 - n + i + 256 * (m div 256)"
    using assms mult_div_mod_eq [of 256 m] by linarith
  then show ?thesis by (metis mod_add_self2 mod_mult_self2)
qed

lemma copy_recent_is_suffix:
  assumes "ym_log_holds hist a"
  shows "ng_neogeo_audio_copy_recent_ym_writes a cap =
    drop (length hist - min (min 256 (length hist)) (unat cap)) hist"
proof -
  let ?n = "min (min 256 (length hist)) (unat cap)"
  have cnt: "unat (au_ym_write_count a) = length hist" and head: "unat (au_ym_write_log_head a) = length hist mod 256"
    and old: "\<And>i. i < length hist \<Longrightarrow> length hist \<le> i + 256 \<Longrightarrow> au_ym_write_log a ! (i mod 256) = hist ! i"
    using assms by (simp_all add: ym_log_holds_def)
  define av where "av = (if 256 < au_ym_write_count a then 256 else au_ym_write_count a)"
  define n where "n = (if av < cap then av else cap)"
  have n: "unat n = ?n" unfolding n_def av_def by (auto simp: word_less_nat_alt cnt)
  define start where "start = (au_ym_write_log_head a + 256 - n) mod 256"
  have "unat (au_ym_write_log_head a + 256) = length hist mod 256 + 256"
    using head mod_less_divisor [of 256 "length hist"] by (simp add: unat_word_ariths)
  moreover have "n \<le> au_ym_write_log_head a + 256" unfolding word_le_nat_alt using n calculation by simp
  ultimately have st: "unat start = (length hist mod 256 + 256 - ?n) mod 256"
    unfolding start_def by (simp add: unat_mod unat_sub n)
  have idx: "unat ((start + of_nat i) mod 256) = (length hist - ?n + i) mod 256" if "i < ?n" for i
  proof -
    have "unat start < 256" "i < 256" using st that by simp_all
    then have "unat (start + of_nat i) = unat start + i" by (simp add: unat_word_ariths unsigned_of_nat take_bit_nat_eq_self)
    then have "unat ((start + of_nat i) mod 256) = (length hist mod 256 + 256 - ?n + i) mod 256"
      by (simp add: unat_mod st mod_simps)
    also have "\<dots> = (length hist - ?n + i) mod 256" by (rule ring_back) simp_all
    finally show ?thesis .
  qed
  have "ng_neogeo_audio_copy_recent_ym_writes a cap =
    map (\<lambda>i. au_ym_write_log a ! unat ((start + of_nat i) mod 256)) [0..<unat n]"
    using n cnt unfolding ng_neogeo_audio_copy_recent_ym_writes_def Let_def av_def [symmetric] n_def [symmetric] start_def [symmetric]
    by auto
  also have "\<dots> = map (\<lambda>i. hist ! (length hist - ?n + i)) [0..<?n]"
    unfolding n by (intro map_cong refl) (auto simp: idx old)
  also have "\<dots> = drop (length hist - ?n) hist" by (intro nth_equalityI) auto
  finally show ?thesis .
qed

text \<open>What a sequence of port writes logs: an even port selects a register, an odd one writes it.\<close>

definition log_entry :: "ng_neo_audio_ym_write \<Rightarrow> u8 \<times> u8 \<times> u8" where
  "log_entry e = (yw_port e, yw_address e, yw_data e)"

fun ym_trace :: "u8 list \<Rightarrow> (u8 \<times> u8) list \<Rightarrow> (u8 \<times> u8 \<times> u8) list" where
  "ym_trace ad [] = []"
| "ym_trace ad ((p, d) # ws) =
     (let latch = unat (drop_bit 1 p AND 1) in
      if p AND 1 = 0 then ym_trace (ad[latch := d]) ws else (p, ad ! latch, d) # ym_trace ad ws)"

definition ym_writes :: "'ym ym2610 \<Rightarrow> (u8 \<times> u8) list \<Rightarrow> 'ym ng_neo_audio \<Rightarrow> 'ym ng_neo_audio" where
  "ym_writes chip = fold (\<lambda>(p, d). ng_audio_ym_write chip p d)"

lemma ym_log_holds_cong:
  assumes "au_ym_write_log b = au_ym_write_log a" "au_ym_write_count b = au_ym_write_count a"
    "au_ym_write_log_head b = au_ym_write_log_head a"
  shows "ym_log_holds hist b = ym_log_holds hist a"
  using assms by (simp add: ym_log_holds_def)

lemma track_keeps_log:
  "au_ym_write_log (ng_audio_track_ym_data_write port ad d a) = au_ym_write_log a"
  "au_ym_write_count (ng_audio_track_ym_data_write port ad d a) = au_ym_write_count a"
  "au_ym_write_log_head (ng_audio_track_ym_data_write port ad d a) = au_ym_write_log_head a"
  "au_ym_address (ng_audio_track_ym_data_write port ad d a) = au_ym_address a"
  by (simp_all add: ng_audio_track_ym_data_write_def ng_audio_refresh_last_adpcm_a_event_def
      ng_audio_refresh_last_adpcm_b_event_def Let_def)

lemma ym_write_select:
  assumes "p AND 1 = 0" "ym_log_holds hist a"
  shows "ym_log_holds hist (ng_audio_ym_write chip p d a)"
    "au_ym_address (ng_audio_ym_write chip p d a) = (au_ym_address a)[unat (drop_bit 1 p AND 1) := d]"
  using assms by (simp_all add: ng_audio_ym_write_def Let_def ym_log_holds_def)

lemma ym_write_data:
  assumes "p AND 1 \<noteq> 0" "ym_log_holds hist a" "length hist + 1 < 2 ^ 32"
  obtains e where "log_entry e = (p, au_ym_address a ! unat (drop_bit 1 p AND 1), d)"
    "ym_log_holds (hist @ [e]) (ng_audio_ym_write chip p d a)" "au_ym_address (ng_audio_ym_write chip p d a) = au_ym_address a"
proof -
  let ?ad = "au_ym_address a ! unat (drop_bit 1 p AND 1)"
  obtain e where e: "yw_port e = p" "yw_address e = ?ad" "yw_data e = d"
    "ym_log_holds (hist @ [e]) (ng_audio_record_ym_write p ?ad d a)"
    using record_keeps_log [OF assms(2,3), of p ?ad d] by blast
  have "ym_log_holds (hist @ [e]) (ng_audio_ym_write chip p d a)"
    using assms(1) e(4) by (simp add: ng_audio_ym_write_def Let_def track_keeps_log ym_log_holds_def)
  moreover have "au_ym_address (ng_audio_ym_write chip p d a) = au_ym_address a"
    using assms(1) by (simp add: ng_audio_ym_write_def Let_def track_keeps_log ng_audio_record_ym_write_def)
  ultimately show thesis using that e(1-3) by (simp add: log_entry_def)
qed

lemma ym_writes_log:
  assumes "ym_log_holds hist a" "length hist + length ws < 2 ^ 32"
  shows "\<exists>hist'. ym_log_holds hist' (ym_writes chip ws a) \<and>
    map log_entry hist' = map log_entry hist @ ym_trace (au_ym_address a) ws"
  using assms
proof (induction ws arbitrary: a hist)
  case Nil
  then show ?case by (auto simp: ym_writes_def)
next
  case (Cons w ws)
  obtain p d where w: "w = (p, d)" by (cases w)
  let ?b = "ng_audio_ym_write chip p d a"
  have step: "ym_writes chip (w # ws) a = ym_writes chip ws ?b" by (simp add: ym_writes_def w)
  show ?case
  proof (cases "p AND 1 = 0")
    case True
    note b = ym_write_select [OF True Cons.prems(1), of chip d]
    show ?thesis using Cons.IH [OF b(1)] Cons.prems(2) True unfolding step b(2) by (simp add: w)
  next
    case False
    have "length hist + 1 < 2 ^ 32" using Cons.prems(2) by simp
    from ym_write_data [OF False Cons.prems(1) this, where chip = chip and d = d] obtain e where
      e: "log_entry e = (p, au_ym_address a ! unat (drop_bit 1 p AND 1), d)" "ym_log_holds (hist @ [e]) ?b"
        "au_ym_address ?b = au_ym_address a" .
    show ?thesis using Cons.IH [OF e(2)] Cons.prems(2) False e(1) unfolding step e(3) by (simp add: w Let_def)
  qed
qed

text \<open>
  C14 (YM2610 log): the log refines the history of writes. After a reset and any sequence of port writes, the recent
  writes the host copies are the last ones of that sequence, in order, each with the register selected at the time: as
  many as the host asks for, at most 256. The sequence has fewer than \<open>2 ^ 32\<close> writes, as the log counts them in 32 bits.
\<close>
theorem recent_ym_writes_are_the_last:
  assumes "length ws < 2 ^ 32"
  shows "map log_entry (ng_neogeo_audio_copy_recent_ym_writes (ym_writes chip ws (ng_neogeo_audio_reset chip a)) cap) =
    (let t = ym_trace [0, 0] ws in drop (length t - min (min 256 (length t)) (unat cap)) t)"
proof -
  have "ym_log_holds [] (ng_neogeo_audio_reset chip a)" by (simp add: ym_log_holds_def ng_neogeo_audio_reset_def)
  moreover have "au_ym_address (ng_neogeo_audio_reset chip a) = [0, 0]" by (simp add: ng_neogeo_audio_reset_def)
  ultimately obtain hist where h: "ym_log_holds hist (ym_writes chip ws (ng_neogeo_audio_reset chip a))"
    "map log_entry hist = ym_trace [0, 0] ws"
    using ym_writes_log [of "[]" "ng_neogeo_audio_reset chip a" ws chip] assms by auto
  then have "length (ym_trace [0, 0] ws) = length hist" by (metis length_map)
  then show ?thesis by (simp add: copy_recent_is_suffix [OF h(1)] h(2) [symmetric] drop_map Let_def)
qed

theorem recent_ym_writes_are_the_last_witness:
  "map log_entry (ng_neogeo_audio_copy_recent_ym_writes
     (ym_writes silent_chip [(0, 0x28), (1, 0xF1), (2, 0x10), (3, 7), (1, 1)] (ng_neogeo_audio_reset silent_chip silent_board)) 2) =
   [(3, 0x10, 7), (1, 0x28, 1)]"
  using recent_ym_writes_are_the_last [of "[(0, 0x28), (1, 0xF1), (2, 0x10), (3, 7), (1, 1)]" silent_chip silent_board 2]
  by (simp add: Let_def)

subsection \<open>Save states\<close>

lemma z80_state_roundtrip: "ng_audio_restore_z80_state (ng_audio_capture_z80_state z) = z"
  by (cases z) (simp add: ng_audio_restore_z80_state_def ng_audio_capture_z80_state_def)

lemma state_size_prefix:
  assumes "au_ym a = Some y" "ng_neogeo_audio_state_size prefix_bytes chip a \<noteq> 0"
  shows "ng_neogeo_audio_state_size prefix_bytes chip a = prefix_bytes + ym_state_size chip (Some y) \<and>
    prefix_bytes \<le> ng_neogeo_audio_state_size prefix_bytes chip a"
proof -
  let ?S = "ym_state_size chip (Some y)"
  have S: "\<not> 0xFFFFFFFF - prefix_bytes < ?S"
    using assms by (auto simp: ng_neogeo_audio_state_size_def split: if_splits)
  have p: "unat prefix_bytes < 2 ^ 32" using unsigned_less [of prefix_bytes] by simp
  from p have "prefix_bytes \<le> 0xFFFFFFFF" by (simp add: word_le_nat_alt)
  then have "unat (0xFFFFFFFF - prefix_bytes) = 0xFFFFFFFF - unat prefix_bytes" by (simp only: unat_sub) simp
  then have "unat (prefix_bytes + ?S) = unat prefix_bytes + unat ?S"
    using S p by (simp add: word_less_nat_alt unat_word_ariths)
  then show ?thesis using S assms(1) by (simp add: ng_neogeo_audio_state_size_def word_le_nat_alt)
qed

text \<open>
  What the save state relies on in the chip: a chip that is there loads what a chip saved, and then saves the same
  bytes. Nothing is asked of a load without a chip, which \<open>ng_neogeo_ym2610_load_state\<close> refuses, and the parts of a chip
  that are not saved, such as its sample ROMs, may differ.
\<close>

definition same_saved_state :: "'ym ym2610 \<Rightarrow> 'ym \<Rightarrow> 'ym \<Rightarrow> bool" where
  "same_saved_state chip y z \<longleftrightarrow>
     ym_state_size chip (Some y) = ym_state_size chip (Some z) \<and>
     (\<forall>room. ym_save_state chip (Some y) room = ym_save_state chip (Some z) room)"

definition ym_state_ok :: "'ym ym2610 \<Rightarrow> bool" where
  "ym_state_ok chip \<longleftrightarrow>
     (\<forall>y room bytes written y'. ym_save_state chip (Some y) room = Some (bytes, written) \<longrightarrow>
        (\<exists>z. ym_load_state chip bytes written (Some y') = (True, Some z) \<and> same_saved_state chip z y))"

lemma saved_fields:
  assumes "au_ym a = Some y" "ym_state_size chip (Some y) \<noteq> 0"
    and "ng_neogeo_audio_save_state prefix_bytes chip a room = (Some data, sz)"
  shows "sz = prefix_bytes + ym_state_size chip (Some y)" "prefix_bytes \<le> sz"
    and "ym_save_state chip (Some y) (room - prefix_bytes) = Some (snd data, ym_state_size chip (Some y))"
    and "sp_size (fst data) = sz" "sp_ym_state_size (fst data) = ym_state_size chip (Some y)"
proof -
  let ?t = "ng_neogeo_audio_state_size prefix_bytes chip a"
  have t0: "?t \<noteq> 0" "sz = ?t" using assms(3) by (auto simp: ng_neogeo_audio_save_state_def Let_def split: option.splits if_splits)
  note t = state_size_prefix [OF assms(1) t0(1)]
  then show "sz = prefix_bytes + ym_state_size chip (Some y)" "prefix_bytes \<le> sz" using t0(2) by metis+
  show "ym_save_state chip (Some y) (room - prefix_bytes) = Some (snd data, ym_state_size chip (Some y))"
    "sp_size (fst data) = sz" "sp_ym_state_size (fst data) = ym_state_size chip (Some y)"
    using assms t t0 by (auto simp: ng_neogeo_audio_save_state_def Let_def split: option.splits if_splits)
qed

text \<open>
  C17 (sound-board save state): a saved board is restored. Let the chip of the saved board have a state and let the board
  that is loaded have a chip. Then the load succeeds; the result is the saved board with the ROMs of the board that was
  loaded and a chip with the saved state, and saving the result writes the same data again.
\<close>
theorem audio_state_roundtrip:
  assumes "ym_state_ok chip" and "au_ym a = Some y" and "length (au_ym_address a) = 2" and "au_ym_write_log_head a < 256"
    and "ym_state_size chip (Some y) \<noteq> 0" and "au_ym b = Some y'"
    and "ng_neogeo_audio_save_state prefix_bytes chip a room = (Some data, sz)"
  shows "\<exists>z c. ng_neogeo_audio_load_state prefix_bytes chip data sz b = (True, c) \<and> same_saved_state chip z y \<and>
    c = a\<lparr>au_m_rom := au_m_rom b, au_m_rom_size := au_m_rom_size b, au_v1_rom := au_v1_rom b,
          au_v1_rom_size := au_v1_rom_size b, au_v2_rom := au_v2_rom b, au_v2_rom_size := au_v2_rom_size b,
          au_ym := Some z\<rparr> \<and>
    ng_neogeo_audio_save_state prefix_bytes chip c room = (Some data, sz)"
proof -
  note f = saved_fields [OF assms(2,5,7)]
  obtain z where z: "ym_load_state chip (snd data) (ym_state_size chip (Some y)) (Some y') = (True, Some z)"
      "same_saved_state chip z y"
    using assms(1) f(3) unfolding ym_state_ok_def by blast
  let ?c = "a\<lparr>au_m_rom := au_m_rom b, au_m_rom_size := au_m_rom_size b, au_v1_rom := au_v1_rom b,
          au_v1_rom_size := au_v1_rom_size b, au_v2_rom := au_v2_rom b, au_v2_rom_size := au_v2_rom_size b,
          au_ym := Some z\<rparr>"
  have addr: "[au_ym_address a ! 0, au_ym_address a ! Suc 0] = au_ym_address a"
    using assms(3) by (auto simp: length_Suc_conv numeral_2_eq_2)
  obtain st bytes where data: "data = (st, bytes)" by (cases data)
  have "ng_neogeo_audio_load_state prefix_bytes chip data sz b = (True, ?c)"
    using assms f z(1) addr unfolding data
    by (auto simp: ng_neogeo_audio_load_state_def ng_neogeo_audio_save_state_def Let_def z80_state_roundtrip
        split: option.splits if_splits intro!: ng_neo_audio.equality)
  moreover have "ng_neogeo_audio_state_size prefix_bytes chip ?c = ng_neogeo_audio_state_size prefix_bytes chip a"
    using assms(2) z(2) by (simp add: ng_neogeo_audio_state_size_def same_saved_state_def)
  then have "ng_neogeo_audio_save_state prefix_bytes chip ?c room = ng_neogeo_audio_save_state prefix_bytes chip a room"
    using assms(2) z(2) by (simp add: ng_neogeo_audio_save_state_def same_saved_state_def Let_def cong: if_cong)
  ultimately show ?thesis using z(2) assms(7) by auto
qed

text \<open>A chip with one saved register and the size of its sample ROM, which is not saved.\<close>

definition latch_chip :: "(u8 \<times> u32) ym2610" where
  "latch_chip = \<lparr>ym_set_roms = (\<lambda>_ n _ _ y. (fst y, n)), ym_reset = (\<lambda>y. (0, snd y)), ym_read = (\<lambda>_ y. (fst y, y)),
     ym_write = (\<lambda>_ v y. (v, snd y)), ym_advance_clocks = (\<lambda>_ y. y), ym_generate = (\<lambda>n _ y. (replicate (unat n * 2) 0, y)),
     ym_native_sample_rate = (\<lambda>_. 55555), ym_irq_pending = (\<lambda>_. 0), ym_state_size = (\<lambda>y. if y = None then 0 else 1),
     ym_save_state = (\<lambda>y room. case y of None \<Rightarrow> None | Some (v, _) \<Rightarrow> if room < 1 then None else Some ([v], 1)),
     ym_load_state = (\<lambda>bytes n y. case y of None \<Rightarrow> (False, None)
       | Some (_, r) \<Rightarrow> if length bytes = 1 then (True, Some (hd bytes, r)) else (False, y))\<rparr>"

lemma latch_chip_ok: "ym_state_ok latch_chip"
  by (auto simp: ym_state_ok_def same_saved_state_def latch_chip_def split: if_splits)

definition latch_board :: "u8 \<Rightarrow> u32 \<Rightarrow> (u8 \<times> u32) ng_neo_audio" where
  "latch_board v n = ng_neogeo_audio_create latch_chip (Some (0, 0))\<lparr>au_ym := Some (v, n), au_v1_rom_size := n\<rparr>"

theorem audio_state_roundtrip_witness:
  "\<exists>data c. ng_neogeo_audio_save_state 100 latch_chip (latch_board 9 7) 200 = (Some data, 101) \<and>
    ng_neogeo_audio_load_state 100 latch_chip data 101 (latch_board 3 5) = (True, c) \<and>
    au_v1_rom_size c = 5 \<and> ng_neogeo_audio_save_state 100 latch_chip c 200 = (Some data, 101)"
proof -
  have b: "au_ym (latch_board v n) = Some (v, n)" "length (au_ym_address (latch_board v n)) = 2"
    "au_ym_write_log_head (latch_board v n) < 256" "au_v1_rom_size (latch_board v n) = n" for v n
    by (simp_all add: latch_board_def ng_neogeo_audio_create_def ng_neogeo_audio_reset_def)
  have c: "ym_state_size latch_chip (Some (9, 7)) \<noteq> 0" by (simp add: latch_chip_def)
  have "\<exists>data. ng_neogeo_audio_save_state 100 latch_chip (latch_board 9 7) 200 = (Some data, 101)"
    by (simp add: ng_neogeo_audio_save_state_def ng_neogeo_audio_state_size_def b(1) latch_chip_def)
  then obtain data where d: "ng_neogeo_audio_save_state 100 latch_chip (latch_board 9 7) 200 = (Some data, 101)" by blast
  show ?thesis
    using d audio_state_roundtrip [OF latch_chip_ok b(1) b(2) b(3) c b(1) d, of 3 5] b(4) [of 3 5] by auto
qed

end
