(* ===== verification/GameConfig.thy ===== *)
theory GameConfig
  imports Prelude
begin

text \<open>
  The configuration structures of \<open>game_config.h\<close>. An array with its element count is a list; the flags the
  code keeps as \<open>int\<close> are Booleans.
\<close>

datatype ng_game_config_jump_table_format =
    NG_GAME_CONFIG_JUMP_TABLE_ABS32
  | NG_GAME_CONFIG_JUMP_TABLE_PCREL16
  | NG_GAME_CONFIG_JUMP_TABLE_BRA16
  | NG_GAME_CONFIG_JUMP_TABLE_BRA8
  | NG_GAME_CONFIG_JUMP_TABLE_SCRIPT_PREDICATE
  | NG_GAME_CONFIG_JUMP_TABLE_TAGGED_ABS32
  | NG_GAME_CONFIG_JUMP_TABLE_INLINE_CALLBACK

record ng_game_config_jump_table =
  jc_start :: u32
  jc_end :: u32
  jc_stride :: u32
  jc_match :: u32
  jc_target_offset :: u32
  jc_target_start :: u32
  jc_target_end :: u32
  jc_format :: ng_game_config_jump_table_format

datatype ng_game_config_table_call_format =
    NG_GAME_CONFIG_TABLE_CALL_ABS32_SPARSE
  | NG_GAME_CONFIG_TABLE_CALL_TAGGED_ABS32
  | NG_GAME_CONFIG_TABLE_CALL_RECORD_ABS32

record ng_game_config_table_call =
  tc_helper :: u32
  tc_table_start :: u32
  tc_table_end :: u32
  tc_max_entries :: u32
  tc_sentinel :: u32
  tc_stride :: u32
  tc_match :: u32
  tc_target_offset :: u32
  tc_target_start :: u32
  tc_target_end :: u32
  tc_table_reg :: u8
  tc_format :: ng_game_config_table_call_format

datatype ng_game_config_record_scan_kind =
    NG_GAME_CONFIG_RECORD_SCAN_FIXED
  | NG_GAME_CONFIG_RECORD_SCAN_BANK_ALL
  | NG_GAME_CONFIG_RECORD_SCAN_BANK_ONE
  | NG_GAME_CONFIG_RECORD_SCAN_RANGE
  | NG_GAME_CONFIG_RECORD_SCAN_FIXED_AUTO
  | NG_GAME_CONFIG_RECORD_SCAN_BANK_ALL_AUTO
  | NG_GAME_CONFIG_RECORD_SCAN_BANK_ONE_AUTO
  | NG_GAME_CONFIG_RECORD_SCAN_RANGE_AUTO

record ng_game_config_record_scan =
  sc_kind :: ng_game_config_record_scan_kind
  sc_bank_id :: u32
  sc_start :: u32
  sc_end :: u32

record ng_game_config_state_table =
  st_root :: u32
  st_table_start :: u32
  st_table_end :: u32
  st_stride :: u32
  st_sentinel :: u32
  st_target_start :: u32
  st_target_end :: u32
  st_max_tables :: u32
  st_max_entries :: u32
  st_follow_chain :: bool
  st_skip_invalid_targets :: bool
  st_scans :: "ng_game_config_record_scan list"

record ng_game_config_record_format =
  rf_name :: string
  rf_tag :: u32
  rf_tag_offset :: u32
  rf_has_tag :: bool
  rf_width :: u32
  rf_stride :: u32
  rf_callback_offsets :: "u32 list"
  rf_sentinel :: u32
  rf_has_sentinel :: bool
  rf_cluster_min_entries :: u32
  rf_cluster_max_entries :: u32
  rf_target_start :: u32
  rf_target_end :: u32
  rf_scans :: "ng_game_config_record_scan list"

record ng_game_config_routine_table =
  rt_name :: string
  rt_stride :: u32
  rt_width :: u32
  rt_min_instructions :: u32
  rt_fallthrough_target :: u32
  rt_has_fallthrough_target :: bool
  rt_scans :: "ng_game_config_record_scan list"

text \<open>The only dispatcher kind is \<open>OBJECT_STATE\<close>.\<close>

datatype ng_game_config_dispatcher_kind = NG_GAME_CONFIG_DISPATCHER_OBJECT_STATE

record ng_game_config_dispatcher =
  dp_kind :: ng_game_config_dispatcher_kind
  dp_state_slot :: u32
  dp_has_state_slot :: bool
  dp_install_slots :: "u32 list"
  dp_spawn_helpers :: "u32 list"

record ng_game_config_bank =
  bk_id :: u32
  bk_offset :: u32
  bk_size :: u32
  bk_has_offset :: bool
  bk_has_size :: bool

record ng_game_config =
  gc_program_fixed_base :: u32
  gc_program_fixed_size :: u32
  gc_program_bank_window_base :: u32
  gc_program_bank_window_size :: u32
  gc_program_map_configured :: bool
  gc_entry :: "u32 list"
  gc_extra :: "u32 list"
  gc_discovery_files :: "string list"
  gc_jump_tables :: "ng_game_config_jump_table list"
  gc_table_calls :: "ng_game_config_table_call list"
  gc_state_tables :: "ng_game_config_state_table list"
  gc_record_formats :: "ng_game_config_record_format list"
  gc_routine_tables :: "ng_game_config_routine_table list"
  gc_dispatchers :: "ng_game_config_dispatcher list"
  gc_banks :: "ng_game_config_bank list"
  gc_runtime_dispatch :: "u32 list"
  gc_truncated :: bool

definition ng_game_config_init :: ng_game_config where
  "ng_game_config_init =
     \<lparr>gc_program_fixed_base = 0, gc_program_fixed_size = 0, gc_program_bank_window_base = 0,
      gc_program_bank_window_size = 0, gc_program_map_configured = False, gc_entry = [], gc_extra = [],
      gc_discovery_files = [], gc_jump_tables = [], gc_table_calls = [], gc_state_tables = [],
      gc_record_formats = [], gc_routine_tables = [], gc_dispatchers = [], gc_banks = [],
      gc_runtime_dispatch = [], gc_truncated = False\<rparr>"

end
