(* ===== verification/DiscoverySet.thy ===== *)
theory DiscoverySet
  imports GameConfig M68kAnalyze
begin

text \<open>
  The candidate set of \<open>function_discovery.c\<close> (its parallel arrays are one list of records, its count the
  list's length), the address filters, and the loop shapes the table scanners share: a counted loop with
  \<open>break\<close>, a loop over addresses with a stride, and a loop over the configured banks.
\<close>

subsection \<open>The candidate set\<close>

definition NG_FUNCTION_DISCOVERY_MAX_CANDIDATES :: u32 where
  "NG_FUNCTION_DISCOVERY_MAX_CANDIDATES = 131072"

definition NG_FUNCTION_DISCOVERY_BANK_NONE :: u32 where
  "NG_FUNCTION_DISCOVERY_BANK_NONE = 0xFFFFFFFF"

record candidate =
  c_addr :: u32
  c_bank :: u32
  c_banked :: bool
  c_entry :: bool
  c_scan_root :: bool

record ng_function_discovery =
  fd_candidates :: "candidate list"
  fd_max_candidates :: u32
  fd_truncated :: bool

definition ng_function_discovery_init :: ng_function_discovery where
  "ng_function_discovery_init =
     \<lparr>fd_candidates = [], fd_max_candidates = NG_FUNCTION_DISCOVERY_MAX_CANDIDATES, fd_truncated = False\<rparr>"

definition ng_function_discovery_set_max_candidates ::
  "u32 \<Rightarrow> ng_function_discovery \<Rightarrow> ng_function_discovery" where
  "ng_function_discovery_set_max_candidates n d =
     d\<lparr>fd_max_candidates :=
         (if n = 0 \<or> NG_FUNCTION_DISCOVERY_MAX_CANDIDATES < n then NG_FUNCTION_DISCOVERY_MAX_CANDIDATES else n)\<rparr>"

definition discovery_bank_for_addr :: "ng_program_rom \<Rightarrow> u32 \<Rightarrow> u32" where
  "discovery_bank_for_addr rom addr =
     (if 1 < ng_program_rom_bank_count rom \<and> ng_program_rom_addr_is_banked rom addr
      then active_bank rom else NG_FUNCTION_DISCOVERY_BANK_NONE)"

text \<open>\<open>banked[i] ? banks[i] : NG_FUNCTION_DISCOVERY_BANK_NONE\<close>\<close>

definition entry_bank :: "candidate \<Rightarrow> u32" where
  "entry_bank c = (if c_banked c then c_bank c else NG_FUNCTION_DISCOVERY_BANK_NONE)"

definition ng_function_discovery_contains :: "ng_function_discovery \<Rightarrow> u32 \<Rightarrow> bool" where
  "ng_function_discovery_contains d addr \<longleftrightarrow> list_ex (\<lambda>c. c_addr c = addr) (fd_candidates d)"

definition ng_function_discovery_contains_bank :: "ng_function_discovery \<Rightarrow> u32 \<Rightarrow> u32 \<Rightarrow> bool" where
  "ng_function_discovery_contains_bank d addr bank \<longleftrightarrow>
     list_ex (\<lambda>c. c_addr c = addr \<and> entry_bank c = bank) (fd_candidates d)"

definition ng_function_discovery_contains_for_rom ::
  "ng_function_discovery \<Rightarrow> ng_program_rom \<Rightarrow> u32 \<Rightarrow> bool" where
  "ng_function_discovery_contains_for_rom d rom addr \<longleftrightarrow>
     ng_function_discovery_contains_bank d addr (discovery_bank_for_addr rom addr)"

definition ng_function_discovery_bank_at :: "ng_function_discovery \<Rightarrow> nat \<Rightarrow> u32" where
  "ng_function_discovery_bank_at d index =
     (if length (fd_candidates d) \<le> index then NG_FUNCTION_DISCOVERY_BANK_NONE
      else entry_bank (fd_candidates d ! index))"

definition ng_function_discovery_is_entry_at :: "ng_function_discovery \<Rightarrow> nat \<Rightarrow> bool" where
  "ng_function_discovery_is_entry_at d index \<longleftrightarrow>
     index < length (fd_candidates d) \<and> c_entry (fd_candidates d ! index)"

definition ng_function_discovery_entry_contains_bank :: "ng_function_discovery \<Rightarrow> u32 \<Rightarrow> u32 \<Rightarrow> bool" where
  "ng_function_discovery_entry_contains_bank d addr bank \<longleftrightarrow>
     list_ex (\<lambda>c. c_addr c = addr \<and> entry_bank c = bank \<and> c_entry c) (fd_candidates d)"

subsection \<open>Address filters\<close>

text \<open>The test on a decoded instruction that every scan repeats.\<close>

definition usable_instr :: "bool \<Rightarrow> ng_m68k_instr \<Rightarrow> bool" where
  "usable_instr decoded i \<longleftrightarrow>
     decoded \<and> i_byte_length i \<noteq> 0 \<and> ng_m68k_validate i \<and>
     i_mnemonic i \<noteq> NG_M68K_UNKNOWN \<and> i_mnemonic i \<noteq> NG_M68K_INVALID"

definition is_probable_function_target :: "ng_program_rom \<Rightarrow> u32 \<Rightarrow> bool" where
  "is_probable_function_target rom addr \<longleftrightarrow>
     (if addr AND 1 \<noteq> 0 \<or> \<not> ng_program_rom_addr_is_mapped rom addr then False
      else case ng_m68k_decode rom addr of (ok, i) \<Rightarrow> usable_instr ok i)"

definition heuristic_target_has_code_shape :: "ng_m68k_instr \<Rightarrow> bool" where
  "heuristic_target_has_code_shape i \<longleftrightarrow>
     i_mnemonic i \<in> {NG_M68K_RTS, NG_M68K_RTE, NG_M68K_RTR, NG_M68K_STOP, NG_M68K_TRAP, NG_M68K_TRAPV,
       NG_M68K_BRA, NG_M68K_BSR, NG_M68K_BCC, NG_M68K_DBCC, NG_M68K_JMP, NG_M68K_JSR}"

text \<open>\<open>n\<close> more iterations of the loop at \<open>pc\<close>.\<close>

primrec heuristic_loop :: "ng_program_rom \<Rightarrow> bool \<Rightarrow> nat \<Rightarrow> u32 \<Rightarrow> bool" where
  "heuristic_loop rom allow_long_fallthrough 0 pc = allow_long_fallthrough"
| "heuristic_loop rom allow_long_fallthrough (Suc n) pc =
     (case ng_m68k_decode rom pc of (ok, i) \<Rightarrow>
        if \<not> usable_instr ok i then False
        else if i_mnemonic i = NG_M68K_ILLEGAL \<or> i_mnemonic i = NG_M68K_RESET then False
        else if heuristic_target_has_code_shape i then True
        else if 0xFFFFFFFF - pc < ucast (i_byte_length i) then False
        else heuristic_loop rom allow_long_fallthrough n (pc + ucast (i_byte_length i)))"

definition is_probable_heuristic_code_target_impl :: "ng_program_rom \<Rightarrow> u32 \<Rightarrow> bool \<Rightarrow> bool" where
  "is_probable_heuristic_code_target_impl rom addr allow_long_fallthrough \<longleftrightarrow>
     is_probable_function_target rom addr \<and> heuristic_loop rom allow_long_fallthrough 32 addr"

definition is_probable_heuristic_code_target :: "ng_program_rom \<Rightarrow> u32 \<Rightarrow> bool" where
  "is_probable_heuristic_code_target rom addr \<longleftrightarrow> is_probable_heuristic_code_target_impl rom addr True"

definition is_probable_strict_heuristic_code_target :: "ng_program_rom \<Rightarrow> u32 \<Rightarrow> bool" where
  "is_probable_strict_heuristic_code_target rom addr \<longleftrightarrow> is_probable_heuristic_code_target_impl rom addr False"

definition is_direct_function_target :: "ng_m68k_instr \<Rightarrow> bool" where
  "is_direct_function_target i \<longleftrightarrow>
     (if i_mnemonic i = NG_M68K_BSR then True
      else if i_mnemonic i \<noteq> NG_M68K_JSR \<and> i_mnemonic i \<noteq> NG_M68K_JMP then False
      else ea_mode (i_src i) = NG_M68K_EA_ABS_W \<or> ea_mode (i_src i) = NG_M68K_EA_ABS_L \<or>
           ea_mode (i_src i) = NG_M68K_EA_PC_DISP)"

definition is_branch_target_candidate :: "ng_m68k_instr \<Rightarrow> bool" where
  "is_branch_target_candidate i \<longleftrightarrow>
     (if i_mnemonic i = NG_M68K_BRA \<or> i_mnemonic i = NG_M68K_BCC then True
      else if i_mnemonic i = NG_M68K_DBCC then i_condition i \<noteq> 0 else False)"

text \<open>The two guards in front of a 16-bit and of a 32-bit read.\<close>

definition mapped16 :: "ng_program_rom \<Rightarrow> u32 \<Rightarrow> bool" where
  "mapped16 rom addr \<longleftrightarrow> ng_program_rom_addr_is_mapped rom addr \<and> ng_program_rom_addr_is_mapped rom (addr + 1)"

definition mapped32 :: "ng_program_rom \<Rightarrow> u32 \<Rightarrow> bool" where
  "mapped32 rom addr \<longleftrightarrow> ng_program_rom_addr_is_mapped rom addr \<and> ng_program_rom_addr_is_mapped rom (addr + 3)"

subsection \<open>Adding candidates\<close>

text \<open>The first candidate with this address and bank, if there is one, gets its flags raised.\<close>

primrec raise_flags :: "u32 \<Rightarrow> u32 \<Rightarrow> bool \<Rightarrow> bool \<Rightarrow> candidate list \<Rightarrow> candidate list option" where
  "raise_flags addr bank is_entry is_scan_root [] = None"
| "raise_flags addr bank is_entry is_scan_root (c # cs) =
     (if c_addr c = addr \<and> entry_bank c = bank
      then Some (c\<lparr>c_entry := c_entry c \<or> is_entry, c_scan_root := c_scan_root c \<or> is_scan_root\<rparr> # cs)
      else map_option ((#) c) (raise_flags addr bank is_entry is_scan_root cs))"

definition candidate_limit :: "ng_function_discovery \<Rightarrow> u32" where
  "candidate_limit d =
     (let n = (if fd_max_candidates d \<noteq> 0 then fd_max_candidates d else NG_FUNCTION_DISCOVERY_MAX_CANDIDATES)
      in if NG_FUNCTION_DISCOVERY_MAX_CANDIDATES < n then NG_FUNCTION_DISCOVERY_MAX_CANDIDATES else n)"

definition ng_function_discovery_add_with_flags ::
  "ng_program_rom \<Rightarrow> u32 \<Rightarrow> bool \<Rightarrow> bool \<Rightarrow> ng_function_discovery \<Rightarrow> ng_function_discovery" where
  "ng_function_discovery_add_with_flags rom addr is_entry is_scan_root d =
     (if \<not> is_probable_function_target rom addr then d
      else
        let bank = discovery_bank_for_addr rom addr in
        case raise_flags addr bank is_entry is_scan_root (fd_candidates d) of
          Some cs \<Rightarrow> d\<lparr>fd_candidates := cs\<rparr>
        | None \<Rightarrow>
            if unat (candidate_limit d) \<le> length (fd_candidates d) then d\<lparr>fd_truncated := True\<rparr>
            else d\<lparr>fd_candidates := fd_candidates d @
                     [\<lparr>c_addr = addr, c_bank = bank, c_banked = bank \<noteq> NG_FUNCTION_DISCOVERY_BANK_NONE,
                       c_entry = is_entry, c_scan_root = is_scan_root\<rparr>]\<rparr>)"

definition ng_function_discovery_add_label ::
  "ng_program_rom \<Rightarrow> u32 \<Rightarrow> ng_function_discovery \<Rightarrow> ng_function_discovery" where
  "ng_function_discovery_add_label rom addr = ng_function_discovery_add_with_flags rom addr False False"

definition ng_function_discovery_add_scan_root ::
  "ng_program_rom \<Rightarrow> u32 \<Rightarrow> ng_function_discovery \<Rightarrow> ng_function_discovery" where
  "ng_function_discovery_add_scan_root rom addr = ng_function_discovery_add_with_flags rom addr False True"

definition ng_function_discovery_add ::
  "ng_program_rom \<Rightarrow> u32 \<Rightarrow> ng_function_discovery \<Rightarrow> ng_function_discovery" where
  "ng_function_discovery_add rom addr = ng_function_discovery_add_with_flags rom addr True True"

subsection \<open>Loops\<close>

text \<open>A counted loop whose body says whether to go on (\<open>False\<close> is its \<open>break\<close>).\<close>

primrec loop_until :: "('a \<Rightarrow> 's \<Rightarrow> bool \<times> 's) \<Rightarrow> 'a list \<Rightarrow> 's \<Rightarrow> 's" where
  "loop_until f [] s = s"
| "loop_until f (x # xs) s = (case f x s of (go, s') \<Rightarrow> if go then loop_until f xs s' else s')"

text \<open>
  \<open>for (addr = start; addr < end;) { body; if (UINT32_MAX - addr < stride) break; addr += stride; }\<close>. Every
  caller has returned before when the stride is 0; here such a loop stops after one turn.
\<close>

function addr_loop :: "(u32 \<Rightarrow> 's \<Rightarrow> bool \<times> 's) \<Rightarrow> u32 \<Rightarrow> u32 \<Rightarrow> u32 \<Rightarrow> 's \<Rightarrow> 's" where
  "addr_loop f stop stride addr s =
     (if addr < stop then
        case f addr s of (go, s') \<Rightarrow>
          if \<not> go \<or> 0xFFFFFFFF - addr < stride \<or> stride = 0 then s'
          else addr_loop f stop stride (addr + stride) s'
      else s)"
  by pat_completeness auto
termination
proof (relation "measure (\<lambda>(f, stop, stride, addr, s). unat stop - unat addr)")
  fix f :: "u32 \<Rightarrow> 's \<Rightarrow> bool \<times> 's" and stop stride addr :: u32 and s x :: 's and xa go s'
  assume a: "addr < stop" and "\<not> (\<not> go \<or> 0xFFFFFFFF - addr < stride \<or> stride = 0)"
  then have "stride \<le> 0xFFFFFFFF - addr" "stride \<noteq> 0" by (simp_all add: not_less)
  then have "unat stride \<le> unat (0xFFFFFFFF - addr)" "0 < unat stride"
    by (simp_all add: word_le_nat_alt unat_gt_0)
  moreover have "unat (0xFFFFFFFF - addr) = 0xFFFFFFFF - unat addr"
    by (simp add: unat_sub word_le_nat_alt unat_below [of addr, simplified] less_Suc_eq_le [symmetric])
  ultimately have "unat (addr + stride) = unat addr + unat stride" "0 < unat stride"
    by (simp_all add: unat_word_ariths)
  then show "((f, stop, stride, addr + stride, s'), f, stop, stride, addr, s)
      \<in> measure (\<lambda>(f, stop, stride, addr, s). unat stop - unat addr)"
    using a by (simp add: word_less_nat_alt)
qed simp

declare addr_loop.simps [simp del]

text \<open>A loop over the configured banks, each with a copy of the ROM that has the bank selected.\<close>

definition for_each_bank :: "ng_program_rom \<Rightarrow> (ng_program_rom \<Rightarrow> 's \<Rightarrow> 's) \<Rightarrow> 's \<Rightarrow> 's" where
  "for_each_bank rom f s =
     fold (\<lambda>k s. let bank = of_nat k
                 in if ng_program_rom_bank_is_configured rom bank then f (ng_program_rom_select_bank rom bank) s else s)
       [0..<unat (ng_program_rom_bank_count rom)] s"

text \<open>Code outside the bank window that refers into it may mean any bank; other references mean the view itself.\<close>

definition across_banks :: "ng_program_rom \<Rightarrow> u32 \<Rightarrow> u32 \<Rightarrow> (ng_program_rom \<Rightarrow> 's \<Rightarrow> 's) \<Rightarrow> 's \<Rightarrow> 's" where
  "across_banks rom start_addr ptr f s =
     (if ng_program_rom_addr_is_banked rom ptr \<and> \<not> ng_program_rom_addr_is_banked rom start_addr \<and>
         1 < ng_program_rom_bank_count rom
      then for_each_bank rom f s else f rom s)"

definition discovery_entry_rom_view :: "ng_program_rom \<Rightarrow> ng_function_discovery \<Rightarrow> nat \<Rightarrow> ng_program_rom" where
  "discovery_entry_rom_view rom d index =
     (let bank = ng_function_discovery_bank_at d index
      in if bank \<noteq> NG_FUNCTION_DISCOVERY_BANK_NONE then ng_program_rom_select_bank rom bank else rom)"

end
