(* ===== verification/DiscoveryTables.thy ===== *)
theory DiscoveryTables
  imports DiscoverySet
begin

text \<open>
  The table scanners of \<open>function_discovery.c\<close>: matched jump tables, configured jump tables, state tables,
  table calls, record formats and routine tables. Each takes the candidate set and returns it extended.
\<close>

subsection \<open>Matched jump tables\<close>

definition is_bra_entry :: "ng_program_rom \<Rightarrow> u32 \<Rightarrow> bool" where
  "is_bra_entry rom addr \<longleftrightarrow>
     (case ng_m68k_decode rom addr of (ok, e) \<Rightarrow>
        ok \<and> ng_m68k_validate e \<and> i_mnemonic e = NG_M68K_BRA \<and> i_byte_length e \<noteq> 0)"

text \<open>The stride after the checks on an entry of a table of code, or \<open>None\<close> for their \<open>break\<close>.\<close>

definition code_entry_stride :: "ng_program_rom \<Rightarrow> ng_m68k_jump_table_pattern \<Rightarrow> u32 \<Rightarrow> u32 \<Rightarrow> u32 option" where
  "code_entry_stride rom p entry_addr stride =
     (case ng_m68k_decode rom entry_addr of (ok, e) \<Rightarrow>
        if jt_entry_kind p = NG_M68K_JUMP_TABLE_ENTRY_ADDRESS then
          if \<not> is_bra_entry rom entry_addr then None
          else if stride = 0 then Some (ucast (i_byte_length e))
          else if ucast (i_byte_length e) \<noteq> stride then None else Some stride
        else if jt_entry_kind p = NG_M68K_JUMP_TABLE_ENTRY_INLINE_CODE then
          if stride = 0 \<or> \<not> mapped32 rom entry_addr \<or>
             ng_program_rom_read32 rom entry_addr \<noteq> jt_entry_signature p then None
          else Some stride
        else
          if stride = 0 \<or> \<not> ok \<or> \<not> ng_m68k_validate e \<or> i_mnemonic e \<noteq> NG_M68K_JMP \<or>
             ucast (i_byte_length e) \<noteq> stride \<or> \<not> is_direct_function_target e then None
          else Some stride)"

primrec code_table_loop ::
  "ng_program_rom \<Rightarrow> ng_m68k_jump_table_pattern \<Rightarrow> nat \<Rightarrow> u32 \<Rightarrow> u32 \<Rightarrow>
   ng_function_discovery \<Rightarrow> ng_function_discovery" where
  "code_table_loop rom p 0 entry_addr stride d = d"
| "code_table_loop rom p (Suc n) entry_addr stride d =
     (case code_entry_stride rom p entry_addr stride of
        None \<Rightarrow>
          if jt_entry_kind p = NG_M68K_JUMP_TABLE_ENTRY_ADDRESS \<and> \<not> is_bra_entry rom entry_addr \<and>
             jt_include_terminal_entry p \<noteq> 0 \<and> is_probable_function_target rom entry_addr
          then ng_function_discovery_add rom entry_addr d else d
      | Some stride' \<Rightarrow>
          let d' = ng_function_discovery_add rom entry_addr d
          in if 0xFFFFFFFF - entry_addr < stride' then d'
             else code_table_loop rom p n (entry_addr + stride') stride' d')"

definition add_jump_table_targets ::
  "ng_program_rom \<Rightarrow> ng_m68k_jump_table_pattern \<Rightarrow> ng_function_discovery \<Rightarrow> ng_function_discovery" where
  "add_jump_table_targets rom p d =
     (if jt_entry_kind p = NG_M68K_JUMP_TABLE_ENTRY_ADDRESS \<or>
         jt_entry_kind p = NG_M68K_JUMP_TABLE_ENTRY_INLINE_CODE \<or>
         jt_entry_kind p = NG_M68K_JUMP_TABLE_ENTRY_DIRECT_DISPATCH
      then code_table_loop rom p 32 (jt_table_addr p) (ucast (jt_entry_size p)) d
      else
        let n = (if jt_max_entries p \<noteq> 0 then jt_max_entries p else 4);
            max_entries = (if 64 < n then 64 else n)
        in loop_until (\<lambda>i d.
             let entry_addr = jt_table_addr p + of_nat i * ucast (jt_entry_size p) in
             if \<not> mapped32 rom entry_addr then (False, d)
             else
               let target = ng_program_rom_read32 rom entry_addr;
                   strict_extra_entry = (jt_max_entries p \<noteq> 0 \<and> 4 \<le> i);
                   target_allowed = (if strict_extra_entry then is_probable_strict_heuristic_code_target rom target
                                     else is_probable_heuristic_code_target rom target)
               in if \<not> target_allowed then (jt_max_entries p = 0, d)
                  else (True, ng_function_discovery_add rom target d)) [0..<unat max_entries] d)"

subsection \<open>Configured jump tables\<close>

text \<open>A target range that is not empty restricts the targets.\<close>

definition in_target_range :: "u32 \<Rightarrow> u32 \<Rightarrow> u32 \<Rightarrow> bool" where
  "in_target_range target_start target_end target \<longleftrightarrow>
     \<not> (target_start < target_end \<and> (target < target_start \<or> target_end \<le> target))"

definition config_jump_table_target_allowed ::
  "ng_program_rom \<Rightarrow> ng_game_config_jump_table \<Rightarrow> u32 \<Rightarrow> bool" where
  "config_jump_table_target_allowed rom t target \<longleftrightarrow>
     in_target_range (jc_target_start t) (jc_target_end t) target \<and> is_probable_function_target rom target"

definition config_jump_table_target :: "ng_program_rom \<Rightarrow> ng_game_config_jump_table \<Rightarrow> u32 \<Rightarrow> u32 option" where
  "config_jump_table_target rom t addr =
     (case jc_format t of
        NG_GAME_CONFIG_JUMP_TABLE_ABS32 \<Rightarrow>
          if mapped32 rom addr then Some (ng_program_rom_read32 rom addr) else None
      | NG_GAME_CONFIG_JUMP_TABLE_PCREL16 \<Rightarrow>
          if mapped16 rom addr
          then Some ((jc_start t AND 0x00FFFFFF) + scast (ng_program_rom_read16 rom addr)) else None
      | NG_GAME_CONFIG_JUMP_TABLE_BRA16 \<Rightarrow> Some addr
      | NG_GAME_CONFIG_JUMP_TABLE_BRA8 \<Rightarrow> Some addr
      | _ \<Rightarrow> None)"

definition add_config_jump_table_targets ::
  "ng_program_rom \<Rightarrow> ng_game_config_jump_table \<Rightarrow> ng_function_discovery \<Rightarrow> ng_function_discovery" where
  "add_config_jump_table_targets rom t d =
     (if jc_stride t = 0 \<or> jc_end t \<le> jc_start t then d
      else addr_loop (\<lambda>addr d.
        (True, case config_jump_table_target rom t addr of
                 None \<Rightarrow> d
               | Some target \<Rightarrow>
                   if config_jump_table_target_allowed rom t target then ng_function_discovery_add rom target d else d))
        (jc_end t) (jc_stride t) (jc_start t) d)"

definition is_work_ram_absolute :: "u32 \<Rightarrow> bool" where
  "is_work_ram_absolute addr \<longleftrightarrow> 0x00100000 \<le> addr \<and> addr \<le> 0x0010FFFF"

definition is_script_predicate_candidate :: "ng_program_rom \<Rightarrow> u32 \<Rightarrow> bool" where
  "is_script_predicate_candidate rom addr \<longleftrightarrow>
     (case ng_m68k_decode rom addr of (ok1, cmpi) \<Rightarrow>
        if \<not> ok1 \<or> \<not> ng_m68k_validate cmpi \<or> i_mnemonic cmpi \<noteq> NG_M68K_CMPI \<or> i_byte_length cmpi = 0 \<or>
           ea_mode (i_dst cmpi) \<noteq> NG_M68K_EA_ABS_L \<or> \<not> is_work_ram_absolute (ea_absolute_addr (i_dst cmpi))
        then False
        else
          let pc = addr + ucast (i_byte_length cmpi) in
          case ng_m68k_decode rom pc of (ok2, scc) \<Rightarrow>
            if \<not> ok2 \<or> \<not> ng_m68k_validate scc \<or> i_mnemonic scc \<noteq> NG_M68K_SCC \<or> i_byte_length scc = 0 \<or>
               ea_mode (i_dst scc) \<noteq> NG_M68K_EA_DREG \<or> ea_reg (i_dst scc) \<noteq> 0
            then False
            else
              let pc = pc + ucast (i_byte_length scc) in
              case ng_m68k_decode rom pc of (ok3, lea) \<Rightarrow>
                if \<not> ok3 \<or> \<not> ng_m68k_validate lea \<or> i_mnemonic lea \<noteq> NG_M68K_LEA \<or> i_byte_length lea = 0 \<or>
                   ea_mode (i_dst lea) \<noteq> NG_M68K_EA_AREG \<or> ea_reg (i_dst lea) \<noteq> 1 \<or>
                   ea_mode (i_src lea) \<noteq> NG_M68K_EA_PC_DISP
                then False
                else case ng_m68k_decode rom (pc + ucast (i_byte_length lea)) of (ok4, rts) \<Rightarrow>
                       ok4 \<and> ng_m68k_validate rts \<and> i_mnemonic rts = NG_M68K_RTS)"

definition add_script_predicate_targets ::
  "ng_program_rom \<Rightarrow> ng_game_config_jump_table \<Rightarrow> ng_function_discovery \<Rightarrow> ng_function_discovery" where
  "add_script_predicate_targets rom t d =
     (if jc_stride t = 0 \<or> jc_end t \<le> jc_start t then d
      else addr_loop (\<lambda>addr d.
        (True, if is_script_predicate_candidate rom addr then ng_function_discovery_add rom addr d else d))
        (jc_end t) (jc_stride t) (jc_start t) d)"

definition add_tagged_abs32_targets ::
  "ng_program_rom \<Rightarrow> ng_game_config_jump_table \<Rightarrow> ng_function_discovery \<Rightarrow> ng_function_discovery" where
  "add_tagged_abs32_targets rom t d =
     (if jc_stride t = 0 \<or> jc_end t \<le> jc_start t then d
      else addr_loop (\<lambda>addr d.
        (True,
         if mapped16 rom addr \<and> ng_program_rom_read16 rom addr = ucast (jc_match t) then
           let target_addr = addr + jc_target_offset t in
           if mapped32 rom target_addr then
             let target = ng_program_rom_read32 rom target_addr in
             if in_target_range (jc_target_start t) (jc_target_end t) target \<and> is_probable_function_target rom target
             then ng_function_discovery_add rom target d else d
           else d
         else d))
        (jc_end t) (jc_stride t) (jc_start t) d)"

primrec inline_callback_loop :: "ng_program_rom \<Rightarrow> nat \<Rightarrow> u32 \<Rightarrow> bool \<Rightarrow> bool" where
  "inline_callback_loop rom 0 pc saw_script_store = False"
| "inline_callback_loop rom (Suc n) pc saw_script_store =
     (case ng_m68k_decode rom pc of (ok, i) \<Rightarrow>
        if \<not> usable_instr ok i then False
        else
          let saw = (saw_script_store \<or>
                (i_mnemonic i = NG_M68K_MOVE \<and> i_size i = 4 \<and> ea_mode (i_src i) = NG_M68K_EA_IMM \<and>
                 ea_mode (i_dst i) = NG_M68K_EA_AIND \<and> ea_reg (i_dst i) = 0))
          in if i_mnemonic i = NG_M68K_RTS then saw
             else if i_mnemonic i \<in> {NG_M68K_RTE, NG_M68K_RTR, NG_M68K_STOP, NG_M68K_TRAP, NG_M68K_ILLEGAL,
                        NG_M68K_JMP} then False
             else if 0xFFFFFFFF - pc < ucast (i_byte_length i) then False
             else inline_callback_loop rom n (pc + ucast (i_byte_length i)) saw)"

definition is_inline_script_callback_target ::
  "ng_program_rom \<Rightarrow> ng_game_config_jump_table \<Rightarrow> u32 \<Rightarrow> bool" where
  "is_inline_script_callback_target rom t target \<longleftrightarrow>
     in_target_range (jc_target_start t) (jc_target_end t) target \<and> is_probable_function_target rom target \<and>
     inline_callback_loop rom 32 target False"

definition add_inline_callback_targets ::
  "ng_program_rom \<Rightarrow> ng_game_config_jump_table \<Rightarrow> ng_function_discovery \<Rightarrow> ng_function_discovery" where
  "add_inline_callback_targets rom t d =
     (if jc_stride t = 0 \<or> jc_end t \<le> jc_start t then d
      else addr_loop (\<lambda>addr d.
        (True,
         if mapped16 rom addr then
           let opcode = ng_program_rom_read16 rom addr in
           if (jc_match t = 0 \<and> (opcode = 0x0003 \<or> opcode = 0x0004)) \<or> opcode = ucast (jc_match t) then
             let target = addr + jc_target_offset t in
             if is_inline_script_callback_target rom t target then ng_function_discovery_add rom target d else d
           else d
         else d))
        (jc_end t) (jc_stride t) (jc_start t) d)"

subsection \<open>State tables\<close>

definition state_table_longword_in_table :: "ng_program_rom \<Rightarrow> ng_game_config_state_table \<Rightarrow> u32 \<Rightarrow> bool" where
  "state_table_longword_in_table rom t addr \<longleftrightarrow>
     \<not> (st_table_end t \<le> st_table_start t \<or> addr < st_table_start t \<or> 0xFFFFFFFF - addr < 3 \<or>
        st_table_end t \<le> addr + 3) \<and> mapped32 rom addr"

definition state_table_target_allowed :: "ng_program_rom \<Rightarrow> ng_game_config_state_table \<Rightarrow> u32 \<Rightarrow> bool" where
  "state_table_target_allowed rom t target \<longleftrightarrow>
     in_target_range (st_target_start t) (st_target_end t) target \<and> is_probable_function_target rom target"

definition state_table_seen :: "u32 list \<Rightarrow> u32 \<Rightarrow> bool" where
  "state_table_seen tables addr \<longleftrightarrow> list_ex (\<lambda>t. t = addr) tables"

text \<open>What one long word of a table does: whether the scan of the table goes on, the queue of tables, the set.\<close>

definition state_table_value ::
  "ng_program_rom \<Rightarrow> ng_game_config_state_table \<Rightarrow> u32 \<Rightarrow> u32 list \<times> ng_function_discovery \<Rightarrow>
   bool \<times> u32 list \<times> ng_function_discovery" where
  "state_table_value rom t v = (\<lambda>(tables, d).
     if v = st_sentinel t then (True, tables, d)
     else if st_follow_chain t \<and> state_table_longword_in_table rom t v then
       if state_table_seen tables v then (True, tables, d)
       else if unat (st_max_tables t) \<le> length tables then (False, tables, d\<lparr>fd_truncated := True\<rparr>)
       else (True, tables @ [v], d)
     else if state_table_target_allowed rom t v then (True, tables, ng_function_discovery_add rom v d)
     else if st_target_start t < st_target_end t \<and> st_target_start t \<le> v \<and> v < st_target_end t \<and>
             (v AND 1 \<noteq> 0 \<or> st_skip_invalid_targets t) then (True, tables, d)
     else (False, tables, d))"

primrec state_table_entries ::
  "ng_program_rom \<Rightarrow> ng_game_config_state_table \<Rightarrow> nat \<Rightarrow> u32 \<Rightarrow> u32 list \<times> ng_function_discovery \<Rightarrow>
   u32 list \<times> ng_function_discovery" where
  "state_table_entries rom t 0 entry_addr s = s"
| "state_table_entries rom t (Suc n) entry_addr s =
     (if \<not> state_table_longword_in_table rom t entry_addr then s
      else case state_table_value rom t (ng_program_rom_read32 rom entry_addr) s of (go, s') \<Rightarrow>
        if \<not> go \<or> 0xFFFFFFFF - entry_addr < st_stride t then s'
        else state_table_entries rom t n (entry_addr + st_stride t) s')"

lemma state_table_value_tables:
  "length (fst (snd (state_table_value rom t v s))) \<le> max (unat (st_max_tables t)) (length (fst s))"
  by (cases s) (simp add: state_table_value_def)

lemma state_table_entries_tables:
  "length (fst (state_table_entries rom t n a s)) \<le> max (unat (st_max_tables t)) (length (fst s))"
proof (induction n arbitrary: a s)
  case (Suc n)
  obtain go s' where v: "state_table_value rom t (ng_program_rom_read32 rom a) s = (go, s')"
    by (cases "state_table_value rom t (ng_program_rom_read32 rom a) s")
  then have "length (fst s') \<le> max (unat (st_max_tables t)) (length (fst s))"
    using state_table_value_tables [of rom t "ng_program_rom_read32 rom a" s] by simp
  then show ?case using Suc.IH [of "a + st_stride t" s'] by (auto simp: v)
qed simp

text \<open>The queue: tables found on the way are scanned after the ones before them.\<close>

function state_table_queue ::
  "ng_program_rom \<Rightarrow> ng_game_config_state_table \<Rightarrow> nat \<Rightarrow> u32 list \<times> ng_function_discovery \<Rightarrow>
   ng_function_discovery" where
  "state_table_queue rom t head s =
     (if head < length (fst s)
      then state_table_queue rom t (Suc head)
             (state_table_entries rom t (unat (st_max_entries t)) (fst s ! head) s)
      else snd s)"
  by pat_completeness auto
termination
proof (relation "measure (\<lambda>(rom, t, head, s). max (unat (st_max_tables t)) (length (fst s)) - head)")
  fix rom t head and s :: "u32 list \<times> ng_function_discovery"
  assume "head < length (fst s)"
  moreover have "max (unat (st_max_tables t))
      (length (fst (state_table_entries rom t (unat (st_max_entries t)) (fst s ! head) s))) \<le>
      max (unat (st_max_tables t)) (length (fst s))"
    by (simp add: state_table_entries_tables)
  ultimately show "((rom, t, Suc head, state_table_entries rom t (unat (st_max_entries t)) (fst s ! head) s), rom, t, head, s)
      \<in> measure (\<lambda>(rom, t, head, s). max (unat (st_max_tables t)) (length (fst s)) - head)"
    by simp
qed simp

declare state_table_queue.simps [simp del]

definition add_state_table_targets ::
  "ng_program_rom \<Rightarrow> ng_game_config_state_table \<Rightarrow> ng_function_discovery \<Rightarrow> ng_function_discovery" where
  "add_state_table_targets rom t d =
     (if st_stride t = 0 \<or> st_max_tables t = 0 \<or> st_max_entries t = 0 \<or>
         \<not> state_table_longword_in_table rom t (st_root t) then d
      else state_table_queue rom t 0 ([st_root t], d))"

text \<open>The views of the ROM a scan covers: every configured bank, one bank, or the view itself.\<close>

definition scan_views ::
  "ng_program_rom \<Rightarrow> bool \<Rightarrow> bool \<Rightarrow> u32 \<Rightarrow> (ng_program_rom \<Rightarrow> 's \<Rightarrow> 's) \<Rightarrow> 's \<Rightarrow> 's" where
  "scan_views rom bank_all bank_one bank_id f s =
     (if bank_all then for_each_bank rom f s
      else if bank_one then
        if ng_program_rom_bank_is_configured rom bank_id then f (ng_program_rom_select_bank rom bank_id) s else s
      else f rom s)"

definition add_state_table_targets_with_scans ::
  "ng_program_rom \<Rightarrow> ng_game_config_state_table \<Rightarrow> ng_function_discovery \<Rightarrow> ng_function_discovery" where
  "add_state_table_targets_with_scans rom t d =
     (if st_scans t = [] then add_state_table_targets rom t d
      else fold (\<lambda>scan. scan_views rom (sc_kind scan = NG_GAME_CONFIG_RECORD_SCAN_BANK_ALL)
                          (sc_kind scan = NG_GAME_CONFIG_RECORD_SCAN_BANK_ONE) (sc_bank_id scan)
                          (\<lambda>view. add_state_table_targets view t)) (st_scans t) d)"

subsection \<open>Table calls\<close>

definition table_call_target_allowed :: "ng_program_rom \<Rightarrow> ng_game_config_table_call \<Rightarrow> u32 \<Rightarrow> bool" where
  "table_call_target_allowed rom call target \<longleftrightarrow>
     in_target_range (tc_target_start call) (tc_target_end call) target \<and>
     is_probable_heuristic_code_target rom target"

definition add_sparse_abs32_table_targets ::
  "ng_program_rom \<Rightarrow> u32 \<Rightarrow> ng_game_config_table_call \<Rightarrow> u32 \<Rightarrow> u32 \<Rightarrow>
   ng_function_discovery \<Rightarrow> ng_function_discovery" where
  "add_sparse_abs32_table_targets rom table_addr call max_entries sentinel d =
     (if max_entries = 0 \<or> \<not> ng_program_rom_addr_is_mapped rom table_addr then d
      else loop_until (\<lambda>i d.
        let entry_addr = table_addr + of_nat i * 4 in
        if \<not> mapped32 rom entry_addr then (False, d)
        else
          let target = ng_program_rom_read32 rom entry_addr in
          if target = sentinel then (True, d)
          else if \<not> table_call_target_allowed rom call target then (False, d)
          else (True, ng_function_discovery_add rom target d)) [0..<unat max_entries] d)"

definition add_tagged_abs32_stream_targets ::
  "ng_program_rom \<Rightarrow> u32 \<Rightarrow> ng_game_config_table_call \<Rightarrow> ng_function_discovery \<Rightarrow> ng_function_discovery" where
  "add_tagged_abs32_stream_targets rom stream_addr call d =
     (if tc_max_entries call = 0 \<or> tc_stride call = 0 \<or> \<not> ng_program_rom_addr_is_mapped rom stream_addr then d
      else loop_until (\<lambda>i d.
        let addr = stream_addr + of_nat i * tc_stride call in
        if \<not> mapped16 rom addr then (False, d)
        else if ng_program_rom_read16 rom addr \<noteq> ucast (tc_match call) then (True, d)
        else
          let target_addr = addr + tc_target_offset call in
          if \<not> mapped32 rom target_addr then (True, d)
          else
            let target = ng_program_rom_read32 rom target_addr in
            (True, if table_call_target_allowed rom call target then ng_function_discovery_add rom target d else d))
        [0..<unat (tc_max_entries call)] d)"

definition add_record_abs32_target ::
  "ng_program_rom \<Rightarrow> u32 \<Rightarrow> ng_game_config_table_call \<Rightarrow> ng_function_discovery \<Rightarrow> ng_function_discovery" where
  "add_record_abs32_target rom record_addr call d =
     (let target_addr = record_addr + tc_target_offset call in
      if \<not> mapped32 rom target_addr then d
      else
        let target = ng_program_rom_read32 rom target_addr in
        if table_call_target_allowed rom call target then ng_function_discovery_add rom target d else d)"

text \<open>\<open>config\<close> is a null pointer or a configuration.\<close>

definition add_config_table_call_targets ::
  "ng_program_rom \<Rightarrow> ng_game_config option \<Rightarrow> ng_m68k_instr \<Rightarrow> ng_m68k_static_areg_state \<Rightarrow>
   ng_function_discovery \<Rightarrow> ng_function_discovery" where
  "add_config_table_call_targets rom config i areg d =
     (case config of None \<Rightarrow> d
      | Some cfg \<Rightarrow>
        if i_mnemonic i \<noteq> NG_M68K_JSR \<or> \<not> is_direct_function_target i then d
        else
          let helper = i_target i AND 0x00FFFFFF in
          fold (\<lambda>call d.
            if tc_helper call AND 0x00FFFFFF \<noteq> helper \<or> 7 < tc_table_reg call \<or>
               sa_valid areg ! unat (tc_table_reg call) = 0 then d
            else
              let table_addr = sa_target areg ! unat (tc_table_reg call) AND 0x00FFFFFF in
              if \<not> in_target_range (tc_table_start call) (tc_table_end call) table_addr then d
              else case tc_format call of
                     NG_GAME_CONFIG_TABLE_CALL_ABS32_SPARSE \<Rightarrow>
                       add_sparse_abs32_table_targets rom table_addr call (tc_max_entries call) (tc_sentinel call) d
                   | NG_GAME_CONFIG_TABLE_CALL_TAGGED_ABS32 \<Rightarrow> add_tagged_abs32_stream_targets rom table_addr call d
                   | NG_GAME_CONFIG_TABLE_CALL_RECORD_ABS32 \<Rightarrow> add_record_abs32_target rom table_addr call d)
            (gc_table_calls cfg) d)"

subsection \<open>Record formats\<close>

definition record_format_target_allowed ::
  "ng_program_rom \<Rightarrow> ng_game_config_record_format \<Rightarrow> u32 \<Rightarrow> bool \<Rightarrow> bool" where
  "record_format_target_allowed rom r target strict_target_shape \<longleftrightarrow>
     in_target_range (rf_target_start r) (rf_target_end r) target \<and>
     (if strict_target_shape then is_probable_heuristic_code_target rom target
      else is_probable_function_target rom target)"

definition record_scan_bounds :: "ng_program_rom \<Rightarrow> ng_game_config_record_scan \<Rightarrow> (u32 \<times> u32) option" where
  "record_scan_bounds rom scan =
     (if sc_kind scan = NG_GAME_CONFIG_RECORD_SCAN_FIXED \<or> sc_kind scan = NG_GAME_CONFIG_RECORD_SCAN_FIXED_AUTO then
        if address_map_enabled rom then
          if fixed_size rom = 0 \<or> 0xFFFFFFFF - fixed_base rom < fixed_size rom then None
          else Some (fixed_base rom, fixed_base rom + fixed_size rom)
        else Some (0, rom_size rom)
      else if sc_kind scan = NG_GAME_CONFIG_RECORD_SCAN_RANGE \<or>
              sc_kind scan = NG_GAME_CONFIG_RECORD_SCAN_RANGE_AUTO then
        if sc_end scan \<le> sc_start scan then None else Some (sc_start scan, sc_end scan)
      else
        if \<not> address_map_enabled rom \<or> bank_window_size rom = 0 \<or>
           0xFFFFFFFF - bank_window_base rom < bank_window_size rom then None
        else if sc_start scan < sc_end scan then Some (sc_start scan, sc_end scan)
        else Some (bank_window_base rom, bank_window_base rom + bank_window_size rom))"

definition record_scan_is_auto :: "ng_game_config_record_scan \<Rightarrow> bool" where
  "record_scan_is_auto scan \<longleftrightarrow>
     sc_kind scan \<in> {NG_GAME_CONFIG_RECORD_SCAN_FIXED_AUTO, NG_GAME_CONFIG_RECORD_SCAN_BANK_ALL_AUTO,
       NG_GAME_CONFIG_RECORD_SCAN_BANK_ONE_AUTO, NG_GAME_CONFIG_RECORD_SCAN_RANGE_AUTO}"

definition record_scan_is_bank_all :: "ng_game_config_record_scan \<Rightarrow> bool" where
  "record_scan_is_bank_all scan \<longleftrightarrow>
     sc_kind scan \<in> {NG_GAME_CONFIG_RECORD_SCAN_BANK_ALL, NG_GAME_CONFIG_RECORD_SCAN_BANK_ALL_AUTO}"

definition record_scan_is_bank_one :: "ng_game_config_record_scan \<Rightarrow> bool" where
  "record_scan_is_bank_one scan \<longleftrightarrow>
     sc_kind scan \<in> {NG_GAME_CONFIG_RECORD_SCAN_BANK_ONE, NG_GAME_CONFIG_RECORD_SCAN_BANK_ONE_AUTO}"

definition record_format_entry_matches :: "ng_program_rom \<Rightarrow> ng_game_config_record_format \<Rightarrow> u32 \<Rightarrow> bool" where
  "record_format_entry_matches rom r addr \<longleftrightarrow>
     (if \<not> rf_has_tag r then True
      else let tag_addr = addr + rf_tag_offset r
           in addr \<le> tag_addr \<and> 1 \<le> 0xFFFFFFFF - tag_addr \<and> mapped16 rom tag_addr \<and>
              ng_program_rom_read16 rom tag_addr = ucast (rf_tag r))"

text \<open>The target a callback offset of a record leads to, if it is readable, not the sentinel and allowed.\<close>

definition record_callback_target ::
  "ng_program_rom \<Rightarrow> ng_game_config_record_format \<Rightarrow> u32 \<Rightarrow> bool \<Rightarrow> u32 \<Rightarrow> u32 option" where
  "record_callback_target rom r addr strict_target_shape offset =
     (let target_addr = addr + offset in
      if target_addr < addr \<or> 0xFFFFFFFF - target_addr < 3 \<or> \<not> mapped32 rom target_addr then None
      else
        let target = ng_program_rom_read32 rom target_addr in
        if rf_has_sentinel r \<and> target = rf_sentinel r then None
        else if record_format_target_allowed rom r target strict_target_shape then Some target else None)"

definition record_format_entry_has_valid_target ::
  "ng_program_rom \<Rightarrow> ng_game_config_record_format \<Rightarrow> u32 \<Rightarrow> bool \<Rightarrow> bool" where
  "record_format_entry_has_valid_target rom r addr strict_target_shape \<longleftrightarrow>
     record_format_entry_matches rom r addr \<and>
     list_ex (\<lambda>offset. record_callback_target rom r addr strict_target_shape offset \<noteq> None) (rf_callback_offsets r)"

definition add_record_format_entry_targets ::
  "ng_program_rom \<Rightarrow> ng_game_config_record_format \<Rightarrow> u32 \<Rightarrow> bool \<Rightarrow>
   ng_function_discovery \<Rightarrow> ng_function_discovery" where
  "add_record_format_entry_targets rom r addr strict_target_shape d =
     (if \<not> record_format_entry_matches rom r addr then d
      else fold (\<lambda>offset d. case record_callback_target rom r addr strict_target_shape offset of
                              None \<Rightarrow> d | Some target \<Rightarrow> ng_function_discovery_add rom target d)
             (rf_callback_offsets r) d)"

primrec record_run_loop ::
  "ng_program_rom \<Rightarrow> ng_game_config_record_format \<Rightarrow> u32 \<Rightarrow> bool \<Rightarrow> nat \<Rightarrow> u32 \<Rightarrow>
   ng_function_discovery \<Rightarrow> ng_function_discovery" where
  "record_run_loop rom r stride strict_target_shape 0 addr d = d"
| "record_run_loop rom r stride strict_target_shape (Suc n) addr d =
     (let d' = add_record_format_entry_targets rom r addr strict_target_shape d
      in if 0xFFFFFFFF - addr < stride then d'
         else record_run_loop rom r stride strict_target_shape n (addr + stride) d')"

definition add_record_format_run_targets ::
  "ng_program_rom \<Rightarrow> ng_game_config_record_format \<Rightarrow> u32 \<Rightarrow> u32 \<Rightarrow> u32 \<Rightarrow> bool \<Rightarrow>
   ng_function_discovery \<Rightarrow> ng_function_discovery" where
  "add_record_format_run_targets rom r run_start run_entries stride strict_target_shape d =
     (if run_entries = 0 \<or> stride = 0 then d
      else record_run_loop rom r stride strict_target_shape (unat run_entries) run_start d)"

definition flush_record_format_cluster ::
  "ng_program_rom \<Rightarrow> ng_game_config_record_format \<Rightarrow> u32 \<Rightarrow> u32 \<Rightarrow> u32 \<Rightarrow> bool \<Rightarrow>
   ng_function_discovery \<Rightarrow> ng_function_discovery" where
  "flush_record_format_cluster rom r run_start run_entries stride strict_target_shape d =
     (if rf_cluster_min_entries r \<le> run_entries \<and>
         (rf_cluster_max_entries r = 0 \<or> run_entries \<le> rf_cluster_max_entries r)
      then add_record_format_run_targets rom r run_start run_entries stride strict_target_shape d else d)"

definition record_format_auto_phase_step :: "ng_game_config_record_format \<Rightarrow> u32 \<Rightarrow> u32 \<Rightarrow> u32" where
  "record_format_auto_phase_step r start stride =
     (if stride AND 1 \<noteq> 0 \<or> start AND 1 \<noteq> 0 then 1
      else if rf_has_tag r \<and> rf_tag_offset r AND 1 \<noteq> 0 then 1
      else if list_ex (\<lambda>offset. offset AND 1 \<noteq> 0) (rf_callback_offsets r) then 1
      else 2)"

definition record_stride :: "ng_game_config_record_format \<Rightarrow> u32" where
  "record_stride r = (if rf_stride r \<noteq> 0 then rf_stride r else rf_width r)"

text \<open>The body of the region loop, over \<open>run_start\<close>, \<open>run_entries\<close> and the candidate set.\<close>

definition record_region_step ::
  "ng_program_rom \<Rightarrow> ng_game_config_record_format \<Rightarrow> u32 \<Rightarrow> bool \<Rightarrow> bool \<Rightarrow> u32 \<Rightarrow>
   u32 \<times> u32 \<times> ng_function_discovery \<Rightarrow> bool \<times> u32 \<times> u32 \<times> ng_function_discovery" where
  "record_region_step rom r stop clustered strict_target_shape addr = (\<lambda>(run_start, run_entries, d).
     if rf_width r \<noteq> 0 \<and> (0xFFFFFFFF - addr < rf_width r - 1 \<or> stop < addr + rf_width r)
     then (False, run_start, run_entries, d)
     else if clustered then
       if record_format_entry_has_valid_target rom r addr strict_target_shape
       then (True, if run_entries = 0 then addr else run_start, run_entries + 1, d)
       else if run_entries \<noteq> 0
       then (True, run_start, 0,
               flush_record_format_cluster rom r run_start run_entries (record_stride r) strict_target_shape d)
       else (True, run_start, run_entries, d)
     else (True, run_start, run_entries, add_record_format_entry_targets rom r addr strict_target_shape d))"

definition add_record_format_region_targets ::
  "ng_program_rom \<Rightarrow> ng_game_config_record_format \<Rightarrow> u32 \<Rightarrow> u32 \<Rightarrow> bool \<Rightarrow>
   ng_function_discovery \<Rightarrow> ng_function_discovery" where
  "add_record_format_region_targets rom r start stop strict_target_shape d =
     (if rf_callback_offsets r = [] \<or> stop \<le> start \<or> record_stride r = 0 then d
      else
        let clustered = (1 < rf_cluster_min_entries r) in
        case addr_loop (record_region_step rom r stop clustered strict_target_shape) stop (record_stride r) start
               (0, 0, d) of
          (run_start, run_entries, d') \<Rightarrow>
            if clustered \<and> run_entries \<noteq> 0
            then flush_record_format_cluster rom r run_start run_entries (record_stride r) strict_target_shape d'
            else d')"

text \<open>
  The phases of an automatic scan. The step is 1, or 2 when the stride is even, so the counter does not
  pass 32 bits and the wrap-around test of \<open>addr_loop\<close> never ends it early.
\<close>

definition add_record_format_auto_region_targets ::
  "ng_program_rom \<Rightarrow> ng_game_config_record_format \<Rightarrow> u32 \<Rightarrow> u32 \<Rightarrow>
   ng_function_discovery \<Rightarrow> ng_function_discovery" where
  "add_record_format_auto_region_targets rom r start stop d =
     (if rf_callback_offsets r = [] \<or> stop \<le> start \<or> record_stride r = 0 then d
      else
        let clustered = (if rf_cluster_min_entries r \<le> 1 then r\<lparr>rf_cluster_min_entries := 3\<rparr> else r) in
        addr_loop (\<lambda>phase d.
          if 0xFFFFFFFF - start < phase then (False, d)
          else if stop \<le> start + phase then (False, d)
          else (True, add_record_format_region_targets rom clustered (start + phase) stop True d))
          (record_stride r) (record_format_auto_phase_step r start (record_stride r)) 0 d)"

definition record_scan_view ::
  "ng_game_config_record_format \<Rightarrow> ng_game_config_record_scan \<Rightarrow> ng_program_rom \<Rightarrow>
   ng_function_discovery \<Rightarrow> ng_function_discovery" where
  "record_scan_view r scan view d =
     (case record_scan_bounds view scan of
        None \<Rightarrow> d
      | Some (start, stop) \<Rightarrow>
          if record_scan_is_auto scan then add_record_format_auto_region_targets view r start stop d
          else add_record_format_region_targets view r start stop False d)"

definition add_record_format_targets ::
  "ng_program_rom \<Rightarrow> ng_game_config_record_format \<Rightarrow> ng_function_discovery \<Rightarrow> ng_function_discovery" where
  "add_record_format_targets rom r d =
     fold (\<lambda>scan. scan_views rom (record_scan_is_bank_all scan) (record_scan_is_bank_one scan) (sc_bank_id scan)
                    (record_scan_view r scan)) (rf_scans r) d"

subsection \<open>Routine tables\<close>

definition routine_table_entry_terminal :: "ng_m68k_instr \<Rightarrow> bool" where
  "routine_table_entry_terminal i \<longleftrightarrow>
     i_mnemonic i \<in> {NG_M68K_RTS, NG_M68K_RTE, NG_M68K_RTR, NG_M68K_BRA, NG_M68K_JMP}"

text \<open>
  The loop over the instructions of an entry. At the very end of the address space \<open>pc\<close> may wrap to 0 and
  the loop go on from there, so it need not end; \<open>None\<close> is not returning.
\<close>

partial_function (option) routine_entry_loop ::
  "ng_program_rom \<Rightarrow> ng_game_config_routine_table \<Rightarrow> u32 \<Rightarrow> u32 \<Rightarrow> u32 \<Rightarrow> bool option" where
  "routine_entry_loop rom t limit pc decoded =
     (if pc < limit then
        let ok = fst (ng_m68k_decode rom pc);
            i = snd (ng_m68k_decode rom pc);
            len = ucast (i_byte_length i) :: u32;
            min_instructions = (if rt_min_instructions t = 0 then 1 else rt_min_instructions t)
        in if \<not> ng_program_rom_addr_is_mapped rom pc \<or> \<not> usable_instr ok i \<or> 0xFFFFFFFF - pc < len - 1 \<or>
              limit < pc + len \<or> \<not> ng_program_rom_addr_is_mapped rom (pc + len - 1) then Some False
           else if routine_table_entry_terminal i then Some (min_instructions \<le> decoded + 1)
           else if rt_has_fallthrough_target t \<and> pc + len = rt_fallthrough_target t
           then Some (min_instructions \<le> decoded + 1 \<and> is_probable_function_target rom (pc + len))
           else routine_entry_loop rom t limit (pc + len) (decoded + 1)
      else Some False)"

definition routine_table_entry_valid ::
  "ng_program_rom \<Rightarrow> ng_game_config_routine_table \<Rightarrow> u32 \<Rightarrow> u32 \<Rightarrow> bool option" where
  "routine_table_entry_valid rom t addr width =
     (if width = 0 \<or> addr AND 1 \<noteq> 0 then Some False
      else if 0xFFFFFFFF - addr < width \<or> \<not> ng_program_rom_addr_is_mapped rom addr then Some False
      else routine_entry_loop rom t (addr + width) addr 0)"

definition routine_region_step ::
  "ng_program_rom \<Rightarrow> ng_game_config_routine_table \<Rightarrow> u32 \<Rightarrow> u32 \<Rightarrow> u32 \<Rightarrow>
   ng_function_discovery option \<Rightarrow> bool \<times> ng_function_discovery option" where
  "routine_region_step rom t stop width addr s =
     (case s of None \<Rightarrow> (False, None)
      | Some d \<Rightarrow>
          if 0xFFFFFFFF - addr < width \<or> stop < addr + width then (False, Some d)
          else (case routine_table_entry_valid rom t addr width of
                  None \<Rightarrow> (False, None)
                | Some v \<Rightarrow> (True, Some (if v then ng_function_discovery_add rom addr d else d))))"

definition add_routine_table_region_targets ::
  "ng_program_rom \<Rightarrow> ng_game_config_routine_table \<Rightarrow> u32 \<Rightarrow> u32 \<Rightarrow>
   ng_function_discovery option \<Rightarrow> ng_function_discovery option" where
  "add_routine_table_region_targets rom t start stop s =
     (let width = (if rt_width t \<noteq> 0 then rt_width t else rt_stride t) in
      if rt_stride t = 0 \<or> stop \<le> start \<or> width = 0 \<or> rt_stride t < width then s
      else addr_loop (routine_region_step rom t stop width) stop (rt_stride t) start s)"

definition add_routine_table_targets ::
  "ng_program_rom \<Rightarrow> ng_game_config_routine_table \<Rightarrow> ng_function_discovery option \<Rightarrow> ng_function_discovery option" where
  "add_routine_table_targets rom t s =
     fold (\<lambda>scan. scan_views rom (sc_kind scan = NG_GAME_CONFIG_RECORD_SCAN_BANK_ALL)
                    (sc_kind scan = NG_GAME_CONFIG_RECORD_SCAN_BANK_ONE) (sc_bank_id scan)
                    (\<lambda>view s. case record_scan_bounds view scan of
                                None \<Rightarrow> s
                              | Some (start, stop) \<Rightarrow> add_routine_table_region_targets view t start stop s))
       (rt_scans t) s"

end
