(* ===== verification/DiscoveryTasks.thy ===== *)
theory DiscoveryTasks
  imports DiscoveryTables
begin

text \<open>
  The task patterns of \<open>function_discovery.c\<close>: code addresses stored into an object's state slot, passed to a
  spawn helper, or stored through the pointer a spawn helper returned.
\<close>

subsection \<open>Slots and helpers\<close>

definition legacy_task_state_store_slot_allowed :: "ng_m68k_instr \<Rightarrow> bool" where
  "legacy_task_state_store_slot_allowed store \<longleftrightarrow>
     (if ea_mode (i_dst store) = NG_M68K_EA_AIND then True
      else ea_mode (i_dst store) = NG_M68K_EA_ADISP \<and> ea_displacement (i_dst store) = 0x70)"

definition dispatcher_install_slot_matches :: "ng_game_config_dispatcher \<Rightarrow> u32 \<Rightarrow> bool" where
  "dispatcher_install_slot_matches dp slot \<longleftrightarrow>
     (if dp_kind dp \<noteq> NG_GAME_CONFIG_DISPATCHER_OBJECT_STATE then False
      else list_ex (\<lambda>s. s = slot) (dp_install_slots dp) \<or> (dp_has_state_slot dp \<and> dp_state_slot dp = slot))"

definition dispatcher_task_state_store_slot_allowed :: "ng_game_config option \<Rightarrow> ng_m68k_instr \<Rightarrow> bool" where
  "dispatcher_task_state_store_slot_allowed config store \<longleftrightarrow>
     (case config of
        None \<Rightarrow> legacy_task_state_store_slot_allowed store
      | Some cfg \<Rightarrow>
          if gc_dispatchers cfg = [] then legacy_task_state_store_slot_allowed store
          else if ea_mode (i_dst store) = NG_M68K_EA_AIND
          then list_ex (\<lambda>dp. dispatcher_install_slot_matches dp 0) (gc_dispatchers cfg)
          else if ea_mode (i_dst store) = NG_M68K_EA_ADISP
          then list_ex (\<lambda>dp. dispatcher_install_slot_matches dp (ucast (ea_displacement (i_dst store))))
                 (gc_dispatchers cfg)
          else False)"

definition config_state_table_contains_addr :: "ng_game_config option \<Rightarrow> u32 \<Rightarrow> bool" where
  "config_state_table_contains_addr config address \<longleftrightarrow>
     (case config of
        None \<Rightarrow> False
      | Some cfg \<Rightarrow>
          let addr = address AND 0x00FFFFFF in
          list_ex (\<lambda>t. st_table_start t < st_table_end t \<and> st_table_start t AND 0x00FFFFFF \<le> addr \<and>
                       addr < st_table_end t AND 0x00FFFFFF) (gc_state_tables cfg))"

definition legacy_task_spawn_helper_allowed :: "u32 \<Rightarrow> bool" where
  "legacy_task_spawn_helper_allowed helper \<longleftrightarrow> helper = 0x0004AE \<or> helper = 0x0006FE"

definition dispatcher_task_spawn_helper_allowed :: "ng_game_config option \<Rightarrow> u32 \<Rightarrow> bool" where
  "dispatcher_task_spawn_helper_allowed config helper \<longleftrightarrow>
     (case config of
        None \<Rightarrow> legacy_task_spawn_helper_allowed helper
      | Some cfg \<Rightarrow>
          if gc_dispatchers cfg = [] then legacy_task_spawn_helper_allowed helper
          else list_ex (\<lambda>dp. dp_kind dp = NG_GAME_CONFIG_DISPATCHER_OBJECT_STATE \<and>
                             list_ex (\<lambda>h. h = helper) (dp_spawn_helpers dp)) (gc_dispatchers cfg))"

definition instr_writes_areg_number :: "ng_m68k_instr \<Rightarrow> u8 \<Rightarrow> bool" where
  "instr_writes_areg_number i reg \<longleftrightarrow> ea_mode (i_dst i) = NG_M68K_EA_AREG \<and> ea_reg (i_dst i) = reg"

subsection \<open>Wrappers of the spawn helpers\<close>

text \<open>
  The loop over at most 24 instructions of a wrapper. \<open>keep_a1\<close> distinguishes the two routines: the first
  also stops when A1 is overwritten. \<open>nested\<close> is the recursive call, which never accepts at depth 0.
\<close>

primrec spawn_wrapper_loop ::
  "ng_program_rom \<Rightarrow> ng_game_config option \<Rightarrow> bool \<Rightarrow> (u32 \<Rightarrow> bool) \<Rightarrow> u32 \<Rightarrow> nat \<Rightarrow> u32 \<Rightarrow> bool" where
  "spawn_wrapper_loop rom config keep_a1 nested helper 0 pc = False"
| "spawn_wrapper_loop rom config keep_a1 nested helper (Suc n) pc =
     (case ng_m68k_decode rom pc of (ok, i) \<Rightarrow>
        if \<not> usable_instr ok i then False
        else
          let target = i_target i AND 0x00FFFFFF in
          if i_mnemonic i = NG_M68K_JSR \<and> is_direct_function_target i \<and>
             (dispatcher_task_spawn_helper_allowed config target \<or>
              (target \<noteq> helper AND 0x00FFFFFF \<and> nested target)) then True
          else if keep_a1 \<and> instr_writes_areg_number i 1 then False
          else if i_mnemonic i \<in> {NG_M68K_RTS, NG_M68K_RTE, NG_M68K_RTR, NG_M68K_JMP} then False
          else spawn_wrapper_loop rom config keep_a1 nested helper n (pc + ucast (i_byte_length i)))"

primrec dispatcher_task_spawn_wrapper_allowed_depth ::
  "ng_program_rom \<Rightarrow> ng_game_config option \<Rightarrow> nat \<Rightarrow> u32 \<Rightarrow> bool" where
  "dispatcher_task_spawn_wrapper_allowed_depth rom config 0 = (\<lambda>helper.
     ng_program_rom_addr_is_mapped rom helper \<and>
     spawn_wrapper_loop rom config True (\<lambda>_. False) helper 24 helper)"
| "dispatcher_task_spawn_wrapper_allowed_depth rom config (Suc depth) = (\<lambda>helper.
     ng_program_rom_addr_is_mapped rom helper \<and>
     spawn_wrapper_loop rom config True (dispatcher_task_spawn_wrapper_allowed_depth rom config depth)
       helper 24 helper)"

definition dispatcher_task_spawn_wrapper_allowed ::
  "ng_program_rom \<Rightarrow> ng_game_config option \<Rightarrow> u32 \<Rightarrow> bool" where
  "dispatcher_task_spawn_wrapper_allowed rom config helper =
     dispatcher_task_spawn_wrapper_allowed_depth rom config 2 helper"

primrec dispatcher_task_spawn_result_wrapper_allowed_depth ::
  "ng_program_rom \<Rightarrow> ng_game_config option \<Rightarrow> nat \<Rightarrow> u32 \<Rightarrow> bool" where
  "dispatcher_task_spawn_result_wrapper_allowed_depth rom config 0 = (\<lambda>helper.
     ng_program_rom_addr_is_mapped rom helper \<and>
     spawn_wrapper_loop rom config False (\<lambda>_. False) helper 24 helper)"
| "dispatcher_task_spawn_result_wrapper_allowed_depth rom config (Suc depth) = (\<lambda>helper.
     ng_program_rom_addr_is_mapped rom helper \<and>
     spawn_wrapper_loop rom config False (dispatcher_task_spawn_result_wrapper_allowed_depth rom config depth)
       helper 24 helper)"

definition dispatcher_task_spawn_result_call_allowed ::
  "ng_program_rom \<Rightarrow> ng_game_config option \<Rightarrow> u32 \<Rightarrow> bool" where
  "dispatcher_task_spawn_result_call_allowed rom config helper \<longleftrightarrow>
     dispatcher_task_spawn_helper_allowed config helper \<or>
     dispatcher_task_spawn_result_wrapper_allowed_depth rom config 2 helper"

subsection \<open>The patterns\<close>

definition is_task_state_store ::
  "ng_program_rom \<Rightarrow> ng_game_config option \<Rightarrow> ng_m68k_instr \<Rightarrow> ng_m68k_instr \<Rightarrow> u32 option" where
  "is_task_state_store rom config load store =
     (if i_mnemonic load \<noteq> NG_M68K_LEA \<or> ea_mode (i_dst load) \<noteq> NG_M68K_EA_AREG \<or>
         \<not> has_static_code_target load then None
      else if i_mnemonic store \<noteq> NG_M68K_MOVE \<or> i_size store \<noteq> 4 \<or> ea_mode (i_src store) \<noteq> NG_M68K_EA_AREG \<or>
              ea_reg (i_src store) \<noteq> ea_reg (i_dst load) \<or> ea_reg (i_dst store) \<noteq> 6 then None
      else if ea_mode (i_dst store) = NG_M68K_EA_ADISP \<and> 0x00100000 \<le> i_target load AND 0x00FFFFFF then None
      else if \<not> dispatcher_task_state_store_slot_allowed config store then None
      else if \<not> is_probable_heuristic_code_target rom (i_target load) \<and>
              \<not> config_state_table_contains_addr config (i_target load) then None
      else Some (i_target load))"

text \<open>\<open>spawn_result\<close> holds the address registers that carry the result of a spawn helper.\<close>

definition is_immediate_task_state_store ::
  "ng_program_rom \<Rightarrow> ng_game_config option \<Rightarrow> ng_m68k_instr \<Rightarrow> u8 list \<Rightarrow> u32 option" where
  "is_immediate_task_state_store rom config store spawn_result =
     (if i_mnemonic store \<noteq> NG_M68K_MOVE \<or> i_size store \<noteq> 4 \<or> ea_mode (i_src store) \<noteq> NG_M68K_EA_IMM \<or>
         7 < ea_reg (i_dst store) then None
      else if spawn_result ! unat (ea_reg (i_dst store)) = 0 then None
      else if \<not> dispatcher_task_state_store_slot_allowed config store then None
      else
        let candidate = ea_immediate (i_src store) AND 0x00FFFFFF in
        if \<not> is_probable_heuristic_code_target rom candidate \<and>
           \<not> config_state_table_contains_addr config candidate then None
        else Some candidate)"

definition is_task_spawn_call ::
  "ng_program_rom \<Rightarrow> ng_game_config option \<Rightarrow> ng_m68k_instr \<Rightarrow> ng_m68k_instr \<Rightarrow> u32 option" where
  "is_task_spawn_call rom config load call =
     (if i_mnemonic load \<noteq> NG_M68K_LEA \<or> ea_mode (i_dst load) \<noteq> NG_M68K_EA_AREG \<or> ea_reg (i_dst load) \<noteq> 1 \<or>
         \<not> has_static_code_target load then None
      else if i_mnemonic call \<noteq> NG_M68K_JSR \<or> ea_mode (i_src call) \<noteq> NG_M68K_EA_ABS_L then None
      else
        let helper = i_target call AND 0x00FFFFFF in
        if \<not> dispatcher_task_spawn_helper_allowed config helper \<and>
           \<not> dispatcher_task_spawn_wrapper_allowed rom config helper then None
        else if \<not> is_probable_heuristic_code_target rom (i_target load) then None
        else Some (i_target load))"

definition is_indexed_task_spawn_call ::
  "ng_program_rom \<Rightarrow> ng_game_config option \<Rightarrow> ng_m68k_instr \<Rightarrow> ng_m68k_instr \<Rightarrow>
   ng_m68k_static_areg_state \<Rightarrow> ng_m68k_jump_table_pattern option" where
  "is_indexed_task_spawn_call rom config load call areg =
     (if i_mnemonic load \<noteq> NG_M68K_MOVEA \<or> i_size load \<noteq> 4 \<or> ea_mode (i_src load) \<noteq> NG_M68K_EA_AINDEX \<or>
         7 < ea_reg (i_src load) \<or> sa_valid areg ! unat (ea_reg (i_src load)) = 0 \<or>
         ea_mode (i_dst load) \<noteq> NG_M68K_EA_AREG \<or> ea_reg (i_dst load) \<noteq> 1 then None
      else if i_mnemonic call \<noteq> NG_M68K_JSR \<or> \<not> is_direct_function_target call then None
      else
        let helper = i_target call AND 0x00FFFFFF in
        if \<not> dispatcher_task_spawn_helper_allowed config helper \<and>
           \<not> dispatcher_task_spawn_wrapper_allowed rom config helper then None
        else Some (jump_table_zero
               \<lparr>jt_table_addr := table_base (sa_target areg ! unat (ea_reg (i_src load))) (ea_displacement (i_src load)),
                jt_index_reg := ea_index_reg (i_src load), jt_target_reg := ea_reg (i_dst load),
                jt_entry_size := 4, jt_entry_kind := NG_M68K_JUMP_TABLE_ENTRY_ABS32\<rparr>))"

end
