(* ===== verification/DiscoveryStatic.thy ===== *)
theory DiscoveryStatic
  imports DiscoveryTasks
begin

text \<open>
  The register and memory-slot constants discovery follows through a function: address and data registers,
  sets of possible address values with a small model of the stack, and pointers stored in slots of A6.
\<close>

subsection \<open>Indirect dispatch through a known address register\<close>

definition is_indirect_areg_dispatch :: "ng_m68k_instr \<Rightarrow> bool" where
  "is_indirect_areg_dispatch i \<longleftrightarrow>
     (i_mnemonic i = NG_M68K_JSR \<or> i_mnemonic i = NG_M68K_JMP) \<and> ea_mode (i_src i) = NG_M68K_EA_AIND \<and>
     ea_reg (i_src i) < 8"

definition abs_pointer_load_addr :: "ng_m68k_instr \<Rightarrow> u8 \<Rightarrow> u32 option" where
  "abs_pointer_load_addr load reg =
     (if i_mnemonic load \<noteq> NG_M68K_MOVEA \<or> i_size load \<noteq> 4 \<or> ea_mode (i_dst load) \<noteq> NG_M68K_EA_AREG \<or>
         ea_reg (i_dst load) \<noteq> reg then None
      else if ea_mode (i_src load) = NG_M68K_EA_ABS_W \<or> ea_mode (i_src load) = NG_M68K_EA_ABS_L \<or>
              ea_mode (i_src load) = NG_M68K_EA_PC_DISP
      then Some (ea_absolute_addr (i_src load) AND 0x00FFFFFF) else None)"

definition add_abs_pointer_target_from_view ::
  "u32 \<Rightarrow> ng_program_rom \<Rightarrow> ng_function_discovery \<Rightarrow> ng_function_discovery" where
  "add_abs_pointer_target_from_view ptr_addr rom d =
     (if \<not> mapped32 rom ptr_addr then d
      else
        let target = ng_program_rom_read32 rom ptr_addr in
        if is_probable_function_target rom target then ng_function_discovery_add rom target d else d)"

definition add_abs_pointer_indirect_targets ::
  "ng_program_rom \<Rightarrow> u32 \<Rightarrow> ng_m68k_instr \<Rightarrow> ng_m68k_instr \<Rightarrow> ng_function_discovery \<Rightarrow> ng_function_discovery" where
  "add_abs_pointer_indirect_targets rom start_addr load dispatch d =
     (if \<not> is_indirect_areg_dispatch dispatch then d
      else case abs_pointer_load_addr load (ea_reg (i_src dispatch)) of
             None \<Rightarrow> d
           | Some ptr_addr \<Rightarrow> across_banks rom start_addr ptr_addr (add_abs_pointer_target_from_view ptr_addr) d)"

definition add_static_areg_indirect_target ::
  "ng_program_rom \<Rightarrow> u32 \<Rightarrow> ng_m68k_instr \<Rightarrow> ng_m68k_static_areg_state \<Rightarrow>
   ng_function_discovery \<Rightarrow> ng_function_discovery" where
  "add_static_areg_indirect_target rom start_addr dispatch areg d =
     (if \<not> is_indirect_areg_dispatch dispatch \<or> sa_valid areg ! unat (ea_reg (i_src dispatch)) = 0 then d
      else
        let target = sa_target areg ! unat (ea_reg (i_src dispatch)) AND 0x00FFFFFF
        in across_banks rom start_addr target (\<lambda>view. ng_function_discovery_add view target) d)"

subsection \<open>Data registers\<close>

record static_dreg_state =
  sd_valid :: "u8 list"
  sd_target :: "u32 list"

definition static_dreg_reset :: "static_dreg_state \<Rightarrow> static_dreg_state" where
  "static_dreg_reset st = st\<lparr>sd_valid := replicate 8 0\<rparr>"

definition static_dreg_clobbers :: "ng_m68k_mnemonic list" where
  "static_dreg_clobbers =
     [NG_M68K_MOVEQ, NG_M68K_ADD, NG_M68K_ADDQ, NG_M68K_ADDX, NG_M68K_SUB, NG_M68K_SUBQ, NG_M68K_SUBX,
      NG_M68K_OR, NG_M68K_AND, NG_M68K_EOR, NG_M68K_MULU, NG_M68K_MULS, NG_M68K_DIVU, NG_M68K_DIVS,
      NG_M68K_CLR, NG_M68K_NEG, NG_M68K_NEGX, NG_M68K_NBCD, NG_M68K_NOT, NG_M68K_EXT, NG_M68K_SWAP,
      NG_M68K_ASL, NG_M68K_ASR, NG_M68K_LSL, NG_M68K_LSR, NG_M68K_ROXL, NG_M68K_ROXR, NG_M68K_ROL,
      NG_M68K_ROR, NG_M68K_ADDI, NG_M68K_SUBI, NG_M68K_ORI, NG_M68K_ANDI, NG_M68K_EORI]"

definition static_dreg_update :: "ng_m68k_instr \<Rightarrow> static_dreg_state \<Rightarrow> static_dreg_state" where
  "static_dreg_update i st =
     (if i_mnemonic i = NG_M68K_JSR \<or> i_mnemonic i = NG_M68K_BSR then static_dreg_reset st
      else if i_mnemonic i = NG_M68K_MOVE \<and> ea_mode (i_dst i) = NG_M68K_EA_DREG \<and> ea_reg (i_dst i) < 8 then
        if i_size i = 4 \<and> ea_mode (i_src i) = NG_M68K_EA_IMM
        then st\<lparr>sd_target := (sd_target st)[unat (ea_reg (i_dst i)) := ea_immediate (i_src i) AND 0x00FFFFFF],
                sd_valid := (sd_valid st)[unat (ea_reg (i_dst i)) := 1]\<rparr>
        else st\<lparr>sd_valid := (sd_valid st)[unat (ea_reg (i_dst i)) := 0]\<rparr>
      else if i_mnemonic i \<in> set static_dreg_clobbers \<and> ea_mode (i_dst i) = NG_M68K_EA_DREG \<and> ea_reg (i_dst i) < 8
      then st\<lparr>sd_valid := (sd_valid st)[unat (ea_reg (i_dst i)) := 0]\<rparr>
      else st)"

definition static_dreg_to_areg_update ::
  "static_dreg_state \<Rightarrow> ng_m68k_instr \<Rightarrow> ng_m68k_static_areg_state \<Rightarrow> ng_m68k_static_areg_state" where
  "static_dreg_to_areg_update dreg i areg =
     (if i_mnemonic i \<noteq> NG_M68K_MOVEA \<or> i_size i \<noteq> 4 \<or> ea_mode (i_src i) \<noteq> NG_M68K_EA_DREG \<or>
         8 \<le> ea_reg (i_src i) \<or> ea_mode (i_dst i) \<noteq> NG_M68K_EA_AREG \<or> 8 \<le> ea_reg (i_dst i) then areg
      else if sd_valid dreg ! unat (ea_reg (i_src i)) \<noteq> 0
      then areg\<lparr>sa_target := (sa_target areg)[unat (ea_reg (i_dst i)) :=
                              sd_target dreg ! unat (ea_reg (i_src i)) AND 0x00FFFFFF],
                sa_valid := (sa_valid areg)[unat (ea_reg (i_dst i)) := 1]\<rparr>
      else areg)"

definition scan_state_has_static_targets :: "ng_m68k_static_areg_state \<Rightarrow> static_dreg_state \<Rightarrow> bool" where
  "scan_state_has_static_targets areg dreg \<longleftrightarrow>
     list_ex (\<lambda>k. sa_valid areg ! k \<noteq> 0 \<or> sd_valid dreg ! k \<noteq> 0) [0..<8]"

primrec branch_probe_loop ::
  "ng_program_rom \<Rightarrow> u32 \<Rightarrow> nat \<Rightarrow> u32 \<Rightarrow> ng_m68k_static_areg_state \<Rightarrow> static_dreg_state \<Rightarrow>
   ng_function_discovery \<Rightarrow> ng_function_discovery" where
  "branch_probe_loop rom start_addr 0 pc areg dreg d = d"
| "branch_probe_loop rom start_addr (Suc n) pc areg dreg d =
     (case ng_m68k_decode rom pc of (ok, i) \<Rightarrow>
        if \<not> usable_instr ok i then d
        else
          let d' = add_static_areg_indirect_target rom start_addr i areg d in
          if i_mnemonic i \<in> {NG_M68K_BRA, NG_M68K_JMP, NG_M68K_RTS, NG_M68K_RTE, NG_M68K_RTR} then d'
          else branch_probe_loop rom start_addr n (pc + ucast (i_byte_length i))
                 (static_dreg_to_areg_update dreg i (ng_m68k_static_areg_update areg i)) (static_dreg_update i dreg) d')"

definition add_branch_target_static_indirects ::
  "ng_program_rom \<Rightarrow> u32 \<Rightarrow> u32 \<Rightarrow> ng_m68k_static_areg_state \<Rightarrow> static_dreg_state \<Rightarrow>
   ng_function_discovery \<Rightarrow> ng_function_discovery" where
  "add_branch_target_static_indirects rom start_addr branch_target areg dreg d =
     (if \<not> scan_state_has_static_targets areg dreg \<or> \<not> is_probable_function_target rom branch_target then d
      else branch_probe_loop rom start_addr 12 (branch_target AND 0x00FFFFFF) areg dreg d)"

subsection \<open>Sets of address values\<close>

text \<open>At most 64 values; the stack of sets has at most 8 entries.\<close>

record ng_static_areg_value_set =
  vs_values :: "u32 list"
  vs_valid :: bool

record ng_static_areg_set_state =
  ss_areg :: "ng_static_areg_value_set list"
  ss_stack :: "ng_static_areg_value_set list"

definition static_areg_value_set_clear :: ng_static_areg_value_set where
  "static_areg_value_set_clear = \<lparr>vs_values = [], vs_valid = False\<rparr>"

definition static_areg_set_reset :: ng_static_areg_set_state where
  "static_areg_set_reset = \<lparr>ss_areg = replicate 8 static_areg_value_set_clear, ss_stack = []\<rparr>"

definition static_areg_value_set_add :: "u32 \<Rightarrow> ng_static_areg_value_set \<Rightarrow> ng_static_areg_value_set" where
  "static_areg_value_set_add value s =
     (let v = value AND 0x00FFFFFF in
      if list_ex (\<lambda>x. x = v) (vs_values s) then s\<lparr>vs_valid := True\<rparr>
      else if 64 \<le> length (vs_values s) then s
      else s\<lparr>vs_values := vs_values s @ [v], vs_valid := True\<rparr>)"

definition instr_pushes_areg_to_stack :: "ng_m68k_instr \<Rightarrow> u8 option" where
  "instr_pushes_areg_to_stack i =
     (if i_mnemonic i \<noteq> NG_M68K_MOVE \<or> i_size i \<noteq> 4 \<or> ea_mode (i_src i) \<noteq> NG_M68K_EA_AREG \<or>
         8 \<le> ea_reg (i_src i) \<or> ea_mode (i_dst i) \<noteq> NG_M68K_EA_APRE \<or> ea_reg (i_dst i) \<noteq> 7 then None
      else Some (ea_reg (i_src i)))"

definition instr_pops_stack_to_areg :: "ng_m68k_instr \<Rightarrow> u8 option" where
  "instr_pops_stack_to_areg i =
     (if i_mnemonic i \<noteq> NG_M68K_MOVEA \<or> i_size i \<noteq> 4 \<or> ea_mode (i_src i) \<noteq> NG_M68K_EA_APOST \<or>
         ea_reg (i_src i) \<noteq> 7 \<or> ea_mode (i_dst i) \<noteq> NG_M68K_EA_AREG \<or> 8 \<le> ea_reg (i_dst i) then None
      else Some (ea_reg (i_dst i)))"

definition instr_is_areg_index_load :: "ng_m68k_instr \<Rightarrow> bool" where
  "instr_is_areg_index_load i \<longleftrightarrow>
     i_mnemonic i = NG_M68K_MOVEA \<and> i_size i = 4 \<and> ea_mode (i_src i) = NG_M68K_EA_AINDEX \<and>
     ea_reg (i_src i) < 8 \<and> ea_index_reg (i_src i) < 8 \<and> ea_mode (i_dst i) = NG_M68K_EA_AREG \<and> ea_reg (i_dst i) < 8"

definition static_areg_index_load_entry_count :: "ng_m68k_instr \<Rightarrow> ng_m68k_index_reg_bound_state \<Rightarrow> u32" where
  "static_areg_index_load_entry_count i bound =
     (if \<not> instr_is_areg_index_load i then 0
      else
        let index_reg = unat (ea_index_reg (i_src i)) in
        if ib_valid bound ! index_reg \<noteq> 0 \<and> ib_scale_bytes bound ! index_reg = 4 \<and>
           ib_max_entries bound ! index_reg \<noteq> 0
        then ib_max_entries bound ! index_reg else 16)"

definition static_areg_value_set_from_static_areg ::
  "ng_m68k_static_areg_state \<Rightarrow> u8 \<Rightarrow> ng_static_areg_value_set" where
  "static_areg_value_set_from_static_areg areg reg =
     (if 8 \<le> reg \<or> sa_valid areg ! unat reg = 0 then static_areg_value_set_clear
      else static_areg_value_set_add (sa_target areg ! unat reg) static_areg_value_set_clear)"

definition static_areg_value_is_table_base :: "ng_program_rom \<Rightarrow> u32 \<Rightarrow> bool" where
  "static_areg_value_is_table_base rom v \<longleftrightarrow>
     ng_program_rom_addr_is_mapped rom v \<and>
     (ng_program_rom_addr_is_banked rom v \<or> \<not> is_probable_function_target rom v)"

definition load_table_values ::
  "ng_program_rom \<Rightarrow> bool \<Rightarrow> u32 \<Rightarrow> u16 \<Rightarrow> u32 \<Rightarrow> ng_static_areg_value_set \<Rightarrow> ng_static_areg_value_set" where
  "load_table_values rom index_valid entry_count displacement base_value result =
     (let base = base_value AND 0x00FFFFFF in
      if \<not> static_areg_value_is_table_base rom base then result
      else loop_until (\<lambda>i result.
        let entry_addr = table_base base displacement + of_nat i * 4 in
        if \<not> mapped32 rom entry_addr then (False, result)
        else
          let v = ng_program_rom_read32 rom entry_addr AND 0x00FFFFFF in
          if \<not> ng_program_rom_addr_is_mapped rom v then (index_valid, result)
          else (True, static_areg_value_set_add v result)) [0..<unat entry_count] result)"

definition static_areg_set_load_indexed_table ::
  "ng_program_rom \<Rightarrow> ng_m68k_static_areg_state \<Rightarrow> ng_m68k_index_reg_bound_state \<Rightarrow> ng_m68k_instr \<Rightarrow>
   ng_static_areg_set_state \<Rightarrow> ng_static_areg_set_state" where
  "static_areg_set_load_indexed_table rom areg bound i st =
     (if \<not> instr_is_areg_index_load i then st
      else
        let src = unat (ea_reg (i_src i));
            dst = unat (ea_reg (i_dst i));
            bases = (if vs_valid (ss_areg st ! src) then ss_areg st ! src
                     else static_areg_value_set_from_static_areg areg (ea_reg (i_src i)))
        in if \<not> vs_valid bases \<or> vs_values bases = []
           then st\<lparr>ss_areg := (ss_areg st)[dst := static_areg_value_set_clear]\<rparr>
           else
             let n = static_areg_index_load_entry_count i bound;
                 entry_count = (if 64 < n then 64 else n);
                 result = fold (load_table_values rom (ib_valid bound ! unat (ea_index_reg (i_src i)) \<noteq> 0) entry_count
                                  (ea_displacement (i_src i))) (vs_values bases) static_areg_value_set_clear
             in st\<lparr>ss_areg := (ss_areg st)[dst := result]\<rparr>)"

definition instr_writes_areg_local :: "ng_m68k_instr \<Rightarrow> u8 option" where
  "instr_writes_areg_local i =
     (if ea_mode (i_dst i) = NG_M68K_EA_AREG \<and> ea_reg (i_dst i) < 8 \<and>
         i_mnemonic i \<in> {NG_M68K_LEA, NG_M68K_MOVEA, NG_M68K_ADDA, NG_M68K_SUBA, NG_M68K_ADDQ, NG_M68K_SUBQ}
      then Some (ea_reg (i_dst i)) else None)"

definition static_areg_set_update ::
  "ng_program_rom \<Rightarrow> ng_m68k_static_areg_state \<Rightarrow> ng_m68k_index_reg_bound_state \<Rightarrow> ng_m68k_instr \<Rightarrow>
   ng_static_areg_set_state \<Rightarrow> ng_static_areg_set_state" where
  "static_areg_set_update rom areg bound i st =
     (let clear = (\<lambda>r st. st\<lparr>ss_areg := (ss_areg st)[r := static_areg_value_set_clear]\<rparr>) in
      case instr_pushes_areg_to_stack i of
        Some reg \<Rightarrow>
          if length (ss_stack st) < 8
          then st\<lparr>ss_stack := ss_stack st @
                    [if vs_valid (ss_areg st ! unat reg) then ss_areg st ! unat reg
                     else static_areg_value_set_from_static_areg areg reg]\<rparr>
          else st
      | None \<Rightarrow>
        (case instr_pops_stack_to_areg i of
           Some reg \<Rightarrow>
             if ss_stack st \<noteq> []
             then st\<lparr>ss_areg := (ss_areg st)[unat reg := last (ss_stack st)], ss_stack := butlast (ss_stack st)\<rparr>
             else clear (unat reg) st
         | None \<Rightarrow>
             if i_mnemonic i = NG_M68K_JSR \<or> i_mnemonic i = NG_M68K_BSR then clear 7 (clear 1 (clear 0 st))
             else if instr_is_areg_index_load i then static_areg_set_load_indexed_table rom areg bound i st
             else (case instr_writes_areg_local i of Some reg \<Rightarrow> clear (unat reg) st | None \<Rightarrow> st)))"

definition add_static_areg_set_state_targets ::
  "ng_program_rom \<Rightarrow> ng_game_config option \<Rightarrow> ng_m68k_instr \<Rightarrow> ng_static_areg_set_state \<Rightarrow>
   ng_function_discovery \<Rightarrow> ng_function_discovery" where
  "add_static_areg_set_state_targets rom config i st d =
     (if i_mnemonic i \<noteq> NG_M68K_MOVE \<or> i_size i \<noteq> 4 \<or> ea_mode (i_src i) \<noteq> NG_M68K_EA_AREG \<or>
         8 \<le> ea_reg (i_src i) \<or> \<not> vs_valid (ss_areg st ! unat (ea_reg (i_src i))) \<or>
         \<not> dispatcher_task_state_store_slot_allowed config i then d
      else fold (\<lambda>v d.
        let target = v AND 0x00FFFFFF in
        if is_probable_strict_heuristic_code_target rom target \<or> config_state_table_contains_addr config target
        then ng_function_discovery_add rom target d else d) (vs_values (ss_areg st ! unat (ea_reg (i_src i)))) d)"

subsection \<open>Pointers in slots of A6\<close>

record a6_slot =
  as_direct_target :: u32
  as_table_addr :: u32
  as_table_max_entries :: u32
  as_direct_valid :: bool
  as_table_valid :: bool

type_synonym ng_static_a6_slot_pointer_state = "u32 \<Rightarrow> a6_slot"

definition a6_slot_zero :: a6_slot where
  "a6_slot_zero = \<lparr>as_direct_target = 0, as_table_addr = 0, as_table_max_entries = 0, as_direct_valid = False,
     as_table_valid = False\<rparr>"

definition static_a6_slot_pointer_reset :: ng_static_a6_slot_pointer_state where
  "static_a6_slot_pointer_reset = (\<lambda>_. a6_slot_zero)"

definition static_a6_slot_pointer_clear ::
  "u32 \<Rightarrow> ng_static_a6_slot_pointer_state \<Rightarrow> ng_static_a6_slot_pointer_state" where
  "static_a6_slot_pointer_clear slot st = (if 256 \<le> slot then st else st(slot := a6_slot_zero))"

definition ea_is_a6_slot_local :: "ng_m68k_ea \<Rightarrow> u32 option" where
  "ea_is_a6_slot_local ea =
     (if ea_reg ea \<noteq> 6 then None
      else if ea_mode ea = NG_M68K_EA_AIND then Some 0
      else if ea_mode ea = NG_M68K_EA_ADISP then Some (ucast (ea_displacement ea))
      else None)"

definition static_a6_slot_pointer_update ::
  "ng_m68k_static_areg_state \<Rightarrow> ng_m68k_index_reg_bound_state \<Rightarrow> ng_m68k_instr \<Rightarrow>
   ng_static_a6_slot_pointer_state \<Rightarrow> ng_static_a6_slot_pointer_state" where
  "static_a6_slot_pointer_update areg bound i st =
     (case ea_is_a6_slot_local (i_dst i) of
        None \<Rightarrow> st
      | Some slot \<Rightarrow>
          if 256 \<le> slot then st
          else if i_mnemonic i \<noteq> NG_M68K_MOVE \<or> i_size i \<noteq> 4 then static_a6_slot_pointer_clear slot st
          else if ea_mode (i_src i) = NG_M68K_EA_IMM
          then st(slot := (st slot)\<lparr>as_direct_target := ea_immediate (i_src i) AND 0x00FFFFFF,
                            as_direct_valid := True, as_table_valid := False\<rparr>)
          else if ea_mode (i_src i) = NG_M68K_EA_AREG \<and> ea_reg (i_src i) < 8 \<and>
                  sa_valid areg ! unat (ea_reg (i_src i)) \<noteq> 0
          then st(slot := (st slot)\<lparr>as_direct_target := sa_target areg ! unat (ea_reg (i_src i)) AND 0x00FFFFFF,
                            as_direct_valid := True, as_table_valid := False\<rparr>)
          else if ea_mode (i_src i) = NG_M68K_EA_AINDEX \<and> ea_reg (i_src i) < 8 \<and> ea_index_reg (i_src i) < 8 \<and>
                  sa_valid areg ! unat (ea_reg (i_src i)) \<noteq> 0
          then
            let index_reg = unat (ea_index_reg (i_src i)) in
            st(slot := (st slot)\<lparr>as_table_addr := table_base (sa_target areg ! unat (ea_reg (i_src i)))
                                                   (ea_displacement (i_src i)),
                                 as_table_max_entries :=
                                   (if ib_valid bound ! index_reg \<noteq> 0 \<and> ib_scale_bytes bound ! index_reg = 4
                                    then ib_max_entries bound ! index_reg else 0),
                                 as_table_valid := True, as_direct_valid := False\<rparr>)
          else static_a6_slot_pointer_clear slot st)"

end
