(* ===== verification/DiscoverySteps.thy ===== *)
theory DiscoverySteps
  imports DiscoverySet
begin

text \<open>
  What discovery may do to the candidate set. Every scanner of \<open>function_discovery.c\<close> works on the set only
  through \<open>ng_function_discovery_add\<close> and its two variants, in some bank's view of the ROM, and through the
  \<open>truncated\<close> flag. \<open>discovery_step\<close> is one such change; what holds of the set along its runs holds after
  any scanner. The rules collected in \<open>steps\<close> show for the loops and bank iterations that the scanners are
  built from, and then for each scanner, that it takes the set along such a run.
\<close>

named_theorems steps \<open>operations that only add candidates\<close>

subsection \<open>The step relation\<close>

inductive discovery_step :: "ng_program_rom \<Rightarrow> ng_function_discovery \<Rightarrow> ng_function_discovery \<Rightarrow> bool"
  for rom :: ng_program_rom where
  add: "discovery_step rom d
          (ng_function_discovery_add_with_flags (ng_program_rom_select_bank rom b) addr is_entry is_scan_root d)"
| truncate: "discovery_step rom d (d\<lparr>fd_truncated := True\<rparr>)"

abbreviation discovery_steps :: "ng_program_rom \<Rightarrow> ng_function_discovery \<Rightarrow> ng_function_discovery \<Rightarrow> bool" where
  "discovery_steps rom \<equiv> (discovery_step rom)\<^sup>*\<^sup>*"

lemma select_bank_select_bank [simp]:
  "ng_program_rom_select_bank (ng_program_rom_select_bank rom a) b = ng_program_rom_select_bank rom b"
  by (simp add: ng_program_rom_select_bank_def)

lemma select_active_bank [simp]: "ng_program_rom_select_bank rom (active_bank rom) = rom"
  by (simp add: ng_program_rom_select_bank_def)

lemma discovery_step_select_bank: "discovery_step (ng_program_rom_select_bank rom b) = discovery_step rom"
  by (intro ext iffI; erule discovery_step.cases)
     (metis select_bank_select_bank select_active_bank discovery_step.intros)+

subsection \<open>Closure rules\<close>

text \<open>Each rule takes a run up to the operation and extends it by the operation.\<close>

lemma steps_then: "discovery_steps rom d d' \<Longrightarrow> discovery_steps rom d0 d \<Longrightarrow> discovery_steps rom d0 d'"
  by (rule rtranclp_trans)

lemma steps_refl [steps]: "discovery_steps rom d d"
  by simp

lemma steps_add_with_flags [THEN steps_then, steps]:
  "discovery_steps rom d (ng_function_discovery_add_with_flags rom addr is_entry is_scan_root d)"
  by (rule r_into_rtranclp) (use discovery_step.add [of rom d "active_bank rom"] in simp)

lemma steps_add [steps]:
  assumes "discovery_steps rom d0 d"
  shows "discovery_steps rom d0 (ng_function_discovery_add rom addr d)"
    and "discovery_steps rom d0 (ng_function_discovery_add_label rom addr d)"
    and "discovery_steps rom d0 (ng_function_discovery_add_scan_root rom addr d)"
  using assms by (simp_all add: ng_function_discovery_add_def ng_function_discovery_add_label_def
      ng_function_discovery_add_scan_root_def steps_add_with_flags)

lemma steps_truncate [THEN steps_then, steps]: "discovery_steps rom d (d\<lparr>fd_truncated := True\<rparr>)"
  by (rule r_into_rtranclp) (rule discovery_step.truncate)

text \<open>The loops keep what their bodies keep.\<close>

lemma fold_inv: "(\<And>x s. P s \<Longrightarrow> P (f x s)) \<Longrightarrow> P s \<Longrightarrow> P (fold f xs s)"
  by (induction xs arbitrary: s) simp_all

lemma loop_until_inv:
  assumes "\<And>x s. P s \<Longrightarrow> P (snd (f x s))" and "P s"
  shows "P (loop_until f xs s)"
  using assms(2)
proof (induction xs arbitrary: s)
  case (Cons x xs)
  obtain go s' where f: "f x s = (go, s')" by (cases "f x s")
  then show ?case using assms(1) [OF Cons.prems, of x] Cons.IH by simp
qed simp

lemma addr_loop_inv:
  assumes "\<And>a s. P s \<Longrightarrow> P (snd (f a s))" and "P s"
  shows "P (addr_loop f stop stride addr s)"
  using assms
proof (induction f stop stride addr s rule: addr_loop.induct)
  case (1 f stop stride addr s)
  obtain go s' where f: "f addr s = (go, s')" by (cases "f addr s")
  then have "P s'" using 1(2) [OF 1(3), of addr] by simp
  then show ?case using 1 by (subst addr_loop.simps) (simp add: f)
qed

lemma for_each_bank_inv:
  "(\<And>b s. P s \<Longrightarrow> P (f (ng_program_rom_select_bank rom b) s)) \<Longrightarrow> P s \<Longrightarrow> P (for_each_bank rom f s)"
  unfolding for_each_bank_def Let_def by (rule fold_inv) auto

lemma across_banks_inv:
  assumes "\<And>b s. P s \<Longrightarrow> P (f (ng_program_rom_select_bank rom b) s)" and "P s"
  shows "P (across_banks rom start_addr ptr f s)"
  using for_each_bank_inv [of P f, OF assms] assms(1) [OF assms(2), of "active_bank rom"] by (simp add: across_banks_def)

lemma steps_view:
  assumes "\<And>view d. discovery_steps view d (f view d)" and "discovery_steps rom d0 d"
  shows "discovery_steps rom d0 (f (ng_program_rom_select_bank rom b) d)"
  using assms(1) [where view = "ng_program_rom_select_bank rom b"] assms(2)
  by (auto simp: discovery_step_select_bank intro: rtranclp_trans)

lemma steps_fold [steps]:
  "(\<And>x d. discovery_steps rom d (f x d)) \<Longrightarrow> discovery_steps rom d0 d \<Longrightarrow> discovery_steps rom d0 (fold f xs d)"
  by (rule fold_inv [where P = "discovery_steps rom d0"]) (rule steps_then)

lemma steps_loop_until [steps]:
  "(\<And>x d. discovery_steps rom d (snd (f x d))) \<Longrightarrow> discovery_steps rom d0 d \<Longrightarrow>
   discovery_steps rom d0 (loop_until f xs d)"
  by (rule loop_until_inv [where P = "discovery_steps rom d0"]) (rule steps_then)

lemma steps_addr_loop [steps]:
  "(\<And>a d. discovery_steps rom d (snd (f a d))) \<Longrightarrow> discovery_steps rom d0 d \<Longrightarrow>
   discovery_steps rom d0 (addr_loop f stop stride addr d)"
  by (rule addr_loop_inv [where P = "discovery_steps rom d0"]) (rule steps_then)

lemma steps_for_each_bank [steps]:
  "(\<And>view d. discovery_steps view d (f view d)) \<Longrightarrow> discovery_steps rom d0 d \<Longrightarrow>
   discovery_steps rom d0 (for_each_bank rom f d)"
  by (rule for_each_bank_inv [where P = "discovery_steps rom d0"]) (rule steps_view)

lemma steps_across_banks [steps]:
  "(\<And>view d. discovery_steps view d (f view d)) \<Longrightarrow> discovery_steps rom d0 d \<Longrightarrow>
   discovery_steps rom d0 (across_banks rom start_addr ptr f d)"
  by (rule across_banks_inv [where P = "discovery_steps rom d0"]) (rule steps_view)

subsection \<open>What every run keeps\<close>

text \<open>The key of a candidate, and what it means for a candidate to stand for a function of the ROM.\<close>

definition candidate_key :: "candidate \<Rightarrow> u32 \<times> u32" where
  "candidate_key c = (c_addr c, entry_bank c)"

definition candidate_ok :: "ng_program_rom \<Rightarrow> candidate \<Rightarrow> bool" where
  "candidate_ok rom c \<longleftrightarrow>
     (\<exists>b. is_probable_function_target (ng_program_rom_select_bank rom b) (c_addr c) \<and>
          entry_bank c = discovery_bank_for_addr (ng_program_rom_select_bank rom b) (c_addr c))"

definition discovery_ok :: "ng_program_rom \<Rightarrow> ng_function_discovery \<Rightarrow> bool" where
  "discovery_ok rom d \<longleftrightarrow>
     distinct (map candidate_key (fd_candidates d)) \<and>
     length (fd_candidates d) \<le> unat (candidate_limit d) \<and>
     (\<forall>c \<in> set (fd_candidates d). candidate_ok rom c)"

text \<open>The set \<open>d'\<close> has the candidates of \<open>d\<close> in their places, with flags that may have been raised.\<close>

definition candidate_le :: "candidate \<Rightarrow> candidate \<Rightarrow> bool" where
  "candidate_le c c' \<longleftrightarrow> candidate_key c = candidate_key c' \<and>
     (c_entry c \<longrightarrow> c_entry c') \<and> (c_scan_root c \<longrightarrow> c_scan_root c')"

definition discovery_le :: "ng_function_discovery \<Rightarrow> ng_function_discovery \<Rightarrow> bool" where
  "discovery_le d d' \<longleftrightarrow>
     length (fd_candidates d) \<le> length (fd_candidates d') \<and>
     (\<forall>i < length (fd_candidates d). candidate_le (fd_candidates d ! i) (fd_candidates d' ! i)) \<and>
     fd_max_candidates d' = fd_max_candidates d \<and> (fd_truncated d \<longrightarrow> fd_truncated d')"

lemma candidate_le_refl: "candidate_le c c"
  by (simp add: candidate_le_def)

lemma discovery_le_refl: "discovery_le d d"
  by (simp add: discovery_le_def candidate_le_refl)

lemma discovery_le_trans: "discovery_le d d' \<Longrightarrow> discovery_le d' d'' \<Longrightarrow> discovery_le d d''"
  by (fastforce simp: discovery_le_def candidate_le_def)

lemma candidate_limit_le: "unat (candidate_limit d) \<le> 131072"
  by (simp add: candidate_limit_def NG_FUNCTION_DISCOVERY_MAX_CANDIDATES_def Let_def word_less_nat_alt)

lemma raise_flags_None:
  "raise_flags addr bank e r cs = None \<longleftrightarrow> (addr, bank) \<notin> candidate_key ` set cs"
  by (induction cs) (auto simp: candidate_key_def)

lemma candidate_le_raised: "candidate_le c (c\<lparr>c_entry := c_entry c \<or> e, c_scan_root := c_scan_root c \<or> r\<rparr>)"
  by (simp add: candidate_le_def candidate_key_def entry_bank_def)

lemma raise_flags_le: "raise_flags addr bank e r cs = Some cs' \<Longrightarrow> list_all2 candidate_le cs cs'"
proof (induction cs arbitrary: cs')
  case (Cons c cs)
  have "list_all2 candidate_le cs cs" by (simp add: list_all2_refl candidate_le_refl)
  with Cons show ?case
    by (cases "c_addr c = addr \<and> entry_bank c = bank") (auto simp: candidate_le_raised candidate_le_refl)
qed simp

lemma raise_flags_found:
  "raise_flags addr bank e r cs = Some cs' \<Longrightarrow>
     \<exists>c \<in> set cs'. candidate_key c = (addr, bank) \<and> (e \<longrightarrow> c_entry c) \<and> (r \<longrightarrow> c_scan_root c)"
proof (induction cs arbitrary: cs')
  case (Cons c cs)
  show ?case
  proof (cases "c_addr c = addr \<and> entry_bank c = bank")
    case True
    then show ?thesis using Cons.prems by (auto simp: candidate_key_def entry_bank_def)
  next
    case False
    then obtain z where "raise_flags addr bank e r cs = Some z" "cs' = c # z" using Cons.prems by auto
    then show ?thesis using Cons.IH by simp
  qed
qed simp

text \<open>The three outcomes of an addition.\<close>

lemma add_cases:
  fixes addr :: u32
  assumes "d' = ng_function_discovery_add_with_flags rom addr e r d"
  obtains (none) "\<not> is_probable_function_target rom addr" "d' = d"
  | (known) cs where "is_probable_function_target rom addr" "d' = d\<lparr>fd_candidates := cs\<rparr>"
      "raise_flags addr (discovery_bank_for_addr rom addr) e r (fd_candidates d) = Some cs"
  | (full) "is_probable_function_target rom addr" "unat (candidate_limit d) \<le> length (fd_candidates d)"
      "d' = d\<lparr>fd_truncated := True\<rparr>"
  | (new) c where "is_probable_function_target rom addr" "length (fd_candidates d) < unat (candidate_limit d)"
      "(addr, discovery_bank_for_addr rom addr) \<notin> candidate_key ` set (fd_candidates d)"
      "d' = d\<lparr>fd_candidates := fd_candidates d @ [c]\<rparr>"
      "candidate_key c = (addr, discovery_bank_for_addr rom addr)" "c_entry c = e" "c_scan_root c = r"
proof (cases "is_probable_function_target rom addr")
  case True
  show ?thesis
  proof (cases "raise_flags addr (discovery_bank_for_addr rom addr) e r (fd_candidates d)")
    case None
    then show ?thesis
      using full [OF True] new [OF True] assms raise_flags_None [THEN iffD1, OF None] True
      by (cases "unat (candidate_limit d) \<le> length (fd_candidates d)")
         (simp_all add: ng_function_discovery_add_with_flags_def Let_def candidate_key_def entry_bank_def)
  next
    case (Some cs)
    then show ?thesis using known [OF True] assms True by (simp add: ng_function_discovery_add_with_flags_def Let_def)
  qed
next
  case False
  then show ?thesis using none assms by (simp add: ng_function_discovery_add_with_flags_def)
qed

lemma list_all2_keys: "list_all2 candidate_le cs cs' \<Longrightarrow> map candidate_key cs' = map candidate_key cs"
  by (induction rule: list_all2_induct) (auto simp: candidate_le_def)

lemma discovery_le_raised:
  "list_all2 candidate_le (fd_candidates d) cs \<Longrightarrow> discovery_le d (d\<lparr>fd_candidates := cs\<rparr>)"
  by (auto simp: discovery_le_def list_all2_conv_all_nth)

lemma discovery_le_snoc: "discovery_le d (d\<lparr>fd_candidates := fd_candidates d @ [c]\<rparr>)"
  by (simp add: discovery_le_def nth_append candidate_le_refl)

lemma discovery_le_truncated: "discovery_le d (d\<lparr>fd_truncated := True\<rparr>)"
  by (simp add: discovery_le_def candidate_le_refl)

lemma discovery_step_le: "discovery_step rom d d' \<Longrightarrow> discovery_le d d'"
proof (induction rule: discovery_step.induct)
  case (add d b addr e r)
  show ?case
    by (rule add_cases [OF refl, of "ng_program_rom_select_bank rom b" addr e r d])
       (simp_all add: discovery_le_refl discovery_le_snoc discovery_le_raised raise_flags_le discovery_le_truncated)
qed (rule discovery_le_truncated)

lemma discovery_steps_le: "discovery_steps rom d d' \<Longrightarrow> discovery_le d d'"
  by (induction rule: rtranclp_induct) (auto intro: discovery_le_refl discovery_le_trans discovery_step_le)

lemma candidate_ok_key: "candidate_key c = candidate_key c' \<Longrightarrow> candidate_ok rom c = candidate_ok rom c'"
  by (simp add: candidate_ok_def candidate_key_def)

lemma candidate_ok_keys:
  assumes "map candidate_key cs' = map candidate_key cs" and "\<forall>c \<in> set cs. candidate_ok rom c"
  shows "\<forall>c \<in> set cs'. candidate_ok rom c"
proof
  fix c assume "c \<in> set cs'"
  then have "candidate_key c \<in> set (map candidate_key cs')" by simp
  then obtain c' where "c' \<in> set cs" "candidate_key c = candidate_key c'" using assms(1) by auto
  then show "candidate_ok rom c" using assms(2) candidate_ok_key by blast
qed

lemma discovery_step_ok: "discovery_step rom d d' \<Longrightarrow> discovery_ok rom d \<Longrightarrow> discovery_ok rom d'"
proof (induction rule: discovery_step.induct)
  case (add d b addr e r)
  let ?view = "ng_program_rom_select_bank rom b"
  have limit: "candidate_limit (d\<lparr>fd_candidates := cs\<rparr>) = candidate_limit d" for cs
    by (simp add: candidate_limit_def)
  have limit_t: "candidate_limit (d\<lparr>fd_truncated := True\<rparr>) = candidate_limit d" by (simp add: candidate_limit_def)
  show ?case
  proof (rule add_cases [OF refl, of ?view addr e r d])
    fix cs assume u: "ng_function_discovery_add_with_flags ?view addr e r d = d\<lparr>fd_candidates := cs\<rparr>"
      and "raise_flags addr (discovery_bank_for_addr ?view addr) e r (fd_candidates d) = Some cs"
    then have k: "map candidate_key cs = map candidate_key (fd_candidates d)" by (intro list_all2_keys raise_flags_le)
    then have "length cs = length (fd_candidates d)" by (rule map_eq_imp_length_eq)
    then show ?thesis using add k candidate_ok_keys [OF k] by (simp add: u discovery_ok_def limit)
  next
    fix c assume c: "is_probable_function_target ?view addr" "length (fd_candidates d) < unat (candidate_limit d)"
      "(addr, discovery_bank_for_addr ?view addr) \<notin> candidate_key ` set (fd_candidates d)"
      "ng_function_discovery_add_with_flags ?view addr e r d = d\<lparr>fd_candidates := fd_candidates d @ [c]\<rparr>"
      "candidate_key c = (addr, discovery_bank_for_addr ?view addr)"
    then have "candidate_ok rom c" by (auto simp: candidate_ok_def candidate_key_def)
    with c show ?thesis using add by (simp add: discovery_ok_def limit)
  qed (use add in \<open>simp_all add: discovery_ok_def limit_t\<close>)
next
  case (truncate d)
  moreover have "candidate_limit (d\<lparr>fd_truncated := True\<rparr>) = candidate_limit d" by (simp add: candidate_limit_def)
  ultimately show ?case by (simp add: discovery_ok_def)
qed

lemma discovery_steps_ok: "discovery_steps rom d d' \<Longrightarrow> discovery_ok rom d \<Longrightarrow> discovery_ok rom d'"
  by (induction rule: rtranclp_induct) (auto intro: discovery_step_ok)

lemma discovery_step_length:
  "discovery_step rom d d' \<Longrightarrow> length (fd_candidates d') \<le> max 131072 (length (fd_candidates d))"
proof (induction rule: discovery_step.induct)
  case (add d b addr e r)
  show ?case
    by (rule add_cases [OF refl, of "ng_program_rom_select_bank rom b" addr e r d])
       (use candidate_limit_le [of d] in \<open>simp_all add: list_all2_lengthD [OF raise_flags_le, symmetric]\<close>)
qed simp

lemma discovery_steps_length:
  "discovery_steps rom d d' \<Longrightarrow> length (fd_candidates d') \<le> max 131072 (length (fd_candidates d))"
  by (induction rule: rtranclp_induct) (auto dest: discovery_step_length)

text \<open>After an addition the target is in the set with the flags asked for, unless the set was full.\<close>

definition has_candidate :: "ng_function_discovery \<Rightarrow> u32 \<times> u32 \<Rightarrow> bool \<Rightarrow> bool \<Rightarrow> bool" where
  "has_candidate d k e r \<longleftrightarrow>
     (\<exists>c \<in> set (fd_candidates d). candidate_key c = k \<and> (e \<longrightarrow> c_entry c) \<and> (r \<longrightarrow> c_scan_root c))"

lemma add_has_candidate:
  assumes "is_probable_function_target rom addr"
    and "\<not> fd_truncated (ng_function_discovery_add_with_flags rom addr e r d)"
  shows "has_candidate (ng_function_discovery_add_with_flags rom addr e r d)
           (addr, discovery_bank_for_addr rom addr) e r"
  by (rule add_cases [OF refl, of rom addr e r d])
     (use assms in \<open>auto simp: has_candidate_def dest: raise_flags_found\<close>)

lemma has_candidate_mono:
  assumes "discovery_le d d'" and "has_candidate d k e r"
  shows "has_candidate d' k e r"
proof -
  obtain i where i: "i < length (fd_candidates d)" "candidate_key (fd_candidates d ! i) = k"
      "e \<longrightarrow> c_entry (fd_candidates d ! i)" "r \<longrightarrow> c_scan_root (fd_candidates d ! i)"
    using assms(2) by (auto simp: has_candidate_def in_set_conv_nth)
  moreover have "candidate_le (fd_candidates d ! i) (fd_candidates d' ! i)"
      "i < length (fd_candidates d')"
    using assms(1) i(1) by (auto simp: discovery_le_def)
  ultimately show ?thesis by (auto simp: has_candidate_def candidate_le_def intro!: bexI [where x = "fd_candidates d' ! i"])
qed

end
