(* ===== verification/DiscoveryScript.thy ===== *)
theory DiscoveryScript
  imports DiscoveryStatic DiscoverySteps
begin

text \<open>
  The script-stream pass of \<open>function_discovery.c\<close>: it recognises interpreters of byte-coded scripts among the
  discovered functions, works out what each command does to the script pointer, follows the scripts whose
  addresses the code stores in the interpreter's slot, and adds the callbacks the scripts name.
\<close>

subsection \<open>Script interpreters\<close>

definition NG_FUNCTION_DISCOVERY_SCRIPT_COMMANDS :: u32 where
  "NG_FUNCTION_DISCOVERY_SCRIPT_COMMANDS = 32"

definition NG_FUNCTION_DISCOVERY_STATIC_A6_SLOTS :: u32 where
  "NG_FUNCTION_DISCOVERY_STATIC_A6_SLOTS = 256"

record ng_script_command_info =
  ci_length_valid :: bool
  ci_length :: u8
  ci_jump_valid :: bool
  ci_jump_offset :: u8
  ci_callback_valid :: bool
  ci_callback_offset :: u8

record ng_script_interpreter_info =
  si_slot :: u32
  si_command_count :: u32
  si_command_mask :: u32
  si_valid :: bool
  si_stream_reg :: u8
  si_commands :: "ng_script_command_info list"

definition script_command_info_zero :: ng_script_command_info where
  "script_command_info_zero = \<lparr>ci_length_valid = False, ci_length = 0, ci_jump_valid = False, ci_jump_offset = 0,
     ci_callback_valid = False, ci_callback_offset = 0\<rparr>"

text \<open>\<open>memset(out, 0, sizeof(*out)); out->command_mask = 0xFFu;\<close>\<close>

definition script_interpreter_info_start :: ng_script_interpreter_info where
  "script_interpreter_info_start = \<lparr>si_slot = 0, si_command_count = 0, si_command_mask = 0xFF, si_valid = False,
     si_stream_reg = 0, si_commands = replicate 32 script_command_info_zero\<rparr>"

definition instr_stops_script_probe :: "ng_m68k_instr \<Rightarrow> bool" where
  "instr_stops_script_probe i \<longleftrightarrow> i_mnemonic i \<in> {NG_M68K_RTS, NG_M68K_RTE, NG_M68K_RTR, NG_M68K_JMP}"

text \<open>
  What one instruction of a handler tells: \<open>loads\<close> has, for each address register, the offset in the script
  it was loaded from (\<open>callback_load_valid\<close> and \<open>callback_load_offset\<close>).
\<close>

definition script_handler_load ::
  "u8 \<Rightarrow> ng_m68k_instr \<Rightarrow> u8 option list \<times> ng_script_command_info \<Rightarrow> u8 option list \<times> ng_script_command_info" where
  "script_handler_load stream_reg i = (\<lambda>(loads, out).
     if i_mnemonic i = NG_M68K_MOVEA \<and> i_size i = 4 \<and> ea_mode (i_src i) = NG_M68K_EA_ADISP \<and>
        ea_reg (i_src i) = stream_reg \<and> 0 \<le> sint (ea_displacement (i_src i)) \<and>
        sint (ea_displacement (i_src i)) \<le> 0xFF \<and> ea_mode (i_dst i) = NG_M68K_EA_AREG \<and> ea_reg (i_dst i) < 8
     then if ea_reg (i_dst i) = stream_reg
          then (loads, out\<lparr>ci_jump_valid := True, ci_jump_offset := ucast (ea_displacement (i_src i))\<rparr>)
          else (loads[unat (ea_reg (i_dst i)) := Some (ucast (ea_displacement (i_src i)))], out)
     else (loads, out))"

definition script_handler_call ::
  "ng_m68k_instr \<Rightarrow> u8 option list \<Rightarrow> ng_script_command_info \<Rightarrow> ng_script_command_info" where
  "script_handler_call i loads out =
     (if i_mnemonic i = NG_M68K_JSR \<and> ea_mode (i_src i) = NG_M68K_EA_AIND \<and> ea_reg (i_src i) < 8
      then case loads ! unat (ea_reg (i_src i)) of
             Some offset \<Rightarrow> out\<lparr>ci_callback_valid := True, ci_callback_offset := offset\<rparr>
           | None \<Rightarrow> out
      else out)"

definition script_handler_advance :: "u8 \<Rightarrow> ng_m68k_instr \<Rightarrow> ng_script_command_info \<Rightarrow> ng_script_command_info" where
  "script_handler_advance stream_reg i out =
     (if (i_mnemonic i = NG_M68K_ADDQ \<or> i_mnemonic i = NG_M68K_ADDI) \<and> i_size i = 4 \<and>
         ea_mode (i_dst i) = NG_M68K_EA_AREG \<and> ea_reg (i_dst i) = stream_reg \<and>
         0 < i_immediate i \<and> i_immediate i \<le> 0xFF
      then out\<lparr>ci_length_valid := True, ci_length := ucast (i_immediate i)\<rparr> else out)"

primrec script_handler_loop ::
  "ng_program_rom \<Rightarrow> u8 \<Rightarrow> nat \<Rightarrow> u32 \<Rightarrow> u8 option list \<Rightarrow> ng_script_command_info \<Rightarrow> ng_script_command_info" where
  "script_handler_loop rom stream_reg 0 pc loads out = out"
| "script_handler_loop rom stream_reg (Suc n) pc loads out =
     (case ng_m68k_decode rom pc of (ok, i) \<Rightarrow>
        if \<not> usable_instr ok i \<or> i_mnemonic i = NG_M68K_ILLEGAL \<or> i_mnemonic i = NG_M68K_RESET then out
        else case script_handler_load stream_reg i (loads, out) of (loads', out') \<Rightarrow>
          let out'' = script_handler_advance stream_reg i (script_handler_call i loads' out') in
          if instr_stops_script_probe i \<or> 0xFFFFFFFF - pc < ucast (i_byte_length i) then out''
          else script_handler_loop rom stream_reg n (pc + ucast (i_byte_length i)) loads' out'')"

definition analyze_script_command_handler ::
  "ng_program_rom \<Rightarrow> u32 \<Rightarrow> u8 \<Rightarrow> ng_script_command_info \<Rightarrow> ng_script_command_info" where
  "analyze_script_command_handler rom handler stream_reg out =
     (if \<not> is_probable_function_target rom handler then out
      else script_handler_loop rom stream_reg 32 (handler AND 0x00FFFFFF) (replicate 8 None) out)"

definition script_command_info_has_action :: "ng_script_command_info list \<Rightarrow> u32 \<Rightarrow> bool" where
  "script_command_info_has_action commands command_count \<longleftrightarrow>
     list_ex (\<lambda>c. ci_callback_valid c \<or> ci_jump_valid c \<or> ci_length_valid c) (take (unat command_count) commands)"

text \<open>The command table of an interpreter: \<open>None\<close> where the pattern is not one and the scan goes on.\<close>

definition script_command_table ::
  "ng_program_rom \<Rightarrow> ng_m68k_jump_table_pattern \<Rightarrow> ng_script_interpreter_info \<Rightarrow>
   ng_script_interpreter_info option" where
  "script_command_table rom p out =
     (if si_valid out \<and> jt_entry_kind p = NG_M68K_JUMP_TABLE_ENTRY_ABS32 \<and> jt_entry_size p = 4 \<and>
         jt_max_entries p \<noteq> 0 \<and> jt_max_entries p \<le> NG_FUNCTION_DISCOVERY_SCRIPT_COMMANDS
      then Some (loop_until (\<lambda>cmd out.
             let entry_addr = jt_table_addr p + of_nat cmd * ucast (jt_entry_size p) in
             if \<not> mapped32 rom entry_addr then (False, out)
             else
               let handler = ng_program_rom_read32 rom entry_addr AND 0x00FFFFFF in
               (True, out\<lparr>si_commands := (si_commands out)[cmd :=
                            analyze_script_command_handler rom handler (si_stream_reg out) (si_commands out ! cmd)]\<rparr>))
             [0..<unat (jt_max_entries p)] (out\<lparr>si_command_count := jt_max_entries p\<rparr>))
      else None)"

definition script_interpreter_note :: "ng_m68k_instr \<Rightarrow> ng_script_interpreter_info \<Rightarrow> ng_script_interpreter_info" where
  "script_interpreter_note i out =
     (let out1 =
        (if i_mnemonic i = NG_M68K_MOVEA \<and> i_size i = 4 \<and> ea_mode (i_dst i) = NG_M68K_EA_AREG \<and> ea_reg (i_dst i) < 8
         then case ea_is_a6_slot_local (i_src i) of
                Some slot \<Rightarrow>
                  if slot < NG_FUNCTION_DISCOVERY_STATIC_A6_SLOTS
                  then out\<lparr>si_slot := slot, si_stream_reg := ea_reg (i_dst i), si_valid := True\<rparr> else out
              | None \<Rightarrow> out
         else out)
      in if si_valid out1 \<and> i_mnemonic i = NG_M68K_ANDI \<and> ea_mode (i_dst i) = NG_M68K_EA_DREG \<and> i_immediate i \<le> 0xFF
         then out1\<lparr>si_command_mask := i_immediate i\<rparr> else out1)"

definition script_dispatch ::
  "ng_program_rom \<Rightarrow> ng_m68k_instr option \<Rightarrow> ng_m68k_instr \<Rightarrow> ng_m68k_static_areg_state \<Rightarrow>
   ng_m68k_index_reg_bound_state \<Rightarrow> ng_script_interpreter_info \<Rightarrow> ng_script_interpreter_info option" where
  "script_dispatch rom previous i previous_areg bound out =
     (case previous of None \<Rightarrow> None
      | Some p \<Rightarrow>
        (case ng_m68k_match_static_index_jump_table p i previous_areg of None \<Rightarrow> None
         | Some pattern \<Rightarrow> script_command_table rom (ng_m68k_jump_table_apply_index_bound pattern bound) out))"

text \<open>The interpreter found, if the function is one.\<close>

primrec script_interpreter_loop ::
  "ng_program_rom \<Rightarrow> nat \<Rightarrow> u32 \<Rightarrow> ng_m68k_instr option \<Rightarrow> ng_m68k_static_areg_state \<Rightarrow> ng_m68k_static_areg_state \<Rightarrow>
   ng_m68k_index_reg_bound_state \<Rightarrow> ng_script_interpreter_info \<Rightarrow> ng_script_interpreter_info option" where
  "script_interpreter_loop rom 0 pc previous areg previous_areg bound out = None"
| "script_interpreter_loop rom (Suc n) pc previous areg previous_areg bound out =
     (case ng_m68k_decode rom pc of (ok, i) \<Rightarrow>
        if \<not> usable_instr ok i then None
        else
          let out1 = script_interpreter_note i out in
          (case script_dispatch rom previous i previous_areg bound out1 of
            Some out2 \<Rightarrow>
              (if script_command_info_has_action (si_commands out2) (si_command_count out2) then Some out2 else None)
          | None \<Rightarrow>
              if instr_stops_script_probe i \<or> 0xFFFFFFFF - pc < ucast (i_byte_length i) then None
              else script_interpreter_loop rom n (pc + ucast (i_byte_length i)) (Some i)
                     (ng_m68k_static_areg_update areg i) areg (ng_m68k_index_reg_bound_update bound i) out1))"

definition analyze_script_interpreter :: "ng_program_rom \<Rightarrow> u32 \<Rightarrow> ng_script_interpreter_info option" where
  "analyze_script_interpreter rom addr =
     (if \<not> is_probable_function_target rom addr then None
      else script_interpreter_loop rom 96 (addr AND 0x00FFFFFF) None ng_m68k_static_areg_reset
             ng_m68k_static_areg_reset ng_m68k_index_reg_bound_reset script_interpreter_info_start)"

subsection \<open>Following a script\<close>

primrec script_target_loop :: "ng_program_rom \<Rightarrow> nat \<Rightarrow> u32 \<Rightarrow> bool" where
  "script_target_loop rom 0 pc = False"
| "script_target_loop rom (Suc n) pc =
     (case ng_m68k_decode rom pc of (ok, i) \<Rightarrow>
        if \<not> usable_instr ok i \<or>
           i_mnemonic i \<in> {NG_M68K_ILLEGAL, NG_M68K_RESET, NG_M68K_RTE, NG_M68K_RTR, NG_M68K_STOP, NG_M68K_TRAP}
        then False
        else if i_mnemonic i = NG_M68K_RTS then True
        else if i_mnemonic i = NG_M68K_JMP then False
        else if 0xFFFFFFFF - pc < ucast (i_byte_length i) then False
        else script_target_loop rom n (pc + ucast (i_byte_length i)))"

definition script_stream_target_allowed :: "ng_program_rom \<Rightarrow> u32 \<Rightarrow> bool" where
  "script_stream_target_allowed rom target \<longleftrightarrow>
     is_probable_strict_heuristic_code_target rom target \<and> script_target_loop rom 48 (target AND 0x00FFFFFF)"

definition script_stream_addr_seen :: "u32 list \<Rightarrow> u32 \<Rightarrow> bool" where
  "script_stream_addr_seen items addr \<longleftrightarrow> list_ex (\<lambda>x. x = addr) items"

definition NG_FUNCTION_DISCOVERY_SCRIPT_STREAM_QUEUE :: nat where
  "NG_FUNCTION_DISCOVERY_SCRIPT_STREAM_QUEUE = 128"

text \<open>The two effects of a command: the callback it names, and the script it jumps to.\<close>

definition script_callback ::
  "ng_program_rom \<Rightarrow> ng_script_command_info \<Rightarrow> u32 \<Rightarrow> ng_function_discovery \<Rightarrow> ng_function_discovery" where
  "script_callback rom cmd pc d =
     (if ci_callback_valid cmd then
        let target_addr = pc + ucast (ci_callback_offset cmd) in
        if pc \<le> target_addr \<and> mapped32 rom target_addr then
          let target = ng_program_rom_read32 rom target_addr AND 0x00FFFFFF in
          if script_stream_target_allowed rom target then ng_function_discovery_add rom target d else d
        else d
      else d)"

definition script_jump :: "ng_program_rom \<Rightarrow> ng_script_command_info \<Rightarrow> u32 \<Rightarrow> u32 list \<Rightarrow> u32 list" where
  "script_jump rom cmd pc queue =
     (let next_addr = pc + ucast (ci_jump_offset cmd) in
      if pc \<le> next_addr \<and> mapped32 rom next_addr then
        let target = ng_program_rom_read32 rom next_addr AND 0x00FFFFFF in
        if ng_program_rom_addr_is_mapped rom target \<and>
           length queue < NG_FUNCTION_DISCOVERY_SCRIPT_STREAM_QUEUE \<and> \<not> script_stream_addr_seen queue target
        then queue @ [target] else queue
      else queue)"

primrec script_stream_loop ::
  "ng_program_rom \<Rightarrow> ng_script_interpreter_info \<Rightarrow> nat \<Rightarrow> u32 \<Rightarrow> u32 list \<times> ng_function_discovery \<Rightarrow>
   u32 list \<times> ng_function_discovery" where
  "script_stream_loop rom info 0 pc s = s"
| "script_stream_loop rom info (Suc n) pc s =
     (case s of (queue, d) \<Rightarrow>
        let command = ucast (ng_program_rom_read8 rom pc) AND si_command_mask info in
        if \<not> ng_program_rom_addr_is_mapped rom pc \<or> si_command_count info \<le> command \<or>
           NG_FUNCTION_DISCOVERY_SCRIPT_COMMANDS \<le> command then s
        else
          let cmd = si_commands info ! unat command;
              d' = script_callback rom cmd pc d
          in if ci_jump_valid cmd then (script_jump rom cmd pc queue, d')
             else if \<not> ci_length_valid cmd \<or> ci_length cmd = 0 \<or> 0xFFFFFFFF - pc < ucast (ci_length cmd)
             then (queue, d')
             else script_stream_loop rom info n (pc + ucast (ci_length cmd)) (queue, d'))"

lemma script_stream_loop_queue:
  "length (fst (script_stream_loop rom info n pc s)) \<le> max NG_FUNCTION_DISCOVERY_SCRIPT_STREAM_QUEUE (length (fst s))"
proof (induction n arbitrary: pc s)
  case (Suc n)
  have "length (script_jump rom cmd pc queue) \<le> max NG_FUNCTION_DISCOVERY_SCRIPT_STREAM_QUEUE (length queue)" for cmd queue
    by (simp add: script_jump_def Let_def)
  then show ?case using Suc.IH [of _ "(fst s, d')" for d'] by (cases s) (auto simp: Let_def)
qed simp

function script_stream_queue ::
  "ng_program_rom \<Rightarrow> ng_script_interpreter_info \<Rightarrow> nat \<Rightarrow> u32 list \<Rightarrow> u32 list \<times> ng_function_discovery \<Rightarrow>
   ng_function_discovery" where
  "script_stream_queue rom info head visited s =
     (if head < length (fst s) then
        let pc = fst s ! head in
        if script_stream_addr_seen visited pc then script_stream_queue rom info (Suc head) visited s
        else script_stream_queue rom info (Suc head)
               (if length visited < NG_FUNCTION_DISCOVERY_SCRIPT_STREAM_QUEUE then visited @ [pc] else visited)
               (script_stream_loop rom info 512 pc s)
      else snd s)"
  by pat_completeness auto
termination
proof (relation "measure (\<lambda>(rom, info, head, visited, s).
         max NG_FUNCTION_DISCOVERY_SCRIPT_STREAM_QUEUE (length (fst s)) - head)")
  fix rom info head visited and s :: "u32 list \<times> ng_function_discovery" and pc
  assume "head < length (fst s)"
  moreover have "length (fst (script_stream_loop rom info 512 pc s)) \<le>
      max NG_FUNCTION_DISCOVERY_SCRIPT_STREAM_QUEUE (length (fst s))"
    by (rule script_stream_loop_queue)
  ultimately show "((rom, info, Suc head,
        if length visited < NG_FUNCTION_DISCOVERY_SCRIPT_STREAM_QUEUE then visited @ [pc] else visited,
        script_stream_loop rom info 512 pc s), rom, info, head, visited, s)
      \<in> measure (\<lambda>(rom, info, head, visited, s).
           max NG_FUNCTION_DISCOVERY_SCRIPT_STREAM_QUEUE (length (fst s)) - head)"
    by simp
qed auto

declare script_stream_queue.simps [simp del]

definition add_script_stream_callbacks_from_root ::
  "ng_script_interpreter_info \<Rightarrow> u32 \<Rightarrow> ng_program_rom \<Rightarrow> ng_function_discovery \<Rightarrow> ng_function_discovery" where
  "add_script_stream_callbacks_from_root info root rom d =
     (if \<not> si_valid info \<or> \<not> ng_program_rom_addr_is_mapped rom root then d
      else script_stream_queue rom info 0 [] ([root AND 0x00FFFFFF], d))"

definition script_stream_root_plausible :: "ng_program_rom \<Rightarrow> ng_script_interpreter_info \<Rightarrow> u32 \<Rightarrow> bool" where
  "script_stream_root_plausible rom info root \<longleftrightarrow>
     (if \<not> si_valid info \<or> \<not> ng_program_rom_addr_is_mapped rom root then False
      else
        let command = ucast (ng_program_rom_read8 rom root) AND si_command_mask info
        in command < si_command_count info \<and> command < NG_FUNCTION_DISCOVERY_SCRIPT_COMMANDS)"

text \<open>The loop carries \<open>saw_root\<close> beside the set.\<close>

definition add_script_stream_callbacks_from_table ::
  "ng_script_interpreter_info \<Rightarrow> u32 \<Rightarrow> u32 \<Rightarrow> ng_program_rom \<Rightarrow> ng_function_discovery \<Rightarrow> ng_function_discovery" where
  "add_script_stream_callbacks_from_table info table_addr max_entries rom d =
     (if \<not> ng_program_rom_addr_is_mapped rom table_addr then d
      else
        let n = (if max_entries \<noteq> 0 then max_entries else 64);
            limit = (if 64 < n then 64 else n)
        in snd (loop_until (\<lambda>i (saw_root, d).
             let entry_addr = table_addr + of_nat i * 4 in
             if \<not> mapped32 rom entry_addr then (False, saw_root, d)
             else
               let root = ng_program_rom_read32 rom entry_addr AND 0x00FFFFFF in
               if \<not> script_stream_root_plausible rom info root then (\<not> saw_root, saw_root, d)
               else (True, True, add_script_stream_callbacks_from_root info root rom d))
             [0..<unat limit] (False, d)))"

definition add_script_stream_callbacks_for_interpreter ::
  "ng_program_rom \<Rightarrow> u32 \<Rightarrow> ng_static_a6_slot_pointer_state \<Rightarrow> ng_script_interpreter_info \<Rightarrow>
   ng_function_discovery \<Rightarrow> ng_function_discovery" where
  "add_script_stream_callbacks_for_interpreter rom start_addr slots info d =
     (if \<not> si_valid info \<or> NG_FUNCTION_DISCOVERY_STATIC_A6_SLOTS \<le> si_slot info then d
      else
        let slot = slots (si_slot info);
            root = as_direct_target slot AND 0x00FFFFFF;
            table_addr = as_table_addr slot AND 0x00FFFFFF;
            d' = (if as_direct_valid slot
                  then across_banks rom start_addr root (add_script_stream_callbacks_from_root info root) d else d)
        in if as_table_valid slot
           then across_banks rom start_addr table_addr
                  (add_script_stream_callbacks_from_table info table_addr (as_table_max_entries slot)) d'
           else d')"

subsection \<open>Collecting the interpreters\<close>

definition script_interpreter_info_same :: "ng_script_interpreter_info \<Rightarrow> ng_script_interpreter_info \<Rightarrow> bool" where
  "script_interpreter_info_same a b \<longleftrightarrow>
     si_valid a = si_valid b \<and> si_slot a = si_slot b \<and> si_stream_reg a = si_stream_reg b \<and>
     si_command_count a = si_command_count b \<and> si_command_mask a = si_command_mask b"

definition have_scan_roots :: "ng_function_discovery \<Rightarrow> bool" where
  "have_scan_roots d \<longleftrightarrow> list_ex c_scan_root (fd_candidates d)"

definition collect_script_interpreters ::
  "ng_program_rom \<Rightarrow> ng_function_discovery \<Rightarrow> nat \<Rightarrow> ng_script_interpreter_info list" where
  "collect_script_interpreters rom d max_infos =
     (if max_infos = 0 then []
      else loop_until (\<lambda>i infos.
        if have_scan_roots d \<and> \<not> c_scan_root (fd_candidates d ! i) then (True, infos)
        else case analyze_script_interpreter (discovery_entry_rom_view rom d i) (c_addr (fd_candidates d ! i)) of
               None \<Rightarrow> (True, infos)
             | Some info \<Rightarrow>
                 if list_ex (\<lambda>x. script_interpreter_info_same x info) infos then (True, infos)
                 else if max_infos \<le> length infos then (False, infos)
                 else (True, infos @ [info]))
        [0..<length (fd_candidates d)] [])"

definition instr_stops_script_slot_scan :: "ng_m68k_instr \<Rightarrow> bool" where
  "instr_stops_script_slot_scan i \<longleftrightarrow>
     i_mnemonic i \<in> {NG_M68K_BRA, NG_M68K_JMP, NG_M68K_RTS, NG_M68K_RTE, NG_M68K_RTR}"

definition add_script_stream_callbacks_for_matching_slot ::
  "ng_program_rom \<Rightarrow> u32 \<Rightarrow> u32 \<Rightarrow> ng_static_a6_slot_pointer_state \<Rightarrow> ng_script_interpreter_info list \<Rightarrow>
   ng_function_discovery \<Rightarrow> ng_function_discovery" where
  "add_script_stream_callbacks_for_matching_slot rom start_addr slot slots infos =
     fold (\<lambda>info d. if si_valid info \<and> si_slot info = slot
                    then add_script_stream_callbacks_for_interpreter rom start_addr slots info d else d) infos"

primrec script_slot_scan_loop ::
  "ng_program_rom \<Rightarrow> ng_script_interpreter_info list \<Rightarrow> u32 \<Rightarrow> nat \<Rightarrow> u32 \<Rightarrow> ng_m68k_static_areg_state \<Rightarrow>
   ng_m68k_index_reg_bound_state \<Rightarrow> ng_static_a6_slot_pointer_state \<Rightarrow> ng_function_discovery \<Rightarrow> ng_function_discovery" where
  "script_slot_scan_loop rom infos start_addr 0 pc areg bound slots d = d"
| "script_slot_scan_loop rom infos start_addr (Suc n) pc areg bound slots d =
     (case ng_m68k_decode rom pc of (ok, i) \<Rightarrow>
        if \<not> usable_instr ok i then d
        else
          let (slots', d') =
            (case ea_is_a6_slot_local (i_dst i) of
               Some slot \<Rightarrow>
                 if slot < NG_FUNCTION_DISCOVERY_STATIC_A6_SLOTS then
                   let slots' = static_a6_slot_pointer_update areg bound i slots
                   in (slots', add_script_stream_callbacks_for_matching_slot rom start_addr slot slots' infos d)
                 else (slots, d)
             | None \<Rightarrow> (slots, d))
          in if instr_stops_script_slot_scan i \<or> 0xFFFFFFFF - pc < ucast (i_byte_length i) then d'
             else script_slot_scan_loop rom infos start_addr n (pc + ucast (i_byte_length i))
                    (ng_m68k_static_areg_update areg i) (ng_m68k_index_reg_bound_update bound i) slots' d')"

definition NG_FUNCTION_DISCOVERY_MAX_INSTRUCTIONS :: nat where
  "NG_FUNCTION_DISCOVERY_MAX_INSTRUCTIONS = 128"

definition add_script_stream_callbacks_from_slot_scan ::
  "ng_program_rom \<Rightarrow> ng_script_interpreter_info list \<Rightarrow> u32 \<Rightarrow> ng_function_discovery \<Rightarrow> ng_function_discovery" where
  "add_script_stream_callbacks_from_slot_scan rom infos start_addr d =
     (if infos = [] then d
      else script_slot_scan_loop rom infos start_addr NG_FUNCTION_DISCOVERY_MAX_INSTRUCTIONS start_addr
             ng_m68k_static_areg_reset ng_m68k_index_reg_bound_reset static_a6_slot_pointer_reset d)"

subsection \<open>The pass\<close>

lemma steps_script_callback [THEN steps_then, steps]: "discovery_steps rom d (script_callback rom cmd pc d)"
  by (auto simp: script_callback_def Let_def intro!: steps)

lemma steps_script_stream_loop: "discovery_steps rom (snd s) (snd (script_stream_loop rom info n pc s))"
proof (induction n arbitrary: pc s)
  case (Suc n)
  obtain queue d where s: "s = (queue, d)" by (cases s)
  have "discovery_steps rom d (script_callback rom cmd pc d)" for cmd by (intro steps)
  moreover from this have "discovery_steps rom d (snd (script_stream_loop rom info n pc' (queue, script_callback rom cmd pc d)))"
    for cmd pc' using Suc.IH [of "(queue, script_callback rom cmd pc d)" pc'] by (auto intro: rtranclp_trans)
  ultimately show ?case by (simp add: s Let_def)
qed simp

lemma steps_script_stream_queue: "discovery_steps rom (snd s) (script_stream_queue rom info head visited s)"
proof (induction rom info head visited s rule: script_stream_queue.induct)
  case (1 rom info head visited s)
  then show ?case
    using steps_script_stream_loop [of rom s info 512 "fst s ! head"]
    by (subst script_stream_queue.simps) (auto simp: Let_def intro: rtranclp_trans)
qed

lemma steps_from_root [THEN steps_then, steps]:
  "discovery_steps rom d (add_script_stream_callbacks_from_root info root rom d)"
  using steps_script_stream_queue [of rom "([root AND 0x00FFFFFF], d)"]
  by (simp add: add_script_stream_callbacks_from_root_def)

lemma steps_from_table [THEN steps_then, steps]:
  "discovery_steps rom d (add_script_stream_callbacks_from_table info table_addr max_entries rom d)"
  unfolding add_script_stream_callbacks_from_table_def Let_def
  by (auto intro!: steps loop_until_inv [where P = "\<lambda>s. discovery_steps rom d (snd s)"])

lemma steps_for_interpreter [THEN steps_then, steps]:
  "discovery_steps rom d (add_script_stream_callbacks_for_interpreter rom start_addr slots info d)"
  by (auto simp: add_script_stream_callbacks_for_interpreter_def Let_def intro!: steps)

lemma steps_for_matching_slot [THEN steps_then, steps]:
  "discovery_steps rom d (add_script_stream_callbacks_for_matching_slot rom start_addr slot slots infos d)"
  unfolding add_script_stream_callbacks_for_matching_slot_def by (auto intro!: steps)

lemma steps_script_slot_scan_loop [THEN steps_then, steps]:
  "discovery_steps rom d (script_slot_scan_loop rom infos start_addr n pc areg bound slots d)"
proof (induction n arbitrary: pc areg bound slots d)
  case (Suc n)
  note more = steps_then [OF Suc.IH]
  show ?case by (auto simp: Let_def split: prod.split option.split intro!: steps more)
qed simp

lemma steps_from_slot_scan [THEN steps_then, steps]:
  "discovery_steps rom d (add_script_stream_callbacks_from_slot_scan rom infos start_addr d)"
  by (auto simp: add_script_stream_callbacks_from_slot_scan_def intro!: steps)

lemma steps_entry_view:
  assumes "discovery_steps (discovery_entry_rom_view rom e index) d d'" shows "discovery_steps rom d d'"
  using assms by (simp add: discovery_entry_rom_view_def Let_def discovery_step_select_bank split: if_splits)

text \<open>
  The source passes the same set as \<open>discovery\<close> and as \<open>out\<close>, so the loop reaches the candidates it adds on
  the way.
\<close>

definition script_pass_step ::
  "ng_program_rom \<Rightarrow> ng_script_interpreter_info list \<Rightarrow> bool \<Rightarrow> nat \<Rightarrow> ng_function_discovery \<Rightarrow> ng_function_discovery" where
  "script_pass_step rom infos roots_only i d =
     (if roots_only \<and> \<not> c_scan_root (fd_candidates d ! i) then d
      else add_script_stream_callbacks_from_slot_scan (discovery_entry_rom_view rom d i) infos
             (c_addr (fd_candidates d ! i)) d)"

lemma steps_script_pass_step [THEN steps_then, steps]:
  "discovery_steps rom d (script_pass_step rom infos roots_only i d)"
  by (auto simp: script_pass_step_def intro!: steps steps_entry_view [of rom d i])

function script_pass_loop ::
  "ng_program_rom \<Rightarrow> ng_script_interpreter_info list \<Rightarrow> bool \<Rightarrow> nat \<Rightarrow> ng_function_discovery \<Rightarrow> ng_function_discovery" where
  "script_pass_loop rom infos roots_only i d =
     (if i < length (fd_candidates d)
      then script_pass_loop rom infos roots_only (Suc i) (script_pass_step rom infos roots_only i d) else d)"
  by pat_completeness auto
termination
proof (relation "measure (\<lambda>(rom, infos, roots_only, i, d). max 131072 (length (fd_candidates d)) - i)")
  fix rom infos roots_only i and d :: ng_function_discovery
  assume "i < length (fd_candidates d)"
  moreover have "length (fd_candidates (script_pass_step rom infos roots_only i d)) \<le> max 131072 (length (fd_candidates d))"
    by (rule discovery_steps_length) (rule steps steps_refl)+
  ultimately show "((rom, infos, roots_only, Suc i, script_pass_step rom infos roots_only i d), rom, infos, roots_only, i, d)
      \<in> measure (\<lambda>(rom, infos, roots_only, i, d). max 131072 (length (fd_candidates d)) - i)"
    by simp
qed simp

declare script_pass_loop.simps [simp del]

definition add_script_stream_callbacks_from_discovery ::
  "ng_program_rom \<Rightarrow> ng_function_discovery \<Rightarrow> nat \<times> ng_function_discovery" where
  "add_script_stream_callbacks_from_discovery rom d =
     (let infos = collect_script_interpreters rom d 16 in
      if infos = [] then (0, d)
      else
        let d' = script_pass_loop rom infos (have_scan_roots d) 0 d
        in (length (fd_candidates d') - length (fd_candidates d), d'))"

lemma steps_script_pass_loop [THEN steps_then, steps]:
  "discovery_steps rom d (script_pass_loop rom infos roots_only i d)"
proof (induction rom infos roots_only i d rule: script_pass_loop.induct)
  case (1 rom infos roots_only i d)
  then show ?case by (subst script_pass_loop.simps) (auto intro: steps_script_pass_step steps_then)
qed

lemma steps_from_discovery [THEN steps_then, steps]:
  "discovery_steps rom d (snd (add_script_stream_callbacks_from_discovery rom d))"
  by (auto simp: add_script_stream_callbacks_from_discovery_def Let_def intro!: steps)

end
