(* ===== verification/FunctionDiscovery.thy ===== *)
theory FunctionDiscovery
  imports DiscoveryScript
begin

text \<open>
  The driver of \<open>function_discovery.c\<close>: the scan of one candidate and the work list that scans every root.
\<close>

subsection \<open>Scanning one candidate\<close>

record scan_state =
  sn_previous :: "ng_m68k_instr option"
  sn_areg :: ng_m68k_static_areg_state
  sn_previous_areg :: ng_m68k_static_areg_state
  sn_index_bound :: ng_m68k_index_reg_bound_state
  sn_areg_sets :: ng_static_areg_set_state
  sn_dreg :: static_dreg_state
  sn_spawn_result :: "u8 list"

definition scan_state_start :: scan_state where
  "scan_state_start =
     \<lparr>sn_previous = None, sn_areg = ng_m68k_static_areg_reset, sn_previous_areg = ng_m68k_static_areg_reset,
      sn_index_bound = ng_m68k_index_reg_bound_reset, sn_areg_sets = static_areg_set_reset,
      sn_dreg = \<lparr>sd_valid = replicate 8 0, sd_target = replicate 8 0\<rparr>, sn_spawn_result = replicate 8 0\<rparr>"

text \<open>The patterns of two instructions in a row (\<open>if (have_previous)\<close>).\<close>

definition scan_pair ::
  "ng_program_rom \<Rightarrow> ng_game_config option \<Rightarrow> u32 \<Rightarrow> scan_state \<Rightarrow> ng_m68k_instr \<Rightarrow> ng_m68k_instr \<Rightarrow>
   ng_function_discovery \<Rightarrow> ng_function_discovery" where
  "scan_pair rom config start_addr st previous i d =
     (let bounded = (\<lambda>p. add_jump_table_targets rom (ng_m68k_jump_table_apply_index_bound p (sn_index_bound st)) d) in
      case ng_m68k_match_pc_index_jump_table previous i of Some p \<Rightarrow> bounded p | None \<Rightarrow>
      (case ng_m68k_match_static_index_jump_table previous i (sn_previous_areg st) of Some p \<Rightarrow> bounded p | None \<Rightarrow>
      (case ng_m68k_match_static_index_branch_table i (sn_areg st) of Some p \<Rightarrow> bounded p | None \<Rightarrow>
      (case is_task_state_store rom config previous i of Some target \<Rightarrow> ng_function_discovery_add rom target d | None \<Rightarrow>
      (case is_task_spawn_call rom config previous i of Some target \<Rightarrow> ng_function_discovery_add rom target d | None \<Rightarrow>
      (case is_indexed_task_spawn_call rom config previous i (sn_previous_areg st) of Some p \<Rightarrow> bounded p | None \<Rightarrow>
       add_abs_pointer_indirect_targets rom start_addr previous i d))))))"

text \<open>The dispatch tables laid out in the code.\<close>

definition scan_code_tables ::
  "ng_program_rom \<Rightarrow> ng_m68k_instr option \<Rightarrow> ng_m68k_instr \<Rightarrow> ng_function_discovery \<Rightarrow> ng_function_discovery" where
  "scan_code_tables rom previous i d =
     (case (case previous of Some p \<Rightarrow> ng_m68k_match_pc_index_inline_code_table rom p i | None \<Rightarrow> None) of
        Some p \<Rightarrow> add_jump_table_targets rom p d | None \<Rightarrow>
      (case ng_m68k_match_pc_index_branch_table rom i of Some p \<Rightarrow> add_jump_table_targets rom p d | None \<Rightarrow>
      (case ng_m68k_match_repeated_direct_dispatch_table rom i of Some p \<Rightarrow> add_jump_table_targets rom p d | None \<Rightarrow> d)))"

text \<open>The targets the instruction itself names: calls, branches and the places control returns to.\<close>

definition scan_flow_targets ::
  "ng_program_rom \<Rightarrow> u32 \<Rightarrow> u32 \<Rightarrow> scan_state \<Rightarrow> ng_m68k_instr \<Rightarrow> ng_function_discovery \<Rightarrow> ng_function_discovery" where
  "scan_flow_targets rom start_addr pc st i d =
     (let d1 = (if is_direct_function_target i then ng_function_discovery_add rom (i_target i) d else d);
          d2 = (if is_branch_target_candidate i then
                  let d' = ng_function_discovery_add rom (i_target i) d1 in
                  if pc < i_target i AND 0x00FFFFFF
                  then add_branch_target_static_indirects rom start_addr (i_target i) (sn_areg st) (sn_dreg st) d' else d'
                else d1);
          d3 = (if (i_mnemonic i = NG_M68K_JSR \<or> i_mnemonic i = NG_M68K_BSR) \<and> i_byte_length i \<noteq> 0
                then ng_function_discovery_add rom (pc + ucast (i_byte_length i)) d2 else d2)
      in if i_mnemonic i = NG_M68K_STOP \<and> i_byte_length i \<noteq> 0
         then ng_function_discovery_add rom (pc + ucast (i_byte_length i)) d3 else d3)"

definition scan_instr ::
  "ng_program_rom \<Rightarrow> ng_game_config option \<Rightarrow> u32 \<Rightarrow> u32 \<Rightarrow> scan_state \<Rightarrow> ng_m68k_instr \<Rightarrow>
   ng_function_discovery \<Rightarrow> ng_function_discovery" where
  "scan_instr rom config start_addr pc st i d =
     (let d1 = (if pc \<noteq> start_addr then ng_function_discovery_add_label rom pc d else d);
          d2 = (case sn_previous st of Some previous \<Rightarrow> scan_pair rom config start_addr st previous i d1 | None \<Rightarrow> d1);
          d3 = scan_code_tables rom (sn_previous st) i d2;
          d4 = add_config_table_call_targets rom config i (sn_areg st) d3;
          d5 = add_static_areg_indirect_target rom start_addr i (sn_areg st) d4;
          d6 = add_static_areg_set_state_targets rom config i (sn_areg_sets st) d5;
          d7 = (case is_immediate_task_state_store rom config i (sn_spawn_result st) of
                  Some target \<Rightarrow> ng_function_discovery_add rom target d6 | None \<Rightarrow> d6)
      in scan_flow_targets rom start_addr pc st i d7)"

definition spawn_result_update ::
  "ng_program_rom \<Rightarrow> ng_game_config option \<Rightarrow> ng_m68k_instr \<Rightarrow> u8 list \<Rightarrow> u8 list" where
  "spawn_result_update rom config i valid =
     (if i_mnemonic i = NG_M68K_JSR \<or> i_mnemonic i = NG_M68K_BSR
      then if is_direct_function_target i \<and>
              dispatcher_task_spawn_result_call_allowed rom config (i_target i AND 0x00FFFFFF)
           then (replicate 8 0)[0 := 1] else replicate 8 0
      else map (\<lambda>reg. if instr_writes_areg_number i (of_nat reg) then 0 else valid ! reg) [0..<8])"

definition scan_state_update ::
  "ng_program_rom \<Rightarrow> ng_game_config option \<Rightarrow> ng_m68k_instr \<Rightarrow> scan_state \<Rightarrow> scan_state" where
  "scan_state_update rom config i st =
     \<lparr>sn_previous = Some i,
      sn_areg = static_dreg_to_areg_update (sn_dreg st) i (ng_m68k_static_areg_update (sn_areg st) i),
      sn_previous_areg = sn_areg st,
      sn_index_bound = ng_m68k_index_reg_bound_update (sn_index_bound st) i,
      sn_areg_sets = static_areg_set_update rom (sn_areg st) (sn_index_bound st) i (sn_areg_sets st),
      sn_dreg = static_dreg_update i (sn_dreg st),
      sn_spawn_result = spawn_result_update rom config i (sn_spawn_result st)\<rparr>"

primrec scan_loop ::
  "ng_program_rom \<Rightarrow> ng_game_config option \<Rightarrow> u32 \<Rightarrow> nat \<Rightarrow> u32 \<Rightarrow> scan_state \<Rightarrow>
   ng_function_discovery \<Rightarrow> ng_function_discovery" where
  "scan_loop rom config start_addr 0 pc st d =
     (if pc \<noteq> start_addr then ng_function_discovery_add_scan_root rom pc d else d)"
| "scan_loop rom config start_addr (Suc n) pc st d =
     (case ng_m68k_decode rom pc of (ok, i) \<Rightarrow>
        if \<not> usable_instr ok i then d
        else
          let d' = scan_instr rom config start_addr pc st i d in
          if i_mnemonic i \<in> {NG_M68K_BRA, NG_M68K_JMP, NG_M68K_RTS, NG_M68K_RTE, NG_M68K_RTR} then d'
          else scan_loop rom config start_addr n (pc + ucast (i_byte_length i)) (scan_state_update rom config i st) d')"

definition scan_function_candidate ::
  "ng_program_rom \<Rightarrow> u32 \<Rightarrow> ng_game_config option \<Rightarrow> ng_function_discovery \<Rightarrow> ng_function_discovery" where
  "scan_function_candidate rom start_addr config d =
     scan_loop rom config start_addr NG_FUNCTION_DISCOVERY_MAX_INSTRUCTIONS start_addr scan_state_start d"

subsection \<open>The work list\<close>

definition unscanned_root :: "bool list \<Rightarrow> ng_function_discovery \<Rightarrow> nat \<Rightarrow> bool" where
  "unscanned_root scanned d i \<longleftrightarrow> c_scan_root (fd_candidates d ! i) \<and> \<not> scanned ! i"

text \<open>The next root to scan, from the cursor on and then before it, and the new cursor.\<close>

definition next_root :: "bool list \<Rightarrow> ng_function_discovery \<Rightarrow> nat \<Rightarrow> nat option \<times> nat" where
  "next_root scanned d cursor =
     (let count = length (fd_candidates d) in
      case find (unscanned_root scanned d) [cursor..<count] of
        Some i \<Rightarrow> (Some i, Suc i)
      | None \<Rightarrow>
          let cursor' = max cursor count
          in (find (unscanned_root scanned d) [0..<min cursor' count], cursor'))"

lemma next_root_Some:
  assumes "next_root scanned d cursor = (Some i, c)"
  shows "i < length (fd_candidates d)" and "unscanned_root scanned d i"
  using assms by (auto simp: next_root_def Let_def find_Some_iff split: option.splits)

lemma next_root_decreases:
  assumes "next_root scanned d cursor = (Some i, c)" and "\<not> length scanned < length (fd_candidates d)"
  shows "length (filter Not (scanned[i := True])) < length (filter Not scanned)"
proof -
  have i: "i < length scanned" "\<not> scanned ! i"
    using assms(2) next_root_Some [OF assms(1)] by (simp_all add: unscanned_root_def)
  have "{j. j < length scanned \<and> \<not> scanned[i := True] ! j} \<subset> {j. j < length scanned \<and> \<not> scanned ! j}"
    using i by (auto simp: nth_list_update)
  then show ?thesis by (simp add: length_filter_conv_card psubset_card_mono)
qed

text \<open>\<open>None\<close> would be an access past the end of \<open>scanned\<close>.\<close>

function discovery_worklist ::
  "ng_program_rom \<Rightarrow> ng_game_config option \<Rightarrow> bool list \<Rightarrow> nat \<Rightarrow> bool \<Rightarrow> ng_function_discovery \<Rightarrow>
   ng_function_discovery option" where
  "discovery_worklist rom config scanned cursor script_stream_pass_done d =
     (if length scanned < length (fd_candidates d) then None
      else case next_root scanned d cursor of
        (Some index, cursor') \<Rightarrow>
          discovery_worklist rom config (scanned[index := True]) cursor' script_stream_pass_done
            (scan_function_candidate (discovery_entry_rom_view rom d index) (c_addr (fd_candidates d ! index)) config d)
      | (None, cursor') \<Rightarrow>
          if script_stream_pass_done then Some d
          else case add_script_stream_callbacks_from_discovery rom d of (added, d') \<Rightarrow>
            if added \<noteq> 0 then discovery_worklist rom config scanned 0 True d' else Some d')"
  by pat_completeness auto
termination
  by (relation "measure (\<lambda>(rom, config, scanned, cursor, pass_done, d).
         2 * length (filter Not scanned) + (if pass_done then 0 else 1))")
     (auto dest!: next_root_decreases [OF sym])

declare discovery_worklist.simps [simp del]

subsection \<open>Entry points\<close>

definition add_jump_table_by_format ::
  "ng_program_rom \<Rightarrow> ng_game_config_jump_table \<Rightarrow> ng_function_discovery \<Rightarrow> ng_function_discovery" where
  "add_jump_table_by_format rom t d =
     (case jc_format t of
        NG_GAME_CONFIG_JUMP_TABLE_SCRIPT_PREDICATE \<Rightarrow> add_script_predicate_targets rom t d
      | NG_GAME_CONFIG_JUMP_TABLE_TAGGED_ABS32 \<Rightarrow> add_tagged_abs32_targets rom t d
      | NG_GAME_CONFIG_JUMP_TABLE_INLINE_CALLBACK \<Rightarrow> add_inline_callback_targets rom t d
      | _ \<Rightarrow> add_config_jump_table_targets rom t d)"

text \<open>The candidates the configuration names; \<open>None\<close> when a routine table is not left.\<close>

definition add_config_candidates ::
  "ng_program_rom \<Rightarrow> ng_game_config \<Rightarrow> ng_function_discovery \<Rightarrow> ng_function_discovery option" where
  "add_config_candidates rom cfg d =
     map_option (fold (add_jump_table_by_format rom) (gc_jump_tables cfg))
       (fold (add_routine_table_targets rom) (gc_routine_tables cfg)
         (Some (fold (add_record_format_targets rom) (gc_record_formats cfg)
           (fold (add_state_table_targets_with_scans rom) (gc_state_tables cfg)
             (fold (ng_function_discovery_add rom) (gc_extra cfg)
               (fold (ng_function_discovery_add rom) (gc_entry cfg) d))))))"

definition initial_candidates ::
  "ng_program_rom \<Rightarrow> u32 list \<Rightarrow> ng_game_config option \<Rightarrow> u32 \<Rightarrow> ng_function_discovery option" where
  "initial_candidates rom seeds config max_candidates =
     (let d = fold (ng_function_discovery_add rom) seeds
                (ng_function_discovery_set_max_candidates max_candidates ng_function_discovery_init)
      in case config of None \<Rightarrow> Some d | Some cfg \<Rightarrow> add_config_candidates rom cfg d)"

text \<open>The return value and the set; \<open>None\<close> when the function does not return.\<close>

definition ng_function_discover_from_game_config_limited ::
  "ng_program_rom \<Rightarrow> u32 list \<Rightarrow> ng_game_config option \<Rightarrow> u32 \<Rightarrow> (bool \<times> ng_function_discovery) option" where
  "ng_function_discover_from_game_config_limited rom seeds config max_candidates =
     (case initial_candidates rom seeds config max_candidates of
        None \<Rightarrow> None
      | Some d \<Rightarrow>
          if fd_candidates d = [] then Some (False, d)
          else map_option (Pair True)
                 (discovery_worklist rom config (replicate (unat (candidate_limit d)) False) 0 False d))"

definition ng_function_discover_from_game_config ::
  "ng_program_rom \<Rightarrow> u32 list \<Rightarrow> ng_game_config option \<Rightarrow> (bool \<times> ng_function_discovery) option" where
  "ng_function_discover_from_game_config rom seeds config =
     ng_function_discover_from_game_config_limited rom seeds config NG_FUNCTION_DISCOVERY_MAX_CANDIDATES"

definition ng_function_discover_from_seeds ::
  "ng_program_rom \<Rightarrow> u32 list \<Rightarrow> (bool \<times> ng_function_discovery) option" where
  "ng_function_discover_from_seeds rom seeds = ng_function_discover_from_game_config rom seeds None"

definition ng_function_discover_from_entry ::
  "ng_program_rom \<Rightarrow> u32 \<Rightarrow> (bool \<times> ng_function_discovery) option" where
  "ng_function_discover_from_entry rom entry = ng_function_discover_from_seeds rom [entry]"

end
