(* ===== verification/DiscoveryRuns.thy ===== *)
theory DiscoveryRuns
  imports FunctionDiscovery
begin

text \<open>
  Every scanner takes the candidate set along a run of \<open>discovery_step\<close>, and the work list returns: the lemmas
  that carry the properties of discovery.
\<close>

subsection \<open>The table scanners only add candidates\<close>

lemma steps_code_table_loop [THEN steps_then, steps]:
  "discovery_steps rom d (code_table_loop rom p n entry_addr stride d)"
proof (induction n arbitrary: entry_addr stride d)
  case (Suc n)
  note more = steps_then [OF Suc.IH]
  show ?case by (auto simp: Let_def split: prod.split option.split intro!: steps more)
qed simp

lemma steps_add_jump_table_targets [THEN steps_then, steps]:
  "discovery_steps rom d (add_jump_table_targets rom p d)"
  by (auto simp: add_jump_table_targets_def Let_def intro!: steps)

lemma steps_add_config_jump_table_targets [THEN steps_then, steps]:
  "discovery_steps rom d (add_config_jump_table_targets rom t d)"
  by (auto simp: add_config_jump_table_targets_def Let_def split: option.split intro!: steps)

lemma steps_add_script_predicate_targets [THEN steps_then, steps]:
  "discovery_steps rom d (add_script_predicate_targets rom t d)"
  by (auto simp: add_script_predicate_targets_def Let_def split: option.split intro!: steps)

lemma steps_add_tagged_abs32_targets [THEN steps_then, steps]:
  "discovery_steps rom d (add_tagged_abs32_targets rom t d)"
  by (auto simp: add_tagged_abs32_targets_def Let_def split: option.split intro!: steps)

lemma steps_add_inline_callback_targets [THEN steps_then, steps]:
  "discovery_steps rom d (add_inline_callback_targets rom t d)"
  by (auto simp: add_inline_callback_targets_def Let_def split: option.split intro!: steps)

lemma steps_state_table_value: "discovery_steps rom (snd s) (snd (snd (state_table_value rom t v s)))"
  by (cases s) (auto simp: state_table_value_def intro!: steps)

lemma steps_state_table_entries: "discovery_steps rom (snd s) (snd (state_table_entries rom t n a s))"
proof (induction n arbitrary: a s)
  case (Suc n)
  obtain go s' where v: "state_table_value rom t (ng_program_rom_read32 rom a) s = (go, s')"
    by (cases "state_table_value rom t (ng_program_rom_read32 rom a) s")
  have "discovery_steps rom (snd s) (snd s')"
    using steps_state_table_value [of rom s t "ng_program_rom_read32 rom a"] by (simp add: v)
  then show ?case using Suc.IH [of s'] by (auto simp: v intro: rtranclp_trans)
qed simp

lemma steps_state_table_queue: "discovery_steps rom (snd s) (state_table_queue rom t head s)"
proof (induction rom t head s rule: state_table_queue.induct)
  case (1 rom t head s)
  then show ?case
    using steps_state_table_entries [of rom s t "unat (st_max_entries t)" "fst s ! head"]
    by (subst state_table_queue.simps) (auto intro: rtranclp_trans)
qed

lemma steps_add_state_table_targets [THEN steps_then, steps]:
  "discovery_steps rom d (add_state_table_targets rom t d)"
  using steps_state_table_queue [of rom "([st_root t], d)"] by (simp add: add_state_table_targets_def)

lemma scan_views_inv:
  assumes "\<And>b s. P s \<Longrightarrow> P (f (ng_program_rom_select_bank rom b) s)" and "P s"
  shows "P (scan_views rom bank_all bank_one bank_id f s)"
  using for_each_bank_inv [of P f, OF assms] assms(1) [OF assms(2), of "active_bank rom"] assms
  by (simp add: scan_views_def)

lemma steps_scan_views [steps]:
  "(\<And>view d. discovery_steps view d (f view d)) \<Longrightarrow> discovery_steps rom d0 d \<Longrightarrow>
   discovery_steps rom d0 (scan_views rom bank_all bank_one bank_id f d)"
  by (rule scan_views_inv [where P = "discovery_steps rom d0"]) (rule steps_view)

lemma steps_add_state_table_targets_with_scans [THEN steps_then, steps]:
  "discovery_steps rom d (add_state_table_targets_with_scans rom t d)"
  by (auto simp: add_state_table_targets_with_scans_def Let_def split: option.split intro!: steps)

lemma steps_table_calls [steps]:
  assumes "discovery_steps rom d0 d"
  shows "discovery_steps rom d0 (add_sparse_abs32_table_targets rom a call n sentinel d)"
    and "discovery_steps rom d0 (add_tagged_abs32_stream_targets rom a call d)"
    and "discovery_steps rom d0 (add_record_abs32_target rom a call d)"
  using assms by (auto simp: add_sparse_abs32_table_targets_def add_tagged_abs32_stream_targets_def
      add_record_abs32_target_def Let_def intro!: steps)

lemma steps_add_config_table_call_targets [THEN steps_then, steps]:
  "discovery_steps rom d (add_config_table_call_targets rom config i areg d)"
  by (auto simp: add_config_table_call_targets_def Let_def
      split: option.split ng_game_config_table_call_format.split intro!: steps)

lemma steps_add_record_format_entry_targets [THEN steps_then, steps]:
  "discovery_steps rom d (add_record_format_entry_targets rom r addr strict d)"
  by (auto simp: add_record_format_entry_targets_def split: option.split intro!: steps)

lemma steps_record_run_loop [THEN steps_then, steps]:
  "discovery_steps rom d (record_run_loop rom r stride strict n addr d)"
proof (induction n arbitrary: addr d)
  case (Suc n)
  note more = steps_then [OF Suc.IH]
  show ?case by (auto simp: Let_def intro!: steps more)
qed simp

lemma steps_flush_record_format_cluster [THEN steps_then, steps]:
  "discovery_steps rom d (flush_record_format_cluster rom r run_start n stride strict d)"
  by (auto simp: flush_record_format_cluster_def add_record_format_run_targets_def intro!: steps)

lemma steps_add_record_format_region_targets [THEN steps_then, steps]:
  "discovery_steps rom d (add_record_format_region_targets rom r start stop strict d)"
proof -
  have "discovery_steps rom d
      (snd (snd (addr_loop (record_region_step rom r stop clustered strict) stop stride start (0, 0, d))))"
    for clustered stride
    by (rule addr_loop_inv [where P = "\<lambda>s. discovery_steps rom d (snd (snd s))"])
       (auto simp: record_region_step_def intro!: steps split: prod.split)
  then show ?thesis
    by (auto simp: add_record_format_region_targets_def Let_def split: prod.split intro!: steps)
      (metis snd_conv)+
qed

lemma steps_record_scan_view [THEN steps_then, steps]:
  "discovery_steps rom d (record_scan_view r scan rom d)"
  by (auto simp: record_scan_view_def add_record_format_auto_region_targets_def Let_def
      split: option.split prod.split intro!: steps)

lemma steps_add_record_format_targets [THEN steps_then, steps]:
  "discovery_steps rom d (add_record_format_targets rom r d)"
  unfolding add_record_format_targets_def by (intro steps)

subsection \<open>Routine tables\<close>

text \<open>The loop over an entry returns when the last byte of the 32-bit space is not mapped.\<close>

lemma unat_from_top:
  fixes x :: u32
  shows "unat (0xFFFFFFFF - x) = 0xFFFFFFFF - unat x"
  by (simp add: unat_sub word_le_nat_alt unat_below [of x, simplified] less_Suc_eq_le [symmetric])

lemma unat_add_nonzero:
  fixes x y :: u32
  assumes "x + y \<noteq> 0" "unat y - 1 \<le> 0xFFFFFFFF - unat x"
  shows "unat (x + y) = unat x + unat y"
proof -
  have "unat (x + y) \<noteq> 0" using assms(1) by (simp add: unat_eq_zero)
  then have "unat x + unat y \<noteq> 2 ^ 32" by (auto simp: unat_word_ariths)
  then have "unat x + unat y < 2 ^ 32" using assms(2) unat_below [of x] by simp
  then show ?thesis by (simp add: unat_word_ariths)
qed

lemma routine_entry_loop_returns:
  assumes "\<not> ng_program_rom_addr_is_mapped rom 0xFFFFFFFF"
  shows "\<exists>v. routine_entry_loop rom t limit pc decoded = Some v"
proof (induction "unat limit - unat pc" arbitrary: pc decoded rule: less_induct)
  case less
  let ?i = "snd (ng_m68k_decode rom pc)"
  let ?len = "ucast (i_byte_length ?i) :: u32"
  let ?stop = "\<not> ng_program_rom_addr_is_mapped rom pc \<or> \<not> usable_instr (fst (ng_m68k_decode rom pc)) ?i \<or>
    0xFFFFFFFF - pc < ?len - 1 \<or> limit < pc + ?len \<or> \<not> ng_program_rom_addr_is_mapped rom (pc + ?len - 1)"
  have "\<exists>v. routine_entry_loop rom t limit (pc + ?len) (decoded + 1) = Some v" if "pc < limit" "\<not> ?stop"
  proof (rule less)
    have "i_byte_length ?i \<noteq> 0" using that by (simp add: usable_instr_def)
    moreover have "unat ?len = unat (i_byte_length ?i)" by (simp add: unat_ucast_up)
    ultimately have len: "0 < unat ?len" by (simp add: unat_gt_0)
    have "pc + ?len - 1 \<noteq> 0xFFFFFFFF" using that assms by metis
    then have nz: "pc + ?len \<noteq> 0" by auto
    have "unat (?len - 1) \<le> unat (0xFFFFFFFF - pc)" using that by (simp add: word_le_nat_alt not_less)
    moreover have "unat (?len - 1) = unat ?len - 1" using len by (simp add: unat_sub word_le_nat_alt)
    ultimately have "unat ?len - 1 \<le> 0xFFFFFFFF - unat pc" by (simp add: unat_from_top)
    with nz have "unat (pc + ?len) = unat pc + unat ?len" by (intro unat_add_nonzero)
    moreover have "unat pc < unat limit" using that(1) by (simp add: word_less_nat_alt)
    ultimately show "unat limit - unat (pc + ?len) < unat limit - unat pc" using len by linarith
  qed
  then show ?case by (subst routine_entry_loop.simps) (auto simp: Let_def)
qed

lemma routine_table_entry_valid_returns:
  assumes "\<not> ng_program_rom_addr_is_mapped rom 0xFFFFFFFF"
  shows "\<exists>v. routine_table_entry_valid rom t addr width = Some v"
  using routine_entry_loop_returns [OF assms, of t "addr + width" addr 0]
  unfolding routine_table_entry_valid_def by (split if_split, split if_split) blast

definition top_unmapped :: "ng_program_rom \<Rightarrow> bool" where
  "top_unmapped rom \<longleftrightarrow> (\<forall>b. \<not> ng_program_rom_addr_is_mapped (ng_program_rom_select_bank rom b) 0xFFFFFFFF)"

lemma top_unmappedD: "top_unmapped rom \<Longrightarrow> \<not> ng_program_rom_addr_is_mapped rom 0xFFFFFFFF"
  unfolding top_unmapped_def by (metis select_active_bank)

lemma top_unmapped_select [simp]: "top_unmapped (ng_program_rom_select_bank rom b) = top_unmapped rom"
  by (simp add: top_unmapped_def)

text \<open>The run from \<open>d\<close> has not got stuck.\<close>

definition runs_to :: "ng_program_rom \<Rightarrow> ng_function_discovery \<Rightarrow> ng_function_discovery option \<Rightarrow> bool" where
  "runs_to rom d s \<longleftrightarrow> (\<exists>d'. s = Some d' \<and> discovery_steps rom d d')"

lemma runs_to_region:
  assumes "top_unmapped rom" "runs_to rom d s"
  shows "runs_to rom d (add_routine_table_region_targets rom t start stop s)"
proof -
  have "runs_to rom d (snd (routine_region_step rom t stop width addr s))" if s: "runs_to rom d s" for addr width s
  proof -
    obtain d' where d': "s = Some d'" "discovery_steps rom d d'" using s by (auto simp: runs_to_def)
    obtain v where "routine_table_entry_valid rom t addr width = Some v"
      using routine_table_entry_valid_returns [OF top_unmappedD [OF assms(1)]] by blast
    then show ?thesis using d' by (auto simp: routine_region_step_def runs_to_def intro!: steps)
  qed
  then show ?thesis
    using assms(2) unfolding add_routine_table_region_targets_def Let_def
    by (auto intro: addr_loop_inv [where P = "runs_to rom d"])
qed

lemma runs_to_select_bank: "runs_to (ng_program_rom_select_bank rom b) = runs_to rom"
  by (simp add: fun_eq_iff runs_to_def discovery_step_select_bank)

lemma runs_to_add_routine_table_targets:
  assumes "top_unmapped rom" "runs_to rom d s"
  shows "runs_to rom d (add_routine_table_targets rom t s)"
  unfolding add_routine_table_targets_def
proof (intro fold_inv [where P = "runs_to rom d"] scan_views_inv [where P = "runs_to rom d"])
  fix scan b s assume "runs_to rom d s"
  then show "runs_to rom d
      (case record_scan_bounds (ng_program_rom_select_bank rom b) scan of
         None \<Rightarrow> s
       | Some (start, stop) \<Rightarrow>
           add_routine_table_region_targets (ng_program_rom_select_bank rom b) t start stop s)"
    using runs_to_region [of "ng_program_rom_select_bank rom b" d s] assms(1)
    by (auto simp: runs_to_select_bank split: option.split)
qed (use assms in simp_all)

subsection \<open>The scan of a candidate only adds candidates\<close>

lemma steps_add_abs_pointer_target_from_view [THEN steps_then, steps]:
  "discovery_steps rom d (add_abs_pointer_target_from_view ptr rom d)"
  by (auto simp: add_abs_pointer_target_from_view_def Let_def intro!: steps)

lemma steps_static_targets [steps]:
  assumes "discovery_steps rom d0 d"
  shows "discovery_steps rom d0 (add_abs_pointer_indirect_targets rom start_addr load dispatch d)"
    and "discovery_steps rom d0 (add_static_areg_indirect_target rom start_addr dispatch areg d)"
    and "discovery_steps rom d0 (add_static_areg_set_state_targets rom config i st d)"
  using assms by (auto simp: add_abs_pointer_indirect_targets_def add_static_areg_indirect_target_def
      add_static_areg_set_state_targets_def Let_def split: option.split intro!: steps)

lemma steps_branch_probe_loop [THEN steps_then, steps]:
  "discovery_steps rom d (branch_probe_loop rom start_addr n pc areg dreg d)"
proof (induction n arbitrary: pc areg dreg d)
  case (Suc n)
  note more = steps_then [OF Suc.IH]
  show ?case by (auto simp: Let_def split: prod.split intro!: steps more)
qed simp

lemma steps_add_branch_target_static_indirects [THEN steps_then, steps]:
  "discovery_steps rom d (add_branch_target_static_indirects rom start_addr target areg dreg d)"
  by (auto simp: add_branch_target_static_indirects_def intro!: steps)

lemma steps_scan_parts [steps]:
  assumes "discovery_steps rom d0 d"
  shows "discovery_steps rom d0 (scan_pair rom config start_addr st previous i d)"
    and "discovery_steps rom d0 (scan_code_tables rom prev i d)"
    and "discovery_steps rom d0 (scan_flow_targets rom start_addr pc st i d)"
  using assms by (auto simp: scan_pair_def scan_code_tables_def scan_flow_targets_def Let_def
      split: option.split intro!: steps)

lemma steps_scan_instr [THEN steps_then, steps]:
  "discovery_steps rom d (scan_instr rom config start_addr pc st i d)"
  unfolding scan_instr_def Let_def by (intro steps) (auto split: option.split intro!: steps)

lemma steps_scan_loop [THEN steps_then, steps]:
  "discovery_steps rom d (scan_loop rom config start_addr n pc st d)"
proof (induction n arbitrary: pc st d)
  case (Suc n)
  note more = steps_then [OF Suc.IH]
  show ?case by (auto simp: Let_def split: prod.split intro!: steps more)
qed (auto intro!: steps)

lemma steps_scan_function_candidate [THEN steps_then, steps]:
  "discovery_steps rom d (scan_function_candidate rom start_addr config d)"
  unfolding scan_function_candidate_def by (intro steps)

subsection \<open>The work list returns\<close>

lemma discovery_le_limit: "discovery_le d d' \<Longrightarrow> candidate_limit d' = candidate_limit d"
  by (simp add: discovery_le_def candidate_limit_def)

lemmas steps_limit = discovery_le_limit [OF discovery_steps_le]

lemma discovery_worklist_returns:
  assumes "discovery_ok rom d" "length scanned = unat (candidate_limit d)"
  shows "runs_to rom d (discovery_worklist rom config scanned cursor done d)"
  using assms
proof (induction rom config scanned cursor "done" d rule: discovery_worklist.induct)
  case (1 rom config scanned cursor "done" d)
  have fits: "\<not> length scanned < length (fd_candidates d)" using 1(3,4) by (simp add: discovery_ok_def)
  obtain index cursor' where n: "next_root scanned d cursor = (index, cursor')" by (cases "next_root scanned d cursor")
  show ?case
  proof (cases index)
    case (Some k)
    let ?d' = "scan_function_candidate (discovery_entry_rom_view rom d k) (c_addr (fd_candidates d ! k)) config d"
    have s: "discovery_steps rom d ?d'"
      by (rule steps_entry_view [of rom d k]) (intro steps)
    have "runs_to rom ?d' (discovery_worklist rom config (scanned[k := True]) cursor' done ?d')"
      using 1(2) [OF fits n [symmetric] Some] discovery_steps_ok [OF s 1(3)] steps_limit [OF s] 1(4) by simp
    then show ?thesis
      using s fits n Some by (subst discovery_worklist.simps) (auto simp: runs_to_def intro: rtranclp_trans)
  next
    case None
    obtain added d' where p: "add_script_stream_callbacks_from_discovery rom d = (added, d')"
      by (cases "add_script_stream_callbacks_from_discovery rom d")
    then have s: "discovery_steps rom d d'" using steps_from_discovery [OF steps_refl, of rom d] by simp
    have "runs_to rom d' (discovery_worklist rom config scanned 0 True d')" if "\<not> done" "added \<noteq> 0"
      using 1(1) [OF fits n [symmetric] None that(1) p [symmetric] that(2)]
        discovery_steps_ok [OF s 1(3)] steps_limit [OF s] 1(4) by simp
    then show ?thesis
      using s fits n None p by (subst discovery_worklist.simps) (auto simp: runs_to_def intro: rtranclp_trans)
  qed
qed

subsection \<open>Initial candidates\<close>

lemma steps_add_jump_table_by_format [THEN steps_then, steps]:
  "discovery_steps rom d (add_jump_table_by_format rom t d)"
  by (auto simp: add_jump_table_by_format_def split: ng_game_config_jump_table_format.split intro!: steps)

text \<open>The addresses a run starts from.\<close>

definition config_roots :: "ng_game_config option \<Rightarrow> u32 list" where
  "config_roots config = (case config of None \<Rightarrow> [] | Some cfg \<Rightarrow> gc_entry cfg @ gc_extra cfg)"

lemma runs_to_add_config_candidates:
  assumes "top_unmapped rom" and d: "d = fold (ng_function_discovery_add rom) (config_roots (Some cfg)) d0"
  shows "runs_to rom d (add_config_candidates rom cfg d0)"
proof -
  let ?d = "fold (add_record_format_targets rom) (gc_record_formats cfg)
           (fold (add_state_table_targets_with_scans rom) (gc_state_tables cfg) d)"
  have "runs_to rom d (Some ?d)" unfolding runs_to_def by (rule exI, rule conjI [OF refl]) (intro steps)
  then have "runs_to rom d (fold (add_routine_table_targets rom) (gc_routine_tables cfg) (Some ?d))"
    by (intro fold_inv [where P = "runs_to rom d"] runs_to_add_routine_table_targets assms(1))
  then show ?thesis
    unfolding add_config_candidates_def by (auto simp: runs_to_def d config_roots_def intro!: steps)
qed

definition empty_discovery :: "u32 \<Rightarrow> ng_function_discovery" where
  "empty_discovery n = ng_function_discovery_set_max_candidates n ng_function_discovery_init"

definition root_discovery :: "ng_program_rom \<Rightarrow> u32 list \<Rightarrow> u32 \<Rightarrow> ng_function_discovery" where
  "root_discovery rom roots n = fold (ng_function_discovery_add rom) roots (empty_discovery n)"

lemma steps_root_discovery: "discovery_steps rom (empty_discovery n) (root_discovery rom roots n)"
  unfolding root_discovery_def by (intro steps)

lemma runs_to_initial_candidates:
  assumes "top_unmapped rom"
  shows "runs_to rom (root_discovery rom (seeds @ config_roots config) n) (initial_candidates rom seeds config n)"
proof (cases config)
  case None
  then show ?thesis
    by (simp add: initial_candidates_def runs_to_def empty_discovery_def root_discovery_def config_roots_def)
next
  case (Some cfg)
  then show ?thesis
    using runs_to_add_config_candidates [OF assms refl]
    by (simp add: initial_candidates_def empty_discovery_def root_discovery_def)
qed

lemma empty_discovery_ok: "discovery_ok rom (empty_discovery n)"
  by (simp add: discovery_ok_def empty_discovery_def ng_function_discovery_set_max_candidates_def
      ng_function_discovery_init_def)

text \<open>The whole run.\<close>

lemma discover_run:
  assumes "top_unmapped rom"
  obtains ok d where "ng_function_discover_from_game_config_limited rom seeds config n = Some (ok, d)"
    and "discovery_steps rom (root_discovery rom (seeds @ config_roots config) n) d"
    and "ok \<longleftrightarrow> fd_candidates d \<noteq> []"
proof -
  let ?r = "root_discovery rom (seeds @ config_roots config) n"
  obtain d0 where d0: "initial_candidates rom seeds config n = Some d0" "discovery_steps rom ?r d0"
    using runs_to_initial_candidates [OF assms, of seeds config n] by (auto simp: runs_to_def)
  have "discovery_ok rom d0"
    by (rule discovery_steps_ok [OF rtranclp_trans [OF steps_root_discovery d0(2)] empty_discovery_ok])
  then have "runs_to rom d0 (discovery_worklist rom config (replicate (unat (candidate_limit d0)) False) 0 False d0)"
    by (intro discovery_worklist_returns) simp_all
  then obtain d where d: "discovery_worklist rom config (replicate (unat (candidate_limit d0)) False) 0 False d0 = Some d"
      "discovery_steps rom d0 d" by (auto simp: runs_to_def)
  show thesis
  proof (cases "fd_candidates d0 = []")
    case True
    then show thesis using that [of False d0] d0 by (simp add: ng_function_discover_from_game_config_limited_def)
  next
    case False
    then have "fd_candidates d \<noteq> []" using discovery_steps_le [OF d(2)] by (auto simp: discovery_le_def)
    then show thesis
      using that [of True d] d0 d False
      by (auto simp: ng_function_discover_from_game_config_limited_def intro: rtranclp_trans)
  qed
qed

end
