(* ===== verification/DiscoveryProps.thy ===== *)
theory DiscoveryProps
  imports DiscoveryRuns M68kAnalyzeProps
begin

text \<open>
  What function discovery guarantees: it returns, its result is a duplicate-free set of decodable functions
  within the limit, and the result is closed under the calls and branches of the functions it scanned.
\<close>

subsection \<open>Closure\<close>

text \<open>
  What the scan of a function owes: the addresses the instruction at \<open>pc\<close> names, and for a function
  read from \<open>start_addr\<close> on, each address with the flags (entry, scan root) it is to have. The addresses of the
  instructions themselves are labels; where the scan stops after its last instruction, the next address is a root.
\<close>

definition named_targets :: "u32 \<Rightarrow> ng_m68k_instr \<Rightarrow> u32 list" where
  "named_targets pc i =
     (if is_direct_function_target i \<or> is_branch_target_candidate i then [i_target i] else []) @
     (if i_mnemonic i = NG_M68K_JSR \<or> i_mnemonic i = NG_M68K_BSR \<or> i_mnemonic i = NG_M68K_STOP
      then [pc + ucast (i_byte_length i)] else [])"

primrec function_demands :: "ng_program_rom \<Rightarrow> u32 \<Rightarrow> nat \<Rightarrow> u32 \<Rightarrow> (u32 \<times> bool \<times> bool) list" where
  "function_demands rom start_addr 0 pc = (if pc \<noteq> start_addr then [(pc, False, True)] else [])"
| "function_demands rom start_addr (Suc n) pc =
     (case ng_m68k_decode rom pc of (ok, i) \<Rightarrow>
        if \<not> usable_instr ok i then []
        else (if pc \<noteq> start_addr then [(pc, False, False)] else []) @
             map (\<lambda>t. (t, True, True)) (named_targets pc i) @
             (if i_mnemonic i \<in> {NG_M68K_BRA, NG_M68K_JMP, NG_M68K_RTS, NG_M68K_RTE, NG_M68K_RTR} then []
              else function_demands rom start_addr n (pc + ucast (i_byte_length i))))"

definition meets :: "ng_program_rom \<Rightarrow> ng_function_discovery \<Rightarrow> u32 \<times> bool \<times> bool \<Rightarrow> bool" where
  "meets rom d = (\<lambda>(t, e, r).
     fd_truncated d \<or> \<not> is_probable_function_target rom t \<or> has_candidate d (t, discovery_bank_for_addr rom t) e r)"

lemma meets_mono: "discovery_steps rom d d' \<Longrightarrow> meets view d x \<Longrightarrow> meets view d' x"
  using has_candidate_mono [OF discovery_steps_le]
  by (auto simp: meets_def discovery_le_def dest: discovery_steps_le)

lemma meets_add_with_flags: "meets rom (ng_function_discovery_add_with_flags rom t e r d) (t, e, r)"
  by (cases "fd_truncated (ng_function_discovery_add_with_flags rom t e r d)")
     (simp_all add: meets_def add_has_candidate)

lemma meets_adds:
  "meets rom (ng_function_discovery_add rom t d) (t, True, True)"
  "meets rom (ng_function_discovery_add_label rom t d) (t, False, False)"
  "meets rom (ng_function_discovery_add_scan_root rom t d) (t, False, True)"
  by (simp_all add: ng_function_discovery_add_def ng_function_discovery_add_label_def
      ng_function_discovery_add_scan_root_def meets_add_with_flags)

lemma scan_flow_targets_meets:
  assumes "t \<in> set (named_targets pc i)" "i_byte_length i \<noteq> 0"
  shows "meets rom (scan_flow_targets rom start_addr pc st i d) (t, True, True)"
proof -
  let ?next = "pc + ucast (i_byte_length i)"
  consider (direct) "is_direct_function_target i" "t = i_target i"
    | (branch) "is_branch_target_candidate i" "t = i_target i"
    | (call) "i_mnemonic i = NG_M68K_JSR \<or> i_mnemonic i = NG_M68K_BSR" "t = ?next"
    | (stop) "i_mnemonic i = NG_M68K_STOP" "t = ?next"
    using assms(1) by (auto simp: named_targets_def split: if_splits)
  then show ?thesis
  proof cases
    case direct
    have "discovery_steps rom (ng_function_discovery_add rom t d) (scan_flow_targets rom start_addr pc st i d)"
      using direct by (auto simp: scan_flow_targets_def Let_def intro!: steps)
    then show ?thesis by (rule meets_mono) (rule meets_adds)
  next
    case branch
    let ?d = "if is_direct_function_target i then ng_function_discovery_add rom (i_target i) d else d"
    have "discovery_steps rom (ng_function_discovery_add rom t ?d) (scan_flow_targets rom start_addr pc st i d)"
      using branch by (auto simp: scan_flow_targets_def Let_def intro!: steps)
    then show ?thesis by (rule meets_mono) (rule meets_adds)
  next
    case call
    then show ?thesis
      unfolding scan_flow_targets_def Let_def using assms(2) by (auto simp: meets_adds)
  next
    case stop
    then show ?thesis
      unfolding scan_flow_targets_def Let_def using assms(2) by (simp add: meets_adds)
  qed
qed

lemma scan_instr_meets:
  assumes "i_byte_length i \<noteq> 0"
  shows "t \<in> set (named_targets pc i) \<Longrightarrow> meets rom (scan_instr rom config start_addr pc st i d) (t, True, True)"
    and "pc \<noteq> start_addr \<Longrightarrow> meets rom (scan_instr rom config start_addr pc st i d) (pc, False, False)"
proof -
  show "t \<in> set (named_targets pc i) \<Longrightarrow> meets rom (scan_instr rom config start_addr pc st i d) (t, True, True)"
    unfolding scan_instr_def Let_def by (rule scan_flow_targets_meets [OF _ assms])
  show "meets rom (scan_instr rom config start_addr pc st i d) (pc, False, False)" if "pc \<noteq> start_addr"
  proof -
    have "discovery_steps rom (ng_function_discovery_add_label rom pc d) (scan_instr rom config start_addr pc st i d)"
      unfolding scan_instr_def Let_def using that by (auto split: option.split intro!: steps)
    then show ?thesis by (rule meets_mono) (rule meets_adds)
  qed
qed

lemma scan_loop_meets:
  "x \<in> set (function_demands rom start_addr n pc) \<Longrightarrow> meets rom (scan_loop rom config start_addr n pc st d) x"
proof (induction n arbitrary: pc st d)
  case 0
  then show ?case by (auto simp: meets_adds split: if_splits)
next
  case (Suc n)
  obtain ok i where i: "ng_m68k_decode rom pc = (ok, i)" by (cases "ng_m68k_decode rom pc")
  then have u: "usable_instr ok i" using Suc.prems by (simp split: if_splits)
  then have len: "i_byte_length i \<noteq> 0" by (simp add: usable_instr_def)
  let ?d = "scan_instr rom config start_addr pc st i d"
  let ?next = "scan_loop rom config start_addr n (pc + ucast (i_byte_length i)) (scan_state_update rom config i st) ?d"
  have s: "discovery_steps rom ?d ?next" by (intro steps)
  have "scan_loop rom config start_addr (Suc n) pc st d \<in> {?d, ?next}" using u by (simp add: i Let_def)
  then have run: "discovery_steps rom ?d (scan_loop rom config start_addr (Suc n) pc st d)" using s by auto
  consider (label) "x = (pc, False, False)" "pc \<noteq> start_addr"
    | (named) t where "x = (t, True, True)" "t \<in> set (named_targets pc i)"
    | (more) "x \<in> set (function_demands rom start_addr n (pc + ucast (i_byte_length i)))"
        "i_mnemonic i \<notin> {NG_M68K_BRA, NG_M68K_JMP, NG_M68K_RTS, NG_M68K_RTE, NG_M68K_RTR}"
    using Suc.prems u by (auto simp: i split: if_splits)
  then show ?case
  proof cases
    case more
    then show ?thesis using Suc.IH u by (simp add: i Let_def)
  qed (use meets_mono [OF run] scan_instr_meets [OF len] in blast)+
qed

text \<open>A set is closed when it meets the demands of each of its roots.\<close>

definition candidate_view :: "ng_program_rom \<Rightarrow> candidate \<Rightarrow> ng_program_rom" where
  "candidate_view rom c =
     (if entry_bank c \<noteq> NG_FUNCTION_DISCOVERY_BANK_NONE then ng_program_rom_select_bank rom (entry_bank c) else rom)"

definition closed_at :: "ng_program_rom \<Rightarrow> candidate \<Rightarrow> ng_function_discovery \<Rightarrow> bool" where
  "closed_at rom c d \<longleftrightarrow>
     (\<forall>x \<in> set (function_demands (candidate_view rom c) (c_addr c) NG_FUNCTION_DISCOVERY_MAX_INSTRUCTIONS (c_addr c)).
        meets (candidate_view rom c) d x)"

definition discovery_closed :: "ng_program_rom \<Rightarrow> ng_function_discovery \<Rightarrow> bool" where
  "discovery_closed rom d \<longleftrightarrow> (\<forall>c \<in> set (fd_candidates d). c_scan_root c \<longrightarrow> closed_at rom c d)"

lemma entry_view: "i < length (fd_candidates d) \<Longrightarrow> discovery_entry_rom_view rom d i = candidate_view rom (fd_candidates d ! i)"
  by (simp add: discovery_entry_rom_view_def ng_function_discovery_bank_at_def candidate_view_def Let_def)

lemma closed_at_mono: "discovery_steps rom d d' \<Longrightarrow> closed_at rom c d \<Longrightarrow> closed_at rom c d'"
  by (auto simp: closed_at_def intro: meets_mono)

lemma closed_at_key: "candidate_key c = candidate_key c' \<Longrightarrow> closed_at rom c = closed_at rom c'"
  by (simp add: fun_eq_iff closed_at_def candidate_key_def candidate_view_def)

definition scanned_closed :: "ng_program_rom \<Rightarrow> bool list \<Rightarrow> ng_function_discovery \<Rightarrow> bool" where
  "scanned_closed rom marks d \<longleftrightarrow>
     (\<forall>i < length marks. marks ! i \<longrightarrow>
        i < length (fd_candidates d) \<and> closed_at rom (fd_candidates d ! i) d)"

lemma scanned_closed_mono:
  assumes s: "discovery_steps rom d d'" and c: "scanned_closed rom marks d"
  shows "scanned_closed rom marks d'"
  unfolding scanned_closed_def
proof (intro allI impI)
  fix i assume "i < length marks" "marks ! i"
  then have i: "i < length (fd_candidates d)" "closed_at rom (fd_candidates d ! i) d"
    using c by (simp_all add: scanned_closed_def)
  moreover have "i < length (fd_candidates d')" "candidate_key (fd_candidates d ! i) = candidate_key (fd_candidates d' ! i)"
    using discovery_steps_le [OF s] i(1) by (auto simp: discovery_le_def candidate_le_def)
  ultimately show "i < length (fd_candidates d') \<and> closed_at rom (fd_candidates d' ! i) d'"
    using closed_at_mono [OF s i(2)] closed_at_key by metis
qed

lemma scanned_closed_scan:
  assumes k: "k < length (fd_candidates d)" and c: "scanned_closed rom marks d"
    and d': "d' = scan_function_candidate (discovery_entry_rom_view rom d k) (c_addr (fd_candidates d ! k)) config d"
  shows "scanned_closed rom (marks[k := True]) d'"
proof -
  have s: "discovery_steps rom d d'" unfolding d' by (rule steps_entry_view [of rom d k]) (intro steps)
  have "closed_at rom (fd_candidates d ! k) d'"
    unfolding closed_at_def d' entry_view [OF k] scan_function_candidate_def by (auto intro: scan_loop_meets)
  moreover have "k < length (fd_candidates d')" "candidate_key (fd_candidates d ! k) = candidate_key (fd_candidates d' ! k)"
    using discovery_steps_le [OF s] k by (auto simp: discovery_le_def candidate_le_def)
  ultimately have "closed_at rom (fd_candidates d' ! k) d'" "k < length (fd_candidates d')"
    using closed_at_key by metis+
  moreover have "i = k \<or> marks ! i" if "marks[k := True] ! i" for i using that by (metis nth_list_update_neq)
  ultimately show ?thesis using scanned_closed_mono [OF s c] by (auto simp: scanned_closed_def)
qed

lemma next_root_None:
  assumes "next_root marks d cursor = (None, c)" "i < length (fd_candidates d)"
  shows "\<not> unscanned_root marks d i"
proof -
  have "find (unscanned_root marks d) [cursor..<length (fd_candidates d)] = None"
      "find (unscanned_root marks d) [0..<length (fd_candidates d)] = None"
    using assms(1) by (auto simp: next_root_def Let_def min_absorb2 split: option.splits)
  then show ?thesis using assms(2) by (auto simp: find_None_iff)
qed

lemma all_scanned_closed:
  assumes "next_root marks d cursor = (None, c)" "scanned_closed rom marks d"
    and "length (fd_candidates d) \<le> length marks"
  shows "discovery_closed rom d"
  unfolding discovery_closed_def
proof (intro ballI impI)
  fix c assume "c \<in> set (fd_candidates d)" "c_scan_root c"
  then obtain i where "i < length (fd_candidates d)" "fd_candidates d ! i = c" by (auto simp: in_set_conv_nth)
  then show "closed_at rom c d"
    using next_root_None [OF assms(1), of i] assms(2,3) \<open>c_scan_root c\<close>
    by (auto simp: unscanned_root_def scanned_closed_def)
qed

text \<open>
  The work list ends with a closed set, unless its last act was the script pass and that added no candidate:
  then the set before the pass was closed.
\<close>

lemma discovery_worklist_closed:
  assumes "discovery_worklist rom config marks cursor done d = Some d'" "scanned_closed rom marks d"
  shows "discovery_closed rom d' \<or>
    (\<exists>d0. discovery_closed rom d0 \<and> add_script_stream_callbacks_from_discovery rom d0 = (0, d'))"
  using assms
proof (induction rom config marks cursor "done" d rule: discovery_worklist.induct)
  case (1 rom config marks cursor "done" d)
  have fits: "\<not> length marks < length (fd_candidates d)"
    using 1(3) by (subst (asm) discovery_worklist.simps) (simp split: if_splits)
  obtain index cursor' where n: "next_root marks d cursor = (index, cursor')" by (cases "next_root marks d cursor")
  show ?case
  proof (cases index)
    case (Some k)
    let ?d = "scan_function_candidate (discovery_entry_rom_view rom d k) (c_addr (fd_candidates d ! k)) config d"
    have k: "k < length (fd_candidates d)" using next_root_Some n Some by metis
    have "discovery_worklist rom config (marks[k := True]) cursor' done ?d = Some d'"
      using 1(3) fits n Some by (subst (asm) discovery_worklist.simps) simp
    then show ?thesis
      using 1(2) [OF fits n [symmetric] Some] scanned_closed_scan [OF k 1(4) refl] by blast
  next
    case None
    have c: "discovery_closed rom d" using all_scanned_closed [of marks d cursor cursor' rom] n None 1(4) fits by simp
    obtain added d1 where p: "add_script_stream_callbacks_from_discovery rom d = (added, d1)"
      by (cases "add_script_stream_callbacks_from_discovery rom d")
    then have s: "discovery_steps rom d d1" using steps_from_discovery [OF steps_refl, of rom d] by simp
    show ?thesis
    proof (cases "\<not> done \<and> added \<noteq> 0")
      case True
      have "discovery_worklist rom config marks 0 True d1 = Some d'"
        using 1(3) fits n None True p by (subst (asm) discovery_worklist.simps) simp
      then show ?thesis
        using 1(1) [OF fits n [symmetric] None _ p [symmetric]] True scanned_closed_mono [OF s 1(4)] by blast
    next
      case False
      then have "d' = d \<or> added = 0 \<and> d' = d1"
        using 1(3) fits n None p by (subst (asm) discovery_worklist.simps) (auto split: if_splits)
      then show ?thesis using c p by blast
    qed
  qed
qed

lemma root_discovery_meets:
  "t \<in> set roots \<Longrightarrow> meets rom (fold (ng_function_discovery_add rom) roots d) (t, True, True)"
proof (induction roots arbitrary: d)
  case (Cons x roots)
  have "discovery_steps rom (ng_function_discovery_add rom x d) (fold (ng_function_discovery_add rom) roots (ng_function_discovery_add rom x d))"
    by (intro steps)
  then show ?case using Cons meets_mono meets_adds(1) by (metis fold_simps(2) set_ConsD)
qed simp

subsection \<open>Properties\<close>

text \<open>
  C6 (termination and invariant of discovery). When no bank maps the last byte of the 32-bit space,
  discovery returns for every set of seeds, configuration and limit. Its result has no candidate twice (by address
  and bank), has no more candidates than the limit asked for (131072 when the limit is 0 or larger than that), and
  each candidate's address decodes, in the view of some bank and with that bank recorded, as a valid
  instruction; the return value says whether there is a candidate at all.
\<close>

theorem discovery_returns_valid_set:
  assumes "top_unmapped rom"
  shows "\<exists>ok d. ng_function_discover_from_game_config_limited rom seeds config n = Some (ok, d) \<and>
     (ok \<longleftrightarrow> fd_candidates d \<noteq> []) \<and>
     distinct (map (\<lambda>c. (c_addr c, entry_bank c)) (fd_candidates d)) \<and>
     length (fd_candidates d) \<le> (if n = 0 \<or> 131072 < n then 131072 else unat n) \<and>
     (\<forall>c \<in> set (fd_candidates d). \<exists>b.
        is_probable_function_target (ng_program_rom_select_bank rom b) (c_addr c) \<and>
        entry_bank c = discovery_bank_for_addr (ng_program_rom_select_bank rom b) (c_addr c))"
proof -
  obtain ok d where d: "ng_function_discover_from_game_config_limited rom seeds config n = Some (ok, d)"
      "discovery_steps rom (root_discovery rom (seeds @ config_roots config) n) d" "ok \<longleftrightarrow> fd_candidates d \<noteq> []"
    using discover_run [OF assms] by blast
  have run: "discovery_steps rom (empty_discovery n) d" by (rule rtranclp_trans [OF steps_root_discovery d(2)])
  have "unat (candidate_limit (empty_discovery n)) \<le> (if n = 0 \<or> 131072 < n then 131072 else unat n)"
    by (auto simp: candidate_limit_def empty_discovery_def ng_function_discovery_set_max_candidates_def
        ng_function_discovery_init_def NG_FUNCTION_DISCOVERY_MAX_CANDIDATES_def Let_def)
  then show ?thesis
    using d discovery_steps_ok [OF run empty_discovery_ok] steps_limit [OF run]
    by (auto simp: discovery_ok_def candidate_ok_def candidate_key_def [abs_def])
qed

text \<open>
  C5 (closure of discovery). When no bank maps the last byte of the 32-bit space and the set did not overflow,
  every seed and every entry point of the configuration that is a possible function is in the result as an entry
  to scan. And the result is closed: for each root in it, every address that the root's first 128
  instructions call or branch to, return to or stop at is in the result as an entry to scan, every instruction of
  the root is in it as a label, and so is the place where a longer function goes on. The
  only exception is a result whose last step was a script pass that added no candidate (it may still have turned
  labels into roots): then the set before that pass was closed.
\<close>

theorem discovery_closed_under_flow:
  assumes "top_unmapped rom"
    and "ng_function_discover_from_game_config_limited rom seeds config n = Some (True, d)" and "\<not> fd_truncated d"
  shows "(\<forall>s \<in> set (seeds @ config_roots config). is_probable_function_target rom s \<longrightarrow>
            has_candidate d (s, discovery_bank_for_addr rom s) True True) \<and>
         (discovery_closed rom d \<or>
          (\<exists>d0. discovery_closed rom d0 \<and> add_script_stream_callbacks_from_discovery rom d0 = (0, d)))"
proof
  have "discovery_steps rom (root_discovery rom (seeds @ config_roots config) n) d"
    using discover_run [OF assms(1), of seeds config n] assms(2) by auto
  then show "\<forall>s \<in> set (seeds @ config_roots config). is_probable_function_target rom s \<longrightarrow>
      has_candidate d (s, discovery_bank_for_addr rom s) True True"
    using meets_mono root_discovery_meets [of _ "seeds @ config_roots config" rom "empty_discovery n"] assms(3)
    unfolding root_discovery_def meets_def by fast
next
  obtain d0 where "discovery_worklist rom config (replicate (unat (candidate_limit d0)) False) 0 False d0 = Some d"
    using assms(2) by (auto simp: ng_function_discover_from_game_config_limited_def split: option.splits if_splits)
  then show "discovery_closed rom d \<or>
      (\<exists>d0. discovery_closed rom d0 \<and> add_script_stream_callbacks_from_discovery rom d0 = (0, d))"
    by (rule discovery_worklist_closed) (simp add: scanned_closed_def)
qed

subsection \<open>A program\<close>

text \<open>Discovery of a \<open>BSR.W\<close> followed by \<open>RTS\<close>.\<close>

lemma sample_rts_decode: "ng_m68k_decode sample_code 4 = (True, sample_rts 4)"
  by (intro decode_sample; simp add: sample_code_def rom_reader.rd16_bytes
      ng_program_rom_read8_def be16_def rom_zero_def ng_program_rom_addr_is_mapped_def
      ng_program_rom_translate_addr_def word_le_nat_alt)

lemma sample_usable: "usable_instr True sample_bsr" "usable_instr True (sample_rts 4)"
proof -
  have valid: "ng_m68k_validate i" if "ng_m68k_decode sample_code b = (True, i)" "i_mnemonic i \<noteq> NG_M68K_UNKNOWN" for b i
    using decode_body_accepted [of sample_code b] that by (simp add: decode_eq_True accepted_def)
  show "usable_instr True sample_bsr" "usable_instr True (sample_rts 4)"
    using valid [OF sample_decode] valid [OF sample_rts_decode]
    by (simp_all add: usable_instr_def sample_bsr_def sample_rts_def)
qed

lemma sample_probable:
  "is_probable_function_target sample_code 0" "is_probable_function_target sample_code 4"
  "\<not> is_probable_function_target sample_code 0x12"
  by (simp_all add: is_probable_function_target_def sample_decode sample_rts_decode sample_usable)
     (simp_all add: sample_code_def rom_zero_def ng_program_rom_addr_is_mapped_def
      ng_program_rom_translate_addr_def word_le_nat_alt)

lemma sample_bank: "discovery_bank_for_addr sample_code a = NG_FUNCTION_DISCOVERY_BANK_NONE"
  by (simp add: discovery_bank_for_addr_def ng_program_rom_bank_count_def sample_code_def rom_zero_def)

lemma sample_top: "top_unmapped sample_code"
  by (simp add: top_unmapped_def sample_code_def rom_zero_def ng_program_rom_addr_is_mapped_def
      ng_program_rom_translate_addr_def ng_program_rom_select_bank_def word_le_nat_alt)

lemma plain_pair:
  assumes "i_mnemonic p = NG_M68K_BSR" "i_mnemonic i = NG_M68K_RTS"
  shows "scan_pair rom None start_addr st p i d = d"
  using assms by (simp add: scan_pair_def ng_m68k_match_pc_index_jump_table_def ng_m68k_match_static_index_jump_table_def
      ng_m68k_match_static_index_branch_table_def is_task_state_store_def is_task_spawn_call_def
      is_indexed_task_spawn_call_def add_abs_pointer_indirect_targets_def is_indirect_areg_dispatch_def)

lemma plain_instr:
  assumes "i_mnemonic i = NG_M68K_BSR \<or> i_mnemonic i = NG_M68K_RTS"
  shows "scan_code_tables rom prev i d = d"
    "add_static_areg_indirect_target rom start_addr i areg d = d"
    "add_static_areg_set_state_targets rom None i sets d = d"
    "is_immediate_task_state_store rom None i spawn = None"
  using assms by (auto simp: scan_code_tables_def ng_m68k_match_pc_index_inline_code_table_def
      ng_m68k_match_pc_index_branch_table_def ng_m68k_match_repeated_direct_dispatch_table_def
      add_static_areg_indirect_target_def is_indirect_areg_dispatch_def add_static_areg_set_state_targets_def
      is_immediate_task_state_store_def split: option.split)

definition sample_c :: "u32 \<Rightarrow> candidate" where
  "sample_c a = \<lparr>c_addr = a, c_bank = NG_FUNCTION_DISCOVERY_BANK_NONE, c_banked = False, c_entry = True, c_scan_root = True\<rparr>"

definition sample_found :: "u32 list \<Rightarrow> ng_function_discovery" where
  "sample_found as = \<lparr>fd_candidates = map sample_c as, fd_max_candidates = 131072, fd_truncated = False\<rparr>"

lemma sample_found_fields:
  "fd_candidates (sample_found as) = map sample_c as" "\<not> fd_truncated (sample_found as)"
  "c_addr (sample_c a) = a" "c_scan_root (sample_c a)"
  by (simp_all add: sample_found_def sample_c_def)

lemma sample_add:
  "ng_function_discovery_add sample_code 0 (sample_found []) = sample_found [0]"
  "ng_function_discovery_add sample_code 4 (sample_found [0]) = sample_found [0, 4]"
  "ng_function_discovery_add sample_code 0x12 d = d"
  "ng_function_discovery_add_label sample_code 4 (sample_found [0, 4]) = sample_found [0, 4]"
  by (simp_all add: ng_function_discovery_add_def ng_function_discovery_add_label_def
      ng_function_discovery_add_with_flags_def sample_probable sample_bank sample_found_def sample_c_def
      entry_bank_def candidate_limit_def NG_FUNCTION_DISCOVERY_MAX_CANDIDATES_def)

lemma scan_loop_numeral:
  assumes "ng_m68k_decode rom pc = (True, i)" "usable_instr True i"
  shows "scan_loop rom config start_addr (numeral v) pc st d =
    (let d' = scan_instr rom config start_addr pc st i d in
     if i_mnemonic i \<in> {NG_M68K_BRA, NG_M68K_JMP, NG_M68K_RTS, NG_M68K_RTE, NG_M68K_RTR} then d'
     else scan_loop rom config start_addr (pred_numeral v) (pc + ucast (i_byte_length i)) (scan_state_update rom config i st) d')"
  using assms by (subst numeral_eq_Suc) (simp del: insert_iff)

lemma script_interpreter_loop_numeral:
  assumes "ng_m68k_decode rom pc = (True, i)" "usable_instr True i"
    and "script_interpreter_note i out = out" "script_dispatch rom p i pa b out = None"
  shows "script_interpreter_loop rom (numeral v) pc p a pa b out =
    (if instr_stops_script_probe i \<or> 0xFFFFFFFF - pc < ucast (i_byte_length i) then None
     else script_interpreter_loop rom (pred_numeral v) (pc + ucast (i_byte_length i)) (Some i)
            (ng_m68k_static_areg_update a i) a (ng_m68k_index_reg_bound_update b i) out)"
  using assms by (subst numeral_eq_Suc) simp

lemma sample_fields:
  "i_mnemonic sample_bsr = NG_M68K_BSR" "i_byte_length sample_bsr = 4" "i_target sample_bsr = 0x12"
  "i_mnemonic (sample_rts 4) = NG_M68K_RTS"
  by (simp_all add: sample_bsr_def sample_rts_def)

lemma sample_instr:
  "scan_instr sample_code None 0 0 scan_state_start sample_bsr (sample_found [0]) = sample_found [0, 4]"
  "scan_instr sample_code None 0 4 (scan_state_update sample_code None sample_bsr st) (sample_rts 4) (sample_found [0, 4]) =
     sample_found [0, 4]"
  "scan_instr sample_code None 4 4 scan_state_start (sample_rts 4) (sample_found [0, 4]) = sample_found [0, 4]"
  by (simp_all add: scan_instr_def plain_instr plain_pair add_config_table_call_targets_def scan_flow_targets_def
      is_direct_function_target_def is_branch_target_candidate_def sample_fields sample_add scan_state_start_def
      scan_state_update_def)

lemma sample_scans:
  "scan_function_candidate sample_code 0 None (sample_found [0]) = sample_found [0, 4]"
  "scan_function_candidate sample_code 4 None (sample_found [0, 4]) = sample_found [0, 4]"
  unfolding scan_function_candidate_def NG_FUNCTION_DISCOVERY_MAX_INSTRUCTIONS_def
  by (simp_all add: scan_loop_numeral [OF sample_decode sample_usable(1)]
      scan_loop_numeral [OF sample_rts_decode sample_usable(2)] sample_instr sample_fields del: scan_loop.simps)

lemma sample_no_script: 
  "analyze_script_interpreter sample_code 0 = None" "analyze_script_interpreter sample_code 4 = None"
proof -
  have "script_interpreter_note i out = out" if "i_mnemonic i = NG_M68K_BSR \<or> i_mnemonic i = NG_M68K_RTS" for i out
    using that by (auto simp: script_interpreter_note_def)
  moreover have "script_dispatch sample_code (Some sample_bsr) i pa b out = None" for i pa b out
    by (simp add: script_dispatch_def ng_m68k_match_static_index_jump_table_def sample_fields)
  moreover have "script_dispatch sample_code None i pa b out = None" for i pa b out
    by (simp add: script_dispatch_def)
  ultimately show "analyze_script_interpreter sample_code 0 = None" "analyze_script_interpreter sample_code 4 = None"
    unfolding analyze_script_interpreter_def
    by (simp_all add: script_interpreter_loop_numeral [OF sample_decode sample_usable(1)]
        script_interpreter_loop_numeral [OF sample_rts_decode sample_usable(2)] sample_fields
        instr_stops_script_probe_def sample_probable del: script_interpreter_loop.simps)
qed

lemma sample_view: "discovery_entry_rom_view sample_code (sample_found as) k = sample_code"
  by (simp add: discovery_entry_rom_view_def ng_function_discovery_bank_at_def sample_found_def sample_c_def entry_bank_def)

lemma sample_pass: "add_script_stream_callbacks_from_discovery sample_code (sample_found [0, 4]) = (0, sample_found [0, 4])"
proof -
  have "collect_script_interpreters sample_code (sample_found [0, 4]) 16 = []"
    by (simp add: collect_script_interpreters_def sample_view sample_found_fields sample_no_script)
  then show ?thesis by (simp add: add_script_stream_callbacks_from_discovery_def)
qed

lemma sample_run: "ng_function_discover_from_entry sample_code 0 = Some (True, sample_found [0, 4])"
proof -
  have init: "initial_candidates sample_code [0] None 131072 = Some (sample_found [0])"
    using sample_add(1) by (simp add: initial_candidates_def sample_found_def ng_function_discovery_set_max_candidates_def
        ng_function_discovery_init_def NG_FUNCTION_DISCOVERY_MAX_CANDIDATES_def)
  have limit: "unat (candidate_limit (sample_found [0])) = 131072"
    by (simp add: candidate_limit_def sample_found_def NG_FUNCTION_DISCOVERY_MAX_CANDIDATES_def)
  have pick: "next_root s (sample_found [0]) 0 = (Some 0, 1)" if "\<not> s ! 0" for s
    using that by (simp add: next_root_def unscanned_root_def sample_found_fields)
  have "next_root s (sample_found [0, 4]) 1 = (Some 1, 2)" if "\<not> s ! 1" for s
    using that by (simp add: next_root_def unscanned_root_def sample_found_fields)
  moreover have "next_root s (sample_found [0, 4]) 2 = (None, 2)" if "s ! 0" "s ! 1" for s
    using that by (simp add: next_root_def unscanned_root_def sample_found_fields upt_rec)
  ultimately have "discovery_worklist sample_code None s 0 False (sample_found [0]) = Some (sample_found [0, 4])"
    if "2 \<le> length s" "\<not> s ! 0" "\<not> s ! 1" for s
    using that pick [of s]
    by (auto simp: discovery_worklist.simps sample_found_fields sample_view sample_scans sample_pass)
  from this [of "replicate 131072 False"] show ?thesis
    using limit init
    by (simp add: ng_function_discover_from_entry_def ng_function_discover_from_seeds_def
        ng_function_discover_from_game_config_def ng_function_discover_from_game_config_limited_def
        NG_FUNCTION_DISCOVERY_MAX_CANDIDATES_def sample_found_fields)
qed

theorem discovery_returns_valid_set_witness:
  "\<exists>ok d. ng_function_discover_from_game_config_limited sample_code [0] None 0 = Some (ok, d) \<and>
     distinct (map (\<lambda>c. (c_addr c, entry_bank c)) (fd_candidates d)) \<and> length (fd_candidates d) \<le> 131072"
  using discovery_returns_valid_set [OF sample_top, of "[0]" None 0] by auto

theorem discovery_closed_under_flow_witness:
  "has_candidate (sample_found [0, 4]) (0, NG_FUNCTION_DISCOVERY_BANK_NONE) True True \<and>
   (discovery_closed sample_code (sample_found [0, 4]) \<or>
    (\<exists>d0. discovery_closed sample_code d0 \<and>
       add_script_stream_callbacks_from_discovery sample_code d0 = (0, sample_found [0, 4])))"
proof -
  have "ng_function_discover_from_game_config_limited sample_code [0] None 131072 = Some (True, sample_found [0, 4])"
    using sample_run by (simp add: ng_function_discover_from_entry_def ng_function_discover_from_seeds_def
        ng_function_discover_from_game_config_def NG_FUNCTION_DISCOVERY_MAX_CANDIDATES_def)
  from discovery_closed_under_flow [OF sample_top this sample_found_fields(2)] show ?thesis
    by (simp add: sample_probable sample_bank)
qed

end
