(* ===== verification/ConfigText.thy ===== *)
theory ConfigText
  imports Prelude
begin

text \<open>
  The text primitives the configuration parser is written with: the character classes, \<open>strtoul\<close> and \<open>fgets\<close>
  of the C library, and the line-level helpers of \<open>game_config.c\<close>. A C string is the list of its characters
  before the terminating NUL, and a pointer into it is the suffix it points at.
\<close>

subsection \<open>Characters\<close>

definition char_code :: "char \<Rightarrow> nat" where
  "char_code c = of_char c"

text \<open>The classes of the C locale.\<close>

definition isspace :: "char \<Rightarrow> bool" where
  "isspace c \<longleftrightarrow> char_code c = 32 \<or> 9 \<le> char_code c \<and> char_code c \<le> 13"

definition isdigit :: "char \<Rightarrow> bool" where
  "isdigit c \<longleftrightarrow> 48 \<le> char_code c \<and> char_code c \<le> 57"

definition isalpha :: "char \<Rightarrow> bool" where
  "isalpha c \<longleftrightarrow> 65 \<le> char_code c \<and> char_code c \<le> 90 \<or> 97 \<le> char_code c \<and> char_code c \<le> 122"

subsection \<open>Numbers\<close>

definition digit_of :: "nat \<Rightarrow> char \<Rightarrow> nat option" where
  "digit_of base c =
     (let v = (if isdigit c then char_code c - 48
               else if 65 \<le> char_code c \<and> char_code c \<le> 90 then char_code c - 55
               else if 97 \<le> char_code c \<and> char_code c \<le> 122 then char_code c - 87 else 36)
      in if v < base then Some v else None)"

text \<open>The value of the leading digits, and what follows them.\<close>

primrec digits :: "nat \<Rightarrow> nat \<Rightarrow> string \<Rightarrow> nat \<times> string" where
  "digits base acc [] = (acc, [])"
| "digits base acc (c # s) =
     (case digit_of base c of Some v \<Rightarrow> digits base (acc * base + v) s | None \<Rightarrow> (acc, c # s))"

text \<open>The prefix of base 0: hexadecimal needs a digit after \<open>0x\<close>.\<close>

definition number_base :: "string \<Rightarrow> nat \<times> string" where
  "number_base s =
     (case s of
        z # x # h # r \<Rightarrow>
          if z = CHR ''0'' \<and> (x = CHR ''x'' \<or> x = CHR ''X'') \<and> digit_of 16 h \<noteq> None then (16, h # r)
          else if z = CHR ''0'' then (8, s) else (10, s)
      | z # r \<Rightarrow> if z = CHR ''0'' then (8, s) else (10, s)
      | [] \<Rightarrow> (10, s))"

definition skip_sign :: "string \<Rightarrow> string" where
  "skip_sign t = (case t of c # r \<Rightarrow> if c = CHR ''-'' \<or> c = CHR ''+'' then r else t | [] \<Rightarrow> [])"

text \<open>\<open>strncmp(s, key, strlen(key)) == 0\<close>\<close>

definition starts_with :: "string \<Rightarrow> string \<Rightarrow> bool" where
  "starts_with s key \<longleftrightarrow> take (length key) s = key"

text \<open>
  \<open>strtoul(s, &end, 0)\<close> with a 64-bit \<open>unsigned long\<close>: the value and \<open>end\<close>, or \<open>None\<close> when nothing was converted
  (the value is then 0 and \<open>end\<close> is \<open>s\<close>).
\<close>

definition strtoul :: "string \<Rightarrow> (u64 \<times> string) option" where
  "strtoul s =
     (let t = dropWhile isspace s in
      case number_base (skip_sign t) of (base, ds) \<Rightarrow>
        (case ds of [] \<Rightarrow> None
         | c # _ \<Rightarrow>
             if digit_of base c = None then None
             else (case digits base 0 ds of (v, rest) \<Rightarrow>
               Some (if 2 ^ 64 \<le> v then - 1 else if starts_with t ''-'' then - of_nat v else of_nat v, rest))))"

text \<open>\<open>(uint32_t)strtoul(value, NULL, 0)\<close>\<close>

definition number32 :: "string \<Rightarrow> u32" where
  "number32 s = (case strtoul s of Some (v, _) \<Rightarrow> ucast v | None \<Rightarrow> 0)"

lemma digits_rest: "length (snd (digits base acc s)) \<le> length s"
  by (induction s arbitrary: acc) (auto split: option.split simp: le_SucI)

lemma digits_consumes: "digit_of base c \<noteq> None \<Longrightarrow> length (snd (digits base acc (c # s))) \<le> length s"
  using digits_rest by auto

lemma number_base_length: "length (snd (number_base s)) \<le> length s"
  by (auto simp: number_base_def split: list.split)

lemma strtoul_consumes:
  assumes "strtoul s = Some (v, rest)" shows "length rest < length s"
proof -
  let ?u = "skip_sign (dropWhile isspace s)"
  obtain base ds where nb: "number_base ?u = (base, ds)" by (cases "number_base ?u")
  obtain c r where ds: "ds = c # r" and d: "digit_of base c \<noteq> None" and rest: "rest = snd (digits base 0 (c # r))"
    using assms by (cases ds) (auto simp: strtoul_def nb Let_def simp del: digits.simps split: if_splits prod.splits)
  have "length rest \<le> length r" unfolding rest by (rule digits_consumes [OF d])
  moreover have "length (c # r) \<le> length ?u" using number_base_length [of ?u] by (simp add: nb ds)
  moreover have "length ?u \<le> length (dropWhile isspace s)" by (simp add: skip_sign_def split: list.split)
  moreover have "length (dropWhile isspace s) \<le> length s" by (rule length_dropWhile_le)
  ultimately show ?thesis by simp
qed

subsection \<open>Lines\<close>

text \<open>One call of \<open>fgets\<close> with a buffer of 512: up to 511 characters, at most one newline.\<close>

definition fgets :: "string \<Rightarrow> string \<times> string" where
  "fgets s = (let n = min 511 (Suc (length (takeWhile (\<lambda>c. c \<noteq> CHR 0x0A) s))) in (take n s, drop n s))"

function file_lines :: "string \<Rightarrow> string list" where
  "file_lines s = (if s = [] then [] else fst (fgets s) # file_lines (snd (fgets s)))"
  by pat_completeness auto
termination by (relation "measure length") (auto simp: fgets_def Let_def)

declare file_lines.simps [simp del]

definition c_string :: "string \<Rightarrow> string" where
  "c_string s = takeWhile (\<lambda>c. c \<noteq> CHR 0x00) s"

definition trim_left :: "string \<Rightarrow> string" where
  "trim_left s = dropWhile isspace s"

definition key_starts_array :: "string \<Rightarrow> string \<Rightarrow> bool" where
  "key_starts_array line key \<longleftrightarrow>
     (if \<not> starts_with line key then False
      else case dropWhile isspace (drop (length key) line) of c # _ \<Rightarrow> c = CHR ''='' | [] \<Rightarrow> False)"

definition key_value_start :: "string \<Rightarrow> string \<Rightarrow> string option" where
  "key_value_start line key =
     (if \<not> starts_with line key then None
      else case dropWhile isspace (drop (length key) line) of
             c # r \<Rightarrow> if c = CHR ''='' then Some (dropWhile isspace r) else None
           | [] \<Rightarrow> None)"

text \<open>
  The ladder \<open>value = key_value_start(line, key); if (value) { ...; return; }\<close> of the scalar parsers: the first
  key of the list that the line assigns decides.
\<close>

primrec first_key :: "(string \<times> (string \<Rightarrow> 'a \<Rightarrow> 'a)) list \<Rightarrow> string \<Rightarrow> 'a \<Rightarrow> 'a" where
  "first_key [] line x = x"
| "first_key (k # ks) line x =
     (case key_value_start line (fst k) of Some v \<Rightarrow> snd k v x | None \<Rightarrow> first_key ks line x)"

text \<open>Skipping blanks and one opening quote.\<close>

definition unquote :: "string \<Rightarrow> string" where
  "unquote s = (case dropWhile isspace s of c # r \<Rightarrow> if c = CHR 0x22 then r else c # r | [] \<Rightarrow> [])"

text \<open>The token of the two format parsers, at most 31 characters.\<close>

definition format_token :: "string \<Rightarrow> string" where
  "format_token value =
     take 31 (takeWhile (\<lambda>c. c \<noteq> CHR 0x22 \<and> c \<noteq> CHR '','' \<and> \<not> isspace c) (unquote value))"

definition parse_string_scalar :: "string \<Rightarrow> nat \<Rightarrow> string" where
  "parse_string_scalar value out_size =
     take (out_size - 1)
       (takeWhile (\<lambda>c. c \<noteq> CHR 0x22 \<and> c \<noteq> CHR 0x0A \<and> c \<noteq> CHR 0x0D) (unquote value))"

definition parse_bool_value :: "string \<Rightarrow> bool" where
  "parse_bool_value value \<longleftrightarrow>
     (let v = unquote value
      in starts_with v ''1'' \<or> starts_with v ''true'' \<or> starts_with v ''yes'' \<or> starts_with v ''on'')"

definition parse_range_value :: "string \<Rightarrow> (u32 \<times> u32) option" where
  "parse_range_value value =
     (case strtoul (unquote value) of
        None \<Rightarrow> None
      | Some (lo, mid) \<Rightarrow>
          (case dropWhile isspace mid of
             [] \<Rightarrow> None
           | c # r \<Rightarrow>
               if c \<noteq> CHR ''-'' then None
               else (case strtoul (dropWhile isspace r) of
                       None \<Rightarrow> None | Some (hi, _) \<Rightarrow> Some (ucast lo, ucast hi))))"

definition parse_areg_value :: "string \<Rightarrow> u8" where
  "parse_areg_value value =
     (let v = unquote value;
          areg = (case v of a # d # _ \<Rightarrow>
                    if (a = CHR ''A'' \<or> a = CHR ''a'') \<and> 48 \<le> char_code d \<and> char_code d \<le> 55
                    then Some (of_nat (char_code d - 48)) else None
                  | _ \<Rightarrow> None)
      in case areg of Some r \<Rightarrow> r
         | None \<Rightarrow> (case strtoul v of Some (n, _) \<Rightarrow> if n \<le> 7 then ucast n else 0 | None \<Rightarrow> 0))"

subsection \<open>Arrays in a line\<close>

text \<open>The part after the first \<open>=\<close>, or the whole line.\<close>

definition after_equals :: "string \<Rightarrow> string" where
  "after_equals line = (case dropWhile (\<lambda>c. c \<noteq> CHR ''='') line of _ # r \<Rightarrow> r | [] \<Rightarrow> line)"

text \<open>The numbers and the quoted strings of a line, up to a comment.\<close>

function line_numbers :: "string \<Rightarrow> u32 list" where
  "line_numbers s =
     (case s of [] \<Rightarrow> []
      | c # r \<Rightarrow>
          if c = CHR ''#'' then []
          else if isdigit c then
            (case strtoul s of Some (v, rest) \<Rightarrow> ucast v # line_numbers rest | None \<Rightarrow> line_numbers r)
          else line_numbers r)"
  by pat_completeness auto
termination by (relation "measure length") (auto dest: strtoul_consumes)

declare line_numbers.simps [simp del]

function line_strings :: "string \<Rightarrow> string list" where
  "line_strings s =
     (case s of [] \<Rightarrow> []
      | c # r \<Rightarrow>
          if c = CHR ''#'' then []
          else if c \<noteq> CHR 0x22 then line_strings r
          else (case dropWhile (\<lambda>c. c \<noteq> CHR 0x22) r of
                  [] \<Rightarrow> []
                | _ # rest \<Rightarrow> takeWhile (\<lambda>c. c \<noteq> CHR 0x22) r # line_strings rest))"
  by pat_completeness auto
termination
proof (relation "measure length")
  fix s :: string and c and r x rest
  assume "s = c # r" "dropWhile (\<lambda>c. c \<noteq> CHR 0x22) r = x # rest"
  then show "(rest, s) \<in> measure length"
    using length_dropWhile_le [of "\<lambda>c. c \<noteq> CHR 0x22" r] by simp
qed auto

declare line_strings.simps [simp del]

end
