(* ===== verification/GameConfigParse.thy ===== *)
theory GameConfigParse
  imports ConfigText GameConfig
begin

text \<open>
  The parser of \<open>game_config.c\<close>: a line-oriented reader of a subset of TOML, with files that include others. The
  file system is a parameter: a path that can be opened gives the characters read and whether reading
  ended with an error. \<open>current_jump_table\<close> and its six siblings point at the last element of their array while
  their section is open and are null otherwise, so the parser state has the index of the open element.
\<close>

subsection \<open>Paths\<close>

definition is_path_separator :: "char \<Rightarrow> bool" where
  "is_path_separator c \<longleftrightarrow> c = CHR ''/'' \<or> c = CHR 0x5C"

definition last_path_separator :: "string \<Rightarrow> nat option" where
  "last_path_separator path =
     (if list_ex is_path_separator path
      then Some (length path - Suc (length (takeWhile (\<lambda>c. \<not> is_path_separator c) (rev path)))) else None)"

definition is_absolute_path :: "string \<Rightarrow> bool" where
  "is_absolute_path path \<longleftrightarrow>
     (case path of [] \<Rightarrow> False
      | c # r \<Rightarrow> is_path_separator c \<or> isalpha c \<and> starts_with r '':'')"

definition join_separator_for_base :: "string \<Rightarrow> char" where
  "join_separator_for_base base = (if list_ex (\<lambda>c. c = CHR 0x5C) base then CHR 0x5C else CHR ''/'')"

definition NG_GAME_CONFIG_MAX_PATH :: nat where
  "NG_GAME_CONFIG_MAX_PATH = 256"

text \<open>\<open>snprintf(out, out_size, "%s", s)\<close> keeps the first \<open>out_size - 1\<close> characters.\<close>

definition dirname_of :: "string \<Rightarrow> nat \<Rightarrow> string" where
  "dirname_of path out_size =
     (case last_path_separator path of
        None \<Rightarrow> take (out_size - 1) ''.''
      | Some slash \<Rightarrow>
          let len = (if slash = 0 then 1
                     else if slash = 2 \<and> path ! 1 = CHR '':'' \<and> is_path_separator (path ! 2) then 3 else slash)
          in take (min len (out_size - 1)) path)"

definition join_path :: "string \<Rightarrow> string \<Rightarrow> nat \<Rightarrow> string" where
  "join_path base path out_size =
     take (out_size - 1)
       (if path = [] then []
        else if is_absolute_path path then path
        else if base = [] \<or> base = ''.'' then path
        else if is_path_separator (last base) then base @ path
        else base @ [join_separator_for_base base] @ path)"

subsection \<open>Appending to the arrays\<close>

datatype ng_game_config_section =
    NG_GAME_CONFIG_SECTION_NONE | NG_GAME_CONFIG_SECTION_GAME | NG_GAME_CONFIG_SECTION_PROGRAM
  | NG_GAME_CONFIG_SECTION_FUNCTIONS | NG_GAME_CONFIG_SECTION_DISPATCH | NG_GAME_CONFIG_SECTION_JUMP_TABLE
  | NG_GAME_CONFIG_SECTION_TABLE_CALL | NG_GAME_CONFIG_SECTION_STATE_TABLE | NG_GAME_CONFIG_SECTION_RECORD_FORMAT
  | NG_GAME_CONFIG_SECTION_ROUTINE_TABLE | NG_GAME_CONFIG_SECTION_DISPATCHER | NG_GAME_CONFIG_SECTION_BANK

datatype ng_game_config_array =
    NG_GAME_CONFIG_ARRAY_NONE | NG_GAME_CONFIG_ARRAY_ENTRY | NG_GAME_CONFIG_ARRAY_EXTRA
  | NG_GAME_CONFIG_ARRAY_DISCOVERY_FILES | NG_GAME_CONFIG_ARRAY_RUNTIME_DISPATCH
  | NG_GAME_CONFIG_ARRAY_RECORD_CALLBACK_OFFSETS | NG_GAME_CONFIG_ARRAY_RECORD_SCAN
  | NG_GAME_CONFIG_ARRAY_STATE_TABLE_SCAN | NG_GAME_CONFIG_ARRAY_ROUTINE_TABLE_SCAN
  | NG_GAME_CONFIG_ARRAY_DISPATCHER_INSTALL_SLOTS | NG_GAME_CONFIG_ARRAY_DISPATCHER_SPAWN_HELPERS

text \<open>An element appended to an array of a given size: the \<open>truncated\<close> flag and the array.\<close>

definition bounded_append :: "nat \<Rightarrow> 'a \<Rightarrow> bool \<times> 'a list \<Rightarrow> bool \<times> 'a list" where
  "bounded_append n x = (\<lambda>(truncated, xs). if n \<le> length xs then (True, xs) else (truncated, xs @ [x]))"

definition append_function_addr :: "ng_game_config_array \<Rightarrow> u32 \<Rightarrow> ng_game_config \<Rightarrow> ng_game_config" where
  "append_function_addr array v cfg =
     (case array of
        NG_GAME_CONFIG_ARRAY_ENTRY \<Rightarrow>
          (case bounded_append 2048 v (gc_truncated cfg, gc_entry cfg) of (t, xs) \<Rightarrow> cfg\<lparr>gc_entry := xs, gc_truncated := t\<rparr>)
      | NG_GAME_CONFIG_ARRAY_EXTRA \<Rightarrow>
          (case bounded_append 2048 v (gc_truncated cfg, gc_extra cfg) of (t, xs) \<Rightarrow> cfg\<lparr>gc_extra := xs, gc_truncated := t\<rparr>)
      | NG_GAME_CONFIG_ARRAY_RUNTIME_DISPATCH \<Rightarrow>
          (case bounded_append 64 v (gc_truncated cfg, gc_runtime_dispatch cfg) of
             (t, xs) \<Rightarrow> cfg\<lparr>gc_runtime_dispatch := xs, gc_truncated := t\<rparr>)
      | _ \<Rightarrow> cfg)"

text \<open>
  The \<open>append_...\<close> functions return a pointer to the new element, which the caller overwrites or keeps: each takes
  the element to store and returns the configuration and the index of the element, if there was room.
\<close>

definition appended :: "bool \<times> 'a list \<Rightarrow> 'a list \<Rightarrow> nat option" where
  "appended r xs = (if length xs < length (snd r) then Some (length xs) else None)"

definition put_jump_table :: "ng_game_config_jump_table \<Rightarrow> ng_game_config \<Rightarrow> ng_game_config \<times> nat option" where
  "put_jump_table x cfg =
     (let r = bounded_append 128 x (gc_truncated cfg, gc_jump_tables cfg)
      in (cfg\<lparr>gc_jump_tables := snd r, gc_truncated := fst r\<rparr>, appended r (gc_jump_tables cfg)))"

definition put_table_call :: "ng_game_config_table_call \<Rightarrow> ng_game_config \<Rightarrow> ng_game_config \<times> nat option" where
  "put_table_call x cfg =
     (let r = bounded_append 64 x (gc_truncated cfg, gc_table_calls cfg)
      in (cfg\<lparr>gc_table_calls := snd r, gc_truncated := fst r\<rparr>, appended r (gc_table_calls cfg)))"

definition put_state_table :: "ng_game_config_state_table \<Rightarrow> ng_game_config \<Rightarrow> ng_game_config \<times> nat option" where
  "put_state_table x cfg =
     (let r = bounded_append 64 x (gc_truncated cfg, gc_state_tables cfg)
      in (cfg\<lparr>gc_state_tables := snd r, gc_truncated := fst r\<rparr>, appended r (gc_state_tables cfg)))"

definition put_record_format :: "ng_game_config_record_format \<Rightarrow> ng_game_config \<Rightarrow> ng_game_config \<times> nat option" where
  "put_record_format x cfg =
     (let r = bounded_append 64 x (gc_truncated cfg, gc_record_formats cfg)
      in (cfg\<lparr>gc_record_formats := snd r, gc_truncated := fst r\<rparr>, appended r (gc_record_formats cfg)))"

definition put_routine_table :: "ng_game_config_routine_table \<Rightarrow> ng_game_config \<Rightarrow> ng_game_config \<times> nat option" where
  "put_routine_table x cfg =
     (let r = bounded_append 64 x (gc_truncated cfg, gc_routine_tables cfg)
      in (cfg\<lparr>gc_routine_tables := snd r, gc_truncated := fst r\<rparr>, appended r (gc_routine_tables cfg)))"

definition put_dispatcher :: "ng_game_config_dispatcher \<Rightarrow> ng_game_config \<Rightarrow> ng_game_config \<times> nat option" where
  "put_dispatcher x cfg =
     (let r = bounded_append 16 x (gc_truncated cfg, gc_dispatchers cfg)
      in (cfg\<lparr>gc_dispatchers := snd r, gc_truncated := fst r\<rparr>, appended r (gc_dispatchers cfg)))"

definition put_bank :: "ng_game_config_bank \<Rightarrow> ng_game_config \<Rightarrow> ng_game_config \<times> nat option" where
  "put_bank x cfg =
     (let r = bounded_append 256 x (gc_truncated cfg, gc_banks cfg)
      in (cfg\<lparr>gc_banks := snd r, gc_truncated := fst r\<rparr>, appended r (gc_banks cfg)))"

definition append_jump_table :: "ng_game_config \<Rightarrow> ng_game_config \<times> nat option" where
  "append_jump_table = put_jump_table
     \<lparr>jc_start = 0, jc_end = 0, jc_stride = 4, jc_match = 0, jc_target_offset = 0, jc_target_start = 0,
      jc_target_end = 0, jc_format = NG_GAME_CONFIG_JUMP_TABLE_ABS32\<rparr>"

definition append_table_call :: "ng_game_config \<Rightarrow> ng_game_config \<times> nat option" where
  "append_table_call = put_table_call
     \<lparr>tc_helper = 0, tc_table_start = 0, tc_table_end = 0, tc_max_entries = 16, tc_sentinel = 0xFFFFFFFF,
      tc_stride = 4, tc_match = 0, tc_target_offset = 0, tc_target_start = 0, tc_target_end = 0, tc_table_reg = 0,
      tc_format = NG_GAME_CONFIG_TABLE_CALL_ABS32_SPARSE\<rparr>"

definition append_state_table :: "ng_game_config \<Rightarrow> ng_game_config \<times> nat option" where
  "append_state_table = put_state_table
     \<lparr>st_root = 0, st_table_start = 0, st_table_end = 0, st_stride = 4, st_sentinel = 0xFFFFFFFF,
      st_target_start = 0, st_target_end = 0, st_max_tables = 64, st_max_entries = 1024, st_follow_chain = False,
      st_skip_invalid_targets = False, st_scans = []\<rparr>"

definition append_record_format :: "ng_game_config \<Rightarrow> ng_game_config \<times> nat option" where
  "append_record_format = put_record_format
     \<lparr>rf_name = [], rf_tag = 0, rf_tag_offset = 0, rf_has_tag = False, rf_width = 0, rf_stride = 0,
      rf_callback_offsets = [], rf_sentinel = 0xFFFFFFFF, rf_has_sentinel = False, rf_cluster_min_entries = 0,
      rf_cluster_max_entries = 0, rf_target_start = 0, rf_target_end = 0, rf_scans = []\<rparr>"

definition append_routine_table :: "ng_game_config \<Rightarrow> ng_game_config \<times> nat option" where
  "append_routine_table = put_routine_table
     \<lparr>rt_name = [], rt_stride = 0, rt_width = 0, rt_min_instructions = 1, rt_fallthrough_target = 0,
      rt_has_fallthrough_target = False, rt_scans = []\<rparr>"

definition append_dispatcher :: "ng_game_config \<Rightarrow> ng_game_config \<times> nat option" where
  "append_dispatcher = put_dispatcher
     \<lparr>dp_kind = NG_GAME_CONFIG_DISPATCHER_OBJECT_STATE, dp_state_slot = 0, dp_has_state_slot = False,
      dp_install_slots = [], dp_spawn_helpers = []\<rparr>"

definition append_bank :: "ng_game_config \<Rightarrow> ng_game_config \<times> nat option" where
  "append_bank cfg = put_bank
     \<lparr>bk_id = of_nat (length (gc_banks cfg)), bk_offset = 0, bk_size = 0, bk_has_offset = False, bk_has_size = False\<rparr> cfg"

text \<open>The path list of the file and the configuration's own list.\<close>

definition append_discovery_file :: "string \<Rightarrow> string list \<times> ng_game_config \<Rightarrow> string list \<times> ng_game_config" where
  "append_discovery_file v = (\<lambda>(local, cfg).
     if v = [] then (local, cfg)
     else if 32 \<le> length local \<or> 32 \<le> length (gc_discovery_files cfg) then (local, cfg\<lparr>gc_truncated := True\<rparr>)
     else (local @ [take 255 v], cfg\<lparr>gc_discovery_files := gc_discovery_files cfg @ [take 255 v]\<rparr>))"

definition append_config_values :: "ng_game_config \<Rightarrow> ng_game_config \<Rightarrow> ng_game_config" where
  "append_config_values src dst =
     (let d1 = (if gc_program_map_configured src
                then dst\<lparr>gc_program_fixed_base := gc_program_fixed_base src,
                         gc_program_fixed_size := gc_program_fixed_size src,
                         gc_program_bank_window_base := gc_program_bank_window_base src,
                         gc_program_bank_window_size := gc_program_bank_window_size src,
                         gc_program_map_configured := True\<rparr>
                else dst);
          d2 = fold (append_function_addr NG_GAME_CONFIG_ARRAY_ENTRY) (gc_entry src) d1;
          d3 = fold (append_function_addr NG_GAME_CONFIG_ARRAY_EXTRA) (gc_extra src) d2;
          d4 = fold (append_function_addr NG_GAME_CONFIG_ARRAY_RUNTIME_DISPATCH) (gc_runtime_dispatch src) d3;
          d5 = fold (\<lambda>x c. fst (put_jump_table x c)) (gc_jump_tables src) d4;
          d6 = fold (\<lambda>x c. fst (put_table_call x c)) (gc_table_calls src) d5;
          d7 = fold (\<lambda>x c. fst (put_state_table x c)) (gc_state_tables src) d6;
          d8 = fold (\<lambda>x c. fst (put_record_format x c)) (gc_record_formats src) d7;
          d9 = fold (\<lambda>x c. fst (put_routine_table x c)) (gc_routine_tables src) d8;
          d10 = fold (\<lambda>x c. fst (put_dispatcher x c)) (gc_dispatchers src) d9;
          d11 = fold (\<lambda>x c. fst (put_bank x c)) (gc_banks src) d10
      in if gc_truncated src then d11\<lparr>gc_truncated := True\<rparr> else d11)"

subsection \<open>Scalar keys\<close>

definition parse_jump_table_format :: "string \<Rightarrow> ng_game_config_jump_table \<Rightarrow> ng_game_config_jump_table" where
  "parse_jump_table_format value t =
     (let token = format_token value in
      t\<lparr>jc_format :=
          (if token \<in> {''pcrel16'', ''pcrel_w''} then NG_GAME_CONFIG_JUMP_TABLE_PCREL16
           else if token \<in> {''bra16'', ''bra_w''} then NG_GAME_CONFIG_JUMP_TABLE_BRA16
           else if token \<in> {''bra8'', ''bra_s''} then NG_GAME_CONFIG_JUMP_TABLE_BRA8
           else if token \<in> {''script_predicate'', ''script_predicates''}
           then NG_GAME_CONFIG_JUMP_TABLE_SCRIPT_PREDICATE
           else if token \<in> {''tagged_abs32'', ''tagged_long''} then NG_GAME_CONFIG_JUMP_TABLE_TAGGED_ABS32
           else if token \<in> {''inline_callback'', ''script_callback''} then NG_GAME_CONFIG_JUMP_TABLE_INLINE_CALLBACK
           else NG_GAME_CONFIG_JUMP_TABLE_ABS32)\<rparr>)"

definition parse_jump_table_scalar :: "string \<Rightarrow> ng_game_config_jump_table \<Rightarrow> ng_game_config_jump_table" where
  "parse_jump_table_scalar = first_key
     [(''start'', \<lambda>v t. t\<lparr>jc_start := number32 v\<rparr>), (''end'', \<lambda>v t. t\<lparr>jc_end := number32 v\<rparr>),
      (''stride'', \<lambda>v t. t\<lparr>jc_stride := number32 v\<rparr>), (''match'', \<lambda>v t. t\<lparr>jc_match := number32 v\<rparr>),
      (''target_offset'', \<lambda>v t. t\<lparr>jc_target_offset := number32 v\<rparr>),
      (''target_start'', \<lambda>v t. t\<lparr>jc_target_start := number32 v\<rparr>),
      (''target_end'', \<lambda>v t. t\<lparr>jc_target_end := number32 v\<rparr>), (''format'', parse_jump_table_format)]"

definition parse_table_call_format :: "string \<Rightarrow> ng_game_config_table_call \<Rightarrow> ng_game_config_table_call" where
  "parse_table_call_format value c =
     (let token = format_token value in
      if token \<in> {''abs32_sparse'', ''abs32''} then c\<lparr>tc_format := NG_GAME_CONFIG_TABLE_CALL_ABS32_SPARSE\<rparr>
      else if token \<in> {''tagged_abs32'', ''tagged_long''} then c\<lparr>tc_format := NG_GAME_CONFIG_TABLE_CALL_TAGGED_ABS32\<rparr>
      else if token \<in> {''record_abs32'', ''record_long''} then c\<lparr>tc_format := NG_GAME_CONFIG_TABLE_CALL_RECORD_ABS32\<rparr>
      else c)"

definition parse_table_call_scalar :: "string \<Rightarrow> ng_game_config_table_call \<Rightarrow> ng_game_config_table_call" where
  "parse_table_call_scalar = first_key
     [(''helper'', \<lambda>v c. c\<lparr>tc_helper := number32 v\<rparr>), (''table_start'', \<lambda>v c. c\<lparr>tc_table_start := number32 v\<rparr>),
      (''table_end'', \<lambda>v c. c\<lparr>tc_table_end := number32 v\<rparr>), (''max_entries'', \<lambda>v c. c\<lparr>tc_max_entries := number32 v\<rparr>),
      (''sentinel'', \<lambda>v c. c\<lparr>tc_sentinel := number32 v\<rparr>), (''stride'', \<lambda>v c. c\<lparr>tc_stride := number32 v\<rparr>),
      (''match'', \<lambda>v c. c\<lparr>tc_match := number32 v\<rparr>), (''target_offset'', \<lambda>v c. c\<lparr>tc_target_offset := number32 v\<rparr>),
      (''target_start'', \<lambda>v c. c\<lparr>tc_target_start := number32 v\<rparr>),
      (''target_end'', \<lambda>v c. c\<lparr>tc_target_end := number32 v\<rparr>),
      (''table_reg'', \<lambda>v c. c\<lparr>tc_table_reg := parse_areg_value v\<rparr>), (''format'', parse_table_call_format)]"

definition parse_state_table_scalar :: "string \<Rightarrow> ng_game_config_state_table \<Rightarrow> ng_game_config_state_table" where
  "parse_state_table_scalar = first_key
     [(''root'', \<lambda>v t. t\<lparr>st_root := number32 v\<rparr>), (''table_start'', \<lambda>v t. t\<lparr>st_table_start := number32 v\<rparr>),
      (''table_end'', \<lambda>v t. t\<lparr>st_table_end := number32 v\<rparr>), (''stride'', \<lambda>v t. t\<lparr>st_stride := number32 v\<rparr>),
      (''sentinel'', \<lambda>v t. t\<lparr>st_sentinel := number32 v\<rparr>),
      (''follow_chain'', \<lambda>v t. t\<lparr>st_follow_chain := parse_bool_value v\<rparr>),
      (''skip_invalid_targets'', \<lambda>v t. t\<lparr>st_skip_invalid_targets := parse_bool_value v\<rparr>),
      (''target'', \<lambda>v t. case parse_range_value v of
                           Some (lo, hi) \<Rightarrow> t\<lparr>st_target_start := lo, st_target_end := hi\<rparr> | None \<Rightarrow> t),
      (''target_start'', \<lambda>v t. t\<lparr>st_target_start := number32 v\<rparr>),
      (''target_end'', \<lambda>v t. t\<lparr>st_target_end := number32 v\<rparr>),
      (''max_tables'', \<lambda>v t. t\<lparr>st_max_tables := number32 v\<rparr>),
      (''max_entries'', \<lambda>v t. t\<lparr>st_max_entries := number32 v\<rparr>)]"

definition parse_record_format_scalar ::
  "string \<Rightarrow> ng_game_config_record_format \<Rightarrow> ng_game_config_record_format" where
  "parse_record_format_scalar = first_key
     [(''name'', \<lambda>v r. r\<lparr>rf_name := parse_string_scalar v 64\<rparr>),
      (''tag_offset'', \<lambda>v r. r\<lparr>rf_tag_offset := number32 v\<rparr>),
      (''tag'', \<lambda>v r. r\<lparr>rf_tag := number32 v, rf_has_tag := True\<rparr>),
      (''width'', \<lambda>v r. r\<lparr>rf_width := number32 v\<rparr>), (''stride'', \<lambda>v r. r\<lparr>rf_stride := number32 v\<rparr>),
      (''sentinel'', \<lambda>v r. r\<lparr>rf_sentinel := number32 v, rf_has_sentinel := True\<rparr>),
      (''cluster_min_entries'', \<lambda>v r. r\<lparr>rf_cluster_min_entries := number32 v\<rparr>),
      (''min_cluster_entries'', \<lambda>v r. r\<lparr>rf_cluster_min_entries := number32 v\<rparr>),
      (''cluster_max_entries'', \<lambda>v r. r\<lparr>rf_cluster_max_entries := number32 v\<rparr>),
      (''max_cluster_entries'', \<lambda>v r. r\<lparr>rf_cluster_max_entries := number32 v\<rparr>),
      (''cluster'', \<lambda>v r. if parse_bool_value v \<and> rf_cluster_min_entries r = 0
                          then r\<lparr>rf_cluster_min_entries := 2\<rparr> else r),
      (''target'', \<lambda>v r. case parse_range_value v of
                           Some (lo, hi) \<Rightarrow> r\<lparr>rf_target_start := lo, rf_target_end := hi\<rparr> | None \<Rightarrow> r),
      (''target_start'', \<lambda>v r. r\<lparr>rf_target_start := number32 v\<rparr>),
      (''target_end'', \<lambda>v r. r\<lparr>rf_target_end := number32 v\<rparr>)]"

definition parse_routine_table_scalar ::
  "string \<Rightarrow> ng_game_config_routine_table \<Rightarrow> ng_game_config_routine_table" where
  "parse_routine_table_scalar = first_key
     [(''name'', \<lambda>v t. t\<lparr>rt_name := parse_string_scalar v 64\<rparr>), (''stride'', \<lambda>v t. t\<lparr>rt_stride := number32 v\<rparr>),
      (''width'', \<lambda>v t. t\<lparr>rt_width := number32 v\<rparr>),
      (''min_instructions'', \<lambda>v t. t\<lparr>rt_min_instructions := number32 v\<rparr>),
      (''fallthrough_target'', \<lambda>v t. t\<lparr>rt_fallthrough_target := number32 v, rt_has_fallthrough_target := True\<rparr>),
      (''shared_tail'', \<lambda>v t. t\<lparr>rt_fallthrough_target := number32 v, rt_has_fallthrough_target := True\<rparr>)]"

definition parse_dispatcher_kind :: "string \<Rightarrow> ng_game_config_dispatcher \<Rightarrow> ng_game_config_dispatcher" where
  "parse_dispatcher_kind value d =
     (if parse_string_scalar value 32 = ''object_state''
      then d\<lparr>dp_kind := NG_GAME_CONFIG_DISPATCHER_OBJECT_STATE\<rparr> else d)"

definition parse_dispatcher_scalar :: "string \<Rightarrow> ng_game_config_dispatcher \<Rightarrow> ng_game_config_dispatcher" where
  "parse_dispatcher_scalar = first_key
     [(''kind'', parse_dispatcher_kind),
      (''state_slot'', \<lambda>v d. d\<lparr>dp_state_slot := number32 v, dp_has_state_slot := True\<rparr>)]"

definition parse_bank_scalar :: "string \<Rightarrow> ng_game_config_bank \<Rightarrow> ng_game_config_bank" where
  "parse_bank_scalar = first_key
     [(''id'', \<lambda>v b. b\<lparr>bk_id := number32 v\<rparr>),
      (''offset'', \<lambda>v b. b\<lparr>bk_offset := number32 v, bk_has_offset := True\<rparr>),
      (''physical_offset'', \<lambda>v b. b\<lparr>bk_offset := number32 v, bk_has_offset := True\<rparr>),
      (''size'', \<lambda>v b. b\<lparr>bk_size := number32 v, bk_has_size := True\<rparr>)]"

definition parse_program_scalar :: "string \<Rightarrow> ng_game_config \<Rightarrow> ng_game_config" where
  "parse_program_scalar = first_key
     [(''fixed_base'', \<lambda>v c. c\<lparr>gc_program_fixed_base := number32 v, gc_program_map_configured := True\<rparr>),
      (''fixed_size'', \<lambda>v c. c\<lparr>gc_program_fixed_size := number32 v, gc_program_map_configured := True\<rparr>),
      (''bank_window_base'', \<lambda>v c. c\<lparr>gc_program_bank_window_base := number32 v, gc_program_map_configured := True\<rparr>),
      (''bank_window_size'', \<lambda>v c. c\<lparr>gc_program_bank_window_size := number32 v, gc_program_map_configured := True\<rparr>)]"

subsection \<open>Arrays of the open element\<close>

text \<open>
  These operations write the open element and the \<open>truncated\<close> flag of the configuration; they work on the pair.
\<close>

definition append_record_callback_offset ::
  "u32 \<Rightarrow> bool \<times> ng_game_config_record_format \<Rightarrow> bool \<times> ng_game_config_record_format" where
  "append_record_callback_offset v = (\<lambda>(truncated, r).
     case bounded_append 8 v (truncated, rf_callback_offsets r) of (t, xs) \<Rightarrow> (t, r\<lparr>rf_callback_offsets := xs\<rparr>))"

definition parse_record_callback_offsets ::
  "string \<Rightarrow> bool \<times> ng_game_config_record_format \<Rightarrow> bool \<times> ng_game_config_record_format" where
  "parse_record_callback_offsets line = fold append_record_callback_offset (line_numbers (after_equals line))"

definition scan_zero :: ng_game_config_record_scan where
  "scan_zero = \<lparr>sc_kind = NG_GAME_CONFIG_RECORD_SCAN_FIXED, sc_bank_id = 0, sc_start = 0, sc_end = 0\<rparr>"

text \<open>\<open>auto:\<close> in front or \<open>:auto\<close> behind a scan token, and the rest of the token.\<close>

definition strip_auto :: "string \<Rightarrow> bool \<times> string" where
  "strip_auto token =
     (let front = (starts_with token ''auto:'' \<and> 5 < length token);
          t = (if front then drop 5 token else token);
          back = (5 < length t \<and> drop (length t - 5) t = '':auto'')
      in (front \<or> back, if back then take (length t - 5) t else t))"

text \<open>The address range that may follow a bank: nothing, or a colon and a range.\<close>

definition bank_range :: "string \<Rightarrow> ng_game_config_record_scan \<Rightarrow> ng_game_config_record_scan option" where
  "bank_range rest scan =
     (case rest of
        [] \<Rightarrow> Some scan
      | c # r \<Rightarrow>
          if c = CHR '':'' then map_option (\<lambda>(lo, hi). scan\<lparr>sc_start := lo, sc_end := hi\<rparr>) (parse_range_value r)
          else None)"

definition record_scan_of_token :: "string \<Rightarrow> ng_game_config_record_scan option" where
  "record_scan_of_token token0 =
     (case strip_auto (take 127 token0) of (auto_scan, token) \<Rightarrow>
        let kind = (\<lambda>plain auto. if auto_scan then auto else plain) in
        if token = ''fixed''
        then Some (scan_zero\<lparr>sc_kind := kind NG_GAME_CONFIG_RECORD_SCAN_FIXED NG_GAME_CONFIG_RECORD_SCAN_FIXED_AUTO\<rparr>)
        else if token = ''fixed:auto'' then Some (scan_zero\<lparr>sc_kind := NG_GAME_CONFIG_RECORD_SCAN_FIXED_AUTO\<rparr>)
        else if starts_with token ''bank:*''
        then map_option (\<lambda>s. s\<lparr>sc_kind := kind NG_GAME_CONFIG_RECORD_SCAN_BANK_ALL NG_GAME_CONFIG_RECORD_SCAN_BANK_ALL_AUTO\<rparr>)
               (bank_range (drop 6 token) scan_zero)
        else if starts_with token ''bank:'' \<and> 5 < length token
        then (case strtoul (drop 5 token) of
                None \<Rightarrow> None
              | Some (bank, rest) \<Rightarrow>
                  map_option (\<lambda>s. s\<lparr>sc_kind := kind NG_GAME_CONFIG_RECORD_SCAN_BANK_ONE
                                                    NG_GAME_CONFIG_RECORD_SCAN_BANK_ONE_AUTO, sc_bank_id := ucast bank\<rparr>)
                    (bank_range rest scan_zero))
        else map_option (\<lambda>(lo, hi). scan_zero\<lparr>sc_start := lo, sc_end := hi,
                           sc_kind := kind NG_GAME_CONFIG_RECORD_SCAN_RANGE NG_GAME_CONFIG_RECORD_SCAN_RANGE_AUTO\<rparr>)
               (parse_range_value token))"

text \<open>The scans of state and routine tables have no \<open>auto\<close> and no range behind a bank.\<close>

definition plain_scan_of_token :: "string \<Rightarrow> ng_game_config_record_scan option" where
  "plain_scan_of_token token =
     (if token = ''fixed'' then Some scan_zero
      else if token = ''bank:*'' then Some (scan_zero\<lparr>sc_kind := NG_GAME_CONFIG_RECORD_SCAN_BANK_ALL\<rparr>)
      else if starts_with token ''bank:'' \<and> 5 < length token
      then (case strtoul (drop 5 token) of
              None \<Rightarrow> None
            | Some (bank, rest) \<Rightarrow>
                if rest \<noteq> [] then None
                else Some (scan_zero\<lparr>sc_kind := NG_GAME_CONFIG_RECORD_SCAN_BANK_ONE, sc_bank_id := ucast bank\<rparr>))
      else map_option (\<lambda>(lo, hi). scan_zero\<lparr>sc_start := lo, sc_end := hi, sc_kind := NG_GAME_CONFIG_RECORD_SCAN_RANGE\<rparr>)
             (parse_range_value token))"

text \<open>An empty token is skipped, a full array sets \<open>truncated\<close>, a token that does not parse is dropped.\<close>

definition append_scan ::
  "(string \<Rightarrow> ng_game_config_record_scan option) \<Rightarrow> string \<Rightarrow> bool \<times> ng_game_config_record_scan list \<Rightarrow>
   bool \<times> ng_game_config_record_scan list" where
  "append_scan parse token = (\<lambda>(truncated, scans).
     if token = [] then (truncated, scans)
     else if 16 \<le> length scans then (True, scans)
     else case parse token of Some s \<Rightarrow> (truncated, scans @ [s]) | None \<Rightarrow> (truncated, scans))"

definition append_record_scan_token ::
  "string \<Rightarrow> bool \<times> ng_game_config_record_format \<Rightarrow> bool \<times> ng_game_config_record_format" where
  "append_record_scan_token token = (\<lambda>(truncated, r).
     case append_scan record_scan_of_token token (truncated, rf_scans r) of (t, xs) \<Rightarrow> (t, r\<lparr>rf_scans := xs\<rparr>))"

definition append_state_table_scan_token ::
  "string \<Rightarrow> bool \<times> ng_game_config_state_table \<Rightarrow> bool \<times> ng_game_config_state_table" where
  "append_state_table_scan_token token = (\<lambda>(truncated, r).
     case append_scan plain_scan_of_token token (truncated, st_scans r) of (t, xs) \<Rightarrow> (t, r\<lparr>st_scans := xs\<rparr>))"

definition append_routine_table_scan_token ::
  "string \<Rightarrow> bool \<times> ng_game_config_routine_table \<Rightarrow> bool \<times> ng_game_config_routine_table" where
  "append_routine_table_scan_token token = (\<lambda>(truncated, r).
     case append_scan plain_scan_of_token token (truncated, rt_scans r) of (t, xs) \<Rightarrow> (t, r\<lparr>rt_scans := xs\<rparr>))"

definition parse_record_scan_values ::
  "string \<Rightarrow> bool \<times> ng_game_config_record_format \<Rightarrow> bool \<times> ng_game_config_record_format" where
  "parse_record_scan_values line = fold append_record_scan_token (line_strings (after_equals line))"

definition parse_state_table_scan_values ::
  "string \<Rightarrow> bool \<times> ng_game_config_state_table \<Rightarrow> bool \<times> ng_game_config_state_table" where
  "parse_state_table_scan_values line = fold append_state_table_scan_token (line_strings (after_equals line))"

definition parse_routine_table_scan_values ::
  "string \<Rightarrow> bool \<times> ng_game_config_routine_table \<Rightarrow> bool \<times> ng_game_config_routine_table" where
  "parse_routine_table_scan_values line = fold append_routine_table_scan_token (line_strings (after_equals line))"

definition append_dispatcher_array_value ::
  "ng_game_config_array \<Rightarrow> u32 \<Rightarrow> bool \<times> ng_game_config_dispatcher \<Rightarrow> bool \<times> ng_game_config_dispatcher" where
  "append_dispatcher_array_value array v = (\<lambda>(truncated, d).
     if array = NG_GAME_CONFIG_ARRAY_DISPATCHER_INSTALL_SLOTS
     then (case bounded_append 8 v (truncated, dp_install_slots d) of (t, xs) \<Rightarrow> (t, d\<lparr>dp_install_slots := xs\<rparr>))
     else if array = NG_GAME_CONFIG_ARRAY_DISPATCHER_SPAWN_HELPERS
     then (case bounded_append 16 v (truncated, dp_spawn_helpers d) of (t, xs) \<Rightarrow> (t, d\<lparr>dp_spawn_helpers := xs\<rparr>))
     else (truncated, d))"

definition parse_dispatcher_array_values ::
  "ng_game_config_array \<Rightarrow> string \<Rightarrow> bool \<times> ng_game_config_dispatcher \<Rightarrow> bool \<times> ng_game_config_dispatcher" where
  "parse_dispatcher_array_values array line =
     fold (append_dispatcher_array_value array) (line_numbers (after_equals line))"

definition parse_address_values :: "string \<Rightarrow> ng_game_config_array \<Rightarrow> ng_game_config \<Rightarrow> ng_game_config" where
  "parse_address_values line array = fold (append_function_addr array) (line_numbers line)"

definition parse_string_values :: "string \<Rightarrow> string list \<times> ng_game_config \<Rightarrow> string list \<times> ng_game_config" where
  "parse_string_values line = fold append_discovery_file (line_strings line)"

subsection \<open>The parser\<close>

record parse_state =
  ps_section :: ng_game_config_section
  ps_array :: ng_game_config_array
  ps_current :: "nat option"
  ps_files :: "string list"
  ps_config :: ng_game_config

text \<open>Writing through the pointer to the open element; nothing happens when it is null.\<close>

definition on_jump_table ::
  "(ng_game_config_jump_table \<Rightarrow> ng_game_config_jump_table) \<Rightarrow> nat option \<Rightarrow> ng_game_config \<Rightarrow> ng_game_config" where
  "on_jump_table f p c =
     (case p of None \<Rightarrow> c | Some i \<Rightarrow> c\<lparr>gc_jump_tables := (gc_jump_tables c)[i := f (gc_jump_tables c ! i)]\<rparr>)"

definition on_table_call ::
  "(ng_game_config_table_call \<Rightarrow> ng_game_config_table_call) \<Rightarrow> nat option \<Rightarrow> ng_game_config \<Rightarrow> ng_game_config" where
  "on_table_call f p c =
     (case p of None \<Rightarrow> c | Some i \<Rightarrow> c\<lparr>gc_table_calls := (gc_table_calls c)[i := f (gc_table_calls c ! i)]\<rparr>)"

definition on_bank ::
  "(ng_game_config_bank \<Rightarrow> ng_game_config_bank) \<Rightarrow> nat option \<Rightarrow> ng_game_config \<Rightarrow> ng_game_config" where
  "on_bank f p c =
     (case p of None \<Rightarrow> c | Some i \<Rightarrow> c\<lparr>gc_banks := (gc_banks c)[i := f (gc_banks c ! i)]\<rparr>)"

definition on_state_table ::
  "(bool \<times> ng_game_config_state_table \<Rightarrow> bool \<times> ng_game_config_state_table) \<Rightarrow> nat option \<Rightarrow>
   ng_game_config \<Rightarrow> ng_game_config" where
  "on_state_table f p c =
     (case p of None \<Rightarrow> c
      | Some i \<Rightarrow> (case f (gc_truncated c, gc_state_tables c ! i) of (t, x) \<Rightarrow>
          c\<lparr>gc_state_tables := (gc_state_tables c)[i := x], gc_truncated := t\<rparr>))"

definition on_record_format ::
  "(bool \<times> ng_game_config_record_format \<Rightarrow> bool \<times> ng_game_config_record_format) \<Rightarrow> nat option \<Rightarrow>
   ng_game_config \<Rightarrow> ng_game_config" where
  "on_record_format f p c =
     (case p of None \<Rightarrow> c
      | Some i \<Rightarrow> (case f (gc_truncated c, gc_record_formats c ! i) of (t, x) \<Rightarrow>
          c\<lparr>gc_record_formats := (gc_record_formats c)[i := x], gc_truncated := t\<rparr>))"

definition on_routine_table ::
  "(bool \<times> ng_game_config_routine_table \<Rightarrow> bool \<times> ng_game_config_routine_table) \<Rightarrow> nat option \<Rightarrow>
   ng_game_config \<Rightarrow> ng_game_config" where
  "on_routine_table f p c =
     (case p of None \<Rightarrow> c
      | Some i \<Rightarrow> (case f (gc_truncated c, gc_routine_tables c ! i) of (t, x) \<Rightarrow>
          c\<lparr>gc_routine_tables := (gc_routine_tables c)[i := x], gc_truncated := t\<rparr>))"

definition on_dispatcher ::
  "(bool \<times> ng_game_config_dispatcher \<Rightarrow> bool \<times> ng_game_config_dispatcher) \<Rightarrow> nat option \<Rightarrow>
   ng_game_config \<Rightarrow> ng_game_config" where
  "on_dispatcher f p c =
     (case p of None \<Rightarrow> c
      | Some i \<Rightarrow> (case f (gc_truncated c, gc_dispatchers c ! i) of (t, x) \<Rightarrow>
          c\<lparr>gc_dispatchers := (gc_dispatchers c)[i := x], gc_truncated := t\<rparr>))"

text \<open>A section header.\<close>

definition open_section :: "string \<Rightarrow> ng_game_config \<Rightarrow> ng_game_config_section \<times> ng_game_config \<times> nat option" where
  "open_section t c =
     (if starts_with t ''[[jump_table]]'' then (NG_GAME_CONFIG_SECTION_JUMP_TABLE, append_jump_table c)
      else if starts_with t ''[[table_call]]'' then (NG_GAME_CONFIG_SECTION_TABLE_CALL, append_table_call c)
      else if starts_with t ''[[state_table]]'' then (NG_GAME_CONFIG_SECTION_STATE_TABLE, append_state_table c)
      else if starts_with t ''[[record_format]]'' then (NG_GAME_CONFIG_SECTION_RECORD_FORMAT, append_record_format c)
      else if starts_with t ''[[routine_table]]'' then (NG_GAME_CONFIG_SECTION_ROUTINE_TABLE, append_routine_table c)
      else if starts_with t ''[[dispatcher]]'' then (NG_GAME_CONFIG_SECTION_DISPATCHER, append_dispatcher c)
      else if starts_with t ''[[bank]]'' then (NG_GAME_CONFIG_SECTION_BANK, append_bank c)
      else if starts_with t ''[functions]'' then (NG_GAME_CONFIG_SECTION_FUNCTIONS, c, None)
      else if starts_with t ''[program]'' then (NG_GAME_CONFIG_SECTION_PROGRAM, c, None)
      else if starts_with t ''[dispatch]'' then (NG_GAME_CONFIG_SECTION_DISPATCH, c, None)
      else if starts_with t ''[game]'' then (NG_GAME_CONFIG_SECTION_GAME, c, None)
      else (NG_GAME_CONFIG_SECTION_NONE, c, None))"

text \<open>The values of a line of an array; the array ends with the line that has a closing bracket.\<close>

definition array_values :: "ng_game_config_array \<Rightarrow> string \<Rightarrow> parse_state \<Rightarrow> parse_state" where
  "array_values array line st =
     (case array of
        NG_GAME_CONFIG_ARRAY_NONE \<Rightarrow> st
      | NG_GAME_CONFIG_ARRAY_DISCOVERY_FILES \<Rightarrow>
          (case parse_string_values line (ps_files st, ps_config st) of (fs, c) \<Rightarrow> st\<lparr>ps_files := fs, ps_config := c\<rparr>)
      | NG_GAME_CONFIG_ARRAY_RECORD_CALLBACK_OFFSETS \<Rightarrow>
          st\<lparr>ps_config := on_record_format (parse_record_callback_offsets line) (ps_current st) (ps_config st)\<rparr>
      | NG_GAME_CONFIG_ARRAY_RECORD_SCAN \<Rightarrow>
          st\<lparr>ps_config := on_record_format (parse_record_scan_values line) (ps_current st) (ps_config st)\<rparr>
      | NG_GAME_CONFIG_ARRAY_STATE_TABLE_SCAN \<Rightarrow>
          st\<lparr>ps_config := on_state_table (parse_state_table_scan_values line) (ps_current st) (ps_config st)\<rparr>
      | NG_GAME_CONFIG_ARRAY_ROUTINE_TABLE_SCAN \<Rightarrow>
          st\<lparr>ps_config := on_routine_table (parse_routine_table_scan_values line) (ps_current st) (ps_config st)\<rparr>
      | NG_GAME_CONFIG_ARRAY_DISPATCHER_INSTALL_SLOTS \<Rightarrow>
          st\<lparr>ps_config := on_dispatcher (parse_dispatcher_array_values array line) (ps_current st) (ps_config st)\<rparr>
      | NG_GAME_CONFIG_ARRAY_DISPATCHER_SPAWN_HELPERS \<Rightarrow>
          st\<lparr>ps_config := on_dispatcher (parse_dispatcher_array_values array line) (ps_current st) (ps_config st)\<rparr>
      | _ \<Rightarrow> st\<lparr>ps_config := parse_address_values line array (ps_config st)\<rparr>)"

definition array_line :: "ng_game_config_array \<Rightarrow> string \<Rightarrow> parse_state \<Rightarrow> parse_state" where
  "array_line array line st =
     (array_values array line st)\<lparr>ps_array :=
        if list_ex (\<lambda>c. c = CHR '']'') line then NG_GAME_CONFIG_ARRAY_NONE else array\<rparr>"

text \<open>The array a line of a section starts, tried in order.\<close>

primrec started_array :: "(string \<times> ng_game_config_array) list \<Rightarrow> string \<Rightarrow> ng_game_config_array option" where
  "started_array [] line = None"
| "started_array (k # ks) line = (if key_starts_array line (fst k) then Some (snd k) else started_array ks line)"

text \<open>
  A line of a section with elements: it continues the open array, or starts one of the section's arrays, or
  sets a scalar key.
\<close>

definition element_line ::
  "ng_game_config_array list \<Rightarrow> (string \<times> ng_game_config_array) list \<Rightarrow> (parse_state \<Rightarrow> parse_state) \<Rightarrow>
   string \<Rightarrow> parse_state \<Rightarrow> parse_state" where
  "element_line arrays keys scalar line st =
     (if ps_array st \<in> set arrays then array_line (ps_array st) line st
      else case started_array keys line of Some a \<Rightarrow> array_line a line st | None \<Rightarrow> scalar st)"

text \<open>A line of a section that only has arrays.\<close>

definition plain_line :: "(string \<times> ng_game_config_array) list \<Rightarrow> string \<Rightarrow> parse_state \<Rightarrow> parse_state" where
  "plain_line keys line st =
     (let array = (case started_array keys line of Some a \<Rightarrow> a | None \<Rightarrow> ps_array st)
      in if array \<noteq> NG_GAME_CONFIG_ARRAY_NONE then array_line array line st else st)"

definition section_line :: "string \<Rightarrow> parse_state \<Rightarrow> parse_state" where
  "section_line line st =
     (case ps_section st of
        NG_GAME_CONFIG_SECTION_NONE \<Rightarrow> st
      | NG_GAME_CONFIG_SECTION_FUNCTIONS \<Rightarrow>
          plain_line [(''entry'', NG_GAME_CONFIG_ARRAY_ENTRY), (''extra'', NG_GAME_CONFIG_ARRAY_EXTRA)] line st
      | NG_GAME_CONFIG_SECTION_GAME \<Rightarrow>
          plain_line [(''discovery_files'', NG_GAME_CONFIG_ARRAY_DISCOVERY_FILES)] line st
      | NG_GAME_CONFIG_SECTION_DISPATCH \<Rightarrow>
          plain_line [(''runtime'', NG_GAME_CONFIG_ARRAY_RUNTIME_DISPATCH)] line st
      | NG_GAME_CONFIG_SECTION_PROGRAM \<Rightarrow> st\<lparr>ps_config := parse_program_scalar line (ps_config st)\<rparr>
      | NG_GAME_CONFIG_SECTION_JUMP_TABLE \<Rightarrow>
          st\<lparr>ps_config := on_jump_table (parse_jump_table_scalar line) (ps_current st) (ps_config st)\<rparr>
      | NG_GAME_CONFIG_SECTION_TABLE_CALL \<Rightarrow>
          st\<lparr>ps_config := on_table_call (parse_table_call_scalar line) (ps_current st) (ps_config st)\<rparr>
      | NG_GAME_CONFIG_SECTION_BANK \<Rightarrow>
          st\<lparr>ps_config := on_bank (parse_bank_scalar line) (ps_current st) (ps_config st)\<rparr>
      | NG_GAME_CONFIG_SECTION_STATE_TABLE \<Rightarrow>
          element_line [NG_GAME_CONFIG_ARRAY_STATE_TABLE_SCAN] [(''scan'', NG_GAME_CONFIG_ARRAY_STATE_TABLE_SCAN)]
            (\<lambda>st. st\<lparr>ps_config := on_state_table (map_prod id (parse_state_table_scalar line)) (ps_current st) (ps_config st)\<rparr>)
            line st
      | NG_GAME_CONFIG_SECTION_ROUTINE_TABLE \<Rightarrow>
          element_line [NG_GAME_CONFIG_ARRAY_ROUTINE_TABLE_SCAN] [(''scan'', NG_GAME_CONFIG_ARRAY_ROUTINE_TABLE_SCAN)]
            (\<lambda>st. st\<lparr>ps_config := on_routine_table (map_prod id (parse_routine_table_scalar line)) (ps_current st) (ps_config st)\<rparr>)
            line st
      | NG_GAME_CONFIG_SECTION_DISPATCHER \<Rightarrow>
          element_line
            [NG_GAME_CONFIG_ARRAY_DISPATCHER_INSTALL_SLOTS, NG_GAME_CONFIG_ARRAY_DISPATCHER_SPAWN_HELPERS]
            [(''install_slots'', NG_GAME_CONFIG_ARRAY_DISPATCHER_INSTALL_SLOTS),
             (''spawn_helpers'', NG_GAME_CONFIG_ARRAY_DISPATCHER_SPAWN_HELPERS)]
            (\<lambda>st. st\<lparr>ps_config := on_dispatcher (map_prod id (parse_dispatcher_scalar line)) (ps_current st) (ps_config st)\<rparr>)
            line st
      | NG_GAME_CONFIG_SECTION_RECORD_FORMAT \<Rightarrow>
          element_line
            [NG_GAME_CONFIG_ARRAY_RECORD_CALLBACK_OFFSETS, NG_GAME_CONFIG_ARRAY_RECORD_SCAN]
            [(''callback_offsets'', NG_GAME_CONFIG_ARRAY_RECORD_CALLBACK_OFFSETS),
             (''scan'', NG_GAME_CONFIG_ARRAY_RECORD_SCAN)]
            (\<lambda>st. st\<lparr>ps_config := on_record_format (map_prod id (parse_record_format_scalar line)) (ps_current st) (ps_config st)\<rparr>)
            line st)"

definition config_line :: "string \<Rightarrow> parse_state \<Rightarrow> parse_state" where
  "config_line line st =
     (let trimmed = trim_left (takeWhile (\<lambda>c. c \<noteq> CHR ''#'') (c_string line)) in
      if trimmed = [] then st
      else if starts_with trimmed ''['' then
        (case open_section trimmed (ps_config st) of (section, c, current) \<Rightarrow>
           st\<lparr>ps_section := section, ps_config := c, ps_current := current, ps_array := NG_GAME_CONFIG_ARRAY_NONE\<rparr>)
      else section_line trimmed st)"

subsection \<open>Loading\<close>

type_synonym text_files = "string \<Rightarrow> (string \<times> bool) option"

definition parse_start :: "ng_game_config \<Rightarrow> parse_state" where
  "parse_start c = \<lparr>ps_section = NG_GAME_CONFIG_SECTION_NONE, ps_array = NG_GAME_CONFIG_ARRAY_NONE, ps_current = None,
     ps_files = [], ps_config = c\<rparr>"

definition parse_file :: "string \<Rightarrow> ng_game_config \<Rightarrow> string list \<times> ng_game_config" where
  "parse_file content c =
     (let st = fold config_line (file_lines content) (parse_start c) in (ps_files st, ps_config st))"

text \<open>
  \<open>levels\<close> is \<open>9 - depth\<close>: the number of levels of included files still allowed. The result is the return value
  and the configuration, which is filled as far as the parser got when it failed.
\<close>

primrec ng_game_config_load_into ::
  "text_files \<Rightarrow> nat \<Rightarrow> string \<Rightarrow> ng_game_config \<Rightarrow> bool \<times> ng_game_config" where
  "ng_game_config_load_into fs 0 path c = (False, c)"
| "ng_game_config_load_into fs (Suc levels) path c =
     (case fs path of
        None \<Rightarrow> (False, c)
      | Some (content, read_error) \<Rightarrow>
          (case parse_file content c of (files, c') \<Rightarrow>
             if read_error then (False, c')
             else fold (\<lambda>file (ok, c).
                    if \<not> ok then (ok, c)
                    else
                      case ng_game_config_load_into fs levels
                             (join_path (dirname_of path NG_GAME_CONFIG_MAX_PATH) file NG_GAME_CONFIG_MAX_PATH)
                             ng_game_config_init of
                        (child_ok, child) \<Rightarrow> if child_ok then (True, append_config_values child c) else (False, c))
                    files (True, c')))"

definition ng_game_config_load :: "text_files \<Rightarrow> string \<Rightarrow> bool \<times> ng_game_config" where
  "ng_game_config_load fs path = ng_game_config_load_into fs 9 path ng_game_config_init"

end
