(* ===== verification/GameConfigBounds.thy ===== *)
theory GameConfigBounds
  imports GameConfigParse
begin

text \<open>
  The arrays of a configuration stay within their sizes, and the index of the open element within its array,
  whatever the parser reads; and what a file that includes others does when one of them fails.
\<close>

subsection \<open>Array bounds\<close>

definition list_ok :: "nat \<Rightarrow> ('a \<Rightarrow> bool) \<Rightarrow> 'a list \<Rightarrow> bool" where
  "list_ok n P xs \<longleftrightarrow> length xs \<le> n \<and> (\<forall>x \<in> set xs. P x)"

definition state_table_ok :: "ng_game_config_state_table \<Rightarrow> bool" where
  "state_table_ok t \<longleftrightarrow> length (st_scans t) \<le> 16"

definition record_format_ok :: "ng_game_config_record_format \<Rightarrow> bool" where
  "record_format_ok r \<longleftrightarrow> length (rf_name r) < 64 \<and> length (rf_callback_offsets r) \<le> 8 \<and> length (rf_scans r) \<le> 16"

definition routine_table_ok :: "ng_game_config_routine_table \<Rightarrow> bool" where
  "routine_table_ok t \<longleftrightarrow> length (rt_name t) < 64 \<and> length (rt_scans t) \<le> 16"

definition dispatcher_ok :: "ng_game_config_dispatcher \<Rightarrow> bool" where
  "dispatcher_ok d \<longleftrightarrow> length (dp_install_slots d) \<le> 8 \<and> length (dp_spawn_helpers d) \<le> 16"

definition table_call_ok :: "ng_game_config_table_call \<Rightarrow> bool" where
  "table_call_ok c \<longleftrightarrow> tc_table_reg c \<le> 7"

definition config_ok :: "ng_game_config \<Rightarrow> bool" where
  "config_ok c \<longleftrightarrow>
     length (gc_entry c) \<le> 2048 \<and> length (gc_extra c) \<le> 2048 \<and> length (gc_runtime_dispatch c) \<le> 64 \<and>
     list_ok 32 (\<lambda>p. length p < 256) (gc_discovery_files c) \<and> length (gc_jump_tables c) \<le> 128 \<and>
     list_ok 64 table_call_ok (gc_table_calls c) \<and> list_ok 64 state_table_ok (gc_state_tables c) \<and>
     list_ok 64 record_format_ok (gc_record_formats c) \<and> list_ok 64 routine_table_ok (gc_routine_tables c) \<and>
     list_ok 16 dispatcher_ok (gc_dispatchers c) \<and> length (gc_banks c) \<le> 256"

named_theorems config_intros \<open>operations that keep the arrays in bounds\<close>

lemma bounded_append_length: "length (snd ts) \<le> n \<Longrightarrow> length (snd (bounded_append n x ts)) \<le> n"
  by (cases ts) (simp add: bounded_append_def)

lemma bounded_append_ok: "list_ok n P (snd ts) \<Longrightarrow> P x \<Longrightarrow> list_ok n P (snd (bounded_append n x ts))"
  by (cases ts) (auto simp: bounded_append_def list_ok_def)

lemma list_ok_update: "list_ok n P xs \<Longrightarrow> (\<And>x. P x \<Longrightarrow> P (f x)) \<Longrightarrow> list_ok n P (xs[i := f (xs ! i)])"
  by (cases "i < length xs")
     (simp_all add: list_ok_def list_update_beyond not_less, use set_update_subset_insert [of xs i] in fastforce)

lemma list_ok_update_pair:
  "list_ok n P xs \<Longrightarrow> (\<And>x. P (snd x) \<Longrightarrow> P (snd (f x))) \<Longrightarrow> list_ok n P (xs[i := snd (f (t, xs ! i))])"
  by (rule list_ok_update [where f = "\<lambda>x. snd (f (t, x))"]) simp_all

lemma first_key_inv:
  assumes "list_all (\<lambda>k. \<forall>v x. P x \<longrightarrow> P (snd k v x)) ks" and "P x"
  shows "P (first_key ks line x)"
  using assms by (induction ks) (auto split: option.split)

lemma fold_keeps: "(\<And>x s. P s \<Longrightarrow> P (f x s)) \<Longrightarrow> P s \<Longrightarrow> P (fold f xs s)"
  by (induction xs arbitrary: s) simp_all

lemma config_ok_init: "config_ok ng_game_config_init"
  by (simp add: config_ok_def ng_game_config_init_def list_ok_def)

lemma config_ok_truncated: "config_ok c \<Longrightarrow> config_ok (c\<lparr>gc_truncated := t\<rparr>)"
  by (simp add: config_ok_def)

lemma append_function_addr_ok [config_intros]: "config_ok c \<Longrightarrow> config_ok (append_function_addr a v c)"
  using bounded_append_length [of "(gc_truncated c, gc_entry c)" 2048 v]
    bounded_append_length [of "(gc_truncated c, gc_extra c)" 2048 v]
    bounded_append_length [of "(gc_truncated c, gc_runtime_dispatch c)" 64 v]
  by (cases a) (auto simp: append_function_addr_def config_ok_def split: prod.split)

lemma put_ok [config_intros]:
  assumes "config_ok c"
  shows "config_ok (fst (put_jump_table j c))" and "config_ok (fst (put_bank b c))"
    and "table_call_ok tc \<Longrightarrow> config_ok (fst (put_table_call tc c))"
    and "state_table_ok st \<Longrightarrow> config_ok (fst (put_state_table st c))"
    and "record_format_ok rf \<Longrightarrow> config_ok (fst (put_record_format rf c))"
    and "routine_table_ok rt \<Longrightarrow> config_ok (fst (put_routine_table rt c))"
    and "dispatcher_ok dp \<Longrightarrow> config_ok (fst (put_dispatcher dp c))"
  using assms
  by (simp_all add: config_ok_def put_jump_table_def put_bank_def put_table_call_def put_state_table_def
      put_record_format_def put_routine_table_def put_dispatcher_def Let_def bounded_append_length bounded_append_ok)

lemma append_ok [config_intros]:
  assumes "config_ok c"
  shows "config_ok (fst (append_jump_table c))" and "config_ok (fst (append_table_call c))"
    and "config_ok (fst (append_state_table c))" and "config_ok (fst (append_record_format c))"
    and "config_ok (fst (append_routine_table c))" and "config_ok (fst (append_dispatcher c))"
    and "config_ok (fst (append_bank c))"
  using assms
  by (simp_all add: append_jump_table_def append_table_call_def append_state_table_def append_record_format_def
      append_routine_table_def append_dispatcher_def append_bank_def config_intros table_call_ok_def state_table_ok_def
      record_format_ok_def routine_table_ok_def dispatcher_ok_def)

lemma append_discovery_file_ok: "config_ok (snd s) \<Longrightarrow> config_ok (snd (append_discovery_file v s))"
  by (cases s) (auto simp: append_discovery_file_def config_ok_def list_ok_def)

text \<open>A loop over the elements of a checked array.\<close>

lemma fold_put_ok:
  assumes "\<And>x c. P x \<Longrightarrow> config_ok c \<Longrightarrow> config_ok (f x c)" "\<forall>x \<in> set xs. P x" "config_ok c"
  shows "config_ok (fold f xs c)"
  using assms(2,3) by (induction xs arbitrary: c) (simp_all add: assms(1))

lemma append_config_values_ok:
  assumes "config_ok src" "config_ok dst"
  shows "config_ok (append_config_values src dst)"
proof -
  have src: "\<forall>x \<in> set (gc_table_calls src). table_call_ok x" "\<forall>x \<in> set (gc_state_tables src). state_table_ok x"
      "\<forall>x \<in> set (gc_record_formats src). record_format_ok x" "\<forall>x \<in> set (gc_routine_tables src). routine_table_ok x"
      "\<forall>x \<in> set (gc_dispatchers src). dispatcher_ok x"
    using assms(1) by (simp_all add: config_ok_def list_ok_def)
  have d1: "config_ok (if gc_program_map_configured src
      then dst\<lparr>gc_program_fixed_base := a, gc_program_fixed_size := b, gc_program_bank_window_base := e,
               gc_program_bank_window_size := f, gc_program_map_configured := True\<rparr> else dst)" for a b e f
    using assms(2) by (simp add: config_ok_def)
  note loops = fold_put_ok [where P = "\<lambda>_. True"] fold_put_ok [OF _ src(1)] fold_put_ok [OF _ src(2)]
    fold_put_ok [OF _ src(3)] fold_put_ok [OF _ src(4)] fold_put_ok [OF _ src(5)]
  show ?thesis
    unfolding append_config_values_def Let_def
    by (split if_split, intro conjI impI config_ok_truncated; intro loops config_intros d1) simp_all
qed

subsection \<open>Element parsers\<close>

lemma parse_string_scalar_length: "0 < n \<Longrightarrow> length (parse_string_scalar v n) < n"
  by (simp add: parse_string_scalar_def)

lemma parse_areg_value_le: "parse_areg_value v \<le> 7"
proof -
  have small: "of_nat k \<le> (7 :: u8)" if "k \<le> 7" for k
    using that by (simp add: word_le_nat_alt unsigned_of_nat take_bit_nat_eq_self)
  have "of_nat (char_code d - 48) \<le> (7 :: u8)" if "char_code d \<le> 55" for d
  proof -
    have "char_code d - 48 \<le> 7" using that by simp
    then show ?thesis by (rule small)
  qed
  moreover have "ucast n \<le> (7 :: u8)" if "n \<le> 7" for n :: u64
  proof -
    have "unat n \<le> 7" using that by (simp add: word_le_nat_alt)
    moreover from this have "unat (ucast n :: u8) = unat n" by (simp add: unsigned_ucast_eq take_bit_nat_eq_self)
    ultimately show ?thesis by (simp add: word_le_nat_alt)
  qed
  ultimately show ?thesis
    by (auto simp: parse_areg_value_def Let_def simp del: of_nat_diff split: list.split option.split prod.split)
qed

lemma scalar_ok:
  "table_call_ok c \<Longrightarrow> table_call_ok (parse_table_call_scalar line c)"
  "state_table_ok t \<Longrightarrow> state_table_ok (parse_state_table_scalar line t)"
  "record_format_ok r \<Longrightarrow> record_format_ok (parse_record_format_scalar line r)"
  "routine_table_ok u \<Longrightarrow> routine_table_ok (parse_routine_table_scalar line u)"
  "dispatcher_ok d \<Longrightarrow> dispatcher_ok (parse_dispatcher_scalar line d)"
  "config_ok g \<Longrightarrow> config_ok (parse_program_scalar line g)"
  unfolding parse_table_call_scalar_def parse_state_table_scalar_def parse_record_format_scalar_def
    parse_routine_table_scalar_def parse_dispatcher_scalar_def parse_program_scalar_def
  by (rule first_key_inv; simp add: table_call_ok_def state_table_ok_def record_format_ok_def routine_table_ok_def
      dispatcher_ok_def config_ok_def parse_table_call_format_def parse_dispatcher_kind_def Let_def parse_areg_value_le
      parse_string_scalar_length split: option.split)+

lemma append_scan_length: "length (snd ts) \<le> 16 \<Longrightarrow> length (snd (append_scan parse token ts)) \<le> 16"
  by (cases ts) (simp add: append_scan_def split: option.split)

lemma array_ok:
  "record_format_ok (snd r) \<Longrightarrow> record_format_ok (snd (parse_record_callback_offsets line r))"
  "record_format_ok (snd r) \<Longrightarrow> record_format_ok (snd (parse_record_scan_values line r))"
  "state_table_ok (snd t) \<Longrightarrow> state_table_ok (snd (parse_state_table_scan_values line t))"
  "routine_table_ok (snd u) \<Longrightarrow> routine_table_ok (snd (parse_routine_table_scan_values line u))"
  "dispatcher_ok (snd d) \<Longrightarrow> dispatcher_ok (snd (parse_dispatcher_array_values a line d))"
proof -
  show "record_format_ok (snd r) \<Longrightarrow> record_format_ok (snd (parse_record_callback_offsets line r))"
    unfolding parse_record_callback_offsets_def
  proof (rule fold_keeps [where P = "\<lambda>r. record_format_ok (snd r)"])
    fix v and r :: "bool \<times> ng_game_config_record_format" assume "record_format_ok (snd r)"
    then show "record_format_ok (snd (append_record_callback_offset v r))"
      using bounded_append_length [of "(fst r, rf_callback_offsets (snd r))" 8 v]
      by (cases r) (auto simp: append_record_callback_offset_def record_format_ok_def split: prod.split)
  qed
  show "record_format_ok (snd r) \<Longrightarrow> record_format_ok (snd (parse_record_scan_values line r))"
    unfolding parse_record_scan_values_def
  proof (rule fold_keeps [where P = "\<lambda>r. record_format_ok (snd r)"])
    fix v and r :: "bool \<times> ng_game_config_record_format" assume "record_format_ok (snd r)"
    then show "record_format_ok (snd (append_record_scan_token v r))"
      using append_scan_length [of "(fst r, rf_scans (snd r))" record_scan_of_token v]
      by (cases r) (auto simp: append_record_scan_token_def record_format_ok_def split: prod.split)
  qed
  show "state_table_ok (snd t) \<Longrightarrow> state_table_ok (snd (parse_state_table_scan_values line t))"
    unfolding parse_state_table_scan_values_def
  proof (rule fold_keeps [where P = "\<lambda>r. state_table_ok (snd r)"])
    fix v and r :: "bool \<times> ng_game_config_state_table" assume "state_table_ok (snd r)"
    then show "state_table_ok (snd (append_state_table_scan_token v r))"
      using append_scan_length [of "(fst r, st_scans (snd r))" plain_scan_of_token v]
      by (cases r) (auto simp: append_state_table_scan_token_def state_table_ok_def split: prod.split)
  qed
  show "routine_table_ok (snd u) \<Longrightarrow> routine_table_ok (snd (parse_routine_table_scan_values line u))"
    unfolding parse_routine_table_scan_values_def
  proof (rule fold_keeps [where P = "\<lambda>r. routine_table_ok (snd r)"])
    fix v and r :: "bool \<times> ng_game_config_routine_table" assume "routine_table_ok (snd r)"
    then show "routine_table_ok (snd (append_routine_table_scan_token v r))"
      using append_scan_length [of "(fst r, rt_scans (snd r))" plain_scan_of_token v]
      by (cases r) (auto simp: append_routine_table_scan_token_def routine_table_ok_def split: prod.split)
  qed
  show "dispatcher_ok (snd d) \<Longrightarrow> dispatcher_ok (snd (parse_dispatcher_array_values a line d))"
    unfolding parse_dispatcher_array_values_def
  proof (rule fold_keeps [where P = "\<lambda>r. dispatcher_ok (snd r)"])
    fix v and r :: "bool \<times> ng_game_config_dispatcher" assume "dispatcher_ok (snd r)"
    then show "dispatcher_ok (snd (append_dispatcher_array_value a v r))"
      using bounded_append_length [of "(fst r, dp_install_slots (snd r))" 8 v]
        bounded_append_length [of "(fst r, dp_spawn_helpers (snd r))" 16 v]
      by (cases r) (auto simp: append_dispatcher_array_value_def dispatcher_ok_def split: prod.split)
  qed
qed

subsection \<open>The parser state\<close>

text \<open>The number of elements of the array whose element the section has open.\<close>

definition section_length :: "ng_game_config_section \<Rightarrow> ng_game_config \<Rightarrow> nat" where
  "section_length s c =
     (case s of
        NG_GAME_CONFIG_SECTION_JUMP_TABLE \<Rightarrow> length (gc_jump_tables c)
      | NG_GAME_CONFIG_SECTION_TABLE_CALL \<Rightarrow> length (gc_table_calls c)
      | NG_GAME_CONFIG_SECTION_STATE_TABLE \<Rightarrow> length (gc_state_tables c)
      | NG_GAME_CONFIG_SECTION_RECORD_FORMAT \<Rightarrow> length (gc_record_formats c)
      | NG_GAME_CONFIG_SECTION_ROUTINE_TABLE \<Rightarrow> length (gc_routine_tables c)
      | NG_GAME_CONFIG_SECTION_DISPATCHER \<Rightarrow> length (gc_dispatchers c)
      | NG_GAME_CONFIG_SECTION_BANK \<Rightarrow> length (gc_banks c)
      | _ \<Rightarrow> 0)"

definition parse_state_ok :: "parse_state \<Rightarrow> bool" where
  "parse_state_ok st \<longleftrightarrow>
     config_ok (ps_config st) \<and> length (ps_files st) \<le> 32 \<and>
     (\<forall>i. ps_current st = Some i \<longrightarrow> i < section_length (ps_section st) (ps_config st))"

lemma on_ok [config_intros]:
  assumes "config_ok c"
  shows "config_ok (on_jump_table f p c)" and "config_ok (on_bank g p c)"
    and "(\<And>x. table_call_ok x \<Longrightarrow> table_call_ok (tf x)) \<Longrightarrow> config_ok (on_table_call tf p c)"
    and "(\<And>x. state_table_ok (snd x) \<Longrightarrow> state_table_ok (snd (sf x))) \<Longrightarrow> config_ok (on_state_table sf p c)"
    and "(\<And>x. record_format_ok (snd x) \<Longrightarrow> record_format_ok (snd (rf x))) \<Longrightarrow> config_ok (on_record_format rf p c)"
    and "(\<And>x. routine_table_ok (snd x) \<Longrightarrow> routine_table_ok (snd (uf x))) \<Longrightarrow> config_ok (on_routine_table uf p c)"
    and "(\<And>x. dispatcher_ok (snd x) \<Longrightarrow> dispatcher_ok (snd (df x))) \<Longrightarrow> config_ok (on_dispatcher df p c)"
proof -
  show "config_ok (on_jump_table f p c)" "config_ok (on_bank g p c)"
    using assms by (auto simp: on_jump_table_def on_bank_def config_ok_def split: option.split)
  show "config_ok (on_table_call tf p c)" if "\<And>x. table_call_ok x \<Longrightarrow> table_call_ok (tf x)"
    using assms that by (auto simp: on_table_call_def config_ok_def list_ok_update split: option.split)
  note unfold = config_ok_def split_beta list_ok_update_pair
  show "config_ok (on_state_table sf p c)" if "\<And>x. state_table_ok (snd x) \<Longrightarrow> state_table_ok (snd (sf x))"
    using assms that by (auto simp: on_state_table_def unfold split: option.split)
  show "config_ok (on_record_format rf p c)" if "\<And>x. record_format_ok (snd x) \<Longrightarrow> record_format_ok (snd (rf x))"
    using assms that by (auto simp: on_record_format_def unfold split: option.split)
  show "config_ok (on_routine_table uf p c)" if "\<And>x. routine_table_ok (snd x) \<Longrightarrow> routine_table_ok (snd (uf x))"
    using assms that by (auto simp: on_routine_table_def unfold split: option.split)
  show "config_ok (on_dispatcher df p c)" if "\<And>x. dispatcher_ok (snd x) \<Longrightarrow> dispatcher_ok (snd (df x))"
    using assms that by (auto simp: on_dispatcher_def unfold split: option.split)
qed

lemma on_section_length [simp]:
  "section_length s (on_jump_table f p c) = section_length s c" "section_length s (on_bank g p c) = section_length s c"
  "section_length s (on_table_call tf p c) = section_length s c" "section_length s (on_state_table sf p c) = section_length s c"
  "section_length s (on_record_format rf p c) = section_length s c" "section_length s (on_routine_table uf p c) = section_length s c"
  "section_length s (on_dispatcher df p c) = section_length s c"
  by (auto simp: section_length_def on_jump_table_def on_bank_def on_table_call_def on_state_table_def
      on_record_format_def on_routine_table_def on_dispatcher_def split_beta
      split: option.split ng_game_config_section.split)

text \<open>Operations on the configuration that keep its bounds and its element arrays.\<close>

definition keeps_config :: "(ng_game_config \<Rightarrow> ng_game_config) \<Rightarrow> bool" where
  "keeps_config f \<longleftrightarrow> (\<forall>c s. (config_ok c \<longrightarrow> config_ok (f c)) \<and> section_length s (f c) = section_length s c)"

lemma keeps_config_state: "keeps_config f \<Longrightarrow> parse_state_ok st \<Longrightarrow> parse_state_ok (st\<lparr>ps_config := f (ps_config st)\<rparr>)"
  by (simp add: keeps_config_def parse_state_ok_def)

lemma keeps_on:
  "keeps_config (on_jump_table f p)" "keeps_config (on_bank g p)"
  "(\<And>x. table_call_ok x \<Longrightarrow> table_call_ok (tf x)) \<Longrightarrow> keeps_config (on_table_call tf p)"
  "(\<And>x. state_table_ok (snd x) \<Longrightarrow> state_table_ok (snd (sf x))) \<Longrightarrow> keeps_config (on_state_table sf p)"
  "(\<And>x. record_format_ok (snd x) \<Longrightarrow> record_format_ok (snd (rf x))) \<Longrightarrow> keeps_config (on_record_format rf p)"
  "(\<And>x. routine_table_ok (snd x) \<Longrightarrow> routine_table_ok (snd (uf x))) \<Longrightarrow> keeps_config (on_routine_table uf p)"
  "(\<And>x. dispatcher_ok (snd x) \<Longrightarrow> dispatcher_ok (snd (df x))) \<Longrightarrow> keeps_config (on_dispatcher df p)"
  by (simp_all add: keeps_config_def config_intros)

lemma keeps_fold: "(\<And>x. keeps_config (f x)) \<Longrightarrow> keeps_config (fold f xs)"
  by (induction xs) (simp_all add: keeps_config_def)

lemma keeps_append_function_addr: "keeps_config (append_function_addr a v)"
  by (simp add: keeps_config_def config_intros)
     (simp add: append_function_addr_def section_length_def split_beta split: ng_game_config_array.split
       ng_game_config_section.split)

lemma keeps_parse_program_scalar: "keeps_config (parse_program_scalar line)"
proof -
  have "section_length s (parse_program_scalar line c) = section_length s c" for s c
    unfolding parse_program_scalar_def
    by (rule first_key_inv [where P = "\<lambda>x. section_length s x = section_length s c"])
       (simp_all add: section_length_def split: ng_game_config_section.split)
  then show ?thesis by (simp add: keeps_config_def scalar_ok)
qed

lemma parse_string_values_ok:
  assumes "length (fst s) \<le> 32" "config_ok (snd s)"
  shows "length (fst (parse_string_values line s)) \<le> 32 \<and> config_ok (snd (parse_string_values line s)) \<and>
    (\<forall>e. section_length e (snd (parse_string_values line s)) = section_length e (snd s))"
proof -
  let ?P = "\<lambda>x. length (fst x) \<le> 32 \<and> config_ok (snd x) \<and> (\<forall>e. section_length e (snd x) = section_length e (snd s))"
  have "?P (append_discovery_file v x)" if "?P x" for v x
    using that append_discovery_file_ok [of x v]
    by (cases x) (auto simp: append_discovery_file_def section_length_def split: ng_game_config_section.splits)
  then show ?thesis unfolding parse_string_values_def using assms by (intro fold_keeps [where P = ?P]) auto
qed

lemma array_line_ok:
  assumes "parse_state_ok st" shows "parse_state_ok (array_line a line st)"
proof -
  have "parse_state_ok (array_values a line st)"
  proof (cases a)
    case NG_GAME_CONFIG_ARRAY_DISCOVERY_FILES
    then show ?thesis
      using assms parse_string_values_ok [of "(ps_files st, ps_config st)" line]
      by (simp add: array_values_def parse_state_ok_def split_beta)
  qed (use assms in \<open>simp_all add: array_values_def parse_address_values_def keeps_config_state keeps_on array_ok
        keeps_fold keeps_append_function_addr\<close>)
  then show ?thesis by (simp add: array_line_def parse_state_ok_def)
qed

lemma section_line_ok:
  assumes "parse_state_ok st" shows "parse_state_ok (section_line line st)"
  using assms
  by (simp add: section_line_def plain_line_def element_line_def Let_def array_line_ok keeps_config_state keeps_on
      keeps_parse_program_scalar scalar_ok split: ng_game_config_section.split option.split)

lemma append_index:
  "snd (append_jump_table c) = Some i \<Longrightarrow> i < length (gc_jump_tables (fst (append_jump_table c)))"
  "snd (append_table_call c) = Some i \<Longrightarrow> i < length (gc_table_calls (fst (append_table_call c)))"
  "snd (append_state_table c) = Some i \<Longrightarrow> i < length (gc_state_tables (fst (append_state_table c)))"
  "snd (append_record_format c) = Some i \<Longrightarrow> i < length (gc_record_formats (fst (append_record_format c)))"
  "snd (append_routine_table c) = Some i \<Longrightarrow> i < length (gc_routine_tables (fst (append_routine_table c)))"
  "snd (append_dispatcher c) = Some i \<Longrightarrow> i < length (gc_dispatchers (fst (append_dispatcher c)))"
  "snd (append_bank c) = Some i \<Longrightarrow> i < length (gc_banks (fst (append_bank c)))"
  by (simp_all add: append_jump_table_def append_table_call_def append_state_table_def append_record_format_def
      append_routine_table_def append_dispatcher_def append_bank_def put_jump_table_def put_bank_def put_table_call_def
      put_state_table_def put_record_format_def put_routine_table_def put_dispatcher_def Let_def appended_def
      split: if_splits)

lemma open_section_ok:
  assumes "config_ok c"
  shows "config_ok (fst (snd (open_section t c)))"
    and "snd (snd (open_section t c)) = Some i \<Longrightarrow> i < section_length (fst (open_section t c)) (fst (snd (open_section t c)))"
  using append_ok [OF assms] assms by (simp_all add: open_section_def section_length_def append_index split: if_splits)

lemma config_line_ok:
  assumes "parse_state_ok st" shows "parse_state_ok (config_line line st)"
proof -
  have "parse_state_ok (st\<lparr>ps_section := s, ps_config := c', ps_current := p, ps_array := NG_GAME_CONFIG_ARRAY_NONE\<rparr>)"
    if "open_section t (ps_config st) = (s, c', p)" for t s c' p
    using open_section_ok [of "ps_config st" t] that assms by (simp add: parse_state_ok_def)
  then show ?thesis
    using assms by (simp add: config_line_def Let_def section_line_ok split: prod.split)
qed

lemma parse_lines_ok: "config_ok c \<Longrightarrow> parse_state_ok (fold config_line lines (parse_start c))"
  by (rule fold_keeps [where P = parse_state_ok, OF config_line_ok]) (simp_all add: parse_state_ok_def parse_start_def)

lemma parse_file_ok: "config_ok c \<Longrightarrow> config_ok (snd (parse_file content c))"
  using parse_lines_ok [of c "file_lines content"] by (simp add: parse_file_def parse_state_ok_def Let_def)

lemma load_into_ok: "config_ok c \<Longrightarrow> config_ok (snd (ng_game_config_load_into fs levels path c))"
proof (induction levels arbitrary: path c)
  case (Suc levels)
  obtain content err where "fs path = None \<or> fs path = Some (content, err)" by (cases "fs path") auto
  then show ?case
  proof
    assume f: "fs path = Some (content, err)"
    obtain files c' where p: "parse_file content c = (files, c')" by (cases "parse_file content c")
    then have "config_ok c'" using parse_file_ok [OF Suc.prems, of content] by simp
    moreover have "config_ok (snd (fold (\<lambda>file (ok, c).
        if \<not> ok then (ok, c)
        else case ng_game_config_load_into fs levels (q file) ng_game_config_init of
               (child_ok, child) \<Rightarrow> if child_ok then (True, append_config_values child c) else (False, c)) files (True, c')))"
      if "config_ok c'" for q
      by (rule fold_keeps [where P = "\<lambda>s. config_ok (snd s)"])
         (use that Suc.IH [OF config_ok_init] in \<open>auto simp: split_beta append_config_values_ok\<close>)
    ultimately show ?case by (simp add: f p)
  qed (use Suc.prems in simp)
qed simp

subsection \<open>Included files\<close>

text \<open>The paths a file includes.\<close>

definition included_paths :: "text_files \<Rightarrow> string \<Rightarrow> string list" where
  "included_paths fs path =
     (case fs path of None \<Rightarrow> []
      | Some (content, _) \<Rightarrow>
          map (\<lambda>file. join_path (dirname_of path NG_GAME_CONFIG_MAX_PATH) file NG_GAME_CONFIG_MAX_PATH)
            (fst (parse_file content ng_game_config_init)))"

lemma load_children_fail:
  assumes "file \<in> set files" "\<not> fst (load file)"
  shows "\<not> fst (fold (\<lambda>file (ok, c). if \<not> ok then (ok, c)
      else case load file of (child_ok, child) \<Rightarrow> if child_ok then (True, f child c) else (False, c)) files s)"
    (is "\<not> fst (fold ?step files s)")
proof -
  have stay: "\<not> fst s \<Longrightarrow> \<not> fst (fold ?step xs s)" for xs s
    by (rule fold_keeps [where P = "\<lambda>s. \<not> fst s"]) (auto simp: split_beta)
  show ?thesis
    using assms(1)
  proof (induction files arbitrary: s)
    case (Cons x files)
    have "\<not> fst (?step file s)" using assms(2) by (cases s) (auto simp: split_beta)
    then show ?case using Cons.prems Cons.IH [of "?step x s"] stay [of "?step file s" files] by (cases "x = file") simp_all
  qed simp
qed

lemma load_into_cycle:
  assumes "\<forall>p \<in> S. set (included_paths fs p) \<inter> S \<noteq> {}"
  shows "p \<in> S \<Longrightarrow> \<not> fst (ng_game_config_load_into fs levels p ng_game_config_init)"
proof (induction levels arbitrary: p)
  case (Suc levels)
  obtain q where q: "q \<in> set (included_paths fs p)" "q \<in> S" using assms Suc.prems by blast
  then obtain content err where opened: "fs p = Some (content, err)"
    by (cases "fs p") (auto simp: included_paths_def)
  obtain files c where p: "parse_file content ng_game_config_init = (files, c)"
    by (cases "parse_file content ng_game_config_init")
  obtain f where "f \<in> set files" "q = join_path (dirname_of p NG_GAME_CONFIG_MAX_PATH) f NG_GAME_CONFIG_MAX_PATH"
    using q(1) by (auto simp: included_paths_def opened p)
  then show ?case
    using Suc.IH [OF q(2)] load_children_fail [of f files "\<lambda>f. ng_game_config_load_into fs levels
        (join_path (dirname_of p NG_GAME_CONFIG_MAX_PATH) f NG_GAME_CONFIG_MAX_PATH) ng_game_config_init"
        append_config_values "(True, c)"]
    by (simp add: opened p)
qed simp

end
