(* ===== verification/GameConfigProps.thy ===== *)
theory GameConfigProps
  imports GameConfigBounds
begin

text \<open>
  What the configuration parser guarantees: no input makes it write outside an array, files that include each
  other in a circle are refused, and a printed list of entry points is read back.
\<close>

subsection \<open>Printed lists\<close>

text \<open>A number in the form \<open>0x%08X\<close>, and a configuration file with a list of entry points, one on each line.\<close>

definition hex_digit :: "nat \<Rightarrow> char" where
  "hex_digit d = char_of (if d < 10 then 48 + d else 55 + d)"

definition print_hex32 :: "u32 \<Rightarrow> string" where
  "print_hex32 x = ''0x'' @ map (\<lambda>k. hex_digit (unat x div 16 ^ k mod 16)) [7, 6, 5, 4, 3, 2, 1, 0]"

definition newline :: string where
  "newline = [CHR 0x0A]"

definition entry_line :: "u32 \<Rightarrow> string" where
  "entry_line x = ''  '' @ print_hex32 x @ CHR '','' # newline"

definition section_head :: string where
  "section_head = ''[functions]'' @ newline"

definition array_head :: string where
  "array_head = ''entry = ['' @ newline"

definition array_foot :: string where
  "array_foot = '']'' @ newline"

definition print_entries :: "u32 list \<Rightarrow> string" where
  "print_entries xs = concat ([section_head, array_head] @ map entry_line xs @ [array_foot])"

lemma char_code_hex_digit: "d < 16 \<Longrightarrow> char_code (hex_digit d) = (if d < 10 then 48 + d else 55 + d)"
  by (simp add: hex_digit_def char_code_def)

lemma digit_of_hex_digit: "d < 16 \<Longrightarrow> digit_of 16 (hex_digit d) = Some d"
  by (auto simp: digit_of_def char_code_hex_digit isdigit_def)

lemma digits_hex:
  "\<forall>d \<in> set ds. d < 16 \<Longrightarrow> digit_of 16 c = None \<Longrightarrow>
   digits 16 acc (map hex_digit ds @ c # r) = (fold (\<lambda>d a. a * 16 + d) ds acc, c # r)"
  by (induction ds arbitrary: acc) (simp_all add: digit_of_hex_digit)

lemma hex_value:
  "fold (\<lambda>d a. a * 16 + d) (map (\<lambda>k. n div 16 ^ k mod 16) (rev [0..<m])) a = a * 16 ^ m + n mod 16 ^ m" for n :: nat
proof (induction m arbitrary: a)
  case (Suc m)
  have "n mod 16 ^ Suc m = 16 ^ m * (n div 16 ^ m mod 16) + n mod 16 ^ m" by (simp add: mod_mult2_eq mult.commute [of 16])
  then show ?case using Suc.IH [of "a * 16 + n div 16 ^ m mod 16"] by (simp add: algebra_simps)
qed simp

lemma strtoul_hex:
  assumes "digit_of 16 c = None"
  shows "strtoul (print_hex32 x @ c # r) = Some (ucast x, c # r)"
proof -
  let ?ds = "map (\<lambda>k. unat x div 16 ^ k mod 16) [7, 6, 5, 4, 3, 2, 1, 0]"
  have small: "\<forall>d \<in> set ?ds. d < 16" by simp
  have x: "unat x < 2 ^ 32" using unat_below [of x] by simp
  have shape: "print_hex32 x @ c # r = CHR ''0'' # CHR ''x'' # map hex_digit ?ds @ c # r"
    by (simp add: print_hex32_def)
  have "number_base (print_hex32 x @ c # r) = (16, map hex_digit ?ds @ c # r)"
    unfolding shape by (simp add: number_base_def digit_of_hex_digit)
  moreover have "dropWhile isspace (print_hex32 x @ c # r) = print_hex32 x @ c # r"
    "skip_sign (print_hex32 x @ c # r) = print_hex32 x @ c # r"
    unfolding shape by (simp_all add: isspace_def char_code_def skip_sign_def)
  moreover have "digits 16 0 (map hex_digit ?ds @ c # r) = (unat x, c # r)"
    using hex_value [of "unat x" 8 0] x unfolding digits_hex [OF small assms] by (simp add: upt_rec)
  moreover have "\<not> starts_with (print_hex32 x @ c # r) ''-''" unfolding shape by (simp add: starts_with_def)
  moreover have "\<not> 2 ^ 64 \<le> unat x" using x by simp
  moreover have "digit_of 16 (hex_digit (unat x div 16 ^ 7 mod 16)) \<noteq> None" by (simp add: digit_of_hex_digit)
  ultimately show ?thesis by (simp add: strtoul_def Let_def unsigned_ucast_eq) 
qed

lemma config_line_section: "config_line section_head (parse_start c) =
   (parse_start c)\<lparr>ps_section := NG_GAME_CONFIG_SECTION_FUNCTIONS\<rparr>"
  by (simp add: config_line_def section_head_def array_head_def array_foot_def newline_def c_string_def trim_left_def isspace_def char_code_def starts_with_def
      open_section_def parse_start_def)

lemma config_line_array: "ps_section st = NG_GAME_CONFIG_SECTION_FUNCTIONS \<Longrightarrow> config_line array_head st =
   st\<lparr>ps_array := NG_GAME_CONFIG_ARRAY_ENTRY\<rparr>"
  by (simp add: config_line_def section_head_def array_head_def array_foot_def newline_def c_string_def trim_left_def isspace_def char_code_def starts_with_def
      section_line_def plain_line_def key_starts_array_def array_line_def array_values_def parse_address_values_def
      line_numbers.simps isdigit_def)


lemma address_chars:
  assumes "c \<in> set (print_hex32 x)"
  shows "48 \<le> char_code c \<and> char_code c \<le> 70 \<or> char_code c = 120"
proof -
  have "48 \<le> char_code (hex_digit d) \<and> char_code (hex_digit d) \<le> 70" if "d < 16" for d
    using that by (simp add: char_code_hex_digit)
  then have "48 \<le> char_code (hex_digit (n mod 16)) \<and> char_code (hex_digit (n mod 16)) \<le> 70" for n by simp
  then show ?thesis using assms by (auto simp: print_hex32_def char_code_def [of "CHR ''0''"] char_code_def [of "CHR ''x''"])
qed

lemma print_chars_neq: "c \<in> set (print_hex32 x) \<Longrightarrow> c \<notin> {CHR 0x00, CHR 0x0A, CHR ''#'', CHR '']''}"
  using address_chars [of c x] by (auto simp: char_code_def)

lemma entry_line_chars: "c \<in> set (entry_line x) \<Longrightarrow> c \<notin> {CHR 0x00, CHR ''#'', CHR '']''}"
  using print_chars_neq by (fastforce simp: entry_line_def newline_def)

lemma trimmed_entry_line:
  "trim_left (takeWhile (\<lambda>c. c \<noteq> CHR ''#'') (c_string (entry_line x))) = print_hex32 x @ CHR '','' # newline"
proof -
  have e: "c_string (entry_line x) = entry_line x" "takeWhile (\<lambda>c. c \<noteq> CHR ''#'') (entry_line x) = entry_line x"
    using entry_line_chars by (auto simp: c_string_def)
  have "trim_left (entry_line x) = print_hex32 x @ CHR '','' # newline"
    by (simp add: trim_left_def entry_line_def isspace_def char_code_def print_hex32_def)
  then show ?thesis unfolding e .
qed

lemma line_numbers_entry: "line_numbers (print_hex32 x @ CHR '','' # newline) = [x]"
proof -
  have "strtoul (print_hex32 x @ CHR '','' # newline) = Some (ucast x, CHR '','' # newline)"
    using strtoul_hex [of "CHR '',''" x newline] by (simp add: digit_of_def isdigit_def char_code_def)
  moreover have "line_numbers (CHR '','' # newline) = []"
    by (simp add: newline_def line_numbers.simps isdigit_def char_code_def)
  moreover have "ucast (ucast x :: u64) = x"
    by (rule bit_word_eqI) (auto simp: bit_ucast_iff dest: bit_imp_le_length)
  ultimately show ?thesis
    by (subst line_numbers.simps) (simp add: print_hex32_def isdigit_def char_code_def)
qed

lemma config_line_entry:
  assumes "ps_section st = NG_GAME_CONFIG_SECTION_FUNCTIONS" "ps_array st = NG_GAME_CONFIG_ARRAY_ENTRY"
    and "length (gc_entry (ps_config st)) < 2048"
  shows "config_line (entry_line x) st = st\<lparr>ps_config := (ps_config st)\<lparr>gc_entry := gc_entry (ps_config st) @ [x]\<rparr>\<rparr>"
proof -
  have keys: "\<not> key_starts_array (print_hex32 x @ CHR '','' # newline) ''entry''"
      "\<not> key_starts_array (print_hex32 x @ CHR '','' # newline) ''extra''"
    by (simp_all add: key_starts_array_def starts_with_def print_hex32_def)
  have "\<not> list_ex (\<lambda>c. c = CHR '']'') (print_hex32 x @ CHR '','' # newline)"
    using print_chars_neq [of "CHR '']''" x] by (auto simp: list_ex_iff newline_def)
  moreover have "\<not> starts_with (print_hex32 x @ CHR '','' # newline) ''[''" "print_hex32 x \<noteq> []"
    by (simp_all add: starts_with_def print_hex32_def)
  moreover have "append_function_addr NG_GAME_CONFIG_ARRAY_ENTRY x (ps_config st) =
      (ps_config st)\<lparr>gc_entry := gc_entry (ps_config st) @ [x]\<rparr>"
    using assms(3) by (simp add: append_function_addr_def bounded_append_def)
  ultimately show ?thesis
    using assms(1,2) keys
    by (cases st) (simp add: config_line_def trimmed_entry_line section_line_def plain_line_def array_line_def array_values_def
        parse_address_values_def line_numbers_entry)
qed

lemma config_lines_entries:
  assumes "ps_section st = NG_GAME_CONFIG_SECTION_FUNCTIONS" "ps_array st = NG_GAME_CONFIG_ARRAY_ENTRY"
    and "length (gc_entry (ps_config st)) + length xs \<le> 2048"
  shows "fold config_line (map entry_line xs) st =
    st\<lparr>ps_config := (ps_config st)\<lparr>gc_entry := gc_entry (ps_config st) @ xs\<rparr>\<rparr>"
  using assms by (induction xs arbitrary: st) (simp_all add: config_line_entry)

lemma config_line_close:
  assumes "ps_section st = NG_GAME_CONFIG_SECTION_FUNCTIONS" "ps_array st = NG_GAME_CONFIG_ARRAY_ENTRY"
  shows "config_line array_foot st = st\<lparr>ps_array := NG_GAME_CONFIG_ARRAY_NONE\<rparr>"
  using assms
  by (simp add: config_line_def section_head_def array_head_def array_foot_def newline_def c_string_def trim_left_def isspace_def char_code_def starts_with_def
      section_line_def plain_line_def key_starts_array_def array_line_def array_values_def parse_address_values_def
      line_numbers.simps isdigit_def)

text \<open>Lines of at most 511 characters are read one at a time.\<close>

definition text_line :: "string \<Rightarrow> bool" where
  "text_line l \<longleftrightarrow> (\<exists>s. l = s @ newline \<and> CHR 0x0A \<notin> set s \<and> length s \<le> 510)"

lemma file_lines_concat: "\<forall>l \<in> set ls. text_line l \<Longrightarrow> file_lines (concat ls) = ls"
proof (induction ls)
  case (Cons l ls)
  then obtain s where s: "l = s @ newline" "CHR 0x0A \<notin> set s" "length s \<le> 510" by (auto simp: text_line_def)
  have "takeWhile (\<lambda>c. c \<noteq> CHR 0x0A) (s @ CHR 0x0A # concat ls) = s"
    using s(2) by (subst takeWhile_append2) auto
  then have "fgets (concat (l # ls)) = (l, concat ls)" using s by (simp add: fgets_def newline_def Let_def)
  moreover have "concat (l # ls) \<noteq> []" using s by (simp add: newline_def)
  ultimately show ?case using Cons by (subst file_lines.simps) simp
qed (simp add: file_lines.simps)

lemma print_entries_lines:
  "file_lines (print_entries xs) =
     [section_head, array_head] @ map entry_line xs @ [array_foot]"
proof -
  have "text_line (entry_line x)" for x
    using print_chars_neq [of "CHR 0x0A" x]
    by (auto simp: text_line_def entry_line_def print_hex32_def intro!: exI [of _ "''  '' @ print_hex32 x @ '',''"])
  moreover have "text_line (s @ newline)" if "CHR 0x0A \<notin> set s" "length s \<le> 510" for s
    using that by (auto simp: text_line_def)
  moreover from this have "text_line section_head" "text_line array_head" "text_line array_foot"
    unfolding section_head_def array_head_def array_foot_def by (auto simp del: append.simps)
  ultimately show ?thesis unfolding print_entries_def by (intro file_lines_concat) auto
qed

lemma parse_print_entries:
  assumes "length xs \<le> 2048"
  shows "parse_file (print_entries xs) ng_game_config_init = ([], ng_game_config_init\<lparr>gc_entry := xs\<rparr>)"
proof -
  let ?st = "(parse_start ng_game_config_init)
    \<lparr>ps_section := NG_GAME_CONFIG_SECTION_FUNCTIONS, ps_array := NG_GAME_CONFIG_ARRAY_ENTRY\<rparr>"
  have entry0: "gc_entry ng_game_config_init = []" by (simp add: ng_game_config_init_def)
  have "fold config_line (file_lines (print_entries xs)) (parse_start ng_game_config_init) =
      config_line array_foot (fold config_line (map entry_line xs) ?st)"
    by (simp add: print_entries_lines config_line_section config_line_array)
  also have "\<dots> = ?st\<lparr>ps_config := ng_game_config_init\<lparr>gc_entry := xs\<rparr>, ps_array := NG_GAME_CONFIG_ARRAY_NONE\<rparr>"
    using assms config_lines_entries [of ?st xs] by (simp add: entry0 config_line_close parse_start_def)
  finally show ?thesis by (simp add: parse_file_def Let_def parse_start_def)
qed

subsection \<open>Properties\<close>

text \<open>
  C9 (safety of the parser). Whatever the files contain, the configuration that loading leaves behind, also when
  it fails, has no more elements in any array than the array has room for, its names and paths fit their
  buffers, and every table register is an address register. At every point of parsing, the element that scalar
  keys are written to lies inside its array.
\<close>

theorem config_load_within_bounds:
  "config_ok (snd (ng_game_config_load fs path)) \<and>
   parse_state_ok (fold config_line lines (parse_start ng_game_config_init))"
  by (simp add: ng_game_config_load_def load_into_ok parse_lines_ok config_ok_init)

text \<open>
  C10 (errors of included files). When every file of a set includes some file of the set, directly or through a
  circle, loading any of them fails: the recursion is cut off and the failure is reported to the top.
\<close>

theorem config_include_cycle_fails:
  assumes "\<forall>p \<in> S. set (included_paths fs p) \<inter> S \<noteq> {}" and "path \<in> S"
  shows "fst (ng_game_config_load fs path) = False"
  using load_into_cycle [OF assms] by (simp add: ng_game_config_load_def)

text \<open>
  C11 (round trip). A file that lists up to 2048 entry points as \<open>0x%08X\<close> numbers, one on each line, loads
  successfully, and the configuration has exactly these entry points, in order, and nothing else.
\<close>

theorem config_entries_roundtrip:
  assumes "length xs \<le> 2048" and "fs path = Some (print_entries xs, False)"
  shows "ng_game_config_load fs path = (True, ng_game_config_init\<lparr>gc_entry := xs\<rparr>)"
proof -
  have "ng_game_config_load_into fs (Suc n) path ng_game_config_init = (True, ng_game_config_init\<lparr>gc_entry := xs\<rparr>)" for n
    using assms by (simp add: parse_print_entries)
  from this [of 8] show ?thesis by (simp add: ng_game_config_load_def)
qed

text \<open>A file that includes itself, and a file with two entry points.\<close>

definition sample_files :: text_files where
  "sample_files = [''loop'' \<mapsto> (''[game]'' @ newline @ ''discovery_files = ['' @ [CHR 0x22] @ ''loop'' @ [CHR 0x22] @ '']'', False),
     ''good'' \<mapsto> (print_entries [0x122, 0x00C00402], False)]"

theorem config_include_cycle_fails_witness: "fst (ng_game_config_load sample_files ''loop'') = False"
proof (rule config_include_cycle_fails [where S = "{''loop''}"])
  have "included_paths sample_files ''loop'' = [''loop'']"
    by (simp add: included_paths_def sample_files_def parse_file_def file_lines.simps fgets_def newline_def
        config_line_def c_string_def trim_left_def isspace_def char_code_def starts_with_def open_section_def
        section_line_def plain_line_def key_starts_array_def array_line_def array_values_def parse_string_values_def
        line_strings.simps append_discovery_file_def parse_start_def ng_game_config_init_def join_path_def dirname_of_def
        last_path_separator_def is_path_separator_def is_absolute_path_def isalpha_def NG_GAME_CONFIG_MAX_PATH_def)
  then show "\<forall>p \<in> {''loop''}. set (included_paths sample_files p) \<inter> {''loop''} \<noteq> {}" by simp
qed simp

theorem config_entries_roundtrip_witness:
  "ng_game_config_load sample_files ''good'' = (True, ng_game_config_init\<lparr>gc_entry := [0x122, 0x00C00402]\<rparr>)"
  by (rule config_entries_roundtrip) (simp_all add: sample_files_def)

end
