(* ===== verification/TextOutput.thy ===== *)
theory TextOutput
  imports Prelude
begin

text \<open>
  The conversions of \<open>printf\<close> the recompiler uses to write text: \<open>%u\<close>, \<open>%d\<close>, \<open>%X\<close> and \<open>%0nX\<close>, and the cut that
  \<open>snprintf\<close> makes at the end of its buffer.
\<close>

definition digit_char :: "nat \<Rightarrow> char" where
  "digit_char d = ''0123456789ABCDEF'' ! d"

function print_base :: "nat \<Rightarrow> nat \<Rightarrow> string" where
  "print_base b n =
     (if b < 2 \<or> n < b then [digit_char n] else print_base b (n div b) @ [digit_char (n mod b)])"
  by pat_completeness auto
termination by (relation "measure snd") auto

declare print_base.simps [simp del]

definition print_dec :: "nat \<Rightarrow> string" where
  "print_dec n = print_base 10 n"

definition print_hex :: "nat \<Rightarrow> string" where
  "print_hex n = print_base 16 n"

definition print_int :: "int \<Rightarrow> string" where
  "print_int z = (if z < 0 then CHR ''-'' # print_dec (nat (- z)) else print_dec (nat z))"

definition zero_pad :: "nat \<Rightarrow> string \<Rightarrow> string" where
  "zero_pad w s = replicate (w - length s) CHR ''0'' @ s"

definition print_hex_width :: "nat \<Rightarrow> nat \<Rightarrow> string" where
  "print_hex_width w n = zero_pad w (print_hex n)"

definition snprintf :: "nat \<Rightarrow> string \<Rightarrow> string" where
  "snprintf out_size s = take (out_size - 1) s"

subsection \<open>Characters and lengths\<close>

definition hex_chars :: "char set" where
  "hex_chars = set ''0123456789ABCDEF''"

lemma digit_char_hex: "d < 16 \<Longrightarrow> digit_char d \<in> hex_chars"
  unfolding digit_char_def hex_chars_def by (rule nth_mem) simp

lemma print_base_chars: "2 \<le> b \<Longrightarrow> b \<le> 16 \<Longrightarrow> set (print_base b n) \<subseteq> hex_chars"
proof (induction b n rule: print_base.induct)
  case (1 b n)
  have "n mod b < b" using 1(2) by (intro mod_less_divisor) simp
  then have "n mod b < 16" using 1(3) by (rule less_le_trans)
  with 1 show ?case
    using digit_char_hex [of n] digit_char_hex [of "n mod b"] by (subst print_base.simps) auto
qed

lemma print_base_length: "2 \<le> b \<Longrightarrow> n < b ^ Suc k \<Longrightarrow> length (print_base b n) \<le> Suc k"
proof (induction k arbitrary: n)
  case (Suc k)
  then have "n div b < b ^ Suc k" by (simp add: less_mult_imp_div_less mult.commute)
  from Suc.IH [OF Suc.prems(1) this] show ?case by (subst print_base.simps) simp
qed (simp add: print_base.simps)

lemma print_base_nonempty: "print_base b n \<noteq> []"
  by (subst print_base.simps) simp

lemma print_chars:
  "set (print_dec n) \<subseteq> hex_chars" "set (print_hex n) \<subseteq> hex_chars" "set (print_hex_width w n) \<subseteq> hex_chars"
  using print_base_chars [of 10 n] print_base_chars [of 16 n]
  by (auto simp: print_dec_def print_hex_def print_hex_width_def zero_pad_def hex_chars_def)

lemma print_int_chars: "set (print_int z) \<subseteq> insert CHR ''-'' hex_chars"
  using print_chars(1) by (auto simp: print_int_def)

lemma print_dec_length: "n < 10 ^ Suc k \<Longrightarrow> length (print_dec n) \<le> Suc k"
  unfolding print_dec_def by (rule print_base_length) simp_all

lemma print_hex_length: "n < 16 ^ Suc k \<Longrightarrow> length (print_hex n) \<le> Suc k"
  unfolding print_hex_def by (rule print_base_length) simp_all

lemma print_hex_width_length: "n < 16 ^ Suc k \<Longrightarrow> Suc k \<le> w \<Longrightarrow> length (print_hex_width w n) = w"
  using print_hex_length [of n k] by (simp add: print_hex_width_def zero_pad_def)

lemma snprintf_fits: "length s < out_size \<Longrightarrow> snprintf out_size s = s"
  by (simp add: snprintf_def)

lemma set_snprintf: "set (snprintf out_size s) \<subseteq> set s"
  by (auto simp: snprintf_def dest: in_set_takeD)

end
