(* ===== verification/M68kFormat.thy ===== *)
theory M68kFormat
  imports M68kInstr TextOutput
begin

text \<open>
  The disassembler of \<open>m68k_decode.c\<close>: the names of the mnemonics, the text of an operand, and \<open>ng_m68k_format\<close>,
  whose text goes into the listings of the command line and into a comment of the generated C.
\<close>

definition ng_m68k_mnemonic_name :: "ng_m68k_mnemonic \<Rightarrow> string" where
  "ng_m68k_mnemonic_name mnemonic =
     (case mnemonic of
        NG_M68K_INVALID \<Rightarrow> ''INVALID'' | NG_M68K_UNKNOWN \<Rightarrow> ''UNKNOWN'' | NG_M68K_NOP \<Rightarrow> ''NOP''
      | NG_M68K_ILLEGAL \<Rightarrow> ''ILLEGAL'' | NG_M68K_RESET \<Rightarrow> ''RESET'' | NG_M68K_STOP \<Rightarrow> ''STOP''
      | NG_M68K_RTS \<Rightarrow> ''RTS'' | NG_M68K_RTE \<Rightarrow> ''RTE'' | NG_M68K_RTR \<Rightarrow> ''RTR''
      | NG_M68K_TRAP \<Rightarrow> ''TRAP'' | NG_M68K_TRAPV \<Rightarrow> ''TRAPV'' | NG_M68K_JMP \<Rightarrow> ''JMP''
      | NG_M68K_JSR \<Rightarrow> ''JSR'' | NG_M68K_LINK \<Rightarrow> ''LINK'' | NG_M68K_UNLK \<Rightarrow> ''UNLK''
      | NG_M68K_BRA \<Rightarrow> ''BRA'' | NG_M68K_BSR \<Rightarrow> ''BSR'' | NG_M68K_BCC \<Rightarrow> ''BCC''
      | NG_M68K_SCC \<Rightarrow> ''SCC'' | NG_M68K_DBCC \<Rightarrow> ''DBCC'' | NG_M68K_CHK \<Rightarrow> ''CHK''
      | NG_M68K_LEA \<Rightarrow> ''LEA'' | NG_M68K_MOVEA \<Rightarrow> ''MOVEA'' | NG_M68K_MOVEQ \<Rightarrow> ''MOVEQ''
      | NG_M68K_MOVE \<Rightarrow> ''MOVE'' | NG_M68K_MOVEM \<Rightarrow> ''MOVEM'' | NG_M68K_MOVEP \<Rightarrow> ''MOVEP''
      | NG_M68K_MOVE_SR \<Rightarrow> ''MOVE_SR'' | NG_M68K_MOVE_CCR \<Rightarrow> ''MOVE_CCR'' | NG_M68K_MOVE_USP \<Rightarrow> ''MOVE_USP''
      | NG_M68K_ADD \<Rightarrow> ''ADD'' | NG_M68K_ADDA \<Rightarrow> ''ADDA'' | NG_M68K_ADDQ \<Rightarrow> ''ADDQ''
      | NG_M68K_ADDX \<Rightarrow> ''ADDX'' | NG_M68K_ABCD \<Rightarrow> ''ABCD'' | NG_M68K_SUB \<Rightarrow> ''SUB''
      | NG_M68K_SUBA \<Rightarrow> ''SUBA'' | NG_M68K_SUBQ \<Rightarrow> ''SUBQ'' | NG_M68K_SUBX \<Rightarrow> ''SUBX''
      | NG_M68K_SBCD \<Rightarrow> ''SBCD'' | NG_M68K_CMP \<Rightarrow> ''CMP'' | NG_M68K_CMPA \<Rightarrow> ''CMPA''
      | NG_M68K_CMPM \<Rightarrow> ''CMPM'' | NG_M68K_OR \<Rightarrow> ''OR'' | NG_M68K_AND \<Rightarrow> ''AND''
      | NG_M68K_EOR \<Rightarrow> ''EOR'' | NG_M68K_MULU \<Rightarrow> ''MULU'' | NG_M68K_MULS \<Rightarrow> ''MULS''
      | NG_M68K_DIVU \<Rightarrow> ''DIVU'' | NG_M68K_DIVS \<Rightarrow> ''DIVS'' | NG_M68K_EXG \<Rightarrow> ''EXG''
      | NG_M68K_CLR \<Rightarrow> ''CLR'' | NG_M68K_NEG \<Rightarrow> ''NEG'' | NG_M68K_NEGX \<Rightarrow> ''NEGX''
      | NG_M68K_NBCD \<Rightarrow> ''NBCD'' | NG_M68K_NOT \<Rightarrow> ''NOT'' | NG_M68K_EXT \<Rightarrow> ''EXT''
      | NG_M68K_SWAP \<Rightarrow> ''SWAP'' | NG_M68K_ASL \<Rightarrow> ''ASL'' | NG_M68K_ASR \<Rightarrow> ''ASR''
      | NG_M68K_LSL \<Rightarrow> ''LSL'' | NG_M68K_LSR \<Rightarrow> ''LSR'' | NG_M68K_ROXL \<Rightarrow> ''ROXL''
      | NG_M68K_ROXR \<Rightarrow> ''ROXR'' | NG_M68K_ROL \<Rightarrow> ''ROL'' | NG_M68K_ROR \<Rightarrow> ''ROR''
      | NG_M68K_PEA \<Rightarrow> ''PEA'' | NG_M68K_TST \<Rightarrow> ''TST'' | NG_M68K_TAS \<Rightarrow> ''TAS''
      | NG_M68K_ADDI \<Rightarrow> ''ADDI'' | NG_M68K_SUBI \<Rightarrow> ''SUBI'' | NG_M68K_CMPI \<Rightarrow> ''CMPI''
      | NG_M68K_ORI \<Rightarrow> ''ORI'' | NG_M68K_ANDI \<Rightarrow> ''ANDI'' | NG_M68K_EORI \<Rightarrow> ''EORI''
      | NG_M68K_BTST \<Rightarrow> ''BTST'' | NG_M68K_BCHG \<Rightarrow> ''BCHG'' | NG_M68K_BCLR \<Rightarrow> ''BCLR''
      | NG_M68K_BSET \<Rightarrow> ''BSET'' | NG_M68K_ORI_TO_CCR \<Rightarrow> ''ORI_CCR'' | NG_M68K_ORI_TO_SR \<Rightarrow> ''ORI_SR''
      | NG_M68K_ANDI_TO_CCR \<Rightarrow> ''ANDI_CCR'' | NG_M68K_ANDI_TO_SR \<Rightarrow> ''ANDI_SR'' | NG_M68K_EORI_TO_CCR \<Rightarrow> ''EORI_CCR''
      | NG_M68K_EORI_TO_SR \<Rightarrow> ''EORI_SR'')"

definition imm_sr_ccr_op_name :: "ng_m68k_mnemonic \<Rightarrow> string" where
  "imm_sr_ccr_op_name mnemonic =
     (if mnemonic = NG_M68K_ORI_TO_CCR \<or> mnemonic = NG_M68K_ORI_TO_SR then ''ORI''
      else if mnemonic = NG_M68K_ANDI_TO_CCR \<or> mnemonic = NG_M68K_ANDI_TO_SR then ''ANDI''
      else if mnemonic = NG_M68K_EORI_TO_CCR \<or> mnemonic = NG_M68K_EORI_TO_SR then ''EORI''
      else ''?'')"

definition imm_sr_ccr_dst_name :: "ng_m68k_mnemonic \<Rightarrow> string" where
  "imm_sr_ccr_dst_name mnemonic =
     (if mnemonic = NG_M68K_ORI_TO_CCR \<or> mnemonic = NG_M68K_ANDI_TO_CCR \<or> mnemonic = NG_M68K_EORI_TO_CCR then ''CCR''
      else if mnemonic = NG_M68K_ORI_TO_SR \<or> mnemonic = NG_M68K_ANDI_TO_SR \<or> mnemonic = NG_M68K_EORI_TO_SR then ''SR''
      else ''?'')"

text \<open>The conversions of the format strings: \<open>%u\<close> of a register, \<open>%06X\<close> of an address, \<open>%X\<close> of a displacement.\<close>

definition reg_text :: "u8 \<Rightarrow> string" where
  "reg_text r = print_dec (unat r)"

definition addr_text :: "u32 \<Rightarrow> string" where
  "addr_text a = CHR ''$'' # print_hex_width 6 (unat (a AND 0xFFFFFF))"

definition disp_text :: "u16 \<Rightarrow> string" where
  "disp_text d = CHR ''$'' # print_hex (unat d)"

definition index_text :: "ng_m68k_ea \<Rightarrow> string" where
  "index_text ea =
     (if ea_index_is_addr ea \<noteq> 0 then ''A'' else ''D'') @ reg_text (ea_index_reg ea) @
     (if ea_index_is_long ea \<noteq> 0 then ''.L'' else ''.W'')"

definition format_ea_operand :: "ng_m68k_ea \<Rightarrow> nat \<Rightarrow> string" where
  "format_ea_operand ea out_size = snprintf out_size
     (case ea_mode ea of
        NG_M68K_EA_DREG \<Rightarrow> ''D'' @ reg_text (ea_reg ea)
      | NG_M68K_EA_AREG \<Rightarrow> ''A'' @ reg_text (ea_reg ea)
      | NG_M68K_EA_AIND \<Rightarrow> ''(A'' @ reg_text (ea_reg ea) @ '')''
      | NG_M68K_EA_APOST \<Rightarrow> ''(A'' @ reg_text (ea_reg ea) @ '')+''
      | NG_M68K_EA_APRE \<Rightarrow> ''-(A'' @ reg_text (ea_reg ea) @ '')''
      | NG_M68K_EA_ADISP \<Rightarrow> ''('' @ disp_text (ea_displacement ea) @ '',A'' @ reg_text (ea_reg ea) @ '')''
      | NG_M68K_EA_AINDEX \<Rightarrow>
          ''($'' @ print_hex (unat (ucast (ea_displacement ea) :: u8)) @ '',A'' @ reg_text (ea_reg ea) @ '','' @
          index_text ea @ '')''
      | NG_M68K_EA_ABS_W \<Rightarrow> addr_text (ea_absolute_addr ea)
      | NG_M68K_EA_ABS_L \<Rightarrow> addr_text (ea_absolute_addr ea)
      | NG_M68K_EA_PC_DISP \<Rightarrow> ''('' @ addr_text (ea_absolute_addr ea) @ '',PC)''
      | NG_M68K_EA_PC_INDEX \<Rightarrow> ''('' @ addr_text (ea_absolute_addr ea) @ '',PC,'' @ index_text ea @ '')''
      | NG_M68K_EA_IMM \<Rightarrow> ''#$'' @ print_hex (unat (ea_immediate ea))
      | NG_M68K_EA_NONE \<Rightarrow> ''?'')"

text \<open>The two operands in their 64-byte buffers, the size letters, and the texts several cases share.\<close>

definition src_text :: "ng_m68k_instr \<Rightarrow> string" where
  "src_text i = format_ea_operand (i_src i) 64"

definition dst_text :: "ng_m68k_instr \<Rightarrow> string" where
  "dst_text i = format_ea_operand (i_dst i) 64"

definition size_wl :: "ng_m68k_instr \<Rightarrow> string" where
  "size_wl i = (if i_size i = NG_M68K_SIZE_LONG then ''.L '' else ''.W '')"

definition size_bwl :: "ng_m68k_instr \<Rightarrow> string" where
  "size_bwl i = (if i_size i = NG_M68K_SIZE_BYTE then ''.B '' else size_wl i)"

definition no_src :: "ng_m68k_instr \<Rightarrow> bool" where
  "no_src i \<longleftrightarrow> ea_mode (i_src i) = NG_M68K_EA_NONE"

definition no_dst :: "ng_m68k_instr \<Rightarrow> bool" where
  "no_dst i \<longleftrightarrow> ea_mode (i_dst i) = NG_M68K_EA_NONE"

definition name_text :: "ng_m68k_instr \<Rightarrow> string" where
  "name_text i = ng_m68k_mnemonic_name (i_mnemonic i)"

definition imm_text :: "ng_m68k_instr \<Rightarrow> string" where
  "imm_text i = ''#$'' @ print_hex (unat (i_immediate i))"

definition count_text :: "ng_m68k_instr \<Rightarrow> string" where
  "count_text i = ''#'' @ print_dec (unat (i_immediate i))"

definition mask_text :: "ng_m68k_instr \<Rightarrow> string" where
  "mask_text i = ''#$'' @ print_hex_width 4 (unat (i_immediate i AND 0xFFFF))"

definition dreg_text :: "u8 \<Rightarrow> string" where
  "dreg_text r = ''D'' @ reg_text r"

definition areg_text :: "u8 \<Rightarrow> string" where
  "areg_text r = ''A'' @ reg_text r"

definition format_illegal :: "ng_m68k_instr \<Rightarrow> string" where
  "format_illegal i =
     (if i_immediate i = 10 then ''A-LINE $'' @ print_hex_width 4 (unat (i_opcode i))
      else if i_immediate i = 11 then ''F-LINE $'' @ print_hex_width 4 (unat (i_opcode i))
      else ''ILLEGAL'')"

definition format_jump :: "ng_m68k_instr \<Rightarrow> string" where
  "format_jump i =
     (if \<not> no_src i \<and> i_form i \<noteq> NG_M68K_FORM_ABS \<and> i_form i \<noteq> NG_M68K_FORM_PC_RELATIVE
      then name_text i @ '' '' @ src_text i
      else name_text i @ '' '' @ addr_text (i_target i))"

definition format_scc :: "ng_m68k_instr \<Rightarrow> string" where
  "format_scc i = ''Scc.'' @ print_hex (unat (i_condition i)) @ '' '' @ (if \<not> no_dst i then dst_text i else ''?'')"

definition format_chk :: "ng_m68k_instr \<Rightarrow> string" where
  "format_chk i = ''CHK.W '' @ (if \<not> no_src i then src_text i else ''?'') @ '','' @ dreg_text (i_reg i)"

definition format_lea :: "ng_m68k_instr \<Rightarrow> string" where
  "format_lea i = ''LEA '' @ (if \<not> no_src i then src_text i else addr_text (i_target i)) @ '','' @ areg_text (i_reg i)"

definition format_movea :: "ng_m68k_instr \<Rightarrow> string" where
  "format_movea i = ''MOVEA'' @ size_wl i @
     (if i_form i = NG_M68K_FORM_PC_INDEX_TO_AREG
      then ''('' @ addr_text (i_target i) @ '',PC,D'' @ reg_text (i_src_reg i) @ ''.W),'' @ areg_text (i_reg i)
      else src_text i @ '','' @ dst_text i)"

definition format_movem :: "ng_m68k_instr \<Rightarrow> string" where
  "format_movem i = ''MOVEM'' @ size_wl i @
     (if \<not> no_dst i then mask_text i @ '','' @ dst_text i
      else if \<not> no_src i then src_text i @ '','' @ mask_text i
      else mask_text i @ '',?'')"

definition format_movep :: "ng_m68k_instr \<Rightarrow> string" where
  "format_movep i = ''MOVEP'' @ size_wl i @
     (if ea_mode (i_src i) = NG_M68K_EA_DREG
      then dreg_text (ea_reg (i_src i)) @ '',('' @ disp_text (ea_displacement (i_dst i)) @ '','' @
           areg_text (ea_reg (i_dst i)) @ '')''
      else ''('' @ disp_text (ea_displacement (i_src i)) @ '','' @ areg_text (ea_reg (i_src i)) @ ''),'' @
           dreg_text (ea_reg (i_dst i)))"

definition format_move_sr :: "ng_m68k_instr \<Rightarrow> string" where
  "format_move_sr i =
     (let sr = (if i_mnemonic i = NG_M68K_MOVE_SR then ''SR'' else ''CCR'')
      in if \<not> no_dst i then ''MOVE '' @ sr @ '','' @ dst_text i
         else if \<not> no_src i then ''MOVE '' @ src_text i @ '','' @ sr
         else ''MOVE ?,'' @ sr)"

definition format_move_usp :: "ng_m68k_instr \<Rightarrow> string" where
  "format_move_usp i =
     (if ea_mode (i_src i) = NG_M68K_EA_AREG then ''MOVE '' @ areg_text (ea_reg (i_src i)) @ '',USP''
      else if ea_mode (i_dst i) = NG_M68K_EA_AREG then ''MOVE USP,'' @ areg_text (ea_reg (i_dst i))
      else ''MOVE USP,?'')"

definition format_bit_op :: "ng_m68k_instr \<Rightarrow> string" where
  "format_bit_op i = name_text i @ '' '' @
     (if \<not> no_dst i
      then (if ea_mode (i_src i) = NG_M68K_EA_DREG then dreg_text (ea_reg (i_src i)) else count_text i) @ '','' @ dst_text i
      else count_text i @ '','' @ addr_text (i_absolute_addr i))"

definition format_imm_sr_ccr :: "ng_m68k_instr \<Rightarrow> string" where
  "format_imm_sr_ccr i = imm_sr_ccr_op_name (i_mnemonic i) @ '' #$'' @
     print_hex_width (if i_size i = NG_M68K_SIZE_BYTE then 2 else 4) (unat (i_immediate i)) @ '','' @
     imm_sr_ccr_dst_name (i_mnemonic i)"

definition format_move :: "ng_m68k_instr \<Rightarrow> string" where
  "format_move i = ''MOVE'' @
     (case i_form i of
        NG_M68K_FORM_IMM_TO_ABS \<Rightarrow> size_bwl i @ imm_text i @ '','' @ addr_text (i_absolute_addr i)
      | NG_M68K_FORM_AREG_TO_ABS \<Rightarrow> size_wl i @ areg_text (i_reg i) @ '','' @ addr_text (i_absolute_addr i)
      | NG_M68K_FORM_DREG_TO_ABS \<Rightarrow> size_bwl i @ dreg_text (i_reg i) @ '','' @ addr_text (i_absolute_addr i)
      | NG_M68K_FORM_AREG_DISP \<Rightarrow>
          size_bwl i @ ''('' @ disp_text (i_displacement i) @ '','' @ areg_text (i_src_reg i) @ ''),'' @ dreg_text (i_reg i)
      | NG_M68K_FORM_ABS_TO_DREG \<Rightarrow> size_bwl i @ addr_text (i_absolute_addr i) @ '','' @ dreg_text (i_reg i)
      | NG_M68K_FORM_DREG_TO_DREG \<Rightarrow> size_bwl i @ dreg_text (i_src_reg i) @ '','' @ dreg_text (i_reg i)
      | _ \<Rightarrow>
          if \<not> no_src i \<and> \<not> no_dst i then size_bwl i @ src_text i @ '','' @ dst_text i
          else size_bwl i @ imm_text i @ '','' @ dreg_text (i_reg i))"

definition format_address_op :: "ng_m68k_instr \<Rightarrow> string" where
  "format_address_op i = name_text i @ size_wl i @
     (if \<not> no_src i then src_text i @ '','' @ areg_text (ea_reg (i_dst i))
      else addr_text (i_absolute_addr i) @ '','' @ areg_text (i_reg i))"

definition format_logic_op :: "ng_m68k_instr \<Rightarrow> string" where
  "format_logic_op i =
     (if \<not> no_src i \<and> \<not> no_dst i then name_text i @ size_bwl i @ src_text i @ '','' @ dst_text i else name_text i)"

definition format_mul_div :: "ng_m68k_instr \<Rightarrow> string" where
  "format_mul_div i = name_text i @ ''.W '' @
     (if \<not> no_src i then src_text i @ '','' @ dreg_text (ea_reg (i_dst i)) else ''?,'' @ dreg_text (i_reg i))"

definition format_exg :: "ng_m68k_instr \<Rightarrow> string" where
  "format_exg i = (if \<not> no_src i \<and> \<not> no_dst i then ''EXG '' @ src_text i @ '','' @ dst_text i else ''EXG ?'')"

definition format_add_op :: "ng_m68k_instr \<Rightarrow> string" where
  "format_add_op i = name_text i @ size_bwl i @
     (if \<not> no_src i \<and> \<not> no_dst i then src_text i @ '','' @ dst_text i
      else dreg_text (i_src_reg i) @ '','' @ dreg_text (i_reg i))"

definition format_extended_op :: "ng_m68k_instr \<Rightarrow> string" where
  "format_extended_op i = name_text i @ size_bwl i @
     (if ea_mode (i_src i) = NG_M68K_EA_APRE \<and> ea_mode (i_dst i) = NG_M68K_EA_APRE
      then ''-('' @ areg_text (ea_reg (i_src i)) @ ''),-('' @ areg_text (ea_reg (i_dst i)) @ '')''
      else dreg_text (i_src_reg i) @ '','' @ dreg_text (i_reg i))"

definition format_quick_op :: "ng_m68k_instr \<Rightarrow> string" where
  "format_quick_op i = name_text i @ size_bwl i @ count_text i @ '','' @
     (if \<not> no_dst i then dst_text i else dreg_text (i_reg i))"

definition format_clr :: "ng_m68k_instr \<Rightarrow> string" where
  "format_clr i = ''CLR'' @ size_bwl i @
     (if i_form i = NG_M68K_FORM_DREG then dreg_text (i_reg i)
      else if \<not> no_dst i then dst_text i
      else addr_text (i_absolute_addr i))"

definition format_unary_op :: "ng_m68k_instr \<Rightarrow> string" where
  "format_unary_op i = name_text i @ size_bwl i @
     (if \<not> no_dst i then dst_text i
      else if i_form i = NG_M68K_FORM_DREG then dreg_text (i_reg i)
      else addr_text (i_absolute_addr i))"

definition format_shift :: "ng_m68k_instr \<Rightarrow> string" where
  "format_shift i =
     (if ea_mode (i_dst i) \<noteq> NG_M68K_EA_DREG then name_text i @ ''.W '' @ dst_text i
      else if ea_mode (i_src i) = NG_M68K_EA_DREG
      then name_text i @ size_bwl i @ dreg_text (ea_reg (i_src i)) @ '','' @ dreg_text (ea_reg (i_dst i))
      else name_text i @ size_bwl i @ count_text i @ '','' @ dreg_text (ea_reg (i_dst i)))"

definition format_tst :: "ng_m68k_instr \<Rightarrow> string" where
  "format_tst i = ''TST'' @ size_bwl i @
     (if \<not> no_src i then src_text i
      else if i_form i = NG_M68K_FORM_AREG_DISP then ''('' @ disp_text (i_displacement i) @ '','' @ areg_text (i_reg i) @ '')''
      else addr_text (i_absolute_addr i))"

definition format_imm_arith :: "ng_m68k_instr \<Rightarrow> string" where
  "format_imm_arith i = name_text i @ size_bwl i @ imm_text i @ '','' @
     (if \<not> no_dst i then dst_text i else dreg_text (i_reg i))"

definition format_imm_logic :: "ng_m68k_instr \<Rightarrow> string" where
  "format_imm_logic i =
     (if \<not> no_dst i then name_text i @ size_bwl i @ imm_text i @ '','' @ dst_text i
      else if i_form i = NG_M68K_FORM_AREG_DISP
      then name_text i @ size_bwl i @ imm_text i @ '',('' @ disp_text (i_displacement i) @ '','' @ areg_text (i_reg i) @ '')''
      else name_text i)"

text \<open>The whole text, before the cut at the end of the caller's buffer.\<close>

definition instr_text :: "ng_m68k_instr \<Rightarrow> string" where
  "instr_text i =
     (case i_mnemonic i of
        NG_M68K_NOP \<Rightarrow> name_text i
      | NG_M68K_RTS \<Rightarrow> name_text i
      | NG_M68K_RTE \<Rightarrow> name_text i
      | NG_M68K_RTR \<Rightarrow> name_text i
      | NG_M68K_RESET \<Rightarrow> name_text i
      | NG_M68K_TRAPV \<Rightarrow> name_text i
      | NG_M68K_ILLEGAL \<Rightarrow> format_illegal i
      | NG_M68K_STOP \<Rightarrow> ''STOP '' @ mask_text i
      | NG_M68K_TRAP \<Rightarrow> ''TRAP #'' @ print_dec (unat (i_immediate i AND 0x0F))
      | NG_M68K_JMP \<Rightarrow> format_jump i
      | NG_M68K_JSR \<Rightarrow> format_jump i
      | NG_M68K_LINK \<Rightarrow> ''LINK '' @ areg_text (i_reg i) @ '',#'' @ print_int (sint (i_displacement i))
      | NG_M68K_UNLK \<Rightarrow> ''UNLK '' @ areg_text (i_reg i)
      | NG_M68K_BRA \<Rightarrow> name_text i @ '' '' @ addr_text (i_target i)
      | NG_M68K_BSR \<Rightarrow> name_text i @ '' '' @ addr_text (i_target i)
      | NG_M68K_BCC \<Rightarrow> ''Bcc.'' @ print_hex (unat (i_condition i)) @ '' '' @ addr_text (i_target i)
      | NG_M68K_SCC \<Rightarrow> format_scc i
      | NG_M68K_DBCC \<Rightarrow> ''DBcc.'' @ print_hex (unat (i_condition i)) @ '' '' @ dreg_text (i_reg i) @ '','' @ addr_text (i_target i)
      | NG_M68K_CHK \<Rightarrow> format_chk i
      | NG_M68K_LEA \<Rightarrow> format_lea i
      | NG_M68K_MOVEA \<Rightarrow> format_movea i
      | NG_M68K_MOVEQ \<Rightarrow> ''MOVEQ #'' @ print_int (sint (i_immediate i)) @ '','' @ dreg_text (i_reg i)
      | NG_M68K_MOVEM \<Rightarrow> format_movem i
      | NG_M68K_MOVEP \<Rightarrow> format_movep i
      | NG_M68K_MOVE_SR \<Rightarrow> format_move_sr i
      | NG_M68K_MOVE_CCR \<Rightarrow> format_move_sr i
      | NG_M68K_MOVE_USP \<Rightarrow> format_move_usp i
      | NG_M68K_BTST \<Rightarrow> format_bit_op i
      | NG_M68K_BCHG \<Rightarrow> format_bit_op i
      | NG_M68K_BCLR \<Rightarrow> format_bit_op i
      | NG_M68K_BSET \<Rightarrow> format_bit_op i
      | NG_M68K_ORI_TO_CCR \<Rightarrow> format_imm_sr_ccr i
      | NG_M68K_ORI_TO_SR \<Rightarrow> format_imm_sr_ccr i
      | NG_M68K_ANDI_TO_CCR \<Rightarrow> format_imm_sr_ccr i
      | NG_M68K_ANDI_TO_SR \<Rightarrow> format_imm_sr_ccr i
      | NG_M68K_EORI_TO_CCR \<Rightarrow> format_imm_sr_ccr i
      | NG_M68K_EORI_TO_SR \<Rightarrow> format_imm_sr_ccr i
      | NG_M68K_MOVE \<Rightarrow> format_move i
      | NG_M68K_ADDA \<Rightarrow> format_address_op i
      | NG_M68K_SUBA \<Rightarrow> format_address_op i
      | NG_M68K_CMPA \<Rightarrow> format_address_op i
      | NG_M68K_OR \<Rightarrow> format_logic_op i
      | NG_M68K_AND \<Rightarrow> format_logic_op i
      | NG_M68K_EOR \<Rightarrow> format_logic_op i
      | NG_M68K_MULU \<Rightarrow> format_mul_div i
      | NG_M68K_MULS \<Rightarrow> format_mul_div i
      | NG_M68K_DIVU \<Rightarrow> format_mul_div i
      | NG_M68K_DIVS \<Rightarrow> format_mul_div i
      | NG_M68K_EXG \<Rightarrow> format_exg i
      | NG_M68K_ADD \<Rightarrow> format_add_op i
      | NG_M68K_SUB \<Rightarrow> format_add_op i
      | NG_M68K_CMP \<Rightarrow> format_add_op i
      | NG_M68K_CMPM \<Rightarrow> ''CMPM'' @ size_bwl i @ ''('' @ areg_text (ea_reg (i_src i)) @ '')+,('' @ areg_text (ea_reg (i_dst i)) @ '')+''
      | NG_M68K_ADDX \<Rightarrow> format_extended_op i
      | NG_M68K_SUBX \<Rightarrow> format_extended_op i
      | NG_M68K_ABCD \<Rightarrow> format_extended_op i
      | NG_M68K_SBCD \<Rightarrow> format_extended_op i
      | NG_M68K_ADDQ \<Rightarrow> format_quick_op i
      | NG_M68K_SUBQ \<Rightarrow> format_quick_op i
      | NG_M68K_CLR \<Rightarrow> format_clr i
      | NG_M68K_NEG \<Rightarrow> format_unary_op i
      | NG_M68K_NEGX \<Rightarrow> format_unary_op i
      | NG_M68K_NBCD \<Rightarrow> format_unary_op i
      | NG_M68K_NOT \<Rightarrow> format_unary_op i
      | NG_M68K_EXT \<Rightarrow> ''EXT'' @ size_wl i @ dreg_text (i_reg i)
      | NG_M68K_SWAP \<Rightarrow> ''SWAP '' @ dreg_text (i_reg i)
      | NG_M68K_ASL \<Rightarrow> format_shift i
      | NG_M68K_ASR \<Rightarrow> format_shift i
      | NG_M68K_LSL \<Rightarrow> format_shift i
      | NG_M68K_LSR \<Rightarrow> format_shift i
      | NG_M68K_ROXL \<Rightarrow> format_shift i
      | NG_M68K_ROXR \<Rightarrow> format_shift i
      | NG_M68K_ROL \<Rightarrow> format_shift i
      | NG_M68K_ROR \<Rightarrow> format_shift i
      | NG_M68K_PEA \<Rightarrow> ''PEA '' @ (if \<not> no_src i then src_text i else ''?'')
      | NG_M68K_TST \<Rightarrow> format_tst i
      | NG_M68K_TAS \<Rightarrow> ''TAS '' @ (if \<not> no_dst i then dst_text i else ''?'')
      | NG_M68K_ADDI \<Rightarrow> format_imm_arith i
      | NG_M68K_SUBI \<Rightarrow> format_imm_arith i
      | NG_M68K_CMPI \<Rightarrow> format_imm_arith i
      | NG_M68K_ORI \<Rightarrow> format_imm_logic i
      | NG_M68K_ANDI \<Rightarrow> format_imm_logic i
      | NG_M68K_EORI \<Rightarrow> format_imm_logic i
      | NG_M68K_UNKNOWN \<Rightarrow> ''DC.W $'' @ print_hex_width 4 (unat (i_opcode i))
      | NG_M68K_INVALID \<Rightarrow> ''INVALID'')"

definition ng_m68k_format :: "ng_m68k_instr \<Rightarrow> nat \<Rightarrow> string" where
  "ng_m68k_format i out_size = snprintf out_size (instr_text i)"

end
