(* ===== verification/M68kFormatProps.thy ===== *)
theory M68kFormatProps
  imports M68kFormat M68kValidateProps
begin

text \<open>
  The text of an instruction: no buffer cuts it, it cannot end the comment of the generated C it is put into, and
  for a decoded instruction it never shows the question mark that stands for a missing operand.
\<close>

subsection \<open>Lengths\<close>

lemma unat_lt: "unat (r :: u8) < 256" "unat (d :: u16) < 65536" "unat (a :: u32) < 4294967296"
  using unsigned_less [of r] unsigned_less [of d] unsigned_less [of a] by simp_all

lemma reg_text_length: "length (reg_text r) \<le> 3"
  using print_dec_length [of "unat r" 2] unat_lt(1) [of r] by (simp add: reg_text_def)

lemma addr_text_length: "length (addr_text a) = 7"
proof -
  have "a AND 0xFFFFFF \<le> 0xFFFFFF" by (rule word_and_le1)
  then have "unat (a AND 0xFFFFFF) < 16 ^ Suc 5" by (simp add: word_le_nat_alt)
  from print_hex_width_length [OF this, of 6] show ?thesis by (simp add: addr_text_def)
qed

lemma disp_text_length: "length (disp_text d) \<le> 5"
  using print_hex_length [of "unat d" 3] unat_lt(2) [of d] by (simp add: disp_text_def)

lemma hex_lengths: "length (print_hex (unat (r :: u8))) \<le> 2" "length (print_hex (unat (w :: u32))) \<le> 8"
  "length (print_hex_width 4 (unat (d :: u16))) = 4"
  using print_hex_length [of "unat r" 1] unat_lt(1) [of r] print_hex_length [of "unat w" 7] unat_lt(3) [of w]
    print_hex_width_length [of "unat d" 3 4] unat_lt(2) [of d] by simp_all

lemma index_text_length: "length (index_text ea) \<le> 6"
  using reg_text_length [of "ea_index_reg ea"] by (simp add: index_text_def)

lemma operand_length: "length (format_ea_operand ea n) \<le> 20"
proof -
  have "length (format_ea_operand ea n) \<le> length (format_ea_operand ea 64)" if "length (format_ea_operand ea 64) \<le> 20"
    using that by (auto simp: format_ea_operand_def snprintf_def)
  moreover have "length (format_ea_operand ea 64) \<le> 20"
    using reg_text_length [of "ea_reg ea"] index_text_length [of ea] addr_text_length [of "ea_absolute_addr ea"]
      disp_text_length [of "ea_displacement ea"] hex_lengths(1) [of "ucast (ea_displacement ea)"]
      hex_lengths(2) [of "ea_immediate ea"]
    by (cases "ea_mode ea") (simp_all add: format_ea_operand_def snprintf_def)
  ultimately show ?thesis by simp
qed

lemma name_length: "length (ng_m68k_mnemonic_name m) \<le> 8"
  by (cases m) (simp_all add: ng_m68k_mnemonic_name_def)

lemma print_int_length: "- (10 ^ Suc k) < z \<Longrightarrow> z < 10 ^ Suc k \<Longrightarrow> length (print_int z) \<le> Suc (Suc k)"
proof -
  assume "- (10 ^ Suc k) < z" "z < 10 ^ Suc k"
  then have "nat (- z) < nat (10 ^ Suc k)" "nat z < nat (10 ^ Suc k)" unfolding zless_nat_conj by auto
  then have "nat (- z) < 10 ^ Suc k" "nat z < 10 ^ Suc k" by (simp_all only: nat_power_eq nat_numeral zero_le_numeral)
  then show ?thesis
    using print_dec_length [of "nat (- z)" k] print_dec_length [of "nat z" k] by (auto simp: print_int_def)
qed

lemma piece_lengths:
  "length (name_text i) \<le> 8" "length (src_text i) \<le> 20" "length (dst_text i) \<le> 20" "length (size_wl i) = 3"
  "length (size_bwl i) = 3" "length (imm_text i) \<le> 10" "length (count_text i) \<le> 11" "length (mask_text i) = 6"
proof -
  show "length (name_text i) \<le> 8" "length (src_text i) \<le> 20" "length (dst_text i) \<le> 20"
    by (simp_all add: name_text_def src_text_def dst_text_def name_length operand_length)
  show "length (size_wl i) = 3" "length (size_bwl i) = 3" by (simp_all add: size_bwl_def size_wl_def)
  show "length (imm_text i) \<le> 10" using hex_lengths(2) [of "i_immediate i"] by (simp add: imm_text_def)
  show "length (count_text i) \<le> 11"
    using print_dec_length [of "unat (i_immediate i)" 9] unat_lt(3) [of "i_immediate i"] by (simp add: count_text_def)
  have "i_immediate i AND 0xFFFF \<le> 0xFFFF" by (rule word_and_le1)
  then have "unat (i_immediate i AND 0xFFFF) < 16 ^ Suc 3" by (simp add: word_le_nat_alt)
  from print_hex_width_length [OF this, of 4] show "length (mask_text i) = 6" by (simp add: mask_text_def)
qed

lemma reg_lengths: "length (dreg_text r) \<le> 4" "length (areg_text r) \<le> 4"
  using reg_text_length [of r] by (simp_all add: dreg_text_def areg_text_def)

lemma format_lengths:
  "length (format_illegal i) \<le> 60" "length (format_jump i) \<le> 60" "length (format_scc i) \<le> 60"
  "length (format_chk i) \<le> 60" "length (format_lea i) \<le> 60" "length (format_movea i) \<le> 60"
  "length (format_movem i) \<le> 60" "length (format_movep i) \<le> 60" "length (format_move_sr i) \<le> 60"
  "length (format_move_usp i) \<le> 60" "length (format_bit_op i) \<le> 60" "length (format_imm_sr_ccr i) \<le> 60"
  "length (format_move i) \<le> 60" "length (format_address_op i) \<le> 60" "length (format_logic_op i) \<le> 60"
  "length (format_mul_div i) \<le> 60" "length (format_exg i) \<le> 60" "length (format_add_op i) \<le> 60"
  "length (format_extended_op i) \<le> 60" "length (format_quick_op i) \<le> 60" "length (format_clr i) \<le> 60"
  "length (format_unary_op i) \<le> 60" "length (format_shift i) \<le> 60" "length (format_tst i) \<le> 60"
  "length (format_imm_arith i) \<le> 60" "length (format_imm_logic i) \<le> 60"
proof -
  note p = piece_lengths [of i] reg_lengths [of "i_reg i"] reg_lengths [of "i_src_reg i"] reg_lengths [of "ea_reg (i_src i)"]
    reg_lengths [of "ea_reg (i_dst i)"] addr_text_length disp_text_length [of "i_displacement i"]
    disp_text_length [of "ea_displacement (i_src i)"] disp_text_length [of "ea_displacement (i_dst i)"]
    hex_lengths(3) [of "i_opcode i"] hex_lengths(1) [of "i_condition i"] reg_text_length [of "i_src_reg i"]
  show "length (format_illegal i) \<le> 60" "length (format_jump i) \<le> 60" "length (format_scc i) \<le> 60"
    "length (format_chk i) \<le> 60" "length (format_lea i) \<le> 60"
    using p by (simp_all add: format_illegal_def format_jump_def format_scc_def format_chk_def format_lea_def)
  show "length (format_movea i) \<le> 60" "length (format_movem i) \<le> 60" "length (format_movep i) \<le> 60"
    "length (format_move_sr i) \<le> 60" "length (format_move_usp i) \<le> 60"
    using p by (simp_all add: format_movea_def format_movem_def format_movep_def format_move_sr_def format_move_usp_def Let_def)
  have "length (print_hex_width w (unat (i_immediate i))) \<le> 8" if "w \<le> 8" for w
    using hex_lengths(2) [of "i_immediate i"] that by (simp add: print_hex_width_def zero_pad_def)
  from this [of 2] this [of 4] show "length (format_imm_sr_ccr i) \<le> 60"
    by (simp add: format_imm_sr_ccr_def imm_sr_ccr_op_name_def imm_sr_ccr_dst_name_def)
  show "length (format_move i) \<le> 60" using p by (cases "i_form i") (simp_all add: format_move_def)
  show "length (format_bit_op i) \<le> 60" "length (format_address_op i) \<le> 60" "length (format_logic_op i) \<le> 60"
    "length (format_mul_div i) \<le> 60" "length (format_exg i) \<le> 60" "length (format_add_op i) \<le> 60"
    using p by (simp_all add: format_bit_op_def format_address_op_def format_logic_op_def format_mul_div_def format_exg_def
        format_add_op_def)
  show "length (format_extended_op i) \<le> 60" "length (format_quick_op i) \<le> 60" "length (format_clr i) \<le> 60"
    "length (format_unary_op i) \<le> 60"
    using p by (simp_all add: format_extended_op_def format_quick_op_def format_clr_def format_unary_op_def)
  show "length (format_shift i) \<le> 60" "length (format_tst i) \<le> 60"
    "length (format_imm_arith i) \<le> 60" "length (format_imm_logic i) \<le> 60"
    using p by (simp_all add: format_shift_def format_tst_def format_imm_arith_def format_imm_logic_def)
qed

lemma instr_text_length: "length (instr_text i) \<le> 60"
proof -
  have "sint (i_displacement i) < 10 ^ Suc 4" "- (10 ^ Suc 4) < sint (i_displacement i)"
    using sint_lt [of "i_displacement i"] sint_ge [of "i_displacement i"] by simp_all
  then have d: "length (print_int (sint (i_displacement i))) \<le> 6" using print_int_length [of 4] by simp
  have "sint (i_immediate i) < 10 ^ Suc 9" "- (10 ^ Suc 9) < sint (i_immediate i)"
    using sint_lt [of "i_immediate i"] sint_ge [of "i_immediate i"] by simp_all
  then have m: "length (print_int (sint (i_immediate i))) \<le> 11" using print_int_length [of 9] by simp
  have t: "length (print_dec (unat (i_immediate i AND 15))) \<le> 10"
    using print_dec_length [of "unat (i_immediate i AND 15)" 9] unat_lt(3) [of "i_immediate i AND 15"] by simp
  show ?thesis
    using piece_lengths [of i] reg_lengths [of "i_reg i"] reg_lengths [of "ea_reg (i_src i)"]
      reg_lengths [of "ea_reg (i_dst i)"] addr_text_length [of "i_target i"] hex_lengths(3) [of "i_opcode i"]
      hex_lengths(1) [of "i_condition i"] d m t
    by (cases "i_mnemonic i") (simp_all add: instr_text_def format_lengths)
qed

subsection \<open>Characters\<close>

lemma hex_chars_plain: "CHR ''*'' \<notin> hex_chars" "CHR 0x0A \<notin> hex_chars" "CHR ''?'' \<notin> hex_chars" "CHR ''g'' \<notin> hex_chars"
  by (simp_all add: hex_chars_def)

definition plain_text :: "string \<Rightarrow> bool" where
  "plain_text s \<longleftrightarrow> set s \<inter> {CHR ''*'', CHR 0x0A, CHR ''g'', CHR ''?''} = {}"

definition comment_safe :: "string \<Rightarrow> bool" where
  "comment_safe s \<longleftrightarrow> set s \<inter> {CHR ''*'', CHR 0x0A, CHR ''g''} = {}"

lemma plain_text_simps [simp]:
  "plain_text []" "plain_text (s @ t) \<longleftrightarrow> plain_text s \<and> plain_text t"
  "plain_text (c # s) \<longleftrightarrow> c \<noteq> CHR ''*'' \<and> c \<noteq> CHR 0x0A \<and> c \<noteq> CHR ''g'' \<and> c \<noteq> CHR ''?'' \<and> plain_text s"
  by (auto simp: plain_text_def)

lemma comment_safe_simps [simp]:
  "comment_safe []" "comment_safe (s @ t) \<longleftrightarrow> comment_safe s \<and> comment_safe t"
  "comment_safe (c # s) \<longleftrightarrow> c \<noteq> CHR ''*'' \<and> c \<noteq> CHR 0x0A \<and> c \<noteq> CHR ''g'' \<and> comment_safe s"
  by (auto simp: comment_safe_def)

lemma plain_is_safe: "plain_text s \<Longrightarrow> comment_safe s"
  by (auto simp: plain_text_def comment_safe_def)

lemma plain_numbers [simp]:
  "plain_text (print_dec n)" "plain_text (print_hex n)" "plain_text (print_hex_width w n)" "plain_text (print_int z)"
  using print_chars(1) [of n] print_chars(2) [of n] print_chars(3) [of w n] print_int_chars [of z] hex_chars_plain
  by (auto simp: plain_text_def)

lemma plain_name [simp]: "plain_text (ng_m68k_mnemonic_name m)"
  by (cases m) (simp_all add: ng_m68k_mnemonic_name_def)

lemma plain_snprintf: "plain_text s \<Longrightarrow> plain_text (snprintf n s)"
  using set_snprintf [of n s] by (auto simp: plain_text_def)

lemma plain_pieces [simp]:
  "plain_text (reg_text r)" "plain_text (addr_text a)" "plain_text (disp_text d)" "plain_text (dreg_text r)"
  "plain_text (areg_text r)" "plain_text (name_text i)" "plain_text (size_wl i)" "plain_text (size_bwl i)"
  "plain_text (imm_text i)" "plain_text (count_text i)" "plain_text (mask_text i)"
  by (simp_all add: reg_text_def addr_text_def disp_text_def dreg_text_def areg_text_def name_text_def size_wl_def
      size_bwl_def imm_text_def count_text_def mask_text_def)

lemma plain_operand: "ea_mode ea \<noteq> NG_M68K_EA_NONE \<Longrightarrow> plain_text (format_ea_operand ea n)"
  unfolding format_ea_operand_def
  by (intro plain_snprintf) (simp add: index_text_def split: ng_m68k_ea_mode.split)

lemma safe_operand: "comment_safe (format_ea_operand ea n)"
  using plain_operand [of ea n, THEN plain_is_safe]
  by (cases "ea_mode ea = NG_M68K_EA_NONE") (auto simp: format_ea_operand_def snprintf_def take_Cons' )

lemma plain_operands: "\<not> no_src i \<Longrightarrow> plain_text (src_text i)" "\<not> no_dst i \<Longrightarrow> plain_text (dst_text i)"
  by (simp_all add: no_src_def no_dst_def src_text_def dst_text_def plain_operand)

lemma safe_pieces [simp]: "comment_safe (src_text i)" "comment_safe (dst_text i)"
  by (simp_all add: src_text_def dst_text_def safe_operand)

lemmas format_defs = format_illegal_def format_jump_def format_scc_def format_chk_def format_lea_def format_movea_def
  format_movem_def format_movep_def format_move_sr_def format_move_usp_def format_bit_op_def format_imm_sr_ccr_def
  format_move_def format_address_op_def format_logic_op_def format_mul_div_def format_exg_def format_add_op_def
  format_extended_op_def format_quick_op_def format_clr_def format_unary_op_def format_shift_def format_tst_def
  format_imm_arith_def format_imm_logic_def imm_sr_ccr_op_name_def imm_sr_ccr_dst_name_def

lemma instr_text_safe: "comment_safe (instr_text i)"
  by (cases "i_mnemonic i")
    (simp_all add: instr_text_def format_defs Let_def plain_is_safe split: ng_m68k_operand_form.split)

subsection \<open>Decoded instructions\<close>

lemma opcode_field_operand: "ea_opcode_field ea = Some f \<Longrightarrow> ea_mode ea \<noteq> NG_M68K_EA_NONE"
  by (auto simp: ea_opcode_field_def)

lemma no_opcode_field: "ea_mode ea = NG_M68K_EA_NONE \<Longrightarrow> ea_opcode_field ea = None"
  using opcode_field_operand by (cases "ea_opcode_field ea") auto

lemma exact_register_operand: "ea_is_exact_register ea m \<Longrightarrow> ea_mode ea = m"
  by (simp add: ea_is_exact_register_def)

lemmas operand_facts = opcode_field_operand exact_register_operand

lemma validated_operands:
  "validate_scc i \<Longrightarrow> \<not> no_dst i" "validate_word_data_to_dreg i \<Longrightarrow> \<not> no_src i"
  "validate_address_reg_op i \<Longrightarrow> \<not> no_src i \<and> \<not> no_dst i" "validate_movem i \<Longrightarrow> \<not> no_src i \<or> \<not> no_dst i"
  "validate_move_sr_ccr i \<Longrightarrow> \<not> no_src i \<or> \<not> no_dst i" "validate_pea i \<Longrightarrow> \<not> no_src i"
  "validate_move_usp i \<Longrightarrow> ea_mode (i_src i) = NG_M68K_EA_AREG \<or> ea_mode (i_dst i) = NG_M68K_EA_AREG"
  "validate_exg i \<Longrightarrow> \<not> no_src i \<and> \<not> no_dst i" "validate_unary_data_alterable i b \<Longrightarrow> \<not> no_dst i"
  "validate_shift_rotate i \<Longrightarrow> \<not> no_dst i"
  unfolding no_src_def no_dst_def
  subgoal by (auto simp: validate_scc_def dest: operand_facts split: option.splits)
  subgoal by (auto simp: validate_word_data_to_dreg_def dest: operand_facts split: option.splits)
  subgoal by (auto simp: validate_address_reg_op_def Let_def dest: operand_facts split: option.splits if_splits)
  subgoal by (auto simp: validate_movem_def split: if_splits)
  subgoal by (auto simp: validate_move_sr_ccr_def split: if_splits)
  subgoal by (auto simp: validate_pea_def dest: operand_facts split: option.splits)
  subgoal by (auto simp: validate_move_usp_def split: if_splits)
  subgoal by (auto simp: validate_exg_def dest: operand_facts split: if_splits)
  subgoal by (auto simp: validate_unary_data_alterable_def dest: operand_facts split: option.splits if_splits)
  subgoal by (rule notI) (simp add: validate_shift_rotate_def no_opcode_field split: option.splits prod.splits if_splits)
  done

lemma validated_text_plain:
  assumes "ng_m68k_validate i"
  shows "plain_text (instr_text i)"
  using assms
  by (cases "i_byte_length i = 0"; cases "i_mnemonic i")
    (auto simp: ng_m68k_validate_def instr_text_def format_defs Let_def plain_operands
      dest: validated_operands split: ng_m68k_operand_form.split)

text \<open>
  C19 (safety of the listing). For every instruction record, decoded or not, the text is at most 60 characters
  long, so the 128-byte buffers of the callers and the 64-byte buffers of the operands never cut it, and it has
  no asterisk and no line break, so it stays inside the C comment the emitter writes it into.
\<close>

theorem listing_text_fits_its_comment:
  "ng_m68k_format i 128 = instr_text i \<and> length (ng_m68k_format i 128) \<le> 60 \<and>
   format_ea_operand ea 64 = format_ea_operand ea (64 + n) \<and>
   CHR ''*'' \<notin> set (ng_m68k_format i 128) \<and> CHR 0x0A \<notin> set (ng_m68k_format i 128)"
proof -
  have "ng_m68k_format i 128 = instr_text i"
    using instr_text_length [of i] by (simp add: ng_m68k_format_def snprintf_fits)
  moreover have "format_ea_operand ea 64 = format_ea_operand ea (64 + n)"
    using operand_length [of ea 64] operand_length [of ea "64 + n"] by (auto simp: format_ea_operand_def snprintf_def)
  ultimately show ?thesis using instr_text_length [of i] instr_text_safe [of i] by (auto simp: comment_safe_def)
qed

text \<open>
  C18 (decoder and disassembler). The text of a decoded instruction never shows the question mark the
  disassembler prints for an operand it does not find: every decoded form has its operands where
  \<open>ng_m68k_format\<close> looks for them.
\<close>

theorem decoded_text_shows_operands:
  assumes "ng_m68k_decode rom a = (True, i)"
  shows "CHR ''?'' \<notin> set (ng_m68k_format i n)"
proof -
  have "plain_text (instr_text i)"
  proof (cases "i_mnemonic i = NG_M68K_UNKNOWN")
    case False
    then have "ng_m68k_validate i"
      using decode_body_accepted [of rom a] assms by (simp add: decode_eq_True accepted_def)
    then show ?thesis by (rule validated_text_plain)
  qed (simp add: instr_text_def)
  then show ?thesis using set_snprintf [of n "instr_text i"] by (auto simp: ng_m68k_format_def plain_text_def)
qed

theorem decoded_text_shows_operands_witness: "CHR ''?'' \<notin> set (ng_m68k_format sample_bsr 128)"
  by (rule decoded_text_shows_operands [OF sample_decode])

end
