(* ===== verification/TextLines.thy ===== *)
theory TextLines
  imports TextOutput
begin

text \<open>
  Text as lines: \<open>split_lines\<close> cuts a text at its line feeds, and \<open>unlines\<close> puts a line feed after every line. The
  properties of the reports and of the generated C are stated on the lines of the text.
\<close>

primrec split_lines :: "string \<Rightarrow> string list" where
  "split_lines [] = [[]]"
| "split_lines (c # s) =
     (if c = CHR 0x0A then [] # split_lines s else (c # hd (split_lines s)) # tl (split_lines s))"

definition unlines :: "string list \<Rightarrow> string" where
  "unlines ls = concat (map (\<lambda>l. l @ [CHR 0x0A]) ls)"

definition one_line :: "string \<Rightarrow> bool" where
  "one_line l \<longleftrightarrow> CHR 0x0A \<notin> set l"

lemma one_line_simps [simp]:
  "one_line []" "one_line (c # l) \<longleftrightarrow> c \<noteq> CHR 0x0A \<and> one_line l" "one_line (l @ m) \<longleftrightarrow> one_line l \<and> one_line m"
  by (auto simp: one_line_def)

lemma unlines_simps [simp]:
  "unlines [] = []" "unlines (l # ls) = l @ CHR 0x0A # unlines ls" "unlines (ls @ ms) = unlines ls @ unlines ms"
  by (simp_all add: unlines_def)

lemma split_lines_line: "one_line l \<Longrightarrow> split_lines (l @ CHR 0x0A # s) = l # split_lines s"
  by (induction l) simp_all

lemma split_unlines: "list_all one_line ls \<Longrightarrow> split_lines (unlines ls @ s) = ls @ split_lines s"
  by (induction ls) (simp_all add: split_lines_line)

lemma one_line_numbers [simp]:
  "one_line (print_dec n)" "one_line (print_hex n)" "one_line (print_hex_width w n)" "one_line (print_int z)"
  using print_chars(1) [of n] print_chars(2) [of n] print_chars(3) [of w n] print_int_chars [of z]
  by (auto simp: one_line_def hex_chars_def)

end
