(* ===== verification/NeogeoMap.thy ===== *)
theory NeogeoMap
  imports RuntimeInv
begin

text \<open>
  The recompiler's classification of 24-bit bus addresses (\<open>recompiler/src/neogeo_map.c\<close>) and how
  it relates to the runtime's bus: a region of ROM is read-only on the bus and reading it changes
  nothing.
\<close>

datatype ng_address_region_t =
    NG_REGION_P_ROM_FIXED
  | NG_REGION_WORK_RAM
  | NG_REGION_P_ROM_BANK
  | NG_REGION_BIOS
  | NG_REGION_UNKNOWN

definition ng_address_region :: "u32 \<Rightarrow> ng_address_region_t" where
  "ng_address_region address =
     (let addr = address AND 0x00FFFFFF in
      if addr \<le> 0x000FFFFF then NG_REGION_P_ROM_FIXED
      else if 0x00100000 \<le> addr \<and> addr \<le> 0x0010FFFF then NG_REGION_WORK_RAM
      else if 0x00200000 \<le> addr \<and> addr \<le> 0x002FFFFF then NG_REGION_P_ROM_BANK
      else if 0x00C00000 \<le> addr \<and> addr \<le> 0x00C1FFFF then NG_REGION_BIOS
      else NG_REGION_UNKNOWN)"

fun ng_address_region_name :: "ng_address_region_t \<Rightarrow> string" where
  "ng_address_region_name NG_REGION_P_ROM_FIXED = ''p_rom_fixed''"
| "ng_address_region_name NG_REGION_WORK_RAM = ''work_ram''"
| "ng_address_region_name NG_REGION_P_ROM_BANK = ''p_rom_bank''"
| "ng_address_region_name NG_REGION_BIOS = ''bios''"
| "ng_address_region_name NG_REGION_UNKNOWN = ''unknown''"

lemma region_names_distinct: "ng_address_region_name r = ng_address_region_name q \<longleftrightarrow> r = q"
  by (cases r; cases q) simp_all

subsection \<open>Reads and writes by region\<close>

lemma region_fixed: "ng_address_region a = NG_REGION_P_ROM_FIXED \<longleftrightarrow> a AND 0x00FFFFFF \<le> 0x000FFFFF"
  by (simp add: ng_address_region_def Let_def)

lemma region_bank:
  "ng_address_region a = NG_REGION_P_ROM_BANK \<longleftrightarrow>
     0x00200000 \<le> a AND 0x00FFFFFF \<and> a AND 0x00FFFFFF \<le> 0x002FFFFF"
  by (auto simp: ng_address_region_def Let_def word_le_nat_alt)

lemma region_bios:
  "ng_address_region a = NG_REGION_BIOS \<longleftrightarrow>
     0x00C00000 \<le> a AND 0x00FFFFFF \<and> a AND 0x00FFFFFF \<le> 0x00C1FFFF"
  by (auto simp: ng_address_region_def Let_def word_le_nat_alt)

text \<open>Every I/O port is decoded by a mask that contains bits 17 to 23, so it lies in a 128 KiB window.\<close>

lemma port_window:
  assumes "addr AND m = (p :: u32)" and "m AND 0x00FE0000 = 0x00FE0000" and "addr AND 0x00FFFFFF = addr"
  shows "unat (p AND 0x00FE0000) \<le> unat addr \<and> unat addr \<le> unat (p AND 0x00FE0000) + 0x1FFFF"
proof -
  have hi: "addr AND 0x00FE0000 = p AND 0x00FE0000"
    using assms(1,2) by (metis and.assoc)
  have "addr = (addr AND 0x00FE0000) OR (addr AND 0x0001FFFF)"
  proof -
    have "(0x00FFFFFF :: u32) = 0x00FE0000 OR 0x0001FFFF" by simp
    then show ?thesis using assms(3) by (metis bit.conj_disj_distrib)
  qed
  also have "\<dots> = (addr AND 0x00FE0000) + (addr AND 0x0001FFFF)"
  proof (rule disjunctive_add [symmetric])
    have "(0x00FE0000 :: u32) AND 0x0001FFFF = 0" by simp
    then show "\<not> bit (addr AND 0x00FE0000) n \<or> \<not> bit (addr AND 0x0001FFFF) n" for n
      by (metis bit_and_iff bit_0_eq bot_apply bot_bool_def)
  qed
  finally have "unat addr \<le> unat (addr AND 0x00FE0000) + unat (addr AND 0x0001FFFF)"
    by (metis mod_less_eq_dividend unat_word_ariths(1))
  moreover have "unat (addr AND 0x0001FFFF) \<le> 0x1FFFF" using unat_and_le [of addr "0x0001FFFF"] by simp
  moreover have "unat (addr AND 0x00FE0000) \<le> unat addr" by (rule unat_and_le2)
  ultimately show ?thesis unfolding hi by linarith
qed

lemmas port_predicates = ng_neogeo_is_dipswitch_addr_def ng_neogeo_is_p1cnt_addr_def
  ng_neogeo_is_p2cnt_addr_def ng_neogeo_is_sound_addr_def ng_neogeo_is_status_a_addr_def
  ng_neogeo_is_status_b_addr_def ng_neogeo_is_port_output_addr_def ng_neogeo_is_system_latch_addr_def

lemma not_a_port:
  assumes "addr AND 0x00FFFFFF = addr" and "unat addr < 0x300000 \<or> 0x3C0000 \<le> unat addr"
  shows "\<not> ng_neogeo_is_dipswitch_addr addr" "\<not> ng_neogeo_is_p1cnt_addr addr"
    "\<not> ng_neogeo_is_p2cnt_addr addr" "\<not> ng_neogeo_is_sound_addr addr"
    "\<not> ng_neogeo_is_status_a_addr addr" "\<not> ng_neogeo_is_status_b_addr addr"
    "\<not> ng_neogeo_is_port_output_addr addr" "\<not> ng_neogeo_is_system_latch_addr addr"
  using assms(2) unfolding port_predicates
  by (auto dest: port_window [OF _ _ assms(1)])

lemma rom_region_bounds:
  assumes "ng_address_region a \<in> {NG_REGION_P_ROM_FIXED, NG_REGION_P_ROM_BANK, NG_REGION_BIOS}"
  shows "unat (a AND 0x00FFFFFF) < 0x300000 \<or> 0x3C0000 \<le> unat (a AND 0x00FFFFFF)"
  using assms by (auto simp: region_fixed region_bank region_bios word_le_nat_alt)

lemma rom_region_not_ram:
  assumes "ng_address_region a \<in> {NG_REGION_P_ROM_FIXED, NG_REGION_P_ROM_BANK, NG_REGION_BIOS}"
  shows "\<not> is_work_ram_addr (a AND 0x00FFFFFF)" "\<not> ng_neogeo_is_palette_addr (a AND 0x00FFFFFF)"
    "\<not> ng_neogeo_is_backup_ram_addr (a AND 0x00FFFFFF)" "\<not> ng_neogeo_is_lspc_addr (a AND 0x00FFFFFF)"
    "\<not> ng_neogeo_is_memcard_addr (a AND 0x00FFFFFF)"
proof -
  define u where "u = unat (a AND 0x00FFFFFF)"
  have "u < 0x100000 \<or> 0x200000 \<le> u \<and> u < 0x300000 \<or> 0xC00000 \<le> u \<and> u < 0xC20000"
    using assms by (auto simp: region_fixed region_bank region_bios word_le_nat_alt u_def)
  then show "\<not> is_work_ram_addr (a AND 0x00FFFFFF)" "\<not> ng_neogeo_is_palette_addr (a AND 0x00FFFFFF)"
    "\<not> ng_neogeo_is_backup_ram_addr (a AND 0x00FFFFFF)" "\<not> ng_neogeo_is_lspc_addr (a AND 0x00FFFFFF)"
    "\<not> ng_neogeo_is_memcard_addr (a AND 0x00FFFFFF)"
    by (simp_all add: is_work_ram_addr_def ng_neogeo_is_palette_addr_def ng_neogeo_is_backup_ram_addr_def
        ng_neogeo_is_lspc_addr_def ng_neogeo_is_memcard_addr_def word_le_nat_alt flip: u_def, linarith+)
qed

lemma rom_region_write8:
  assumes "ng_address_region a \<in> {NG_REGION_P_ROM_FIXED, NG_REGION_P_ROM_BANK, NG_REGION_BIOS}"
  shows "ng68k_write8 a v s = s"
  unfolding ng68k_write8_def Let_def
  by (simp only: not_a_port [OF addr24_idem rom_region_bounds [OF assms]] rom_region_not_ram [OF assms]
      if_False if_cancel)

lemma rom_region_read8:
  "ng_address_region a = NG_REGION_P_ROM_FIXED \<Longrightarrow> ng68k_read8 a s =
     (if bios_vectors_enabled (latch s) \<noteq> 0 \<and> a AND 0x00FFFFFF \<le> 0x0000007F
      then ng_neogeo_read_system_rom (a AND 0x00FFFFFF) s
      else rom_byte (program_rom s) (program_rom_size s) (a AND 0x00FFFFFF), s)"
  "ng_address_region a = NG_REGION_P_ROM_BANK \<Longrightarrow> ng68k_read8 a s =
     (rom_byte (program_rom s) (program_rom_size s) (0x00100000 + ((a AND 0x00FFFFFF) - 0x00200000)), s)"
  by (auto simp: ng68k_read8_def Let_def region_fixed region_bank word_le_nat_alt is_work_ram_addr_def)

lemma bios_region_read8:
  assumes "ng_address_region a = NG_REGION_BIOS"
  shows "ng68k_read8 a s = (ng_neogeo_read_system_rom ((a AND 0x00FFFFFF) - 0x00C00000) s, s)"
proof -
  have r: "ng_address_region a \<in> {NG_REGION_P_ROM_FIXED, NG_REGION_P_ROM_BANK, NG_REGION_BIOS}"
    using assms by simp
  have c: "\<not> a AND 0x00FFFFFF \<le> 0x0000007F" "\<not> a AND 0x00FFFFFF \<le> 0x000FFFFF"
    "\<not> (0x00200000 \<le> a AND 0x00FFFFFF \<and> a AND 0x00FFFFFF \<le> 0x002FFFFF)"
    "ng_neogeo_is_system_rom_addr (a AND 0x00FFFFFF)"
    using assms by (auto simp: region_bios ng_neogeo_is_system_rom_addr_def word_le_nat_alt)
  show ?thesis
    unfolding ng68k_read8_def Let_def
    by (simp only: c not_a_port [OF addr24_idem rom_region_bounds [OF r]] rom_region_not_ram [OF r]
        if_False if_True simp_thms)
qed

text \<open>
  The address ranges the recompiler classifies as fixed program ROM, banked program ROM
  or system ROM are read-only on the runtime's bus: a byte write there leaves the whole runtime
  unchanged, and so does a byte read.
\<close>

theorem rom_regions_are_read_only:
  assumes "ng_address_region a \<in> {NG_REGION_P_ROM_FIXED, NG_REGION_P_ROM_BANK, NG_REGION_BIOS}"
  shows "ng68k_write8 a v s = s \<and> snd (ng68k_read8 a s) = s"
  using assms rom_region_write8 [OF assms] rom_region_read8 bios_region_read8 by auto

theorem rom_regions_are_read_only_witness:
  "ng68k_write8 0xFFC1FFFF 7 runtime_init = runtime_init \<and>
   snd (ng68k_read8 0xFFC1FFFF runtime_init) = runtime_init"
  by (rule rom_regions_are_read_only) (simp add: ng_address_region_def word_le_nat_alt)

end
