(* ===== verification/DispatchAudit.thy ===== *)
theory DispatchAudit
  imports FunctionDiscovery NeogeoMap M68kFormat
begin

text \<open>
  The dispatch audit of \<open>dispatch_audit.c\<close>: a second scan of the discovered functions that lists every call and
  jump with what is known of its target, the counters, and the two reports. The configuration is optional, flags
  are booleans, and a site under construction is addressed by its index, as the code does by pointer.
\<close>

subsection \<open>Structures\<close>

definition NG_DISPATCH_AUDIT_MAX_SITES :: nat where
  "NG_DISPATCH_AUDIT_MAX_SITES = 131072"

definition NG_DISPATCH_AUDIT_MAX_SEEN :: nat where
  "NG_DISPATCH_AUDIT_MAX_SEEN = 131072"

datatype ng_dispatch_audit_kind =
    NG_DISPATCH_AUDIT_DIRECT
  | NG_DISPATCH_AUDIT_COMPUTED
  | NG_DISPATCH_AUDIT_JUMP_TABLE

record ng_dispatch_audit_site =
  as_kind :: ng_dispatch_audit_kind
  as_site_addr :: u32
  as_site_bank :: u32
  as_target_addr :: u32
  as_target_bank :: u32
  as_table_addr :: u32
  as_table_bank :: u32
  as_mnemonic :: ng_m68k_mnemonic
  as_site_banked :: bool
  as_target_banked :: bool
  as_table_banked :: bool
  as_target_known :: bool
  as_target_in_discovery :: bool
  as_target_external :: bool
  as_runtime_allowed :: bool
  as_resolved_entries :: u8
  as_missing_entries :: u8

record ng_dispatch_audit =
  da_sites :: "ng_dispatch_audit_site list"
  da_direct_count :: u32
  da_missing_direct_count :: u32
  da_external_direct_count :: u32
  da_computed_count :: u32
  da_runtime_computed_count :: u32
  da_jump_table_count :: u32
  da_jump_table_resolved_entries :: u32
  da_jump_table_missing_entries :: u32
  da_truncated :: bool

definition ng_dispatch_audit_init :: ng_dispatch_audit where
  "ng_dispatch_audit_init =
     \<lparr>da_sites = [], da_direct_count = 0, da_missing_direct_count = 0, da_external_direct_count = 0,
      da_computed_count = 0, da_runtime_computed_count = 0, da_jump_table_count = 0,
      da_jump_table_resolved_entries = 0, da_jump_table_missing_entries = 0, da_truncated = False\<rparr>"

subsection \<open>Instructions and targets\<close>

definition instr_is_direct_target :: "ng_m68k_instr \<Rightarrow> bool" where
  "instr_is_direct_target i \<longleftrightarrow>
     (if i_mnemonic i = NG_M68K_BSR then True
      else if i_mnemonic i \<noteq> NG_M68K_JSR \<and> i_mnemonic i \<noteq> NG_M68K_JMP then False
      else ea_mode (i_src i) = NG_M68K_EA_ABS_W \<or> ea_mode (i_src i) = NG_M68K_EA_ABS_L \<or>
           ea_mode (i_src i) = NG_M68K_EA_PC_DISP)"

definition instr_is_dispatch :: "ng_m68k_instr \<Rightarrow> bool" where
  "instr_is_dispatch i \<longleftrightarrow>
     i_mnemonic i = NG_M68K_JSR \<or> i_mnemonic i = NG_M68K_BSR \<or> i_mnemonic i = NG_M68K_JMP"

definition instr_stops_scan :: "ng_m68k_instr \<Rightarrow> bool" where
  "instr_stops_scan i \<longleftrightarrow>
     i_mnemonic i \<in> {NG_M68K_BRA, NG_M68K_JMP, NG_M68K_RTE, NG_M68K_RTR, NG_M68K_RTS}"

definition audit_probable_function_target :: "ng_program_rom \<Rightarrow> u32 \<Rightarrow> bool" where
  "audit_probable_function_target rom addr \<longleftrightarrow>
     (if addr AND 1 \<noteq> 0 \<or> \<not> ng_program_rom_addr_is_mapped rom addr then False
      else case ng_m68k_decode rom addr of (ok, i) \<Rightarrow>
        ok \<and> i_byte_length i \<noteq> 0 \<and> ng_m68k_validate i \<and>
        i_mnemonic i \<noteq> NG_M68K_UNKNOWN \<and> i_mnemonic i \<noteq> NG_M68K_INVALID)"

definition audit_static_table_target_has_code_shape :: "ng_m68k_instr \<Rightarrow> bool" where
  "audit_static_table_target_has_code_shape i \<longleftrightarrow>
     i_mnemonic i \<in> {NG_M68K_RTS, NG_M68K_RTE, NG_M68K_RTR, NG_M68K_STOP, NG_M68K_TRAP, NG_M68K_TRAPV,
       NG_M68K_BRA, NG_M68K_BSR, NG_M68K_BCC, NG_M68K_DBCC, NG_M68K_JMP, NG_M68K_JSR}"

primrec static_table_target_loop :: "ng_program_rom \<Rightarrow> nat \<Rightarrow> u32 \<Rightarrow> bool" where
  "static_table_target_loop rom 0 pc = True"
| "static_table_target_loop rom (Suc n) pc =
     (case ng_m68k_decode rom pc of (ok, i) \<Rightarrow>
        if \<not> ok \<or> i_byte_length i = 0 \<or> \<not> ng_m68k_validate i \<or> i_mnemonic i = NG_M68K_UNKNOWN \<or>
           i_mnemonic i = NG_M68K_INVALID \<or> i_mnemonic i = NG_M68K_ILLEGAL \<or> i_mnemonic i = NG_M68K_RESET then False
        else if audit_static_table_target_has_code_shape i then True
        else if 0xFFFFFFFF - pc < ucast (i_byte_length i) then False
        else static_table_target_loop rom n (pc + ucast (i_byte_length i)))"

definition audit_probable_static_table_target :: "ng_program_rom \<Rightarrow> u32 \<Rightarrow> bool" where
  "audit_probable_static_table_target rom addr \<longleftrightarrow>
     audit_probable_function_target rom addr \<and> static_table_target_loop rom 32 addr"

definition audit_bank_for_addr :: "ng_program_rom \<Rightarrow> u32 \<Rightarrow> u32" where
  "audit_bank_for_addr rom addr =
     (if 1 < ng_program_rom_bank_count rom \<and> ng_program_rom_addr_is_banked rom addr
      then active_bank rom else NG_FUNCTION_DISCOVERY_BANK_NONE)"

definition addr_seen_bank :: "(u32 \<times> u32) list \<Rightarrow> u32 \<Rightarrow> u32 \<Rightarrow> bool" where
  "addr_seen_bank seen addr bank \<longleftrightarrow> list_ex (\<lambda>(a, b). a = addr \<and> b = bank) seen"

subsection \<open>Computed dispatches the runtime may resolve\<close>

definition runtime_dispatch_allowed :: "ng_game_config option \<Rightarrow> u32 \<Rightarrow> bool" where
  "runtime_dispatch_allowed config addr \<longleftrightarrow>
     (case config of None \<Rightarrow> False
      | Some c \<Rightarrow> list_ex (\<lambda>a. a AND 0x00FFFFFF = addr AND 0x00FFFFFF) (gc_runtime_dispatch c))"

definition dispatcher_has_object_state :: "ng_game_config option \<Rightarrow> bool" where
  "dispatcher_has_object_state config \<longleftrightarrow>
     (case config of None \<Rightarrow> False
      | Some c \<Rightarrow> list_ex (\<lambda>d. dp_kind d = NG_GAME_CONFIG_DISPATCHER_OBJECT_STATE) (gc_dispatchers c))"

definition dispatcher_slot_allowed :: "ng_game_config option \<Rightarrow> u32 \<Rightarrow> bool" where
  "dispatcher_slot_allowed config slot \<longleftrightarrow>
     (case config of None \<Rightarrow> False
      | Some c \<Rightarrow> list_ex (\<lambda>d. dp_kind d = NG_GAME_CONFIG_DISPATCHER_OBJECT_STATE \<and>
            (dp_has_state_slot d \<and> dp_state_slot d = slot \<or> list_ex (\<lambda>s. s = slot) (dp_install_slots d)))
          (gc_dispatchers c))"

definition ea_is_a6_slot :: "ng_m68k_ea \<Rightarrow> u32 option" where
  "ea_is_a6_slot ea =
     (if ea_reg ea \<noteq> 6 then None
      else if ea_mode ea = NG_M68K_EA_AIND then Some 0
      else if ea_mode ea = NG_M68K_EA_ADISP then Some (ucast (ea_displacement ea))
      else None)"

definition slot_allowed :: "ng_game_config option \<Rightarrow> ng_m68k_ea \<Rightarrow> bool" where
  "slot_allowed config ea \<longleftrightarrow>
     (case ea_is_a6_slot ea of None \<Rightarrow> False | Some slot \<Rightarrow> dispatcher_slot_allowed config slot)"

definition audit_instr_writes_areg :: "ng_m68k_instr \<Rightarrow> u8 \<Rightarrow> bool" where
  "audit_instr_writes_areg i areg \<longleftrightarrow> ea_mode (i_dst i) = NG_M68K_EA_AREG \<and> ea_reg (i_dst i) = areg"

definition instr_loads_areg_from_allowed_a6_slot :: "ng_game_config option \<Rightarrow> ng_m68k_instr \<Rightarrow> u8 \<Rightarrow> bool" where
  "instr_loads_areg_from_allowed_a6_slot config i areg \<longleftrightarrow>
     i_mnemonic i = NG_M68K_MOVEA \<and> ea_mode (i_dst i) = NG_M68K_EA_AREG \<and> ea_reg (i_dst i) = areg \<and>
     slot_allowed config (i_src i)"

definition instr_stores_areg_to_allowed_a6_slot :: "ng_game_config option \<Rightarrow> ng_m68k_instr \<Rightarrow> u8 \<Rightarrow> bool" where
  "instr_stores_areg_to_allowed_a6_slot config i areg \<longleftrightarrow>
     i_mnemonic i = NG_M68K_MOVE \<and> i_size i = 4 \<and> ea_mode (i_src i) = NG_M68K_EA_AREG \<and>
     ea_reg (i_src i) = areg \<and> slot_allowed config (i_dst i)"

definition instr_is_areg_self_deref :: "ng_m68k_instr \<Rightarrow> u8 \<Rightarrow> bool" where
  "instr_is_areg_self_deref i areg \<longleftrightarrow>
     i_mnemonic i = NG_M68K_MOVEA \<and> ea_mode (i_src i) = NG_M68K_EA_AIND \<and> ea_reg (i_src i) = areg \<and>
     ea_mode (i_dst i) = NG_M68K_EA_AREG \<and> ea_reg (i_dst i) = areg"

text \<open>The loops over the recent instructions run from the newest back: their argument has the newest first.\<close>

definition recent_has_dispatcher_slot_context ::
  "ng_game_config option \<Rightarrow> ng_m68k_instr list \<Rightarrow> u8 \<Rightarrow> bool" where
  "recent_has_dispatcher_slot_context config newest areg \<longleftrightarrow>
     list_ex (\<lambda>i. instr_loads_areg_from_allowed_a6_slot config i areg \<or>
                   instr_stores_areg_to_allowed_a6_slot config i areg) newest"

primrec dispatcher_recent :: "ng_game_config option \<Rightarrow> u8 \<Rightarrow> ng_m68k_instr list \<Rightarrow> bool" where
  "dispatcher_recent config areg [] = False"
| "dispatcher_recent config areg (prev # older) =
     (if \<not> audit_instr_writes_areg prev areg then dispatcher_recent config areg older
      else if instr_loads_areg_from_allowed_a6_slot config prev areg then True
      else if instr_is_areg_self_deref prev areg then recent_has_dispatcher_slot_context config older areg
      else False)"

definition dispatcher_runtime_dispatch_allowed ::
  "ng_game_config option \<Rightarrow> ng_m68k_instr \<Rightarrow> ng_m68k_instr list \<Rightarrow> bool" where
  "dispatcher_runtime_dispatch_allowed config i recent \<longleftrightarrow>
     dispatcher_has_object_state config \<and> ea_mode (i_src i) = NG_M68K_EA_AIND \<and>
     dispatcher_recent config (ea_reg (i_src i)) (rev recent)"

definition instr_loads_areg_from_work_ram :: "ng_m68k_instr \<Rightarrow> u8 \<Rightarrow> bool" where
  "instr_loads_areg_from_work_ram i areg \<longleftrightarrow>
     i_mnemonic i = NG_M68K_MOVEA \<and> ea_mode (i_dst i) = NG_M68K_EA_AREG \<and> ea_reg (i_dst i) = areg \<and>
     (ea_mode (i_src i) = NG_M68K_EA_ABS_W \<or> ea_mode (i_src i) = NG_M68K_EA_ABS_L) \<and>
     ng_address_region (ea_absolute_addr (i_src i)) = NG_REGION_WORK_RAM"

primrec work_ram_recent :: "u8 \<Rightarrow> ng_m68k_instr list \<Rightarrow> bool" where
  "work_ram_recent areg [] = False"
| "work_ram_recent areg (prev # older) =
     (if \<not> audit_instr_writes_areg prev areg then work_ram_recent areg older
      else instr_loads_areg_from_work_ram prev areg)"

definition work_ram_runtime_dispatch_allowed :: "ng_m68k_instr \<Rightarrow> ng_m68k_instr list \<Rightarrow> bool" where
  "work_ram_runtime_dispatch_allowed i recent \<longleftrightarrow>
     ea_mode (i_src i) = NG_M68K_EA_AIND \<and> work_ram_recent (ea_reg (i_src i)) (rev recent)"

definition table_call_helper_allowed :: "ng_game_config option \<Rightarrow> u32 \<Rightarrow> bool" where
  "table_call_helper_allowed config helper \<longleftrightarrow>
     (case config of None \<Rightarrow> False
      | Some c \<Rightarrow> list_ex (\<lambda>t. tc_helper t AND 0x00FFFFFF = helper AND 0x00FFFFFF) (gc_table_calls c))"

primrec table_call_recent :: "ng_game_config option \<Rightarrow> u8 \<Rightarrow> ng_m68k_instr list \<Rightarrow> bool" where
  "table_call_recent config areg [] = False"
| "table_call_recent config areg (prev # older) =
     (if audit_instr_writes_areg prev areg then False
      else if i_mnemonic prev = NG_M68K_JSR \<or> i_mnemonic prev = NG_M68K_BSR
      then instr_is_direct_target prev \<and> table_call_helper_allowed config (i_target prev AND 0x00FFFFFF)
      else table_call_recent config areg older)"

definition table_call_runtime_dispatch_allowed ::
  "ng_game_config option \<Rightarrow> ng_m68k_instr \<Rightarrow> ng_m68k_instr list \<Rightarrow> bool" where
  "table_call_runtime_dispatch_allowed config i recent \<longleftrightarrow>
     config \<noteq> None \<and> ea_mode (i_src i) = NG_M68K_EA_AIND \<and> table_call_recent config (ea_reg (i_src i)) (rev recent)"

definition config_has_script_callback_sources :: "ng_game_config option \<Rightarrow> bool" where
  "config_has_script_callback_sources config \<longleftrightarrow>
     (case config of None \<Rightarrow> False
      | Some c \<Rightarrow>
          list_ex (\<lambda>t. jc_format t = NG_GAME_CONFIG_JUMP_TABLE_SCRIPT_PREDICATE \<or>
                        jc_format t = NG_GAME_CONFIG_JUMP_TABLE_INLINE_CALLBACK \<or>
                        jc_format t = NG_GAME_CONFIG_JUMP_TABLE_TAGGED_ABS32) (gc_jump_tables c) \<or>
          list_ex (\<lambda>r. rf_callback_offsets r \<noteq> []) (gc_record_formats c))"

primrec script_stream_recent :: "u8 \<Rightarrow> ng_m68k_instr list \<Rightarrow> bool" where
  "script_stream_recent areg [] = False"
| "script_stream_recent areg (prev # older) =
     (if i_mnemonic prev = NG_M68K_JSR \<or> i_mnemonic prev = NG_M68K_BSR then False
      else if \<not> audit_instr_writes_areg prev areg then script_stream_recent areg older
      else i_mnemonic prev = NG_M68K_MOVEA \<and> i_size prev = 4 \<and> ea_mode (i_dst prev) = NG_M68K_EA_AREG \<and>
           ea_reg (i_dst prev) = areg \<and> ea_mode (i_src prev) = NG_M68K_EA_ADISP \<and> ea_reg (i_src prev) = 0 \<and>
           0 \<le> sint (ea_displacement (i_src prev)) \<and> sint (ea_displacement (i_src prev)) \<le> 0x20)"

definition script_stream_runtime_dispatch_allowed ::
  "ng_game_config option \<Rightarrow> ng_m68k_instr \<Rightarrow> ng_m68k_instr list \<Rightarrow> bool" where
  "script_stream_runtime_dispatch_allowed config i recent \<longleftrightarrow>
     config_has_script_callback_sources config \<and> i_mnemonic i = NG_M68K_JSR \<and>
     ea_mode (i_src i) = NG_M68K_EA_AIND \<and> ea_reg (i_src i) < 8 \<and>
     script_stream_recent (ea_reg (i_src i)) (rev recent)"

subsection \<open>Recording a site\<close>

definition audit_site_zero :: ng_dispatch_audit_site where
  "audit_site_zero =
     \<lparr>as_kind = NG_DISPATCH_AUDIT_DIRECT, as_site_addr = 0, as_site_bank = 0, as_target_addr = 0, as_target_bank = 0,
      as_table_addr = 0, as_table_bank = 0, as_mnemonic = NG_M68K_INVALID, as_site_banked = False,
      as_target_banked = False, as_table_banked = False, as_target_known = False, as_target_in_discovery = False,
      as_target_external = False, as_runtime_allowed = False, as_resolved_entries = 0, as_missing_entries = 0\<rparr>"

definition new_site :: "ng_program_rom \<Rightarrow> ng_dispatch_audit_kind \<Rightarrow> ng_m68k_instr \<Rightarrow> ng_dispatch_audit_site" where
  "new_site rom kind i =
     (let bank = audit_bank_for_addr rom (i_addr i)
      in audit_site_zero\<lparr>as_kind := kind, as_site_addr := i_addr i AND 0x00FFFFFF, as_site_bank := bank,
           as_site_banked := bank \<noteq> NG_FUNCTION_DISCOVERY_BANK_NONE, as_mnemonic := i_mnemonic i\<rparr>)"

text \<open>The index of the new site, or \<open>None\<close> when the array is full.\<close>

definition audit_append ::
  "ng_program_rom \<Rightarrow> ng_dispatch_audit_kind \<Rightarrow> ng_m68k_instr \<Rightarrow> ng_dispatch_audit \<Rightarrow> ng_dispatch_audit \<times> nat option" where
  "audit_append rom kind i audit =
     (if NG_DISPATCH_AUDIT_MAX_SITES \<le> length (da_sites audit) then (audit\<lparr>da_truncated := True\<rparr>, None)
      else (audit\<lparr>da_sites := da_sites audit @ [new_site rom kind i]\<rparr>, Some (length (da_sites audit))))"

definition on_site ::
  "nat \<Rightarrow> (ng_dispatch_audit_site \<Rightarrow> ng_dispatch_audit_site) \<Rightarrow> ng_dispatch_audit \<Rightarrow> ng_dispatch_audit" where
  "on_site n f audit = audit\<lparr>da_sites := (da_sites audit)[n := f (da_sites audit ! n)]\<rparr>"

definition audit_record_direct ::
  "ng_program_rom \<Rightarrow> ng_function_discovery \<Rightarrow> ng_m68k_instr \<Rightarrow> ng_dispatch_audit \<Rightarrow> ng_dispatch_audit" where
  "audit_record_direct rom d i audit =
     (case audit_append rom NG_DISPATCH_AUDIT_DIRECT i audit of (a, site) \<Rightarrow>
        let a1 = a\<lparr>da_direct_count := da_direct_count a + 1\<rparr> in
        (case site of None \<Rightarrow> a1
        | Some n \<Rightarrow>
            let bank = audit_bank_for_addr rom (i_target i);
                region = ng_address_region (i_target i);
                external = (region \<noteq> NG_REGION_P_ROM_FIXED \<and> region \<noteq> NG_REGION_P_ROM_BANK);
                a2 = on_site n (\<lambda>s. s\<lparr>as_target_known := True, as_target_addr := i_target i AND 0x00FFFFFF,
                       as_target_bank := bank, as_target_banked := bank \<noteq> NG_FUNCTION_DISCOVERY_BANK_NONE,
                       as_target_external := external\<rparr>) a1
            in if external then a2\<lparr>da_external_direct_count := da_external_direct_count a2 + 1\<rparr>
               else
                 let found = (ng_program_rom_addr_is_mapped rom (i_target i) \<and>
                              ng_function_discovery_contains_for_rom d rom (i_target i));
                     a3 = on_site n (\<lambda>s. s\<lparr>as_target_in_discovery := found\<rparr>) a2
                 in if \<not> found then a3\<lparr>da_missing_direct_count := da_missing_direct_count a3 + 1\<rparr> else a3))"

definition computed_allowed :: "ng_game_config option \<Rightarrow> ng_m68k_instr \<Rightarrow> ng_m68k_instr list \<Rightarrow> bool" where
  "computed_allowed config i recent \<longleftrightarrow>
     runtime_dispatch_allowed config (i_addr i) \<or> dispatcher_runtime_dispatch_allowed config i recent \<or>
     work_ram_runtime_dispatch_allowed i recent \<or> table_call_runtime_dispatch_allowed config i recent \<or>
     script_stream_runtime_dispatch_allowed config i recent"

definition audit_record_computed ::
  "ng_program_rom \<Rightarrow> ng_game_config option \<Rightarrow> ng_m68k_instr \<Rightarrow> ng_m68k_instr list \<Rightarrow>
   ng_dispatch_audit \<Rightarrow> ng_dispatch_audit" where
  "audit_record_computed rom config i recent audit =
     (case audit_append rom NG_DISPATCH_AUDIT_COMPUTED i audit of (a, site) \<Rightarrow>
        (case site of
          None \<Rightarrow> a\<lparr>da_computed_count := da_computed_count a + 1\<rparr>
        | Some n \<Rightarrow>
            let allowed = computed_allowed config i recent;
                a1 = on_site n (\<lambda>s. s\<lparr>as_target_known := False, as_runtime_allowed := allowed\<rparr>) a
            in if allowed then a1\<lparr>da_runtime_computed_count := da_runtime_computed_count a1 + 1\<rparr>
               else a1\<lparr>da_computed_count := da_computed_count a1 + 1\<rparr>))"

text \<open>One entry of a table, found in the discovery or not.\<close>

definition count_entry :: "bool \<Rightarrow> nat \<Rightarrow> ng_dispatch_audit \<Rightarrow> ng_dispatch_audit" where
  "count_entry found n audit =
     (if found
      then (on_site n (\<lambda>s. s\<lparr>as_resolved_entries := as_resolved_entries s + 1\<rparr>) audit)
             \<lparr>da_jump_table_resolved_entries := da_jump_table_resolved_entries audit + 1\<rparr>
      else (on_site n (\<lambda>s. s\<lparr>as_missing_entries := as_missing_entries s + 1\<rparr>) audit)
             \<lparr>da_jump_table_missing_entries := da_jump_table_missing_entries audit + 1\<rparr>)"

text \<open>A table of code: \<open>Inl\<close> is a \<open>break\<close>, with whether the terminal entry is counted; \<open>Inr\<close> the stride.\<close>

definition code_entry_step ::
  "ng_program_rom \<Rightarrow> ng_m68k_jump_table_pattern \<Rightarrow> u32 \<Rightarrow> u32 \<Rightarrow> bool + u32" where
  "code_entry_step rom p entry_addr stride =
     (case ng_m68k_decode rom entry_addr of (ok, e) \<Rightarrow>
        if jt_entry_kind p = NG_M68K_JUMP_TABLE_ENTRY_ADDRESS then
          if \<not> ok \<or> \<not> ng_m68k_validate e \<or> i_mnemonic e \<noteq> NG_M68K_BRA \<or> i_byte_length e = 0
          then Inl (jt_include_terminal_entry p \<noteq> 0)
          else if stride = 0 then Inr (ucast (i_byte_length e))
          else if ucast (i_byte_length e) \<noteq> stride then Inl False
          else Inr stride
        else if jt_entry_kind p = NG_M68K_JUMP_TABLE_ENTRY_INLINE_CODE then
          if stride = 0 \<or> \<not> ng_program_rom_addr_is_mapped rom entry_addr \<or>
             \<not> ng_program_rom_addr_is_mapped rom (entry_addr + 3) \<or>
             ng_program_rom_read32 rom entry_addr \<noteq> jt_entry_signature p
          then Inl False else Inr stride
        else
          if stride = 0 \<or> \<not> ok \<or> \<not> ng_m68k_validate e \<or> i_mnemonic e \<noteq> NG_M68K_JMP \<or>
             ucast (i_byte_length e) \<noteq> stride \<or> \<not> instr_is_direct_target e
          then Inl False else Inr stride)"

primrec audit_code_table ::
  "ng_program_rom \<Rightarrow> ng_function_discovery \<Rightarrow> ng_m68k_jump_table_pattern \<Rightarrow> nat \<Rightarrow> nat \<Rightarrow> u32 \<Rightarrow> u32 \<Rightarrow>
   ng_dispatch_audit \<Rightarrow> ng_dispatch_audit" where
  "audit_code_table rom d p n 0 entry_addr stride audit = audit"
| "audit_code_table rom d p n (Suc k) entry_addr stride audit =
     (let count = count_entry (ng_function_discovery_contains_for_rom d rom entry_addr) n in
      case code_entry_step rom p entry_addr stride of
        Inl terminal \<Rightarrow> if terminal then count audit else audit
      | Inr stride' \<Rightarrow>
          if 0xFFFFFFFF - entry_addr < stride' then count audit
          else audit_code_table rom d p n k (entry_addr + stride') stride' (count audit))"

text \<open>A table of addresses, from entry \<open>i\<close> on with \<open>k\<close> entries left.\<close>

primrec audit_address_table ::
  "ng_program_rom \<Rightarrow> ng_function_discovery \<Rightarrow> ng_m68k_jump_table_pattern \<Rightarrow> nat \<Rightarrow> nat \<Rightarrow> u32 \<Rightarrow>
   ng_dispatch_audit \<Rightarrow> ng_dispatch_audit" where
  "audit_address_table rom d p n 0 i audit = audit"
| "audit_address_table rom d p n (Suc k) i audit =
     (let entry_addr = jt_table_addr p + i * ucast (jt_entry_size p) in
      if \<not> ng_program_rom_addr_is_mapped rom entry_addr \<or> \<not> ng_program_rom_addr_is_mapped rom (entry_addr + 3)
      then audit
      else
        let target = ng_program_rom_read32 rom entry_addr in
        if \<not> audit_probable_static_table_target rom target then
          (if jt_max_entries p \<noteq> 0 then audit else audit_address_table rom d p n k (i + 1) audit)
        else audit_address_table rom d p n k (i + 1)
               (count_entry (ng_function_discovery_contains_for_rom d rom target) n audit))"

definition audit_record_jump_table ::
  "ng_program_rom \<Rightarrow> ng_function_discovery \<Rightarrow> ng_m68k_instr \<Rightarrow> ng_m68k_jump_table_pattern \<Rightarrow>
   ng_dispatch_audit \<Rightarrow> ng_dispatch_audit" where
  "audit_record_jump_table rom d i p audit =
     (case audit_append rom NG_DISPATCH_AUDIT_JUMP_TABLE i audit of (a, site) \<Rightarrow>
        let a1 = a\<lparr>da_jump_table_count := da_jump_table_count a + 1\<rparr> in
        (case site of None \<Rightarrow> a1
        | Some n \<Rightarrow>
            let bank = audit_bank_for_addr rom (jt_table_addr p);
                a2 = on_site n (\<lambda>s. s\<lparr>as_table_addr := jt_table_addr p AND 0x00FFFFFF, as_table_bank := bank,
                       as_table_banked := bank \<noteq> NG_FUNCTION_DISCOVERY_BANK_NONE\<rparr>) a1
            in if jt_entry_kind p \<noteq> NG_M68K_JUMP_TABLE_ENTRY_ABS32
               then audit_code_table rom d p n 32 (jt_table_addr p) (ucast (jt_entry_size p)) a2
               else
                 let max_entries = (if jt_max_entries p \<noteq> 0 then jt_max_entries p else 4)
                 in audit_address_table rom d p n (unat (if 64 < max_entries then 64 else max_entries)) 0 a2))"

definition audit_jump_table_has_entries :: "ng_program_rom \<Rightarrow> ng_m68k_jump_table_pattern \<Rightarrow> bool" where
  "audit_jump_table_has_entries rom p \<longleftrightarrow>
     (case ng_m68k_decode rom (jt_table_addr p) of (ok, e) \<Rightarrow>
        (case jt_entry_kind p of
           NG_M68K_JUMP_TABLE_ENTRY_ADDRESS \<Rightarrow>
             ok \<and> ng_m68k_validate e \<and> i_mnemonic e = NG_M68K_BRA \<and> i_byte_length e \<noteq> 0
         | NG_M68K_JUMP_TABLE_ENTRY_INLINE_CODE \<Rightarrow>
             jt_entry_size p \<noteq> 0 \<and> ng_program_rom_addr_is_mapped rom (jt_table_addr p) \<and>
             ng_program_rom_addr_is_mapped rom (jt_table_addr p + 3) \<and>
             ng_program_rom_read32 rom (jt_table_addr p) = jt_entry_signature p
         | NG_M68K_JUMP_TABLE_ENTRY_DIRECT_DISPATCH \<Rightarrow>
             jt_entry_size p \<noteq> 0 \<and> ok \<and> ng_m68k_validate e \<and> i_mnemonic e = NG_M68K_JMP \<and>
             i_byte_length e = jt_entry_size p \<and> instr_is_direct_target e
         | NG_M68K_JUMP_TABLE_ENTRY_ABS32 \<Rightarrow>
             jt_entry_size p \<noteq> 0 \<and> ng_program_rom_addr_is_mapped rom (jt_table_addr p) \<and>
             ng_program_rom_addr_is_mapped rom (jt_table_addr p + ucast (jt_entry_size p) - 1)))"

subsection \<open>Scanning\<close>

record audit_scan =
  an_previous :: "ng_m68k_instr option"
  an_recent :: "ng_m68k_instr list"
  an_areg :: ng_m68k_static_areg_state
  an_previous_areg :: ng_m68k_static_areg_state
  an_index_bound :: ng_m68k_index_reg_bound_state

definition audit_scan_start :: audit_scan where
  "audit_scan_start = \<lparr>an_previous = None, an_recent = [], an_areg = ng_m68k_static_areg_reset,
     an_previous_areg = ng_m68k_static_areg_reset, an_index_bound = ng_m68k_index_reg_bound_reset\<rparr>"

text \<open>The first pattern that matches, with \<open>matched_table\<close>.\<close>

definition audit_match_pair ::
  "ng_program_rom \<Rightarrow> audit_scan \<Rightarrow> ng_m68k_instr \<Rightarrow> ng_m68k_instr \<Rightarrow> ng_m68k_jump_table_pattern option" where
  "audit_match_pair rom st previous i =
     (case ng_m68k_match_pc_index_jump_table previous i of Some p \<Rightarrow> Some p | None \<Rightarrow>
     (case ng_m68k_match_static_index_jump_table previous i (an_previous_areg st) of Some p \<Rightarrow> Some p | None \<Rightarrow>
     (case ng_m68k_match_static_index_branch_table i (an_areg st) of Some p \<Rightarrow> Some p | None \<Rightarrow>
      ng_m68k_match_pc_index_inline_code_table rom previous i)))"

definition audit_match_table ::
  "ng_program_rom \<Rightarrow> audit_scan \<Rightarrow> ng_m68k_instr \<Rightarrow> ng_m68k_jump_table_pattern option" where
  "audit_match_table rom st i =
     map_option (\<lambda>p. ng_m68k_jump_table_apply_index_bound p (an_index_bound st))
       (case (case an_previous st of Some previous \<Rightarrow> audit_match_pair rom st previous i | None \<Rightarrow> None) of
          Some p \<Rightarrow> Some p
        | None \<Rightarrow> (case ng_m68k_match_pc_index_branch_table rom i of
             Some p \<Rightarrow> Some p
           | None \<Rightarrow> ng_m68k_match_repeated_direct_dispatch_table rom i))"

definition audit_record_instr ::
  "ng_program_rom \<Rightarrow> ng_function_discovery \<Rightarrow> ng_game_config option \<Rightarrow> audit_scan \<Rightarrow> ng_m68k_instr \<Rightarrow>
   ng_dispatch_audit \<Rightarrow> ng_dispatch_audit" where
  "audit_record_instr rom d config st i audit =
     (let table = (case audit_match_table rom st i of
                     Some p \<Rightarrow> if audit_jump_table_has_entries rom p then Some p else None
                   | None \<Rightarrow> None)
      in case table of
           Some p \<Rightarrow> audit_record_jump_table rom d i p audit
         | None \<Rightarrow>
             if instr_is_direct_target i then audit_record_direct rom d i audit
             else if instr_is_dispatch i then audit_record_computed rom config i (an_recent st) audit
             else audit)"

text \<open>The set of instructions already seen, with its bound.\<close>

definition note_seen ::
  "u32 \<times> u32 \<Rightarrow> (u32 \<times> u32) list \<times> ng_dispatch_audit \<Rightarrow> (u32 \<times> u32) list \<times> ng_dispatch_audit" where
  "note_seen x = (\<lambda>(seen, audit).
     if length seen < NG_DISPATCH_AUDIT_MAX_SEEN then (seen @ [x], audit) else (seen, audit\<lparr>da_truncated := True\<rparr>))"

definition audit_scan_update :: "ng_m68k_instr \<Rightarrow> audit_scan \<Rightarrow> audit_scan" where
  "audit_scan_update i st =
     \<lparr>an_previous = Some i,
      an_recent = (if length (an_recent st) < 8 then an_recent st @ [i] else tl (an_recent st) @ [i]),
      an_areg = ng_m68k_static_areg_update (an_areg st) i,
      an_previous_areg = an_areg st,
      an_index_bound = ng_m68k_index_reg_bound_update (an_index_bound st) i\<rparr>"

primrec audit_scan_loop ::
  "ng_program_rom \<Rightarrow> ng_function_discovery \<Rightarrow> ng_game_config option \<Rightarrow> nat \<Rightarrow> u32 \<Rightarrow> audit_scan \<Rightarrow>
   (u32 \<times> u32) list \<times> ng_dispatch_audit \<Rightarrow> (u32 \<times> u32) list \<times> ng_dispatch_audit" where
  "audit_scan_loop rom d config 0 pc st sa = sa"
| "audit_scan_loop rom d config (Suc n) pc st sa =
     (case ng_m68k_decode rom pc of (ok, i) \<Rightarrow>
        if \<not> ok \<or> i_byte_length i = 0 \<or> \<not> ng_m68k_validate i \<or> i_mnemonic i = NG_M68K_UNKNOWN \<or>
           i_mnemonic i = NG_M68K_INVALID then sa
        else
          let pc_bank = audit_bank_for_addr rom pc;
              sa' = (if addr_seen_bank (fst sa) pc pc_bank then sa
                     else map_prod id (audit_record_instr rom d config st i) (note_seen (pc, pc_bank) sa))
          in if instr_stops_scan i then sa'
             else audit_scan_loop rom d config n (pc + ucast (i_byte_length i)) (audit_scan_update i st) sa')"

definition audit_scan_from ::
  "ng_program_rom \<Rightarrow> ng_function_discovery \<Rightarrow> ng_game_config option \<Rightarrow> u32 \<Rightarrow>
   (u32 \<times> u32) list \<times> ng_dispatch_audit \<Rightarrow> (u32 \<times> u32) list \<times> ng_dispatch_audit" where
  "audit_scan_from rom d config start_addr sa =
     audit_scan_loop rom d config NG_FUNCTION_DISCOVERY_MAX_INSTRUCTIONS start_addr audit_scan_start sa"

definition audit_view :: "ng_program_rom \<Rightarrow> u32 \<Rightarrow> ng_program_rom" where
  "audit_view rom bank =
     (if bank \<noteq> NG_FUNCTION_DISCOVERY_BANK_NONE then ng_program_rom_select_bank rom bank else rom)"

definition ng_dispatch_audit_build_with_config ::
  "ng_program_rom \<Rightarrow> ng_function_discovery \<Rightarrow> ng_game_config option \<Rightarrow> ng_dispatch_audit" where
  "ng_dispatch_audit_build_with_config rom d config =
     (let have_scan_roots = list_ex c_scan_root (fd_candidates d)
      in snd (fold (\<lambda>c sa. if have_scan_roots \<and> \<not> c_scan_root c then sa
                           else audit_scan_from (audit_view rom (entry_bank c)) d config (c_addr c) sa)
                (fd_candidates d) ([], ng_dispatch_audit_init)))"

definition ng_dispatch_audit_build :: "ng_program_rom \<Rightarrow> ng_function_discovery \<Rightarrow> ng_dispatch_audit" where
  "ng_dispatch_audit_build rom d = ng_dispatch_audit_build_with_config rom d None"

definition ng_dispatch_audit_has_gaps :: "ng_dispatch_audit \<Rightarrow> bool" where
  "ng_dispatch_audit_has_gaps audit \<longleftrightarrow>
     da_missing_direct_count audit \<noteq> 0 \<or> da_computed_count audit \<noteq> 0 \<or>
     da_jump_table_missing_entries audit \<noteq> 0 \<or> da_truncated audit"

end
