(* ===== verification/DispatchReport.thy ===== *)
theory DispatchReport
  imports DispatchAudit
begin

text \<open>
  The two reports of \<open>dispatch_audit.c\<close>: the listing of every site and the machine-readable suggestions for the
  sites that are not resolved. The output stream is the text written to it; whether it has an error at the end
  (\<open>ferror\<close>) is a parameter.
\<close>

definition eol :: string where
  "eol = [CHR 0x0A]"

definition quoted :: "string \<Rightarrow> string" where
  "quoted s = CHR 0x22 # s @ [CHR 0x22]"

definition u32_text :: "u32 \<Rightarrow> string" where
  "u32_text n = print_dec (unat n)"

definition u8_text :: "u8 \<Rightarrow> string" where
  "u8_text n = print_dec (unat n)"

definition hex6_text :: "u32 \<Rightarrow> string" where
  "hex6_text a = print_hex_width 6 (unat (a AND 0x00FFFFFF))"

definition audit_summary_line :: "ng_dispatch_audit \<Rightarrow> string" where
  "audit_summary_line a =
     ''dispatch audit: sites='' @ print_dec (length (da_sites a)) @ '' direct='' @ u32_text (da_direct_count a) @
     '' missing_direct='' @ u32_text (da_missing_direct_count a) @
     '' external_direct='' @ u32_text (da_external_direct_count a) @ '' computed='' @ u32_text (da_computed_count a) @
     '' runtime_computed='' @ u32_text (da_runtime_computed_count a) @
     '' jump_tables='' @ u32_text (da_jump_table_count a) @
     '' table_resolved='' @ u32_text (da_jump_table_resolved_entries a) @
     '' table_missing='' @ u32_text (da_jump_table_missing_entries a) @
     (if da_truncated a then '' truncated'' else []) @ eol"

definition audit_site_line :: "ng_dispatch_audit_site \<Rightarrow> string" where
  "audit_site_line s =
     (let banked = (\<lambda>b. if b then '' banked=yes'' else []); mnemonic = ng_m68k_mnemonic_name (as_mnemonic s)
      in ''$'' @ hex6_text (as_site_addr s) @ banked (as_site_banked s) @
         (case as_kind s of
            NG_DISPATCH_AUDIT_DIRECT \<Rightarrow>
              '' DIRECT '' @ mnemonic @ '' target=$'' @ hex6_text (as_target_addr s) @ banked (as_target_banked s) @
              '' discovered='' @ (if as_target_in_discovery s then ''yes'' else ''no'') @
              (if as_target_external s then '' external=yes'' else [])
          | NG_DISPATCH_AUDIT_COMPUTED \<Rightarrow>
              '' COMPUTED '' @ mnemonic @ '' target=<runtime>'' @
              (if as_runtime_allowed s then '' allowed=yes'' else [])
          | NG_DISPATCH_AUDIT_JUMP_TABLE \<Rightarrow>
              '' JUMP_TABLE '' @ mnemonic @ '' table=$'' @ hex6_text (as_table_addr s) @ banked (as_table_banked s) @
              '' resolved='' @ u8_text (as_resolved_entries s) @ '' missing='' @ u8_text (as_missing_entries s)) @ eol)"

definition ng_dispatch_audit_write :: "bool \<Rightarrow> ng_dispatch_audit \<Rightarrow> bool \<times> string" where
  "ng_dispatch_audit_write stream_error a =
     (\<not> stream_error, audit_summary_line a @ concat (map audit_site_line (da_sites a)))"

fun suggestion_action_for_kind :: "ng_dispatch_audit_kind \<Rightarrow> string" where
  "suggestion_action_for_kind NG_DISPATCH_AUDIT_DIRECT =
     ''add a seed or describe the data structure that references this target''"
| "suggestion_action_for_kind NG_DISPATCH_AUDIT_COMPUTED =
     ''model this dispatcher/interpreter shape or keep it as an explicit runtime residual''"
| "suggestion_action_for_kind NG_DISPATCH_AUDIT_JUMP_TABLE =
     ''extend discovery for this table shape or add a bounded descriptor''"

definition suggestion_kind_for_site :: "ng_dispatch_audit_site \<Rightarrow> string" where
  "suggestion_kind_for_site s =
     (case as_kind s of
        NG_DISPATCH_AUDIT_DIRECT \<Rightarrow> ''missing_direct''
      | NG_DISPATCH_AUDIT_COMPUTED \<Rightarrow> ''computed_dispatch''
      | NG_DISPATCH_AUDIT_JUMP_TABLE \<Rightarrow> ''jump_table_missing'')"

definition site_needs_suggestion :: "ng_dispatch_audit_site \<Rightarrow> bool" where
  "site_needs_suggestion s \<longleftrightarrow>
     (case as_kind s of
        NG_DISPATCH_AUDIT_DIRECT \<Rightarrow> as_target_known s \<and> \<not> as_target_external s \<and> \<not> as_target_in_discovery s
      | NG_DISPATCH_AUDIT_COMPUTED \<Rightarrow> \<not> as_runtime_allowed s
      | NG_DISPATCH_AUDIT_JUMP_TABLE \<Rightarrow> as_missing_entries s \<noteq> 0)"

definition suggestion_count :: "ng_dispatch_audit \<Rightarrow> u32" where
  "suggestion_count a = fold (\<lambda>s n. if site_needs_suggestion s then n + 1 else n) (da_sites a) 0"

definition suggestion_block :: "ng_dispatch_audit_site \<Rightarrow> string" where
  "suggestion_block s =
     ''[[suggestion]]'' @ eol @
     ''kind = '' @ quoted (suggestion_kind_for_site s) @ eol @
     ''site = 0x'' @ hex6_text (as_site_addr s) @ eol @
     ''mnemonic = '' @ quoted (ng_m68k_mnemonic_name (as_mnemonic s)) @ eol @
     (if as_site_banked s then ''site_bank = '' @ u32_text (as_site_bank s) @ eol else []) @
     (if as_kind s = NG_DISPATCH_AUDIT_DIRECT then
        ''target = 0x'' @ hex6_text (as_target_addr s) @ eol @
        (if as_target_banked s then ''target_bank = '' @ u32_text (as_target_bank s) @ eol else [])
      else if as_kind s = NG_DISPATCH_AUDIT_JUMP_TABLE then
        ''table = 0x'' @ hex6_text (as_table_addr s) @ eol @
        ''missing_entries = '' @ u8_text (as_missing_entries s) @ eol @
        ''resolved_entries = '' @ u8_text (as_resolved_entries s) @ eol @
        (if as_table_banked s then ''table_bank = '' @ u32_text (as_table_bank s) @ eol else [])
      else []) @
     ''action = '' @ quoted (suggestion_action_for_kind (as_kind s)) @ eol @ eol"

definition ng_dispatch_audit_write_suggestions :: "bool \<Rightarrow> ng_dispatch_audit \<Rightarrow> bool \<times> string" where
  "ng_dispatch_audit_write_suggestions stream_error a =
     (\<not> stream_error,
      ''# Machine-readable dispatch discovery suggestions.'' @ eol @
      ''# These are generic diagnostics, not auto-applied config.'' @ eol @
      ''suggestion_count = '' @ u32_text (suggestion_count a) @ eol @
      ''truncated = '' @ (if da_truncated a then ''true'' else ''false'') @ eol @ eol @
      concat (map suggestion_block (filter site_needs_suggestion (da_sites a))))"

end
