(* ===== verification/DispatchAuditProps.thy ===== *)
theory DispatchAuditProps
  imports TextLines DispatchReport DiscoveryProps
begin

text \<open>
  What the audit promises: its counters agree with its list of sites, it reports a gap exactly when a site needs a
  suggestion, and after a discovery that is closed under control flow the only direct calls it can miss are those
  whose target is not code.
\<close>

subsection \<open>Tables\<close>

text \<open>Counting \<open>r\<close> resolved and \<open>m\<close> missing entries on site \<open>n\<close>.\<close>

definition tally :: "nat \<Rightarrow> nat \<Rightarrow> nat \<Rightarrow> ng_dispatch_audit \<Rightarrow> ng_dispatch_audit" where
  "tally n r m a =
     (on_site n (\<lambda>s. s\<lparr>as_resolved_entries := as_resolved_entries s + of_nat r,
                       as_missing_entries := as_missing_entries s + of_nat m\<rparr>) a)
       \<lparr>da_jump_table_resolved_entries := da_jump_table_resolved_entries a + of_nat r,
        da_jump_table_missing_entries := da_jump_table_missing_entries a + of_nat m\<rparr>"

lemma tally_0: "tally n 0 0 a = a"
  by (cases a) (simp add: tally_def on_site_def)

lemma tally_tally: "n < length (da_sites a) \<Longrightarrow> tally n r m (tally n r' m' a) = tally n (r' + r) (m' + m) a"
  by (simp add: tally_def on_site_def add.assoc)

lemma count_entry_tally: "count_entry found n a = (if found then tally n 1 0 a else tally n 0 1 a)"
  by (simp add: count_entry_def tally_def on_site_def)

lemma tally_sites_length: "length (da_sites (tally n r m a)) = length (da_sites a)"
  by (simp add: tally_def on_site_def)

lemma count_then_tally:
  assumes "n < length (da_sites a)" "\<exists>r m. r + m \<le> k \<and> b = tally n r m (count_entry found n a)"
  shows "\<exists>r m. r + m \<le> Suc k \<and> b = tally n r m a"
proof -
  obtain r m where rm: "r + m \<le> k" "b = tally n r m (count_entry found n a)" using assms(2) by blast
  have "b = tally n (Suc r) m a \<or> b = tally n r (Suc m) a"
    using rm(2) tally_tally [OF assms(1)] by (cases found) (simp_all add: count_entry_tally)
  then show ?thesis using rm(1) by (metis add_Suc add_Suc_right Suc_le_mono)
qed

lemma code_table_tally:
  "n < length (da_sites a) \<Longrightarrow> \<exists>r m. r + m \<le> k \<and> audit_code_table rom d p n k addr stride a = tally n r m a"
proof (induction k arbitrary: addr stride a)
  case 0
  then show ?case by (auto simp: tally_0 intro!: exI [of _ 0])
next
  case (Suc k)
  let ?f = "ng_function_discovery_contains_for_rom d rom addr"
  have len: "n < length (da_sites (count_entry ?f n a))" using Suc.prems by (simp add: count_entry_tally tally_sites_length)
  have stay: "\<exists>r m. r + m \<le> Suc k \<and> a = tally n r m a" by (auto simp: tally_0 intro!: exI [of _ 0])
  have one: "\<exists>r m. r + m \<le> Suc k \<and> count_entry ?f n a = tally n r m a"
    by (rule count_then_tally [OF Suc.prems]) (auto simp: tally_0 intro!: exI [of _ 0])
  have more: "\<exists>r m. r + m \<le> Suc k \<and> audit_code_table rom d p n k addr' stride' (count_entry ?f n a) = tally n r m a"
    for addr' stride'
    by (rule count_then_tally [OF Suc.prems Suc.IH [OF len]])
  show ?case using stay one more by (simp add: Let_def split: sum.split)
qed

lemma address_table_tally:
  "n < length (da_sites a) \<Longrightarrow> \<exists>r m. r + m \<le> k \<and> audit_address_table rom d p n k i a = tally n r m a"
proof (induction k arbitrary: i a)
  case 0
  then show ?case by (auto simp: tally_0 intro!: exI [of _ 0])
next
  case (Suc k)
  have stay: "\<exists>r m. r + m \<le> Suc k \<and> a = tally n r m a" by (auto simp: tally_0 intro!: exI [of _ 0])
  have skip: "\<exists>r m. r + m \<le> Suc k \<and> audit_address_table rom d p n k i' a = tally n r m a" for i'
    using Suc.IH [OF Suc.prems, of i'] le_SucI by blast
  have more: "\<exists>r m. r + m \<le> Suc k \<and> audit_address_table rom d p n k i' (count_entry f n a) = tally n r m a" for i' f
    by (rule count_then_tally [OF Suc.prems Suc.IH]) (simp add: Suc.prems count_entry_tally tally_sites_length)
  show ?case using stay skip more by (simp add: Let_def)
qed

subsection \<open>What a recording step does\<close>

text \<open>
  A step either finds the array full and sets \<open>truncated\<close>, or appends one well-formed site and moves the counters
  by what the site shows.
\<close>

definition site_ok :: "ng_dispatch_audit_site \<Rightarrow> bool" where
  "site_ok s \<longleftrightarrow>
     unat (as_resolved_entries s) \<le> 64 \<and> unat (as_missing_entries s) \<le> 64 \<and>
     (as_kind s = NG_DISPATCH_AUDIT_DIRECT \<longrightarrow> as_target_known s) \<and>
     (as_kind s \<noteq> NG_DISPATCH_AUDIT_JUMP_TABLE \<longrightarrow> as_resolved_entries s = 0 \<and> as_missing_entries s = 0)"

definition is_kind :: "ng_dispatch_audit_kind \<Rightarrow> ng_dispatch_audit_site \<Rightarrow> bool" where
  "is_kind k s \<longleftrightarrow> as_kind s = k"

definition missing_direct :: "ng_dispatch_audit_site \<Rightarrow> bool" where
  "missing_direct s \<longleftrightarrow> as_kind s = NG_DISPATCH_AUDIT_DIRECT \<and> \<not> as_target_external s \<and> \<not> as_target_in_discovery s"

definition external_direct :: "ng_dispatch_audit_site \<Rightarrow> bool" where
  "external_direct s \<longleftrightarrow> as_kind s = NG_DISPATCH_AUDIT_DIRECT \<and> as_target_external s"

definition computed_gap :: "ng_dispatch_audit_site \<Rightarrow> bool" where
  "computed_gap s \<longleftrightarrow> as_kind s = NG_DISPATCH_AUDIT_COMPUTED \<and> \<not> as_runtime_allowed s"

definition computed_runtime :: "ng_dispatch_audit_site \<Rightarrow> bool" where
  "computed_runtime s \<longleftrightarrow> as_kind s = NG_DISPATCH_AUDIT_COMPUTED \<and> as_runtime_allowed s"

definition add_site :: "ng_dispatch_audit_site \<Rightarrow> ng_dispatch_audit \<Rightarrow> ng_dispatch_audit" where
  "add_site s a =
     a\<lparr>da_sites := da_sites a @ [s],
       da_direct_count := da_direct_count a + of_bool (is_kind NG_DISPATCH_AUDIT_DIRECT s),
       da_missing_direct_count := da_missing_direct_count a + of_bool (missing_direct s),
       da_external_direct_count := da_external_direct_count a + of_bool (external_direct s),
       da_computed_count := da_computed_count a + of_bool (computed_gap s),
       da_runtime_computed_count := da_runtime_computed_count a + of_bool (computed_runtime s),
       da_jump_table_count := da_jump_table_count a + of_bool (is_kind NG_DISPATCH_AUDIT_JUMP_TABLE s),
       da_jump_table_resolved_entries := da_jump_table_resolved_entries a + of_nat (unat (as_resolved_entries s)),
       da_jump_table_missing_entries := da_jump_table_missing_entries a + of_nat (unat (as_missing_entries s))\<rparr>"

definition full_step :: "ng_dispatch_audit \<Rightarrow> ng_dispatch_audit \<Rightarrow> bool" where
  "full_step a b \<longleftrightarrow> NG_DISPATCH_AUDIT_MAX_SITES \<le> length (da_sites a) \<and> da_sites b = da_sites a \<and> da_truncated b"

lemmas site_preds = site_ok_def is_kind_def missing_direct_def external_direct_def computed_gap_def computed_runtime_def

lemma new_site_fields [simp]:
  "as_kind (new_site rom k i) = k" "as_resolved_entries (new_site rom k i) = 0" "as_missing_entries (new_site rom k i) = 0"
  "as_target_known (new_site rom k i) = False" "as_target_external (new_site rom k i) = False"
  "as_target_in_discovery (new_site rom k i) = False" "as_runtime_allowed (new_site rom k i) = False"
  by (simp_all add: new_site_def audit_site_zero_def Let_def)

text \<open>The site shows the instruction: where it is, its mnemonic and its target.\<close>

definition site_names :: "ng_program_rom \<Rightarrow> ng_m68k_instr \<Rightarrow> ng_dispatch_audit_site \<Rightarrow> bool" where
  "site_names rom i s \<longleftrightarrow>
     as_site_addr s = i_addr i AND 0x00FFFFFF \<and> as_site_bank s = audit_bank_for_addr rom (i_addr i) \<and>
     as_mnemonic s = i_mnemonic i \<and> as_target_addr s = i_target i AND 0x00FFFFFF"

lemma record_direct_step:
  "full_step a (audit_record_direct rom d i a) \<or>
   (\<exists>s. audit_record_direct rom d i a = add_site s a \<and> site_ok s \<and> length (da_sites a) < NG_DISPATCH_AUDIT_MAX_SITES \<and>
      (missing_direct s \<longrightarrow> site_names rom i s \<and>
         \<not> (ng_program_rom_addr_is_mapped rom (i_target i) \<and> ng_function_discovery_contains_for_rom d rom (i_target i))))"
proof (cases "NG_DISPATCH_AUDIT_MAX_SITES \<le> length (da_sites a)")
  case True
  then show ?thesis by (simp add: audit_record_direct_def audit_append_def full_step_def)
next
  case False
  then show ?thesis
    by (intro disjI2 exI [of _ "last (da_sites (audit_record_direct rom d i a))"])
       (auto simp: audit_record_direct_def audit_append_def on_site_def add_site_def site_preds site_names_def
         new_site_def audit_site_zero_def Let_def)
qed

lemma record_computed_step:
  "full_step a (audit_record_computed rom config i recent a) \<or>
   (\<exists>s. audit_record_computed rom config i recent a = add_site s a \<and> site_ok s \<and>
      length (da_sites a) < NG_DISPATCH_AUDIT_MAX_SITES \<and> \<not> missing_direct s)"
proof (cases "NG_DISPATCH_AUDIT_MAX_SITES \<le> length (da_sites a)")
  case True
  then show ?thesis by (simp add: audit_record_computed_def audit_append_def full_step_def)
next
  case False
  then show ?thesis
    by (intro disjI2 exI [of _ "last (da_sites (audit_record_computed rom config i recent a))"])
       (auto simp: audit_record_computed_def audit_append_def on_site_def add_site_def site_preds Let_def)
qed

lemma unat_small: "r \<le> 64 \<Longrightarrow> unat (of_nat r :: u8) = r"
  by (simp add: unat_of_nat take_bit_nat_eq_self)

lemma jump_table_entries:
  assumes "n < length (da_sites a)"
  shows "\<exists>r m. r + m \<le> 64 \<and>
    (if jt_entry_kind p \<noteq> NG_M68K_JUMP_TABLE_ENTRY_ABS32
     then audit_code_table rom d p n 32 (jt_table_addr p) (ucast (jt_entry_size p)) a
     else audit_address_table rom d p n (unat (if 64 < e then 64 else e :: u32)) 0 a) = tally n r m a"
proof -
  have weaken: "\<exists>r m. r + m \<le> 64 \<and> b = tally n r m a" if "\<exists>r m. r + m \<le> k \<and> b = tally n r m a" "k \<le> 64" for b k
    using that(1) order_trans [OF _ that(2)] by blast
  have "unat (if 64 < e then 64 else e) \<le> 64" by (simp add: word_less_nat_alt)
  then show ?thesis
    using weaken [OF code_table_tally [OF assms, of 32 rom d p "jt_table_addr p" "ucast (jt_entry_size p)"]]
      weaken [OF address_table_tally [OF assms, of "unat (if 64 < e then 64 else e)" rom d p 0]]
    by (cases "jt_entry_kind p = NG_M68K_JUMP_TABLE_ENTRY_ABS32") simp_all
qed

lemma record_jump_table_step:
  "full_step a (audit_record_jump_table rom d i p a) \<or>
   (\<exists>s. audit_record_jump_table rom d i p a = add_site s a \<and> site_ok s \<and>
      length (da_sites a) < NG_DISPATCH_AUDIT_MAX_SITES \<and> \<not> missing_direct s)"
proof (cases "NG_DISPATCH_AUDIT_MAX_SITES \<le> length (da_sites a)")
  case True
  then show ?thesis by (simp add: audit_record_jump_table_def audit_append_def full_step_def)
next
  case False
  let ?n = "length (da_sites a)"
  let ?bank = "audit_bank_for_addr rom (jt_table_addr p)"
  let ?s = "(new_site rom NG_DISPATCH_AUDIT_JUMP_TABLE i)\<lparr>as_table_addr := jt_table_addr p AND 0x00FFFFFF,
    as_table_bank := ?bank, as_table_banked := ?bank \<noteq> NG_FUNCTION_DISCOVERY_BANK_NONE\<rparr>"
  let ?a = "a\<lparr>da_jump_table_count := da_jump_table_count a + 1, da_sites := da_sites a @ [?s]\<rparr>"
  let ?e = "if jt_max_entries p \<noteq> 0 then jt_max_entries p else 4"
  have "audit_record_jump_table rom d i p a =
      (if jt_entry_kind p \<noteq> NG_M68K_JUMP_TABLE_ENTRY_ABS32
       then audit_code_table rom d p ?n 32 (jt_table_addr p) (ucast (jt_entry_size p)) ?a
       else audit_address_table rom d p ?n (unat (if 64 < ?e then 64 else ?e)) 0 ?a)"
    using False by (simp only: audit_record_jump_table_def audit_append_def if_False prod.case option.case Let_def) (simp add: on_site_def)
  then obtain r m where rm: "r + m \<le> 64" "audit_record_jump_table rom d i p a = tally ?n r m ?a"
    using jump_table_entries [of ?n ?a p rom d ?e] by auto
  let ?t = "?s\<lparr>as_resolved_entries := of_nat r, as_missing_entries := of_nat m\<rparr>"
  have "tally ?n r m ?a = add_site ?t a"
    using rm(1) by (simp add: tally_def on_site_def add_site_def site_preds unat_small)
  moreover have "site_ok ?t" "\<not> missing_direct ?t" using rm(1) by (simp_all add: site_preds unat_small)
  ultimately show ?thesis using False rm(2) by auto
qed

text \<open>The three kinds of step, and instructions that are no dispatch.\<close>

lemma record_instr_step:
  "audit_record_instr rom d config st i a = a \<or> full_step a (audit_record_instr rom d config st i a) \<or>
   (\<exists>s. audit_record_instr rom d config st i a = add_site s a \<and> site_ok s \<and>
      length (da_sites a) < NG_DISPATCH_AUDIT_MAX_SITES \<and>
      (missing_direct s \<longrightarrow> instr_is_direct_target i \<and> site_names rom i s \<and>
         \<not> (ng_program_rom_addr_is_mapped rom (i_target i) \<and> ng_function_discovery_contains_for_rom d rom (i_target i))))"
  using record_direct_step [of a rom d i] record_computed_step [of a rom config i "an_recent st"]
    record_jump_table_step [of a rom d i]
  unfolding audit_record_instr_def Let_def
  by (auto split: option.split)

subsection \<open>Counters\<close>

definition count_of :: "(ng_dispatch_audit_site \<Rightarrow> bool) \<Rightarrow> ng_dispatch_audit \<Rightarrow> u32" where
  "count_of P a = of_nat (length (filter P (da_sites a)))"

definition entries_of :: "(ng_dispatch_audit_site \<Rightarrow> u8) \<Rightarrow> ng_dispatch_audit \<Rightarrow> nat" where
  "entries_of f a = sum_list (map (\<lambda>s. unat (f s)) (da_sites a))"

definition counters_exact :: "ng_dispatch_audit \<Rightarrow> bool" where
  "counters_exact a \<longleftrightarrow>
     da_direct_count a = count_of (is_kind NG_DISPATCH_AUDIT_DIRECT) a \<and>
     da_missing_direct_count a = count_of missing_direct a \<and>
     da_external_direct_count a = count_of external_direct a \<and>
     da_computed_count a = count_of computed_gap a \<and>
     da_runtime_computed_count a = count_of computed_runtime a \<and>
     da_jump_table_count a = count_of (is_kind NG_DISPATCH_AUDIT_JUMP_TABLE) a \<and>
     da_jump_table_resolved_entries a = of_nat (entries_of as_resolved_entries a) \<and>
     da_jump_table_missing_entries a = of_nat (entries_of as_missing_entries a)"

definition audit_ok :: "ng_dispatch_audit \<Rightarrow> bool" where
  "audit_ok a \<longleftrightarrow>
     length (da_sites a) \<le> NG_DISPATCH_AUDIT_MAX_SITES \<and> list_all site_ok (da_sites a) \<and>
     (\<not> da_truncated a \<longrightarrow> counters_exact a)"

lemma audit_ok_init: "audit_ok ng_dispatch_audit_init"
  by (simp add: audit_ok_def counters_exact_def count_of_def entries_of_def ng_dispatch_audit_init_def)

lemma counters_add_site: "counters_exact a \<Longrightarrow> counters_exact (add_site s a)"
  by (simp add: counters_exact_def add_site_def count_of_def entries_of_def algebra_simps)

lemma audit_ok_add_site:
  "audit_ok a \<Longrightarrow> site_ok s \<Longrightarrow> length (da_sites a) < NG_DISPATCH_AUDIT_MAX_SITES \<Longrightarrow> audit_ok (add_site s a)"
  using counters_add_site [of a s] by (simp add: audit_ok_def) (simp add: add_site_def)

lemma audit_ok_record: "audit_ok a \<Longrightarrow> audit_ok (audit_record_instr rom d config st i a)"
  using record_instr_step [of rom d config st i a] audit_ok_add_site [of a]
  by (auto simp: full_step_def audit_ok_def)

lemma sites_fold_invariant: "P x \<Longrightarrow> (\<And>y x. y \<in> set ys \<Longrightarrow> P x \<Longrightarrow> P (f y x)) \<Longrightarrow> P (fold f ys x)"
  by (induction ys arbitrary: x) auto

lemma scan_loop_invariant:
  assumes "P (snd sa)" "\<And>a. P a \<Longrightarrow> P (a\<lparr>da_truncated := True\<rparr>)"
    and "\<And>st i a. P a \<Longrightarrow> P (audit_record_instr rom d config st i a)"
  shows "P (snd (audit_scan_loop rom d config n pc st sa))"
  using assms(1)
proof (induction n arbitrary: pc st sa)
  case (Suc n)
  have "P (snd (map_prod id (audit_record_instr rom d config st i) (note_seen x sa)))" for x i
    using Suc.prems assms(2,3) by (cases sa) (simp add: note_seen_def)
  then show ?case using Suc by (cases "ng_m68k_decode rom pc") (simp add: Let_def)
qed simp

lemma audit_ok_scan: "audit_ok (snd sa) \<Longrightarrow> audit_ok (snd (audit_scan_from rom d config addr sa))"
  unfolding audit_scan_from_def
  by (rule scan_loop_invariant [where P = audit_ok]) (assumption, simp add: audit_ok_def, rule audit_ok_record)

lemma audit_build_ok: "audit_ok (ng_dispatch_audit_build_with_config rom d config)"
  unfolding ng_dispatch_audit_build_with_config_def Let_def
  by (rule sites_fold_invariant [where P = "\<lambda>sa. audit_ok (snd sa)"]) (simp_all add: audit_ok_init audit_ok_scan)

lemma entries_bounded: "list_all site_ok xs \<Longrightarrow> sum_list (map (\<lambda>s. unat (as_missing_entries s)) xs) \<le> 64 * length xs"
  by (induction xs) (auto simp: site_ok_def)

lemma of_nat_zero:
  assumes "n < 2 ^ 32"
  shows "(of_nat n :: u32) = 0 \<longleftrightarrow> n = 0"
proof -
  have "unat (of_nat n :: u32) = n" using assms by (simp add: unat_of_nat take_bit_nat_eq_self)
  then show ?thesis by auto
qed

lemma gap_counts:
  assumes "audit_ok a" "\<not> da_truncated a"
  shows "da_missing_direct_count a \<noteq> 0 \<longleftrightarrow> list_ex missing_direct (da_sites a)"
    and "da_computed_count a \<noteq> 0 \<longleftrightarrow> list_ex computed_gap (da_sites a)"
    and "da_jump_table_missing_entries a \<noteq> 0 \<longleftrightarrow> list_ex (\<lambda>s. as_missing_entries s \<noteq> 0) (da_sites a)"
proof -
  have c: "counters_exact a" and len: "length (da_sites a) \<le> 131072" and ok: "list_all site_ok (da_sites a)"
    using assms by (simp_all add: audit_ok_def NG_DISPATCH_AUDIT_MAX_SITES_def)
  have "length (filter P (da_sites a)) < 2 ^ 32" for P using len length_filter_le [of P "da_sites a"] by (simp del: length_filter_le)
  then have k: "count_of P a \<noteq> 0 \<longleftrightarrow> list_ex P (da_sites a)" for P
    by (simp add: count_of_def of_nat_zero filter_empty_conv list_ex_iff)
  then show "da_missing_direct_count a \<noteq> 0 \<longleftrightarrow> list_ex missing_direct (da_sites a)"
    "da_computed_count a \<noteq> 0 \<longleftrightarrow> list_ex computed_gap (da_sites a)"
    using c by (simp_all add: counters_exact_def)
  have "entries_of as_missing_entries a < 2 ^ 32"
    using entries_bounded [OF ok] len by (simp add: entries_of_def)
  then show "da_jump_table_missing_entries a \<noteq> 0 \<longleftrightarrow> list_ex (\<lambda>s. as_missing_entries s \<noteq> 0) (da_sites a)"
    using c by (auto simp: counters_exact_def of_nat_zero entries_of_def list_ex_iff unat_eq_0)
qed

lemma suggestion_split:
  "site_ok s \<Longrightarrow> site_needs_suggestion s \<longleftrightarrow> missing_direct s \<or> computed_gap s \<or> as_missing_entries s \<noteq> 0"
  by (cases "as_kind s") (auto simp: site_needs_suggestion_def site_preds)

lemma suggestion_count_filter: "suggestion_count a = count_of site_needs_suggestion a"
proof -
  have "fold (\<lambda>s n. if site_needs_suggestion s then n + 1 else n) xs (n :: u32) =
      n + of_nat (length (filter site_needs_suggestion xs))" for xs n
    by (induction xs arbitrary: n) (simp_all add: algebra_simps)
  then show ?thesis by (simp add: suggestion_count_def count_of_def)
qed

lemma gaps_iff_suggestions:
  assumes "audit_ok a"
  shows "ng_dispatch_audit_has_gaps a \<longleftrightarrow> da_truncated a \<or> list_ex site_needs_suggestion (da_sites a)"
proof (cases "da_truncated a")
  case False
  have "list_all site_ok (da_sites a)" using assms by (simp add: audit_ok_def)
  then have "list_ex site_needs_suggestion (da_sites a) \<longleftrightarrow>
      list_ex missing_direct (da_sites a) \<or> list_ex computed_gap (da_sites a) \<or>
      list_ex (\<lambda>s. as_missing_entries s \<noteq> 0) (da_sites a)"
    by (auto simp: list_ex_iff list_all_iff suggestion_split)
  then show ?thesis using False gap_counts [OF assms False] by (simp add: ng_dispatch_audit_has_gaps_def)
qed (simp add: ng_dispatch_audit_has_gaps_def)

subsection \<open>The audit after a discovery\<close>

lemma audit_probable_is_discovery: "audit_probable_function_target = is_probable_function_target"
  by (auto simp: fun_eq_iff audit_probable_function_target_def is_probable_function_target_def usable_instr_def)

lemma direct_target_is_discovery: "instr_is_direct_target = is_direct_function_target"
  by (simp add: fun_eq_iff instr_is_direct_target_def is_direct_function_target_def)

lemma audit_usable:
  "\<not> ok \<or> i_byte_length i = 0 \<or> \<not> ng_m68k_validate i \<or> i_mnemonic i = NG_M68K_UNKNOWN \<or> i_mnemonic i = NG_M68K_INVALID
   \<longleftrightarrow> \<not> usable_instr ok i"
  by (auto simp: usable_instr_def)

text \<open>The sites a scan adds satisfy \<open>Q\<close> when a missing target that is no code does, and every other site does.\<close>

lemma record_instr_sites:
  assumes "list_all Q (da_sites a)" and other: "\<And>s. \<not> missing_direct s \<Longrightarrow> Q s"
    and gap: "\<And>s. instr_is_direct_target i \<Longrightarrow> site_names rom i s \<Longrightarrow>
      \<not> (ng_program_rom_addr_is_mapped rom (i_target i) \<and> ng_function_discovery_contains_for_rom d rom (i_target i)) \<Longrightarrow> Q s"
  shows "list_all Q (da_sites (audit_record_instr rom d config st i a))"
proof -
  have "list_all Q (da_sites (add_site s a))"
    if "missing_direct s \<longrightarrow> instr_is_direct_target i \<and> site_names rom i s \<and>
      \<not> (ng_program_rom_addr_is_mapped rom (i_target i) \<and> ng_function_discovery_contains_for_rom d rom (i_target i))" for s
    using assms(1) other [of s] gap [of s] that by (auto simp: add_site_def)
  then show ?thesis
    using record_instr_step [of rom d config st i a] assms(1) by (auto simp: full_step_def)
qed

lemma missing_target_is_no_code:
  assumes "meets rom d (t, True, True)" "\<not> fd_truncated d"
    and "\<not> (ng_program_rom_addr_is_mapped rom t \<and> ng_function_discovery_contains_for_rom d rom t)"
  shows "\<not> is_probable_function_target rom t"
  using assms by (auto simp: meets_def has_candidate_def is_probable_function_target_def candidate_key_def
      ng_function_discovery_contains_for_rom_def ng_function_discovery_contains_bank_def list_ex_iff)

text \<open>
  The addresses the scan from \<open>start_addr\<close> comes to are \<open>start_addr\<close> and those its function demands; a missing target is
  explained by the instruction at one of them.
\<close>

definition scan_visits :: "ng_program_rom \<Rightarrow> u32 \<Rightarrow> u32 \<Rightarrow> bool" where
  "scan_visits rom start_addr pc \<longleftrightarrow>
     pc = start_addr \<or>
     (pc, False, False) \<in> set (function_demands rom start_addr NG_FUNCTION_DISCOVERY_MAX_INSTRUCTIONS start_addr)"

lemma scan_loop_sites:
  assumes "list_all Q (da_sites (snd sa))" and other: "\<And>s. \<not> missing_direct s \<Longrightarrow> Q s"
    and gap: "\<And>s pc i. pc = start_addr \<or> (pc, False, False) \<in> D \<Longrightarrow> ng_m68k_decode rom pc = (True, i) \<Longrightarrow>
      instr_is_direct_target i \<Longrightarrow> site_names rom i s \<Longrightarrow> \<not> is_probable_function_target rom (i_target i) \<Longrightarrow> Q s"
    and "\<forall>x \<in> set (function_demands rom start_addr n pc). x \<in> D" and "\<forall>x \<in> D. meets rom d x" and "\<not> fd_truncated d"
  shows "list_all Q (da_sites (snd (audit_scan_loop rom d config n pc st sa)))"
  using assms(1,4)
proof (induction n arbitrary: pc st sa)
  case (Suc n)
  obtain ok i where i: "ng_m68k_decode rom pc = (ok, i)" by (cases "ng_m68k_decode rom pc")
  show ?case
  proof (cases "usable_instr ok i")
    case True
    have "meets rom d (i_target i, True, True)" if "instr_is_direct_target i"
      using Suc.prems(2) True that assms(5) by (auto simp: i named_targets_def direct_target_is_discovery)
    moreover have "pc = start_addr \<or> (pc, False, False) \<in> D" using Suc.prems(2) True by (auto simp: i split: if_splits)
    moreover have "ng_m68k_decode rom pc = (True, i)" using True i by (simp add: usable_instr_def)
    ultimately have rec: "list_all Q (da_sites (audit_record_instr rom d config st i a))" if "list_all Q (da_sites a)" for a
      using that missing_target_is_no_code [OF _ assms(6)] by (intro record_instr_sites) (auto intro: other gap)
    have "list_all Q (da_sites (snd (map_prod id (audit_record_instr rom d config st i) (note_seen x sa))))" for x
      using Suc.prems(1) rec by (cases sa) (simp add: note_seen_def)
    then show ?thesis
      using Suc True unfolding audit_scan_loop.simps i prod.case audit_usable
      by (auto simp: Let_def i instr_stops_scan_def)
  qed (use Suc.prems(1) in \<open>auto simp: i usable_instr_def\<close>)
qed simp

definition explained :: "ng_program_rom \<Rightarrow> ng_function_discovery \<Rightarrow> ng_dispatch_audit_site \<Rightarrow> bool" where
  "explained rom d s \<longleftrightarrow>
     (missing_direct s \<longrightarrow>
      (\<exists>c \<in> set (fd_candidates d). \<exists>pc i. c_scan_root c \<and> scan_visits (candidate_view rom c) (c_addr c) pc \<and>
         ng_m68k_decode (candidate_view rom c) pc = (True, i) \<and> instr_is_direct_target i \<and>
         site_names (candidate_view rom c) i s \<and> \<not> is_probable_function_target (candidate_view rom c) (i_target i)))"

lemma explained_gap:
  "c \<in> set (fd_candidates d) \<Longrightarrow> c_scan_root c \<Longrightarrow>
   pc = c_addr c \<or> (pc, False, False) \<in> set (function_demands (candidate_view rom c) (c_addr c)
     NG_FUNCTION_DISCOVERY_MAX_INSTRUCTIONS (c_addr c)) \<Longrightarrow>
   ng_m68k_decode (candidate_view rom c) pc = (True, i) \<Longrightarrow> instr_is_direct_target i \<Longrightarrow>
   site_names (candidate_view rom c) i s \<Longrightarrow> \<not> is_probable_function_target (candidate_view rom c) (i_target i) \<Longrightarrow>
   explained rom d s"
  unfolding explained_def scan_visits_def by blast

lemma other_explained: "\<not> missing_direct s \<Longrightarrow> explained rom d s"
  by (simp add: explained_def)

lemma audit_view_is_candidate_view: "audit_view rom (entry_bank c) = candidate_view rom c"
  by (simp add: audit_view_def candidate_view_def)

lemma audit_explained:
  assumes "discovery_closed rom d" "\<not> fd_truncated d" "list_ex c_scan_root (fd_candidates d)"
  shows "list_all (explained rom d) (da_sites (ng_dispatch_audit_build_with_config rom d config))"
  unfolding ng_dispatch_audit_build_with_config_def Let_def
proof (rule sites_fold_invariant [where P = "\<lambda>sa. list_all (explained rom d) (da_sites (snd sa))"])
  fix c and sa :: "(u32 \<times> u32) list \<times> ng_dispatch_audit"
  assume c: "c \<in> set (fd_candidates d)" and sa: "list_all (explained rom d) (da_sites (snd sa))"
  show "list_all (explained rom d) (da_sites (snd
    (if list_ex c_scan_root (fd_candidates d) \<and> \<not> c_scan_root c then sa
     else audit_scan_from (audit_view rom (entry_bank c)) d config (c_addr c) sa)))"
  proof (cases "c_scan_root c")
    case True
    then have "closed_at rom c d" using assms(1) c by (simp add: discovery_closed_def)
    then show ?thesis
      using True sa c assms(2) unfolding audit_scan_from_def audit_view_is_candidate_view closed_at_def
      by (auto intro!: scan_loop_sites [where D = "set (function_demands (candidate_view rom c) (c_addr c)
            NG_FUNCTION_DISCOVERY_MAX_INSTRUCTIONS (c_addr c))" and start_addr = "c_addr c"]
          intro: explained_gap other_explained)
  qed (use sa assms(3) in simp)
qed (simp add: ng_dispatch_audit_init_def)

subsection \<open>Properties\<close>

text \<open>
  Counters of the audit. For every discovery and configuration the list of sites stays inside its array,
  and unless the audit reports that it was cut off, each counter is the number of sites of its kind, and the
  table counters are the totals of the entries of all sites, of which no site has more than 64.
\<close>

theorem audit_counters_exact:
  assumes "audit = ng_dispatch_audit_build_with_config rom d config" and "\<not> da_truncated audit"
  shows "length (da_sites audit) \<le> 131072 \<and> counters_exact audit \<and>
    (\<forall>s \<in> set (da_sites audit). unat (as_resolved_entries s) \<le> 64 \<and> unat (as_missing_entries s) \<le> 64)"
  using audit_build_ok [of rom d config] assms
  by (simp add: audit_ok_def site_ok_def list_all_iff NG_DISPATCH_AUDIT_MAX_SITES_def)

text \<open>The lines of one block of the suggestions.\<close>

definition suggestion_lines :: "ng_dispatch_audit_site \<Rightarrow> string list" where
  "suggestion_lines s =
     [''[[suggestion]]'', ''kind = '' @ quoted (suggestion_kind_for_site s), ''site = 0x'' @ hex6_text (as_site_addr s),
      ''mnemonic = '' @ quoted (ng_m68k_mnemonic_name (as_mnemonic s))] @
     (if as_site_banked s then [''site_bank = '' @ u32_text (as_site_bank s)] else []) @
     (if as_kind s = NG_DISPATCH_AUDIT_DIRECT then
        (''target = 0x'' @ hex6_text (as_target_addr s)) #
        (if as_target_banked s then [''target_bank = '' @ u32_text (as_target_bank s)] else [])
      else if as_kind s = NG_DISPATCH_AUDIT_JUMP_TABLE then
        [''table = 0x'' @ hex6_text (as_table_addr s), ''missing_entries = '' @ u8_text (as_missing_entries s),
         ''resolved_entries = '' @ u8_text (as_resolved_entries s)] @
        (if as_table_banked s then [''table_bank = '' @ u32_text (as_table_bank s)] else [])
      else []) @
     [''action = '' @ quoted (suggestion_action_for_kind (as_kind s)), []]"

lemma suggestion_block_lines: "suggestion_block s = unlines (suggestion_lines s)"
  by (simp add: suggestion_block_def suggestion_lines_def eol_def)

lemma one_line_names: "one_line (ng_m68k_mnemonic_name m)"
  by (cases m) (simp_all add: ng_m68k_mnemonic_name_def)

lemma suggestion_lines_ok: "list_all one_line (suggestion_lines s)"
  by (cases "as_kind s") (simp_all add: suggestion_lines_def quoted_def suggestion_kind_for_site_def hex6_text_def
      u32_text_def u8_text_def one_line_names)

text \<open>The header of a block, and the line that names its site.\<close>

definition site_line :: "ng_dispatch_audit_site \<Rightarrow> string" where
  "site_line s = ''site = 0x'' @ hex6_text (as_site_addr s)"

lemma suggestion_lines_shape:
  "filter (\<lambda>l. l = ''[[suggestion]]'') (suggestion_lines s) = [''[[suggestion]]'']"
  "filter (\<lambda>l. take 7 l = ''site = '') (suggestion_lines s) = [site_line s]"
  by (simp_all add: suggestion_lines_def site_line_def)

definition suggestion_report_lines :: "bool \<Rightarrow> ng_dispatch_audit \<Rightarrow> string list" where
  "suggestion_report_lines stream_error a = split_lines (snd (ng_dispatch_audit_write_suggestions stream_error a))"

lemma suggestion_report_lines_eq:
  "suggestion_report_lines stream_error a =
     [''# Machine-readable dispatch discovery suggestions.'',
      ''# These are generic diagnostics, not auto-applied config.'',
      ''suggestion_count = '' @ u32_text (suggestion_count a),
      ''truncated = '' @ (if da_truncated a then ''true'' else ''false''), []] @
     concat (map suggestion_lines (filter site_needs_suggestion (da_sites a))) @ [[]]"
proof -
  let ?head = "[''# Machine-readable dispatch discovery suggestions.'',
      ''# These are generic diagnostics, not auto-applied config.'',
      ''suggestion_count = '' @ u32_text (suggestion_count a),
      ''truncated = '' @ (if da_truncated a then ''true'' else ''false''), []]"
  let ?ls = "?head @ concat (map suggestion_lines (filter site_needs_suggestion (da_sites a)))"
  have "concat (map suggestion_block xs) = unlines (concat (map suggestion_lines xs))" for xs
    by (induction xs) (simp_all add: suggestion_block_lines)
  then have "snd (ng_dispatch_audit_write_suggestions stream_error a) = unlines ?ls @ []"
    by (simp add: ng_dispatch_audit_write_suggestions_def eol_def)
  moreover have "list_all one_line ?ls" using suggestion_lines_ok by (auto simp: list_all_iff u32_text_def)
  ultimately show ?thesis unfolding suggestion_report_lines_def by (simp only: split_unlines) simp
qed

lemma suggestion_report_shape:
  "filter (\<lambda>l. l = ''[[suggestion]]'') (suggestion_report_lines e a) =
     map (\<lambda>_. ''[[suggestion]]'') (filter site_needs_suggestion (da_sites a))"
  "filter (\<lambda>l. take 7 l = ''site = '') (suggestion_report_lines e a) =
     map site_line (filter site_needs_suggestion (da_sites a))"
proof -
  have "filter (\<lambda>l. l = ''[[suggestion]]'') (concat (map suggestion_lines xs)) = map (\<lambda>_. ''[[suggestion]]'') xs"
    "filter (\<lambda>l. take 7 l = ''site = '') (concat (map suggestion_lines xs)) = map site_line xs" for xs
    by (induction xs) (simp_all add: suggestion_lines_shape)
  then show "filter (\<lambda>l. l = ''[[suggestion]]'') (suggestion_report_lines e a) =
      map (\<lambda>_. ''[[suggestion]]'') (filter site_needs_suggestion (da_sites a))"
    "filter (\<lambda>l. take 7 l = ''site = '') (suggestion_report_lines e a) =
      map site_line (filter site_needs_suggestion (da_sites a))"
    unfolding suggestion_report_lines_eq by simp_all
qed

text \<open>
  C8 (summary and report agree). The audit says it has gaps exactly when it was cut off or the number of suggestions
  its report announces is not zero; the report has the line with that number and as many blocks, and the lines that
  name the sites of the blocks are those of the sites that need a suggestion, in the order of the audit.
\<close>

theorem audit_gaps_are_reported:
  "let audit = ng_dispatch_audit_build_with_config rom d config in
    (ng_dispatch_audit_has_gaps audit \<longleftrightarrow> da_truncated audit \<or> 0 < suggestion_count audit) \<and>
    ''suggestion_count = '' @ print_dec (unat (suggestion_count audit)) \<in> set (suggestion_report_lines e audit) \<and>
    length (filter (\<lambda>l. l = ''[[suggestion]]'') (suggestion_report_lines e audit)) = unat (suggestion_count audit) \<and>
    filter (\<lambda>l. take 7 l = ''site = '') (suggestion_report_lines e audit) =
      map site_line (filter site_needs_suggestion (da_sites audit))"
proof -
  define audit where "audit = ng_dispatch_audit_build_with_config rom d config"
  have "length (filter site_needs_suggestion (da_sites audit)) < 2 ^ 32"
    using audit_build_ok [of rom d config] length_filter_le [of site_needs_suggestion "da_sites audit"]
    by (simp add: audit_def audit_ok_def NG_DISPATCH_AUDIT_MAX_SITES_def del: length_filter_le)
  then have n: "unat (suggestion_count audit) = length (filter site_needs_suggestion (da_sites audit))"
    by (simp add: suggestion_count_filter count_of_def unat_of_nat take_bit_nat_eq_self)
  then have "suggestion_count audit \<noteq> 0 \<longleftrightarrow> list_ex site_needs_suggestion (da_sites audit)"
    by (auto simp: unat_eq_0 [symmetric] filter_empty_conv list_ex_iff)
  then have "ng_dispatch_audit_has_gaps audit \<longleftrightarrow> da_truncated audit \<or> 0 < suggestion_count audit"
    using gaps_iff_suggestions [OF audit_build_ok] by (simp add: audit_def word_gt_0)
  moreover have "''suggestion_count = '' @ print_dec (unat (suggestion_count audit)) \<in> set (suggestion_report_lines e audit)"
    by (simp add: suggestion_report_lines_eq u32_text_def)
  ultimately show ?thesis unfolding Let_def audit_def [symmetric] by (simp only: suggestion_report_shape length_map n)
qed

text \<open>
  C7 (discovery and audit). After a discovery that is closed under control flow and was not cut off, every direct call
  or jump the audit reports as missing is explained by an instruction of the program: a root of the discovery whose
  scan comes to the site decodes there the call or jump the site shows, and the address it names is not code in the
  bank that root sees: it is not mapped, is odd, or does not decode to a valid instruction.
\<close>

theorem audit_misses_only_non_code:
  assumes "discovery_closed rom d" and "\<not> fd_truncated d" and "list_ex c_scan_root (fd_candidates d)"
    and "s \<in> set (da_sites (ng_dispatch_audit_build_with_config rom d config))"
    and "as_kind s = NG_DISPATCH_AUDIT_DIRECT" and "site_needs_suggestion s"
  shows "\<exists>c \<in> set (fd_candidates d). \<exists>pc i. c_scan_root c \<and> scan_visits (candidate_view rom c) (c_addr c) pc \<and>
    ng_m68k_decode (candidate_view rom c) pc = (True, i) \<and> instr_is_direct_target i \<and>
    site_names (candidate_view rom c) i s \<and> \<not> is_probable_function_target (candidate_view rom c) (i_target i)"
  using audit_explained [OF assms(1-3), of config] assms(4-6)
  by (auto simp: list_all_iff explained_def missing_direct_def site_needs_suggestion_def)

text \<open>The audit of a \<open>BSR.W\<close> out of the ROM, followed by \<open>RTS\<close>.\<close>

lemma audit_scan_loop_numeral:
  assumes "ng_m68k_decode rom pc = (True, i)" "usable_instr True i"
  shows "audit_scan_loop rom d config (numeral v) pc st sa =
    (let sa' = (if addr_seen_bank (fst sa) pc (audit_bank_for_addr rom pc) then sa
                else map_prod id (audit_record_instr rom d config st i) (note_seen (pc, audit_bank_for_addr rom pc) sa))
     in if instr_stops_scan i then sa'
        else audit_scan_loop rom d config (pred_numeral v) (pc + ucast (i_byte_length i)) (audit_scan_update i st) sa')"
  using assms by (subst numeral_eq_Suc) (simp add: usable_instr_def Let_def)

lemma audit_no_table:
  assumes "i_mnemonic i = NG_M68K_BSR \<or> i_mnemonic i = NG_M68K_RTS"
  shows "audit_match_table rom st i = None"
proof -
  have "ng_m68k_match_pc_index_jump_table p i = None" "ng_m68k_match_static_index_jump_table p i a = None"
    "ng_m68k_match_static_index_branch_table i a = None" "ng_m68k_match_pc_index_inline_code_table rom p i = None"
    "ng_m68k_match_pc_index_branch_table rom i = None" "ng_m68k_match_repeated_direct_dispatch_table rom i = None" for p a
    using assms by (auto simp: ng_m68k_match_pc_index_jump_table_def ng_m68k_match_static_index_jump_table_def
        ng_m68k_match_static_index_branch_table_def ng_m68k_match_pc_index_inline_code_table_def
        ng_m68k_match_pc_index_branch_table_def ng_m68k_match_repeated_direct_dispatch_table_def)
  then show ?thesis by (simp add: audit_match_table_def audit_match_pair_def split: option.split)
qed

definition sample_site :: ng_dispatch_audit_site where
  "sample_site = audit_site_zero\<lparr>as_mnemonic := NG_M68K_BSR, as_site_bank := NG_FUNCTION_DISCOVERY_BANK_NONE,
     as_target_known := True, as_target_addr := 0x12, as_target_bank := NG_FUNCTION_DISCOVERY_BANK_NONE\<rparr>"

definition sample_audit :: ng_dispatch_audit where
  "sample_audit = ng_dispatch_audit_init\<lparr>da_sites := [sample_site], da_direct_count := 1, da_missing_direct_count := 1\<rparr>"

lemma sample_audit_bank: "audit_bank_for_addr sample_code a = NG_FUNCTION_DISCOVERY_BANK_NONE"
  using sample_bank [of a] by (simp add: audit_bank_for_addr_def discovery_bank_for_addr_def)

lemma sample_record:
  "audit_record_instr sample_code d None st sample_bsr ng_dispatch_audit_init = sample_audit"
  "audit_record_instr sample_code d None st (sample_rts 4) a = a"
proof -
  have "\<not> ng_program_rom_addr_is_mapped sample_code 0x12"
    by (simp add: sample_code_def rom_zero_def ng_program_rom_addr_is_mapped_def ng_program_rom_translate_addr_def word_le_nat_alt)
  moreover have "i_addr sample_bsr = 0" by (simp add: sample_bsr_def instr_zero_def)
  ultimately show "audit_record_instr sample_code d None st sample_bsr ng_dispatch_audit_init = sample_audit"
    by (simp add: audit_record_instr_def audit_no_table sample_fields instr_is_direct_target_def audit_record_direct_def
        audit_append_def new_site_def sample_audit_bank on_site_def ng_dispatch_audit_init_def NG_DISPATCH_AUDIT_MAX_SITES_def
        ng_address_region_def sample_audit_def sample_site_def audit_site_zero_def Let_def)
  show "audit_record_instr sample_code d None st (sample_rts 4) a = a"
    by (simp add: audit_record_instr_def audit_no_table sample_fields instr_is_direct_target_def instr_is_dispatch_def)
qed

lemma sample_audit_run: "ng_dispatch_audit_build_with_config sample_code (sample_found [0, 4]) None = sample_audit"
proof -
  have view: "audit_view sample_code (entry_bank (sample_c a)) = sample_code" for a
    by (simp add: audit_view_def sample_c_def entry_bank_def)
  show ?thesis
    unfolding ng_dispatch_audit_build_with_config_def audit_scan_from_def NG_FUNCTION_DISCOVERY_MAX_INSTRUCTIONS_def
    by (simp add: sample_found_fields view audit_scan_loop_numeral [OF sample_decode sample_usable(1)]
        audit_scan_loop_numeral [OF sample_rts_decode sample_usable(2)] sample_fields sample_record sample_audit_bank
        note_seen_def NG_DISPATCH_AUDIT_MAX_SEEN_def addr_seen_bank_def instr_stops_scan_def Let_def
        del: audit_scan_loop.simps)
qed

lemma function_demands_numeral:
  assumes "ng_m68k_decode rom pc = (True, i)" "usable_instr True i"
  shows "function_demands rom start_addr (numeral v) pc =
    (if pc \<noteq> start_addr then [(pc, False, False)] else []) @ map (\<lambda>t. (t, True, True)) (named_targets pc i) @
    (if i_mnemonic i \<in> {NG_M68K_BRA, NG_M68K_JMP, NG_M68K_RTS, NG_M68K_RTE, NG_M68K_RTR} then []
     else function_demands rom start_addr (pred_numeral v) (pc + ucast (i_byte_length i)))"
  using assms by (subst numeral_eq_Suc) (simp del: insert_iff)

lemma sample_closed: "discovery_closed sample_code (sample_found [0, 4])"
proof -
  have view: "candidate_view sample_code (sample_c a) = sample_code" for a
    by (simp add: candidate_view_def sample_c_def entry_bank_def)
  have meets: "meets sample_code (sample_found [0, 4]) (0x12, True, True)"
    "meets sample_code (sample_found [0, 4]) (4, e, r)" for e r
    by (simp_all add: meets_def sample_probable has_candidate_def sample_found_fields candidate_key_def sample_bank
        sample_c_def entry_bank_def)
  show ?thesis
    unfolding discovery_closed_def closed_at_def NG_FUNCTION_DISCOVERY_MAX_INSTRUCTIONS_def
    by (simp add: sample_found_fields view function_demands_numeral [OF sample_decode sample_usable(1)]
        function_demands_numeral [OF sample_rts_decode sample_usable(2)] sample_fields named_targets_def meets
        is_direct_function_target_def is_branch_target_candidate_def del: function_demands.simps)
qed

theorem audit_counters_exact_witness: "da_missing_direct_count sample_audit = 1 \<and> counters_exact sample_audit"
  using audit_counters_exact [OF sample_audit_run [symmetric]]
  by (simp add: sample_audit_def ng_dispatch_audit_init_def)

theorem audit_misses_only_non_code_witness:
  "\<exists>c \<in> set (fd_candidates (sample_found [0, 4])). \<exists>pc i. c_scan_root c \<and>
     scan_visits (candidate_view sample_code c) (c_addr c) pc \<and>
     ng_m68k_decode (candidate_view sample_code c) pc = (True, i) \<and> instr_is_direct_target i \<and>
     site_names (candidate_view sample_code c) i sample_site \<and>
     \<not> is_probable_function_target (candidate_view sample_code c) (i_target i)"
  by (rule audit_misses_only_non_code [OF sample_closed, of _ None])
    (simp_all add: sample_audit_run sample_found_fields sample_audit_def sample_site_def audit_site_zero_def
      site_needs_suggestion_def)

end
