(* ===== verification/CartView.thy ===== *)
theory CartView
  imports ProgramRomProps NeogeoMap
begin

text \<open>
  The recompiler's view of a cartridge against the runtime's. The recompiler reads the program ROM
  through \<open>ng_program_rom_set_address_map\<close>; generated code reads it through the runtime's bus, whose
  windows are fixed in \<open>ng68k_read8\<close>. \<open>cart_map\<close> is the map the game configurations of the repository
  set for a cartridge (1 MiB fixed at 0, a 1 MiB bank window at 0x200000).
\<close>

abbreviation cart_map :: "ng_program_rom \<Rightarrow> ng_program_rom" where
  "cart_map rom \<equiv> ng_program_rom_set_address_map rom 0 0x100000 0x200000 0x100000"

abbreviation cart_inserted :: "ng_program_rom \<Rightarrow> runtime \<Rightarrow> bool" where
  "cart_inserted rom s \<equiv> program_rom s = Some (rom_data rom) \<and> program_rom_size s = rom_size rom \<and>
     bios_vectors_enabled (latch s) = 0"

lemma set_address_map_frame:
  "rom_data (ng_program_rom_set_address_map rom fb fs wb ws) = rom_data rom"
  "rom_size (ng_program_rom_set_address_map rom fb fs wb ws) = rom_size rom"
  "fixed_base (ng_program_rom_set_address_map rom fb fs wb ws) = fb"
  "fixed_size (ng_program_rom_set_address_map rom fb fs wb ws) = fs"
  "bank_window_base (ng_program_rom_set_address_map rom fb fs wb ws) = wb"
  "bank_window_size (ng_program_rom_set_address_map rom fb fs wb ws) = ws"
  "active_bank (ng_program_rom_set_address_map rom fb fs wb ws) = 0"
  "address_map_enabled (ng_program_rom_set_address_map rom fb fs wb ws) = (fs \<noteq> 0 \<or> ws \<noteq> 0)"
  using address_map_loop [of rom fb fs wb ws]
  by (simp_all add: set_address_map_base outside_tables_same_def)
     (simp_all add: mapped_base_def ng_program_rom_clear_banks_def Let_def)

lemma cart_map_no_bank:
  assumes "rom_size rom \<le> 0x100000"
  shows "bank_count (cart_map rom) = 0"
  using address_map_loop [of rom 0 "0x100000" "0x200000" "0x100000"] assms
  by (simp add: set_address_map_base outside_tables_same_def)
     (simp add: mapped_base_def ng_program_rom_clear_banks_def Let_def ng_program_rom_derived_bank_count_def
        NG_PROGRAM_ROM_MAX_BANKS_def)

lemma cart_map_bank0:
  assumes "0x100000 < rom_size rom"
  shows "bank_count (cart_map rom) \<noteq> 0" "bank_configured (cart_map rom) ! 0 = 1"
    "bank_offsets (cart_map rom) ! 0 = 0x100000"
    "unat (bank_sizes (cart_map rom) ! 0) = min 0x100000 (unat (rom_size rom) - 0x100000)"
proof -
  have n: "0x100000 < unat (rom_size rom)" using assms by (simp add: word_less_nat_alt)
  note T = set_address_map_banks [of "0x100000" rom "0x100000" 0 0 "0x200000"]
  have k: "0 < (unat (rom_size rom) - 0x100000 + 0x100000 - 1) div 0x100000"
    using n by (simp add: div_greater_zero_iff)
  have sz: "unat (rom_size rom) - 0x100000 + 0x100000 \<le> 2 ^ 32"
    using unat_below [of "rom_size rom"] n by simp
  have T': "unat (bank_count (cart_map rom)) = min 256 ((unat (rom_size rom) - 0x100000 + 0x100000 - 1) div 0x100000)"
    "bank_configured (cart_map rom) ! 0 = 1" "unat (bank_offsets (cart_map rom) ! 0) = 0x100000"
    "unat (bank_sizes (cart_map rom) ! 0) = min 0x100000 (unat (rom_size rom) - 0x100000)"
    using T k sz assms by simp_all
  then show "bank_count (cart_map rom) \<noteq> 0" using k by (auto simp: word_unat_eq_iff)
  show "bank_configured (cart_map rom) ! 0 = 1"
    "unat (bank_sizes (cart_map rom) ! 0) = min 0x100000 (unat (rom_size rom) - 0x100000)"
    using T' by simp_all
  show "bank_offsets (cart_map rom) ! 0 = 0x100000" using T'(3) by (simp add: word_unat_eq_iff)
qed

text \<open>The bytes the recompiler sees through the map, by region.\<close>

lemma cart_map_fixed_read:
  assumes "unat a < 0x100000"
  shows "ng_program_rom_read8 (cart_map rom) a = rom_byte (Some (rom_data rom)) (rom_size rom) a"
  using assms
  by (auto simp: ng_program_rom_read8_def ng_program_rom_translate_addr_def translate_fixed_def translate_banked_def
      set_address_map_frame rom_byte_def Let_def word_less_nat_alt word_le_nat_alt split: option.splits)

lemma cart_map_bank_read:
  assumes "0x200000 \<le> unat a" and "unat a < 0x300000"
  shows "ng_program_rom_read8 (cart_map rom) a =
           rom_byte (Some (rom_data rom)) (rom_size rom) (0x100000 + (a - 0x200000))"
proof -
  let ?rel = "a - 0x200000"
  have rel: "unat ?rel = unat a - 0x200000" using assms by (simp add: unat_sub word_le_nat_alt)
  have off: "unat (0x100000 + ?rel) = unat a - 0x100000"
    using assms by (simp add: unat_sub word_le_nat_alt)
  have off64: "unat ((0x100000 :: u64) + ucast ?rel) = unat a - 0x100000"
    using assms rel by (simp add: unat_word_ariths unat_ucast_up)
  have tf: "translate_fixed (cart_map rom) a = None"
    using assms by (simp add: translate_fixed_def set_address_map_frame word_less_nat_alt)
  have "translate_banked (cart_map rom) a =
      (if 0x100000 + ?rel < rom_size rom then Some (0x100000 + ?rel) else None)"
  proof (cases "0x100000 < rom_size rom")
    case True
    have cast: "(ucast ((0x100000 :: u64) + ucast ?rel) :: u32) = 0x100000 + ?rel"
      using off off64 assms by (simp add: word_unat_eq_iff unsigned_ucast_eq take_bit_nat_eq_self)
    note B = cart_map_bank0 [OF True]
    have c: "\<not> bank_count (cart_map rom) \<le> 0" "?rel < 0x100000" "0x200000 \<le> a"
      "bank_sizes (cart_map rom) ! 0 \<le> ?rel \<longleftrightarrow> \<not> 0x100000 + ?rel < rom_size rom"
      "(0x100000 :: u64) + ucast ?rel < ucast (rom_size rom) \<longleftrightarrow> 0x100000 + ?rel < rom_size rom"
      unfolding word_less_nat_alt word_le_nat_alt off off64 rel B(4)
      using assms B(1) True by (auto simp: unat_ucast_up unat_gt_0 word_less_nat_alt)
    then show ?thesis
      using c cast by (simp only: translate_banked_def set_address_map_frame Let_def B(2,3)
          NG_PROGRAM_ROM_MAX_BANKS_def unsigned_0) simp
  next
    case False
    then show ?thesis
      using cart_map_no_bank [of rom] off assms
      by (auto simp: translate_banked_def set_address_map_frame Let_def word_less_nat_alt word_le_nat_alt not_less)
  qed
  then show ?thesis
    by (simp add: ng_program_rom_read8_def ng_program_rom_translate_addr_def tf set_address_map_frame rom_byte_def)
qed

text \<open>A byte address inside the two program-ROM windows.\<close>

definition in_cart_window :: "u32 \<Rightarrow> bool" where
  "in_cart_window a \<longleftrightarrow>
     a \<le> 0x00FFFFFF \<and> ng_address_region a \<in> {NG_REGION_P_ROM_FIXED, NG_REGION_P_ROM_BANK}"

lemma addr24_id: "a \<le> 0x00FFFFFF \<Longrightarrow> a AND 0x00FFFFFF = (a :: u32)"
  by (simp add: and_24bit word_unat_eq_iff word_le_nat_alt unsigned_take_bit_eq take_bit_nat_eq_self)

lemma cart_byte_agrees:
  assumes "cart_inserted rom s" and "in_cart_window a"
  shows "ng68k_read8 a s = (ng_program_rom_read8 (cart_map rom) a, s)"
proof -
  have m: "a AND 0x00FFFFFF = a" using assms(2) by (simp add: in_cart_window_def addr24_id)
  consider "ng_address_region a = NG_REGION_P_ROM_FIXED" | "ng_address_region a = NG_REGION_P_ROM_BANK"
    using assms(2) by (auto simp: in_cart_window_def)
  then show ?thesis
  proof cases
    case 1
    then have "unat a < 0x100000" by (simp add: region_fixed m word_le_nat_alt)
    then show ?thesis using assms(1) by (simp add: rom_region_read8(1) [OF 1] m cart_map_fixed_read)
  next
    case 2
    then have "0x200000 \<le> unat a" "unat a < 0x300000" by (simp_all add: region_bank m word_le_nat_alt)
    then show ?thesis using assms(1) by (simp add: rom_region_read8(2) [OF 2] m cart_map_bank_read)
  qed
qed

lemma cart_long_agrees:
  assumes "cart_inserted rom s" and "\<forall>k<4. in_cart_window (a + of_nat k)"
  shows "ng68k_read16 a s = (ng_program_rom_read16 (cart_map rom) a, s)"
    and "ng68k_read32 a s = (ng_program_rom_read32 (cart_map rom) a, s)"
proof -
  have "in_cart_window a" "in_cart_window (a + 1)" "in_cart_window (a + 2)" "in_cart_window (a + 3)"
    using assms(2) [rule_format, of 0] assms(2) [rule_format, of 1] assms(2) [rule_format, of 2]
      assms(2) [rule_format, of 3] by simp_all
  note b = this [THEN cart_byte_agrees [OF assms(1)]]
  show "ng68k_read16 a s = (ng_program_rom_read16 (cart_map rom) a, s)"
    by (simp add: ng68k_read16_def b rom_reader.rd16_bytes)
  show "ng68k_read32 a s = (ng_program_rom_read32 (cart_map rom) a, s)"
    by (simp add: ng68k_read32_def ng68k_read16_def b rom_reader.rd32_bytes add.assoc)
qed

end
