(* ===== verification/Spec2Isabelle.thy ===== *)
theory Spec2Isabelle
  imports M68kDecodeProps M68kValidateProps M68kCyclesProps M68kAnalyzeProps RuntimeProps RuntimeBusProps
    NeogeoVideoProps NeogeoAudioProps DiscoveryProps GameConfigProps M68kFormatProps DispatchAuditProps CartView
begin

text \<open>
  Verification of neo-recomp, a static recompiler from Neo Geo 68000 program ROMs to C, and of the
  runtime the generated C links against.

  \<^bold>\<open>The program.\<close> The recompiler (\<open>recompiler/src\<close>) loads a cartridge's program ROM (\<open>p_rom.c\<close>),
  optionally maps it into a fixed window and a bank window, classifies addresses (\<open>neogeo_map.c\<close>),
  decodes 68000 instructions from it (\<open>m68k_decode.c\<close>), checks them (\<open>m68k_validate.c\<close>), looks up their
  cycles (\<open>m68k_cycles.c\<close>), tracks registers to find jump tables (\<open>m68k_analyze.c\<close>), discovers functions
  (\<open>function_discovery.c\<close>, guided by a game configuration), and emits C. The generated C calls the runtime (\<open>runtime/src/neogeo_runtime.c\<close>) for every
  bus access, for elapsed cycles, and at every interrupt poll; the host (\<open>tools/\<close>) drives the same
  runtime, renders VRAM and palette (\<open>neogeo_video.c\<close>), drains its sound-command queue into
  the sound board (\<open>neogeo_audio.c\<close>), and saves and restores both.

  \<^bold>\<open>The theories.\<close>
  \<^item> \<open>Prelude\<close>: words, big-endian pairs, error results, and two interfaces, \<open>be_reader\<close> (wide reads composed
    of byte reads) and \<open>guarded_steps\<close> (operations that keep an invariant).
  \<^item> \<open>ProgramRom\<close> models all of \<open>p_rom.c\<close>: one record per struct of \<open>p_rom.h\<close>, one definition per function;
    a path is looked up in a file-system parameter, and every failing return is an \<open>Inl\<close> or \<open>None\<close>.
    \<open>ProgramRomProps\<close> shows that loading a \<open>.neo\<close> container loses nothing and never copies outside the
    file, what bank table \<open>ng_program_rom_set_address_map\<close> builds, and that no sequence of map
    operations makes a mapped read leave the buffer.
  \<^item> \<open>M68kInstr\<close> and \<open>M68kDecode\<close> model \<open>m68k_decode.h\<close> and the decoder of \<open>m68k_decode.c\<close> (lines 1 to
    1883): each helper and each \<open>if\<close> block of \<open>ng_m68k_decode\<close> is a stage that either returns an
    instruction or falls through, possibly with fields already written, and \<open>ng_m68k_decode\<close> runs the
    stages in source order. \<open>M68kDecodeInv\<close> (well-formed instructions), \<open>M68kDecodeFlow\<close> (branch and jump
    targets, by the words of the ROM) prove a stage contract for each block and compose them through the locale
    \<open>stage_contract\<close>; \<open>M68kDecodeProps\<close> holds the theorems, and shows which blocks can never match and
    that a decoded instruction depends only on its own bytes.
  \<^item> \<open>TextOutput\<close> (the conversions of \<open>printf\<close>) and \<open>M68kFormat\<close> model the disassembler, \<open>m68k_decode.c\<close> from line 1885 on;
    \<open>M68kFormatProps\<close> shows that no buffer cuts its text, that the text cannot end the C comment it is put into, and
    that it shows every operand of a decoded instruction.
  \<^item> \<open>M68kValidate\<close> models all of \<open>m68k_validate.c\<close>: the payload checks of each addressing mode, the extension
    lengths, the opcode field of an operand, the checks of each instruction class and the dispatching switch.
    \<open>M68kValidateEa\<close>, \<open>M68kValidateOps\<close> and \<open>M68kValidateAlu\<close> show stage by stage that what the decoder returns
    is accepted; \<open>M68kValidateProps\<close> composes them, again through \<open>stage_contract\<close>.
  \<^item> \<open>M68kCycles\<close> models all of \<open>m68k_cycles.c\<close>: the 1699 entries, the loop that expands an entry over the opcodes
    it matches (a \<open>partial_function\<close>, since it may not end), the lazily built table and the lookups.
    \<open>M68kCyclesProps\<close> shows that the loop ends, which entry a lookup returns, and the range of the cycles.
  \<^item> \<open>M68kAnalyze\<close> models all of \<open>m68k_analyze.c\<close>: the static address registers, the index bounds and the
    jump-table patterns. \<open>M68kAnalyzeProps\<close> states the two register analyses as instances of
    \<open>forward_analysis\<close> and shows what they promise after any instruction sequence, and what the
    branch-table scan has seen when it accepts.
  \<^item> \<open>GameConfig\<close> holds the structures of \<open>game_config.h\<close>; \<open>ConfigText\<close> (the C text functions and the parsers of one
    value) and \<open>GameConfigParse\<close> (paths, appending, sections, the line loop and included files) model all of
    \<open>game_config.c\<close>. \<open>GameConfigBounds\<close> states that a configuration fits the C structure and that every step of the
    parser keeps this; \<open>GameConfigProps\<close> shows it of every load, that circular includes fail, and that printed
    entry lists are read back.
  \<^item> \<open>DiscoverySet\<close>, \<open>DiscoveryTables\<close>, \<open>DiscoveryTasks\<close>,
    \<open>DiscoveryStatic\<close>, \<open>DiscoveryScript\<close> and \<open>FunctionDiscovery\<close> model all of \<open>function_discovery.c\<close>: the
    candidate set, the scanners of tables, records and scripts, the scan of one function and the work list.
    \<open>DiscoverySteps\<close> states what any scanner may do to the set as a step relation and what every run of it
    keeps; \<open>DiscoveryRuns\<close> shows that each scanner is such a run and that the work list returns;
    \<open>DiscoveryProps\<close> shows that the result is valid and closed under calls and branches.
  \<^item> \<open>DispatchAudit\<close> and \<open>DispatchReport\<close> model all of \<open>dispatch_audit.c\<close>: the scan that lists every call and jump of the
    discovered functions, and the two reports. \<open>TextLines\<close> cuts a text into its lines. \<open>DispatchAuditProps\<close> shows that
    counters, list and the lines of the suggestion report agree, and that after a closed discovery each missing call
    or jump is one a scanned function makes to an address that is not code.
  \<^item> \<open>Buffers\<close> (bounds-checked arrays and loops over them) and \<open>NeogeoVideo\<close> model all of \<open>neogeo_video.c\<close>;
    \<open>NeogeoVideoProps\<close> shows that no renderer leaves its buffers and that sprite chains come out as in the
    whole display list.
  \<^item> \<open>NeogeoAudio\<close> models all of \<open>neogeo_audio.c\<close>: the Z80's banked ROM, bus and ports, the log of YM2610 writes,
    the interrupt lines, the accounting of cycles and the save states. One instruction of the Z80 core and the
    YM2610 binding are parameters. \<open>NeogeoAudioProps\<close> shows which byte of the ROM every address reads, that slices of
    time add up, that the log is the end of the history of writes, and that a save restores a board that has a chip; what
    these need of the two cores are the predicates \<open>z80_core_ok\<close> and \<open>ym_state_ok\<close>.
  \<^item> \<open>RuntimeState\<close>, \<open>RuntimeTiming\<close>, \<open>RuntimeBus\<close>, \<open>RuntimeSave\<close> model \<open>neogeo_runtime.c\<close>: the static
    variables as one record per device, the interrupt, timer, raster and watchdog clocks, the bus reads
    and writes with all their side effects, and save states, seeds and copies. \<open>RuntimeDevices\<close> and
    \<open>RuntimeClock\<close> hold the lemmas of each device (palette statistics, the sound queue as an instance
    of \<open>bounded_fifo\<close>, interrupt priority, timer and raster arithmetic); \<open>RuntimeInv\<close> states the
    invariant \<open>runtime_ok\<close> of the whole runtime and that every operation keeps it, those of the generated code on the
    CPU registers and of a caller that drives the interrupt pins included; while the pins are not driven the interrupt
    level is the one of the pending devices. \<open>RuntimeProps\<close> and \<open>RuntimeBusProps\<close> hold the theorems.
  \<^item> \<open>NeogeoMap\<close> models \<open>neogeo_map.c\<close> and relates it to the bus; \<open>CartView\<close> relates the recompiler's view of
    the ROM to the runtime's. This theory holds the properties that span the two.

  \<^bold>\<open>Conventions.\<close> C integers are words of their width, so every wrap-around is the one of the code. Arrays
  with a fixed size are functions or lists of that size; a read or write outside a buffer is an error
  value (\<open>BufferOverflow\<close>, or \<open>None\<close> in \<open>NeogeoVideo\<close>) or excluded by a theorem. Loops are recursive functions
  with termination proofs, and a \<open>partial_function\<close> with a theorem that it returns in \<open>M68kCycles\<close> and for the
  routine tables of \<open>DiscoveryTables\<close>; no fuel is used: the level that counts
  down in \<open>ng_game_config_load_into\<close> is the code's own limit on nested includes, 9 minus its \<open>depth\<close>, and the
  bound of \<open>advance_loop\<close> is the code's \<open>max_instructions\<close>. Pointers the code requires to be non-null are values; optional pointers are
  options. \<open>malloc\<close> and \<open>calloc\<close> are taken to succeed.

  \<^bold>\<open>Not modelled.\<close> The dispatch-miss log, which only formats text, the
  C emitter, the command line and the hosts, and the instructions of the Z80 core and the YM2610 with its binding, which
  are or wrap third-party code.
\<close>

subsection \<open>The recompiled image and the runtime's bus\<close>

lemma low_cart_window: "k < 0x100 \<Longrightarrow> in_cart_window (of_nat k)"
  by (simp add: in_cart_window_def region_fixed addr24_id word_le_nat_alt unat_of_nat take_bit_nat_eq_self
      unsigned_of_nat)

text \<open>
  C12 (equivalence): the recompiler and the runtime see the same program. With the cartridge map of the
  game configurations, no BIOS vectors mapped in, and the runtime's program ROM set to the image the
  recompiler loaded, every byte, word and long word inside the fixed and bank windows reads the same on
  the runtime's bus as in the recompiler, mapped or not, and the bus read has no side effect.
\<close>

theorem recompiler_and_runtime_read_the_same_rom:
  assumes "program_rom s = Some (rom_data rom)" and "program_rom_size s = rom_size rom"
    and "bios_vectors_enabled (latch s) = 0" and "\<forall>k<4. in_cart_window (a + of_nat k)"
  shows "ng68k_read8 a s = (ng_program_rom_read8 (cart_map rom) a, s) \<and>
    ng68k_read16 a s = (ng_program_rom_read16 (cart_map rom) a, s) \<and>
    ng68k_read32 a s = (ng_program_rom_read32 (cart_map rom) a, s)"
proof -
  have "in_cart_window a" using assms(4) [rule_format, of 0] by simp
  then show ?thesis
    using cart_byte_agrees [of s rom a] cart_long_agrees [of s rom a] assms by simp
qed

definition sample_cart :: ng_program_rom where
  "sample_cart = rom_zero\<lparr>rom_data := [0x00, 0x10, 0xF3, 0x00, 0x00, 0x00, 0x01, 0x22], rom_size := 8\<rparr>"

definition sample_cart_runtime :: runtime where
  "sample_cart_runtime =
     runtime_init\<lparr>program_rom := Some (rom_data sample_cart), program_rom_size := 8\<rparr>"

theorem recompiler_and_runtime_read_the_same_rom_witness:
  "ng68k_read32 4 sample_cart_runtime = (ng_program_rom_read32 (cart_map sample_cart) 4, sample_cart_runtime)"
proof -
  have "\<forall>k<4. in_cart_window (4 + of_nat k)"
    using low_cart_window [of "4 + k" for k] by (auto simp: add.commute)
  moreover have "program_rom sample_cart_runtime = Some (rom_data sample_cart)"
    "program_rom_size sample_cart_runtime = rom_size sample_cart"
    "bios_vectors_enabled (latch sample_cart_runtime) = 0"
    by (simp_all add: sample_cart_runtime_def sample_cart_def runtime_init_def latch_zero_def)
  ultimately show ?thesis
    using recompiler_and_runtime_read_the_same_rom [of sample_cart_runtime sample_cart 4] by blast
qed

lemma vectors_agree:
  assumes "cart_inserted rom s"
  shows "ng68k_read32 0 s = (ng_program_rom_initial_ssp (cart_map rom), s)"
    and "ng68k_read32 4 s = (ng_program_rom_initial_pc (cart_map rom), s)"
proof -
  have "\<forall>k<4. in_cart_window (0 + of_nat k)" "\<forall>k<4. in_cart_window (4 + of_nat k)"
    using low_cart_window low_cart_window [of "4 + k" for k] by (auto simp: add.commute)
  then show "ng68k_read32 0 s = (ng_program_rom_initial_ssp (cart_map rom), s)"
    "ng68k_read32 4 s = (ng_program_rom_initial_pc (cart_map rom), s)"
    using cart_long_agrees(2) [OF assms]
    by (simp_all add: ng_program_rom_initial_ssp_def ng_program_rom_initial_pc_def)
qed

text \<open>
  C38 (functional): a watchdog reset without configured vectors, while no BIOS vectors are mapped in, restarts the program
  at the entry the recompiler reports: the reset is delivered once, with the low 24 bits of the ROM's initial program
  counter and its initial stack pointer, and clears every pending interrupt. (The vectors are read before BIOS vectors
  are mapped out, so with BIOS vectors mapped in the reset would deliver those.)
\<close>

theorem watchdog_reset_enters_the_rom:
  assumes "program_rom s = Some (rom_data rom)" and "program_rom_size s = rom_size rom"
    and "bios_vectors_enabled (latch s) = 0"
    and "reset_pending (watchdog s) \<noteq> 0" and "reset_pc (watchdog s) = 0" and "reset_ssp (watchdog s) = 0"
  shows "fst (ng_m68k_take_reset s) =
      Some (ng_program_rom_initial_pc (cart_map rom) AND 0x00FFFFFF, ng_program_rom_initial_ssp (cart_map rom)) \<and>
    reset_pending (watchdog (snd (ng_m68k_take_reset s))) = 0 \<and>
    irq_pending (irq (snd (ng_m68k_take_reset s))) = 0 \<and>
    fst (ng_m68k_take_reset (snd (ng_m68k_take_reset s))) = None"
proof -
  have "cart_inserted rom (watchdog_update f s)" for f
    using assms(1-3) by simp
  note v = this [THEN vectors_agree(1)] this [THEN vectors_agree(2)]
  show ?thesis
    using assms(4-6) by (simp add: ng_m68k_take_reset_def Let_def v ng_m68k_clear_interrupt_level_def)
qed

theorem watchdog_reset_enters_the_rom_witness:
  "fst (ng_m68k_take_reset (sample_cart_runtime\<lparr>watchdog := watchdog_zero\<lparr>reset_pending := 1\<rparr>\<rparr>)) =
     Some (ng_program_rom_initial_pc (cart_map sample_cart) AND 0x00FFFFFF,
           ng_program_rom_initial_ssp (cart_map sample_cart))"
proof -
  let ?s = "sample_cart_runtime\<lparr>watchdog := watchdog_zero\<lparr>reset_pending := 1\<rparr>\<rparr>"
  have "program_rom ?s = Some (rom_data sample_cart)" "program_rom_size ?s = rom_size sample_cart"
    "bios_vectors_enabled (latch ?s) = 0" "reset_pending (watchdog ?s) \<noteq> 0"
    "reset_pc (watchdog ?s) = 0" "reset_ssp (watchdog ?s) = 0"
    by (simp_all add: sample_cart_runtime_def sample_cart_def runtime_init_def latch_zero_def watchdog_zero_def)
  from watchdog_reset_enters_the_rom [OF this] show ?thesis by simp
qed

end
